(* ===== verification/Py_Base.thy ===== *)
theory Py_Base
  imports Main
begin

text \<open>
  The prelude of the development: the values and the errors of the modelled Python.

  \<^item> \<open>json\<close> is what \<open>json.loads\<close> (and \<open>yaml.safe_load\<close>, on the documents used here)
    returns: a dict keeps its insertion order and has string keys.  A float is kept as its
    shortest decimal representation \<open>m * 10 ^ e\<close>, as \<open>repr\<close> prints it.
  \<^item> \<open>py_error\<close> are the exceptions; a fallible computation returns \<open>py_error + 'a\<close>.
    The texts of the messages are kept in a shortened form: no control flow reads them.
  \<^item> Strings are lists of code points up to 255.
  \<^item> The operators on \<open>json res\<close> mirror Python's expressions, with the exception each
    of them raises: \<open>dget e k d\<close> is \<open>e.get(k, d)\<close>, \<open>sub e k\<close> is \<open>e[k]\<close>,
    \<open>has e k\<close> is \<open>k in e\<close>; \<open>conjr\<close> and \<open>disjr\<close> evaluate from the left and stop early.
\<close>

named_theorems py_ok \<open>inversion of successful runs\<close>
named_theorems py_eval \<open>evaluation of the Python operators\<close>

section \<open>Errors\<close>

datatype py_error =
    MigrationError string
  | DatabaseAuthError string
  | ValueError string
  | TypeError
  | KeyError
  | AttributeError
  | IndexError
  | StopIteration
  | OverflowError
  | OSError string
  | RuntimeError string

type_synonym 'a res = "py_error + 'a"

abbreviation val :: "'a \<Rightarrow> 'a res" where
  "val x \<equiv> Inr x"

text \<open>\<open>except ValueError\<close> also catches \<open>MigrationError\<close>, its subclass.\<close>

fun is_value_error :: "py_error \<Rightarrow> bool" where
  "is_value_error (MigrationError m) = True"
| "is_value_error (ValueError m) = True"
| "is_value_error _ = False"

fun bindr :: "'a res \<Rightarrow> ('a \<Rightarrow> 'b res) \<Rightarrow> 'b res" where
  "bindr (Inl e) f = Inl e"
| "bindr (Inr x) f = f x"

fun mapr :: "('a \<Rightarrow> 'b) \<Rightarrow> 'a res \<Rightarrow> 'b res" where
  "mapr f (Inl e) = Inl e"
| "mapr f (Inr x) = Inr (f x)"

text \<open>\<open>require(condition, message)\<close> followed by the rest of the function.\<close>

fun check :: "bool res \<Rightarrow> string \<Rightarrow> 'a res \<Rightarrow> 'a res" where
  "check (Inl e) msg k = Inl e"
| "check (Inr b) msg k = (if b then k else Inl (MigrationError msg))"

text \<open>\<open>if condition: raise DatabaseAuthError(message)\<close> followed by the rest.\<close>

fun raise_if :: "bool res \<Rightarrow> string \<Rightarrow> 'a res \<Rightarrow> 'a res" where
  "raise_if (Inl e) msg k = Inl e"
| "raise_if (Inr b) msg k = (if b then Inl (DatabaseAuthError msg) else k)"

fun ifr :: "bool res \<Rightarrow> 'a res \<Rightarrow> 'a res \<Rightarrow> 'a res" where
  "ifr (Inl e) a b = Inl e"
| "ifr (Inr c) a b = (if c then a else b)"

fun conjr :: "bool res \<Rightarrow> bool res \<Rightarrow> bool res" where
  "conjr (Inl e) b = Inl e"
| "conjr (Inr x) b = (if x then b else Inr False)"

fun disjr :: "bool res \<Rightarrow> bool res \<Rightarrow> bool res" where
  "disjr (Inl e) b = Inl e"
| "disjr (Inr x) b = (if x then Inr True else b)"

definition negr :: "bool res \<Rightarrow> bool res" where
  "negr b = mapr Not b"

text \<open>\<open>try: m except ValueError: raise MigrationError(msg)\<close>\<close>

fun catch_value_error :: "'a res \<Rightarrow> string \<Rightarrow> 'a res" where
  "catch_value_error (Inl e) msg =
     (if is_value_error e then Inl (MigrationError msg) else Inl e)"
| "catch_value_error (Inr x) msg = Inr x"

text \<open>
  The simplifier decides a condition before it looks at the branches: only conditions that
  are already \<open>True\<close> or \<open>False\<close> unfold, any other one is left to the inversion rules.
\<close>

declare check.simps(2) [simp del] raise_if.simps(2) [simp del] ifr.simps(2) [simp del]
  conjr.simps(2) [simp del] disjr.simps(2) [simp del]

lemma guard_eval [py_eval, simp]:
  "check (Inr True) msg k = k"
  "check (Inr False) msg k = Inl (MigrationError msg)"
  "raise_if (Inr False) msg k = k"
  "raise_if (Inr True) msg k = Inl (DatabaseAuthError msg)"
  "ifr (Inr True) a b = a"
  "ifr (Inr False) a b = b"
  "conjr (Inr True) c = c"
  "conjr (Inr False) c = Inr False"
  "disjr (Inr True) c = Inr True"
  "disjr (Inr False) c = c"
  by (simp_all add: check.simps raise_if.simps ifr.simps conjr.simps disjr.simps)

lemmas guard_simps = check.simps raise_if.simps ifr.simps conjr.simps disjr.simps

lemma bindr_ok [py_ok]: "bindr m f = Inr y \<longleftrightarrow> (\<exists>x. m = Inr x \<and> f x = Inr y)"
  by (cases m) auto

lemma mapr_ok [py_ok]: "mapr f m = Inr y \<longleftrightarrow> (\<exists>x. m = Inr x \<and> y = f x)"
  by (cases m) auto

lemma check_ok [py_ok]: "check c msg k = Inr y \<longleftrightarrow> c = Inr True \<and> k = Inr y"
  by (cases c) (auto simp: guard_simps)

lemma raise_if_ok [py_ok]: "raise_if c msg k = Inr y \<longleftrightarrow> c = Inr False \<and> k = Inr y"
  by (cases c) (auto simp: guard_simps)

lemma conjr_ok [py_ok]: "conjr a b = Inr True \<longleftrightarrow> a = Inr True \<and> b = Inr True"
  by (cases a) (auto simp: guard_simps)

lemma disjr_ok [py_ok]:
  "disjr a b = Inr True \<longleftrightarrow> a = Inr True \<or> (a = Inr False \<and> b = Inr True)"
  by (cases a) (auto simp: guard_simps)

lemma disjr_no [py_ok]: "disjr a b = Inr False \<longleftrightarrow> a = Inr False \<and> b = Inr False"
  by (cases a) (auto simp: guard_simps)

lemma negr_ok [py_ok]: "negr a = Inr b \<longleftrightarrow> a = Inr (\<not> b)"
  by (cases a) (auto simp: negr_def)

lemma ifr_ok [py_ok]:
  "ifr c a b = Inr y \<longleftrightarrow> (c = Inr True \<and> a = Inr y) \<or> (c = Inr False \<and> b = Inr y)"
  by (cases c) (auto simp: guard_simps)

lemma catch_value_error_ok [py_ok]: "catch_value_error m msg = Inr y \<longleftrightarrow> m = Inr y"
  by (cases m) auto

lemma negr_val [py_eval, simp]: "negr (Inr b) = Inr (\<not> b)"
  by (simp add: negr_def)

lemma check_Inl_MigrationError:
  "c = Inr False \<Longrightarrow> check c msg k = Inl (MigrationError msg)"
  by simp

text \<open>A failed \<open>require\<close> never lets the rest of the function decide the result.\<close>

lemma check_mono: "check c msg k = Inr y \<Longrightarrow> k = Inr y"
  by (simp add: check_ok)

section \<open>Loops over lists\<close>

primrec map_res :: "('a \<Rightarrow> 'b res) \<Rightarrow> 'a list \<Rightarrow> 'b list res" where
  "map_res f [] = Inr []"
| "map_res f (x # xs) = bindr (f x) (\<lambda>y. bindr (map_res f xs) (\<lambda>ys. Inr (y # ys)))"

primrec all_res :: "('a \<Rightarrow> bool res) \<Rightarrow> 'a list \<Rightarrow> bool res" where
  "all_res f [] = Inr True"
| "all_res f (x # xs) = conjr (f x) (all_res f xs)"

primrec any_res :: "('a \<Rightarrow> bool res) \<Rightarrow> 'a list \<Rightarrow> bool res" where
  "any_res f [] = Inr False"
| "any_res f (x # xs) = disjr (f x) (any_res f xs)"

primrec fold_res :: "('a \<Rightarrow> 'b \<Rightarrow> 'b res) \<Rightarrow> 'a list \<Rightarrow> 'b \<Rightarrow> 'b res" where
  "fold_res f [] s = Inr s"
| "fold_res f (x # xs) s = bindr (f x s) (fold_res f xs)"

primrec filter_res :: "('a \<Rightarrow> bool res) \<Rightarrow> 'a list \<Rightarrow> 'a list res" where
  "filter_res f [] = Inr []"
| "filter_res f (x # xs) =
     bindr (f x) (\<lambda>b. bindr (filter_res f xs) (\<lambda>ys. Inr (if b then x # ys else ys)))"

text \<open>A loop of \<open>require\<close> statements, and a statement followed by the rest.\<close>

primrec each :: "('a \<Rightarrow> unit res) \<Rightarrow> 'a list \<Rightarrow> unit res" where
  "each f [] = Inr ()"
| "each f (x # xs) = bindr (f x) (\<lambda>_. each f xs)"

definition seqr :: "unit res \<Rightarrow> 'a res \<Rightarrow> 'a res" where
  "seqr a k = bindr a (\<lambda>_. k)"

definition whenr :: "bool \<Rightarrow> unit res \<Rightarrow> unit res" where
  "whenr b a = (if b then a else Inr ())"

lemma each_ok [py_ok]: "each f xs = Inr u \<longleftrightarrow> (\<forall>x \<in> set xs. f x = Inr ())"
  by (induction xs) (auto simp: bindr_ok)

lemma seqr_ok [py_ok]: "seqr a k = Inr y \<longleftrightarrow> a = Inr () \<and> k = Inr y"
  by (simp add: seqr_def bindr_ok)

lemma seqr_val [py_eval, simp]: "seqr (Inr u) k = k" "seqr (Inl e) k = Inl e"
  by (simp_all add: seqr_def)

lemma whenr_ok [py_ok]: "whenr b a = Inr u \<longleftrightarrow> (b \<longrightarrow> a = Inr ())"
  by (simp add: whenr_def)

lemma map_res_ok [py_ok]:
  "map_res f xs = Inr ys \<longleftrightarrow> list_all2 (\<lambda>x y. f x = Inr y) xs ys"
  by (induction xs arbitrary: ys) (auto simp: bindr_ok list_all2_Cons1)

lemma map_res_length: "map_res f xs = Inr ys \<Longrightarrow> length ys = length xs"
  by (simp add: map_res_ok list_all2_lengthD)

lemma all_res_ok [py_ok]: "all_res f xs = Inr True \<longleftrightarrow> (\<forall>x \<in> set xs. f x = Inr True)"
  by (induction xs) (auto simp: conjr_ok)

lemma any_res_no [py_ok]: "any_res f xs = Inr False \<longleftrightarrow> (\<forall>x \<in> set xs. f x = Inr False)"
  by (induction xs) (auto simp: disjr_no)

lemma any_res_pure: "any_res (\<lambda>x. Inr (p x)) xs = Inr (\<exists>x \<in> set xs. p x)"
  by (induction xs) (auto simp: guard_simps)

lemma all_res_pure: "all_res (\<lambda>x. Inr (p x)) xs = Inr (\<forall>x \<in> set xs. p x)"
  by (induction xs) (auto simp: guard_simps)

lemma filter_res_pure: "filter_res (\<lambda>x. Inr (p x)) xs = Inr (filter p xs)"
  by (induction xs) auto

lemma filter_res_ok:
  "filter_res f xs = Inr ys \<Longrightarrow> ys = filter (\<lambda>x. f x = Inr True) xs \<and> (\<forall>x \<in> set xs. \<exists>b. f x = Inr b)"
  by (induction xs arbitrary: ys) (auto simp: bindr_ok split: if_splits)

text \<open>The invariant rule of a loop that may raise.\<close>

lemma fold_res_invariant:
  assumes "fold_res f xs s = Inr t" and "P s"
    and "\<And>x s s'. x \<in> set xs \<Longrightarrow> P s \<Longrightarrow> f x s = Inr s' \<Longrightarrow> P s'"
  shows "P t"
  using assms by (induction xs arbitrary: s) (auto simp: bindr_ok)

section \<open>JSON values\<close>

datatype json =
    JNull
  | JBool bool
  | JInt int
  | JFloat int int
  | JNonFinite
  | JStr string
  | JList "json list"
  | JObj "(string \<times> json) list"

type_synonym obj = "(string \<times> json) list"

fun is_dict :: "json \<Rightarrow> bool" where
  "is_dict (JObj kv) = True"
| "is_dict _ = False"

fun is_list :: "json \<Rightarrow> bool" where
  "is_list (JList xs) = True"
| "is_list _ = False"

fun is_str :: "json \<Rightarrow> bool" where
  "is_str (JStr s) = True"
| "is_str _ = False"

text \<open>\<open>type(x) is int\<close>: a bool is no int here.\<close>

fun is_int :: "json \<Rightarrow> bool" where
  "is_int (JInt i) = True"
| "is_int _ = False"

fun is_bool :: "json \<Rightarrow> bool" where
  "is_bool (JBool b) = True"
| "is_bool _ = False"

lemma is_dict_iff: "is_dict v \<longleftrightarrow> (\<exists>kv. v = JObj kv)" by (cases v) auto
lemma is_list_iff: "is_list v \<longleftrightarrow> (\<exists>xs. v = JList xs)" by (cases v) auto
lemma is_str_iff: "is_str v \<longleftrightarrow> (\<exists>s. v = JStr s)" by (cases v) auto
lemma is_int_iff: "is_int v \<longleftrightarrow> (\<exists>i. v = JInt i)" by (cases v) auto
lemma is_bool_iff: "is_bool v \<longleftrightarrow> (\<exists>b. v = JBool b)" by (cases v) auto

lemmas json_kind_iffs = is_dict_iff is_list_iff is_str_iff is_int_iff is_bool_iff

text \<open>\<open>bool(v)\<close>\<close>

fun truth :: "json \<Rightarrow> bool" where
  "truth JNull = False"
| "truth (JBool b) = b"
| "truth (JInt i) = (i \<noteq> 0)"
| "truth (JFloat m e) = (m \<noteq> 0)"
| "truth JNonFinite = True"
| "truth (JStr s) = (s \<noteq> [])"
| "truth (JList xs) = (xs \<noteq> [])"
| "truth (JObj kv) = (kv \<noteq> [])"


section \<open>Dictionaries\<close>

definition keys_of :: "obj \<Rightarrow> string list" where
  "keys_of kv = map fst kv"

definition lookup_or :: "obj \<Rightarrow> string \<Rightarrow> json \<Rightarrow> json" where
  "lookup_or kv k d = (case map_of kv k of None \<Rightarrow> d | Some v \<Rightarrow> v)"

text \<open>\<open>d[k] = v\<close> keeps the position of an existing key and appends a new one.\<close>

primrec dict_set :: "obj \<Rightarrow> string \<Rightarrow> json \<Rightarrow> obj" where
  "dict_set [] k v = [(k, v)]"
| "dict_set (p # ps) k v = (if fst p = k then (k, v) # ps else p # dict_set ps k v)"

definition dict_pop :: "obj \<Rightarrow> string \<Rightarrow> obj" where
  "dict_pop kv k = filter (\<lambda>p. fst p \<noteq> k) kv"

definition dict_update :: "obj \<Rightarrow> obj \<Rightarrow> obj" where
  "dict_update kv kv' = fold (\<lambda>p acc. dict_set acc (fst p) (snd p)) kv' kv"

lemma map_of_dict_set [simp]: "map_of (dict_set kv k v) = (map_of kv)(k \<mapsto> v)"
  by (induction kv) (auto simp: fun_eq_iff)

lemma set_keys_dict_set [simp]: "set (keys_of (dict_set kv k v)) = insert k (set (keys_of kv))"
  by (induction kv) (auto simp: keys_of_def)

lemma distinct_dict_set: "distinct (keys_of kv) \<Longrightarrow> distinct (keys_of (dict_set kv k v))"
proof (induction kv)
  case Nil
  then show ?case by (simp add: keys_of_def)
next
  case (Cons p ps)
  then show ?case
    using set_keys_dict_set [of ps k v] by (auto simp: keys_of_def)
qed

lemma map_of_dict_pop [simp]: "map_of (dict_pop kv k) = (map_of kv)(k := None)"
  by (induction kv) (auto simp: dict_pop_def fun_eq_iff)

lemma set_keys_dict_pop [simp]: "set (keys_of (dict_pop kv k)) = set (keys_of kv) - {k}"
  by (induction kv) (auto simp: dict_pop_def keys_of_def)

lemma distinct_dict_pop: "distinct (keys_of kv) \<Longrightarrow> distinct (keys_of (dict_pop kv k))"
  by (induction kv) (auto simp: dict_pop_def keys_of_def)

lemma distinct_dict_update: "distinct (keys_of kv) \<Longrightarrow> distinct (keys_of (dict_update kv kv'))"
  unfolding dict_update_def by (induction kv' arbitrary: kv) (auto intro: distinct_dict_set)

lemma map_of_dict_update:
  "distinct (keys_of kv') \<Longrightarrow> map_of (dict_update kv kv') = map_of kv ++ map_of kv'"
proof (induction kv' arbitrary: kv)
  case Nil
  then show ?case by (simp add: dict_update_def)
next
  case (Cons p ps)
  from Cons.prems have d: "distinct (keys_of ps)" and n: "fst p \<notin> set (keys_of ps)"
    by (auto simp: keys_of_def)
  from n have nn: "map_of ps (fst p) = None"
    by (simp add: keys_of_def map_of_eq_None_iff)
  have "map_of (dict_update kv (p # ps)) = map_of (dict_update (dict_set kv (fst p) (snd p)) ps)"
    by (simp add: dict_update_def)
  also have "\<dots> = (map_of kv)(fst p \<mapsto> snd p) ++ map_of ps"
    by (simp add: Cons.IH [OF d] fun_upd_def)
  also have "\<dots> = map_of kv ++ map_of (p # ps)"
    using nn by (cases p) (simp add: map_add_upd_left domIff)
  finally show ?case .
qed

lemma keys_of_iff: "k \<in> set (keys_of kv) \<longleftrightarrow> map_of kv k \<noteq> None"
  by (simp add: keys_of_def map_of_eq_None_iff)

lemma keys_of_Nil [simp]: "keys_of [] = []"
  by (simp add: keys_of_def)

lemma keys_of_Cons [simp]: "keys_of (p # ps) = fst p # keys_of ps"
  by (simp add: keys_of_def)

lemma lookup_or_Nil [simp]: "lookup_or [] k d = d"
  by (simp add: lookup_or_def)

lemma lookup_or_Cons [simp]:
  "lookup_or ((k', v) # kv) k d = (if k = k' then v else lookup_or kv k d)"
  by (simp add: lookup_or_def)

lemma lookup_or_dict_set [simp]:
  "lookup_or (dict_set kv k v) k' d = (if k' = k then v else lookup_or kv k' d)"
  by (simp add: lookup_or_def)

lemma lookup_or_dict_pop [simp]:
  "lookup_or (dict_pop kv k) k' d = (if k' = k then d else lookup_or kv k' d)"
  by (simp add: lookup_or_def)

lemma dict_set_twice [simp]: "dict_set (dict_set kv k v) k w = dict_set kv k w"
  by (induction kv) auto

lemma dict_set_same [simp]: "map_of kv k = Some v \<Longrightarrow> dict_set kv k v = kv"
  by (induction kv) (auto split: if_splits)

lemma dict_pop_absent [simp]: "map_of kv k = None \<Longrightarrow> dict_pop kv k = kv"
  by (auto simp: dict_pop_def map_of_eq_None_iff filter_id_conv)

lemma dict_pop_set [simp]: "map_of kv k = None \<Longrightarrow> dict_pop (dict_set kv k v) k = kv"
  by (induction kv) (auto simp: dict_pop_def split: if_splits)

lemma set_dict_set: "set (dict_set kv k v) \<subseteq> insert (k, v) (set kv)"
  by (induction kv) auto

section \<open>Equality\<close>

text \<open>
  Python compares numbers by value across \<open>bool\<close>, \<open>int\<close> and \<open>float\<close>, and dicts without
  their order.
\<close>

fun number_of :: "json \<Rightarrow> (int \<times> int) option" where
  "number_of (JBool b) = Some (if b then 1 else 0, 0)"
| "number_of (JInt i) = Some (i, 0)"
| "number_of (JFloat m e) = Some (m, e)"
| "number_of _ = None"

definition num_le :: "int \<times> int \<Rightarrow> int \<times> int \<Rightarrow> bool" where
  "num_le p q =
     (let k = min (snd p) (snd q)
      in fst p * 10 ^ nat (snd p - k) \<le> fst q * 10 ^ nat (snd q - k))"

definition num_eq :: "int \<times> int \<Rightarrow> int \<times> int \<Rightarrow> bool" where
  "num_eq p q \<longleftrightarrow> num_le p q \<and> num_le q p"

fun num_equal :: "json \<Rightarrow> json \<Rightarrow> bool" where
  "num_equal v w =
     (case (number_of v, number_of w) of (Some p, Some q) \<Rightarrow> num_eq p q | _ \<Rightarrow> False)"

lemma num_eq_int [simp]: "num_eq (i, 0) (j, 0) \<longleftrightarrow> i = j"
  by (auto simp: num_eq_def num_le_def)

lemma num_le_int [simp]: "num_le (i, 0) (j, 0) \<longleftrightarrow> i \<le> j"
  by (simp add: num_le_def)

lemma num_eq_refl [simp]: "num_eq p p"
  by (simp add: num_eq_def num_le_def)

lemma size_in_list [termination_simp]: "x \<in> set xs \<Longrightarrow> size x < Suc (size_list size xs)"
  by (induction xs) auto

lemma size_in_zip [termination_simp]:
  "(x, y) \<in> set (zip xs ys) \<Longrightarrow> size x < Suc (size_list size xs)"
  by (auto dest: set_zip_leftD size_in_list)

lemma size_in_obj [termination_simp]:
  "(k, v) \<in> set kv \<Longrightarrow> size v < Suc (size_list (\<lambda>p. Suc (size (snd p))) kv)"
  by (induction kv) auto

fun py_eq :: "json \<Rightarrow> json \<Rightarrow> bool" where
  "py_eq JNull w = (w = JNull)"
| "py_eq (JStr s) w = (w = JStr s)"
| "py_eq JNonFinite w = False"
| "py_eq (JBool b) w = num_equal (JBool b) w"
| "py_eq (JInt i) w = num_equal (JInt i) w"
| "py_eq (JFloat m e) w = num_equal (JFloat m e) w"
| "py_eq (JList xs) (JList ys) =
     (length xs = length ys \<and> list_all (\<lambda>(x, y). py_eq x y) (zip xs ys))"
| "py_eq (JObj kv) (JObj kv') =
     (length kv = length kv' \<and>
      list_all (\<lambda>(k, v). case map_of kv' k of None \<Rightarrow> False | Some w \<Rightarrow> py_eq v w) kv)"
| "py_eq _ _ = False"

lemma py_eq_str [simp]: "py_eq v (JStr s) \<longleftrightarrow> v = JStr s"
  by (cases v) auto

lemma py_eq_null [simp]: "py_eq v JNull \<longleftrightarrow> v = JNull"
  by (cases v) auto

lemma py_eq_int_int [simp]: "py_eq (JInt i) (JInt j) \<longleftrightarrow> i = j"
  by simp

text \<open>Values that \<open>json.loads\<close> can return without \<open>NaN\<close>: no key twice in a dict.\<close>

fun wf_json :: "json \<Rightarrow> bool" where
  "wf_json (JList xs) = list_all wf_json xs"
| "wf_json (JObj kv) = (distinct (map fst kv) \<and> list_all (\<lambda>(k, v). wf_json v) kv)"
| "wf_json JNonFinite = False"
| "wf_json _ = True"

lemma py_eq_refl: "wf_json v \<Longrightarrow> py_eq v v"
proof (induction v rule: wf_json.induct)
  case (1 xs)
  then show ?case
    by (auto simp: list_all_iff zip_same_conv_map)
next
  case (2 kv)
  have "py_eq v v" if "(k, v) \<in> set kv" for k v
    using "2.IH" [OF that refl] "2.prems" that by (auto simp: list_all_iff)
  with "2.prems" show ?case
    by (auto simp: list_all_iff)
qed auto

section \<open>Expressions\<close>

fun dget :: "json res \<Rightarrow> string \<Rightarrow> json \<Rightarrow> json res" where
  "dget (Inr (JObj kv)) k d = Inr (lookup_or kv k d)"
| "dget (Inr _) k d = Inl AttributeError"
| "dget (Inl e) k d = Inl e"

abbreviation dget0 :: "json res \<Rightarrow> string \<Rightarrow> json res" where
  "dget0 e k \<equiv> dget e k JNull"

abbreviation dgetO :: "json res \<Rightarrow> string \<Rightarrow> json res" where
  "dgetO e k \<equiv> dget e k (JObj [])"

fun sub :: "json res \<Rightarrow> string \<Rightarrow> json res" where
  "sub (Inr (JObj kv)) k = (case map_of kv k of None \<Rightarrow> Inl KeyError | Some v \<Rightarrow> Inr v)"
| "sub (Inr _) k = Inl TypeError"
| "sub (Inl e) k = Inl e"

fun is_substring :: "string \<Rightarrow> string \<Rightarrow> bool" where
  "is_substring p [] = (p = [])"
| "is_substring p (c # cs) = (take (length p) (c # cs) = p \<or> is_substring p cs)"

fun has :: "json res \<Rightarrow> string \<Rightarrow> bool res" where
  "has (Inr (JObj kv)) k = Inr (k \<in> set (keys_of kv))"
| "has (Inr (JList xs)) k = Inr (JStr k \<in> set xs)"
| "has (Inr (JStr s)) k = Inr (is_substring k s)"
| "has (Inr _) k = Inl TypeError"
| "has (Inl e) k = Inl e"

definition eqr :: "json res \<Rightarrow> json res \<Rightarrow> bool res" where
  "eqr a b = bindr a (\<lambda>x. bindr b (\<lambda>y. Inr (py_eq x y)))"

definition eqs :: "json res \<Rightarrow> string \<Rightarrow> bool res" where
  "eqs a s = mapr (\<lambda>x. x = JStr s) a"

definition testr :: "(json \<Rightarrow> bool) \<Rightarrow> json res \<Rightarrow> bool res" where
  "testr p a = mapr p a"

text \<open>\<open>if condition: raise ValueError(message)\<close> followed by the rest.\<close>

definition reject :: "bool res \<Rightarrow> string \<Rightarrow> 'a res \<Rightarrow> 'a res" where
  "reject c msg k = bindr c (\<lambda>b. if b then Inl (ValueError msg) else k)"

lemma reject_ok [py_ok]: "reject c msg k = Inr v \<longleftrightarrow> c = Inr False \<and> k = Inr v"
  by (auto simp: reject_def bindr_ok)

lemma reject_eval [py_eval, simp]:
  "reject (Inr True) msg k = Inl (ValueError msg)"
  "reject (Inr False) msg k = k"
  "reject (Inl e) msg k = Inl e"
  by (simp_all add: reject_def)

text \<open>\<open>len(set(xs)) == len(xs)\<close> of hashable values.\<close>

fun no_repeats :: "json list \<Rightarrow> bool" where
  "no_repeats [] = True"
| "no_repeats (x # xs) = (\<not> list_ex (py_eq x) xs \<and> no_repeats xs)"

lemma no_repeats_strs [simp]: "no_repeats (map JStr ss) = distinct ss"
  by (induction ss) (auto simp: list_ex_iff)

text \<open>\<open>next((x for x in xs if p(x)), None)\<close>\<close>

primrec find_res :: "('a \<Rightarrow> bool res) \<Rightarrow> 'a list \<Rightarrow> 'a option res" where
  "find_res p [] = Inr None"
| "find_res p (x # xs) = bindr (p x) (\<lambda>b. if b then Inr (Some x) else find_res p xs)"

lemma find_res_Some: "find_res p xs = Inr (Some x) \<Longrightarrow> x \<in> set xs \<and> p x = Inr True"
  by (induction xs) (auto simp: bindr_ok split: if_splits)

lemma find_res_None: "find_res p xs = Inr None \<Longrightarrow> x \<in> set xs \<Longrightarrow> p x = Inr False"
  by (induction xs) (auto simp: bindr_ok split: if_splits)

text \<open>\<open>e in {s1, s2, ...}\<close>: a list or a dict is not hashable.\<close>

fun hashable :: "json \<Rightarrow> bool" where
  "hashable (JList xs) = False"
| "hashable (JObj kv) = False"
| "hashable _ = True"

definition in_strs :: "json res \<Rightarrow> string list \<Rightarrow> bool res" where
  "in_strs a ss =
     bindr a (\<lambda>x. if hashable x then Inr (x \<in> JStr ` set ss) else Inl TypeError)"

text \<open>\<open>for x in e\<close>\<close>

fun iter :: "json res \<Rightarrow> json list res" where
  "iter (Inr (JList xs)) = Inr xs"
| "iter (Inr (JObj kv)) = Inr (map JStr (keys_of kv))"
| "iter (Inr (JStr s)) = Inr (map (\<lambda>c. JStr [c]) s)"
| "iter (Inr _) = Inl TypeError"
| "iter (Inl e) = Inl e"

text \<open>\<open>e.items()\<close>, \<open>e.keys()\<close>\<close>

fun items :: "json res \<Rightarrow> obj res" where
  "items (Inr (JObj kv)) = Inr kv"
| "items (Inr _) = Inl AttributeError"
| "items (Inl e) = Inl e"

text \<open>\<open>set(e) == {...}\<close>, \<open>not set(e) - {...}\<close> and \<open>{...} <= set(e)\<close> of a dict.\<close>

definition keys_are :: "string list \<Rightarrow> json \<Rightarrow> bool" where
  "keys_are ks v = (case v of JObj kv \<Rightarrow> set (keys_of kv) = set ks | _ \<Rightarrow> False)"

definition keys_within :: "string list \<Rightarrow> json \<Rightarrow> bool" where
  "keys_within ks v = (case v of JObj kv \<Rightarrow> set (keys_of kv) \<subseteq> set ks | _ \<Rightarrow> False)"

text \<open>\<open>set(xs) == {...}\<close> of any iterable: every element has to be hashable.\<close>

definition set_is :: "string list \<Rightarrow> json list \<Rightarrow> bool res" where
  "set_is names xs =
     (if list_all hashable xs then Inr (set xs = JStr ` set names) else Inl TypeError)"

lemma set_is_ok: "set_is names xs = Inr b \<longleftrightarrow> list_all hashable xs \<and> b = (set xs = JStr ` set names)"
  by (auto simp: set_is_def)

fun str_of :: "json res \<Rightarrow> string res" where
  "str_of (Inr (JStr s)) = Inr s"
| "str_of (Inr _) = Inl AttributeError"
| "str_of (Inl e) = Inl e"

fun list_of :: "json res \<Rightarrow> json list res" where
  "list_of (Inr (JList xs)) = Inr xs"
| "list_of (Inr _) = Inl TypeError"
| "list_of (Inl e) = Inl e"

text \<open>\<open>type(v) in {int, float}\<close> and \<open>math.isfinite\<close>: a huge int overflows a float.\<close>

fun is_number :: "json \<Rightarrow> bool" where
  "is_number (JInt i) = True"
| "is_number (JFloat m e) = True"
| "is_number JNonFinite = True"
| "is_number _ = False"

fun finite_num :: "json \<Rightarrow> bool" where
  "finite_num (JInt i) = (\<bar>i\<bar> < 2 ^ 1024 - 2 ^ 970)"
| "finite_num (JFloat m e) = True"
| "finite_num _ = False"

text \<open>\<open>i <= v\<close> and \<open>v <= i\<close> for a finite number \<open>v\<close>.\<close>

definition int_le :: "int \<Rightarrow> json \<Rightarrow> bool" where
  "int_le i v = (case number_of v of None \<Rightarrow> False | Some p \<Rightarrow> num_le (i, 0) p)"

definition le_int :: "json \<Rightarrow> int \<Rightarrow> bool" where
  "le_int v i = (case number_of v of None \<Rightarrow> False | Some p \<Rightarrow> num_le p (i, 0))"

lemma int_le_int [simp]: "int_le i (JInt j) \<longleftrightarrow> i \<le> j"
  by (simp add: int_le_def)

lemma le_int_int [simp]: "le_int (JInt j) i \<longleftrightarrow> j \<le> i"
  by (simp add: le_int_def)

lemma dget_ok [py_ok]: "dget e k d = Inr v \<longleftrightarrow> (\<exists>kv. e = Inr (JObj kv) \<and> v = lookup_or kv k d)"
  by (cases "(e, k, d)" rule: dget.cases) auto

lemma sub_ok [py_ok]: "sub e k = Inr v \<longleftrightarrow> (\<exists>kv. e = Inr (JObj kv) \<and> map_of kv k = Some v)"
  by (cases "(e, k)" rule: sub.cases) (auto split: option.splits)

lemma eqs_ok [py_ok]: "eqs a s = Inr b \<longleftrightarrow> (\<exists>x. a = Inr x \<and> b = (x = JStr s))"
  by (auto simp: eqs_def mapr_ok)

lemma eqr_ok [py_ok]: "eqr a b = Inr c \<longleftrightarrow> (\<exists>x y. a = Inr x \<and> b = Inr y \<and> c = py_eq x y)"
  by (auto simp: eqr_def bindr_ok)

lemma testr_ok [py_ok]: "testr p a = Inr b \<longleftrightarrow> (\<exists>x. a = Inr x \<and> b = p x)"
  by (auto simp: testr_def mapr_ok)

lemma in_strs_ok [py_ok]:
  "in_strs a ss = Inr b \<longleftrightarrow> (\<exists>x. a = Inr x \<and> hashable x \<and> b = (x \<in> JStr ` set ss))"
  by (auto simp: in_strs_def bindr_ok)

lemma sub_dict_ok [simp]:
  "((case map_of kv k of None \<Rightarrow> Inl KeyError | Some x \<Rightarrow> Inr x) = Inr v) \<longleftrightarrow> map_of kv k = Some v"
  by (auto split: option.splits)

lemma items_ok [py_ok]: "items e = Inr kv \<longleftrightarrow> e = Inr (JObj kv)"
  by (cases e rule: items.cases) auto

lemma str_of_ok [py_ok]: "str_of e = Inr s \<longleftrightarrow> e = Inr (JStr s)"
  by (cases e rule: str_of.cases) auto

lemma list_of_ok [py_ok]: "list_of e = Inr xs \<longleftrightarrow> e = Inr (JList xs)"
  by (cases e rule: list_of.cases) auto

lemma has_dict [simp]: "has (Inr (JObj kv)) k = Inr (k \<in> set (keys_of kv))"
  by simp

lemma keys_are_ok [py_ok]: "keys_are ks v \<longleftrightarrow> (\<exists>kv. v = JObj kv \<and> set (keys_of kv) = set ks)"
  by (cases v) (auto simp: keys_are_def)

lemma keys_within_ok [py_ok]: "keys_within ks v \<longleftrightarrow> (\<exists>kv. v = JObj kv \<and> set (keys_of kv) \<subseteq> set ks)"
  by (cases v) (auto simp: keys_within_def)

lemma py_simps [py_eval, simp]:
  "eqs (Inr v) s = Inr (v = JStr s)"
  "eqr (Inr v) (Inr w) = Inr (py_eq v w)"
  "testr p (Inr v) = Inr (p v)"
  "eqs (Inl e) s = Inl e"
  "eqr (Inl e) b = Inl e"
  "testr p (Inl e) = Inl e"
  by (simp_all add: eqs_def eqr_def testr_def)


section \<open>Dicts whose keys are arbitrary hashable values\<close>

type_synonym keyed = "(json \<times> json) list"

fun jassoc :: "keyed \<Rightarrow> json \<Rightarrow> json option" where
  "jassoc [] k = None"
| "jassoc ((k', v) # r) k = (if py_eq k' k then Some v else jassoc r k)"

fun jassoc_set :: "keyed \<Rightarrow> json \<Rightarrow> json \<Rightarrow> keyed" where
  "jassoc_set [] k v = [(k, v)]"
| "jassoc_set ((k', w) # r) k v = (if py_eq k' k then (k', v) # r else (k', w) # jassoc_set r k v)"

text \<open>\<open>{item[field]: item for item in items}\<close>: of equal keys the last item wins.\<close>

definition index_by :: "string \<Rightarrow> json list \<Rightarrow> keyed res" where
  "index_by field entries =
     fold_res (\<lambda>c acc. bindr (sub (val c) field) (\<lambda>a.
       if hashable a then val (jassoc_set acc a c) else Inl TypeError)) entries []"

definition key_in :: "json res \<Rightarrow> keyed \<Rightarrow> bool res" where
  "key_in k d =
     bindr k (\<lambda>x. if hashable x then val (jassoc d x \<noteq> None) else Inl TypeError)"

definition key_sub :: "keyed \<Rightarrow> json res \<Rightarrow> json res" where
  "key_sub d k =
     bindr k (\<lambda>x. if \<not> hashable x then Inl TypeError
       else (case jassoc d x of None \<Rightarrow> Inl KeyError | Some v \<Rightarrow> val v))"

lemma jassoc_Some_mem: "jassoc d k = Some v \<Longrightarrow> \<exists>k'. (k', v) \<in> set d \<and> py_eq k' k"
  by (induction d k rule: jassoc.induct) (auto split: if_splits)

lemma set_jassoc_set: "snd ` set (jassoc_set d k v) \<subseteq> insert v (snd ` set d)"
  by (induction d k v rule: jassoc_set.induct) auto

lemma index_by_members: "index_by field xs = Inr d \<Longrightarrow> snd ` set d \<subseteq> set xs"
proof -
  assume "index_by field xs = Inr d"
  then show ?thesis
    unfolding index_by_def
    by (rule fold_res_invariant [where P = "\<lambda>acc. snd ` set acc \<subseteq> set xs"])
      (use set_jassoc_set in \<open>fastforce simp: bindr_ok split: if_splits\<close>)+
qed

lemma key_sub_ok [py_ok]:
  "key_sub d k = Inr v \<longleftrightarrow> (\<exists>x. k = Inr x \<and> hashable x \<and> jassoc d x = Some v)"
  by (auto simp: key_sub_def bindr_ok split: if_splits option.splits)

section \<open>Recursion on documents\<close>

lemma size_in_dict: "(k, v) \<in> set kv \<Longrightarrow> size v < size (JObj kv)"
  by (induction kv) auto

lemma map_res_cong [fundef_cong]:
  assumes "xs = ys" and "\<And>x. x \<in> set ys \<Longrightarrow> f x = g x"
  shows "map_res f xs = map_res g ys"
  unfolding assms(1) using assms(2) by (induction ys) auto

lemma each_cong [fundef_cong]:
  assumes "xs = ys" and "\<And>x. x \<in> set ys \<Longrightarrow> f x = g x"
  shows "each f xs = each g ys"
  unfolding assms(1) using assms(2) by (induction ys) auto

end
