(* ===== verification/Py_Text.thy ===== *)
theory Py_Text
  imports Py_Base "HOL-Library.Char_ord"
begin

text \<open>
  Strings: the methods of \<open>str\<close> the program calls, the regular expressions of \<open>re\<close>
  (matched by derivatives), \<open>uuid.UUID\<close> and the decimal and hexadecimal numerals.
\<close>

section \<open>Characters and string methods\<close>

definition code :: "char \<Rightarrow> nat" where
  "code c = of_char c"

definition between :: "nat \<Rightarrow> nat \<Rightarrow> char \<Rightarrow> bool" where
  "between a b c \<longleftrightarrow> a \<le> code c \<and> code c \<le> b"

definition is_digit :: "char \<Rightarrow> bool" where
  "is_digit c \<longleftrightarrow> between 48 57 c"

definition is_lower :: "char \<Rightarrow> bool" where
  "is_lower c \<longleftrightarrow> between 97 122 c"

definition is_upper :: "char \<Rightarrow> bool" where
  "is_upper c \<longleftrightarrow> between 65 90 c"

definition is_alnum :: "char \<Rightarrow> bool" where
  "is_alnum c \<longleftrightarrow> is_digit c \<or> is_lower c \<or> is_upper c"

definition is_hex_lower :: "char \<Rightarrow> bool" where
  "is_hex_lower c \<longleftrightarrow> is_digit c \<or> between 97 102 c"

text \<open>\<open>str.isspace\<close>, which is also \<open>\s\<close> of a \<open>str\<close> pattern and what \<open>str.strip\<close> removes.\<close>

definition is_space :: "char \<Rightarrow> bool" where
  "is_space c \<longleftrightarrow> between 9 13 c \<or> between 28 32 c \<or> code c = 133 \<or> code c = 160"

definition to_lower :: "char \<Rightarrow> char" where
  "to_lower c =
     (if between 65 90 c \<or> (between 192 222 c \<and> code c \<noteq> 215) then char_of (code c + 32) else c)"

text \<open>The same tests on the bits of a character, for evaluation.\<close>

definition letter_bits :: "bool \<Rightarrow> bool \<Rightarrow> bool \<Rightarrow> bool \<Rightarrow> bool \<Rightarrow> bool" where
  "letter_bits b0 b1 b2 b3 b4 \<longleftrightarrow> (b0 \<or> b1 \<or> b2 \<or> b3 \<or> b4) \<and> \<not> (b4 \<and> b3 \<and> (b2 \<or> b1 \<and> b0))"

lemma is_digit_Char [code]: "is_digit (Char b0 b1 b2 b3 b4 b5 b6 b7) \<longleftrightarrow> \<not> b7 \<and> \<not> b6 \<and> b5 \<and> b4 \<and> \<not> (b3 \<and> (b2 \<or> b1))"
  unfolding is_digit_def between_def code_def of_char_Char
  by (cases b0; cases b1; cases b2; cases b3; cases b4; cases b5; cases b6; cases b7; simp)

lemma is_lower_Char [code]: "is_lower (Char b0 b1 b2 b3 b4 b5 b6 b7) \<longleftrightarrow> \<not> b7 \<and> b6 \<and> b5 \<and> letter_bits b0 b1 b2 b3 b4"
  unfolding is_lower_def between_def code_def of_char_Char letter_bits_def
  by (cases b0; cases b1; cases b2; cases b3; cases b4; cases b5; cases b6; cases b7; simp)

lemma is_upper_Char [code]: "is_upper (Char b0 b1 b2 b3 b4 b5 b6 b7) \<longleftrightarrow> \<not> b7 \<and> b6 \<and> \<not> b5 \<and> letter_bits b0 b1 b2 b3 b4"
  unfolding is_upper_def between_def code_def of_char_Char letter_bits_def
  by (cases b0; cases b1; cases b2; cases b3; cases b4; cases b5; cases b6; cases b7; simp)

lemma is_hex_lower_Char [code]: "is_hex_lower (Char b0 b1 b2 b3 b4 b5 b6 b7) \<longleftrightarrow> \<not> b7 \<and> (if b6 then b5 \<and> \<not> b4 \<and> \<not> b3 \<and> (b0 \<or> b1 \<or> b2) \<and> \<not> (b0 \<and> b1 \<and> b2) else b5 \<and> b4 \<and> \<not> (b3 \<and> (b2 \<or> b1)))"
  unfolding is_hex_lower_def is_digit_def between_def code_def of_char_Char
  by (cases b0; cases b1; cases b2; cases b3; cases b4; cases b5; cases b6; cases b7; simp)

lemma to_lower_Char [code]: "to_lower (Char b0 b1 b2 b3 b4 b5 b6 b7) =
   (if b6 \<and> \<not> b5 \<and> (if b7 then \<not> (b0 \<and> b1 \<and> b2 \<and> b4) else letter_bits b0 b1 b2 b3 b4)
    then Char b0 b1 b2 b3 b4 True b6 b7 else Char b0 b1 b2 b3 b4 b5 b6 b7)"
  unfolding to_lower_def is_upper_def between_def code_def of_char_Char letter_bits_def
  by (cases b0; cases b1; cases b2; cases b3; cases b4; cases b5; cases b6; cases b7; simp add: char_of_def bit_iff_odd)

definition lower :: "string \<Rightarrow> string" where
  "lower s = map to_lower s"

definition strip :: "string \<Rightarrow> string" where
  "strip s = rev (dropWhile is_space (rev (dropWhile is_space s)))"

lemma strip_Nil [simp]: "strip [] = []"
  by (simp add: strip_def)

definition starts_with :: "string \<Rightarrow> string \<Rightarrow> bool" where
  "starts_with s p \<longleftrightarrow> take (length p) s = p"

definition ends_with :: "string \<Rightarrow> string \<Rightarrow> bool" where
  "ends_with s p \<longleftrightarrow> length p \<le> length s \<and> drop (length s - length p) s = p"

definition remove_prefix :: "string \<Rightarrow> string \<Rightarrow> string" where
  "remove_prefix s p = (if starts_with s p then drop (length p) s else s)"

definition remove_suffix :: "string \<Rightarrow> string \<Rightarrow> string" where
  "remove_suffix s p =
     (if p \<noteq> [] \<and> ends_with s p then take (length s - length p) s else s)"

text \<open>\<open>s.split(c)\<close> for one character.\<close>

fun split_on :: "char \<Rightarrow> string \<Rightarrow> string list" where
  "split_on d [] = [[]]"
| "split_on d (c # cs) =
     (if c = d then [] # split_on d cs
      else (case split_on d cs of [] \<Rightarrow> [[c]] | w # ws \<Rightarrow> (c # w) # ws))"

fun join :: "string \<Rightarrow> string list \<Rightarrow> string" where
  "join sep [] = []"
| "join sep [w] = w"
| "join sep (w # ws) = w @ sep @ join sep ws"

text \<open>\<open>s.replace(p, q)\<close> for a nonempty \<open>p\<close>: leftmost occurrences that do not overlap.\<close>

fun replace_fuel :: "nat \<Rightarrow> string \<Rightarrow> string \<Rightarrow> string \<Rightarrow> string" where
  "replace_fuel 0 p q s = s"
| "replace_fuel (Suc n) p q [] = []"
| "replace_fuel (Suc n) p q (c # cs) =
     (if starts_with (c # cs) p then q @ replace_fuel n p q (drop (length p) (c # cs))
      else c # replace_fuel n p q cs)"

definition replace :: "string \<Rightarrow> string \<Rightarrow> string \<Rightarrow> string" where
  "replace p q s = (if p = [] then s else replace_fuel (Suc (length s)) p q s)"

text \<open>\<open>s.partition(c)\<close> without the separator: \<open>None\<close> when it does not occur.\<close>

fun cut_at :: "char \<Rightarrow> string \<Rightarrow> (string \<times> string) option" where
  "cut_at d [] = None"
| "cut_at d (c # cs) =
     (if c = d then Some ([], cs) else map_option (\<lambda>(a, b). (c # a, b)) (cut_at d cs))"

text \<open>\<open>s.rpartition(c)\<close>: cut at the last occurrence.\<close>

definition rcut_at :: "char \<Rightarrow> string \<Rightarrow> (string \<times> string) option" where
  "rcut_at d s = map_option (\<lambda>(a, b). (rev b, rev a)) (cut_at d (rev s))"

lemma cut_at_Some: "cut_at d s = Some (a, b) \<Longrightarrow> s = a @ d # b \<and> d \<notin> set a"
  by (induction s arbitrary: a) (auto split: if_splits)

lemma cut_at_None: "cut_at d s = None \<longleftrightarrow> d \<notin> set s"
  by (induction s) auto

lemma starts_with_append: "starts_with s p \<longleftrightarrow> (\<exists>t. s = p @ t)"
  unfolding starts_with_def by (metis append_eq_conv_conj append_take_drop_id)

lemma ends_with_append: "ends_with s p \<longleftrightarrow> (\<exists>t. s = t @ p)"
  unfolding ends_with_def
  by (metis append_eq_conv_conj append_take_drop_id diff_add_inverse2 le_add2 length_append)

lemma split_on_nonempty [simp]: "split_on d s \<noteq> []"
  by (induction s) (auto split: list.splits)

text \<open>Splitting and joining are inverse.\<close>

lemma join_split_on: "join [d] (split_on d s) = s"
proof (induction s)
  case Nil
  then show ?case by simp
next
  case (Cons c cs)
  obtain w ws where w: "split_on d cs = w # ws"
    by (cases "split_on d cs") auto
  with Cons show ?case
    by (cases ws) auto
qed

lemma split_on_no_sep: "w \<in> set (split_on d s) \<Longrightarrow> d \<notin> set w"
  by (induction s arbitrary: w) (auto split: if_splits list.splits)

lemma code_lt [simp]: "code c < 256"
  by (simp add: code_def)

lemma lower_append: "lower (s @ t) = lower s @ lower t"
  by (simp add: lower_def)

lemma to_lower_idem: "to_lower (to_lower c) = to_lower c"
proof -
  have "to_lower (to_lower c) = to_lower c" if "code c < 256"
    using that by (auto simp: to_lower_def between_def code_def)
  then show ?thesis by simp
qed

lemma lower_idem [simp]: "lower (lower s) = lower s"
  by (simp add: lower_def to_lower_idem)

section \<open>Numerals\<close>

text \<open>The digits of a nonnegative number, the least significant first.\<close>

function digits_rev :: "int \<Rightarrow> int \<Rightarrow> int list" where
  "digits_rev b n = (if b < 2 \<or> n < b then [n] else (n mod b) # digits_rev b (n div b))"
  by pat_completeness auto
termination
proof (relation "measure (\<lambda>(b, n). nat n)")
  fix b n :: int
  assume "\<not> (b < 2 \<or> n < b)"
  then have "n div b < n" "0 < n" by (auto intro!: int_div_less_self)
  then show "((b, n div b), (b, n)) \<in> measure (\<lambda>(b, n). nat n)" by simp
qed simp

declare digits_rev.simps [simp del]

definition digit_char :: "int \<Rightarrow> char" where
  "digit_char n = (if n < 10 then char_of (nat (48 + n)) else char_of (nat (87 + n)))"

text \<open>\<open>str(n)\<close> of an integer.\<close>

definition show_int :: "int \<Rightarrow> string" where
  "show_int i =
     (if i < 0 then CHR ''-'' # map digit_char (rev (digits_rev 10 (- i)))
      else map digit_char (rev (digits_rev 10 i)))"

abbreviation show_nat :: "nat \<Rightarrow> string" where
  "show_nat n \<equiv> show_int (int n)"

text \<open>\<open>'%032x' % n\<close>: a number below \<open>16 ^ k\<close> in \<open>k\<close> hexadecimal digits.\<close>

fun hex_fixed :: "nat \<Rightarrow> int \<Rightarrow> string" where
  "hex_fixed 0 n = []"
| "hex_fixed (Suc k) n = hex_fixed k (n div 16) @ [digit_char (n mod 16)]"

definition hex_value :: "char \<Rightarrow> int option" where
  "hex_value c =
     (if is_digit c then Some (int (code c) - 48)
      else if between 97 102 c then Some (int (code c) - 87)
      else if between 65 70 c then Some (int (code c) - 55) else None)"

fun value_in :: "int \<Rightarrow> int \<Rightarrow> string \<Rightarrow> int option" where
  "value_in b acc [] = Some acc"
| "value_in b acc (c # cs) =
     (case hex_value c of None \<Rightarrow> None
      | Some d \<Rightarrow> if d < b then value_in b (acc * b + d) cs else None)"

text \<open>The underscores \<open>int\<close> accepts: single ones between digits.\<close>

fun no_bad_underscore :: "bool \<Rightarrow> string \<Rightarrow> bool" where
  "no_bad_underscore prev [] = prev"
| "no_bad_underscore prev (c # cs) =
     (if c = CHR ''_'' then prev \<and> no_bad_underscore False cs else no_bad_underscore True cs)"

definition digits_value :: "int \<Rightarrow> string \<Rightarrow> int option" where
  "digits_value b s =
     (if no_bad_underscore False s then value_in b 0 (filter (\<lambda>c. c \<noteq> CHR ''_'') s) else None)"

text \<open>\<open>int(s, 16)\<close>: blanks around, a sign and \<open>0x\<close> with an optional underscore are accepted.\<close>

definition int_base16 :: "string \<Rightarrow> int res" where
  "int_base16 s0 =
     (let s = strip s0;
          neg = (case s of c # cs \<Rightarrow> c = CHR ''-'' | _ \<Rightarrow> False);
          t = (case s of c # cs \<Rightarrow> if c = CHR ''-'' \<or> c = CHR ''+'' then cs else s | _ \<Rightarrow> s);
          u = (if starts_with t ''0x'' \<or> starts_with t ''0X'' then drop 2 t else t);
          u = (if u \<noteq> t \<and> starts_with u ''_'' then drop 1 u else u)
      in case digits_value 16 u of
           None \<Rightarrow> Inl (ValueError ''invalid literal for int() with base 16'')
         | Some n \<Rightarrow> Inr (if neg then - n else n))"

text \<open>\<open>int(s)\<close>\<close>

definition int_base10 :: "string \<Rightarrow> int res" where
  "int_base10 s0 =
     (let s = strip s0;
          neg = (case s of c # cs \<Rightarrow> c = CHR ''-'' | _ \<Rightarrow> False);
          t = (case s of c # cs \<Rightarrow> if c = CHR ''-'' \<or> c = CHR ''+'' then cs else s | _ \<Rightarrow> s)
      in case digits_value 10 t of
           None \<Rightarrow> Inl (ValueError ''invalid literal for int() with base 10'')
         | Some n \<Rightarrow> Inr (if neg then - n else n))"

text \<open>Plain decimal digits and their value.\<close>

definition all_digits :: "string \<Rightarrow> bool" where
  "all_digits s \<longleftrightarrow> s \<noteq> [] \<and> list_all is_digit s"

definition dec_value :: "string \<Rightarrow> int" where
  "dec_value s = foldl (\<lambda>n c. 10 * n + (int (code c) - 48)) 0 s"

section \<open>\<open>uuid.UUID\<close>\<close>

definition strip_braces :: "string \<Rightarrow> string" where
  "strip_braces s =
     (let b = (\<lambda>c. c = CHR ''{'' \<or> c = CHR ''}'')
      in rev (dropWhile b (rev (dropWhile b s))))"

definition uuid_of_string :: "string \<Rightarrow> int res" where
  "uuid_of_string s =
     (let h = replace ''-'' [] (strip_braces (replace ''uuid:'' [] (replace ''urn:'' [] s)))
      in if length h \<noteq> 32 then Inl (ValueError ''badly formed hexadecimal UUID string'')
         else bindr (int_base16 h) (\<lambda>n.
           if 0 \<le> n then Inr n else Inl (ValueError ''int is out of range (need a 128-bit value)'')))"

text \<open>\<open>UUID(v).int\<close>: no \<open>hex\<close> argument at all is a \<open>TypeError\<close>.\<close>

fun uuid_int :: "json \<Rightarrow> int res" where
  "uuid_int (JStr s) = uuid_of_string s"
| "uuid_int JNull = Inl TypeError"
| "uuid_int _ = Inl AttributeError"

text \<open>\<open>str(UUID)\<close>\<close>

definition uuid_str :: "int \<Rightarrow> string" where
  "uuid_str n =
     (let h = hex_fixed 32 n
      in take 8 h @ ''-'' @ take 4 (drop 8 h) @ ''-'' @ take 4 (drop 12 h) @ ''-''
         @ take 4 (drop 16 h) @ ''-'' @ drop 20 h)"

lemma uuid_int_ok [py_ok]: "uuid_int v = Inr n \<longleftrightarrow> (\<exists>s. v = JStr s \<and> uuid_of_string s = Inr n)"
  by (cases v) auto

lemma uuid_of_string_nonneg: "uuid_of_string s = Inr n \<Longrightarrow> 0 \<le> n"
  by (auto simp: uuid_of_string_def Let_def bindr_ok split: if_splits)

lemma length_hex_fixed [simp]: "length (hex_fixed k n) = k"
  by (induction k arbitrary: n) auto

end
