(* ===== verification/Py_Dumps.thy ===== *)
theory Py_Dumps
  imports Py_Text "HOL-Library.List_Lexorder"
begin

text \<open>
  \<open>json.dumps(value, sort_keys=True, separators=(",", ":"))\<close> and the fingerprint the
  program builds from it.  The hash function itself is a parameter.
\<close>

section \<open>The canonical form: keys sorted at every level\<close>

fun canon :: "json \<Rightarrow> json" where
  "canon (JList xs) = JList (map canon xs)"
| "canon (JObj kv) = JObj (sort_key fst (map (\<lambda>(k, v). (k, canon v)) kv))"
| "canon v = v"

section \<open>The text\<close>

definition hex2 :: "char \<Rightarrow> string" where
  "hex2 c = [digit_char (int (code c) div 16), digit_char (int (code c) mod 16)]"

definition escape_char :: "char \<Rightarrow> string" where
  "escape_char c =
     (if code c = 34 then [CHR 0x5C, CHR 0x22]
      else if code c = 92 then [CHR 0x5C, CHR 0x5C]
      else if code c = 10 then [CHR 0x5C, CHR ''n'']
      else if code c = 13 then [CHR 0x5C, CHR ''r'']
      else if code c = 9 then [CHR 0x5C, CHR ''t'']
      else if code c = 12 then [CHR 0x5C, CHR ''f'']
      else if code c = 8 then [CHR 0x5C, CHR ''b'']
      else if 32 \<le> code c \<and> code c \<le> 126 then [c]
      else [CHR 0x5C, CHR ''u'', CHR ''0'', CHR ''0''] @ hex2 c)"

definition quote :: "string \<Rightarrow> string" where
  "quote s = CHR 0x22 # concat (map escape_char s) @ [CHR 0x22]"

definition exponent_digits :: "int \<Rightarrow> string" where
  "exponent_digits x =
     (let d = show_int \<bar>x\<bar>
      in (if x < 0 then ''-'' else ''+'') @ (if length d < 2 then CHR ''0'' # d else d))"

text \<open>\<open>repr\<close> of the float whose shortest decimal representation is \<open>m * 10 ^ e\<close>.\<close>

definition float_repr :: "int \<Rightarrow> int \<Rightarrow> string" where
  "float_repr m e =
     (let d = show_int \<bar>m\<bar>; n = int (length d); p = n + e
      in (if m < 0 then ''-'' else '''') @
         (if m = 0 then ''0.0''
          else if -4 < p \<and> p \<le> 16 then
            (if p \<le> 0 then ''0.'' @ replicate (nat (- p)) CHR ''0'' @ d
             else if n \<le> p then d @ replicate (nat (p - n)) CHR ''0'' @ ''.0''
             else take (nat p) d @ ''.'' @ drop (nat p) d)
          else take 1 d @ (if tl d = [] then [] else CHR ''.'' # tl d) @ ''e'' @ exponent_digits (p - 1)))"

text \<open>\<open>json.dumps(v, separators=(isep, ksep))\<close>\<close>

fun render :: "string \<Rightarrow> string \<Rightarrow> json \<Rightarrow> string" where
  "render isep ksep JNull = ''null''"
| "render isep ksep (JBool b) = (if b then ''true'' else ''false'')"
| "render isep ksep (JInt i) = show_int i"
| "render isep ksep (JFloat m e) = float_repr m e"
| "render isep ksep JNonFinite = ''NaN''"
| "render isep ksep (JStr s) = quote s"
| "render isep ksep (JList xs) = ''['' @ join isep (map (render isep ksep) xs) @ '']''"
| "render isep ksep (JObj kv) =
     ''{'' @ join isep (map (\<lambda>(k, v). quote k @ ksep @ render isep ksep v) kv) @ ''}''"

text \<open>The compact sorted form, the default form and the default form with sorted keys.\<close>

definition dumps :: "json \<Rightarrow> string" where
  "dumps v = render '','' '':'' (canon v)"

definition dumps_default :: "json \<Rightarrow> string" where
  "dumps_default v = render '', '' '': '' v"

definition dumps_sorted :: "json \<Rightarrow> string" where
  "dumps_sorted v = render '', '' '': '' (canon v)"

section \<open>The canonical form ignores the order of keys\<close>

lemma sort_key_eq_of_set:
  assumes "distinct (map fst xs)" and "distinct (map fst ys)" and "set xs = set ys"
  shows "sort_key fst xs = sort_key fst ys"
proof -
  have dx: "distinct (map fst (sort_key fst xs))" and dy: "distinct (map fst (sort_key fst ys))"
    using assms(1,2) by (simp_all add: distinct_map)
  have "map fst (sort_key fst xs) = map fst (sort_key fst ys)"
    using dx dy assms(3) by (intro sorted_distinct_set_unique) (simp_all)
  moreover have "inj_on fst (set (sort_key fst xs) \<union> set (sort_key fst ys))"
    using assms by (simp add: distinct_map)
  ultimately show ?thesis
    by (rule map_inj_on)
qed

lemma map_of_set_eq:
  assumes "distinct (map fst xs)" and "distinct (map fst ys)"
  shows "map_of xs = map_of ys \<longleftrightarrow> set xs = set ys"
  using assms map_of_inject_set by blast

lemma distinct_fst_map_snd: "map fst (map (\<lambda>(k, v). (k, f v)) kv) = map fst kv"
  by (induction kv) auto

text \<open>Reordering the keys of a dict leaves its canonical form unchanged.\<close>

lemma canon_reorder:
  assumes "distinct (map fst kv)" and "distinct (map fst kv')" and "map_of kv = map_of kv'"
  shows "canon (JObj kv) = canon (JObj kv')"
proof -
  have "set kv = set kv'" using assms map_of_set_eq by blast
  then have "set (map (\<lambda>(k, v). (k, canon v)) kv) = set (map (\<lambda>(k, v). (k, canon v)) kv')"
    by (simp only: set_map)
  moreover have "distinct (map fst (map (\<lambda>(k, v). (k, canon v)) kv))"
    unfolding distinct_fst_map_snd by (rule assms(1))
  moreover have "distinct (map fst (map (\<lambda>(k, v). (k, canon v)) kv'))"
    unfolding distinct_fst_map_snd by (rule assms(2))
  ultimately show ?thesis
    unfolding canon.simps json.inject by (rule sort_key_eq_of_set [rotated 2])
qed

lemma dumps_reorder:
  "distinct (map fst kv) \<Longrightarrow> distinct (map fst kv') \<Longrightarrow> map_of kv = map_of kv'
   \<Longrightarrow> dumps (JObj kv) = dumps (JObj kv')"
  unfolding dumps_def by (rule arg_cong [where f = "render '','' '':''"]) (rule canon_reorder)

end
