(* ===== verification/Py_Net.thy ===== *)
theory Py_Net
  imports Py_Text
begin

text \<open>
  \<open>ipaddress.ip_network\<close> as Python 3.13 has it: parsing of IPv4 and IPv6 prefixes, the
  tables of private ranges, and \<open>str\<close> of a network.
\<close>

record net =
  version :: nat
  base :: int
  plen :: nat
  scope :: string

definition bits :: "net \<Rightarrow> nat" where
  "bits n = (if version n = 4 then 32 else 128)"

definition host_bits :: "net \<Rightarrow> nat" where
  "host_bits n = bits n - plen n"

definition broadcast :: "net \<Rightarrow> int" where
  "broadcast n = base n + 2 ^ host_bits n - 1"

text \<open>Both ends of a network lie in another one of the same version.\<close>

definition subnet_of :: "net \<Rightarrow> net \<Rightarrow> bool" where
  "subnet_of a b \<longleftrightarrow> version a = version b \<and> base b \<le> base a \<and> broadcast a \<le> broadcast b"

section \<open>Parsing\<close>

definition parse_octet :: "string \<Rightarrow> int option" where
  "parse_octet s =
     (if all_digits s \<and> length s \<le> 3 \<and> (s = ''0'' \<or> hd s \<noteq> CHR ''0'') \<and> dec_value s \<le> 255
      then Some (dec_value s) else None)"

definition parse_ipv4 :: "string \<Rightarrow> int option" where
  "parse_ipv4 s =
     (case split_on CHR ''.'' s of
        [a, b, c, d] \<Rightarrow>
          (case (parse_octet a, parse_octet b, parse_octet c, parse_octet d) of
             (Some w, Some x, Some y, Some z) \<Rightarrow> Some (((w * 256 + x) * 256 + y) * 256 + z)
           | _ \<Rightarrow> None)
      | _ \<Rightarrow> None)"

definition parse_hextet :: "string \<Rightarrow> int option" where
  "parse_hextet s = (if s \<noteq> [] \<and> length s \<le> 4 then value_in 16 0 s else None)"

fun parse_hextets :: "int \<Rightarrow> string list \<Rightarrow> int option" where
  "parse_hextets acc [] = Some acc"
| "parse_hextets acc (h # hs) =
     (case parse_hextet h of None \<Rightarrow> None | Some n \<Rightarrow> parse_hextets (acc * 65536 + n) hs)"

text \<open>A dotted quad in the last position stands for two hextets.\<close>

definition expand_quad :: "string list \<Rightarrow> string list option" where
  "expand_quad parts =
     (if CHR ''.'' \<in> set (last parts) then
        (case parse_ipv4 (last parts) of None \<Rightarrow> None
         | Some n \<Rightarrow> Some (butlast parts @ [hex_fixed 4 (n div 65536), hex_fixed 4 (n mod 65536)]))
      else Some parts)"

definition ipv6_of_parts :: "string list \<Rightarrow> int option" where
  "ipv6_of_parts parts =
     (let n = length parts;
          empties = filter (\<lambda>i. parts ! i = []) [1..<n - 1]
      in case empties of
           [] \<Rightarrow> if n = 8 then parse_hextets 0 parts else None
         | [i] \<Rightarrow>
             (let hi = (if hd parts = [] then i - 1 else i);
                  lo = (if last parts = [] then n - i - 2 else n - i - 1)
              in if (hd parts = [] \<and> hi \<noteq> 0) \<or> (last parts = [] \<and> lo \<noteq> 0) \<or> 8 < hi + lo + 1
                 then None
                 else (case (parse_hextets 0 (take hi parts), parse_hextets 0 (drop (n - lo) parts)) of
                         (Some h, Some l) \<Rightarrow> Some (h * 2 ^ (16 * (8 - hi)) + l)
                       | _ \<Rightarrow> None))
         | _ \<Rightarrow> None)"

definition parse_ipv6 :: "string \<Rightarrow> int option" where
  "parse_ipv6 s =
     (let parts = split_on CHR '':'' s
      in if length parts < 3 then None
         else (case expand_quad parts of None \<Rightarrow> None
               | Some ps \<Rightarrow> if 9 < length ps then None else ipv6_of_parts ps))"

text \<open>The scope of \<open>fe80::1%eth0\<close>: nothing or a nonempty text without a second percent sign.\<close>

definition split_scope :: "string \<Rightarrow> (string \<times> string) option" where
  "split_scope s =
     (case cut_at CHR ''%'' s of
        None \<Rightarrow> Some (s, [])
      | Some (a, b) \<Rightarrow> if b = [] \<or> CHR ''%'' \<in> set b then None else Some (a, b))"

definition mask_of :: "nat \<Rightarrow> int" where
  "mask_of p = 2 ^ 32 - 2 ^ (32 - p)"

text \<open>The mask of an IPv4 network: a prefix length, a netmask or a host mask.\<close>

definition parse_mask4 :: "string \<Rightarrow> nat option" where
  "parse_mask4 s =
     (if all_digits s then (if dec_value s \<le> 32 then Some (nat (dec_value s)) else None)
      else (case parse_ipv4 s of None \<Rightarrow> None
            | Some n \<Rightarrow>
                (case filter (\<lambda>p. mask_of p = n) [0..<33] of
                   p # ps \<Rightarrow> Some p
                 | [] \<Rightarrow> (case filter (\<lambda>p. 2 ^ (32 - p) - 1 = n) [0..<33] of
                           p # ps \<Rightarrow> Some p | [] \<Rightarrow> None))))"

definition parse_mask6 :: "string \<Rightarrow> nat option" where
  "parse_mask6 s = (if all_digits s \<and> dec_value s \<le> 128 then Some (nat (dec_value s)) else None)"

definition make_net :: "bool \<Rightarrow> nat \<Rightarrow> int \<Rightarrow> nat \<Rightarrow> string \<Rightarrow> net option" where
  "make_net strict v a p sc =
     (let h = 2 ^ ((if v = 4 then 32 else 128) - p)
      in if strict \<and> a mod h \<noteq> 0 then None
         else Some \<lparr>version = v, base = a - a mod h, plen = p, scope = sc\<rparr>)"

definition net4 :: "bool \<Rightarrow> string \<Rightarrow> net option" where
  "net4 strict s =
     (case split_on CHR ''/'' s of
        [a] \<Rightarrow> (case parse_ipv4 a of None \<Rightarrow> None | Some n \<Rightarrow> make_net strict 4 n 32 [])
      | [a, m] \<Rightarrow> (case (parse_ipv4 a, parse_mask4 m) of
                     (Some n, Some p) \<Rightarrow> make_net strict 4 n p [] | _ \<Rightarrow> None)
      | _ \<Rightarrow> None)"

definition net6 :: "bool \<Rightarrow> string \<Rightarrow> net option" where
  "net6 strict s =
     (case split_on CHR ''/'' s of
        a # ms \<Rightarrow>
          (case split_scope a of None \<Rightarrow> None
           | Some (b, sc) \<Rightarrow>
               (case (parse_ipv6 b, (case ms of [] \<Rightarrow> Some 128 | [m] \<Rightarrow> parse_mask6 m | _ \<Rightarrow> None)) of
                  (Some n, Some p) \<Rightarrow> make_net strict 6 n p sc | _ \<Rightarrow> None))
      | _ \<Rightarrow> None)"

definition ip_network_str :: "bool \<Rightarrow> string \<Rightarrow> net res" where
  "ip_network_str strict s =
     (case net4 strict s of Some n \<Rightarrow> Inr n
      | None \<Rightarrow> (case net6 strict s of Some n \<Rightarrow> Inr n
                  | None \<Rightarrow> Inl (ValueError ''does not appear to be an IPv4 or IPv6 network'')))"

text \<open>\<open>ip_network(v)\<close>: an integer is the address itself; any other value is printed first.\<close>

fun ip_network :: "bool \<Rightarrow> json \<Rightarrow> net res" where
  "ip_network strict (JStr s) = ip_network_str strict s"
| "ip_network strict (JInt i) =
     (if 0 \<le> i \<and> i < 2 ^ 32 then Inr \<lparr>version = 4, base = i, plen = 32, scope = []\<rparr>
      else if 0 \<le> i \<and> i < 2 ^ 128 then Inr \<lparr>version = 6, base = i, plen = 128, scope = []\<rparr>
      else Inl (ValueError ''does not appear to be an IPv4 or IPv6 network''))"
| "ip_network strict (JBool b) =
     Inr \<lparr>version = 4, base = (if b then 1 else 0), plen = 32, scope = []\<rparr>"
| "ip_network strict _ = Inl (ValueError ''does not appear to be an IPv4 or IPv6 network'')"

section \<open>Printing\<close>

definition show_ipv4 :: "int \<Rightarrow> string" where
  "show_ipv4 a =
     join ''.'' (map show_int [a div 2 ^ 24 mod 256, a div 2 ^ 16 mod 256, a div 256 mod 256, a mod 256])"

definition hextets_of :: "int \<Rightarrow> int list" where
  "hextets_of a = map (\<lambda>i. a div 2 ^ (16 * (7 - i)) mod 65536) [0..<8]"

definition show_hex :: "int \<Rightarrow> string" where
  "show_hex n = map digit_char (rev (digits_rev 16 n))"

fun zero_run :: "int list \<Rightarrow> nat" where
  "zero_run [] = 0"
| "zero_run (h # hs) = (if h = 0 then Suc (zero_run hs) else 0)"

text \<open>Start and length of the longest run of zeros, the first of several.\<close>

definition best_run :: "int list \<Rightarrow> nat \<times> nat" where
  "best_run hs =
     foldl (\<lambda>(i, n) j. if n < zero_run (drop j hs) then (j, zero_run (drop j hs)) else (i, n))
       (0, 0) [0..<length hs]"

definition show_ipv6 :: "int \<Rightarrow> string" where
  "show_ipv6 a =
     (let hs = hextets_of a; (i, n) = best_run hs
      in if n \<le> 1 then join '':'' (map show_hex hs)
         else join '':'' (map show_hex (take i hs)) @ ''::'' @ join '':'' (map show_hex (drop (i + n) hs)))"

definition net_str :: "net \<Rightarrow> string" where
  "net_str n =
     (if version n = 4 then show_ipv4 (base n)
      else show_ipv6 (base n) @ (if scope n = [] then [] else ''%'' @ scope n))
     @ ''/'' @ show_nat (plen n)"

section \<open>Ranges\<close>

definition v4 :: "int \<Rightarrow> int \<Rightarrow> int \<Rightarrow> int \<Rightarrow> nat \<Rightarrow> net" where
  "v4 a b c d p = \<lparr>version = 4, base = ((a * 256 + b) * 256 + c) * 256 + d, plen = p, scope = []\<rparr>"

definition v6 :: "int \<Rightarrow> nat \<Rightarrow> net" where
  "v6 a p = \<lparr>version = 6, base = a, plen = p, scope = []\<rparr>"

definition private4 :: "net list" where
  "private4 =
     [v4 0 0 0 0 8, v4 10 0 0 0 8, v4 127 0 0 0 8, v4 169 254 0 0 16, v4 172 16 0 0 12,
      v4 192 0 0 0 24, v4 192 0 0 170 31, v4 192 0 2 0 24, v4 192 168 0 0 16, v4 198 18 0 0 15,
      v4 198 51 100 0 24, v4 203 0 113 0 24, v4 240 0 0 0 4, v4 255 255 255 255 32]"

definition private4_exceptions :: "net list" where
  "private4_exceptions = [v4 192 0 0 9 32, v4 192 0 0 10 32]"

definition private6 :: "net list" where
  "private6 =
     [v6 1 128, v6 0 128, v6 0xffff00000000 96, v6 0x0064ff9b000100000000000000000000 48,
      v6 0x01000000000000000000000000000000 64, v6 0x20010000000000000000000000000000 23,
      v6 0x20010db8000000000000000000000000 32, v6 0x20020000000000000000000000000000 16,
      v6 0x3fff0000000000000000000000000000 20, v6 0xfc000000000000000000000000000000 7,
      v6 0xfe800000000000000000000000000000 10]"

definition private6_exceptions :: "net list" where
  "private6_exceptions =
     [v6 0x20010001000000000000000000000001 128, v6 0x20010001000000000000000000000002 128,
      v6 0x20010003000000000000000000000000 32, v6 0x20010004011200000000000000000000 48,
      v6 0x20010020000000000000000000000000 28, v6 0x20010030000000000000000000000000 28]"

definition addr_in :: "int \<Rightarrow> net \<Rightarrow> bool" where
  "addr_in a n \<longleftrightarrow> base n \<le> a \<and> a \<le> broadcast n"

definition ends_in :: "net \<Rightarrow> net \<Rightarrow> bool" where
  "ends_in n r \<longleftrightarrow> addr_in (base n) r \<and> addr_in (broadcast n) r"

definition is_private :: "net \<Rightarrow> bool" where
  "is_private n =
     (let ps = (if version n = 4 then private4 else private6);
          es = (if version n = 4 then private4_exceptions else private6_exceptions)
      in list_ex (ends_in n) ps \<and>
         list_all (\<lambda>e. \<not> addr_in (base n) e \<and> \<not> addr_in (broadcast n) e) es)"

definition is_global :: "net \<Rightarrow> bool" where
  "is_global n \<longleftrightarrow>
     \<not> (version n = 4 \<and> ends_in n (v4 100 64 0 0 10)) \<and> \<not> is_private n"

definition is_loopback4 :: "net \<Rightarrow> bool" where
  "is_loopback4 n \<longleftrightarrow> ends_in n (v4 127 0 0 0 8)"

definition is_link_local4 :: "net \<Rightarrow> bool" where
  "is_link_local4 n \<longleftrightarrow> ends_in n (v4 169 254 0 0 16)"

definition is_multicast4 :: "net \<Rightarrow> bool" where
  "is_multicast4 n \<longleftrightarrow> ends_in n (v4 224 0 0 0 4)"

definition is_unspecified4 :: "net \<Rightarrow> bool" where
  "is_unspecified4 n \<longleftrightarrow> base n = 0 \<and> broadcast n = 0"

section \<open>Addresses\<close>

text \<open>\<open>ipaddress.ip_address(v)\<close>, as the network of one address; an IPv4-mapped address has the
  properties of the IPv4 address.\<close>

definition ip_address :: "json \<Rightarrow> net res" where
  "ip_address v =
     (case v of
        JStr s \<Rightarrow> if CHR ''/'' \<in> set s then Inl (ValueError ''not an address'') else ip_network True v
      | _ \<Rightarrow> ip_network True v)"

definition unmapped :: "net \<Rightarrow> net" where
  "unmapped n =
     (if version n = 6 \<and> base n div 2 ^ 32 = 0xffff
      then \<lparr>version = 4, base = base n mod 2 ^ 32, plen = 32, scope = []\<rparr> else n)"

definition addr_is_private :: "net \<Rightarrow> bool" where
  "addr_is_private n \<longleftrightarrow> is_private (unmapped n)"

definition addr_is_loopback :: "net \<Rightarrow> bool" where
  "addr_is_loopback n \<longleftrightarrow>
     (let a = unmapped n in if version a = 4 then is_loopback4 a else base a = 1)"

definition addr_is_link_local :: "net \<Rightarrow> bool" where
  "addr_is_link_local n \<longleftrightarrow>
     (let a = unmapped n in
      if version a = 4 then is_link_local4 a else ends_in a (v6 0xfe800000000000000000000000000000 10))"

definition overlaps :: "net \<Rightarrow> net \<Rightarrow> bool" where
  "overlaps a b \<longleftrightarrow> version a = version b \<and> base a \<le> broadcast b \<and> base b \<le> broadcast a"

text \<open>A network the parser returned: aligned, in range.\<close>

definition wf_net :: "net \<Rightarrow> bool" where
  "wf_net n \<longleftrightarrow> (version n = 4 \<or> version n = 6) \<and> plen n \<le> bits n
     \<and> base n mod 2 ^ host_bits n = 0 \<and> 0 \<le> base n \<and> base n < 2 ^ bits n"

lemmas range_defs = v4_def v6_def bits_def host_bits_def broadcast_def addr_in_def ends_in_def

lemma subnet_of_refl: "subnet_of n n"
  by (simp add: subnet_of_def)

lemma subnet_of_trans: "subnet_of a b \<Longrightarrow> subnet_of b c \<Longrightarrow> subnet_of a c"
  by (auto simp: subnet_of_def)

text \<open>Every address of a subnet is an address of the enclosing network.\<close>

lemma subnet_of_addr: "subnet_of a b \<Longrightarrow> addr_in x a \<Longrightarrow> addr_in x b"
  by (auto simp: subnet_of_def addr_in_def)

lemma dec_value_nonneg: "list_all is_digit s \<Longrightarrow> 0 \<le> dec_value s"
proof -
  have "0 \<le> foldl (\<lambda>n c. 10 * n + (int (code c) - 48)) a s" if "list_all is_digit s" "0 \<le> a" for a
    using that by (induction s arbitrary: a) (auto simp: is_digit_def between_def)
  then show "list_all is_digit s \<Longrightarrow> 0 \<le> dec_value s" by (simp add: dec_value_def)
qed

lemma parse_octet_le: "parse_octet s = Some n \<Longrightarrow> 0 \<le> n \<and> n \<le> 255"
  by (auto simp: parse_octet_def all_digits_def intro: dec_value_nonneg split: if_splits)

lemma parse_ipv4_lt: "parse_ipv4 s = Some n \<Longrightarrow> 0 \<le> n \<and> n < 2 ^ 32"
  by (auto simp: parse_ipv4_def dest!: parse_octet_le split: list.splits option.splits)

lemma filter_upt_head: "filter P [0..<n] = p # ps \<Longrightarrow> p < n"
proof -
  assume "filter P [0..<n] = p # ps"
  then have "p \<in> set (filter P [0..<n])" by simp
  then show "p < n" by simp
qed

lemma parse_mask4_le: "parse_mask4 s = Some p \<Longrightarrow> p \<le> 32"
  by (auto simp: parse_mask4_def split: if_splits option.splits list.splits
      dest!: filter_upt_head)

lemma make_net_wf:
  assumes "make_net strict v a p sc = Some n" and "v = 4 \<or> v = 6"
    and "p \<le> (if v = 4 then 32 else 128)" and "0 \<le> a" and "a < 2 ^ (if v = 4 then 32 else 128)"
  shows "wf_net n \<and> version n = v \<and> plen n = p"
proof -
  let ?h = "2 ^ ((if v = 4 then 32 else 128) - p) :: int"
  have n: "n = \<lparr>version = v, base = a - a mod ?h, plen = p, scope = sc\<rparr>"
    using assms(1) by (auto simp: make_net_def Let_def split: if_splits)
  have h0: "0 \<le> a mod ?h" by simp
  have "(a - a mod ?h) mod ?h = 0"
    by (simp add: minus_mod_eq_mult_div)
  moreover have "a - a mod ?h < 2 ^ (if v = 4 then 32 else 128)"
    using assms(5) h0 by linarith
  moreover have "0 \<le> a - a mod ?h"
    using zmod_le_nonneg_dividend [OF assms(4), of ?h] by linarith
  ultimately show ?thesis
    using assms(2,3) by (simp add: n wf_net_def bits_def host_bits_def)
qed

lemma net4_wf: "net4 strict s = Some n \<Longrightarrow> wf_net n \<and> version n = 4"
  using make_net_wf [of strict 4 _ _ "[]" n]
  by (force simp: net4_def dest!: parse_ipv4_lt parse_mask4_le split: list.splits option.splits)

text \<open>A strict prefix that names host bits is refused.\<close>

lemma make_net_strict: "make_net True v a p sc = Some n \<Longrightarrow> base n = a"
  by (auto simp: make_net_def Let_def split: if_splits)

end
