(* ===== verification/Py_Regex.thy ===== *)
theory Py_Regex
  imports Py_Text
begin

text \<open>
  Regular expressions as \<open>re.fullmatch\<close> uses them, matched by derivatives, with the
  language they denote.  \<open>Rep r m None\<close> is \<open>r{m,}\<close> and \<open>Rep r m (Some n)\<close> is
  \<open>r{m,n}\<close>; character classes are predicates.
\<close>

datatype rx =
    Eps
  | Cls "char \<Rightarrow> bool"
  | Seq rx rx
  | Alt rx rx
  | Rep rx nat "nat option"

primrec nullable :: "rx \<Rightarrow> bool" where
  "nullable Eps = True"
| "nullable (Cls p) = False"
| "nullable (Seq r s) = (nullable r \<and> nullable s)"
| "nullable (Alt r s) = (nullable r \<or> nullable s)"
| "nullable (Rep r m n) = (m = 0 \<or> nullable r)"

definition Nul :: rx where
  "Nul = Cls (\<lambda>c. False)"

text \<open>The derivative is \<open>None\<close> where no word starts with the character.\<close>

fun seqo :: "rx option \<Rightarrow> rx \<Rightarrow> rx option" where
  "seqo None s = None"
| "seqo (Some Eps) s = Some s"
| "seqo (Some r) s = Some (Seq r s)"

fun alto :: "rx option \<Rightarrow> rx option \<Rightarrow> rx option" where
  "alto None b = b"
| "alto a None = a"
| "alto (Some a) (Some b) = Some (Alt a b)"

primrec deriv :: "char \<Rightarrow> rx \<Rightarrow> rx option" where
  "deriv c Eps = None"
| "deriv c (Cls p) = (if p c then Some Eps else None)"
| "deriv c (Seq r s) =
     (if nullable r then alto (seqo (deriv c r) s) (deriv c s) else seqo (deriv c r) s)"
| "deriv c (Alt r s) = alto (deriv c r) (deriv c s)"
| "deriv c (Rep r m n) =
     (if n = Some 0 then None
      else seqo (deriv c r) (Rep r (m - 1) (map_option (\<lambda>k. k - 1) n)))"

fun rmatch :: "rx \<Rightarrow> string \<Rightarrow> bool" where
  "rmatch r [] = nullable r"
| "rmatch r (c # cs) = (case deriv c r of None \<Rightarrow> False | Some r' \<Rightarrow> rmatch r' cs)"

text \<open>\<open>re.fullmatch(r, v)\<close> of a value: anything but a string is a \<open>TypeError\<close>.\<close>

fun fullmatch :: "rx \<Rightarrow> json res \<Rightarrow> bool res" where
  "fullmatch r (Inr (JStr s)) = Inr (rmatch r s)"
| "fullmatch r (Inr _) = Inl TypeError"
| "fullmatch r (Inl e) = Inl e"

lemma fullmatch_ok [py_ok]:
  "fullmatch r e = Inr b \<longleftrightarrow> (\<exists>s. e = Inr (JStr s) \<and> b = rmatch r s)"
  by (cases "(r, e)" rule: fullmatch.cases) auto

section \<open>The characters a match can hold\<close>

primrec allowed :: "rx \<Rightarrow> char \<Rightarrow> bool" where
  "allowed Eps c = False"
| "allowed (Cls p) c = p c"
| "allowed (Seq r s) c = (allowed r c \<or> allowed s c)"
| "allowed (Alt r s) c = (allowed r c \<or> allowed s c)"
| "allowed (Rep r m n) c = allowed r c"

lemma seqo_Some:
  "seqo a s = Some t \<longleftrightarrow> (\<exists>r. a = Some r \<and> t = (if r = Eps then s else Seq r s))"
  by (cases "(a, s)" rule: seqo.cases) auto

lemma alto_cases:
  "alto a b = Some t \<longleftrightarrow>
     (a = None \<and> b = Some t) \<or> (b = None \<and> a = Some t) \<or>
     (\<exists>r s. a = Some r \<and> b = Some s \<and> t = Alt r s)"
  by (cases a; cases b) auto

lemma deriv_allowed:
  "deriv c r = Some r' \<Longrightarrow> allowed r c \<and> (\<forall>d. allowed r' d \<longrightarrow> allowed r d)"
proof (induction r arbitrary: r')
  case (Cls p)
  then show ?case by (auto split: if_splits)
next
  case (Seq r s)
  then show ?case by (fastforce simp: seqo_Some alto_cases split: if_splits)
next
  case (Alt r s)
  then show ?case by (fastforce simp: alto_cases)
next
  case (Rep r m n)
  then show ?case by (fastforce simp: seqo_Some split: if_splits)
qed simp

lemma rmatch_allowed: "rmatch r s \<Longrightarrow> c \<in> set s \<Longrightarrow> allowed r c"
  by (induction s arbitrary: r) (auto dest: deriv_allowed split: option.splits)

text \<open>A string with a character outside the classes of a pattern never matches it.\<close>

lemma rmatch_excludes: "rmatch r s \<Longrightarrow> \<not> allowed r c \<Longrightarrow> c \<notin> set s"
  using rmatch_allowed by blast

section \<open>The language\<close>

inductive in_rx :: "rx \<Rightarrow> string \<Rightarrow> bool" where
  eps: "in_rx Eps []"
| cls: "p c \<Longrightarrow> in_rx (Cls p) [c]"
| seq: "in_rx r u \<Longrightarrow> in_rx s v \<Longrightarrow> in_rx (Seq r s) (u @ v)"
| altl: "in_rx r u \<Longrightarrow> in_rx (Alt r s) u"
| altr: "in_rx s u \<Longrightarrow> in_rx (Alt r s) u"
| rep0: "in_rx (Rep r 0 n) []"
| rep: "in_rx r u \<Longrightarrow> n \<noteq> Some 0 \<Longrightarrow> in_rx (Rep r (m - 1) (map_option (\<lambda>k. k - 1) n)) v
     \<Longrightarrow> in_rx (Rep r m n) (u @ v)"

inductive_cases in_rx_EpsE [elim!]: "in_rx Eps w"
inductive_cases in_rx_ClsE [elim!]: "in_rx (Cls p) w"
inductive_cases in_rx_SeqE [elim!]: "in_rx (Seq r s) w"
inductive_cases in_rx_AltE [elim!]: "in_rx (Alt r s) w"

inductive_simps in_rx_Eps [simp]: "in_rx Eps w"
inductive_simps in_rx_Cls [simp]: "in_rx (Cls p) w"

lemma in_rx_Seq_Eps: "in_rx (Seq Eps s) w \<longleftrightarrow> in_rx s w"
  using in_rx.seq [OF in_rx.eps, of s w] by auto

lemma in_rx_seqo: "seqo (Some r) s = Some t \<Longrightarrow> in_rx t w \<longleftrightarrow> in_rx (Seq r s) w"
  by (cases "r = Eps") (auto simp: seqo_Some in_rx_Seq_Eps)

lemma seqo_obtain:
  assumes "seqo a s = Some t" and "in_rx t w"
  obtains q where "a = Some q" and "in_rx (Seq q s) w"
  using assms in_rx_seqo by (cases a) auto

text \<open>The matcher accepts exactly the language, where the bounds of repetitions are in order.\<close>

lemma nullable_rep: "in_rx r [] \<Longrightarrow> (\<forall>k. n = Some k \<longrightarrow> m \<le> k) \<Longrightarrow> in_rx (Rep r m n) []"
proof (induction m arbitrary: n)
  case 0
  then show ?case by (auto intro: in_rx.intros)
next
  case (Suc m)
  have "in_rx (Rep r m (map_option (\<lambda>k. k - 1) n)) []"
    using Suc by (cases n) auto
  with Suc.prems show ?case
    using in_rx.rep [of r "[]" n "Suc m" "[]"] by (cases n) auto
qed

text \<open>Bounds of a repetition are in order.\<close>

primrec rx_ok :: "rx \<Rightarrow> bool" where
  "rx_ok Eps = True"
| "rx_ok (Cls p) = True"
| "rx_ok (Seq r s) = (rx_ok r \<and> rx_ok s)"
| "rx_ok (Alt r s) = (rx_ok r \<and> rx_ok s)"
| "rx_ok (Rep r m n) = (rx_ok r \<and> (\<forall>k. n = Some k \<longrightarrow> m \<le> k))"

lemma nullable_sound: "rx_ok r \<Longrightarrow> nullable r \<Longrightarrow> in_rx r []"
proof (induction r)
  case (Alt r s)
  then show ?case using in_rx.altl [of r "[]" s] in_rx.altr [of s "[]" r] by auto
next
  case (Seq r s)
  then show ?case using in_rx.seq [of r "[]" s "[]"] by auto
next
  case (Rep r m n)
  then show ?case by (auto intro: in_rx.rep0 nullable_rep)
qed simp_all

lemma pred_seqo: "pred_option rx_ok a \<Longrightarrow> rx_ok s \<Longrightarrow> pred_option rx_ok (seqo a s)"
  by (cases "(a, s)" rule: seqo.cases) auto

lemma pred_alto: "pred_option rx_ok a \<Longrightarrow> pred_option rx_ok b \<Longrightarrow> pred_option rx_ok (alto a b)"
  by (cases a; cases b) auto

lemma deriv_pred: "rx_ok r \<Longrightarrow> pred_option rx_ok (deriv c r)"
proof (induction r)
  case (Rep r m n)
  then show ?case by (cases n) (auto intro!: pred_seqo)
qed (auto intro!: pred_seqo pred_alto)

lemma deriv_ok: "rx_ok r \<Longrightarrow> deriv c r = Some r' \<Longrightarrow> rx_ok r'"
  using deriv_pred [of r c] by simp

lemma in_rx_Rep_step:
  "in_rx (Seq r' (Rep r (m - 1) (map_option (\<lambda>k. k - 1) n))) w \<Longrightarrow> n \<noteq> Some 0
   \<Longrightarrow> (\<And>u. in_rx r' u \<Longrightarrow> in_rx r (c # u)) \<Longrightarrow> in_rx (Rep r m n) (c # w)"
  by (metis append_Cons in_rx.rep in_rx_SeqE)

lemma deriv_sound: "rx_ok r \<Longrightarrow> deriv c r = Some r' \<Longrightarrow> in_rx r' w \<Longrightarrow> in_rx r (c # w)"
proof (induction r arbitrary: r' w)
  case (Cls p)
  then show ?case by (auto split: if_splits)
next
  case (Seq r s)
  have left: "in_rx (Seq r s) (c # w)"
    if "seqo (deriv c r) s = Some t" "in_rx t w" for t
  proof -
    from that obtain q where q: "deriv c r = Some q" and "in_rx (Seq q s) w"
      by (rule seqo_obtain)
    then obtain u v where "w = u @ v" "in_rx q u" "in_rx s v" by blast
    with Seq q show ?thesis using in_rx.seq [of r "c # u" s v] by simp
  qed
  have right: "in_rx (Seq r s) (c # w)" if "nullable r" "deriv c s = Some t" "in_rx t w" for t
    using that Seq in_rx.seq [of r "[]" s "c # w"] nullable_sound [of r] by simp
  from Seq.prems(2) show ?case
    using left right Seq.prems(3) by (auto simp: alto_cases split: if_splits)
next
  case (Alt r s)
  then show ?case by (auto simp: alto_cases intro: in_rx.intros)
next
  case (Rep r m n)
  then obtain q where q: "deriv c r = Some q" and n: "n \<noteq> Some 0"
    and t: "seqo (Some q) (Rep r (m - 1) (map_option (\<lambda>k. k - 1) n)) = Some r'"
    by (auto simp: seqo_Some split: if_splits)
  with Rep.prems have "in_rx (Seq q (Rep r (m - 1) (map_option (\<lambda>k. k - 1) n))) w"
    using in_rx_seqo by metis
  then show ?case
    using Rep q n by (intro in_rx_Rep_step) auto
qed simp

lemma rmatch_sound: "rx_ok r \<Longrightarrow> rmatch r s \<Longrightarrow> in_rx r s"
  by (induction s arbitrary: r)
    (auto intro: nullable_sound deriv_ok deriv_sound split: option.splits)

text \<open>What a word of the language says of the matcher's next step.\<close>

definition step_complete :: "rx \<Rightarrow> string \<Rightarrow> bool" where
  "step_complete r w \<longleftrightarrow>
     (case w of [] \<Rightarrow> nullable r
      | c # u \<Rightarrow> \<exists>r'. deriv c r = Some r' \<and> in_rx r' u)"

lemma in_rx_seqo_Some:
  "in_rx (Seq q s) u \<Longrightarrow> \<exists>t. seqo (Some q) s = Some t \<and> in_rx t u"
  by (cases "q = Eps") (auto simp: seqo_Some in_rx_Seq_Eps)

lemma in_rx_alto:
  "\<exists>t. a = Some t \<and> in_rx t u \<Longrightarrow> \<exists>t. alto a b = Some t \<and> in_rx t u"
  "\<exists>t. b = Some t \<and> in_rx t u \<Longrightarrow> \<exists>t. alto a b = Some t \<and> in_rx t u"
  by (cases a; cases b; auto intro: in_rx.altl in_rx.altr)+

lemma step_complete_seq:
  assumes "in_rx r u" "step_complete r u" "in_rx s v" "step_complete s v"
  shows "step_complete (Seq r s) (u @ v)"
proof (cases u)
  case Nil
  with assms show ?thesis
    by (auto simp: step_complete_def intro!: in_rx_alto(2) split: list.splits)
next
  case (Cons c w)
  with assms(2) obtain q where "deriv c r = Some q" "in_rx q w"
    by (auto simp: step_complete_def)
  moreover have "in_rx (Seq q s) (w @ v)"
    using \<open>in_rx q w\<close> assms(3) by (rule in_rx.seq)
  ultimately have "\<exists>t. seqo (deriv c r) s = Some t \<and> in_rx t (w @ v)"
    using in_rx_seqo_Some by simp
  with Cons show ?thesis
    by (auto simp: step_complete_def intro!: in_rx_alto(1))
qed

lemma in_rx_step_complete: "in_rx r w \<Longrightarrow> step_complete r w"
proof (induction rule: in_rx.induct)
  case (seq r u s v)
  then show ?case by (intro step_complete_seq)
next
  case (rep r u n m v)
  let ?R = "Rep r (m - 1) (map_option (\<lambda>k. k - 1) n)"
  show ?case
  proof (cases u)
    case (Cons c w)
    with rep.IH(1) obtain q where "deriv c r = Some q" "in_rx q w"
      by (auto simp: step_complete_def)
    moreover have "in_rx (Seq q ?R) (w @ v)"
      using \<open>in_rx q w\<close> rep.hyps(3) by (rule in_rx.seq)
    ultimately show ?thesis
      using Cons rep.hyps(2) in_rx_seqo_Some by (simp add: step_complete_def)
  next
    case Nil
    show ?thesis
    proof (cases v)
      case (Cons c w)
      from rep.IH Nil have nr: "nullable r" by (simp add: step_complete_def)
      let ?S = "Rep r (m - 1 - 1) (map_option (\<lambda>k. k - 1) (map_option (\<lambda>k. k - 1) n))"
      from rep.IH(2) Cons obtain p where p: "deriv c ?R = Some p" "in_rx p w"
        by (auto simp: step_complete_def)
      then have n1: "map_option (\<lambda>k. k - 1) n \<noteq> Some 0" and "seqo (deriv c r) ?S = Some p"
        by (auto split: if_splits)
      from this(2) p(2) obtain q where q: "deriv c r = Some q" and t: "in_rx (Seq q ?S) w"
        by (rule seqo_obtain)
      from t obtain w1 w2 where w: "w = w1 @ w2" "in_rx q w1"
        and w2: "in_rx ?S w2"
        by blast
      have "in_rx r []" using rep.hyps(1) Nil by simp
      from in_rx.rep [OF this n1, of "m - 1" w2] w2 have "in_rx ?R w2" by simp
      with w have "in_rx (Seq q ?R) w" by (auto intro: in_rx.seq)
      then show ?thesis
        using Nil Cons q rep.hyps(2) in_rx_seqo_Some by (simp add: step_complete_def)
    next
      case v: Nil
      with Nil rep.IH show ?thesis by (simp add: step_complete_def)
    qed
  qed
next
  case (altl r u s)
  then show ?case by (auto simp: step_complete_def intro!: in_rx_alto(1) split: list.splits)
next
  case (altr s u r)
  then show ?case by (auto simp: step_complete_def intro!: in_rx_alto(2) split: list.splits)
qed (auto simp: step_complete_def)

lemma rmatch_complete: "in_rx r s \<Longrightarrow> rmatch r s"
proof (induction s arbitrary: r)
  case Nil
  then show ?case using in_rx_step_complete [of r "[]"] by (simp add: step_complete_def)
next
  case (Cons c s)
  then show ?case using in_rx_step_complete [of r "c # s"] by (auto simp: step_complete_def)
qed

lemma rmatch_iff: "rx_ok r \<Longrightarrow> rmatch r s \<longleftrightarrow> in_rx r s"
  using rmatch_sound rmatch_complete by blast

section \<open>Notation for patterns\<close>

definition chr :: "char \<Rightarrow> rx" where
  "chr c = Cls (\<lambda>d. d = c)"

fun lit :: "string \<Rightarrow> rx" where
  "lit [] = Eps"
| "lit [c] = chr c"
| "lit (c # cs) = Seq (chr c) (lit cs)"

fun cat :: "rx list \<Rightarrow> rx" where
  "cat [] = Eps"
| "cat [r] = r"
| "cat (r # rs) = Seq r (cat rs)"

definition star :: "rx \<Rightarrow> rx" where
  "star r = Rep r 0 None"

definition plus1 :: "rx \<Rightarrow> rx" where
  "plus1 r = Rep r 1 None"

definition opt :: "rx \<Rightarrow> rx" where
  "opt r = Rep r 0 (Some 1)"

definition times :: "nat \<Rightarrow> nat \<Rightarrow> rx \<Rightarrow> rx" where
  "times m n r = Rep r m (Some n)"

text \<open>\<open>[A-Za-z0-9...]\<close>, \<open>[a-z0-9...]\<close> and \<open>[0-9a-f]\<close>, with extra characters.\<close>

definition alnum_or :: "string \<Rightarrow> rx" where
  "alnum_or extra = Cls (\<lambda>c. is_alnum c \<or> c \<in> set extra)"

definition lownum_or :: "string \<Rightarrow> rx" where
  "lownum_or extra = Cls (\<lambda>c. is_lower c \<or> is_digit c \<or> c \<in> set extra)"

definition hexlow :: rx where
  "hexlow = Cls is_hex_lower"

lemmas rx_notation =
  chr_def star_def plus1_def opt_def times_def alnum_or_def lownum_or_def hexlow_def

lemma allowed_cat [simp]: "allowed (cat rs) c \<longleftrightarrow> (\<exists>r \<in> set rs. allowed r c)"
  by (induction rs rule: cat.induct) auto

lemma allowed_lit [simp]: "allowed (lit s) c \<longleftrightarrow> c \<in> set s"
  by (induction s rule: lit.induct) (auto simp: chr_def)

lemma allowed_notation [simp]:
  "allowed (chr d) c \<longleftrightarrow> c = d"
  "allowed (star r) c \<longleftrightarrow> allowed r c"
  "allowed (plus1 r) c \<longleftrightarrow> allowed r c"
  "allowed (opt r) c \<longleftrightarrow> allowed r c"
  "allowed (times m n r) c \<longleftrightarrow> allowed r c"
  "allowed (alnum_or ex) c \<longleftrightarrow> is_alnum c \<or> c \<in> set ex"
  "allowed (lownum_or ex) c \<longleftrightarrow> is_lower c \<or> is_digit c \<or> c \<in> set ex"
  "allowed hexlow c \<longleftrightarrow> is_hex_lower c"
  by (simp_all add: rx_notation)

end
