(* ===== verification/Py_Url.thy ===== *)
theory Py_Url
  imports Py_Net Py_Regex
begin

text \<open>
  \<open>urllib.parse.urlsplit\<close> of Python 3.13 and the derived attributes \<open>hostname\<close>,
  \<open>username\<close>, \<open>password\<close> and \<open>port\<close>.
\<close>

record url =
  scheme :: string
  netloc :: string
  path :: string
  query :: string
  fragment :: string

definition c0_or_space :: "char \<Rightarrow> bool" where
  "c0_or_space c \<longleftrightarrow> code c \<le> 32"

definition scheme_char :: "char \<Rightarrow> bool" where
  "scheme_char c \<longleftrightarrow> is_alnum c \<or> c = CHR ''+'' \<or> c = CHR ''-'' \<or> c = CHR ''.''"

definition clean_url :: "string \<Rightarrow> string" where
  "clean_url s =
     filter (\<lambda>c. c \<notin> {CHR 0x09, CHR 0x0A, CHR 0x0D}) (dropWhile c0_or_space s)"

definition split_scheme :: "string \<Rightarrow> string \<times> string" where
  "split_scheme s =
     (case cut_at CHR '':'' s of
        None \<Rightarrow> ([], s)
      | Some (a, b) \<Rightarrow>
          if a \<noteq> [] \<and> (is_lower (hd a) \<or> is_upper (hd a)) \<and> list_all scheme_char a
          then (lower a, b) else ([], s))"

definition netloc_end :: "char \<Rightarrow> bool" where
  "netloc_end c \<longleftrightarrow> c = CHR ''/'' \<or> c = CHR ''?'' \<or> c = CHR ''#''"

definition split_netloc :: "string \<Rightarrow> string \<times> string" where
  "split_netloc s =
     (if starts_with s ''//''
      then (takeWhile (Not \<circ> netloc_end) (drop 2 s), dropWhile (Not \<circ> netloc_end) (drop 2 s))
      else ([], s))"

definition host_part :: "string \<Rightarrow> string" where
  "host_part n = (case rcut_at CHR ''@'' n of None \<Rightarrow> n | Some (a, b) \<Rightarrow> b)"

definition bracketed_ok :: "string \<Rightarrow> bool" where
  "bracketed_ok n =
     (case cut_at CHR ''['' (host_part n) of
        None \<Rightarrow> False
      | Some (front, rest) \<Rightarrow>
          (let (h, p) = (case cut_at CHR '']'' rest of None \<Rightarrow> (rest, []) | Some hp \<Rightarrow> hp)
           in front = [] \<and> (p = [] \<or> hd p = CHR '':'') \<and>
              (if starts_with h ''v''
               then rmatch (cat [chr CHR ''v'', plus1 (Cls (\<lambda>c. hex_value c \<noteq> None)), chr CHR ''.'',
                      plus1 (Cls (\<lambda>c. c \<noteq> CHR 0x0A))]) h
               else (case split_scope h of None \<Rightarrow> False | Some (a, sc) \<Rightarrow> parse_ipv6 a \<noteq> None))))"

definition urlsplit :: "string \<Rightarrow> url res" where
  "urlsplit s0 =
     (let (sch, s) = split_scheme (clean_url s0);
          (n, s) = split_netloc s;
          open_br = CHR ''['' \<in> set n; close_br = CHR '']'' \<in> set n;
          (s, fr) = (case cut_at CHR ''#'' s of None \<Rightarrow> (s, []) | Some p \<Rightarrow> p);
          (s, q) = (case cut_at CHR ''?'' s of None \<Rightarrow> (s, []) | Some p \<Rightarrow> p)
      in if open_br \<noteq> close_br \<or> (open_br \<and> \<not> bracketed_ok n)
         then Inl (ValueError ''Invalid IPv6 URL'')
         else Inr \<lparr>scheme = sch, netloc = n, path = s, query = q, fragment = fr\<rparr>)"

definition host_port :: "url \<Rightarrow> string \<times> string" where
  "host_port u =
     (let h = host_part (netloc u)
      in case cut_at CHR ''['' h of
           Some (x, b) \<Rightarrow>
             (case cut_at CHR '']'' b of
                None \<Rightarrow> (b, [])
              | Some (a, p) \<Rightarrow> (a, (case cut_at CHR '':'' p of None \<Rightarrow> [] | Some (y, z) \<Rightarrow> z)))
         | None \<Rightarrow> (case cut_at CHR '':'' h of None \<Rightarrow> (h, []) | Some p \<Rightarrow> p))"

definition hostname :: "url \<Rightarrow> string option" where
  "hostname u =
     (let h = fst (host_port u)
      in if h = [] then None
         else (case cut_at CHR ''%'' h of
                 None \<Rightarrow> Some (lower h) | Some (a, z) \<Rightarrow> Some (lower a @ ''%'' @ z)))"

definition port :: "url \<Rightarrow> int option res" where
  "port u =
     (let p = snd (host_port u)
      in if p = [] then Inr None
         else if all_digits p \<and> dec_value p \<le> 65535 then Inr (Some (dec_value p))
         else Inl (ValueError ''Port could not be cast to integer value or is out of range''))"

definition userinfo :: "url \<Rightarrow> string option" where
  "userinfo u = map_option fst (rcut_at CHR ''@'' (netloc u))"

definition username :: "url \<Rightarrow> string option" where
  "username u =
     map_option (\<lambda>i. case cut_at CHR '':'' i of None \<Rightarrow> i | Some (a, b) \<Rightarrow> a) (userinfo u)"

definition password :: "url \<Rightarrow> string option" where
  "password u =
     Option.bind (userinfo u) (\<lambda>i. map_option snd (cut_at CHR '':'' i))"

text \<open>\<open>urlsplit(v)\<close> of a value; a falsy value that is no string is taken as empty bytes.\<close>

fun urlsplit_value :: "json \<Rightarrow> url res" where
  "urlsplit_value (JStr s) = urlsplit s"
| "urlsplit_value v =
     (if truth v then Inl AttributeError
      else Inr \<lparr>scheme = [], netloc = [], path = [], query = [], fragment = []\<rparr>)"

text \<open>Without an \<open>@\<close> there is neither a user nor a password.\<close>

lemma no_credentials: "CHR ''@'' \<notin> set (netloc u) \<Longrightarrow> username u = None \<and> password u = None"
proof -
  assume "CHR ''@'' \<notin> set (netloc u)"
  then have "cut_at CHR ''@'' (rev (netloc u)) = None"
    by (simp add: cut_at_None)
  then show ?thesis
    by (simp add: username_def password_def userinfo_def rcut_at_def)
qed

end
