(* ===== verification/Customer_Base.thy ===== *)
theory Customer_Base
  imports Py_Dumps Py_Url
begin

text \<open>
  The first half of \<open>scripts/customer_migration.py\<close>: stages, components, the approval
  policy, the stage plan with its exit checks, the fingerprints that bind evidence to a
  configuration, and the shared validators of placeholders, CIDRs and domains.
\<close>

type_synonym sha = "string \<Rightarrow> string"

section \<open>Constants\<close>

definition FRONT_DOOR_PRIVATE_LINK_LOCATIONS :: "string list" where
  "FRONT_DOOR_PRIVATE_LINK_LOCATIONS =
     [''australiaeast'', ''brazilsouth'', ''canadacentral'', ''centralindia'', ''centralus'',
      ''chinaeast3'', ''chinanorth3'', ''eastasia'', ''eastus'', ''eastus2'', ''francecentral'',
      ''germanywestcentral'', ''japaneast'', ''koreacentral'', ''northeurope'', ''norwayeast'',
      ''southafricanorth'', ''southcentralus'', ''southeastasia'', ''swedencentral'', ''uaenorth'',
      ''uksouth'', ''usgovarizona'', ''usgovtexas'', ''usgovvirginia'', ''usnateast'', ''usnatwest'',
      ''usseceast'', ''ussecwest'', ''westeurope'', ''westus2'', ''westus3'']"

definition STAGES :: "(string \<times> string list) list" where
  "STAGES =
     [(''Baseline and recoverable backup'',
        [''inventory'', ''backup_restore'', ''key_salt_recovery'', ''protocol_baseline'']),
      (''Legacy minimum hardening'', [''legacy_health'', ''alerts_received'', ''rollback_snapshot'']),
      (''Customer architecture decisions'',
        [''network_capacity'', ''identity_owners'', ''pg_auth_ha'', ''l3_policy'', ''protocol_scope'']),
      (''Source supply chain and isolated target'',
        [''oidc_scope'', ''source_image_sbom_scan'', ''target_isolation'']),
      (''Private network and AKS'',
        [''private_dns_egress'', ''private_runner'', ''target_image_signature_sbom'',
         ''workload_identity'', ''private_ingress'']),
      (''Data platform and restore rehearsal'',
        [''pg_migration_restore'', ''key_salt_decryption'', ''redis_entra'', ''csi_rotation'']),
      (''HA and routing'',
        [''replica_failure'', ''load_affinity'', ''capacity_limits'', ''no_legacy_db_writes'']),
      (''Entra and split domains'',
        [''tenant_negative_tests'', ''object_ownership'', ''admin_private'', ''required_protocols'']),
      (''L3 and observability'',
        [''durable_audit_recovery'', ''audit_governance'', ''telemetry_received'', ''guardrail_scope'']),
      (''Approved pilot and cutover'',
        [''enabled_what_if'', ''origin_tls_private_link'', ''pilot_regression'',
         ''rollback_rehearsal'', ''dual_owner_release''])]"

record component =
  first_stage :: int
  template :: string
  allowed_fields :: "string list"

definition COMPONENTS :: "(string \<times> component) list" where
  "COMPONENTS =
     [(''bootstrap'', \<lparr>first_stage = 0, template = ''bootstrap'',
        allowed_fields = [''workspaceMode'', ''logRetentionDays'', ''logAnalyticsWorkspaceName'']\<rparr>),
      (''network'', \<lparr>first_stage = 0, template = ''network-bootstrap'',
        allowed_fields = [''virtualNetworkName'', ''virtualNetworkAddressPrefix'',
          ''privateEndpointSubnetName'', ''privateEndpointSubnetPrefix'']\<rparr>),
      (''backup'', \<lparr>first_stage = 0, template = ''backup-storage'',
        allowed_fields = [''storageAccountName'', ''virtualNetworkName'', ''virtualNetworkAddressPrefix'',
          ''privateEndpointSubnetName'', ''privateEndpointSubnetPrefix'',
          ''logAnalyticsWorkspaceName'', ''backupOwnerPrincipalId'', ''backupAutomationPrincipalId'',
          ''storageSku'', ''softDeleteRetentionDays'']\<rparr>),
      (''runner-connectivity'', \<lparr>first_stage = 0, template = ''runner-connectivity'',
        allowed_fields = [''runnerVirtualNetworkId'', ''managePeering'', ''manageBlobDnsLink'']\<rparr>),
      (''legacy-logging'', \<lparr>first_stage = 1, template = ''legacy-logging'', allowed_fields = [''workspaceMode'']\<rparr>),
      (''monitoring'', \<lparr>first_stage = 1, template = ''monitoring'',
        allowed_fields = [''logAnalyticsWorkspaceName'']\<rparr>),
      (''platform'', \<lparr>first_stage = 3, template = ''environments'',
        allowed_fields = [''containerRegistryName'', ''logAnalyticsWorkspaceName'', ''stage4Network'',
          ''stage4Aks'', ''stage4RoleAssignmentNaming'', ''stage5Data'', ''approvedHttpsFqdns'',
          ''azureOpenAIConnections'', ''createStage5KeyVaultPrivateDnsZone'',
          ''createStage5PostgresqlPrivateDnsZone'', ''createStage5ManagedRedisPrivateDnsZone'']\<rparr>),
      (''aks-ingress-role'', \<lparr>first_stage = 4, template = ''aks-ingress-role'', allowed_fields = []\<rparr>),
      (''certificate-vault'', \<lparr>first_stage = 4, template = ''certificate-vault'',
        allowed_fields = [''vaultName'', ''ingressReaderPrincipalId'', ''certificateImporterPrincipalId'',
          ''certificateImporterPrincipalType'', ''runnerVirtualNetworkId'',
          ''createPrivateDnsZone'', ''manageRunnerDnsLink'', ''manageTargetDnsLink'']\<rparr>),
      (''runner-target-connectivity'', \<lparr>first_stage = 4, template = ''runner-target-connectivity'',
        allowed_fields = [''runnerVirtualNetworkId'', ''manageDnsLink'']\<rparr>),
      (''audit-foundation'', \<lparr>first_stage = 8, template = ''audit-foundation'', allowed_fields = []\<rparr>),
      (''observability'', \<lparr>first_stage = 8, template = ''observability'', allowed_fields = []\<rparr>),
      (''proxy-foundation'', \<lparr>first_stage = 7, template = ''proxy-foundation'', allowed_fields = []\<rparr>),
      (''audit'', \<lparr>first_stage = 8, template = ''audit-storage'',
        allowed_fields = [''storageAccountName'', ''virtualNetworkName'', ''privateEndpointSubnetName'',
          ''logAnalyticsWorkspaceName'', ''cmkVaultName'', ''cmkKeyName'', ''writerPrincipalId'',
          ''readerPrincipalId'', ''retentionPrincipalId'', ''recoveryPrincipalId'']\<rparr>),
      (''origin'', \<lparr>first_stage = 9, template = ''edge-origin'',
        allowed_fields = [''privateLinkServiceName'', ''adminPrivateLinkServiceName'', ''virtualNetworkName'',
          ''ingressSubnetName'', ''apiLoadBalancer'', ''adminLoadBalancer'']\<rparr>),
      (''edge'', \<lparr>first_stage = 9, template = ''edge'',
        allowed_fields = [''privateOrigin'', ''adminPrivateOrigin'', ''adminAllowedCidrs'',
          ''logAnalyticsWorkspaceName'', ''rateLimitPerMinute'', ''adminRateLimitPerMinute'']\<rparr>)]"

definition REQUIRED :: "(string \<times> string list) list" where
  "REQUIRED =
     [(''bootstrap'', []),
      (''network'', [''virtualNetworkName'', ''virtualNetworkAddressPrefix'',
         ''privateEndpointSubnetName'', ''privateEndpointSubnetPrefix'']),
      (''legacy-logging'', []),
      (''backup'', [''logAnalyticsWorkspaceName'', ''backupOwnerPrincipalId'', ''virtualNetworkName'',
         ''virtualNetworkAddressPrefix'', ''privateEndpointSubnetName'', ''privateEndpointSubnetPrefix'']),
      (''runner-connectivity'', [''runnerVirtualNetworkId'']),
      (''monitoring'', [''logAnalyticsWorkspaceName'']),
      (''platform'', [''containerRegistryName'', ''logAnalyticsWorkspaceName'', ''stage4Network'', ''stage4Aks'']),
      (''aks-ingress-role'', []),
      (''certificate-vault'', [''vaultName'', ''ingressReaderPrincipalId'',
         ''certificateImporterPrincipalId'', ''certificateImporterPrincipalType'',
         ''runnerVirtualNetworkId'', ''createPrivateDnsZone'', ''manageRunnerDnsLink'']),
      (''runner-target-connectivity'', [''runnerVirtualNetworkId'']),
      (''audit-foundation'', []),
      (''observability'', []),
      (''proxy-foundation'', []),
      (''audit'', [''virtualNetworkName'', ''privateEndpointSubnetName'', ''logAnalyticsWorkspaceName'',
         ''cmkVaultName'', ''cmkKeyName'', ''writerPrincipalId'', ''readerPrincipalId'', ''retentionPrincipalId'']),
      (''origin'', [''virtualNetworkName'', ''ingressSubnetName'', ''apiLoadBalancer'', ''adminLoadBalancer'']),
      (''edge'', [''privateOrigin'', ''adminPrivateOrigin'', ''adminAllowedCidrs'', ''logAnalyticsWorkspaceName''])]"

section \<open>Fingerprints\<close>

definition fingerprint :: "sha \<Rightarrow> json \<Rightarrow> string" where
  "fingerprint sha v = sha (dumps v)"

section \<open>The approval policy\<close>

definition nonzero_uuids :: "json list \<Rightarrow> int list res" where
  "nonzero_uuids vs = mapr remdups (map_res uuid_int vs)"

definition github_login :: rx where
  "github_login = cat [alnum_or [], times 0 38 (alnum_or ''-'')]"

definition matches_str :: "rx \<Rightarrow> json \<Rightarrow> bool" where
  "matches_str r v = (case v of JStr s \<Rightarrow> rmatch r s | _ \<Rightarrow> False)"

definition approval_policy :: "json \<Rightarrow> (string \<times> int list) res" where
  "approval_policy config =
     bindr (dgetO (val config) ''governance'') (\<lambda>policy.
     check (val (keys_within [''approvalMode'', ''approverObjectIds'', ''singleOperatorRiskAccepted'', ''githubLogin''] policy))
       ''Invalid governance fields'' (
     bindr (dget (val policy) ''approvalMode'' (JStr ''dual'')) (\<lambda>mode.
     check (in_strs (val mode) [''dual'', ''single-operator'']) ''Invalid approvalMode'' (
     bindr (dget (val policy) ''approverObjectIds'' (JList [])) (\<lambda>allowed.
     check (val (is_list allowed)) ''approverObjectIds must be an array'' (
     bindr (list_of (val allowed)) (\<lambda>ids.
     bindr (nonzero_uuids ids) (\<lambda>identities.
     check (val (length identities = length ids \<and> (\<forall>i \<in> set identities. i \<noteq> 0)))
       ''Invalid or duplicate approved operator IDs'' (
     bindr (dget0 (val policy) ''singleOperatorRiskAccepted'') (\<lambda>accepted.
     seqr (if mode = JStr ''single-operator''
           then check (val (accepted = JBool True \<and> length identities = 1))
             ''Single-operator mode requires one named operator and explicit risk acceptance'' (val ())
           else whenr (ids \<noteq> [])
             (check (val (2 \<le> length identities)) ''Dual approval requires two eligible approvers'' (val ()))) (
     bindr (has (val policy) ''githubLogin'') (\<lambda>named.
     seqr (whenr named
            (check (conjr (val (mode = JStr ''single-operator''))
                     (mapr (matches_str github_login) (sub (val policy) ''githubLogin'')))
              ''githubLogin requires an explicitly approved single operator'' (val ()))) (
     bindr (str_of (val mode)) (\<lambda>m. val (m, identities)))))))))))))))"

definition deployment_mode :: "json \<Rightarrow> string res" where
  "deployment_mode config =
     bindr (dget (val config) ''deploymentMode'' (JStr ''migration'')) (\<lambda>mode.
     check (in_strs (val mode) [''migration'', ''greenfield''])
       ''deploymentMode must be migration or greenfield'' (str_of (val mode)))"

section \<open>The stage plan\<close>

definition native_gateway :: "json \<Rightarrow> bool res" where
  "native_gateway config =
     eqs (dget0 (dgetO (dgetO (val config) ''application'') ''authentication'') ''mode'') ''native''"

definition active_stages :: "json \<Rightarrow> int list res" where
  "active_stages config =
     bindr (native_gateway config) (\<lambda>native.
     bindr (deployment_mode config) (\<lambda>mode.
     val (filter (\<lambda>stage. (mode \<noteq> ''greenfield'' \<or> stage \<noteq> 1) \<and> (\<not> native \<or> stage \<noteq> 7)) [0..9])))"

definition require_active :: "int \<Rightarrow> json \<Rightarrow> 'a res \<Rightarrow> 'a res" where
  "require_active stage config k =
     bindr (active_stages config) (\<lambda>stages.
     check (val (stage \<in> set stages)) ''Stage does not apply to the selected deployment mode'' k)"

definition stage_title :: "int \<Rightarrow> json \<Rightarrow> string res" where
  "stage_title stage config =
     require_active stage config (
     bindr (has (val config) ''contentAudit'') (\<lambda>content.
     bindr (has (val config) ''l3Audit'') (\<lambda>l3.
     if stage = 8 \<and> content
     then val (if l3 then ''Optional TypeScript L3 and native spend metadata''
               else ''Native Spend Logs and observability'')
     else bindr (deployment_mode config) (\<lambda>mode.
       val (if mode = ''greenfield'' \<and> stage = 0 then ''New environment prerequisites''
            else if mode = ''greenfield'' \<and> stage = 5 then ''Data platform and database initialization''
            else if mode = ''greenfield'' \<and> stage = 9 then ''Approved pilot and first release''
            else fst (STAGES ! nat stage))))))"

definition greenfield_checks :: "int \<Rightarrow> string list option" where
  "greenfield_checks stage =
     (if stage = 0 then Some [''subscription_scope'', ''deployment_permissions'', ''private_runner'', ''domain_ownership'']
      else if stage = 5 then Some [''database_schema'', ''application_secret_recovery'', ''redis_entra'', ''csi_rotation'']
      else if stage = 6 then Some [''replica_failure'', ''load_affinity'', ''capacity_limits'', ''target_database_scope'']
      else None)"

text \<open>\<open>checks[-1] = name\<close>\<close>

definition set_last :: "string list \<Rightarrow> string \<Rightarrow> string list" where
  "set_last xs x = butlast xs @ [x]"

definition content_checks :: "int \<Rightarrow> bool \<Rightarrow> bool \<Rightarrow> string list \<Rightarrow> string list" where
  "content_checks stage observed native checks =
     (if stage = 2 then map (\<lambda>c. if c = ''l3_policy'' then ''content_audit_policy'' else c) checks
      else if stage = 8 then
        (let cs = [''native_spend_logs'', ''native_audit_access'', ''native_retention_recovery'',
                   (if observed then ''telemetry_received'' else ''telemetry_disabled''), ''guardrail_scope'']
         in if native then set_last cs ''native_api_route_isolation'' else cs)
      else checks)"

definition stage_checks :: "int \<Rightarrow> json \<Rightarrow> string list res" where
  "stage_checks stage config =
     require_active stage config (
     bindr (has (val config) ''legacyAccess'') (\<lambda>legacy.
     bindr (has (val config) ''contentAudit'') (\<lambda>content.
     bindr (has (val config) ''observability'') (\<lambda>observed.
     bindr (has (val config) ''l3Audit'') (\<lambda>l3.
     bindr (native_gateway config) (\<lambda>native.
     bindr (deployment_mode config) (\<lambda>mode.
     let cs = snd (STAGES ! nat stage);
         cs = (if stage = 1 \<and> legacy then cs @ [''legacy_source_access''] else cs);
         cs = (if content then content_checks stage observed native cs else cs);
         cs = (if mode = ''greenfield''
               then (case greenfield_checks stage of Some r \<Rightarrow> r | None \<Rightarrow> cs) else cs);
         cs = (if stage = 8 \<and> l3
               then [''native_spend_metadata'', ''l3_protocol_capture'', ''l3_delivery_recovery'',
                     ''l3_query_hold'', ''l3_alerts'', ''native_api_route_isolation'']
               else cs)
     in if stage = 9
        then bindr (approval_policy config) (\<lambda>policy.
          val (if fst policy = ''single-operator'' then set_last cs ''single_operator_release'' else cs))
        else val cs)))))))"

section \<open>Stage fingerprints\<close>

definition pop_when :: "bool \<Rightarrow> string \<Rightarrow> obj \<Rightarrow> obj" where
  "pop_when b k kv = (if b then dict_pop kv k else kv)"

text \<open>\<open>dict(values)\<close> of a parameter object.\<close>

definition scoped_values :: "int \<Rightarrow> string \<Rightarrow> obj \<Rightarrow> obj" where
  "scoped_values stage name selected =
     pop_when (name = ''platform'' \<and> stage < 4) ''stage4RoleAssignmentNaming''
       (pop_when (name = ''platform'' \<and> stage < 4) ''azureOpenAIConnections''
         (pop_when (name = ''platform'' \<and> stage < 5) ''stage5Data'' selected))"

definition scoped_parameters :: "int \<Rightarrow> obj \<Rightarrow> obj res" where
  "scoped_parameters stage params =
     fold_res (\<lambda>(name, values) acc.
       case map_of COMPONENTS name of None \<Rightarrow> Inl KeyError
       | Some c \<Rightarrow>
           if stage < first_stage c then val acc
           else (case values of
                   JObj kv \<Rightarrow> val (dict_set acc name (JObj (scoped_values stage name kv)))
                 | _ \<Rightarrow> Inl TypeError)) params []"

definition scoped_fields :: "int \<Rightarrow> json \<Rightarrow> obj \<Rightarrow> obj" where
  "scoped_fields stage mode config =
     (let s = dict_pop config ''parameters'';
          s = pop_when (stage \<noteq> 4 \<and> stage < 8) ''l3Audit'' s;
          s = (if 4 \<le> stage \<and> stage < 6 then dict_set s ''applicationAuthenticationMode'' mode else s);
          s = pop_when (stage < 1) ''legacyAccess'' s;
          s = pop_when (stage < 2) ''contentAudit'' s;
          s = pop_when (stage < 9) ''dns'' s;
          s = pop_when (stage < 8) ''auditRuntime'' s;
          s = pop_when (stage < 8) ''observability'' s;
          s = pop_when (stage < 8) ''auditGovernance'' s;
          s = pop_when (stage < 7) ''proxy'' s;
          s = pop_when (stage < 7) ''entra'' s;
          s = pop_when (stage < 6) ''application'' s;
          s = pop_when (stage < 5) ''databaseAccess'' s;
          s = pop_when (stage < 4) ''privateIngress'' s;
          s = pop_when (stage < 4) ''certificates'' s
      in s)"

definition bootstrap_workspace :: "json \<Rightarrow> json res" where
  "bootstrap_workspace config =
     bindr (sub (val config) ''parameters'') (\<lambda>ps.
     bindr (dget0 (dgetO (val ps) ''bootstrap'') ''logAnalyticsWorkspaceName'') (\<lambda>own.
     if truth own then val own
     else bindr (dgetO (val ps) ''platform'') (\<lambda>platform.
          dget0 (dget (val ps) ''backup'' platform) ''logAnalyticsWorkspaceName'')))"

definition stage_scope :: "json \<Rightarrow> int \<Rightarrow> json res" where
  "stage_scope config stage =
     bindr (items (val config)) (\<lambda>kv.
     bindr (if 4 \<le> stage \<and> stage < 6
            then dget (dgetO (dgetO (val config) ''application'') ''authentication'') ''mode'' (JStr ''entra'')
            else val JNull) (\<lambda>mode.
     bindr (bootstrap_workspace config) (\<lambda>workspace.
     bindr (items (sub (val config) ''parameters'')) (\<lambda>params.
     bindr (scoped_parameters stage params) (\<lambda>scoped.
     val (JObj (dict_set (dict_set (scoped_fields stage mode kv) ''bootstrapWorkspaceName'' workspace)
       ''parameters'' (JObj scoped))))))))"

definition stage_fingerprint :: "sha \<Rightarrow> json \<Rightarrow> int \<Rightarrow> string res" where
  "stage_fingerprint sha config stage = mapr (fingerprint sha) (stage_scope config stage)"


section \<open>Shared validators\<close>

definition PLACEHOLDERS :: "string list" where
  "PLACEHOLDERS =
     [''replace'', ''example.com'', ''example.net'', ''example.org'', ''example-workspace'',
      ''stage3check'', ''<'', ''>'']"

definition configured_str :: "string \<Rightarrow> bool" where
  "configured_str s \<longleftrightarrow>
     strip s \<noteq> [] \<and> (\<forall>p \<in> set PLACEHOLDERS. \<not> is_substring p (lower s))"

fun configured :: "json \<Rightarrow> bool" where
  "configured (JObj kv) = list_all (\<lambda>(k, v). configured v) kv"
| "configured (JList xs) = list_all configured xs"
| "configured (JStr s) = configured_str s"
| "configured v = (v \<noteq> JNull)"

definition admin_cidr :: "json \<Rightarrow> string res" where
  "admin_cidr item =
     check (val (case item of JStr s \<Rightarrow> CHR ''/'' \<in> set s | _ \<Rightarrow> False))
       ''Admin source entries must use explicit CIDR notation'' (
     bindr (catch_value_error (ip_network True item) ''Invalid Admin source CIDR'') (\<lambda>network.
     check (val (is_global network \<and> (if version network = 4 then 24 else 64) \<le> plen network))
       ''Admin source CIDRs must be public and no broader than /24 IPv4 or /64 IPv6'' (
     val (net_str network))))"

definition admin_source_cidrs :: "json \<Rightarrow> string list res" where
  "admin_source_cidrs value =
     check (val (case value of JList xs \<Rightarrow> 1 \<le> length xs \<and> length xs \<le> 32 | _ \<Rightarrow> False))
       ''Admin access requires one to 32 explicit public source CIDRs'' (
     bindr (list_of (val value)) (\<lambda>entries.
     bindr (map_res admin_cidr entries) (\<lambda>networks.
     check (val (distinct networks)) ''Admin source CIDRs must be unique'' (
     val (sort networks)))))"

definition front_door_private_link_location :: "json \<Rightarrow> json res" where
  "front_door_private_link_location value =
     check (val (value \<in> JStr ` set FRONT_DOOR_PRIVATE_LINK_LOCATIONS))
       ''Azure Front Door Private Link location is unsupported'' (val value)"

text \<open>\<open>scripts/render_stage7_domain.py\<close>\<close>

definition DNS_LABEL :: rx where
  "DNS_LABEL = Seq (lownum_or []) (opt (cat [times 0 61 (lownum_or ''-''), lownum_or []]))"

definition rstrip_dots :: "string \<Rightarrow> string" where
  "rstrip_dots s = rev (dropWhile (\<lambda>c. c = CHR ''.'') (rev s))"

definition is_ip_address :: "string \<Rightarrow> bool" where
  "is_ip_address s \<longleftrightarrow>
     parse_ipv4 s \<noteq> None \<or>
     (case split_scope s of None \<Rightarrow> False | Some (a, sc) \<Rightarrow> parse_ipv6 a \<noteq> None)"

definition domain_hosts :: "json \<Rightarrow> (string \<times> string) res" where
  "domain_hosts base_domain =
     bindr (str_of (val base_domain)) (\<lambda>raw.
     let domain = rstrip_dots (lower (strip raw)); labels = split_on CHR ''.'' domain
     in if length labels < 2 \<or> 253 < length (''llm-admin.'' @ domain)
           \<or> \<not> list_all (rmatch DNS_LABEL) labels
        then Inl (ValueError ''baseDomain must be a DNS name without scheme, port, path or wildcard'')
        else if is_ip_address domain then Inl (ValueError ''baseDomain cannot be an IP address'')
        else if domain = ''example.com'' \<or> ends_with domain ''.example.com''
        then Inl (ValueError ''Replace the example.com placeholder with an environment domain'')
        else val (''llm-api.'' @ domain, ''llm-admin.'' @ domain))"

definition host_patch :: "string \<Rightarrow> string \<Rightarrow> json" where
  "host_patch plane host =
     JObj [(''target'', JObj [(''group'', JStr ''networking.k8s.io''), (''version'', JStr ''v1''),
              (''kind'', JStr ''Ingress''), (''name'', JStr (''llm-'' @ plane))]),
           (''patch'', JStr (dumps_default (JList
             [JObj [(''op'', JStr ''replace''), (''path'', JStr ''/spec/rules/0/host''), (''value'', JStr host)],
              JObj [(''op'', JStr ''replace''), (''path'', JStr ''/spec/tls/0/hosts/0''), (''value'', JStr host)]])))]"

text \<open>\<open>d[a][b] = v\<close> of a dict of dicts.\<close>

definition set_nested :: "obj \<Rightarrow> string \<Rightarrow> string \<Rightarrow> json \<Rightarrow> obj res" where
  "set_nested kv a b v =
     bindr (sub (val (JObj kv)) a) (\<lambda>inner.
     case inner of JObj i \<Rightarrow> val (dict_set kv a (JObj (dict_set i b v))) | _ \<Rightarrow> Inl TypeError)"

definition domain_artifacts :: "json \<Rightarrow> json \<Rightarrow> json \<Rightarrow> (json \<times> json \<times> json list) res" where
  "domain_artifacts base_domain policy admin_application =
     bindr (domain_hosts base_domain) (\<lambda>(api, admin).
     bindr (items (val policy)) (\<lambda>p.
     bindr (items (val admin_application)) (\<lambda>a.
     bindr (set_nested a ''web'' ''redirectUris''
              (JList [JStr (''https://'' @ admin @ ''/auth/callback'')])) (\<lambda>a'.
     val (JObj (dict_update p [(''apiHost'', JStr api), (''adminHost'', JStr admin)]), JObj a',
          [host_patch ''api'' api, host_patch ''admin'' admin])))))"

section \<open>Facts\<close>

lemma admin_cidr_ok:
  assumes "admin_cidr item = Inr s"
  shows "\<exists>n. ip_network True item = Inr n \<and> is_global n \<and>
    (if version n = 4 then 24 else 64) \<le> plen n \<and> s = net_str n"
  using assms by (auto simp: admin_cidr_def py_ok)

lemma domain_hosts_distinct: "domain_hosts v = Inr (api, admin) \<Longrightarrow> api \<noteq> admin"
  by (auto simp: domain_hosts_def py_ok Let_def split: if_splits)

lemma active_stages_bounds:
  "active_stages config = Inr stages \<Longrightarrow> distinct stages \<and> sorted stages \<and> set stages \<subseteq> {0..9}"
  by (auto simp: active_stages_def py_ok intro: sorted_wrt_filter)

lemma dict_pop_comm: "dict_pop (dict_pop kv a) b = dict_pop (dict_pop kv b) a"
  by (auto simp: dict_pop_def intro!: filter_cong)

end
