(* ===== verification/Model_Config.thy ===== *)
theory Model_Config
  imports Py_Url
begin

text \<open>
  \<open>scripts/model_configuration.py\<close>: the per-model options the gateway accepts, the
  normalisation of Azure OpenAI endpoints and the rendering of the LiteLLM model list.
\<close>

section \<open>Fields\<close>

definition COST_FIELDS :: "string list" where
  "COST_FIELDS =
     [''input_cost_per_token'', ''output_cost_per_token'',
      ''cache_creation_input_token_cost'', ''cache_read_input_token_cost'',
      ''input_cost_per_token_above_128k_tokens'', ''output_cost_per_token_above_128k_tokens'',
      ''input_cost_per_token_above_200k_tokens'', ''output_cost_per_token_above_200k_tokens'',
      ''cache_creation_input_token_cost_above_200k_tokens'',
      ''cache_read_input_token_cost_above_200k_tokens'',
      ''input_cost_per_image'', ''input_cost_per_image_token'',
      ''input_cost_per_audio_token'', ''output_cost_per_audio_token'',
      ''output_cost_per_reasoning_token'',
      ''input_cost_per_character'', ''output_cost_per_character'',
      ''input_cost_per_audio_per_second'', ''input_cost_per_video_per_second'',
      ''input_cost_per_video_per_second_above_128k_tokens'', ''input_cost_per_second'',
      ''output_cost_per_second'',
      ''input_cost_per_token_priority'', ''output_cost_per_token_priority'',
      ''input_cost_per_token_flex'', ''output_cost_per_token_flex'',
      ''input_cost_per_token_batches'', ''output_cost_per_token_batches'']"

definition POSITIVE_INTS :: "string list" where
  "POSITIVE_INTS = [''max_tokens'', ''max_completion_tokens'', ''n'', ''rpm'', ''tpm'', ''dimensions'']"

definition PARAM_FIELDS :: "string list" where
  "PARAM_FIELDS = POSITIVE_INTS @
     [''api_version'', ''seed'', ''top_logprobs'', ''num_retries'', ''temperature'', ''top_p'',
      ''presence_penalty'', ''frequency_penalty'', ''timeout'', ''stream'', ''logprobs'', ''stop'',
      ''reasoning_effort'', ''encoding_format'', ''response_format'']"

definition INFO_FIELDS :: "string list" where
  "INFO_FIELDS = COST_FIELDS @
     [''base_model'', ''mode'', ''max_tokens'', ''max_input_tokens'', ''max_output_tokens'']"

definition IDENTIFIER :: rx where
  "IDENTIFIER = cat [alnum_or [], times 0 127 (alnum_or ''._-'')]"

section \<open>Scalars\<close>

definition plain_identifier :: "json \<Rightarrow> bool" where
  "plain_identifier v = (case v of JStr s \<Rightarrow> rmatch IDENTIFIER s | _ \<Rightarrow> False)"

definition identifier_of :: "json \<Rightarrow> json res" where
  "identifier_of v = check (val (plain_identifier v)) ''Model identifiers must be plain'' (val v)"

definition finite_number :: "json \<Rightarrow> int \<Rightarrow> int option \<Rightarrow> unit res" where
  "finite_number v lo hi =
     check (val (is_number v)) ''Model numbers must be numeric literals'' (
     check (val (finite_num v \<and> int_le lo v \<and> (case hi of None \<Rightarrow> True | Some h \<Rightarrow> le_int v h)))
       ''Model number must be finite and within the supported range'' (val ()))"

definition integer :: "json \<Rightarrow> int \<Rightarrow> int \<Rightarrow> unit res" where
  "integer v lo hi =
     check (val (is_int v \<and> int_le lo v \<and> le_int v hi))
       ''Model integer must be an integer literal within the supported range'' (val ())"

definition max_int :: int where
  "max_int = 2 ^ 31 - 1"

definition azure_base_model :: "json \<Rightarrow> json res" where
  "azure_base_model v =
     check (val (is_str v)) ''base_model must be a plain Azure model-family identifier'' (
     bindr (str_of (val v)) (\<lambda>s.
     let name = remove_prefix s ''azure/'' in
     bindr (identifier_of (JStr name)) (\<lambda>_.
     val (JStr (''azure/'' @ name)))))"

section \<open>Options\<close>

definition stop_value_ok :: "json \<Rightarrow> bool" where
  "stop_value_ok v =
     (case (if is_str v then JList [v] else v) of
        JList vs \<Rightarrow> 1 \<le> length vs \<and> length vs \<le> 4 \<and>
          (\<forall>x \<in> set vs. case x of JStr s \<Rightarrow> 1 \<le> length s \<and> length s \<le> 1024 | _ \<Rightarrow> False)
      | _ \<Rightarrow> False)"

definition response_format_ok :: "json \<Rightarrow> bool" where
  "response_format_ok v =
     (case v of JObj kv \<Rightarrow> set (keys_of kv) = {''type''} \<and>
        lookup_or kv ''type'' JNull \<in> {JStr ''text'', JStr ''json_object''}
      | _ \<Rightarrow> False)"

definition validate_param :: "string \<Rightarrow> json \<Rightarrow> unit res" where
  "validate_param field v =
     (if field \<in> set POSITIVE_INTS then integer v 1 max_int
      else if field = ''api_version'' then bindr (identifier_of v) (\<lambda>_. val ())
      else if field = ''seed'' then integer v (- (2 ^ 63)) (2 ^ 63 - 1)
      else if field = ''top_logprobs'' then integer v 0 20
      else if field = ''num_retries'' then integer v 0 max_int
      else if field = ''temperature'' then finite_number v 0 (Some 2)
      else if field = ''top_p'' then finite_number v 0 (Some 1)
      else if field = ''presence_penalty'' \<or> field = ''frequency_penalty''
        then finite_number v (- 2) (Some 2)
      else if field = ''timeout'' then
        seqr (finite_number v 0 None) (
        check (val (\<not> le_int v 0)) ''timeout must be positive'' (val ()))
      else if field = ''stream'' \<or> field = ''logprobs'' then
        check (val (is_bool v)) (field @ '' must be a boolean'') (val ())
      else if field = ''stop'' then
        check (val (stop_value_ok v)) ''stop must be one to four nonempty strings'' (val ())
      else if field = ''reasoning_effort'' then
        check (val (v \<in> {JStr ''low'', JStr ''medium'', JStr ''high''}))
          ''reasoning_effort must be low, medium or high'' (val ())
      else if field = ''encoding_format'' then
        check (val (v \<in> {JStr ''float'', JStr ''base64''}))
          ''encoding_format must be float or base64'' (val ())
      else if field = ''response_format'' then
        check (val (response_format_ok v))
          ''response_format supports only {type:text|json_object}'' (val ())
      else val ())"

definition validate_info :: "string \<Rightarrow> json \<Rightarrow> unit res" where
  "validate_info field v =
     (if field \<in> set COST_FIELDS then finite_number v 0 None
      else if starts_with field ''max_'' then integer v 1 max_int
      else if field = ''base_model'' then bindr (azure_base_model v) (\<lambda>_. val ())
      else if field = ''mode'' then
        check (val (v \<in> {JStr ''chat'', JStr ''embedding'', JStr ''completion''}))
          ''model_info.mode must be chat, embedding or completion'' (val ())
      else val ())"

definition allowed_params :: "bool \<Rightarrow> string list" where
  "allowed_params catalog =
     (if catalog then PARAM_FIELDS else filter (\<lambda>f. f \<noteq> ''api_version'') PARAM_FIELDS)"

definition allowed_info :: "bool \<Rightarrow> string list" where
  "allowed_info catalog =
     (if catalog then INFO_FIELDS else filter (\<lambda>f. f \<noteq> ''base_model'') INFO_FIELDS)"

definition validate_options :: "json \<Rightarrow> json \<Rightarrow> bool \<Rightarrow> unit res" where
  "validate_options params info catalog =
     check (val (is_dict params \<and> is_dict info)) ''litellm_params/model_info must be objects'' (
     bindr (items (val params)) (\<lambda>ps.
     bindr (items (val info)) (\<lambda>is.
     check (val (''cost_per_second'' \<notin> set (keys_of is) \<and> ''cost_per_second'' \<notin> set (keys_of ps)))
       ''cost_per_second requires LiteLLM >=1.105; this gateway pins 1.104'' (
     check (val ((\<forall>k \<in> set (keys_of ps). k \<in> set (allowed_params catalog)) \<and>
                 (\<forall>k \<in> set (keys_of is). k \<in> set (allowed_info catalog))))
       ''Unsupported/reserved model fields'' (
     check (val (\<forall>p \<in> set (ps @ is). snd p \<noteq> JNull)) ''Model options cannot be null'' (
     seqr (each (\<lambda>(field, v). validate_param field v) ps) (
     check (val (\<not> (''max_tokens'' \<in> set (keys_of ps) \<and> ''max_completion_tokens'' \<in> set (keys_of ps))))
       ''Specify only one of max_tokens and max_completion_tokens'' (
     each (\<lambda>(field, v). validate_info field v) is))))))))"

section \<open>Endpoints\<close>

definition OPENAI_HOST :: rx where
  "OPENAI_HOST =
     cat [lownum_or [], times 0 61 (lownum_or ''-''), lownum_or [], lit ''.openai.azure.com'']"

definition no_blank :: "string \<Rightarrow> bool" where
  "no_blank s \<longleftrightarrow> s = strip s \<and> list_all (\<lambda>c. \<not> (code c \<le> 32 \<or> code c = 127)) s
     \<and> CHR ''?'' \<notin> set s \<and> CHR ''#'' \<notin> set s"

definition openai_url_ok :: "url \<Rightarrow> int option \<Rightarrow> bool" where
  "openai_url_ok u p =
     (scheme u = ''https'' \<and>
      (case hostname u of
         None \<Rightarrow> False
       | Some h \<Rightarrow> rmatch OPENAI_HOST h \<and> username u = None \<and> password u = None
           \<and> (p = None \<or> p = Some 443)
           \<and> (lower (netloc u) = h \<or> lower (netloc u) = h @ '':443'')
           \<and> (path u = '''' \<or> path u = ''/'') \<and> query u = '''' \<and> fragment u = ''''))"

definition normalize_openai_endpoint :: "json \<Rightarrow> string res" where
  "normalize_openai_endpoint endpoint =
     check (val (is_str endpoint)) ''Azure OpenAI endpoint must be a literal HTTPS URL'' (
     bindr (str_of (val endpoint)) (\<lambda>s.
     check (val (no_blank s)) ''Azure OpenAI endpoint cannot contain whitespace, query or fragment'' (
     bindr (catch_value_error (bindr (urlsplit s) (\<lambda>u. bindr (port u) (\<lambda>p. val (u, p))))
             ''Azure OpenAI endpoint has an invalid URL or port'') (\<lambda>(u, p).
     check (val (openai_url_ok u p))
       ''Only plain public-cloud Azure OpenAI HTTPS account roots on port 443 are supported'' (
     val (''https://'' @ the (hostname u)))))))"

definition connection_endpoint :: "json \<Rightarrow> string res" where
  "connection_endpoint connection =
     ifr (val (\<not> is_dict connection)) (Inl AttributeError) (
     bindr (bindr (sub (val connection) ''accountName'') (\<lambda>n.
              case n of JStr s \<Rightarrow> val (''https://'' @ s @ ''.openai.azure.com'') | _ \<Rightarrow> Inl TypeError)) (\<lambda>d.
     bindr (dget (val connection) ''endpoint'' (JStr d)) normalize_openai_endpoint))"

section \<open>Rendering\<close>

definition rendered_model :: "keyed \<Rightarrow> json \<Rightarrow> json res" where
  "rendered_model accounts model =
     bindr (dgetO (val model) ''litellmParams'') (\<lambda>params.
     bindr (dgetO (val model) ''modelInfo'') (\<lambda>info.
     seqr (validate_options params info False) (
     bindr (has (val model) ''baseModel'') (\<lambda>hasBase.
     bindr (if hasBase then mapr (\<lambda>b. [(''base_model'', b)]) (sub (val model) ''baseModel'') else val []) (\<lambda>base.
     bindr (sub (val model) ''modelGroup'') (\<lambda>group.
     bindr (items (val params)) (\<lambda>ps.
     bindr (bindr (sub (val model) ''deploymentName'') (\<lambda>d.
              case d of JStr s \<Rightarrow> val (''azure/'' @ s) | _ \<Rightarrow> Inl TypeError)) (\<lambda>modelName.
     bindr (bindr (key_sub accounts (sub (val model) ''connectionAlias'')) connection_endpoint) (\<lambda>apiBase.
     bindr (sub (val model) ''apiVersion'') (\<lambda>apiVersion.
     bindr (items (val info)) (\<lambda>is.
     bindr (sub (val model) ''id'') (\<lambda>identity.
     val (JObj
       [(''model_name'', group),
        (''litellm_params'', JObj (dict_update ps
           ([(''model'', JStr modelName), (''api_base'', JStr apiBase), (''api_version'', apiVersion)] @ base))),
        (''model_info'', JObj (dict_update is ([(''id'', identity)] @ base)))])))))))))))))"

definition rendered_models :: "json \<Rightarrow> json list res" where
  "rendered_models config =
     bindr (iter (sub (sub (sub (val config) ''parameters'') ''platform'') ''azureOpenAIConnections'')) (\<lambda>connections.
     bindr (index_by ''alias'' connections) (\<lambda>accounts.
     bindr (iter (sub (sub (val config) ''application'') ''models'')) (\<lambda>models.
     map_res (rendered_model accounts) models)))"

definition pricing_warnings :: "json \<Rightarrow> string list res" where
  "pricing_warnings config =
     bindr (iter (sub (sub (val config) ''application'') ''models'')) (\<lambda>models.
     bindr (filter_res (\<lambda>model.
       conjr (eqr (dget0 (dgetO (val model) ''modelInfo'') ''input_cost_per_token'') (val (JInt 0)))
             (eqr (dget0 (dgetO (val model) ''modelInfo'') ''output_cost_per_token'') (val (JInt 0)))) models) (\<lambda>free.
     map_res (\<lambda>model. bindr (sub (val model) ''id'') (\<lambda>i.
       case i of JStr s \<Rightarrow>
         val (''Explicit zero input/output token costs bypass LiteLLM budget checks: '' @ s)
       | _ \<Rightarrow> Inl TypeError)) free))"

section \<open>Facts\<close>

text \<open>The keys a provider, an endpoint or a credential would be configured with.\<close>

definition reserved_params :: "string list" where
  "reserved_params =
     [''api_key'', ''api_base'', ''model'', ''base_url'', ''custom_llm_provider'', ''extra_headers'',
      ''headers'', ''ssl_verify'', ''azure_ad_token'', ''client_secret'', ''callbacks'']"

lemma identifier_ok: "identifier_of v = Inr w \<longleftrightarrow> w = v \<and> (\<exists>s. v = JStr s \<and> rmatch IDENTIFIER s)"
  by (auto simp: identifier_of_def plain_identifier_def py_ok split: json.splits)

lemma validate_options_keys:
  assumes "validate_options (JObj ps) (JObj is) c = Inr ()"
  shows "set (keys_of ps) \<subseteq> set (allowed_params c)" and "set (keys_of is) \<subseteq> set (allowed_info c)"
  using assms by (auto simp: validate_options_def py_ok)

lemma validate_options_dicts:
  "validate_options params info c = Inr () \<Longrightarrow> \<exists>ps is. params = JObj ps \<and> info = JObj is"
  by (auto simp: validate_options_def py_ok is_dict_iff)

lemma reserved_not_allowed: "set reserved_params \<inter> set PARAM_FIELDS = {}"
  by (simp add: reserved_params_def PARAM_FIELDS_def POSITIVE_INTS_def)

lemma allowed_params_subset: "set (allowed_params c) \<subseteq> set PARAM_FIELDS"
  by (auto simp: allowed_params_def)

lemma normalize_endpoint_shape:
  assumes "normalize_openai_endpoint v = Inr e"
  shows "\<exists>h. e = ''https://'' @ h \<and> rmatch OPENAI_HOST h"
  using assms by (auto simp: normalize_openai_endpoint_def openai_url_ok_def py_ok split: option.splits)

end
