(* ===== verification/Runtime_Settings.thy ===== *)
theory Runtime_Settings
  imports Py_Text
begin

text \<open>
  \<open>scripts/runtime_configuration.py\<close>: the closed, non-secret subset of runtime overrides.
  \<open>validate_runtime_settings\<close> accepts exactly the reviewed sections and fields,
  \<open>apply_runtime_settings\<close> merges the validated leaves into a runtime configuration.
\<close>

section \<open>The reviewed fields\<close>

definition ROUTING_STRATEGIES :: "string list" where
  "ROUTING_STRATEGIES =
     [''simple-shuffle'', ''least-busy'', ''usage-based-routing'',
      ''usage-based-routing-v2'', ''latency-based-routing'', ''cost-based-routing'']"

definition SUPPORTED_FIELDS :: "(string \<times> string list) list" where
  "SUPPORTED_FIELDS =
     [(''general_settings'', [''disable_env_credential_login'', ''ui_access_mode'']),
      (''litellm_settings'',
        [''request_timeout'', ''drop_params'', ''modify_params'', ''force_ipv4'', ''set_verbose'']),
      (''router_settings'',
        [''routing_strategy'', ''num_retries'', ''allowed_fails'', ''cooldown_time'',
         ''timeout'', ''stream_timeout'', ''retry_after'', ''enable_pre_call_checks''])]"

definition RS_BOOLEANS :: "string list" where
  "RS_BOOLEANS =
     [''disable_env_credential_login'', ''drop_params'', ''modify_params'', ''force_ipv4'',
      ''enable_pre_call_checks'']"

definition RS_INTEGERS :: "string list" where
  "RS_INTEGERS = [''num_retries'', ''allowed_fails'']"

definition RS_POSITIVE_NUMBERS :: "string list" where
  "RS_POSITIVE_NUMBERS = [''request_timeout'', ''timeout'', ''stream_timeout'']"

section \<open>Validation\<close>

definition validate_field :: "string \<Rightarrow> json \<Rightarrow> unit res" where
  "validate_field field value =
     (if field \<in> set RS_BOOLEANS then
        check (val (is_bool value)) ''Runtime setting must be a boolean literal'' (val ())
      else if field = ''set_verbose'' then
        check (val (value = JBool False)) ''Runtime verbose logging may only be disabled'' (val ())
      else if field = ''ui_access_mode'' then
        check (val (value = JStr ''all'' \<or> value = JStr ''admin_only''))
          ''Runtime UI access mode must be all or admin_only'' (val ())
      else if field = ''routing_strategy'' then
        check (val (value \<in> JStr ` set ROUTING_STRATEGIES))
          ''Runtime routing strategy must be a supported built-in strategy'' (val ())
      else if field \<in> set RS_INTEGERS then
        check (val (is_int value \<and> int_le 0 value))
          ''Runtime retry/failure count must be a nonnegative integer literal'' (val ())
      else
        check (val (is_number value)) ''Runtime duration must be a numeric literal'' (
        check (val (finite_num value)) ''Runtime duration must be finite'' (
        check (val (if field \<in> set RS_POSITIVE_NUMBERS then \<not> le_int value 0 else int_le 0 value))
          ''Runtime duration must be positive for timeouts and nonnegative otherwise'' (val ()))))"

definition validate_section :: "string \<times> json \<Rightarrow> unit res" where
  "validate_section p =
     check (val (is_dict (snd p))) ''Runtime sections must be objects'' (
     bindr (items (val (snd p))) (\<lambda>settings.
     check (val (\<forall>k \<in> set (keys_of settings). k \<in> set (the (map_of SUPPORTED_FIELDS (fst p)))))
       ''Unsupported/reserved runtime field'' (
     each (\<lambda>(field, setting).
       check (val (setting \<noteq> JNull)) ''Runtime settings cannot be null'' (
       validate_field field setting)) settings)))"

definition validate_runtime_settings :: "json \<Rightarrow> json res" where
  "validate_runtime_settings value =
     check (val (is_dict value)) ''Runtime settings must be an object'' (
     bindr (items (val value)) (\<lambda>kv.
     check (val (\<forall>k \<in> set (keys_of kv). k \<in> fst ` set SUPPORTED_FIELDS))
       ''Unsupported/reserved runtime section'' (
     seqr (each validate_section kv) (
     val value))))"

definition parse_patch :: "json \<Rightarrow> json res" where
  "parse_patch document =
     check (val (is_dict document)) ''Runtime patch must be an object'' (
     bindr (items (val document)) (\<lambda>kv.
     check (val (\<forall>k \<in> set (keys_of kv). k \<in> fst ` set SUPPORTED_FIELDS \<or> k = ''schema_version''))
       ''Unsupported/reserved runtime patch field'' (
     check (val (lookup_or kv ''schema_version'' JNull = JInt 1))
       ''Runtime patch schema_version must be the integer 1'' (
     bindr (validate_runtime_settings (JObj (filter (\<lambda>p. fst p \<noteq> ''schema_version'') kv))) (\<lambda>settings.
     bindr (items (val settings)) (\<lambda>sections.
     check (val (\<exists>p \<in> set sections. truth (snd p)))
       ''Runtime patch must contain at least one setting'' (
     val settings)))))))"

definition runtime_overrides :: "json \<Rightarrow> json res" where
  "runtime_overrides config =
     check (val (is_dict config)) ''Runtime configuration must be an object'' (
     bindr (dgetO (val config) ''application'') (\<lambda>application.
     check (val (is_dict application)) ''Runtime application configuration must be an object'' (
     bindr (dgetO (val application) ''runtimeSettings'') validate_runtime_settings)))"

section \<open>Merging\<close>

text \<open>\<open>result.setdefault(section, {}).update(values)\<close>\<close>

fun merge_section :: "obj \<Rightarrow> string \<Rightarrow> obj \<Rightarrow> obj res" where
  "merge_section result section values =
     check (val (case map_of result section of None \<Rightarrow> True | Some v \<Rightarrow> is_dict v))
       ''Existing targeted runtime sections must be objects'' (
     bindr (items (val (lookup_or result section (JObj [])))) (\<lambda>old.
     val (dict_set result section (JObj (dict_update old values)))))"

definition apply_runtime_settings :: "json \<Rightarrow> json \<Rightarrow> json res" where
  "apply_runtime_settings runtime overrides =
     bindr (validate_runtime_settings overrides) (\<lambda>settings.
     check (val (is_dict runtime)) ''Runtime configuration must be an object'' (
     bindr (items (val settings)) (\<lambda>sections.
     bindr (items (val runtime)) (\<lambda>result.
     mapr JObj (fold_res (\<lambda>(section, values) r.
       bindr (items (val values)) (merge_section r section)) sections result)))))"

section \<open>What is accepted\<close>

text \<open>The reviewed subset as a predicate: the abstract specification of the validator.\<close>

definition field_ok :: "string \<Rightarrow> json \<Rightarrow> bool" where
  "field_ok field v \<longleftrightarrow> validate_field field v = Inr ()"

definition section_ok :: "string \<Rightarrow> obj \<Rightarrow> bool" where
  "section_ok section kv \<longleftrightarrow>
     (\<exists>fields. map_of SUPPORTED_FIELDS section = Some fields \<and>
        (\<forall>(f, v) \<in> set kv. f \<in> set fields \<and> v \<noteq> JNull \<and> field_ok f v))"

definition settings_ok :: "json \<Rightarrow> bool" where
  "settings_ok value \<longleftrightarrow>
     (\<exists>kv. value = JObj kv \<and> (\<forall>(s, v) \<in> set kv. \<exists>fields. v = JObj fields \<and> section_ok s fields))"

lemma supported_some: "k \<in> fst ` set SUPPORTED_FIELDS \<longleftrightarrow> map_of SUPPORTED_FIELDS k \<noteq> None"
  by (simp add: map_of_eq_None_iff)

lemma validate_section_ok:
  assumes "s \<in> fst ` set SUPPORTED_FIELDS"
  shows "validate_section (s, v) = Inr () \<longleftrightarrow> (\<exists>kv. v = JObj kv \<and> section_ok s kv)"
proof -
  obtain fields where f: "map_of SUPPORTED_FIELDS s = Some fields"
    using assms supported_some by blast
  show ?thesis
    by (cases v) (auto simp: validate_section_def section_ok_def field_ok_def f py_ok keys_of_def
        split: prod.splits)
qed

lemma settings_ok_sections:
  "settings_ok (JObj kv) \<longleftrightarrow>
     (\<forall>k \<in> set (keys_of kv). k \<in> fst ` set SUPPORTED_FIELDS) \<and>
     (\<forall>p \<in> set kv. validate_section p = Inr ())"
  (is "?l \<longleftrightarrow> ?r")
proof
  assume l: ?l
  have "s \<in> fst ` set SUPPORTED_FIELDS \<and> validate_section (s, v) = Inr ()" if "(s, v) \<in> set kv" for s v
  proof -
    from l that obtain fields where "v = JObj fields" "section_ok s fields"
      by (auto simp: settings_ok_def)
    moreover from this have "s \<in> fst ` set SUPPORTED_FIELDS"
      by (auto simp: section_ok_def supported_some simp del: set_map)
    ultimately show ?thesis using validate_section_ok by blast
  qed
  then show ?r by (fastforce simp: keys_of_def)
next
  assume r: ?r
  have "\<exists>fields. v = JObj fields \<and> section_ok s fields" if "(s, v) \<in> set kv" for s v
    using r that validate_section_ok [of s v] by (force simp: keys_of_def)
  then show ?l by (auto simp: settings_ok_def)
qed

lemma validate_runtime_settings_iff:
  "validate_runtime_settings v = Inr w \<longleftrightarrow> settings_ok v \<and> w = v"
proof (cases v)
  case (JObj kv)
  then show ?thesis
    by (auto simp: validate_runtime_settings_def settings_ok_sections py_ok)
qed (auto simp: validate_runtime_settings_def settings_ok_def py_ok)

end
