(* ===== verification/Settings.thy ===== *)
theory Settings
  imports Customer_Base Model_Config Runtime_Settings
begin

text \<open>
  The settings validators of the optional configuration sections, one per module under
  \<open>scripts/\<close>, which \<open>validate_config\<close> of \<open>customer_migration.py\<close> calls.  Each returns the
  accepted section or the exception the code raises.
\<close>

section \<open>Shared shapes\<close>

text \<open>\<open>prefix + e\<close>: a \<open>TypeError\<close> for anything but a string.\<close>

definition prefixed :: "string \<Rightarrow> json res \<Rightarrow> string res" where
  "prefixed p e = bindr e (\<lambda>v. case v of JStr s \<Rightarrow> val (p @ s) | _ \<Rightarrow> Inl TypeError)"

lemma prefixed_ok [py_ok]: "prefixed p e = Inr s \<longleftrightarrow> (\<exists>t. e = Inr (JStr t) \<and> s = p @ t)"
proof -
  have "(case v of JStr s \<Rightarrow> val (p @ s) | _ \<Rightarrow> Inl TypeError) = Inr s \<longleftrightarrow> (\<exists>t. v = JStr t \<and> s = p @ t)" for v
    by (cases v) auto
  then show ?thesis by (auto simp: prefixed_def bindr_ok)
qed

definition any_but_newline :: rx where
  "any_but_newline = Cls (\<lambda>c. c \<noteq> CHR 0x0A)"

definition hex_any :: rx where
  "hex_any = Cls (\<lambda>c. is_digit c \<or> between 97 102 c \<or> between 65 70 c \<or> c = CHR ''-'')"

definition DNS_ZONE_ID :: rx where
  "DNS_ZONE_ID =
     cat [lit ''/subscriptions/'', times 36 36 hex_any, lit ''/resourceGroups/'',
          plus1 (alnum_or ''_.()-''), lit ''/providers/Microsoft'', any_but_newline,
          lit ''Network/dnsZones/'', plus1 (lownum_or ''.-'')]"

definition after_last_slash :: "string \<Rightarrow> string" where
  "after_last_slash s = (case rcut_at CHR ''/'' s of None \<Rightarrow> s | Some (a, b) \<Rightarrow> b)"

text \<open>The three groups: subscription, resource group and zone name.\<close>

definition dns_zone_match :: "string \<Rightarrow> (string \<times> string \<times> string) option" where
  "dns_zone_match s =
     (if rmatch DNS_ZONE_ID s
      then Some (take 36 (drop 15 s), takeWhile (\<lambda>c. c \<noteq> CHR ''/'') (drop 67 s), after_last_slash s)
      else None)"

text \<open>The pattern of a VNet is matched with \<open>re.I\<close>: against the lower-cased text.\<close>

definition VNET_ID :: rx where
  "VNET_ID =
     cat [lit ''/subscriptions/'', times 36 36 (Cls (\<lambda>c. is_digit c \<or> between 97 102 c \<or> c = CHR ''-'')),
          lit ''/resourcegroups/'', times 1 90 (lownum_or ''_().-''), lit ''/providers/microsoft'',
          any_but_newline, lit ''network/virtualnetworks/'', times 1 64 (lownum_or ''_.-'')]"

definition vnet_match :: "json \<Rightarrow> (string \<times> string \<times> string) option" where
  "vnet_match v =
     (case v of
        JStr s \<Rightarrow>
          if rmatch VNET_ID (lower s)
          then Some (take 36 (drop 15 s), takeWhile (\<lambda>c. c \<noteq> CHR ''/'') (drop 67 s), after_last_slash s)
          else None
      | _ \<Rightarrow> None)"

definition digest_image :: "string \<Rightarrow> rx" where
  "digest_image registry =
     cat [lit registry, lit ''.azurecr.io/'', lownum_or [], star (lownum_or ''/._-''),
          lit ''@sha256:'', times 64 64 hexlow]"

definition VAULT_HOST :: rx where
  "VAULT_HOST = cat [plus1 (lownum_or ''-''), lit ''.vault.azure.net'']"

definition registry_of :: "json \<Rightarrow> json res" where
  "registry_of config =
     sub (sub (sub (val config) ''parameters'') ''platform'') ''containerRegistryName''"

section \<open>\<open>proxy_config.py\<close>\<close>

definition object_id :: "json \<Rightarrow> string res" where
  "object_id value =
     check (val (is_str value)) ''Entra identity must be a UUID string'' (
     bindr (uuid_int value) (\<lambda>n.
     check (val (n \<noteq> 0)) ''Entra identity cannot be zero'' (
     val (uuid_str n))))"

definition binding_fields :: "string list" where
  "binding_fields =
     [''oid'', ''plane'', ''role'', ''models'', ''disabled'', ''auditTeamId'', ''principalType'',
      ''clientIds'', ''nativeAuditRead'']"

definition native_audit_read_ok :: "json \<Rightarrow> json \<Rightarrow> string \<Rightarrow> bool res" where
  "native_audit_read_ok settings binding plane =
     conjr (testr is_bool (sub (val binding) ''nativeAuditRead''))
    (conjr (val (plane = ''admin''))
    (conjr (in_strs (dget0 (val binding) ''role'') [''proxy_admin'', ''proxy_admin_viewer''])
           (testr (\<lambda>v. v = JBool True) (dget0 (val settings) ''nativeUi''))))"

definition client_ids_ok :: "json \<Rightarrow> json list \<Rightarrow> string \<Rightarrow> json \<Rightarrow> bool res" where
  "client_ids_ok binding clients plane ptype =
     bindr (sub (val binding) ''clientIds'') (\<lambda>selected.
     conjr (val (plane = ''api'' \<and> ptype = JStr ''User'' \<and> is_list selected \<and> truth selected))
      (bindr (list_of (val selected)) (\<lambda>xs.
       bindr (map_res object_id xs) (\<lambda>ids.
       conjr (val (distinct ids))
         (bindr (map_res object_id clients) (\<lambda>approved. val (set ids \<subseteq> set approved)))))))"

definition models_ok :: "json \<Rightarrow> json list \<Rightarrow> bool" where
  "models_ok models groups =
     (case models of
        JList ms \<Rightarrow> ms \<noteq> [] \<and> (\<forall>m \<in> set ms. is_str m) \<and> distinct ms \<and> set ms \<subseteq> set groups
      | _ \<Rightarrow> False)"

definition audit_team :: rx where
  "audit_team = times 1 128 (alnum_or ''-'')"

text \<open>One pass of the loop over the bindings; the state holds the identities seen so far.\<close>

definition check_binding ::
    "json \<Rightarrow> json list \<Rightarrow> json list \<Rightarrow> json \<Rightarrow> (json \<times> string) list \<Rightarrow> (json \<times> string) list res" where
  "check_binding settings clients groups binding seen =
     check (val (keys_within binding_fields binding)) ''Unexpected proxy binding fields'' (
     bindr (dget0 (val binding) ''plane'') (\<lambda>plane.
     bindr (bindr (dget0 (val binding) ''oid'') object_id) (\<lambda>oid.
     check (conjr (in_strs (val plane) [''api'', ''admin'']) (val ((plane, oid) \<notin> set seen)))
       ''Invalid plane or duplicate identity binding'' (
     bindr (str_of (val plane)) (\<lambda>p.
     bindr (has (val binding) ''nativeAuditRead'') (\<lambda>nar.
     seqr (whenr nar (check (native_audit_read_ok settings binding p)
            ''Native content read requires an approved native UI administrator'' (val ()))) (
     bindr (dget (val binding) ''principalType'' (JStr ''User'')) (\<lambda>ptype.
     check (conjr (in_strs (val ptype) [''User'', ''ServicePrincipal''])
              (val (p \<noteq> ''admin'' \<or> ptype = JStr ''User''))) ''Admin bindings require users'' (
     bindr (has (val binding) ''clientIds'') (\<lambda>cid.
     seqr (whenr cid (check (client_ids_ok binding clients p ptype)
            ''Delegated binding clientIds must be a nonempty subset of approved API clients'' (val ()))) (
     check (testr is_bool (dget (val binding) ''disabled'' (JBool False)))
       ''Binding disabled flag must be boolean'' (
     bindr (dget0 (val binding) ''role'') (\<lambda>role.
     bindr (dget0 (val binding) ''models'') (\<lambda>models.
     bindr (has (val binding) ''models'') (\<lambda>hasModels.
     bindr (has (val binding) ''auditTeamId'') (\<lambda>team.
     if role = JStr ''audit_reader''
     then check (val (p = ''admin'' \<and> \<not> truth models \<and> \<not> team))
            ''Audit readers must not carry backend model privileges'' (val ((plane, oid) # seen))
     else check (conjr (in_strs (val role) [''internal_user'', ''proxy_admin_viewer'', ''proxy_admin''])
                   (val ((p = ''api'') = (role = JStr ''internal_user'')))) ''Proxy role does not match its plane'' (
          seqr (if p = ''api''
                then check (val (\<not> hasModels)) ''Remove API binding models'' (val ())
                else check (val (models_ok models groups))
                       ''Binding models must explicitly reference approved model groups'' (val ())) (
          seqr (whenr team (check (conjr (val (p = ''api''))
                   (mapr (matches_str audit_team) (sub (val binding) ''auditTeamId'')))
                 ''Invalid trusted audit team mapping'' (val ()))) (
          val ((plane, oid) # seen))))))))))))))))))))"

definition model_groups :: "json \<Rightarrow> json list res" where
  "model_groups config =
     bindr (iter (dget (dgetO (val config) ''application'') ''models'' (JList []))) (\<lambda>models.
     bindr (map_res (\<lambda>item. sub (val item) ''modelGroup'') models) (\<lambda>groups.
     if \<forall>g \<in> set groups. hashable g then val groups else Inl TypeError))"

definition proxy_image_ok :: "json \<Rightarrow> json \<Rightarrow> bool res" where
  "proxy_image_ok config settings =
     bindr (str_of (registry_of config)) (\<lambda>registry.
     mapr (matches_str (digest_image (lower registry))) (sub (val settings) ''image''))"

definition proxy_settings :: "json \<Rightarrow> json res" where
  "proxy_settings config =
     bindr (dgetO (val config) ''proxy'') (\<lambda>settings.
     check (val (keys_within [''apiClientIds'', ''bindings'', ''image'', ''nativeUi''] settings \<and>
                 (case settings of JObj kv \<Rightarrow> {''apiClientIds'', ''bindings''} \<subseteq> set (keys_of kv) | _ \<Rightarrow> False)))
       ''proxy requires apiClientIds and bindings, with optional approved image and nativeUi'' (
     check (testr is_bool (dget (val settings) ''nativeUi'' (JBool False)))
       ''nativeUi must be an explicit boolean'' (
     bindr (has (val settings) ''image'') (\<lambda>image.
     seqr (whenr image (check (proxy_image_ok config settings)
            ''Proxy image must pin a digest in the approved ACR'' (val ()))) (
     bindr (sub (val settings) ''apiClientIds'') (\<lambda>clients.
     check (val (is_list clients \<and> truth clients)) ''API client IDs must be nonempty and unique'' (
     bindr (list_of (val clients)) (\<lambda>cs.
     bindr (map_res object_id cs) (\<lambda>ids.
     check (val (distinct ids)) ''API client IDs must be nonempty and unique'' (
     bindr (sub (val settings) ''bindings'') (\<lambda>bindings.
     check (val (is_list bindings \<and> truth bindings)) ''Explicit proxy identity bindings are required'' (
     bindr (list_of (val bindings)) (\<lambda>bs.
     bindr (model_groups config) (\<lambda>groups.
     bindr (fold_res (check_binding settings cs groups) bs []) (\<lambda>seen.
     check (any_res (\<lambda>b. eqs (sub (val b) ''plane'') ''api'') bs)
       ''At least one explicit API binding is required'' (
     check (any_res (\<lambda>b. conjr (eqs (sub (val b) ''plane'') ''admin'')
               (negr (testr truth (dget0 (val b) ''disabled'')))) bs)
       ''At least one enabled admin binding is required'' (
     val settings)))))))))))))))))"

definition credential_name :: "sha \<Rightarrow> json \<Rightarrow> json \<Rightarrow> string res" where
  "credential_name sha tenant binding =
     bindr (object_id tenant) (\<lambda>t.
     bindr (sub (val binding) ''plane'') (\<lambda>plane.
     bindr (bindr (sub (val binding) ''oid'') object_id) (\<lambda>oid.
     case plane of
       JStr p \<Rightarrow> val (''key-'' @ take 48 (sha (t @ '':'' @ p @ '':'' @ oid)))
     | _ \<Rightarrow> Inl TypeError)))"


section \<open>\<open>entra_apps.py\<close>\<close>

definition entra_access_separate :: "json \<Rightarrow> json \<Rightarrow> bool res" where
  "entra_access_separate config settings =
     bindr (bindr (sub (val settings) ''accessPrincipalId'') object_id) (\<lambda>access.
     bindr (bindr (sub (val settings) ''bootstrapPrincipalId'') object_id) (\<lambda>bootstrap.
     conjr (val (access \<noteq> bootstrap))
       (bindr (str_of (dget (dgetO (val config) ''databaseAccess'') ''migrationPrincipalId'' (JStr []))) (\<lambda>m.
        val (access \<noteq> lower m)))))"

definition entra_settings :: "json \<Rightarrow> json res" where
  "entra_settings config =
     bindr (dgetO (val config) ''entra'') (\<lambda>settings.
     check (val (keys_within [''bootstrapPrincipalId'', ''credentialLifetimeDays'', ''accessPrincipalId''] settings))
       ''Invalid Entra bootstrap fields'' (
     bindr (bindr (dget0 (val settings) ''bootstrapPrincipalId'') object_id) (\<lambda>bootstrap.
     bindr (has (val config) ''databaseAccess'') (\<lambda>db.
     seqr (whenr db (
       bindr (bindr (sub (sub (val config) ''databaseAccess'') ''migrationPrincipalId'') object_id) (\<lambda>migration.
       check (val (bootstrap \<noteq> migration))
         ''Entra bootstrap and database migration identities must be distinct'' (val ())))) (
     bindr (has (val settings) ''accessPrincipalId'') (\<lambda>access.
     seqr (whenr access (check (entra_access_separate config settings)
            ''Entra access grant identity must be separate'' (val ()))) (
     bindr (dget (val settings) ''credentialLifetimeDays'' (JInt 90)) (\<lambda>days.
     check (val (is_int days \<and> int_le 30 days \<and> le_int days 180))
       ''Entra credential lifetime must be 30-180 days'' (
     val settings)))))))))"

section \<open>\<open>backend_manifest.py\<close>\<close>

definition ADMIN_USERNAME :: rx where
  "ADMIN_USERNAME = cat [alnum_or [], times 2 127 (alnum_or ''._@-'')]"

definition application_authentication :: "json \<Rightarrow> json res" where
  "application_authentication config =
     bindr (dget (dgetO (val config) ''application'') ''authentication'' (JObj [(''mode'', JStr ''entra'')])) (\<lambda>authentication.
     check (conjr (val (is_dict authentication))
              (in_strs (dget0 (val authentication) ''mode'') [''entra'', ''native'']))
       ''Application authentication mode must be entra or native'' (
     bindr (sub (val authentication) ''mode'') (\<lambda>mode.
     if mode = JStr ''entra''
     then check (val (keys_are [''mode''] authentication))
            ''Entra application authentication does not accept native credentials'' (val authentication)
     else check (val (keys_are [''mode'', ''adminUsername''] authentication))
            ''Native application authentication requires adminUsername'' (
          bindr (sub (val authentication) ''adminUsername'') (\<lambda>user.
          check (val (matches_str ADMIN_USERNAME user))
            ''Native admin username must be a plain identifier'' (val authentication))))))"

definition mapping_required :: "string list" where
  "mapping_required = [''modelGroup'', ''connectionAlias'', ''deploymentName'', ''id'', ''apiVersion'']"

definition mapping_optional :: "string list" where
  "mapping_optional = [''baseModel'', ''litellmParams'', ''modelInfo'']"

definition mapping_shape_ok :: "json \<Rightarrow> bool" where
  "mapping_shape_ok model =
     (case model of
        JObj kv \<Rightarrow> set mapping_required \<subseteq> set (keys_of kv)
          \<and> set (keys_of kv) \<subseteq> set mapping_required \<union> set mapping_optional
          \<and> (\<forall>k \<in> set mapping_required. configured (lookup_or kv k JNull))
      | _ \<Rightarrow> False)"

definition BASE_MODEL :: rx where
  "BASE_MODEL = Seq (lit ''azure/'') IDENTIFIER"

definition ACCOUNT_NAME :: rx where
  "ACCOUNT_NAME = cat [alnum_or [], times 1 62 (alnum_or ''-'')]"

text \<open>One pass of the loop over the model mappings; the state holds the deployment IDs.\<close>

definition check_mapping :: "keyed \<Rightarrow> json \<Rightarrow> json list \<Rightarrow> json list res" where
  "check_mapping accounts model identities =
     check (val (mapping_shape_ok model)) ''Invalid model deployment mapping'' (
     bindr (dgetO (val model) ''litellmParams'') (\<lambda>params.
     bindr (dgetO (val model) ''modelInfo'') (\<lambda>info.
     seqr (validate_options params info False) (
     seqr (each (\<lambda>key. bindr (sub (val model) key) (\<lambda>v.
             check (val (matches_str IDENTIFIER v)) ''Model mapping must contain plain identifiers'' (val ())))
           [''modelGroup'', ''deploymentName'', ''id'', ''apiVersion'']) (
     bindr (has (val model) ''baseModel'') (\<lambda>hasBase.
     check (disjr (val (\<not> hasBase)) (mapr (matches_str BASE_MODEL) (sub (val model) ''baseModel'')))
       ''Azure base model must identify the deployed model family'' (
     bindr (sub (val model) ''id'') (\<lambda>identity.
     check (conjr (key_in (sub (val model) ''connectionAlias'') accounts) (val (identity \<notin> set identities)))
       ''Model account is unapproved or deployment ID is duplicated'' (
     bindr (key_sub accounts (sub (val model) ''connectionAlias'')) (\<lambda>account.
     check (fullmatch ACCOUNT_NAME (sub (val account) ''accountName'')) ''Invalid model account name'' (
     bindr (connection_endpoint account) (\<lambda>_.
     val (identity # identities)))))))))))))"

definition application_settings :: "json \<Rightarrow> json res" where
  "application_settings config =
     bindr (dgetO (val config) ''application'') (\<lambda>settings.
     check (val (keys_within [''backendImage'', ''models'', ''authentication'', ''runtimeSettings''] settings \<and>
                 (case settings of JObj kv \<Rightarrow> {''backendImage'', ''models''} \<subseteq> set (keys_of kv) | _ \<Rightarrow> False)))
       ''application requires backendImage and models'' (
     bindr (runtime_overrides config) (\<lambda>overrides.
     check (disjr (negr (has (dgetO (val overrides) ''general_settings'') ''disable_env_credential_login''))
              (bindr (application_authentication config) (\<lambda>a. eqs (sub (val a) ''mode'') ''native'')))
       ''Environment-credential login overrides require native authentication'' (
     bindr (application_authentication config) (\<lambda>_.
     bindr (str_of (registry_of config)) (\<lambda>registry.
     bindr (sub (val settings) ''backendImage'') (\<lambda>image.
     check (val (matches_str (digest_image (lower registry)) image))
       ''Backend image must pin a digest in the approved private ACR'' (
     bindr (sub (val settings) ''models'') (\<lambda>models.
     check (val (is_list models \<and> truth models)) ''At least one approved model deployment is required'' (
     bindr (iter (dget (sub (sub (val config) ''parameters'') ''platform'') ''azureOpenAIConnections'' (JList []))) (\<lambda>connections.
     bindr (index_by ''alias'' connections) (\<lambda>accounts.
     check (val (length accounts = length connections)) ''Model connection aliases must be unique'' (
     bindr (list_of (val models)) (\<lambda>ms.
     bindr (fold_res (check_mapping accounts) ms []) (\<lambda>_.
     val settings)))))))))))))))"

section \<open>\<open>audit_manifest.py\<close>, \<open>native_audit.py\<close>, \<open>optional_l3.py\<close>\<close>

definition audit_settings :: "json \<Rightarrow> json res" where
  "audit_settings config =
     bindr (dget0 (val config) ''auditRuntime'') (\<lambda>settings.
     check (val (keys_are [''retentionDays'', ''captureEnabled'', ''retentionEnabled'', ''deliveryPolicyAccepted''] settings))
       ''auditRuntime requires retentionDays, captureEnabled, retentionEnabled and deliveryPolicyAccepted'' (
     bindr (sub (val settings) ''retentionDays'') (\<lambda>days.
     check (val (is_int days \<and> int_le 1 days \<and> le_int days 30)) ''Audit retention must be 1 to 30 days'' (
     bindr (sub (val settings) ''captureEnabled'') (\<lambda>capture.
     bindr (sub (val settings) ''retentionEnabled'') (\<lambda>retention.
     check (val (is_bool capture \<and> is_bool retention)) ''Audit enable decisions must be booleans'' (
     bindr (sub (val settings) ''deliveryPolicyAccepted'') (\<lambda>accepted.
     check (val (accepted = JBool True)) ''Approve the audit delivery limits'' (
     check (conjr (has (val config) ''application'') (has (val config) ''proxy''))
       ''Managed audit requires managed backend and proxy configuration'' (
     val settings))))))))))"

definition audit_binding :: "json \<Rightarrow> bool res" where
  "audit_binding binding =
     disjr (testr truth (dget0 (val binding) ''auditTeamId''))
           (eqs (dget0 (val binding) ''role'') ''audit_reader'')"

definition native_audit_settings :: "json \<Rightarrow> json res" where
  "native_audit_settings config =
     bindr (dget0 (val config) ''contentAudit'') (\<lambda>settings.
     check (val (keys_are [''mode'', ''retentionDays'', ''contentPolicyAccepted''] settings))
       ''contentAudit requires mode, retentionDays and contentPolicyAccepted'' (
     bindr (sub (val settings) ''mode'') (\<lambda>mode.
     check (val (mode = JStr ''native'')) ''Only native contentAudit mode is currently supported'' (
     bindr (sub (val settings) ''retentionDays'') (\<lambda>days.
     check (val (is_int days \<and> int_le 1 days \<and> le_int days 30)) ''Native audit retention must be 1 to 30 days'' (
     bindr (sub (val settings) ''contentPolicyAccepted'') (\<lambda>accepted.
     check (val (accepted = JBool True)) ''Approve native content, retention, backup and delivery limits'' (
     check (conjr (negr (has (val config) ''auditRuntime'')) (negr (has (val config) ''auditGovernance'')))
       ''Native audit cannot be combined with enhanced L3 configuration'' (
     bindr (iter (dget (dgetO (val config) ''proxy'') ''bindings'' (JList []))) (\<lambda>bindings.
     check (negr (any_res audit_binding bindings))
       ''Existing L3 bindings require a separately approved migration'' (
     val settings)))))))))))"

definition l3_enabled :: "json \<Rightarrow> bool res" where
  "l3_enabled config =
     bindr (has (val config) ''l3Audit'') (\<lambda>present.
     if \<not> present then val False
     else bindr (sub (val config) ''l3Audit'') (\<lambda>settings.
       check (val (keys_are [''enabled''] settings)) ''l3Audit requires exactly enabled'' (
       check (testr (\<lambda>v. v = JBool True) (sub (val settings) ''enabled''))
         ''Remove l3Audit to restore the approved native baseline'' (
       check (native_gateway config) ''Optional TypeScript L3 currently requires the native gateway'' (
       check (eqs (dget0 (dgetO (val config) ''contentAudit'') ''mode'') ''native'')
         ''Optional L3 requires a retained native audit rollback policy'' (
       val True))))))"

definition l3_upstream :: "json \<Rightarrow> string \<Rightarrow> string res" where
  "l3_upstream config plane =
     check (val (plane \<in> {''api'', ''admin''})) ''Unknown ingress plane'' (
     bindr (if plane = ''api'' then l3_enabled config else val False) (\<lambda>l3.
     val (if l3 then ''http://l3-audit.litellm.svc.cluster.local:8080''
          else ''http://litellm.litellm.svc.cluster.local:4000'')))"

section \<open>\<open>audit_governance.py\<close>, \<open>observability.py\<close>\<close>

definition reviewer_ok :: "string \<times> json \<Rightarrow> bool res" where
  "reviewer_ok p = conjr (val (rmatch github_login (fst p))) (mapr (\<lambda>n. n \<noteq> 0) (uuid_int (snd p)))"

definition governance_settings :: "json \<Rightarrow> obj res" where
  "governance_settings config =
     bindr (dget0 (val config) ''auditGovernance'') (\<lambda>settings.
     check (val (keys_are [''reviewers''] settings)) ''auditGovernance requires a reviewer identity mapping'' (
     bindr (sub (val settings) ''reviewers'') (\<lambda>reviewers.
     check (val (case reviewers of JObj kv \<Rightarrow> 2 \<le> length kv \<and> length kv \<le> 20 | _ \<Rightarrow> False))
       ''At least two independent audit reviewers are required'' (
     bindr (items (val reviewers)) (\<lambda>kv.
     check (all_res reviewer_ok kv) ''Invalid audit reviewer mapping'' (
     bindr (map_res (\<lambda>p. uuid_int (snd p)) kv) (\<lambda>oids.
     check (val (distinct (map (\<lambda>p. lower (fst p)) kv) \<and> distinct oids))
       ''Audit reviewers must have distinct GitHub and Entra identities'' (
     val (zip (map (\<lambda>p. lower (fst p)) kv) (map (\<lambda>n. JStr (uuid_str n)) oids))))))))))"

definition COLLECTOR_DIGEST :: string where
  "COLLECTOR_DIGEST = ''sha256:8164eab2e6bca9c9b0837a8d2f118a6618489008a839db7f9d6510e66be3923c''"

definition telemetry_settings :: "json \<Rightarrow> json res" where
  "telemetry_settings config =
     bindr (dget0 (val config) ''observability'') (\<lambda>settings.
     check (val (keys_are [''collectorImage''] settings)) ''observability requires collectorImage'' (
     bindr (sub (val settings) ''collectorImage'') (\<lambda>image.
     bindr (str_of (registry_of config)) (\<lambda>registry.
     check (fullmatch (cat [lit registry, lit ''.azurecr.io/'', plus1 (lownum_or ''./_-''), chr CHR ''@'',
                lit COLLECTOR_DIGEST]) (val (if truth image then image else JStr [])))
       ''Import the validated immutable collector version into the target ACR'' (
     val settings)))))"

section \<open>\<open>private_ingress.py\<close>, \<open>certificate_runtime.py\<close>\<close>

definition rfc1918 :: "net list" where
  "rfc1918 = [v4 10 0 0 0 8, v4 172 16 0 0 12, v4 192 168 0 0 16]"

definition ingress_cidr :: "json \<Rightarrow> string res" where
  "ingress_cidr value =
     bindr (ip_network True value) (\<lambda>network.
     check (val (version network = 4 \<and> list_ex (subnet_of network) rfc1918))
       ''Ingress sources must use explicit RFC1918 IPv4 ranges'' (
     val (net_str network)))"

definition ingress_source_ranges :: "json \<Rightarrow> string list res" where
  "ingress_source_ranges values =
     check (val (is_list values \<and> truth values)) ''Explicit private ingress source CIDRs are required'' (
     bindr (list_of (val values)) (\<lambda>vs.
     mapr (\<lambda>networks. sort (remdups networks)) (map_res ingress_cidr vs)))"

definition SECRET_PATH :: rx where
  "SECRET_PATH =
     cat [lit ''/secrets/'', plus1 (alnum_or ''-''), opt (Seq (chr CHR ''/'') (times 32 32 hexlow))]"

definition secret_url_ok :: "rx \<Rightarrow> url \<Rightarrow> bool" where
  "secret_url_ok r u \<longleftrightarrow> scheme u = ''https'' \<and> rmatch VAULT_HOST (netloc u) \<and> rmatch r (path u)
     \<and> query u = [] \<and> fragment u = []"

definition ingress_plane :: "json \<Rightarrow> string \<Rightarrow> unit res" where
  "ingress_plane settings plane =
     bindr (sub (val settings) plane) (\<lambda>item.
     check (val (keys_are [''tlsSecretId'', ''allowedCidrs''] item))
       ''Each ingress plane needs tlsSecretId and allowedCidrs'' (
     bindr (bindr (sub (val item) ''tlsSecretId'') urlsplit_value) (\<lambda>secret.
     check (val (secret_url_ok SECRET_PATH secret))
       ''TLS must reference an Azure public-cloud Key Vault PEM secret'' (
     bindr (bindr (sub (val item) ''allowedCidrs'') ingress_source_ranges) (\<lambda>_. val ())))))"

definition ingress_settings :: "json \<Rightarrow> json res" where
  "ingress_settings config =
     bindr (dgetO (val config) ''privateIngress'') (\<lambda>settings.
     check (val (keys_are [''api'', ''admin''] settings)) ''privateIngress requires api and admin configuration'' (
     seqr (each (ingress_plane settings) [''api'', ''admin'']) (
     val settings)))"

definition RENEWABLE_SECRET_PATH :: rx where
  "RENEWABLE_SECRET_PATH = Seq (lit ''/secrets/'') (plus1 (alnum_or ''-''))"

definition zone_in_scope :: "json \<Rightarrow> (string \<times> string \<times> string) option \<Rightarrow> string \<Rightarrow> bool res" where
  "zone_in_scope config m host =
     (case m of None \<Rightarrow> val False
      | Some (subscription, rgroup, zone) \<Rightarrow>
          bindr (uuid_of_string subscription) (\<lambda>a.
          bindr (bindr (sub (sub (val config) ''azure'') ''subscriptionId'') uuid_int) (\<lambda>b.
          val (a = b \<and> ends_with host (''.'' @ zone)))))"

definition certificate_settings :: "json \<Rightarrow> json res" where
  "certificate_settings config =
     bindr (dget0 (val config) ''certificates'') (\<lambda>value.
     check (val (keys_are [''zoneResourceId'', ''termsAccepted'', ''publicApiHostnameAccepted''] value))
       ''certificates requires zoneResourceId and explicit acceptance'' (
     check (conjr (testr (\<lambda>v. v = JBool True) (sub (val value) ''termsAccepted''))
                  (testr (\<lambda>v. v = JBool True) (sub (val value) ''publicApiHostnameAccepted'')))
       ''Explicit public CA terms and certificate transparency acceptance required'' (
     bindr (sub (val value) ''zoneResourceId'') (\<lambda>zoneId.
     bindr (mapr (\<lambda>b. b) (fullmatch DNS_ZONE_ID (val zoneId))) (\<lambda>_.
     bindr (str_of (val zoneId)) (\<lambda>zid.
     bindr (prefixed ''llm-api.'' (sub (val config) ''baseDomain'')) (\<lambda>host.
     check (zone_in_scope config (dns_zone_match zid) host)
       ''API certificate DNS zone is outside approved subscription/domain'' (
     bindr (sub (sub (sub (val config) ''privateIngress'') ''api'') ''tlsSecretId'') (\<lambda>apiTls.
     bindr (urlsplit_value apiTls) (\<lambda>secret.
     check (val (secret_url_ok RENEWABLE_SECRET_PATH secret))
       ''Automatic API certificate renewal needs a versionless approved Vault secret'' (
     bindr (sub (sub (sub (val config) ''privateIngress'') ''admin'') ''tlsSecretId'') (\<lambda>adminTls.
     check (val (\<not> py_eq adminTls apiTls))
       ''API and enterprise admin certificates must remain separate'' (
     let zone = snd (snd (the (dns_zone_match zid))) in
     val (JObj
       [(''host'', JStr host), (''zone'', JStr zone),
        (''recordId'', JStr (zid @ ''/TXT/_acme-challenge.'' @ take (length host - (length zone + 1)) host)),
        (''vaultUrl'', JStr (''https://'' @ netloc secret)),
        (''secretName'', JStr (after_last_slash (path secret)))]))))))))))))))"

end
