(* ===== verification/Connectivity.thy ===== *)
theory Connectivity
  imports Settings
begin

text \<open>
  \<open>certificate_vault.py\<close>, \<open>runner_connectivity.py\<close> and \<open>runner_target_connectivity.py\<close>: the
  parameters of the private connectivity components and the exact set of Azure resource
  identities a deployment of each may touch.  The name-based UUID (SHA-1) and the hash are
  parameters.
\<close>

section \<open>Shared shapes\<close>

text \<open>An f-string field: the values printed here are strings once \<open>validate_config\<close> accepted
  the configuration; a list or a dict is not printed by this model.\<close>

fun fmt :: "json res \<Rightarrow> string res" where
  "fmt (Inr (JStr s)) = val s"
| "fmt (Inr (JInt i)) = val (show_int i)"
| "fmt (Inr (JBool b)) = val (if b then ''True'' else ''False'')"
| "fmt (Inr JNull) = val ''None''"
| "fmt (Inr _) = Inl TypeError"
| "fmt (Inl e) = Inl e"

definition subscription_of :: "json \<Rightarrow> json res" where
  "subscription_of config = sub (sub (val config) ''azure'') ''subscriptionId''"

definition target_group :: "json \<Rightarrow> json res" where
  "target_group config = sub (sub (val config) ''target'') ''resourceGroup''"

definition parameters_of :: "json \<Rightarrow> string \<Rightarrow> json res" where
  "parameters_of config component = dgetO (sub (val config) ''parameters'') component"

definition scope_prefix :: "string \<Rightarrow> string \<Rightarrow> string" where
  "scope_prefix subscription rgroup =
     ''/subscriptions/'' @ subscription @ ''/resourceGroups/'' @ rgroup"

definition provider_prefix :: "json \<Rightarrow> string res" where
  "provider_prefix config =
     bindr (fmt (subscription_of config)) (\<lambda>s.
     bindr (fmt (target_group config)) (\<lambda>g.
     val (scope_prefix s g @ ''/providers/'')))"

definition same_subscription :: "json \<Rightarrow> (string \<times> string \<times> string) option \<Rightarrow> bool res" where
  "same_subscription config m =
     (case m of None \<Rightarrow> val False
      | Some (subscription, rgroup, name) \<Rightarrow>
          bindr (str_of (subscription_of config)) (\<lambda>s. val (lower subscription = lower s)))"

text \<open>\<open>d.setdefault(k, v)\<close>\<close>

definition dict_default :: "obj \<Rightarrow> string \<Rightarrow> json \<Rightarrow> obj" where
  "dict_default kv k v = (if map_of kv k = None then dict_set kv k v else kv)"

definition component_complete :: "string \<Rightarrow> obj \<Rightarrow> bool" where
  "component_complete name kv \<longleftrightarrow>
     set (the (map_of REQUIRED name)) \<subseteq> set (keys_of kv)
     \<and> set (keys_of kv) \<subseteq> set (allowed_fields (the (map_of COMPONENTS name)))
     \<and> configured (JObj kv)"

text \<open>\<open>dict(d)\<close> of a value: a string or a list of pairs is not used by the configurations.\<close>

definition dict_of :: "json res \<Rightarrow> obj res" where
  "dict_of e = bindr e (\<lambda>v. case v of JObj kv \<Rightarrow> val kv | _ \<Rightarrow> Inl TypeError)"

section \<open>\<open>certificate_vault.py\<close>\<close>

definition ZONE_NAME :: string where
  "ZONE_NAME = ''privatelink.vaultcore.azure.net''"

definition VAULT_NAME :: rx where
  "VAULT_NAME = cat [lownum_or [], times 1 22 (lownum_or ''-''), lownum_or []]"

definition lower_initial :: "string \<Rightarrow> bool" where
  "lower_initial s \<longleftrightarrow> s \<noteq> [] \<and> is_lower (hd s)"

definition vault_name_ok :: "json \<Rightarrow> bool" where
  "vault_name_ok v =
     (case v of JStr s \<Rightarrow> lower_initial s \<and> rmatch VAULT_NAME s \<and> \<not> is_substring ''--'' s | _ \<Rightarrow> False)"

definition principal_ok :: "json \<Rightarrow> bool res" where
  "principal_ok v =
     conjr (val (matches_str (times 36 36 hex_any) v)) (mapr (\<lambda>n. n \<noteq> 0) (uuid_int v))"

definition NETWORK_NAME :: rx where
  "NETWORK_NAME = times 1 64 (alnum_or ''_.-'')"

definition vault_ingress_secret :: "json \<Rightarrow> string \<Rightarrow> string \<Rightarrow> unit res" where
  "vault_ingress_secret config name plane =
     bindr (dget (dgetO (sub (val config) ''privateIngress'') plane) ''tlsSecretId'' (JStr [])) (\<lambda>secret.
     check (val (matches_str (cat [lit (''https://'' @ name @ ''.vault.azure.net/secrets/'' @ plane @ ''-tls''),
              opt (Seq (chr CHR ''/'') (times 32 32 (Cls (\<lambda>c. hex_value c \<noteq> None))))]) secret))
       ''privateIngress must use the corresponding certificate Vault Secret'' (val ()))"

definition certificate_vault_parameters :: "json \<Rightarrow> obj res" where
  "certificate_vault_parameters config =
     bindr (dict_of (parameters_of config ''certificate-vault'')) (\<lambda>settings.
     check (val (component_complete ''certificate-vault'' settings)) ''Certificate Vault configuration is incomplete'' (
     bindr (sub (val (JObj settings)) ''vaultName'') (\<lambda>vname.
     check (val (vault_name_ok vname)) ''Invalid certificate Vault name'' (
     bindr (str_of (val vname)) (\<lambda>name.
     check (val (\<not> starts_with name ''kv-lt-''))
       ''Certificate Vault must be separate from the backend Vault'' (
     seqr (each (\<lambda>key. check (bindr (sub (val (JObj settings)) key) principal_ok)
             ''Certificate access requires nonzero principal Object IDs'' (val ()))
           [''ingressReaderPrincipalId'', ''certificateImporterPrincipalId'']) (
     bindr (str_of (sub (val (JObj settings)) ''ingressReaderPrincipalId'')) (\<lambda>reader.
     bindr (str_of (sub (val (JObj settings)) ''certificateImporterPrincipalId'')) (\<lambda>importer.
     check (val (lower reader \<noteq> lower importer))
       ''Certificate reader and manual importer must be distinct principals'' (
     bindr (sub (val (JObj settings)) ''certificateImporterPrincipalType'') (\<lambda>ptype.
     check (val (ptype \<in> {JStr ''User'', JStr ''Group''}))
       ''Manual certificate importer must be a User or Group'' (
     let settings = dict_default settings ''manageTargetDnsLink'' (JBool True) in
     check (all_res (\<lambda>key. testr is_bool (sub (val (JObj settings)) key))
              [''createPrivateDnsZone'', ''manageRunnerDnsLink'', ''manageTargetDnsLink''])
       ''Certificate DNS switches must be booleans'' (
     bindr (sub (val (JObj settings)) ''runnerVirtualNetworkId'') (\<lambda>runner.
     check (same_subscription config (vnet_match runner))
       ''Certificate Runner VNet must be a same-subscription VNet resource ID'' (
     bindr (parameters_of config ''platform'') (\<lambda>platform.
     bindr (dgetO (val platform) ''stage4Network'') (\<lambda>network.
     bindr (dget0 (val network) ''virtualNetworkName'') (\<lambda>vnet.
     bindr (dget0 (val network) ''privateEndpointSubnetName'') (\<lambda>subnet.
     bindr (dget (val platform) ''logAnalyticsWorkspaceName'' (JStr [])) (\<lambda>workspace.
     check (val (list_all (\<lambda>v. is_str v \<and> configured v \<and> matches_str NETWORK_NAME v) [vnet, subnet] \<and>
                 configured workspace))
       ''Certificate Vault requires the target platform network and workspace'' (
     bindr (sub (val platform) ''logAnalyticsWorkspaceName'') (\<lambda>_.
     bindr (has (val config) ''privateIngress'') (\<lambda>ingress.
     seqr (if ingress then each (vault_ingress_secret config name) [''api'', ''admin''] else val ()) (
     val (dict_update settings
       [(''virtualNetworkName'', vnet), (''privateEndpointSubnetName'', subnet),
        (''logAnalyticsWorkspaceName'', workspace)])))))))))))))))))))))))))"

text \<open>The identities one certificate deployment may create or change.\<close>

definition certificate_resource_ids :: "(string \<Rightarrow> string) \<Rightarrow> json \<Rightarrow> string list res" where
  "certificate_resource_ids uuid5 config =
     bindr (certificate_vault_parameters config) (\<lambda>settings.
     bindr (provider_prefix config) (\<lambda>prefix.
     bindr (str_of (sub (val (JObj settings)) ''vaultName'')) (\<lambda>name.
     bindr (str_of (sub (val (JObj settings)) ''virtualNetworkName'')) (\<lambda>vnet.
     bindr (str_of (sub (val (JObj settings)) ''ingressReaderPrincipalId'')) (\<lambda>reader.
     bindr (str_of (sub (val (JObj settings)) ''certificateImporterPrincipalId'')) (\<lambda>importer.
     bindr (str_of (sub (val (JObj settings)) ''runnerVirtualNetworkId'')) (\<lambda>runner.
     let vault = prefix @ ''Microsoft.KeyVault/vaults/'' @ name;
         zone = prefix @ ''Microsoft.Network/privateDnsZones/'' @ ZONE_NAME;
         endpoint = prefix @ ''Microsoft.Network/privateEndpoints/pe-'' @ name @ ''-vault'';
         target = prefix @ ''Microsoft.Network/virtualNetworks/'' @ vnet;
         role = (\<lambda>principal purpose. vault @ ''/providers/Microsoft.Authorization/roleAssignments/''
                   @ uuid5 (lower vault @ ''-'' @ lower principal @ ''-'' @ purpose));
         on = (\<lambda>key. map_of settings key = Some (JBool True))
     in val (map lower (
          [vault, vault @ ''/providers/Microsoft.Authorization/locks/protect-key-vault-from-deletion'',
           vault @ ''/providers/Microsoft.Insights/diagnosticSettings/send-key-vault-audit-to-log-analytics'',
           endpoint, endpoint @ ''/privateDnsZoneGroups/default'',
           prefix @ ''Microsoft.Network/networkInterfaces/nic-pe-'' @ name @ ''-vault'',
           prefix @ ''Microsoft.Resources/deployments/certificate-vault-private-endpoint'',
           role reader ''certificate-reader'', role importer ''certificate-importer'']
          @ (if on ''createPrivateDnsZone'' then [zone] else [])
          @ (if on ''manageTargetDnsLink'' then [zone @ ''/virtualNetworkLinks/'' @ vnet @ ''-link''] else [])
          @ (if on ''manageRunnerDnsLink'' \<and> lower target \<noteq> lower runner
             then [zone @ ''/virtualNetworkLinks/certificate-runner-link''] else []))))))))))"

section \<open>\<open>runner_connectivity.py\<close>\<close>

definition connectivity_settings :: "sha \<Rightarrow> json \<Rightarrow> obj res" where
  "connectivity_settings sha config =
     bindr (parameters_of config ''runner-connectivity'') (\<lambda>settings.
     check (val (keys_within [''runnerVirtualNetworkId'', ''managePeering'', ''manageBlobDnsLink''] settings))
       ''Invalid runner-connectivity fields'' (
     bindr (dget (val settings) ''runnerVirtualNetworkId'' (JStr [])) (\<lambda>runner.
     check (val (is_str runner \<and> configured runner))
       ''Configure runnerVirtualNetworkId before checking backup connectivity'' (
     check (val (vnet_match runner \<noteq> None)) ''runnerVirtualNetworkId must identify a VNet, not a subnet or VM'' (
     check (same_subscription config (vnet_match runner))
       ''Runner connectivity currently requires the same subscription'' (
     bindr (deployment_mode config) (\<lambda>mode.
     bindr (parameters_of config (if mode = ''migration'' then ''backup'' else ''network'')) (\<lambda>foundation.
     bindr (dget (val foundation) ''virtualNetworkName'' (JStr [])) (\<lambda>tname.
     check (val (configured tname \<and> matches_str NETWORK_NAME tname))
       ''Runner connectivity requires the configured target VNet'' (
     bindr (str_of (val tname)) (\<lambda>target_name.
     bindr (str_of (val runner)) (\<lambda>runner_id.
     bindr (provider_prefix config) (\<lambda>prefix.
     let target = prefix @ ''Microsoft.Network/virtualNetworks/'' @ target_name in
     check (val (lower runner_id \<noteq> lower target)) ''Runner and target VNet must be separate'' (
     bindr (dget (val settings) ''managePeering'' (JBool True)) (\<lambda>peering.
     bindr (dget (val settings) ''manageBlobDnsLink'' (JBool True)) (\<lambda>dns.
     check (val (is_bool peering \<and> is_bool dns)) ''Connectivity management switches must be booleans'' (
     check (val (mode = ''migration'' \<or> dns = JBool False))
       ''Greenfield runner connectivity cannot manage migration-only Blob DNS'' (
     let suffix = take 16 (sha (lower runner_id @ ''|'' @ lower target));
         m = the (vnet_match runner)
     in val
       [(''runnerVirtualNetworkId'', runner), (''runnerResourceGroupName'', JStr (fst (snd m))),
        (''runnerVirtualNetworkName'', JStr (snd (snd m))), (''backupVirtualNetworkId'', JStr target),
        (''backupVirtualNetworkName'', tname), (''managePeering'', peering), (''manageBlobDnsLink'', dns),
        (''connectionName'',
           JStr ((if mode = ''migration'' then ''llmgw-backup-'' else ''llmgw-target-'') @ suffix))]))))))))))))))))))"

definition pick :: "string list \<Rightarrow> obj \<Rightarrow> obj res" where
  "pick ks kv = map_res (\<lambda>k. bindr (sub (val (JObj kv)) k) (\<lambda>v. val (k, v))) ks"

definition connectivity_parameters :: "sha \<Rightarrow> json \<Rightarrow> obj res" where
  "connectivity_parameters sha config =
     bindr (connectivity_settings sha config) (pick
       [''runnerResourceGroupName'', ''runnerVirtualNetworkName'', ''backupVirtualNetworkName'',
        ''managePeering'', ''manageBlobDnsLink'', ''connectionName''])"

text \<open>\<open>s.split(p)[0]\<close>\<close>

fun before_text :: "string \<Rightarrow> string \<Rightarrow> string" where
  "before_text p [] = []"
| "before_text p (c # cs) = (if starts_with (c # cs) p then [] else c # before_text p cs)"

definition connectivity_resource_ids :: "sha \<Rightarrow> json \<Rightarrow> string \<Rightarrow> string list res" where
  "connectivity_resource_ids sha config dns_zone =
     bindr (connectivity_settings sha config) (\<lambda>settings.
     bindr (str_of (sub (val (JObj settings)) ''backupVirtualNetworkId'')) (\<lambda>backup.
     bindr (str_of (sub (val (JObj settings)) ''runnerVirtualNetworkId'')) (\<lambda>runner.
     bindr (str_of (sub (val (JObj settings)) ''connectionName'')) (\<lambda>name.
     let tgroup = before_text ''/providers/'' backup;
         rgroup = before_text ''/providers/'' (lower runner);
         on = (\<lambda>key. map_of settings key = Some (JBool True))
     in val (map lower (
          (if on ''managePeering''
           then map (\<lambda>network. network @ ''/virtualNetworkPeerings/'' @ name) [runner, backup]
                @ [rgroup @ ''/providers/Microsoft.Resources/deployments/'' @ name] else [])
          @ (if on ''manageBlobDnsLink''
             then [tgroup @ ''/providers/Microsoft.Network/privateDnsZones/'' @ dns_zone
                   @ ''/virtualNetworkLinks/'' @ name] else [])))))))"

section \<open>\<open>runner_target_connectivity.py\<close>\<close>

definition AKS_NAME :: rx where
  "AKS_NAME = Seq (alnum_or ''_'') (times 0 63 (alnum_or ''_.-''))"

definition runner_vnet_agrees :: "json \<Rightarrow> json \<Rightarrow> string \<Rightarrow> unit res" where
  "runner_vnet_agrees config identifier component =
     bindr (dget0 (parameters_of config component) ''runnerVirtualNetworkId'') (\<lambda>previous.
     check (disjr (val (\<not> truth previous \<or> \<not> configured previous))
             (bindr (str_of (val previous)) (\<lambda>p.
              bindr (str_of (val identifier)) (\<lambda>i. val (lower p = lower i)))))
       ''Runner VNet differs between connectivity components'' (val ()))"

definition target_connectivity_settings :: "sha \<Rightarrow> json \<Rightarrow> obj res" where
  "target_connectivity_settings sha config =
     bindr (dict_of (parameters_of config ''runner-target-connectivity'')) (\<lambda>settings.
     check (val (component_complete ''runner-target-connectivity'' settings))
       ''Runner target connectivity configuration is incomplete'' (
     bindr (sub (val (JObj settings)) ''runnerVirtualNetworkId'') (\<lambda>runner.
     check (same_subscription config (vnet_match runner))
       ''Runner target connectivity requires a same-subscription VNet resource ID'' (
     let settings = dict_default settings ''manageDnsLink'' (JBool True) in
     check (testr is_bool (sub (val (JObj settings)) ''manageDnsLink'')) ''manageDnsLink must be a boolean'' (
     bindr (parameters_of config ''platform'') (\<lambda>platform.
     bindr (dget (dgetO (val platform) ''stage4Aks'') ''name'' (JStr [])) (\<lambda>cluster.
     bindr (dgetO (val platform) ''stage4Network'') (\<lambda>netset.
     bindr (dget (val netset) ''virtualNetworkName'' (JStr [])) (\<lambda>network.
     bindr (dget (val netset) ''privateEndpointSubnetName'' (JStr [])) (\<lambda>subnet.
     check (val (list_all (\<lambda>v. is_str v \<and> configured v \<and> matches_str AKS_NAME v) [cluster, network, subnet]))
       ''Runner target connectivity requires the configured names'' (
     seqr (each (runner_vnet_agrees config runner) [''runner-connectivity'', ''certificate-vault'']) (
     bindr (provider_prefix config) (\<lambda>prefix.
     bindr (str_of (val cluster)) (\<lambda>aks.
     bindr (str_of (val network)) (\<lambda>vnet.
     bindr (str_of (val runner)) (\<lambda>runner_id.
     bindr (dget (val platform) ''containerRegistryName'' (JStr [])) (\<lambda>acr.
     check (val (matches_str (times 5 50 (alnum_or [])) acr))
       ''Runner target connectivity requires the configured ACR name'' (
     bindr (str_of (val acr)) (\<lambda>registry.
     let cluster_id = prefix @ ''Microsoft.ContainerService/managedClusters/'' @ aks;
         registry_id = prefix @ ''Microsoft.ContainerRegistry/registries/'' @ registry;
         suffix = (\<lambda>i. take 16 (sha (lower i @ ''|'' @ lower runner_id)))
     in val (dict_update settings
       [(''aksName'', cluster), (''aksResourceId'', JStr cluster_id),
        (''acrName'', acr), (''acrResourceId'', JStr registry_id),
        (''targetVirtualNetworkId'', JStr (prefix @ ''Microsoft.Network/virtualNetworks/'' @ vnet)),
        (''privateEndpointSubnetName'', subnet),
        (''linkName'', JStr (''llmgw-aks-runner-'' @ suffix cluster_id)),
        (''acrLinkName'', JStr (''llmgw-acr-runner-'' @ suffix registry_id))]))))))))))))))))))))"

definition link_resource_ids :: "json \<Rightarrow> json \<Rightarrow> string \<Rightarrow> string \<Rightarrow> string \<Rightarrow> string \<Rightarrow> string list res" where
  "link_resource_ids config context create_key zone_key group_key link_key =
     bindr (sub (val context) create_key) (\<lambda>create.
     if \<not> truth create then val []
     else bindr (fmt (subscription_of config)) (\<lambda>s.
          bindr (fmt (sub (val context) group_key)) (\<lambda>g.
          bindr (str_of (sub (val context) zone_key)) (\<lambda>zone.
          bindr (str_of (sub (val context) link_key)) (\<lambda>link.
          val [lower (zone @ ''/virtualNetworkLinks/'' @ link),
               lower (scope_prefix s g @ ''/providers/Microsoft.Resources/deployments/'' @ link)])))))"

definition target_connectivity_resource_ids :: "json \<Rightarrow> json \<Rightarrow> string list res" where
  "target_connectivity_resource_ids config context =
     check (val (context \<noteq> JNull)) ''Target connectivity requires resolved AKS and ACR DNS resources'' (
     bindr (link_resource_ids config context ''createDnsLink'' ''privateDnsZoneId'' ''dnsResourceGroupName'' ''linkName'') (\<lambda>a.
     bindr (link_resource_ids config context ''createAcrDnsLink'' ''acrPrivateDnsZoneId'' ''acrDnsResourceGroupName'' ''acrLinkName'') (\<lambda>b.
     val (a @ b))))"

end
