(* ===== verification/Py_Proc.thy ===== *)
theory Py_Proc
  imports Py_Base
begin

text \<open>
  The effects of the operations: subprocesses (\<open>az\<close>, \<open>kubectl\<close>, \<open>docker\<close>), files and clients of
  services.  What answers them is not part of the repository: it is the parameter
  \<open>'s service\<close>, any function from a call and a state of the outside to a reply and a new
  state.  A run keeps the calls with their replies, in order, in its log, so a statement on the
  log holds against every behaviour of the outside.

  \<^item> \<open>wp p Q E l\<close>: from the log \<open>l\<close>, \<open>p\<close> ends in a result with \<open>Q\<close> or in an exception
    with \<open>E\<close>, whatever the outside replies.
  \<^item> \<open>only P p\<close>: every event that \<open>p\<close> adds to the log satisfies \<open>P\<close>.
\<close>

named_theorems wp_intros \<open>decomposition of weakest preconditions\<close>
named_theorems run_eval \<open>step by step evaluation of a run\<close>
named_theorems run_cong \<open>evaluation of a run in order\<close>
named_theorems only_intros \<open>decomposition of the events of a run\<close>

section \<open>Calls and runs\<close>

text \<open>\<open>Command\<close> is an argument vector, \<open>WriteFile\<close> one \<open>private_write\<close> of a document,
  \<open>Client\<close> a method of a client object of a library.\<close>

datatype call =
    Command "string list"
  | WriteFile string json
  | Client string "json list"

text \<open>The output of a command that succeeded is JSON or any other text; a blank one is \<open>Text\<close>.\<close>

datatype reply =
    Failure
  | Text string
  | Json json

type_synonym event = "call \<times> reply"
type_synonym 's service = "call \<Rightarrow> 's \<Rightarrow> reply \<times> 's"

record 's world =
  ext :: 's
  log :: "event list"
  counter :: nat

type_synonym ('s, 'a) proc = "'s service \<Rightarrow> 's world \<Rightarrow> 'a res \<times> 's world"

definition retp :: "'a \<Rightarrow> ('s, 'a) proc" where
  "retp x = (\<lambda>sv w. (Inr x, w))"

definition failp :: "py_error \<Rightarrow> ('s, 'a) proc" where
  "failp e = (\<lambda>sv w. (Inl e, w))"

definition bindp :: "('s, 'a) proc \<Rightarrow> ('a \<Rightarrow> ('s, 'b) proc) \<Rightarrow> ('s, 'b) proc" where
  "bindp m f = (\<lambda>sv w. case m sv w of (Inl e, w') \<Rightarrow> (Inl e, w') | (Inr x, w') \<Rightarrow> f x sv w')"

text \<open>A pure expression that may raise, and \<open>require(condition, message)\<close>.\<close>

definition letp :: "'a res \<Rightarrow> ('a \<Rightarrow> ('s, 'b) proc) \<Rightarrow> ('s, 'b) proc" where
  "letp r f = (case r of Inl e \<Rightarrow> failp e | Inr x \<Rightarrow> f x)"

definition checkp :: "bool res \<Rightarrow> string \<Rightarrow> ('s, 'a) proc \<Rightarrow> ('s, 'a) proc" where
  "checkp c msg k =
     (case c of Inl e \<Rightarrow> failp e | Inr b \<Rightarrow> if b then k else failp (MigrationError msg))"

definition thenp :: "('s, unit) proc \<Rightarrow> ('s, 'a) proc \<Rightarrow> ('s, 'a) proc" where
  "thenp m k = bindp m (\<lambda>_. k)"

definition whenp :: "bool \<Rightarrow> ('s, unit) proc \<Rightarrow> ('s, unit) proc" where
  "whenp b m = (if b then m else retp ())"

definition perform :: "call \<Rightarrow> ('s, reply) proc" where
  "perform c = (\<lambda>sv w. case sv c (ext w) of
     (r, s) \<Rightarrow> (Inr r, w\<lparr>ext := s, log := log w @ [(c, r)]\<rparr>))"

definition next_number :: "('s, nat) proc" where
  "next_number = (\<lambda>sv w. (Inr (Suc (counter w)), w\<lparr>counter := Suc (counter w)\<rparr>))"

definition reset_counter :: "('s, unit) proc" where
  "reset_counter = (\<lambda>sv w. (Inr (), w\<lparr>counter := 0\<rparr>))"

primrec eachp :: "('a \<Rightarrow> ('s, unit) proc) \<Rightarrow> 'a list \<Rightarrow> ('s, unit) proc" where
  "eachp f [] = retp ()"
| "eachp f (x # xs) = thenp (f x) (eachp f xs)"

primrec foldp :: "('a \<Rightarrow> 'b \<Rightarrow> ('s, 'b) proc) \<Rightarrow> 'a list \<Rightarrow> 'b \<Rightarrow> ('s, 'b) proc" where
  "foldp f [] s = retp s"
| "foldp f (x # xs) s = bindp (f x s) (foldp f xs)"

primrec mapp :: "('a \<Rightarrow> ('s, 'b) proc) \<Rightarrow> 'a list \<Rightarrow> ('s, 'b list) proc" where
  "mapp f [] = retp []"
| "mapp f (x # xs) = bindp (f x) (\<lambda>y. bindp (mapp f xs) (\<lambda>ys. retp (y # ys)))"

text \<open>\<open>try: m finally: c\<close>: a failure of \<open>c\<close> takes the place of the outcome of \<open>m\<close>.\<close>

definition finallyp :: "('s, 'a) proc \<Rightarrow> ('s, 'b) proc \<Rightarrow> ('s, 'a) proc" where
  "finallyp m c = (\<lambda>sv w. case m sv w of (r, w') \<Rightarrow>
     (case c sv w' of (Inl e, w'') \<Rightarrow> (Inl e, w'') | (Inr _, w'') \<Rightarrow> (r, w'')))"

text \<open>\<open>try: m except handled: h\<close>\<close>

definition catchp :: "(py_error \<Rightarrow> bool) \<Rightarrow> ('s, 'a) proc \<Rightarrow> (py_error \<Rightarrow> ('s, 'a) proc) \<Rightarrow> ('s, 'a) proc" where
  "catchp handled m h = (\<lambda>sv w. case m sv w of
     (Inl e, w') \<Rightarrow> if handled e then h e sv w' else (Inl e, w') | (Inr x, w') \<Rightarrow> (Inr x, w'))"

definition run_log :: "('s, 'a) proc \<Rightarrow> 's service \<Rightarrow> 's world \<Rightarrow> event list" where
  "run_log p sv w = drop (length (log w)) (log (snd (p sv w)))"

definition run_result :: "('s, 'a) proc \<Rightarrow> 's service \<Rightarrow> 's world \<Rightarrow> 'a res" where
  "run_result p sv w = fst (p sv w)"

definition start :: "'s \<Rightarrow> 's world" where
  "start s = \<lparr>ext = s, log = [], counter = 0\<rparr>"

section \<open>Running\<close>

text \<open>The rules that evaluate a run step by step: no continuation is looked at before the value
  it continues with is known.\<close>

definition andthen ::
    "'a res \<times> 's world \<Rightarrow> ('a \<Rightarrow> 's world \<Rightarrow> 'b res \<times> 's world) \<Rightarrow> 'b res \<times> 's world" where
  "andthen r k = (case r of (Inl e, w) \<Rightarrow> (Inl e, w) | (Inr x, w) \<Rightarrow> k x w)"

lemma run_steps [run_eval]:
  "andthen (Inl e, w) k = (Inl e, w)"
  "andthen (Inr x, w) k = k x w"
  "bindp m f sv w = andthen (m sv w) (\<lambda>x. f x sv)"
  "thenp m' n sv w = andthen (m' sv w) (\<lambda>_. n sv)"
  "retp x sv w = (Inr x, w)"
  "failp e sv w = (Inl e, w)"
  "letp (Inr x) f sv w = f x sv w"
  "letp (Inl e) f sv w = (Inl e, w)"
  "checkp (Inr True) msg n' sv w = n' sv w"
  "checkp (Inr False) msg n' sv w = (Inl (MigrationError msg), w)"
  "checkp (Inl e) msg n' sv w = (Inl e, w)"
  "whenp True m' = m'"
  "whenp False m' = retp ()"
  "next_number sv w = (Inr (Suc (counter w)), w\<lparr>counter := Suc (counter w)\<rparr>)"
  "reset_counter sv w = (Inr (), w\<lparr>counter := 0\<rparr>)"
  "perform c sv w = (case sv c (ext w) of (r, s) \<Rightarrow> (Inr r, w\<lparr>ext := s, log := log w @ [(c, r)]\<rparr>))"
  by (auto simp: andthen_def bindp_def thenp_def retp_def failp_def letp_def checkp_def whenp_def
      next_number_def reset_counter_def perform_def split: prod.splits sum.splits intro!: ext)

lemma run_order [run_cong]:
  "r = r' \<Longrightarrow> andthen r k = andthen r' k"
  "m = m' \<Longrightarrow> bindp m f sv w = bindp m' f sv w"
  "n = n' \<Longrightarrow> thenp n i sv w = thenp n' i sv w"
  "v = v' \<Longrightarrow> letp v g sv w = letp v' g sv w"
  "c = c' \<Longrightarrow> checkp c msg i sv w = checkp c' msg i sv w"
  by simp_all

section \<open>Weakest preconditions\<close>

definition wp :: "('s, 'a) proc \<Rightarrow> ('a \<Rightarrow> event list \<Rightarrow> bool) \<Rightarrow> (event list \<Rightarrow> bool) \<Rightarrow> event list \<Rightarrow> bool" where
  "wp p Q E l \<longleftrightarrow>
     (\<forall>sv w. log w = l \<longrightarrow>
        (case p sv w of (Inl e, w') \<Rightarrow> E (log w') | (Inr x, w') \<Rightarrow> Q x (log w')))"

lemma wp_retp [wp_intros]: "Q x l \<Longrightarrow> wp (retp x) Q E l"
  by (simp add: wp_def retp_def)

lemma wp_failp [wp_intros]: "E l \<Longrightarrow> wp (failp e) Q E l"
  by (simp add: wp_def failp_def)

lemma wp_bindp [wp_intros]: "wp m (\<lambda>x. wp (f x) Q E) E l \<Longrightarrow> wp (bindp m f) Q E l"
  unfolding wp_def bindp_def by (fastforce split: prod.splits sum.splits)

lemma wp_letp [wp_intros]:
  "(\<And>x. r = Inr x \<Longrightarrow> wp (f x) Q E l) \<Longrightarrow> E l \<Longrightarrow> wp (letp r f) Q E l"
  by (cases r) (simp_all add: letp_def wp_failp)

lemma wp_checkp [wp_intros]:
  "(c = Inr True \<Longrightarrow> wp k Q E l) \<Longrightarrow> E l \<Longrightarrow> wp (checkp c msg k) Q E l"
  by (cases c) (auto simp: checkp_def intro: wp_failp)

lemma wp_thenp [wp_intros]: "wp m (\<lambda>_. wp k Q E) E l \<Longrightarrow> wp (thenp m k) Q E l"
  unfolding thenp_def by (rule wp_bindp)

lemma wp_whenp [wp_intros]:
  "(b \<Longrightarrow> wp m Q E l) \<Longrightarrow> (\<not> b \<Longrightarrow> Q () l) \<Longrightarrow> wp (whenp b m) Q E l"
  by (simp add: whenp_def wp_retp)

lemma wp_perform [wp_intros]: "(\<And>r. Q r (l @ [(c, r)])) \<Longrightarrow> wp (perform c) Q E l"
  by (simp add: wp_def perform_def split: prod.splits)

lemma wp_next_number [wp_intros]: "(\<And>n. Q n l) \<Longrightarrow> wp next_number Q E l"
  by (simp add: wp_def next_number_def)

lemma wp_reset_counter [wp_intros]: "Q () l \<Longrightarrow> wp reset_counter Q E l"
  by (simp add: wp_def reset_counter_def)

lemma wp_if [wp_intros]:
  "(b \<Longrightarrow> wp m Q E l) \<Longrightarrow> (\<not> b \<Longrightarrow> wp k Q E l) \<Longrightarrow> wp (if b then m else k) Q E l"
  by simp

lemma wp_prod [wp_intros]:
  "(\<And>a b. p = (a, b) \<Longrightarrow> wp (f a b) Q E l) \<Longrightarrow> wp (case p of (a, b) \<Rightarrow> f a b) Q E l"
  by (simp split: prod.splits)

lemma wp_mono:
  assumes "wp p Q E l" and "\<And>x l'. Q x l' \<Longrightarrow> Q' x l'" and "\<And>l'. E l' \<Longrightarrow> E' l'"
  shows "wp p Q' E' l"
  using assms unfolding wp_def by (fastforce split: prod.splits sum.splits)

lemma wp_conj:
  assumes "wp p Q E l" and "wp p Q' E' l"
  shows "wp p (\<lambda>x l'. Q x l' \<and> Q' x l') (\<lambda>l'. E l' \<and> E' l') l"
  using assms unfolding wp_def by (fastforce split: prod.splits sum.splits)

text \<open>What a whole run shows, from its weakest precondition.\<close>

lemma wp_run:
  "wp p Q E (log w) \<Longrightarrow>
     (case p sv w of (Inl e, w') \<Rightarrow> E (log w') | (Inr x, w') \<Rightarrow> Q x (log w'))"
  by (simp add: wp_def)

lemma wp_always: "wp p (\<lambda>_. I) I (log w) \<Longrightarrow> I (log (snd (p sv w)))"
  by (drule wp_run [where sv = sv]) (auto split: prod.splits sum.splits)

lemma wp_success:
  "wp p Q E (log w) \<Longrightarrow> p sv w = (Inr x, w') \<Longrightarrow> Q x (log w')"
  by (drule wp_run [where sv = sv]) simp

text \<open>A part of a run about which nothing needs to be known.\<close>

lemma wp_drop: "(\<And>x l'. Q x l') \<Longrightarrow> wp m Q (\<lambda>_. True) l"
  by (simp add: wp_def split: prod.splits sum.splits)

lemma wp_eachp:
  assumes "\<And>x l. x \<in> set xs \<Longrightarrow> I l \<Longrightarrow> wp (f x) (\<lambda>_. I) E l" and "I l"
  shows "wp (eachp f xs) (\<lambda>_. I) E l"
  using assms
proof (induction xs arbitrary: l)
  case Nil
  then show ?case by (simp add: wp_retp)
next
  case (Cons x xs)
  have "wp (f x) (\<lambda>_. wp (eachp f xs) (\<lambda>_. I) E) E l"
    by (rule wp_mono [OF Cons.prems(1)]) (use Cons in auto)
  then show ?case by (simp add: wp_thenp)
qed

lemma wp_foldp:
  assumes "\<And>x s l. x \<in> set xs \<Longrightarrow> I s l \<Longrightarrow> wp (f x s) I E l" and "I s l"
  shows "wp (foldp f xs s) I E l"
  using assms
proof (induction xs arbitrary: s l)
  case Nil
  then show ?case by (simp add: wp_retp)
next
  case (Cons x xs)
  have "wp (f x s) (\<lambda>s'. wp (foldp f xs s') I E) E l"
    by (rule wp_mono [OF Cons.prems(1)]) (use Cons in auto)
  then show ?case by (simp add: wp_bindp)
qed

section \<open>The events of a run\<close>

definition only :: "(event \<Rightarrow> bool) \<Rightarrow> ('s, 'a) proc \<Rightarrow> bool" where
  "only P p \<longleftrightarrow> (\<forall>sv w. \<exists>es. log (snd (p sv w)) = log w @ es \<and> list_all P es)"

lemma onlyI: "(\<And>sv w. \<exists>es. log (snd (p sv w)) = log w @ es \<and> list_all P es) \<Longrightarrow> only P p"
  by (simp add: only_def)

lemma onlyD:
  assumes "only P p"
  obtains es where "log (snd (p sv w)) = log w @ es" and "list_all P es"
  using assms unfolding only_def by blast

lemma only_run_log: "only P p \<Longrightarrow> list_all P (run_log p sv w)"
  by (erule onlyD [where sv = sv and w = w]) (simp add: run_log_def)

lemma only_retp [only_intros]: "only P (retp x)"
  by (rule onlyI) (simp add: retp_def)

lemma only_failp [only_intros]: "only P (failp e)"
  by (rule onlyI) (simp add: failp_def)

lemma only_next_number [only_intros]: "only P next_number"
  by (rule onlyI) (simp add: next_number_def)

lemma only_reset_counter [only_intros]: "only P reset_counter"
  by (rule onlyI) (simp add: reset_counter_def)

lemma only_perform [only_intros]: "(\<And>r. P (c, r)) \<Longrightarrow> only P (perform c)"
  by (rule onlyI) (simp add: perform_def split: prod.splits)

lemma only_bindp [only_intros]:
  assumes m: "only P m" and f: "\<And>x. only P (f x)"
  shows "only P (bindp m f)"
proof (rule onlyI)
  fix sv w
  obtain r w' where run: "m sv w = (r, w')" by (cases "m sv w")
  obtain es where es: "log w' = log w @ es" "list_all P es"
    using onlyD [OF m, of sv w] run by auto
  show "\<exists>es. log (snd (bindp m f sv w)) = log w @ es \<and> list_all P es"
  proof (cases r)
    case (Inl e)
    then show ?thesis using run es by (auto simp: bindp_def)
  next
    case (Inr x)
    obtain fs where "log (snd (f x sv w')) = log w' @ fs" "list_all P fs"
      using onlyD [OF f, of x sv w'] by blast
    then show ?thesis using run es Inr by (auto simp: bindp_def)
  qed
qed

lemma only_thenp [only_intros]: "only P m \<Longrightarrow> only P k \<Longrightarrow> only P (thenp m k)"
  unfolding thenp_def by (rule only_bindp)

lemma only_letp [only_intros]: "(\<And>x. r = Inr x \<Longrightarrow> only P (f x)) \<Longrightarrow> only P (letp r f)"
  by (cases r) (auto simp: letp_def intro: only_failp)

lemma only_checkp [only_intros]: "(c = Inr True \<Longrightarrow> only P k) \<Longrightarrow> only P (checkp c msg k)"
  by (cases c) (auto simp: checkp_def intro: only_failp)

lemma only_whenp [only_intros]: "(b \<Longrightarrow> only P m) \<Longrightarrow> only P (whenp b m)"
  by (simp add: whenp_def only_retp)

lemma only_if [only_intros]:
  "(b \<Longrightarrow> only P m) \<Longrightarrow> (\<not> b \<Longrightarrow> only P k) \<Longrightarrow> only P (if b then m else k)"
  by simp

lemma only_prod [only_intros]:
  "(\<And>a b. p = (a, b) \<Longrightarrow> only P (f a b)) \<Longrightarrow> only P (case p of (a, b) \<Rightarrow> f a b)"
  by (simp split: prod.splits)

lemma only_eachp [only_intros]:
  "(\<And>x. x \<in> set xs \<Longrightarrow> only P (f x)) \<Longrightarrow> only P (eachp f xs)"
  by (induction xs) (auto intro!: only_retp only_thenp)

lemma only_foldp [only_intros]:
  "(\<And>x s. x \<in> set xs \<Longrightarrow> only P (f x s)) \<Longrightarrow> only P (foldp f xs s)"
  by (induction xs arbitrary: s) (auto intro!: only_retp only_bindp)

lemma only_mapp [only_intros]:
  "(\<And>x. x \<in> set xs \<Longrightarrow> only P (f x)) \<Longrightarrow> only P (mapp f xs)"
  by (induction xs) (auto intro!: only_retp only_bindp)

lemma only_finallyp [only_intros]:
  assumes m: "only P m" and c: "only P c"
  shows "only P (finallyp m c)"
proof (rule onlyI)
  fix sv w
  obtain r w' where run: "m sv w = (r, w')" by (cases "m sv w")
  obtain es where es: "log w' = log w @ es" "list_all P es"
    using onlyD [OF m, of sv w] run by auto
  obtain fs where "log (snd (c sv w')) = log w' @ fs" "list_all P fs"
    using onlyD [OF c, of sv w'] by blast
  then show "\<exists>es. log (snd (finallyp m c sv w)) = log w @ es \<and> list_all P es"
    using run es by (auto simp: finallyp_def split: prod.splits sum.splits)
qed

lemma only_mono: "only P p \<Longrightarrow> (\<And>e. P e \<Longrightarrow> Q e) \<Longrightarrow> only Q p"
  unfolding only_def by (fastforce simp: list_all_iff)

text \<open>An invariant of the log that every event of the run keeps.\<close>

lemma only_wp:
  fixes p :: "('s, 'a) proc"
  assumes p: "only P p" and "I l" and keep: "\<And>l e. I l \<Longrightarrow> P e \<Longrightarrow> I (l @ [e])"
  shows "wp p (\<lambda>_. I) I l"
proof -
  have ext: "I (l' @ es)" if "I l'" "list_all P es" for l' es
    using that
  proof (induction es rule: rev_induct)
    case (snoc e es)
    then show ?case using keep [of "l' @ es" e] by simp
  qed simp
  show ?thesis
    unfolding wp_def
  proof (intro allI impI)
    fix sv :: "'s service" and w :: "'s world" assume "log w = l"
    then obtain es where "log (snd (p sv w)) = l @ es" "list_all P es"
      using onlyD [OF p, of sv w] by metis
    then have "I (log (snd (p sv w)))" using ext [OF assms(2)] by simp
    then show "case p sv w of (Inl e, w') \<Rightarrow> I (log w') | (Inr x, w') \<Rightarrow> I (log w')"
      by (auto split: prod.splits sum.splits)
  qed
qed

section \<open>Values a run can return\<close>

definition returns :: "('s, 'a) proc \<Rightarrow> 'a \<Rightarrow> bool" where
  "returns p x \<longleftrightarrow> (\<exists>sv w w'. p sv w = (Inr x, w'))"

lemma returnsI: "p sv w = (Inr x, w') \<Longrightarrow> returns p x"
  unfolding returns_def by blast

lemma returns_retp [simp]: "returns (retp x :: ('s, 'a) proc) y \<longleftrightarrow> y = x"
  by (auto simp: returns_def retp_def)

lemma returns_failp [simp]: "\<not> returns (failp e) y"
  by (simp add: returns_def failp_def)

lemma returns_bindpD: "returns (bindp m f) y \<Longrightarrow> \<exists>x. returns m x \<and> returns (f x) y"
  unfolding returns_def bindp_def by (fastforce split: prod.splits sum.splits)

lemma returns_thenpD: "returns (thenp m k) y \<Longrightarrow> returns k y"
  unfolding thenp_def by (auto dest: returns_bindpD)

lemma returns_letp [simp]: "returns (letp r f) y \<longleftrightarrow> (\<exists>x. r = Inr x \<and> returns (f x) y)"
  by (cases r) (auto simp: letp_def)

lemma returns_checkp [simp]: "returns (checkp c msg k) y \<longleftrightarrow> c = Inr True \<and> returns k y"
  by (cases c) (auto simp: checkp_def)

lemmas returnsD = returns_bindpD returns_thenpD

lemma only_bindp_returns:
  assumes m: "only P m" and f: "\<And>x. returns m x \<Longrightarrow> only P (f x)"
  shows "only P (bindp m f)"
proof (rule onlyI)
  fix sv w
  obtain r w' where run: "m sv w = (r, w')" by (cases "m sv w")
  obtain es where es: "log w' = log w @ es" "list_all P es"
    using onlyD [OF m, of sv w] run by auto
  show "\<exists>es. log (snd (bindp m f sv w)) = log w @ es \<and> list_all P es"
  proof (cases r)
    case (Inl e)
    then show ?thesis using run es by (auto simp: bindp_def)
  next
    case (Inr x)
    have "returns m x" using run Inr by (auto intro: returnsI)
    then obtain fs where "log (snd (f x sv w')) = log w' @ fs" "list_all P fs"
      using onlyD [OF f, of x sv w'] by blast
    then show ?thesis using run es Inr by (auto simp: bindp_def)
  qed
qed

lemma wp_returns:
  "wp p Q E l \<Longrightarrow> wp p (\<lambda>x l'. returns p x \<and> Q x l') E l"
  unfolding wp_def by (fastforce intro: returnsI split: prod.splits sum.splits)

section \<open>Orders of events\<close>

text \<open>Every event of \<open>B\<close> comes after one of \<open>A\<close>.\<close>

fun guarded :: "(event \<Rightarrow> bool) \<Rightarrow> (event \<Rightarrow> bool) \<Rightarrow> bool \<Rightarrow> event list \<Rightarrow> bool" where
  "guarded A B seen [] = True"
| "guarded A B seen (e # es) = ((B e \<longrightarrow> seen) \<and> guarded A B (seen \<or> A e) es)"

abbreviation preceded :: "(event \<Rightarrow> bool) \<Rightarrow> (event \<Rightarrow> bool) \<Rightarrow> event list \<Rightarrow> bool" where
  "preceded A B \<equiv> guarded A B False"

lemma guarded_snoc [simp]:
  "guarded A B seen (es @ [e]) \<longleftrightarrow> guarded A B seen es \<and> (B e \<longrightarrow> seen \<or> list_ex A es)"
  by (induction es arbitrary: seen) auto

lemma guarded_none: "list_all (\<lambda>e. \<not> B e) es \<Longrightarrow> guarded A B seen es"
  by (induction es arbitrary: seen) auto

lemma preceded_split:
  "guarded A B seen (l1 @ e # l2) \<Longrightarrow> B e \<Longrightarrow> seen \<or> (\<exists>a \<in> set l1. A a)"
  by (induction l1 arbitrary: seen) auto

text \<open>What holds of the events since a given log.\<close>

definition since :: "event list \<Rightarrow> (event list \<Rightarrow> bool) \<Rightarrow> event list \<Rightarrow> bool" where
  "since l0 I l \<longleftrightarrow> (\<exists>es. l = l0 @ es \<and> I es)"

lemma since_start: "I [] \<Longrightarrow> since l I l"
  by (simp add: since_def)

lemma since_snoc: "since l0 I l \<Longrightarrow> (\<And>es. I es \<Longrightarrow> I (es @ [e])) \<Longrightarrow> since l0 I (l @ [e])"
  unfolding since_def by force

lemma since_append:
  assumes "since l0 I l" and keep: "\<And>es e. I es \<Longrightarrow> P e \<Longrightarrow> I (es @ [e])" and "list_all P fs"
  shows "since l0 I (l @ fs)"
  using assms(3)
proof (induction fs rule: rev_induct)
  case (snoc e fs)
  then have "since l0 I ((l @ fs) @ [e])"
    by (intro since_snoc keep) auto
  then show ?case by simp
qed (simp add: assms(1))

lemma since_mono: "since l0 I l \<Longrightarrow> (\<And>es. I es \<Longrightarrow> J es) \<Longrightarrow> since l0 J l"
  unfolding since_def by blast

lemma wp_run_log:
  "wp p (\<lambda>_. since (log w) I) (since (log w) I) (log w) \<Longrightarrow> I (run_log p sv w)"
  by (drule wp_always [where sv = sv]) (auto simp: since_def run_log_def)

text \<open>A part of a run whose events keep an invariant of the events since \<open>l0\<close>.\<close>

lemma wp_since:
  assumes "only P p" and "since l0 I l" and "\<And>es e. I es \<Longrightarrow> P e \<Longrightarrow> I (es @ [e])"
  shows "wp p (\<lambda>_. since l0 I) (since l0 I) l"
  using assms(1,2) by (rule only_wp [where P = P]) (auto intro: since_snoc assms(3))

section \<open>Files\<close>

text \<open>\<open>private_write\<close> refuses a symbolic link; the operating system may refuse as well.\<close>

definition private_write :: "string \<Rightarrow> json \<Rightarrow> ('s, unit) proc" where
  "private_write name content =
     bindp (perform (WriteFile name content)) (\<lambda>r.
     if r = Failure then failp (MigrationError ''Refusing symlink output'') else retp ())"

definition is_write_file :: "event \<Rightarrow> bool" where
  "is_write_file e = (case fst e of WriteFile n d \<Rightarrow> True | _ \<Rightarrow> False)"

lemma is_write_file_simps [simp]:
  "is_write_file (WriteFile n d, r)" "\<not> is_write_file (Command a, r)" "\<not> is_write_file (Client m b, r)"
  by (simp_all add: is_write_file_def)

lemma is_write_file_iff: "is_write_file e \<longleftrightarrow> (\<exists>n d r. e = (WriteFile n d, r))"
  by (cases e; cases "fst e") auto

text \<open>An event predicate that files satisfy holds of a list of files.\<close>

lemma files_all: "list_all is_write_file es \<Longrightarrow> (\<And>n d r. P (WriteFile n d, r)) \<Longrightarrow> list_all P es"
  by (auto simp: list_all_iff is_write_file_iff)

lemma only_private_write: "(\<And>r. P (WriteFile n d, r)) \<Longrightarrow> only P (private_write n d)"
  unfolding private_write_def by (intro only_intros)

lemma wp_private_write:
  "(\<And>r. Q () (l @ [(WriteFile n d, r)])) \<Longrightarrow> (\<And>r. E (l @ [(WriteFile n d, r)])) \<Longrightarrow>
     wp (private_write n d) Q E l"
  unfolding private_write_def by (intro wp_intros) auto

section \<open>Runs against a given service\<close>

text \<open>A service without a state answers a call always in the same way: \<open>yields sv p v\<close> says
  that \<open>p\<close> returns \<open>v\<close> there, and \<open>emits sv P p\<close> that an event with \<open>P\<close> is in the log
  afterwards, from any world.\<close>

named_theorems yield_intros \<open>evaluation against a service without a state\<close>
named_theorems emit_intros \<open>where an event is emitted\<close>

definition yields :: "unit service \<Rightarrow> (unit, 'a) proc \<Rightarrow> 'a \<Rightarrow> bool" where
  "yields sv p v \<longleftrightarrow> (\<forall>w. fst (p sv w) = Inr v)"

definition emits :: "unit service \<Rightarrow> (event \<Rightarrow> bool) \<Rightarrow> (unit, 'a) proc \<Rightarrow> bool" where
  "emits sv P p \<longleftrightarrow> (\<forall>w. \<exists>e \<in> set (log (snd (p sv w))). P e)"

definition answer :: "unit service \<Rightarrow> call \<Rightarrow> reply" where
  "answer sv c = fst (sv c ())"

definition files_ok :: "unit service \<Rightarrow> bool" where
  "files_ok sv \<longleftrightarrow> (\<forall>n d. answer sv (WriteFile n d) \<noteq> Failure)"

lemma yieldsD: "yields sv p v \<Longrightarrow> \<exists>w'. p sv w = (Inr v, w')"
  by (cases "p sv w") (metis fst_conv yields_def)

lemma yields_rules [yield_intros]:
  "yields sv (retp x) x"
  "yields sv (perform c) (answer sv c)"
  "yields sv reset_counter ()"
  "yields sv m x \<Longrightarrow> yields sv (f x) v \<Longrightarrow> yields sv (bindp m f) v"
  "yields sv m' () \<Longrightarrow> yields sv k v \<Longrightarrow> yields sv (thenp m' k) v"
  "r = Inr y \<Longrightarrow> yields sv (g y) v \<Longrightarrow> yields sv (letp r g) v"
  "c' = Inr True \<Longrightarrow> yields sv k v \<Longrightarrow> yields sv (checkp c' msg k) v"
  "yields sv (eachp h []) ()"
  "yields sv (h z) () \<Longrightarrow> yields sv (eachp h zs) () \<Longrightarrow> yields sv (eachp h (z # zs)) ()"
  "(\<And>n. yields sv (i n) v) \<Longrightarrow> yields sv (bindp next_number i) v"
  by (auto simp: yields_def retp_def perform_def answer_def reset_counter_def bindp_def thenp_def letp_def
      checkp_def next_number_def split: prod.splits sum.splits) (metis fst_conv sum.inject(2) sum.distinct(1))+

lemma yields_whenp [yield_intros]: "(b \<Longrightarrow> yields sv m ()) \<Longrightarrow> yields sv (whenp b m) ()"
  by (simp add: whenp_def yields_def retp_def)

lemma emits_rules [emit_intros]:
  "P (c, answer sv c) \<Longrightarrow> emits sv P (perform c)"
  "yields sv m x \<Longrightarrow> emits sv P (f x) \<Longrightarrow> emits sv P (bindp m f)"
  "yields sv m' () \<Longrightarrow> emits sv P k \<Longrightarrow> emits sv P (thenp m' k)"
  "r = Inr y \<Longrightarrow> emits sv P (g y) \<Longrightarrow> emits sv P (letp r g)"
  "c' = Inr True \<Longrightarrow> emits sv P k \<Longrightarrow> emits sv P (checkp c' msg k)"
  "(\<And>n. emits sv P (i n)) \<Longrightarrow> emits sv P (bindp next_number i)"
  by (auto simp: emits_def yields_def perform_def answer_def bindp_def thenp_def letp_def
      checkp_def next_number_def split: prod.splits sum.splits) (metis fst_conv sum.inject(2) sum.distinct(1))+

lemma emits_early [emit_intros]:
  assumes "emits sv P m" and f: "\<And>x. only (\<lambda>_. True) (f x)"
  shows "emits sv P (bindp m f)"
  unfolding emits_def
proof
  fix w
  obtain r w' where run: "m sv w = (r, w')" by (cases "m sv w")
  then obtain e where e: "e \<in> set (log w')" "P e" using assms(1) unfolding emits_def by (metis snd_conv)
  show "\<exists>e \<in> set (log (snd (bindp m f sv w))). P e"
  proof (cases r)
    case (Inr x)
    obtain es where "log (snd (f x sv w')) = log w' @ es" using onlyD [OF f, of x sv w'] by blast
    then show ?thesis using run e Inr by (auto simp: bindp_def)
  qed (use run e in \<open>auto simp: bindp_def\<close>)
qed

lemma emits_early_then [emit_intros]: "emits sv P m \<Longrightarrow> only (\<lambda>_. True) k \<Longrightarrow> emits sv P (thenp m k)"
  unfolding thenp_def by (rule emits_early)

text \<open>A part whose result does not matter, as long as there is one.\<close>

definition succeeds :: "unit service \<Rightarrow> (unit, 'a) proc \<Rightarrow> bool" where
  "succeeds sv p \<longleftrightarrow> (\<forall>w. \<exists>x w'. p sv w = (Inr x, w'))"

lemma succeeds_yields:
  assumes "yields sv m x"
  shows "succeeds sv m"
  unfolding succeeds_def
proof
  fix w
  show "\<exists>x w'. m sv w = (Inr x, w')" using yieldsD [OF assms, of w] by (intro exI [of _ x])
qed

lemma succeeds_next: "(\<And>n. succeeds sv (i n)) \<Longrightarrow> succeeds sv (bindp next_number i)"
  by (auto simp: succeeds_def bindp_def next_number_def)

lemma emits_after: "succeeds sv m \<Longrightarrow> (\<And>x. emits sv P (f x)) \<Longrightarrow> emits sv P (bindp m f)"
  unfolding succeeds_def emits_def bindp_def by (auto split: prod.splits sum.splits) (metis Inl_Inr_False fst_conv snd_conv old.prod.exhaust prod.inject)+

lemma emitsD: "emits sv P p \<Longrightarrow> \<exists>e \<in> set (log (snd (p sv w))). P e"
  by (simp add: emits_def)

lemma yields_private_write [yield_intros]: "files_ok sv \<Longrightarrow> yields sv (private_write n d) ()"
  unfolding private_write_def by (rule yield_intros)+ (auto simp: files_ok_def intro: yields_rules)

end
