(* ===== verification/Migration_Deploy.thy ===== *)
theory Migration_Deploy
  imports Connectivity Py_Proc
begin

text \<open>
  \<open>scripts/migration_deploy.py\<close>: the Azure commands, the scope check of a What-if result
  (which resources a plan of a component may create or modify) and the reviewed plan whose hash
  an approval binds.
\<close>

section \<open>Names\<close>

definition deployment_name :: "sha \<Rightarrow> json \<Rightarrow> int \<Rightarrow> string \<Rightarrow> string res" where
  "deployment_name sha config stage component =
     bindr (fmt (sub (val config) ''environment'')) (\<lambda>env.
     let stem = ''llmgw-'' @ env @ ''-s'' @ show_int stage @ ''-'' @ component in
     if stage = 0 \<and> component = ''bootstrap''
     then bindr (sub (val config) ''location'') (\<lambda>location.
          bindr (str_of (target_group config)) (\<lambda>g.
          val (stem @ ''-'' @ take 8 (fingerprint sha (JObj
            [(''location'', location), (''targetResourceGroup'', JStr (lower g))])))))
     else val stem)"

definition group_id :: "json \<Rightarrow> bool \<Rightarrow> string res" where
  "group_id config legacy =
     bindr (fmt (subscription_of config)) (\<lambda>s.
     bindr (fmt (sub (sub (val config) (if legacy then ''legacy'' else ''target'')) ''resourceGroup'')) (\<lambda>g.
     val (scope_prefix s g)))"

section \<open>The scope of a plan\<close>

definition LEGACY_COMPONENTS :: "string list" where
  "LEGACY_COMPONENTS = [''monitoring'', ''legacy-logging'']"

definition role_assignment_id :: rx where
  "role_assignment_id =
     cat [times 8 8 hexlow, times 3 3 (Seq (chr CHR ''-'') (times 4 4 hexlow)), chr CHR ''-'', times 12 12 hexlow]"

text \<open>\<open>connection["accountResourceId"].rstrip("/").lower()\<close>\<close>

definition external_account :: "json \<Rightarrow> string res" where
  "external_account connection =
     mapr (\<lambda>s. lower (rev (dropWhile (\<lambda>c. c = CHR ''/'') (rev s))))
       (str_of (sub (val connection) ''accountResourceId''))"

definition external_accounts_of :: "json \<Rightarrow> string list res" where
  "external_accounts_of config =
     bindr (iter (dget (parameters_of config ''platform'') ''azureOpenAIConnections'' (JList []))) (map_res external_account)"

definition monitoring_kinds :: "string \<Rightarrow> string list" where
  "monitoring_kinds component =
     (if component = ''legacy-logging''
      then [''microsoft.operationalinsights/workspaces'', ''microsoft.resources/deployments'']
      else [''microsoft.insights/actiongroups'', ''microsoft.insights/scheduledqueryrules'',
            ''microsoft.insights/activitylogalerts'', ''microsoft.resources/deployments''])"

definition connectivity_scope :: "sha \<Rightarrow> json \<Rightarrow> json \<Rightarrow> string \<Rightarrow> unit res" where
  "connectivity_scope sha config connectivity resource =
     check (val (connectivity \<noteq> JNull)) ''Connectivity changes require resolved network resources'' (
     bindr (connectivity_settings sha config) (\<lambda>settings.
     bindr (dget (val connectivity) ''privateDnsZoneName'' (JStr [])) (\<lambda>zone.
     check (val (map_of settings ''manageBlobDnsLink'' = Some (JBool False) \<or> configured zone))
       ''Managed Blob DNS connectivity requires a resolved Private DNS zone'' (
     bindr (str_of (val zone)) (\<lambda>z.
     bindr (connectivity_resource_ids sha config z) (\<lambda>ids.
     check (val (resource \<in> set ids)) ''Connectivity plan attempts to modify an unapproved resource'' (val ())))))))"

definition ingress_role_scope :: "json \<Rightarrow> string \<Rightarrow> string \<Rightarrow> unit res" where
  "ingress_role_scope config allowed_group resource =
     bindr (sub (sub (sub (val config) ''parameters'') ''platform'') ''stage4Network'') (\<lambda>network.
     bindr (str_of (sub (val network) ''virtualNetworkName'')) (\<lambda>vnet.
     let prefix = allowed_group @ ''/providers/microsoft.network/virtualnetworks/'' @ lower vnet
                    @ ''/providers/microsoft.authorization/roleassignments/'' in
     check (val (starts_with resource prefix \<and> rmatch role_assignment_id (remove_prefix resource prefix)))
       ''AKS network role plan attempts to modify an unapproved resource'' (val ())))"

definition component_scope :: "string \<Rightarrow> string \<Rightarrow> string list \<Rightarrow> string \<Rightarrow> unit res" where
  "component_scope component allowed_group accounts resource =
     (let local = starts_with resource (allowed_group @ ''/'')
                    \<or> (component = ''bootstrap'' \<and> resource = allowed_group);
          external_role = component = ''platform'' \<and> list_ex (\<lambda>account.
            starts_with resource (account @ ''/providers/microsoft.authorization/roleassignments/'')) accounts
      in check (val (local \<or> external_role))
           ''Plan attempts to modify a resource outside the approved component scope'' (
         if component \<in> set LEGACY_COMPONENTS
         then check (val (list_ex (\<lambda>kind. starts_with resource (allowed_group @ ''/providers/'' @ kind @ ''/''))
                       (monitoring_kinds component)))
                ''Monitoring deployment cannot replace legacy application or data resources'' (val ())
         else val ()))"

text \<open>The body of the loop over the changes of a What-if result.\<close>

definition unchanged :: "json \<Rightarrow> bool" where
  "unchanged kind \<longleftrightarrow> kind = JStr ''NoChange'' \<or> kind = JStr ''Ignore''"

definition check_change ::
    "sha \<Rightarrow> (string \<Rightarrow> string) \<Rightarrow> json \<Rightarrow> string \<Rightarrow> json \<Rightarrow> string \<Rightarrow> string list \<Rightarrow> json \<Rightarrow> unit res" where
  "check_change sha uuid5 config component connectivity allowed_group accounts change =
     check (in_strs (dget0 (val change) ''changeType'') [''Create'', ''Modify'', ''NoChange'', ''Ignore''])
       ''Delete, Unsupported or unknown changes require separate remediation; deployment blocked'' (
     bindr (sub (val change) ''changeType'') (\<lambda>kind.
     if unchanged kind then val ()
     else bindr (mapr lower (str_of (dget (val change) ''resourceId'' (JStr [])))) (\<lambda>resource.
       if component = ''runner-target-connectivity''
       then bindr (target_connectivity_resource_ids config connectivity) (\<lambda>ids.
            check (val (resource \<in> set ids))
              ''Target connectivity plan attempts to modify an unapproved resource'' (val ()))
       else if component = ''certificate-vault''
       then bindr (certificate_resource_ids uuid5 config) (\<lambda>ids.
            check (val (resource \<in> set ids))
              ''Certificate plan attempts to modify an unapproved resource'' (val ()))
       else if component = ''runner-connectivity'' then connectivity_scope sha config connectivity resource
       else if component = ''aks-ingress-role'' then ingress_role_scope config allowed_group resource
       else component_scope component allowed_group accounts resource)))"

definition assert_change_scope ::
    "sha \<Rightarrow> (string \<Rightarrow> string) \<Rightarrow> json \<Rightarrow> string \<Rightarrow> json list \<Rightarrow> json \<Rightarrow> unit res" where
  "assert_change_scope sha uuid5 config component changes connectivity =
     bindr (mapr lower (group_id config (component \<in> set LEGACY_COMPONENTS))) (\<lambda>allowed_group.
     seqr (if component = ''aks-ingress-role''
           then bindr (filter_res (\<lambda>change.
                  negr (in_strs (dget0 (val change) ''changeType'') [''NoChange'', ''Ignore''])) changes) (\<lambda>actionable.
                check (val (length actionable \<le> 1))
                  ''AKS ingress role plan must contain at most one change'' (val ()))
           else val ()) (
     bindr (external_accounts_of config) (\<lambda>accounts.
     each (check_change sha uuid5 config component connectivity allowed_group accounts) changes)))"

section \<open>Azure commands\<close>

text \<open>\<open>AzureCommands._run\<close>: both streams are kept in files (the error stream is not part of a
  reply here); a failure, no output and output that is no JSON are errors.\<close>

definition stdout_of :: "reply \<Rightarrow> json" where
  "stdout_of r = (case r of Json v \<Rightarrow> v | Text t \<Rightarrow> JStr t | Failure \<Rightarrow> JNull)"

definition az_run :: "bool \<Rightarrow> string list \<Rightarrow> ('s, json) proc" where
  "az_run allow_empty arguments =
     bindp next_number (\<lambda>n.
     bindp (perform (Command (''az'' # arguments @ [''--only-show-errors'', ''--output'', ''json'']))) (\<lambda>r.
     thenp (private_write (''command-'' @ show_nat n @ ''.stdout.json'') (stdout_of r)) (
     thenp (private_write (''command-'' @ show_nat n @ ''.stderr.txt'') JNull) (
     case r of
       Failure \<Rightarrow> failp (MigrationError ''Azure command failed'')
     | Json v \<Rightarrow> retp v
     | Text t \<Rightarrow>
         if strip t = []
         then (if allow_empty then retp JNull else failp (MigrationError ''returned no JSON output''))
         else failp (MigrationError ''returned invalid JSON'')))))"

definition az_scoped_with :: "bool \<Rightarrow> json \<Rightarrow> string list \<Rightarrow> ('s, json) proc" where
  "az_scoped_with allow_empty config arguments =
     letp (str_of (subscription_of config)) (\<lambda>s.
     az_run allow_empty (arguments @ [''--subscription'', s]))"

abbreviation az_scoped :: "json \<Rightarrow> string list \<Rightarrow> ('s, json) proc" where
  "az_scoped \<equiv> az_scoped_with False"

abbreviation az_scoped_allow_empty :: "json \<Rightarrow> string list \<Rightarrow> ('s, json) proc" where
  "az_scoped_allow_empty \<equiv> az_scoped_with True"

text \<open>The events of one Azure command: the command and at most two files.\<close>

definition az_command :: "string list \<Rightarrow> call" where
  "az_command arguments = Command (''az'' # arguments @ [''--only-show-errors'', ''--output'', ''json''])"

lemma only_az_run:
  assumes "\<And>r. P (az_command arguments, r)" and "\<And>n d r. P (WriteFile n d, r)"
  shows "only P (az_run e arguments)"
  unfolding az_run_def
  by (intro only_intros only_private_write; (rule assms [unfolded az_command_def])?)
     (auto intro: only_retp only_failp split: reply.splits)

lemma only_az_scoped:
  assumes "\<And>s r. P (az_command (arguments @ [''--subscription'', s]), r)" and "\<And>n d r. P (WriteFile n d, r)"
  shows "only P (az_scoped_with e config arguments)"
  unfolding az_scoped_with_def by (intro only_intros only_az_run assms)

text \<open>The value of a command is the reply that stands in the log.\<close>

lemma wp_az_run:
  assumes "\<And>r es. list_all is_write_file es \<Longrightarrow> E (l @ (az_command arguments, r) # es)"
    and "\<And>v es. list_all is_write_file es \<Longrightarrow> Q v (l @ (az_command arguments, Json v) # es)"
  shows "wp (az_run False arguments) Q E l"
  unfolding az_run_def
  apply (intro wp_intros wp_private_write)
  subgoal for n r r1 r2
    using assms(1) [of "[(WriteFile (''command-'' @ show_nat n @ ''.stdout.json'') (stdout_of r), r1),
             (WriteFile (''command-'' @ show_nat n @ ''.stderr.txt'') JNull, r2)]" r]
      assms(2) [of "[(WriteFile (''command-'' @ show_nat n @ ''.stdout.json'') (stdout_of r), r1),
             (WriteFile (''command-'' @ show_nat n @ ''.stderr.txt'') JNull, r2)]"]
    by (auto simp: az_command_def intro!: wp_failp wp_retp split: reply.splits)
  subgoal for n r r1 r2
    using assms(1) [of "[(WriteFile (''command-'' @ show_nat n @ ''.stdout.json'') (stdout_of r), r1),
             (WriteFile (''command-'' @ show_nat n @ ''.stderr.txt'') JNull, r2)]" r]
    by (simp add: az_command_def)
  subgoal for n r r1
    using assms(1) [of "[(WriteFile (''command-'' @ show_nat n @ ''.stdout.json'') (stdout_of r), r1)]" r]
    by (simp add: az_command_def)
  done

lemma yields_az_run [yield_intros]:
  "answer sv (az_command arguments) = Json v \<Longrightarrow> files_ok sv \<Longrightarrow> yields sv (az_run e arguments) v"
  unfolding az_run_def az_command_def by (rule yield_intros | assumption)+ (simp add: yield_intros)

lemma yields_az_scoped [yield_intros]:
  "subscription_of config = Inr (JStr s) \<Longrightarrow> answer sv (az_command (arguments @ [''--subscription'', s])) = Json v \<Longrightarrow>
     files_ok sv \<Longrightarrow> yields sv (az_scoped_with e config arguments) v"
  unfolding az_scoped_with_def by (simp add: letp_def yields_az_run)

text \<open>The check of the login every operation starts with.\<close>

definition login_scope :: "json \<Rightarrow> json res" where
  "login_scope config =
     bindr (sub (sub (val config) ''azure'') ''tenantId'') (\<lambda>tenant.
     bindr (subscription_of config) (\<lambda>s.
     val (JObj [(''tenantId'', tenant), (''id'', s)])))"

definition check_login :: "json \<Rightarrow> ('s, unit) proc" where
  "check_login config =
     bindp (az_run False [''account'', ''show'', ''--query'', ''{tenantId:tenantId,id:id}'']) (\<lambda>context.
     checkp (bindr (login_scope config) (\<lambda>expected. val (py_eq context expected)))
       ''Azure login scope does not match customer configuration'' (retp ()))"

lemma yields_check_login [yield_intros]:
  "answer sv (az_command [''account'', ''show'', ''--query'', ''{tenantId:tenantId,id:id}'']) = Json context \<Longrightarrow>
     login_scope config = Inr expected \<Longrightarrow> py_eq context expected \<Longrightarrow> files_ok sv \<Longrightarrow> yields sv (check_login config) ()"
  unfolding check_login_def by (rule yield_intros | assumption)+ (simp_all add: yield_intros)

section \<open>The reviewed plan\<close>

text \<open>\<open>sorted(changes, key=lambda change: change.get("resourceId", ""))\<close> of string identities.\<close>

definition by_resource :: "json list \<Rightarrow> json list res" where
  "by_resource changes =
     bindr (map_res (\<lambda>change. bindr (dget (val change) ''resourceId'' (JStr [])) (\<lambda>v.
              case v of JStr s \<Rightarrow> val (s, change) | _ \<Rightarrow> Inl TypeError)) changes) (\<lambda>ps.
     val (map snd (sort_key fst ps)))"

definition relevant_changes :: "json list \<Rightarrow> json list res" where
  "relevant_changes changes =
     bindr (filter_res (\<lambda>change. negr (eqs (sub (val change) ''changeType'') ''Ignore'')) changes) by_resource"

definition plan_contract ::
    "sha \<Rightarrow> json \<Rightarrow> int \<Rightarrow> string \<Rightarrow> json \<Rightarrow> string \<Rightarrow> json \<Rightarrow> json list \<Rightarrow> obj res" where
  "plan_contract sha config stage component revision template_hash parameters relevant =
     bindr (sub (val config) ''environment'') (\<lambda>env.
     bindr (stage_fingerprint sha config stage) (\<lambda>config_hash.
     val [(''stage'', JInt stage), (''component'', JStr component), (''environment'', env),
          (''revision'', revision), (''configSha256'', JStr config_hash),
          (''templateSha256'', JStr template_hash),
          (''parametersSha256'', JStr (fingerprint sha parameters)), (''changes'', JList relevant)]))"

definition change_summary :: "json \<Rightarrow> json res" where
  "change_summary change =
     bindr (dget0 (val change) ''resourceId'') (\<lambda>resource.
     bindr (sub (val change) ''changeType'') (\<lambda>kind.
     bindr (dget0 (val change) ''delta'') (\<lambda>delta.
     bindr (if truth delta then iter (val delta) else val []) (\<lambda>deltas.
     bindr (map_res (\<lambda>d. dget0 (val d) ''path'') deltas) (\<lambda>paths.
     val (JObj [(''resourceId'', resource), (''changeType'', kind), (''changedProperties'', JList paths)]))))))"

definition build_plan ::
    "sha \<Rightarrow> (string \<Rightarrow> string) \<Rightarrow> json \<Rightarrow> int \<Rightarrow> string \<Rightarrow> json \<Rightarrow> string \<Rightarrow> json \<Rightarrow> json list \<Rightarrow> json
     \<Rightarrow> obj res" where
  "build_plan sha uuid5 config stage component revision template_hash parameters changes connectivity =
     seqr (assert_change_scope sha uuid5 config component changes connectivity) (
     bindr (relevant_changes changes) (\<lambda>relevant.
     bindr (plan_contract sha config stage component revision template_hash parameters relevant) (\<lambda>contract.
     bindr (map_res change_summary relevant) (\<lambda>summaries.
     val ((''planSha256'', JStr (fingerprint sha (JObj contract)))
          # butlast contract @ [(''changes'', JList summaries)])))))"

end
