(* ===== verification/Approval_Gate.thy ===== *)
theory Approval_Gate
  imports Py_Proc
begin

text \<open>
  The contract every reviewed operation of the tooling shares: a first phase reads the
  environment, writes the plan for the reviewers and computes its hash; \<open>plan\<close> stops there and
  \<open>execute\<close> goes on only when the approved hash is the hash of the plan just recomputed.

  The locale fixes the operation with its two phases and states what a provider promises; its
  lemmas hold for every operation that is an instance.
\<close>

locale approval_gate =
  fixes operate :: "string \<Rightarrow> string \<Rightarrow> ('s, 'r) proc"
    and prepare :: "('s, 'p) proc"
    and finish :: "'p \<Rightarrow> ('s, 'r) proc"
    and apply_plan :: "'p \<Rightarrow> ('s, 'r) proc"
    and digest :: "'p \<Rightarrow> string"
    and review :: "'p \<Rightarrow> call"
    and msg :: string
    and harmless :: "event \<Rightarrow> bool"
  assumes plan_op: "operate ''plan'' a = bindp prepare finish"
    and execute_op:
      "operate ''execute'' a = bindp prepare (\<lambda>p. checkp (val (a = digest p)) msg (apply_plan p))"
    and prepare_harmless: "only harmless prepare"
    and finish_harmless: "only harmless (finish p)"
    and apply_appends: "only (\<lambda>_. True) (apply_plan p)"
    and prepare_reviewed: "wp prepare (\<lambda>p l. \<exists>r. (review p, r) \<in> set l) (\<lambda>_. True) l"
begin

lemma plan_harmless: "only harmless (operate ''plan'' a)"
  unfolding plan_op by (intro only_bindp prepare_harmless finish_harmless)

lemma unapproved_harmless:
  assumes "\<And>sv w p w'. prepare sv w = (Inr p, w') \<Longrightarrow> a \<noteq> digest p"
  shows "only harmless (operate ''execute'' a)"
proof (rule onlyI)
  fix sv :: "'s service" and w :: "'s world"
  obtain r w' where run: "prepare sv w = (r, w')" by (cases "prepare sv w")
  obtain es where "log w' = log w @ es" "list_all harmless es"
    using onlyD [OF prepare_harmless, of sv w] run by auto
  moreover have "snd (operate ''execute'' a sv w) = w'"
    using run assms unfolding execute_op
    by (cases r) (auto simp: bindp_def checkp_def failp_def)
  ultimately show "\<exists>es. log (snd (operate ''execute'' a sv w)) = log w @ es \<and> list_all harmless es"
    by auto
qed

text \<open>A run with a harmful event passed the gate: its plan was written for review, the approved
  hash is the hash of that plan, and nothing harmful happened before.\<close>

lemma harmful_run:
  assumes op: "operation = ''plan'' \<or> operation = ''execute''"
    and e: "e \<in> set (log (snd (operate operation a sv (start s))))" "\<not> harmless e"
  obtains p w' r where "operation = ''execute''" and "prepare sv (start s) = (Inr p, w')"
    and "list_all harmless (log w')" and "(review p, r) \<in> set (log w')" and "a = digest p"
    and "operate operation a sv (start s) = apply_plan p sv w'"
proof -
  have "operation \<noteq> ''plan''"
    using onlyD [OF plan_harmless, of a sv "start s"] e
    by (auto simp: start_def list_all_iff)
  with op have ex: "operation = ''execute''" by simp
  obtain x w' where run: "prepare sv (start s) = (x, w')" by (cases "prepare sv (start s)")
  obtain es where es: "log w' = es" "list_all harmless es"
    using onlyD [OF prepare_harmless, of sv "start s"] run by (auto simp: start_def)
  obtain p where p: "x = Inr p"
    using run es e ex by (cases x) (auto simp: execute_op bindp_def list_all_iff)
  have a: "a = digest p"
    using run es e ex p
    by (cases "a = digest p") (auto simp: execute_op bindp_def checkp_def failp_def list_all_iff)
  obtain r where r: "(review p, r) \<in> set (log w')"
    using wp_success [OF prepare_reviewed run [unfolded p]] by blast
  have "operate operation a sv (start s) = apply_plan p sv w'"
    using run ex p a by (simp add: execute_op bindp_def checkp_def)
  with that ex run p es r a show thesis by blast
qed

lemma harmful_approved:
  assumes "operation = ''plan'' \<or> operation = ''execute''"
    and "e \<in> set (log (snd (operate operation a sv (start s))))" "\<not> harmless e"
  shows "operation = ''execute'' \<and>
    (\<exists>p r. returns prepare p \<and> a = digest p \<and>
       (review p, r) \<in> set (log (snd (operate operation a sv (start s)))))"
proof -
  obtain p w' r where *: "operation = ''execute''" "prepare sv (start s) = (Inr p, w')"
      "(review p, r) \<in> set (log w')" "a = digest p"
      "operate operation a sv (start s) = apply_plan p sv w'"
    using harmful_run [OF assms] by metis
  obtain fs where "log (snd (apply_plan p sv w')) = log w' @ fs"
    using onlyD [OF apply_appends, of p sv w'] by blast
  then have "(review p, r) \<in> set (log (snd (operate operation a sv (start s))))"
    using * by simp
  moreover have "returns prepare p" using *(2) by (rule returnsI)
  ultimately show ?thesis using * by blast
qed

end

text \<open>An operation that has to be admitted before its first phase: the request is checked, and going on
  needs more than planning.  Nothing happens in a run that is not admitted.\<close>

locale admitted_gate =
  approval_gate operate prepare finish apply_plan digest review msg harmless
  for operate :: "string \<Rightarrow> string \<Rightarrow> ('s, 'r) proc"
    and prepare :: "('s, 'p) proc"
    and finish :: "'p \<Rightarrow> ('s, 'r) proc"
    and apply_plan :: "'p \<Rightarrow> ('s, 'r) proc"
    and digest :: "'p \<Rightarrow> string"
    and review :: "'p \<Rightarrow> call"
    and msg :: string
    and harmless :: "event \<Rightarrow> bool" +
  fixes request_run :: "string \<Rightarrow> string \<Rightarrow> ('s, 'r) proc"
    and admit :: "string \<Rightarrow> string \<Rightarrow> unit res"
    and go :: string
  assumes run_plan: "request_run ''plan'' a = letp (admit ''plan'' a) (\<lambda>_. operate ''plan'' a)"
    and run_go: "request_run go a = letp (admit go a) (\<lambda>_. operate ''execute'' a)"
begin

lemma admitted_harmful:
  assumes op: "operation = ''plan'' \<or> operation = go"
    and e: "e \<in> set (log (snd (request_run operation a sv (start s))))" "\<not> harmless e"
  shows "operation = go \<and> admit go a = Inr () \<and>
    (\<exists>p r. returns prepare p \<and> a = digest p \<and>
       (review p, r) \<in> set (log (snd (request_run operation a sv (start s)))))"
proof -
  have no_plan: False if "request_run operation a = letp (admit ''plan'' a) (\<lambda>_. operate ''plan'' a)"
    using that e harmful_approved [of "''plan''" e a sv s]
    by (cases "admit ''plan'' a") (auto simp: letp_def failp_def start_def)
  with op have go: "operation = go" by (auto simp: run_plan)
  then have "admit go a = Inr ()"
    using e by (cases "admit go a") (auto simp: run_go letp_def failp_def start_def)
  moreover from this have "request_run operation a = operate ''execute'' a"
    using go by (simp add: run_go letp_def)
  ultimately show ?thesis
    using harmful_approved [of "''execute''" e a sv s] e go by simp
qed

end

end
