(* ===== verification/Dns_Runtime.thy ===== *)
theory Dns_Runtime
  imports Migration_Deploy Approval_Gate
begin

text \<open>
  \<open>scripts/dns_runtime.py\<close>: the cutover of the two public DNS records.  \<open>DnsClient\<close> reads the
  records, keeps a checkpoint in the outputs of a named deployment and writes one record under a
  concurrency token; \<open>change_dns\<close> plans, and on an approved plan publishes or rolls back.
\<close>

section \<open>Settings\<close>

record dns_zone =
  zone_id :: string
  ttl :: json
  zone :: string
  zone_group :: string
  records :: "(string \<times> string) list"

definition PLANES :: "string list" where
  "PLANES = [''api'', ''admin'']"

definition dns_settings :: "json \<Rightarrow> dns_zone res" where
  "dns_settings config =
     bindr (dget0 (val config) ''dns'') (\<lambda>value.
     check (val (keys_are [''zoneResourceId'', ''ttl''] value)) ''dns requires zoneResourceId and ttl'' (
     bindr (sub (val value) ''zoneResourceId'') (\<lambda>zid.
     bindr (fullmatch DNS_ZONE_ID (val zid)) (\<lambda>_.
     bindr (str_of (val zid)) (\<lambda>i.
     check (same_subscription config (dns_zone_match i)) ''DNS zone must be in the approved subscription'' (
     let (subscription, rgroup, name) = the (dns_zone_match i) in
     bindr (map_res (\<lambda>plane. mapr (Pair plane)
              (prefixed (''llm-'' @ plane @ ''.'') (sub (val config) ''baseDomain''))) PLANES) (\<lambda>hosts.
     check (val (list_all (\<lambda>(plane, host). ends_with host (''.'' @ name)) hosts))
       ''DNS zone must contain both gateway hostnames; apex CNAME is not supported'' (
     bindr (sub (val value) ''ttl'') (\<lambda>seconds.
     check (val (is_int seconds \<and> int_le 60 seconds \<and> le_int seconds 3600))
       ''DNS TTL must be 60 to 3600 seconds'' (
     val \<lparr>zone_id = i, ttl = seconds, zone = name, zone_group = rgroup,
          records = map (\<lambda>(plane, host). (plane, take (length host - (length name + 1)) host)) hosts\<rparr>))))))))))"

definition record_id :: "dns_zone \<Rightarrow> string \<Rightarrow> string" where
  "record_id settings plane =
     zone_id settings @ ''/CNAME/'' @ (case map_of (records settings) plane of None \<Rightarrow> [] | Some r \<Rightarrow> r)"

definition record_url :: "dns_zone \<Rightarrow> string \<Rightarrow> string" where
  "record_url settings plane =
     ''https://management.azure.com'' @ record_id settings plane @ ''?api-version=2018-05-01''"

section \<open>\<open>DnsClient\<close>\<close>

text \<open>One plane of \<open>read\<close>: at most one record of the name, with its token.\<close>

definition read_record :: "json list \<Rightarrow> string \<times> string \<Rightarrow> (string \<times> json) res" where
  "read_record found p =
     bindr (filter_res (\<lambda>item. eqs (sub (val item) ''name'') (snd p)) found) (\<lambda>matches.
     check (val (length matches \<le> 1)) ''Ambiguous DNS record'' (
     case matches of
       [] \<Rightarrow> val (fst p, JNull)
     | item # _ \<Rightarrow>
         check (testr truth (dget0 (val item) ''etag'')) ''DNS record has no concurrency token'' (
         bindr (dget0 (val item) ''CNAMERecord'') (\<lambda>upper.
         bindr (dget (val item) ''cnameRecord'' upper) (\<lambda>content.
         check (conjr (val (is_dict content)) (testr truth (dget0 (val content) ''cname'')))
           ''Unexpected DNS record content'' (
         bindr (sub (val item) ''etag'') (\<lambda>etag.
         bindr (dget0 (val item) ''TTL'') (\<lambda>upper_ttl.
         bindr (dget (val item) ''ttl'' upper_ttl) (\<lambda>seconds.
         bindr (dget0 (val item) ''metadata'') (\<lambda>metadata.
         val (fst p, JObj
           [(''etag'', etag),
            (''properties'', JObj [(''TTL'', seconds), (''CNAMERecord'', content),
               (''metadata'', if truth metadata then metadata else JObj [])])])))))))))))"

definition list_records_command :: "dns_zone \<Rightarrow> string list" where
  "list_records_command settings =
     [''network'', ''dns'', ''record-set'', ''cname'', ''list'', ''--resource-group'',
      zone_group settings, ''--zone-name'', zone settings]"

definition dns_read :: "json \<Rightarrow> dns_zone \<Rightarrow> ('s, obj) proc" where
  "dns_read config settings =
     bindp (az_scoped config (list_records_command settings)) (\<lambda>found.
     letp (iter (val found)) (\<lambda>items.
     letp (map_res (read_record items) (records settings)) retp))"

definition checkpoint_command :: "string \<Rightarrow> string \<Rightarrow> string list" where
  "checkpoint_command rgroup name =
     [''deployment'', ''group'', ''list'', ''--resource-group'', rgroup, ''--query'',
      ''[?name=='' @ [CHR 0x27] @ name @ [CHR 0x27] @ ''].properties.outputs.dnsCheckpoint.value'']"

definition dns_checkpoint :: "sha \<Rightarrow> json \<Rightarrow> ('s, json) proc" where
  "dns_checkpoint sha config =
     letp (deployment_name sha config 9 ''dns-checkpoint'') (\<lambda>name.
     letp (str_of (target_group config)) (\<lambda>rgroup.
     bindp (az_scoped config (checkpoint_command rgroup name)) (\<lambda>found.
     letp (list_of (val found)) (\<lambda>entries.
     checkp (val (length entries \<le> 1)) ''Ambiguous DNS checkpoint'' (
     retp (case entries of [] \<Rightarrow> JNull | e # _ \<Rightarrow> e))))))"

definition checkpoint_document :: "json \<Rightarrow> json" where
  "checkpoint_document checkpoint =
     JObj [(''$schema'', JStr ''https://schema.management.azure.com/schemas/2019-04-01/deploymentTemplate.json#''),
       (''contentVersion'', JStr ''1.0.0.0''), (''resources'', JList []),
       (''outputs'', JObj [(''dnsCheckpoint'', JObj [(''type'', JStr ''object''), (''value'', checkpoint)])])]"

definition save_command :: "string \<Rightarrow> string \<Rightarrow> string list" where
  "save_command rgroup name =
     [''deployment'', ''group'', ''create'', ''--resource-group'', rgroup, ''--name'', name,
      ''--mode'', ''Incremental'', ''--template-file'', ''dns-checkpoint.json'']"

definition dns_save :: "sha \<Rightarrow> json \<Rightarrow> json \<Rightarrow> ('s, unit) proc" where
  "dns_save sha config checkpoint =
     thenp (private_write ''dns-checkpoint.json'' (checkpoint_document checkpoint)) (
     letp (str_of (target_group config)) (\<lambda>rgroup.
     letp (deployment_name sha config 9 ''dns-checkpoint'') (\<lambda>name.
     bindp (az_scoped config (save_command rgroup name)) (\<lambda>result.
     checkp (eqs (dget0 (dgetO (val result) ''properties'') ''provisioningState'') ''Succeeded'')
       ''DNS checkpoint could not be saved; record was not changed'' (retp ())))))"

text \<open>A write names the token of the record it replaces, or asserts that there is none.\<close>

definition write_headers :: "json \<Rightarrow> string res" where
  "write_headers previous =
     (if truth previous then prefixed ''If-Match='' (sub (val previous) ''etag'')
      else val ''If-None-Match=*'')"

definition write_command :: "string \<Rightarrow> string \<Rightarrow> string \<Rightarrow> string list" where
  "write_command method url headers =
     [''rest'', ''--method'', method, ''--url'', url, ''--headers'', headers]"

definition dns_write :: "json \<Rightarrow> dns_zone \<Rightarrow> string \<Rightarrow> json \<Rightarrow> json \<Rightarrow> ('s, unit) proc" where
  "dns_write config settings plane desired previous =
     checkp (val (plane \<in> set (map fst (records settings)))) ''Unexpected DNS plane'' (
     letp (write_headers previous) (\<lambda>headers.
     if truth desired
     then thenp (private_write (''dns-record-'' @ plane @ ''.json'') (JObj [(''properties'', desired)])) (
          bindp (az_scoped config (write_command ''put'' (record_url settings plane) headers
                   @ [''--body'', ''@dns-record-'' @ plane @ ''.json''])) (\<lambda>_. retp ()))
     else bindp (az_scoped_allow_empty config (write_command ''delete'' (record_url settings plane) headers))
            (\<lambda>_. retp ())))"

section \<open>\<open>change_dns\<close>\<close>

definition properties_at :: "obj \<Rightarrow> string \<Rightarrow> json res" where
  "properties_at current plane =
     bindr (sub (val (JObj current)) plane) (\<lambda>item.
     if truth item then sub (val item) ''properties'' else val JNull)"

text \<open>The deployed edge, and for a publication its enabled routes.\<close>

definition check_route :: "json \<Rightarrow> json \<Rightarrow> string \<Rightarrow> ('s, unit) proc" where
  "check_route config edge key =
     letp (str_of (sub (val edge) key)) (\<lambda>route_id.
     bindp (az_scoped config [''resource'', ''show'', ''--ids'', route_id, ''--api-version'', ''2025-04-15'']) (\<lambda>route.
     checkp (conjr (eqs (dget0 (dgetO (val route) ''properties'') ''enabledState'') ''Enabled'')
                   (eqs (dget0 (sub (val route) ''properties'') ''linkToDefaultDomain'') ''Disabled''))
       ''A gateway route is not enabled or exposes the default domain'' (retp ())))"

definition deployed_edge :: "sha \<Rightarrow> json \<Rightarrow> string \<Rightarrow> ('s, json) proc" where
  "deployed_edge sha config action =
     letp (str_of (target_group config)) (\<lambda>rgroup.
     letp (deployment_name sha config 9 ''edge'') (\<lambda>name.
     bindp (az_scoped config [''deployment'', ''group'', ''show'', ''--resource-group'', rgroup, ''--name'', name,
              ''--query'', ''{state:properties.provisioningState,edge:properties.outputs.edge.value}'']) (\<lambda>output.
     checkp (eqs (dget0 (val output) ''state'') ''Succeeded'')
       ''Deploy and verify the edge before DNS publication'' (
     letp (sub (val output) ''edge'') (\<lambda>edge.
     letp (mapr (\<lambda>g. lower g @ ''/providers/microsoft.cdn/profiles/'') (group_id config False)) (\<lambda>prefix.
     checkp (all_res (\<lambda>key. mapr (\<lambda>s. starts_with (lower s) prefix)
               (str_of (dget (val edge) key (JStr [])))) [''routeId'', ''adminRouteId''])
       ''Re-deploy edge to provide both route resource IDs'' (
     thenp (whenp (action = ''dns-publish'') (eachp (check_route config edge) [''routeId'', ''adminRouteId''])) (
     retp edge))))))))"

definition ENDPOINT :: rx where
  "ENDPOINT =
     cat [plus1 (lownum_or ''-''), chr CHR ''.'', opt (Seq (plus1 (lownum_or ''-'')) (chr CHR ''.'')),
          lit ''azurefd.net'']"

definition check_edge :: "json \<Rightarrow> json \<Rightarrow> unit res" where
  "check_edge config edge =
     check (conjr (bindr (dget0 (val edge) ''apiHost'') (\<lambda>h. mapr (\<lambda>s. h = JStr s)
                     (prefixed ''llm-api.'' (sub (val config) ''baseDomain''))))
                  (bindr (dget0 (val edge) ''adminHost'') (\<lambda>h. mapr (\<lambda>s. h = JStr s)
                     (prefixed ''llm-admin.'' (sub (val config) ''baseDomain'')))))
       ''DNS hosts must match the deployed split-plane Front Door'' (
     check (conjr (fullmatch ENDPOINT (dget (val edge) ''endpointHost'' (JStr [])))
           (conjr (fullmatch ENDPOINT (dget (val edge) ''adminEndpointHost'' (JStr [])))
                  (bindr (str_of (sub (val edge) ''endpointHost'')) (\<lambda>a.
                   bindr (str_of (sub (val edge) ''adminEndpointHost'')) (\<lambda>b. val (lower a \<noteq> lower b))))))
       ''DNS targets must be distinct deployed Front Door endpoints'' (
     check (eqs (dget0 (val edge) ''adminAccessMode'') ''SourceIpAllowlistAndNativeLogin'')
       ''Admin DNS requires the reviewed source-IP and native-login access mode'' (val ())))"

definition dns_scope :: "sha \<Rightarrow> json \<Rightarrow> dns_zone \<Rightarrow> json res" where
  "dns_scope sha config settings =
     bindr (stage_fingerprint sha config 9) (\<lambda>digest.
     val (JObj [(''configSha256'', JStr digest),
       (''records'', JObj (map (\<lambda>(plane, r). (plane, JStr (zone_id settings @ ''/CNAME/'' @ r))) (records settings)))]))"

text \<open>A checkpoint of another configuration, or a record that is neither the old nor the new one.\<close>

definition check_checkpoint :: "json \<Rightarrow> json \<Rightarrow> obj \<Rightarrow> unit res" where
  "check_checkpoint checkpoint dscope current =
     check (eqr (dget0 (val checkpoint) ''scope'') (val dscope))
       ''DNS checkpoint belongs to another configuration; preserve it for separate recovery'' (
     bindr (dgetO (val checkpoint) ''before'') (\<lambda>earlier.
     bindr (dgetO (val checkpoint) ''after'') (\<lambda>after.
     check (val (keys_are PLANES earlier \<and> keys_are PLANES after))
       ''DNS checkpoint does not cover both gateway records'' (
     check (all_res (\<lambda>plane.
              bindr (properties_at current plane) (\<lambda>now.
              disjr (eqr (val now) (sub (val earlier) plane)) (eqr (val now) (sub (val after) plane)))) PLANES)
       ''Current DNS was modified externally; refuse automatic continuation or rollback'' (val ())))))"

definition published_record :: "dns_zone \<Rightarrow> json \<Rightarrow> json" where
  "published_record settings host =
     JObj [(''TTL'', ttl settings), (''CNAMERecord'', JObj [(''cname'', host)]),
           (''metadata'', JObj [(''managedBy'', JStr ''llmgw-workflow'')])]"

text \<open>The checkpoint and the desired records of the plan.\<close>

definition dns_target ::
    "string \<Rightarrow> json \<Rightarrow> dns_zone \<Rightarrow> json \<Rightarrow> json \<Rightarrow> obj \<Rightarrow> json \<Rightarrow> (json \<times> json) res" where
  "dns_target action revision settings edge dscope current checkpoint =
     (if action = ''dns-publish''
      then check (conjr (testr (\<lambda>v. v = JBool True) (dget0 (val edge) ''apiTrafficEnabled''))
                        (testr (\<lambda>v. v = JBool True) (dget0 (val edge) ''adminTrafficEnabled'')))
             ''Approve and enable both edge planes before changing DNS'' (
           bindr (sub (val edge) ''endpointHost'') (\<lambda>api.
           bindr (sub (val edge) ''adminEndpointHost'') (\<lambda>admin.
           let desired = JObj [(''api'', published_record settings api), (''admin'', published_record settings admin)] in
           if truth checkpoint
           then check (conjr (eqr (dget0 (val checkpoint) ''after'') (val desired))
                             (negr (eqs (dget0 (val checkpoint) ''phase'') ''rolled-back'')))
                  ''Existing DNS checkpoint must not be replaced'' (val (checkpoint, desired))
           else bindr (map_res (\<lambda>plane. mapr (Pair plane) (properties_at current plane)) PLANES) (\<lambda>earlier.
                val (JObj [(''scope'', dscope), (''before'', JObj earlier), (''after'', desired),
                           (''phase'', JStr ''prepared''), (''revision'', revision)], desired)))))
      else check (val (truth checkpoint)) ''No approved DNS checkpoint exists'' (
           bindr (sub (val checkpoint) ''before'') (\<lambda>desired. val (checkpoint, desired))))"

record dns_plan =
  dp_settings :: dns_zone
  dp_current :: obj
  dp_checkpoint :: json
  dp_desired :: json
  dp_plan :: json
  dp_sha :: string

definition dns_summary :: "string \<Rightarrow> string \<Rightarrow> bool \<Rightarrow> json" where
  "dns_summary action digest applied =
     JObj [(''stage'', JInt 9), (''action'', JStr action), (''planSha256'', JStr digest),
       (''applied'', JBool applied), (''stageAccepted'', JBool False),
       (''dnsPropagationVerified'', JBool False), (''dataRollbackPerformed'', JBool False)]"

definition dns_prepare :: "sha \<Rightarrow> json \<Rightarrow> string \<Rightarrow> json \<Rightarrow> ('s, dns_plan) proc" where
  "dns_prepare sha config action revision =
     thenp (check_login config) (
     letp (dns_settings config) (\<lambda>settings.
     bindp (deployed_edge sha config action) (\<lambda>edge.
     letp (check_edge config edge) (\<lambda>_.
     letp (dns_scope sha config settings) (\<lambda>dscope.
     bindp (dns_read config settings) (\<lambda>current.
     checkp (val (set (keys_of current) = set PLANES)) ''DNS client must return both gateway records'' (
     bindp (dns_checkpoint sha config) (\<lambda>found.
     letp (if truth found then check_checkpoint found dscope current else val ()) (\<lambda>_.
     letp (dns_target action revision settings edge dscope current found) (\<lambda>(checkpoint, desired).
     let plan = JObj [(''stage'', JInt 9), (''action'', JStr action), (''revision'', revision),
           (''scope'', dscope), (''before'', JObj current), (''checkpoint'', checkpoint), (''desired'', desired)] in
     thenp (private_write ''runtime-review.json'' plan) (
     thenp (private_write ''runtime-summary.json'' (dns_summary action (fingerprint sha plan) False)) (
     retp \<lparr>dp_settings = settings, dp_current = current, dp_checkpoint = checkpoint,
           dp_desired = desired, dp_plan = plan, dp_sha = fingerprint sha plan\<rparr>))))))))))))"

text \<open>One plane of the update: only a record that differs is written, and then read again.\<close>

definition dns_update :: "json \<Rightarrow> dns_plan \<Rightarrow> string \<Rightarrow> obj \<Rightarrow> ('s, obj) proc" where
  "dns_update config plan plane current =
     letp (properties_at current plane) (\<lambda>now.
     letp (sub (val (dp_desired plan)) plane) (\<lambda>desired.
     if py_eq now desired then retp current
     else letp (sub (val (JObj current)) plane) (\<lambda>previous.
          thenp (dns_write config (dp_settings plan) plane desired previous)
                (dns_read config (dp_settings plan)))))"

text \<open>Nothing changed since the plan, and its checkpoint is the stored one; a first publication
  stores it before.\<close>

definition dns_confirm :: "sha \<Rightarrow> json \<Rightarrow> string \<Rightarrow> dns_plan \<Rightarrow> ('s, unit) proc" where
  "dns_confirm sha config action plan =
     bindp (dns_read config (dp_settings plan)) (\<lambda>again.
     checkp (val (py_eq (JObj again) (JObj (dp_current plan)))) ''DNS changed since plan'' (
     thenp (if action = ''dns-publish''
            then bindp (dns_checkpoint sha config) (\<lambda>found.
                 whenp (found = JNull) (dns_save sha config (dp_checkpoint plan)))
            else retp ()) (
     bindp (dns_checkpoint sha config) (\<lambda>found.
     checkp (val (py_eq found (dp_checkpoint plan))) ''DNS checkpoint changed before update'' (retp ())))))"

definition dns_commit :: "sha \<Rightarrow> json \<Rightarrow> string \<Rightarrow> dns_plan \<Rightarrow> ('s, unit) proc" where
  "dns_commit sha config action plan =
     bindp (foldp (dns_update config plan) PLANES (dp_current plan)) (\<lambda>_.
     bindp (dns_read config (dp_settings plan)) (\<lambda>observed.
     checkp (all_res (\<lambda>plane. eqr (properties_at observed plane) (sub (val (dp_desired plan)) plane)) PLANES)
       ''DNS write result is uncertain; replan without overwriting checkpoint'' (
     letp (items (val (dp_checkpoint plan))) (\<lambda>kv.
     thenp (dns_save sha config (JObj (dict_set kv ''phase''
              (JStr (if action = ''dns-publish'' then ''published'' else ''rolled-back''))))) (
     private_write ''runtime-summary.json'' (dns_summary action (dp_sha plan) True))))))"

definition dns_apply :: "sha \<Rightarrow> json \<Rightarrow> string \<Rightarrow> dns_plan \<Rightarrow> ('s, unit) proc" where
  "dns_apply sha config action plan =
     thenp (dns_confirm sha config action plan) (dns_commit sha config action plan)"

definition change_dns :: "sha \<Rightarrow> json \<Rightarrow> string \<Rightarrow> string \<Rightarrow> json \<Rightarrow> string \<Rightarrow> ('s, unit) proc" where
  "change_dns sha config action operation revision approved =
     checkp (val (action \<in> {''dns-publish'', ''dns-rollback''} \<and> operation \<in> {''plan'', ''execute''}))
       ''Invalid DNS operation'' (
     bindp (dns_prepare sha config action revision) (\<lambda>plan.
     if operation = ''execute''
     then checkp (val (approved = dp_sha plan)) ''DNS plan changed or was not approved''
            (dns_apply sha config action plan)
     else retp ()))"

section \<open>Events\<close>

text \<open>The events that change the outside: a write of a record and the save of a checkpoint.\<close>

fun dns_write_event :: "event \<Rightarrow> bool" where
  "dns_write_event (Command (a # b # r), _) = (b = ''rest'')"
| "dns_write_event _ = False"

fun dns_save_event :: "event \<Rightarrow> bool" where
  "dns_save_event (Command (a # b # c # d # r), _) = (b = ''deployment'' \<and> d = ''create'')"
| "dns_save_event _ = False"

definition dns_harmless :: "event \<Rightarrow> bool" where
  "dns_harmless e \<longleftrightarrow> \<not> dns_write_event e \<and> \<not> dns_save_event e"

text \<open>A read of the checkpoint that returned the value \<open>cp\<close>.\<close>

fun checkpoint_list :: "call \<Rightarrow> bool" where
  "checkpoint_list (Command (a # b # c # d # r)) = (b = ''deployment'' \<and> c = ''group'' \<and> d = ''list'')"
| "checkpoint_list _ = False"

definition read_checkpoint_event :: "json \<Rightarrow> event \<Rightarrow> bool" where
  "read_checkpoint_event cp e \<longleftrightarrow>
     checkpoint_list (fst e) \<and> (\<exists>v. snd e = Json (JList [v]) \<and> py_eq v cp)"

text \<open>A write of the record of one of the two planes of the approved zone, under a token.\<close>

definition token_header :: "string \<Rightarrow> bool" where
  "token_header h \<longleftrightarrow> h = ''If-None-Match=*'' \<or> starts_with h ''If-Match=''"

fun record_write :: "dns_zone \<Rightarrow> event \<Rightarrow> bool" where
  "record_write settings (Command (a # b # c # method # d # url # f # headers # r), _) =
     (b = ''rest'' \<and> (method = ''put'' \<or> method = ''delete'')
      \<and> url \<in> record_url settings ` set (map fst (records settings)) \<and> token_header headers)"
| "record_write settings _ = False"

lemmas dns_event_defs =
  dns_harmless_def az_command_def list_records_command_def checkpoint_command_def save_command_def
  write_command_def

lemma harmless_file [simp]: "dns_harmless (WriteFile n d, r)"
  by (simp add: dns_harmless_def)

lemma dns_read_harmless: "only dns_harmless (dns_read config settings)"
  unfolding dns_read_def by (intro only_intros only_az_scoped) (simp_all add: dns_event_defs)

lemma dns_checkpoint_harmless: "only dns_harmless (dns_checkpoint sha config)"
  unfolding dns_checkpoint_def by (intro only_intros only_az_scoped) (simp_all add: dns_event_defs)

lemma check_login_harmless: "only dns_harmless (check_login config)"
  unfolding check_login_def by (intro only_intros only_az_run) (simp_all add: dns_event_defs)

lemma deployed_edge_harmless: "only dns_harmless (deployed_edge sha config action)"
  unfolding deployed_edge_def check_route_def
  by (intro only_intros only_az_scoped) (simp_all add: dns_event_defs)

lemma dns_prepare_harmless: "only dns_harmless (dns_prepare sha config action revision)"
  unfolding dns_prepare_def Let_def
  by (intro only_intros check_login_harmless deployed_edge_harmless dns_read_harmless
        dns_checkpoint_harmless only_private_write) simp_all

lemma any_event: "only (\<lambda>_. True) (az_scoped_with e config arguments)"
  by (rule only_az_scoped) simp_all

lemma dns_read_any: "only (\<lambda>_. True) (dns_read config settings)"
  by (rule only_mono [OF dns_read_harmless]) simp

lemma dns_checkpoint_any: "only (\<lambda>_. True) (dns_checkpoint sha config)"
  by (rule only_mono [OF dns_checkpoint_harmless]) simp

lemma dns_apply_any: "only (\<lambda>_. True) (dns_apply sha config action plan)"
  unfolding dns_apply_def dns_confirm_def dns_commit_def dns_update_def dns_write_def dns_save_def
  by (intro only_intros dns_read_any dns_checkpoint_any any_event only_private_write) simp_all

lemma dns_prepare_reviewed:
  "wp (dns_prepare sha config action revision)
      (\<lambda>p l. \<exists>r. (WriteFile ''runtime-review.json'' (dp_plan p), r) \<in> set l) (\<lambda>_. True) l"
  unfolding dns_prepare_def Let_def
  by (rule wp_intros wp_private_write wp_drop TrueI | force)+

text \<open>What a prepared plan holds.\<close>

lemma dns_prepare_returns:
  "returns (dns_prepare sha config action revision) p \<Longrightarrow>
     dns_settings config = Inr (dp_settings p) \<and> dp_checkpoint p \<noteq> JNull
     \<and> dp_sha p = fingerprint sha (dp_plan p)
     \<and> (\<exists>kv. dp_plan p = JObj kv \<and> map_of kv ''checkpoint'' = Some (dp_checkpoint p))"
  unfolding dns_prepare_def Let_def dns_target_def
  by (auto dest!: returnsD simp: py_ok split: if_splits)

interpretation dns: approval_gate
    "\<lambda>operation approved. change_dns sha config action operation revision approved"
    "checkp (val (action \<in> {''dns-publish'', ''dns-rollback''})) ''Invalid DNS operation''
       (dns_prepare sha config action revision)"
    "\<lambda>_. retp ()" "dns_apply sha config action" dp_sha
    "\<lambda>p. WriteFile ''runtime-review.json'' (dp_plan p)"
    "''DNS plan changed or was not approved''" dns_harmless
  for sha config action revision
proof
  show "change_dns sha config action ''plan'' revision a =
      bindp (checkp (val (action \<in> {''dns-publish'', ''dns-rollback''})) ''Invalid DNS operation''
        (dns_prepare sha config action revision)) (\<lambda>_. retp ())" for a
    by (auto simp: change_dns_def checkp_def bindp_def failp_def)
  show "change_dns sha config action ''execute'' revision a =
      bindp (checkp (val (action \<in> {''dns-publish'', ''dns-rollback''})) ''Invalid DNS operation''
        (dns_prepare sha config action revision))
      (\<lambda>p. checkp (val (a = dp_sha p)) ''DNS plan changed or was not approved'' (dns_apply sha config action p))" for a
    by (auto simp: change_dns_def checkp_def bindp_def failp_def)
qed (auto intro!: only_intros dns_prepare_harmless dns_apply_any wp_intros dns_prepare_reviewed)

section \<open>The order of an update\<close>

definition reads_value :: "json \<Rightarrow> event \<Rightarrow> bool" where
  "reads_value v e \<longleftrightarrow> checkpoint_list (fst e) \<and> snd e = Json (JList [v])"

lemma wp_dns_checkpoint:
  assumes I: "since l0 I l" and keep: "\<And>es e. I es \<Longrightarrow> dns_harmless e \<Longrightarrow> I (es @ [e])"
  shows "wp (dns_checkpoint sha config)
    (\<lambda>v. since l0 (\<lambda>es. I es \<and> (v \<noteq> JNull \<longrightarrow> (\<exists>a \<in> set es. reads_value v a)))) (since l0 I) l"
proof -
  let ?cmd = "\<lambda>g n s. az_command (checkpoint_command g n @ [''--subscription'', s])"
  have harmless: "dns_harmless (?cmd g n s, r)" for g n s r
    by (simp add: dns_event_defs)
  have lst: "checkpoint_list (?cmd g n s)" for g n s
    by (simp add: dns_event_defs)
  have files: "list_all is_write_file es \<Longrightarrow> list_all dns_harmless es" for es
    by (erule files_all) simp
  have step: "since l0 I (l @ (?cmd g n s, r) # es)" if "list_all is_write_file es" for g n s r es
    by (rule since_append [OF I keep]) (use that harmless files in auto)
  have found: "since l0 (\<lambda>es. I es \<and> (\<exists>a \<in> set es. reads_value v a)) (l @ (?cmd g n s, Json (JList [v])) # es)"
    if files_es: "list_all is_write_file es" for g n s v es
  proof -
    obtain fs where fs: "l @ (?cmd g n s, Json (JList [v])) # es = l0 @ fs" "I fs"
      using step [OF files_es] unfolding since_def by blast
    obtain ks where ks: "l = l0 @ ks" using I unfolding since_def by blast
    have "fs = ks @ (?cmd g n s, Json (JList [v])) # es" using fs(1) ks by simp
    moreover have "reads_value v (?cmd g n s, Json (JList [v]))" by (simp add: reads_value_def lst)
    ultimately have "\<exists>a \<in> set fs. reads_value v a" by auto
    with fs show ?thesis unfolding since_def by auto
  qed
  have last: "since l0 (\<lambda>es. I es \<and> ((case vs of [] \<Rightarrow> JNull | e # _ \<Rightarrow> e) \<noteq> JNull
      \<longrightarrow> (\<exists>a \<in> set es. reads_value (case vs of [] \<Rightarrow> JNull | e # _ \<Rightarrow> e) a)))
      (l @ (?cmd g n s, Json (JList vs)) # es)"
    if "list_all is_write_file es" "length vs \<le> Suc 0" for g n s vs es
  proof (cases vs)
    case Nil
    then show ?thesis using step [OF that(1)] by simp
  next
    case (Cons v ws)
    with that(2) have "vs = [v]" by simp
    then show ?thesis
      using since_mono [OF found [OF that(1)],
          where J = "\<lambda>es. I es \<and> (v \<noteq> JNull \<longrightarrow> (\<exists>a \<in> set es. reads_value v a))"] by simp
  qed
  show ?thesis
    unfolding dns_checkpoint_def az_scoped_with_def
    by (rule wp_intros wp_az_run)+ (auto simp: py_ok intro!: wp_letp wp_checkp wp_retp intro: I step last)
qed

text \<open>The invariant of an update under the checkpoint \<open>cp\<close>.\<close>

definition armed :: "json \<Rightarrow> event list \<Rightarrow> bool" where
  "armed cp es \<longleftrightarrow> guarded (read_checkpoint_event cp) dns_write_event False es
     \<and> (\<exists>a \<in> set es. read_checkpoint_event cp a)"

lemma armed_snoc: "armed cp es \<Longrightarrow> armed cp (es @ [e])"
  by (auto simp: armed_def list_ex_iff)

lemma armed_keep: "only (\<lambda>_. True) p \<Longrightarrow> since l0 (armed cp) l \<Longrightarrow> wp p (\<lambda>_. since l0 (armed cp)) (since l0 (armed cp)) l"
  by (erule wp_since) (auto intro: armed_snoc)

abbreviation quiet :: "event list \<Rightarrow> bool" where
  "quiet es \<equiv> list_all (\<lambda>e. \<not> dns_write_event e) es"

lemma quiet_keep: "only (\<lambda>e. \<not> dns_write_event e) p \<Longrightarrow> since l0 quiet l \<Longrightarrow> wp p (\<lambda>_. since l0 quiet) (since l0 quiet) l"
  by (erule wp_since) auto

lemma quiet_only: "only dns_harmless p \<Longrightarrow> only (\<lambda>e. \<not> dns_write_event e) p"
  by (erule only_mono) (simp add: dns_harmless_def)

lemma dns_save_quiet: "only (\<lambda>e. \<not> dns_write_event e) (dns_save sha config cp)"
  unfolding dns_save_def
  by (intro only_intros only_az_scoped only_private_write) (simp_all add: dns_event_defs)

lemma reads_value_event: "reads_value v e \<Longrightarrow> py_eq v cp \<Longrightarrow> read_checkpoint_event cp e"
  by (auto simp: reads_value_def read_checkpoint_event_def)

lemma armI:
  assumes "since l0 (\<lambda>es. quiet es \<and> (v \<noteq> JNull \<longrightarrow> (\<exists>a \<in> set es. reads_value v a))) l"
    and eq: "py_eq v cp" and "cp \<noteq> JNull"
  shows "since l0 (armed cp) l"
proof -
  have "v \<noteq> JNull" using eq assms(3) by auto
  then show ?thesis
    using assms(1) reads_value_event [OF _ eq]
    by (elim since_mono) (auto simp: armed_def intro: guarded_none)
qed

abbreviation ordered :: "json \<Rightarrow> event list \<Rightarrow> bool" where
  "ordered cp \<equiv> preceded (read_checkpoint_event cp) dns_write_event"

lemma quiet_ordered: "since l0 quiet l \<Longrightarrow> since l0 (ordered cp) l"
  by (erule since_mono) (erule guarded_none)

lemma dns_confirm_arms:
  assumes l: "since l0 quiet l" and cp: "dp_checkpoint plan \<noteq> JNull"
  shows "wp (dns_confirm sha config action plan) (\<lambda>_. since l0 (armed (dp_checkpoint plan))) (since l0 quiet) l"
proof -
  have read: "wp (dns_read config (dp_settings plan)) (\<lambda>_. since l0 quiet) (since l0 quiet) l'"
    if "since l0 quiet l'" for l'
    by (rule quiet_keep [OF quiet_only [OF dns_read_harmless] that])
  have save: "wp (dns_save sha config (dp_checkpoint plan)) (\<lambda>_. since l0 quiet) (since l0 quiet) l'"
    if "since l0 quiet l'" for l'
    by (rule quiet_keep [OF dns_save_quiet that])
  have point: "wp (dns_checkpoint sha config)
      (\<lambda>v. since l0 (\<lambda>es. quiet es \<and> (v \<noteq> JNull \<longrightarrow> (\<exists>a \<in> set es. reads_value v a)))) (since l0 quiet) l'"
    if "since l0 quiet l'" for l'
    by (rule wp_dns_checkpoint [OF that]) (auto simp: dns_harmless_def)
  have drop: "since l0 (\<lambda>es. quiet es \<and> R es) l' \<Longrightarrow> since l0 quiet l'" for R l'
    by (erule since_mono) simp
  have first: "wp (if action = ''dns-publish''
        then bindp (dns_checkpoint sha config) (\<lambda>found. whenp (found = JNull) (dns_save sha config (dp_checkpoint plan)))
        else retp ()) (\<lambda>_. since l0 quiet) (since l0 quiet) l'" if q: "since l0 quiet l'" for l'
    using q by (intro wp_if wp_bindp wp_retp wp_mono [OF point]) (auto intro!: wp_whenp save elim: drop)
  show ?thesis
    unfolding dns_confirm_def
    by (rule wp_bindp, rule wp_mono [OF read [OF l]], rule wp_checkp, rule wp_thenp, erule wp_mono [OF first],
        rule wp_bindp, erule wp_mono [OF point])
      (auto intro!: wp_checkp wp_retp elim: drop armI [OF _ _ cp])
qed

lemma dns_apply_order:
  assumes l: "since l0 quiet l" and cp: "dp_checkpoint plan \<noteq> JNull"
  shows "wp (dns_apply sha config action plan) (\<lambda>_. since l0 (ordered (dp_checkpoint plan)))
     (since l0 (ordered (dp_checkpoint plan))) l"
proof -
  have any: "only (\<lambda>_. True) (dns_commit sha config action plan)"
    using dns_apply_any unfolding dns_commit_def dns_update_def dns_write_def dns_save_def
    by (intro only_intros dns_read_any dns_checkpoint_any any_event only_private_write) simp_all
  have fin: "since l0 (armed cp) l' \<Longrightarrow> since l0 (ordered cp) l'" for cp l'
    by (erule since_mono) (simp add: armed_def)
  show ?thesis
    unfolding dns_apply_def
    by (rule wp_thenp, rule wp_mono [OF dns_confirm_arms [OF l cp]], rule wp_mono [OF armed_keep [OF any]])
      (auto intro: fin quiet_ordered)
qed

text \<open>The targets of the writes.\<close>

lemma write_headers_token: "write_headers previous = Inr h \<Longrightarrow> token_header h"
  by (auto simp: write_headers_def token_header_def py_ok starts_with_def split: if_splits)

lemma dns_write_targets:
  "only (\<lambda>e. dns_write_event e \<longrightarrow> record_write settings e) (dns_write config settings plane desired previous)"
  unfolding dns_write_def
  by (intro only_intros only_az_scoped only_private_write)
    (auto simp: az_command_def write_command_def dest: write_headers_token)

lemma harmless_targets: "only dns_harmless p \<Longrightarrow> only (\<lambda>e. dns_write_event e \<longrightarrow> record_write settings e) p"
  by (erule only_mono) (simp add: dns_harmless_def)

lemma dns_apply_targets:
  "only (\<lambda>e. dns_write_event e \<longrightarrow> record_write (dp_settings plan) e) (dns_apply sha config action plan)"
  unfolding dns_apply_def dns_confirm_def dns_commit_def dns_update_def
  by (intro only_intros harmless_targets [OF dns_read_harmless] harmless_targets [OF dns_checkpoint_harmless]
      only_mono [OF dns_save_quiet] dns_write_targets only_private_write) simp_all

section \<open>A model of the service, for concrete runs\<close>

definition demo_dns_config :: json where
  "demo_dns_config = JObj
     [(''environment'', JStr ''dev''), (''baseDomain'', JStr ''gw.contoso.com''),
      (''azure'', JObj [(''tenantId'', JStr ''t''), (''subscriptionId'', JStr ''11111111-1111-1111-1111-111111111111'')]),
      (''target'', JObj [(''resourceGroup'', JStr ''rg'')]), (''parameters'', JObj []),
      (''dns'', JObj [(''ttl'', JInt 300), (''zoneResourceId'', JStr
         ''/subscriptions/11111111-1111-1111-1111-111111111111/resourceGroups/zones/providers/Microsoft.Network/dnsZones/contoso.com'')])]"

definition demo_edge :: json where
  "demo_edge = JObj
     [(''routeId'', JStr ''/subscriptions/11111111-1111-1111-1111-111111111111/resourceGroups/rg/providers/Microsoft.Cdn/profiles/r''),
      (''adminRouteId'', JStr ''/subscriptions/11111111-1111-1111-1111-111111111111/resourceGroups/rg/providers/Microsoft.Cdn/profiles/a''),
      (''apiHost'', JStr ''llm-api.gw.contoso.com''), (''adminHost'', JStr ''llm-admin.gw.contoso.com''),
      (''endpointHost'', JStr ''api-1.azurefd.net''), (''adminEndpointHost'', JStr ''admin-1.azurefd.net''),
      (''adminAccessMode'', JStr ''SourceIpAllowlistAndNativeLogin'')]"

definition demo_zone :: dns_zone where
  "demo_zone =
     \<lparr>zone_id = ''/subscriptions/11111111-1111-1111-1111-111111111111/resourceGroups/zones/providers/Microsoft.Network/dnsZones/contoso.com'',
      ttl = JInt 300, zone = ''contoso.com'', zone_group = ''zones'',
      records = [(''api'', ''llm-api.gw''), (''admin'', ''llm-admin.gw'')]\<rparr>"

definition demo_properties :: json where
  "demo_properties = JObj [(''TTL'', JInt 300), (''CNAMERecord'', JObj [(''cname'', JStr ''x'')]), (''metadata'', JObj [])]"

definition demo_scope :: json where
  "demo_scope = (case dns_scope (\<lambda>_. ''h'') demo_dns_config demo_zone of Inr v \<Rightarrow> v | Inl _ \<Rightarrow> JNull)"

text \<open>Both records exist and a checkpoint says they did not; every write is refused.\<close>

definition demo_stored :: json where
  "demo_stored = JObj
     [(''scope'', demo_scope), (''before'', JObj [(''api'', JNull), (''admin'', JNull)]),
      (''after'', JObj [(''api'', demo_properties), (''admin'', demo_properties)])]"

definition demo_record :: "string \<Rightarrow> json" where
  "demo_record name = JObj [(''name'', JStr name), (''etag'', JStr ''1''), (''TTL'', JInt 300),
     (''CNAMERecord'', JObj [(''cname'', JStr ''x'')])]"

fun demo_azure :: "unit service" where
  "demo_azure (Command (a # b # c # d # r)) s =
     (if b = ''account'' then Json (JObj [(''tenantId'', JStr ''t''), (''id'', JStr ''11111111-1111-1111-1111-111111111111'')])
      else if b = ''network'' then Json (JList [demo_record ''llm-api.gw'', demo_record ''llm-admin.gw''])
      else if b = ''rest'' then Failure
      else if d = ''show'' then Json (JObj [(''state'', JStr ''Succeeded''), (''edge'', demo_edge)])
      else Json (JList [demo_stored]), s)"
| "demo_azure c s = (Text [], s)"

abbreviation demo_rollback :: "unit world" where
  "demo_rollback \<equiv> snd (change_dns (\<lambda>_. ''h'') demo_dns_config ''dns-rollback'' ''execute'' JNull ''h''
     demo_azure (start ()))"

lemma demo_settings [simp]: "dns_settings demo_dns_config = Inr demo_zone"
  by code_simp

lemma demo_parts [simp]:
  "subscription_of demo_dns_config = Inr (JStr ''11111111-1111-1111-1111-111111111111'')"
  "target_group demo_dns_config = Inr (JStr ''rg'')"
  "group_id demo_dns_config False = Inr ''/subscriptions/11111111-1111-1111-1111-111111111111/resourceGroups/rg''"
  "login_scope demo_dns_config =
     Inr (JObj [(''tenantId'', JStr ''t''), (''id'', JStr ''11111111-1111-1111-1111-111111111111'')])"
  by (code_simp, code_simp, code_simp, code_simp)

lemma demo_login [simp]:
  "py_eq (JObj [(''tenantId'', JStr ''t''), (''id'', JStr ''11111111-1111-1111-1111-111111111111'')])
         (JObj [(''tenantId'', JStr ''t''), (''id'', JStr ''11111111-1111-1111-1111-111111111111'')])"
  by code_simp

lemma demo_names [simp]:
  "deployment_name (\<lambda>_. ''h'') demo_dns_config 9 ''edge'' = Inr ''llmgw-dev-s9-edge''"
  "deployment_name (\<lambda>_. ''h'') demo_dns_config 9 ''dns-checkpoint'' = Inr ''llmgw-dev-s9-dns-checkpoint''"
  "fingerprint (\<lambda>_. ''h'') v = ''h''"
  by (code_simp, code_simp, simp add: fingerprint_def)

lemma demo_dns_scope [simp]: "dns_scope (\<lambda>_. ''h'') demo_dns_config demo_zone = Inr demo_scope"
  by code_simp

lemma demo_edge_facts [simp]:
  "check_edge demo_dns_config demo_edge = Inr ()"
  "all_res (\<lambda>key. mapr (\<lambda>s. starts_with (lower s)
       (lower ''/subscriptions/11111111-1111-1111-1111-111111111111/resourceGroups/rg''
          @ ''/providers/microsoft.cdn/profiles/''))
     (str_of (dget (val demo_edge) key (JStr [])))) [''routeId'', ''adminRouteId''] = Inr True"
  by (code_simp, code_simp)

definition demo_current :: obj where
  "demo_current = map (\<lambda>plane. (plane, JObj [(''etag'', JStr ''1''), (''properties'', demo_properties)])) PLANES"

lemma demo_reads [simp]:
  "map_res (read_record [demo_record ''llm-api.gw'', demo_record ''llm-admin.gw'']) (records demo_zone) = Inr demo_current"
  "check_checkpoint demo_stored demo_scope demo_current = Inr ()"
  "dns_target ''dns-rollback'' JNull demo_zone demo_edge demo_scope demo_current demo_stored
     = Inr (demo_stored, JObj [(''api'', JNull), (''admin'', JNull)])"
  "set (keys_of demo_current) = set PLANES" "truth demo_stored" "demo_stored \<noteq> JNull"
  "py_eq (JObj demo_current) (JObj demo_current)" "py_eq demo_stored demo_stored"
  by (code_simp, code_simp, code_simp, code_simp, code_simp, code_simp, code_simp, code_simp)

lemma demo_first_write [simp]:
  "properties_at demo_current ''api'' = Inr demo_properties" "demo_properties \<noteq> JNull"
  "map_of demo_current ''api'' = Some (JObj [(''etag'', JStr ''1''), (''properties'', demo_properties)])"
  "map fst (records demo_zone) = PLANES"
  by (code_simp, code_simp, code_simp, code_simp)

lemmas dns_steps =
  change_dns_def dns_prepare_def dns_apply_def dns_confirm_def dns_commit_def dns_update_def dns_write_def
  dns_checkpoint_def dns_read_def deployed_edge_def check_login_def az_scoped_with_def az_run_def
  private_write_def start_def

lemma demo_rollback_writes: "list_ex dns_write_event (log demo_rollback)"
  by (simp add: dns_steps run_eval Let_def PLANES_def write_headers_def write_command_def prefixed_def
      list_records_command_def checkpoint_command_def del: all_res.simps map_res.simps py_eq.simps cong: run_cong)

section \<open>Properties\<close>

text \<open>
  C1: in a run of \<open>change_dns\<close> that wrote a DNS record or saved a checkpoint, against any
  behaviour of Azure, the operation was \<open>execute\<close> and the approved hash is the hash of a plan
  document that the same run had written for review.  A \<open>plan\<close> run changes nothing.
\<close>

theorem dns_changes_are_approved:
  assumes "operation = ''plan'' \<or> operation = ''execute''"
    and "e \<in> set (log (snd (change_dns sha config action operation revision approved sv (start s))))"
    and "dns_write_event e \<or> dns_save_event e"
  shows "operation = ''execute'' \<and>
    (\<exists>plan r. approved = fingerprint sha plan \<and> (WriteFile ''runtime-review.json'' plan, r)
       \<in> set (log (snd (change_dns sha config action operation revision approved sv (start s)))))"
  using dns.harmful_approved [OF assms(1,2)] assms(3)
  by (auto simp: dns_harmless_def dest!: dns_prepare_returns)

text \<open>
  C2: in such a run every write of a DNS record comes after a read of the stored checkpoint that
  returned the very checkpoint of the reviewed plan, and addresses the record of one of the two
  planes in the approved zone under a concurrency token.
\<close>

theorem dns_checkpoint_precedes_writes:
  assumes "operation = ''plan'' \<or> operation = ''execute''"
    and "e \<in> set (log (snd (change_dns sha config action operation revision approved sv (start s))))"
    and "dns_write_event e"
  shows "\<exists>settings kv cp r. dns_settings config = Inr settings \<and> record_write settings e
    \<and> (WriteFile ''runtime-review.json'' (JObj kv), r)
        \<in> set (log (snd (change_dns sha config action operation revision approved sv (start s))))
    \<and> map_of kv ''checkpoint'' = Some cp
    \<and> preceded (read_checkpoint_event cp) dns_write_event
        (log (snd (change_dns sha config action operation revision approved sv (start s))))"
proof -
  let ?L = "log (snd (change_dns sha config action operation revision approved sv (start s)))"
  have "\<not> dns_harmless e" using assms(3) by (simp add: dns_harmless_def)
  then obtain p w' r where p: "returns (checkp (val (action \<in> {''dns-publish'', ''dns-rollback''}))
        ''Invalid DNS operation'' (dns_prepare sha config action revision) :: ('a, dns_plan) proc) p"
      and quiet: "list_all dns_harmless (log w')" and r: "(WriteFile ''runtime-review.json'' (dp_plan p), r) \<in> set (log w')"
      and run: "change_dns sha config action operation revision approved sv (start s) = dns_apply sha config action p sv w'"
    using dns.harmful_run [OF assms(1,2)] by (metis returnsI)
  from p obtain kv where kv: "dns_settings config = Inr (dp_settings p)" "dp_checkpoint p \<noteq> JNull"
      "dp_plan p = JObj kv" "map_of kv ''checkpoint'' = Some (dp_checkpoint p)"
    by (auto dest!: dns_prepare_returns)
  obtain fs where fs: "?L = log w' @ fs" "list_all (\<lambda>e. dns_write_event e \<longrightarrow> record_write (dp_settings p) e) fs"
    using onlyD [OF dns_apply_targets [of p sha config action], of sv w'] run by auto
  have "e \<in> set fs" using assms(2,3) quiet fs(1) by (auto simp: dns_harmless_def list_all_iff)
  then have "record_write (dp_settings p) e" using fs(2) assms(3) by (auto simp: list_all_iff)
  moreover have "since [] (\<lambda>es. list_all (\<lambda>e. \<not> dns_write_event e) es) (log w')"
    using quiet by (auto simp: since_def dns_harmless_def list_all_iff)
  then have "since [] (ordered (dp_checkpoint p)) ?L"
    using wp_always [OF dns_apply_order [OF _ kv(2)]] by (simp add: run)
  then have "ordered (dp_checkpoint p) ?L" by (simp add: since_def)
  moreover have "(WriteFile ''runtime-review.json'' (JObj kv), r) \<in> set ?L"
    using r fs(1) kv(3) by simp
  ultimately show ?thesis using kv by blast
qed

theorem dns_changes_are_approved_witness:
  "list_ex dns_write_event (log demo_rollback) \<and> (\<exists>plan r. ''h'' = fingerprint (\<lambda>_. ''h'') plan \<and>
     (WriteFile ''runtime-review.json'' plan, r) \<in> set (log demo_rollback))"
  using demo_rollback_writes
    dns_changes_are_approved [of "''execute''" _ "\<lambda>_. ''h''" demo_dns_config "''dns-rollback''" JNull "''h''" demo_azure "()"]
  by (auto simp: list_ex_iff)

theorem dns_checkpoint_precedes_writes_witness:
  "list_ex dns_write_event (log demo_rollback) \<and> (\<exists>cp. preceded (read_checkpoint_event cp) dns_write_event (log demo_rollback))"
  using demo_rollback_writes
    dns_checkpoint_precedes_writes [of "''execute''" _ "\<lambda>_. ''h''" demo_dns_config "''dns-rollback''" JNull "''h''" demo_azure "()"]
  by (auto simp: list_ex_iff)

end
