(* ===== verification/Kube.thy ===== *)
theory Kube
  imports Migration_Deploy
begin

text \<open>
  The cluster client: \<open>run_command\<close> of \<open>migration_runtime.py\<close> and the \<open>AuditCluster\<close> class of
  \<open>audit_runtime.py\<close>, over \<open>kubectl\<close> as the outside.  Also \<open>connect_cluster\<close>, which obtains
  the credentials, and \<open>validate_action\<close>, which admits an action at its stage.
\<close>

section \<open>Commands\<close>

definition run_command :: "string list \<Rightarrow> string \<Rightarrow> ('s, reply) proc" where
  "run_command arguments label =
     bindp (perform (Command arguments)) (\<lambda>r.
     thenp (private_write (label @ ''.stdout.txt'') (stdout_of r)) (
     thenp (private_write (label @ ''.stderr.txt'') JNull) (
     checkp (val (r \<noteq> Failure)) (label @ '' failed'') (retp r))))"

text \<open>\<open>json.loads(output)\<close> and \<open>output.strip()\<close> of an output.\<close>

fun loads :: "reply \<Rightarrow> json res" where
  "loads (Json v) = val v"
| "loads _ = Inl (ValueError ''Expecting value'')"

fun blank :: "reply \<Rightarrow> bool" where
  "blank (Text t) = (strip t = [])"
| "blank _ = False"

definition kube_run :: "string list \<Rightarrow> string list \<Rightarrow> ('s, reply) proc" where
  "kube_run kube arguments =
     bindp next_number (\<lambda>n.
     run_command (kube @ arguments @ [''--request-timeout=30s'']) (''audit-kube-'' @ show_nat n))"

definition kube_get :: "string list \<Rightarrow> string \<Rightarrow> string \<Rightarrow> bool \<Rightarrow> ('s, json) proc" where
  "kube_get kube kind name optional =
     bindp (kube_run kube ([''get'', kind, name, ''-o'', ''json'']
              @ (if optional then [''--ignore-not-found''] else []))) (\<lambda>output.
     if blank output then retp JNull else letp (loads output) retp)"

definition kube_items :: "string list \<Rightarrow> string \<Rightarrow> ('s, json list) proc" where
  "kube_items kube kind =
     bindp (kube_run kube [''get'', kind, ''-o'', ''json'']) (\<lambda>output.
     letp (iter (sub (loads output) ''items'')) retp)"

definition kube_manifest :: "json \<Rightarrow> ('s, string) proc" where
  "kube_manifest content =
     bindp next_number (\<lambda>n.
     let file = ''audit-object-'' @ show_nat n @ ''.json'' in
     thenp (private_write file content) (retp file))"

definition kube_create :: "string list \<Rightarrow> json \<Rightarrow> ('s, unit) proc" where
  "kube_create kube resource =
     bindp (kube_manifest resource) (\<lambda>file.
     bindp (kube_run kube [''create'', ''-f'', file]) (\<lambda>_. retp ()))"

definition kube_patch :: "string list \<Rightarrow> string \<Rightarrow> string \<Rightarrow> json list \<Rightarrow> ('s, unit) proc" where
  "kube_patch kube kind name operations =
     bindp (kube_manifest (JList operations)) (\<lambda>file.
     bindp (kube_run kube [''patch'', kind, name, ''--type=json'', ''--patch-file'', file]) (\<lambda>_. retp ()))"

text \<open>One operation of a JSON patch, and the guarded replacement of a checkpoint.\<close>

definition patch_op :: "string \<Rightarrow> string \<Rightarrow> json option \<Rightarrow> json" where
  "patch_op name at v =
     JObj ([(''op'', JStr name), (''path'', JStr at)] @ (case v of None \<Rightarrow> [] | Some x \<Rightarrow> [(''value'', x)]))"

definition replace_data :: "json \<Rightarrow> json \<Rightarrow> json \<Rightarrow> json list" where
  "replace_data uid old new =
     [patch_op ''test'' ''/metadata/uid'' (Some uid), patch_op ''test'' ''/data'' (Some old),
      patch_op ''replace'' ''/data'' (Some new)]"

definition delete_options :: "json \<Rightarrow> json" where
  "delete_options uid =
     JObj [(''apiVersion'', JStr ''v1''), (''kind'', JStr ''DeleteOptions''),
       (''preconditions'', JObj [(''uid'', uid)]), (''propagationPolicy'', JStr ''Foreground'')]"

definition kube_delete :: "string list \<Rightarrow> string \<Rightarrow> string \<Rightarrow> json \<Rightarrow> ('s, unit) proc" where
  "kube_delete kube kind name uid =
     checkp (val (kind \<in> {''configmap'', ''job''} \<and> rmatch (plus1 (lownum_or ''-'')) name))
       ''Unexpected recovery cleanup target'' (
     let path = (if kind = ''configmap'' then ''/api/v1'' else ''/apis/batch/v1'') @ ''/namespaces/litellm/''
                  @ (if kind = ''configmap'' then ''configmaps'' else ''jobs'') @ ''/'' @ name in
     bindp (kube_manifest (delete_options uid)) (\<lambda>file.
     bindp (kube_run kube [''delete'', ''--raw'', path, ''-f'', file]) (\<lambda>_. retp ())))"

section \<open>Workloads\<close>

definition terminal_job :: "json \<Rightarrow> bool res" where
  "terminal_job job =
     bindr (iter (dget (dgetO (val job) ''status'') ''conditions'' (JList []))) (\<lambda>conditions.
     any_res (\<lambda>c. conjr (in_strs (dget0 (val c) ''type'') [''Complete'', ''Failed''])
                        (eqs (dget0 (val c) ''status'') ''True'')) conditions)"

definition job_account :: "json \<Rightarrow> json res" where
  "job_account job =
     dget0 (sub (sub (sub (val job) ''spec'') ''template'') ''spec'') ''serviceAccountName''"

definition pod_active :: "json \<Rightarrow> bool res" where
  "pod_active pod =
     negr (in_strs (dget0 (dgetO (val pod) ''status'') ''phase'') [''Succeeded'', ''Failed''])"

definition active_job_of :: "string list \<Rightarrow> json \<Rightarrow> bool res" where
  "active_job_of accounts job = conjr (in_strs (job_account job) accounts) (negr (terminal_job job))"

definition active_pod_of :: "string list \<Rightarrow> json \<Rightarrow> bool res" where
  "active_pod_of accounts pod =
     conjr (in_strs (dget0 (sub (val pod) ''spec'') ''serviceAccountName'') accounts) (pod_active pod)"

definition assert_no_recovery_jobs :: "string list \<Rightarrow> ('s, unit) proc" where
  "assert_no_recovery_jobs kube =
     bindp (kube_items kube ''jobs'') (\<lambda>jobs.
     checkp (negr (any_res (active_job_of [''l3-recovery'']) jobs))
       ''Recovery job is still active; keep the window paused'' (
     bindp (kube_items kube ''pods'') (\<lambda>pods.
     checkp (negr (any_res (active_pod_of [''l3-recovery'']) pods))
       ''Recovery Pod is still active; keep the window paused'' (retp ()))))"

definition writer_accounts :: "string list" where
  "writer_accounts = [''llm-api-proxy'', ''l3-retention'']"

definition kube_quiet :: "string list \<Rightarrow> ('s, bool) proc" where
  "kube_quiet kube =
     bindp (kube_items kube ''pods'') (\<lambda>pods.
     bindp (kube_items kube ''jobs'') (\<lambda>jobs.
     letp (conjr (negr (any_res (active_pod_of writer_accounts) pods))
                 (negr (any_res (active_job_of writer_accounts) jobs))) retp))"

definition assert_quiet :: "string list \<Rightarrow> ('s, unit) proc" where
  "assert_quiet kube =
     bindp (kube_quiet kube) (\<lambda>q.
     checkp (val q) ''Writer or retention workload remains active'' (retp ()))"

text \<open>Polls every two seconds for at most 660 seconds: at most 331 polls fit.\<close>

primrec wait_quiet :: "nat \<Rightarrow> string list \<Rightarrow> ('s, unit) proc" where
  "wait_quiet 0 kube = failp (MigrationError ''Audit drain timed out; checkpoint retained'')"
| "wait_quiet (Suc n) kube =
     bindp (kube_quiet kube) (\<lambda>q. if q then retp () else wait_quiet n kube)"

definition wait_ready :: "string list \<Rightarrow> ('s, unit) proc" where
  "wait_ready kube =
     bindp (kube_run kube [''rollout'', ''status'', ''deployment/llm-api-proxy'', ''--timeout=660s'']) (\<lambda>_. retp ())"

definition controller_template :: "string \<Rightarrow> json \<Rightarrow> json res" where
  "controller_template kind resource =
     (if kind = ''cronjobs''
      then dgetO (dgetO (dgetO (sub (val resource) ''spec'') ''jobTemplate'') ''spec'') ''template''
      else sub (sub (val resource) ''spec'') ''template'')"

definition managed_writer :: "string \<Rightarrow> json \<Rightarrow> unit res" where
  "managed_writer kind resource =
     bindr (in_strs (dget0 (dgetO (controller_template kind resource) ''spec'') ''serviceAccountName'') writer_accounts) (\<lambda>writes.
     whenr writes (
       bindr (sub (sub (val resource) ''metadata'') ''name'') (\<lambda>name.
       check (val ((kind, name) \<in> {(''deployments'', JStr ''llm-api-proxy''), (''cronjobs'', JStr ''l3-retention'')}))
         ''Unexpected controller can restart an audit writer'' (val ()))))"

definition assert_managed_writers :: "string list \<Rightarrow> ('s, unit) proc" where
  "assert_managed_writers kube =
     thenp (eachp (\<lambda>kind. bindp (kube_items kube kind) (\<lambda>found. letp (each (managed_writer kind) found) retp))
              [''deployments'', ''statefulsets'', ''daemonsets'', ''cronjobs'']) (
     bindp (kube_items kube ''hpa'') (\<lambda>scalers.
     checkp (negr (any_res (\<lambda>item. eqs (dget0 (sub (sub (val item) ''spec'') ''scaleTargetRef'') ''name'') ''llm-api-proxy'') scalers))
       ''Remove or separately suspend the API autoscaler before audit maintenance'' (retp ())))"

section \<open>Admission of an action and the connection\<close>

definition ALLOWED_STAGES :: "(string \<times> int list) list" where
  "ALLOWED_STAGES =
     [(''backup-restore'', [0]), (''legacy-hardening'', [1]), (''cluster-bootstrap'', [4]),
      (''private-ingress'', [4]), (''monitoring-onboard'', [1, 4]), (''database-roles'', [5]),
      (''backend-secrets'', [5]), (''restore-target'', [5]), (''schema-migrate'', [5]),
      (''entra-apps'', [7]), (''entra-access'', [7]), (''admin-credentials'', [7]),
      (''admin-credentials-rotate'', [7]), (''admin-credentials-recover'', [7]),
      (''proxy-credentials'', [7]), (''application'', [6, 7, 8]), (''audit-pause'', [8]),
      (''audit-recover'', [8]), (''audit-resume'', [8]), (''entra-revoke'', [7]),
      (''admin-credentials-session-rotate'', [7]), (''admin-credentials-retire-expired'', [7]),
      (''certificate-renew'', [4]), (''edge-bind'', [9]), (''dns-publish'', [9]), (''dns-rollback'', [9]),
      (''legacy-access-restrict'', [1]), (''legacy-access-restore'', [1])]"

definition LEGACY_ACTIONS :: "string list" where
  "LEGACY_ACTIONS =
     [''backup-restore'', ''legacy-hardening'', ''legacy-access-restrict'', ''legacy-access-restore'', ''restore-target'']"

definition validate_action :: "json \<Rightarrow> int \<Rightarrow> string \<Rightarrow> unit res" where
  "validate_action config stage action =
     require_active stage config (
     check (val (case map_of ALLOWED_STAGES action of None \<Rightarrow> False | Some stages \<Rightarrow> stage \<in> set stages))
       ''Action does not belong to the selected stage'' (
     bindr (deployment_mode config) (\<lambda>mode.
     check (val (mode \<noteq> ''greenfield'' \<or> action \<notin> set LEGACY_ACTIONS))
       ''Legacy operations do not apply to greenfield'' (val ()))))"

definition connect_cluster :: "json \<Rightarrow> bool \<Rightarrow> ('s, string list) proc" where
  "connect_cluster config legacy =
     checkp (disjr (val (\<not> legacy)) (mapr (\<lambda>m. m = ''migration'') (deployment_mode config)))
       ''Greenfield cannot access a legacy cluster'' (
     thenp reset_counter (
     thenp (check_login config) (
     letp (str_of (sub (sub (val config) (if legacy then ''legacy'' else ''target'')) ''resourceGroup'')) (\<lambda>rgroup.
     letp (str_of (if legacy then sub (sub (val config) ''legacy'') ''aksClusterName''
             else sub (sub (sub (sub (val config) ''parameters'') ''platform'') ''stage4Aks'') ''name'')) (\<lambda>name.
     letp (str_of (subscription_of config)) (\<lambda>s.
     bindp (run_command [''az'', ''aks'', ''get-credentials'', ''--subscription'', s, ''--resource-group'', rgroup,
              ''--name'', name, ''--file'', ''kubeconfig'', ''--overwrite-existing''] ''cluster-credentials'') (\<lambda>_.
     bindp (run_command [''kubelogin'', ''convert-kubeconfig'', ''--kubeconfig'', ''kubeconfig'', ''-l'', ''azurecli'']
              ''cluster-login'') (\<lambda>_.
     letp (if legacy then str_of (sub (sub (val config) ''legacy'') ''namespace'') else val ''litellm'') (\<lambda>ns.
     retp [''kubectl'', ''--kubeconfig'', ''kubeconfig'', ''--namespace'', ns])))))))))"

section \<open>Events\<close>

text \<open>A \<open>kubectl\<close> command that changes the cluster: \<open>create\<close>, \<open>patch\<close>, \<open>delete\<close> or \<open>apply\<close>.\<close>

definition mutating_verb :: "string \<Rightarrow> bool" where
  "mutating_verb v \<longleftrightarrow> v \<in> {''create'', ''patch'', ''delete'', ''apply''}"

fun kube_mutation :: "event \<Rightarrow> bool" where
  "kube_mutation (Command (a # b # c # d # e # verb # r), _) = (a = ''kubectl'' \<and> mutating_verb verb)"
| "kube_mutation _ = False"

text \<open>A target object of a mutation: the kind and the name of a patch.\<close>

fun patches :: "event \<Rightarrow> (string \<times> string) option" where
  "patches (Command (a # b # c # d # e # verb # kind # name # r), _) =
     (if a = ''kubectl'' \<and> verb = ''patch'' then Some (kind, name) else None)"
| "patches _ = None"

lemma only_run_command:
  assumes "\<And>r. P (Command arguments, r)" and "\<And>n d r. P (WriteFile n d, r)"
  shows "only P (run_command arguments label)"
  unfolding run_command_def by (intro only_intros only_private_write assms)

lemma only_kube_run:
  assumes "\<And>r. P (Command (kube @ arguments @ [''--request-timeout=30s'']), r)" and "\<And>n d r. P (WriteFile n d, r)"
  shows "only P (kube_run kube arguments)"
  unfolding kube_run_def by (intro only_intros only_run_command assms)

lemma only_kube_manifest: "(\<And>n r. P (WriteFile n content, r)) \<Longrightarrow> only P (kube_manifest content)"
  unfolding kube_manifest_def Let_def by (intro only_intros only_private_write)

text \<open>A command line of the client: \<open>kubectl\<close> with the credentials and the namespace.\<close>

definition is_kube :: "string list \<Rightarrow> bool" where
  "is_kube kube \<longleftrightarrow> (\<exists>a b c d. kube = [''kubectl'', a, b, c, d])"

definition kube_reads :: "event \<Rightarrow> bool" where
  "kube_reads e \<longleftrightarrow> \<not> kube_mutation e"

lemma kube_reads_file [simp]: "kube_reads (WriteFile n d, r)"
  by (simp add: kube_reads_def)

lemma kube_read_run:
  "is_kube kube \<Longrightarrow> \<not> mutating_verb verb \<Longrightarrow> only kube_reads (kube_run kube (verb # args))"
  by (intro only_kube_run) (auto simp: is_kube_def kube_reads_def)

lemma kube_get_reads: "is_kube kube \<Longrightarrow> only kube_reads (kube_get kube kind name optional)"
  unfolding kube_get_def
  by (auto intro!: only_intros kube_read_run simp: mutating_verb_def split del: if_split)

lemma kube_items_reads: "is_kube kube \<Longrightarrow> only kube_reads (kube_items kube kind)"
  unfolding kube_items_def by (intro only_intros kube_read_run) (simp_all add: mutating_verb_def)

lemma kube_quiet_reads: "is_kube kube \<Longrightarrow> only kube_reads (kube_quiet kube)"
  unfolding kube_quiet_def by (intro only_intros kube_items_reads)

lemma wait_quiet_reads: "is_kube kube \<Longrightarrow> only kube_reads (wait_quiet n kube)"
  by (induction n) (auto intro!: only_intros kube_quiet_reads)

lemma no_recovery_reads: "is_kube kube \<Longrightarrow> only kube_reads (assert_no_recovery_jobs kube)"
  unfolding assert_no_recovery_jobs_def by (intro only_intros kube_items_reads)

lemma managed_writers_reads: "is_kube kube \<Longrightarrow> only kube_reads (assert_managed_writers kube)"
  unfolding assert_managed_writers_def by (intro only_intros kube_items_reads)

lemma check_login_reads: "only kube_reads (check_login config)"
  unfolding check_login_def by (intro only_intros only_az_run) (simp_all add: kube_reads_def az_command_def)

lemma connect_reads: "only kube_reads (connect_cluster config legacy)"
  unfolding connect_cluster_def
  by (intro only_intros only_run_command check_login_reads) (simp_all add: kube_reads_def)

lemma connect_returns: "returns (connect_cluster config legacy) kube \<Longrightarrow> is_kube kube"
  by (auto simp: connect_cluster_def is_kube_def dest!: returnsD)

lemmas kube_read_rules =
  kube_get_reads kube_items_reads kube_quiet_reads wait_quiet_reads no_recovery_reads managed_writers_reads

lemma patches_other: "is_kube kube \<Longrightarrow> verb \<noteq> ''patch'' \<Longrightarrow> patches (Command (kube @ verb # args), r) = None"
  by (cases args; cases "tl args") (auto simp: is_kube_def)

lemma patches_kube: "is_kube kube \<Longrightarrow> patches (Command (kube @ ''patch'' # kind # name # args), r) = Some (kind, name)"
  by (auto simp: is_kube_def)

lemma kube_any: "only (\<lambda>_. True) (kube_run kube args)"
  by (rule only_kube_run) simp_all

lemma kube_reads_any:
  "only (\<lambda>_. True) (kube_get kube kind name optional)" "only (\<lambda>_. True) (kube_items kube kind)"
  "only (\<lambda>_. True) (wait_quiet n kube)"
proof -
  show items: "only (\<lambda>_. True) (kube_items kube kind)" for kind
    unfolding kube_items_def by (intro only_intros kube_any)
  show "only (\<lambda>_. True) (kube_get kube kind name optional)"
    unfolding kube_get_def by (intro only_intros kube_any)
  show "only (\<lambda>_. True) (wait_quiet n kube)"
    by (induction n) (auto simp: kube_quiet_def intro!: only_intros items)
qed

lemma loads_Json: "loads r = Inr v \<Longrightarrow> r = Json v"
  by (cases r) auto

lemma wp_kube_get_event:
  assumes "is_kube kube"
  shows "wp (kube_get kube kind name True) (\<lambda>v l'. v \<noteq> JNull \<longrightarrow>
     (Command (kube @ [''get'', kind, name, ''-o'', ''json'', ''--ignore-not-found'', ''--request-timeout=30s'']), Json v) \<in> set l')
     (\<lambda>_. True) l"
  unfolding kube_get_def kube_run_def run_command_def
  by (rule wp_intros wp_private_write TrueI | force dest: loads_Json)+

lemma kube_steps_any:
  "only (\<lambda>_. True) (kube_create kube r)" "only (\<lambda>_. True) (kube_patch kube kind name ops)"
  "only (\<lambda>_. True) (kube_delete kube kind name uid)"
  unfolding kube_create_def kube_patch_def kube_delete_def Let_def
  by (intro only_intros only_kube_manifest kube_any TrueI)+

section \<open>Runs against a given cluster\<close>

lemma yields_run_command [yield_intros]:
  "answer sv (Command arguments) = r \<Longrightarrow> r \<noteq> Failure \<Longrightarrow> files_ok sv \<Longrightarrow> yields sv (run_command arguments label) r"
  unfolding run_command_def by (rule yields_rules(4), rule yields_rules(2)) (simp add: yield_intros)

lemma yields_kube_run [yield_intros]:
  "answer sv (Command (kube @ arguments @ [''--request-timeout=30s''])) = r \<Longrightarrow> r \<noteq> Failure \<Longrightarrow> files_ok sv \<Longrightarrow>
     yields sv (kube_run kube arguments) r"
  unfolding kube_run_def by (rule yields_rules(10), rule yields_run_command)

lemma yields_kube_get [yield_intros]:
  "answer sv (Command (kube @ ([''get'', kind, name, ''-o'', ''json''] @ (if optional then [''--ignore-not-found''] else []))
       @ [''--request-timeout=30s''])) = Json v \<Longrightarrow> files_ok sv \<Longrightarrow> yields sv (kube_get kube kind name optional) v"
  unfolding kube_get_def by (rule yields_rules(4), rule yields_kube_run, assumption) (simp_all add: yield_intros)

lemma yields_kube_get_absent:
  "answer sv (Command (kube @ ([''get'', kind, name, ''-o'', ''json''] @ (if optional then [''--ignore-not-found''] else []))
       @ [''--request-timeout=30s''])) = Text [] \<Longrightarrow> files_ok sv \<Longrightarrow> yields sv (kube_get kube kind name optional) JNull"
  unfolding kube_get_def by (rule yields_rules(4), rule yields_kube_run, assumption) (simp_all add: yield_intros)

lemma yields_kube_items [yield_intros]:
  "answer sv (Command (kube @ [''get'', kind, ''-o'', ''json''] @ [''--request-timeout=30s''])) = Json (JObj [(''items'', JList vs)])
     \<Longrightarrow> files_ok sv \<Longrightarrow> yields sv (kube_items kube kind) vs"
  unfolding kube_items_def by (rule yields_rules(4), rule yields_kube_run, assumption) (simp_all add: yield_intros)

lemma emits_kube_mutation [emit_intros]:
  "files_ok sv \<Longrightarrow> (\<And>file. P (Command (kube @ [''patch'', kind, name, ''--type=json'', ''--patch-file'', file] @ [''--request-timeout=30s'']),
       answer sv (Command (kube @ [''patch'', kind, name, ''--type=json'', ''--patch-file'', file] @ [''--request-timeout=30s'']))))
     \<Longrightarrow> emits sv P (kube_patch kube kind name ops)"
  "files_ok sv \<Longrightarrow> (\<And>file. P (Command (kube @ [''create'', ''-f'', file] @ [''--request-timeout=30s'']),
       answer sv (Command (kube @ [''create'', ''-f'', file] @ [''--request-timeout=30s'']))))
     \<Longrightarrow> emits sv P (kube_create kube doc)"
proof -
  have run: "emits sv P (kube_run kube args)"
    if "P (Command (kube @ args @ [''--request-timeout=30s'']), answer sv (Command (kube @ args @ [''--request-timeout=30s''])))" for args
    unfolding kube_run_def run_command_def using that
    by (intro emit_intros only_intros only_private_write TrueI)
  have doc: "succeeds sv (kube_manifest content)" if "files_ok sv" for content
    unfolding kube_manifest_def Let_def by (rule succeeds_next, rule succeeds_yields, intro yield_intros that, rule yields_rules(1))
  show "emits sv P (kube_patch kube kind name ops)"
    if "files_ok sv" "\<And>file. P (Command (kube @ [''patch'', kind, name, ''--type=json'', ''--patch-file'', file] @ [''--request-timeout=30s'']),
       answer sv (Command (kube @ [''patch'', kind, name, ''--type=json'', ''--patch-file'', file] @ [''--request-timeout=30s''])))"
    unfolding kube_patch_def using that by (intro emits_after doc emits_early run only_intros)
  show "emits sv P (kube_create kube doc)"
    if "files_ok sv" "\<And>file. P (Command (kube @ [''create'', ''-f'', file] @ [''--request-timeout=30s'']),
       answer sv (Command (kube @ [''create'', ''-f'', file] @ [''--request-timeout=30s''])))"
    unfolding kube_create_def using that by (intro emits_after doc emits_early run only_intros)
qed

end
