(* ===== verification/Py_Loads.thy ===== *)
theory Py_Loads
  imports Py_Dumps
begin

text \<open>
  \<open>json.loads\<close> of a text, and the round trip with \<open>json.dumps\<close>.  The parser takes fuel; the
  length of the text is always enough.  Escapes above \<open>U+00FF\<close> and decimal literals of more
  than 15 significant digits, whose value a float rounds, are outside the model.
\<close>

section \<open>Strings and numbers\<close>

definition is_ws :: "char \<Rightarrow> bool" where
  "is_ws c \<longleftrightarrow> c = CHR '' '' \<or> c = CHR 0x09 \<or> c = CHR 0x0A \<or> c = CHR 0x0D"

abbreviation skip :: "string \<Rightarrow> string" where
  "skip \<equiv> dropWhile is_ws"

fun unescape :: "char \<Rightarrow> char option" where
  "unescape c =
     (if c = CHR 0x22 \<or> c = CHR 0x5C \<or> c = CHR ''/'' then Some c
      else if c = CHR ''b'' then Some (CHR 0x08) else if c = CHR ''f'' then Some (CHR 0x0C)
      else if c = CHR ''n'' then Some (CHR 0x0A) else if c = CHR ''r'' then Some (CHR 0x0D)
      else if c = CHR ''t'' then Some (CHR 0x09) else None)"

definition unicode_char :: "string \<Rightarrow> char option" where
  "unicode_char ds =
     (case value_in 16 0 ds of None \<Rightarrow> None
      | Some n \<Rightarrow> if n < 256 then Some (char_of (nat n)) else None)"

text \<open>The characters up to the closing quote, and what follows it.\<close>

fun parse_chars :: "string \<Rightarrow> (string \<times> string) option" where
  "parse_chars [] = None"
| "parse_chars (c # r) =
     (if c = CHR 0x22 then Some ([], r)
      else if c = CHR 0x5C then
        (case r of
           e # r' \<Rightarrow>
             if e = CHR ''u'' then
               (case r' of
                  a # b # d # f # r2 \<Rightarrow>
                    (case unicode_char [a, b, d, f] of None \<Rightarrow> None
                     | Some x \<Rightarrow> map_option (\<lambda>(s, t). (x # s, t)) (parse_chars r2))
                | _ \<Rightarrow> None)
             else (case unescape e of None \<Rightarrow> None
                   | Some x \<Rightarrow> map_option (\<lambda>(s, t). (x # s, t)) (parse_chars r'))
         | [] \<Rightarrow> None)
      else if code c < 32 then None
      else map_option (\<lambda>(s, t). (c # s, t)) (parse_chars r))"

text \<open>A decimal literal as the shortest mantissa with its exponent; zero has no sign here.\<close>

definition decimal :: "bool \<Rightarrow> int \<Rightarrow> int \<Rightarrow> json" where
  "decimal neg m e =
     (if m = 0 then JFloat 0 0
      else let k = length (takeWhile (\<lambda>d. d = 0) (digits_rev 10 m)); n = m div 10 ^ k
           in JFloat (if neg then - n else n) (e + int k))"

definition exponent_of :: "string \<Rightarrow> (int \<times> string) option" where
  "exponent_of s =
     (let (neg, t) = (case s of c # cs \<Rightarrow> if c = CHR ''-'' then (True, cs) else if c = CHR ''+'' then (False, cs) else (False, s)
                      | [] \<Rightarrow> (False, []));
          ds = takeWhile is_digit t
      in if ds = [] then None
         else Some (if neg then - dec_value ds else dec_value ds, dropWhile is_digit t))"

definition parse_fraction_part :: "string \<Rightarrow> string \<times> string" where
  "parse_fraction_part s =
     (case s of
        a # b # r \<Rightarrow> if a = CHR ''.'' \<and> is_digit b then (takeWhile is_digit (b # r), dropWhile is_digit (b # r))
                      else ([], s)
      | _ \<Rightarrow> ([], s))"

definition parse_exponent_part :: "string \<Rightarrow> int option \<times> string" where
  "parse_exponent_part s =
     (case s of
        [] \<Rightarrow> (None, s)
      | c # r \<Rightarrow>
          if c = CHR ''e'' \<or> c = CHR ''E''
          then (case exponent_of r of None \<Rightarrow> (None, s) | Some (x, t) \<Rightarrow> (Some x, t)) else (None, s))"

definition parse_digits :: "string \<Rightarrow> string \<times> string" where
  "parse_digits s =
     (case s of
        [] \<Rightarrow> ([], [])
      | c # r \<Rightarrow> if c = CHR ''0'' then ([c], r) else (takeWhile is_digit s, dropWhile is_digit s))"

definition parse_number :: "string \<Rightarrow> (json \<times> string) option" where
  "parse_number s =
     (let neg = starts_with s ''-'';
          (ds, r) = parse_digits (if neg then tl s else s);
          (fs, r1) = parse_fraction_part r;
          (x, r2) = parse_exponent_part r1
      in if ds = [] then None
         else if fs = [] \<and> x = None
         then Some (JInt (if neg then - dec_value ds else dec_value ds), r2)
         else Some (decimal neg (dec_value (ds @ fs)) ((case x of None \<Rightarrow> 0 | Some e \<Rightarrow> e) - int (length fs)), r2))"

section \<open>Values\<close>

text \<open>\<open>parse_list\<close> is after an opening bracket or a comma, \<open>parse_pairs\<close> likewise in a dict.\<close>

fun parse_value :: "nat \<Rightarrow> string \<Rightarrow> (json \<times> string) option"
  and parse_list :: "nat \<Rightarrow> string \<Rightarrow> (json list \<times> string) option"
  and parse_pairs :: "nat \<Rightarrow> string \<Rightarrow> (obj \<times> string) option" where
  "parse_value 0 s = None"
| "parse_value (Suc n) s =
     (case s of [] \<Rightarrow> None
      | c # r \<Rightarrow>
          if c = CHR 0x22 then map_option (\<lambda>(t, u). (JStr t, u)) (parse_chars r)
          else if c = CHR ''['' then
            (if starts_with (skip r) '']'' then Some (JList [], tl (skip r))
             else map_option (\<lambda>(vs, u). (JList vs, u)) (parse_list n (skip r)))
          else if c = CHR ''{'' then
            (if starts_with (skip r) ''}'' then Some (JObj [], tl (skip r))
             else map_option (\<lambda>(kv, u). (JObj (dict_update [] kv), u)) (parse_pairs n (skip r)))
          else if starts_with s ''null'' then Some (JNull, drop 4 s)
          else if starts_with s ''true'' then Some (JBool True, drop 4 s)
          else if starts_with s ''false'' then Some (JBool False, drop 5 s)
          else if starts_with s ''NaN'' then Some (JNonFinite, drop 3 s)
          else if starts_with s ''Infinity'' then Some (JNonFinite, drop 8 s)
          else if starts_with s ''-Infinity'' then Some (JNonFinite, drop 9 s)
          else parse_number s)"
| "parse_list 0 s = None"
| "parse_list (Suc n) s =
     (case parse_value n s of None \<Rightarrow> None
      | Some (v, r) \<Rightarrow>
          (case skip r of [] \<Rightarrow> None
           | c # r' \<Rightarrow>
               if c = CHR '']'' then Some ([v], r')
               else if c = CHR '','' then map_option (\<lambda>(vs, u). (v # vs, u)) (parse_list n (skip r'))
               else None))"
| "parse_pairs 0 s = None"
| "parse_pairs (Suc n) s =
     (case s of [] \<Rightarrow> None
      | q # r \<Rightarrow>
          if q \<noteq> CHR 0x22 then None
          else (case parse_chars r of None \<Rightarrow> None
           | Some (k, r1) \<Rightarrow>
               if \<not> starts_with (skip r1) '':'' then None
               else (case parse_value n (skip (tl (skip r1))) of None \<Rightarrow> None
                | Some (v, r2) \<Rightarrow>
                    (case skip r2 of [] \<Rightarrow> None
                     | c # r' \<Rightarrow>
                         if c = CHR ''}'' then Some ([(k, v)], r')
                         else if c = CHR '','' then map_option (\<lambda>(kv, u). ((k, v) # kv, u)) (parse_pairs n (skip r'))
                         else None))))"

definition loads_text :: "string \<Rightarrow> json res" where
  "loads_text s =
     (case parse_value (Suc (length s)) (skip s) of
        Some (v, r) \<Rightarrow> if skip r = [] then val v else Inl (ValueError ''Extra data'')
      | None \<Rightarrow> Inl (ValueError ''Expecting value''))"

text \<open>\<open>json.loads(v)\<close> of a value: anything but a text is a \<open>TypeError\<close>.\<close>

definition loads_value :: "json res \<Rightarrow> json res" where
  "loads_value e = bindr e (\<lambda>v. case v of JStr s \<Rightarrow> loads_text s | _ \<Rightarrow> Inl TypeError)"

section \<open>Round trip\<close>

declare parse_value.simps [simp del] parse_list.simps [simp del] parse_pairs.simps [simp del]
  parse_chars.simps [simp del] unescape.simps [simp del]

subsection \<open>Numerals\<close>

lemma digits_rev_range: "0 \<le> n \<Longrightarrow> list_all (\<lambda>d. 0 \<le> d \<and> d < 10) (digits_rev 10 n)"
proof (induction "10 :: int" n rule: digits_rev.induct)
  case (1 n)
  then show ?case by (subst digits_rev.simps) auto
qed

lemma digits_rev_last: "0 \<le> n \<Longrightarrow> digits_rev 10 n \<noteq> [] \<and> (last (digits_rev 10 n) = 0 \<longrightarrow> n = 0)"
proof (induction "10 :: int" n rule: digits_rev.induct)
  case (1 n)
  show ?case
  proof (cases "n < 10")
    case True
    then show ?thesis by (subst (1 2) digits_rev.simps) simp
  next
    case False
    with 1 have "digits_rev 10 (n div 10) \<noteq> []" "last (digits_rev 10 (n div 10)) = 0 \<longrightarrow> n div 10 = 0"
      by auto
    moreover have "n div 10 \<noteq> 0" using False by auto
    ultimately show ?thesis using False by (subst (1 2) digits_rev.simps) simp
  qed
qed

lemma digit_char_digit: "0 \<le> d \<Longrightarrow> d < 10 \<Longrightarrow> is_digit (digit_char d) \<and> int (code (digit_char d)) - 48 = d"
proof -
  assume "0 \<le> d" "d < 10"
  then have "d = 0 \<or> d = 1 \<or> d = 2 \<or> d = 3 \<or> d = 4 \<or> d = 5 \<or> d = 6 \<or> d = 7 \<or> d = 8 \<or> d = 9"
    by presburger
  then show ?thesis by (elim disjE) (simp_all add: digit_char_def is_digit_def between_def code_def)
qed

lemma dec_value_append: "dec_value (s @ [c]) = 10 * dec_value s + (int (code c) - 48)"
  by (simp add: dec_value_def)

lemma dec_value_digits: "0 \<le> n \<Longrightarrow> dec_value (map digit_char (rev (digits_rev 10 n))) = n"
proof (induction "10 :: int" n rule: digits_rev.induct)
  case (1 n)
  show ?case
  proof (cases "n < 10")
    case True
    then show ?thesis
      using 1(2) digit_char_digit [of n] by (subst digits_rev.simps) (simp add: dec_value_def)
  next
    case False
    have m: "0 \<le> n mod 10" "n mod 10 < 10" by simp_all
    show ?thesis
      using False 1 digit_char_digit [OF m]
      by (subst digits_rev.simps) (simp add: dec_value_append)
  qed
qed

lemma digits_text: "0 \<le> n \<Longrightarrow> list_all is_digit (map digit_char (rev (digits_rev 10 n)))"
  using digits_rev_range [of n] digit_char_digit by (auto simp: list_all_iff)

lemma digits_head:
  assumes "0 \<le> n" obtains c cs where "map digit_char (rev (digits_rev 10 n)) = c # cs"
    and "is_digit c" and "c = CHR ''0'' \<longrightarrow> n = 0 \<and> cs = []"
proof -
  let ?ds = "digits_rev 10 n"
  have ne: "?ds \<noteq> []" and l: "last ?ds = 0 \<longrightarrow> n = 0" using digits_rev_last [OF assms] by auto
  have eq: "map digit_char (rev ?ds) = digit_char (last ?ds) # map digit_char (rev (butlast ?ds))"
    using ne by (metis append_butlast_last_id list.simps(9) rev_eq_Cons_iff rev_rev_ident)
  have r: "0 \<le> last ?ds" "last ?ds < 10"
    using digits_rev_range [OF assms] ne by (auto simp: list_all_iff)
  have z: "digit_char (last ?ds) = CHR ''0'' \<longrightarrow> n = 0 \<and> rev (butlast ?ds) = []"
  proof
    assume "digit_char (last ?ds) = CHR ''0''"
    then have "last ?ds = 0" using digit_char_digit [OF r] by (auto simp: code_def)
    with l have "n = 0" by simp
    then show "n = 0 \<and> rev (butlast ?ds) = []" by (simp add: digits_rev.simps)
  qed
  show thesis
    by (rule that [OF eq]) (use z digit_char_digit [OF r] in auto)
qed

text \<open>What may follow a number so that it ends there.\<close>

definition ends_number :: "string \<Rightarrow> bool" where
  "ends_number r \<longleftrightarrow>
     (case r of [] \<Rightarrow> True | c # _ \<Rightarrow> \<not> is_digit c \<and> c \<noteq> CHR ''.'' \<and> c \<noteq> CHR ''e'' \<and> c \<noteq> CHR ''E'')"

lemma ends_number_parts:
  "ends_number r \<Longrightarrow> parse_fraction_part r = ([], r) \<and> parse_exponent_part r = (None, r)"
  by (auto simp: ends_number_def parse_fraction_part_def parse_exponent_part_def split: list.splits)

lemma take_digits: "list_all is_digit s \<Longrightarrow> ends_number r \<Longrightarrow>
    takeWhile is_digit (s @ r) = s \<and> dropWhile is_digit (s @ r) = r"
  by (induction s) (auto simp: ends_number_def split: list.splits)

lemma parse_digits_show:
  assumes "0 \<le> n" and r: "ends_number r"
  shows "parse_digits (map digit_char (rev (digits_rev 10 n)) @ r) = (map digit_char (rev (digits_rev 10 n)), r)"
proof -
  obtain c cs where ds: "map digit_char (rev (digits_rev 10 n)) = c # cs" "is_digit c" "c = CHR ''0'' \<longrightarrow> n = 0 \<and> cs = []"
    using digits_head [OF assms(1)] .
  show ?thesis
    using ds take_digits [OF digits_text [OF assms(1)] r] unfolding ds(1) by (auto simp: parse_digits_def)
qed

lemma parse_number_show:
  assumes r: "ends_number r"
  shows "parse_number (show_int i @ r) = Some (JInt i, r)"
proof -
  let ?ds = "map digit_char (rev (digits_rev 10 \<bar>i\<bar>))"
  have i: "0 \<le> \<bar>i\<bar>" by simp
  obtain c cs where ds: "?ds = c # cs" "is_digit c" using digits_head [OF i] .
  have sh: "show_int i @ r = (if i < 0 then CHR ''-'' # ?ds @ r else ?ds @ r)"
    by (simp add: show_int_def)
  have nm: "c \<noteq> CHR ''-''" using ds(2) by (auto simp: is_digit_def between_def code_def)
  have neg: "starts_with (show_int i @ r) ''-'' \<longleftrightarrow> i < 0"
    unfolding sh ds(1) using nm by (simp add: starts_with_def)
  have rest: "(if i < 0 then tl (show_int i @ r) else show_int i @ r) = ?ds @ r"
    by (simp add: sh)
  show ?thesis
    unfolding parse_number_def Let_def neg rest parse_digits_show [OF i r]
    using ends_number_parts [OF r] dec_value_digits [OF i] ds(1) by simp
qed

subsection \<open>Strings\<close>

lemma hex_value_digit: "0 \<le> d \<Longrightarrow> d < 16 \<Longrightarrow> hex_value (digit_char d) = Some d"
proof -
  assume "0 \<le> d" "d < 16"
  then have "d = 0 \<or> d = 1 \<or> d = 2 \<or> d = 3 \<or> d = 4 \<or> d = 5 \<or> d = 6 \<or> d = 7 \<or> d = 8 \<or> d = 9
      \<or> d = 10 \<or> d = 11 \<or> d = 12 \<or> d = 13 \<or> d = 14 \<or> d = 15"
    by presburger
  then show ?thesis
    by (elim disjE) (simp_all add: hex_value_def digit_char_def is_digit_def between_def code_def)
qed

lemma hex_value_0: "hex_value CHR ''0'' = Some 0"
  by (simp add: hex_value_def is_digit_def between_def code_def)

lemma unicode_hex2: "unicode_char ([CHR ''0'', CHR ''0''] @ hex2 c) = Some c"
proof -
  have lt: "int (code c) < 256" using code_lt [of c] by linarith
  have d: "0 \<le> int (code c) div 16" "int (code c) div 16 < 16" "0 \<le> int (code c) mod 16" "int (code c) mod 16 < 16"
    using lt by presburger+
  have "int (code c) div 16 * 16 + int (code c) mod 16 = int (code c)" by simp
  then show ?thesis
    using d code_lt [of c] by (simp add: unicode_char_def hex2_def hex_value_0 hex_value_digit code_def)
qed

lemma code_eq_iff: "code c = code d \<longleftrightarrow> c = d"
  by (simp add: code_def of_char_eq_iff)

lemma parse_escaped: "parse_chars (escape_char c @ t) = map_option (\<lambda>(s, u). (c # s, u)) (parse_chars t)"
proof -
  have "code c = 34 \<longleftrightarrow> c = CHR 0x22" "code c = 92 \<longleftrightarrow> c = CHR 0x5C" "code c = 10 \<longleftrightarrow> c = CHR 0x0A"
       "code c = 13 \<longleftrightarrow> c = CHR 0x0D" "code c = 9 \<longleftrightarrow> c = CHR 0x09" "code c = 12 \<longleftrightarrow> c = CHR 0x0C"
       "code c = 8 \<longleftrightarrow> c = CHR 0x08"
    using code_eq_iff [of c "CHR 0x22"] code_eq_iff [of c "CHR 0x5C"] code_eq_iff [of c "CHR 0x0A"]
      code_eq_iff [of c "CHR 0x0D"] code_eq_iff [of c "CHR 0x09"] code_eq_iff [of c "CHR 0x0C"]
      code_eq_iff [of c "CHR 0x08"] by (simp_all add: code_def)
  moreover have "unicode_char [CHR ''0'', CHR ''0'', digit_char (int (code c) div 16), digit_char (int (code c) mod 16)] = Some c"
    using unicode_hex2 [of c] by (simp add: hex2_def)
  ultimately show ?thesis
    by (simp add: escape_char_def parse_chars.simps unescape.simps hex2_def)
qed

lemma parse_quoted: "parse_chars (concat (map escape_char s) @ CHR 0x22 # t) = Some (s, t)"
proof (induction s)
  case Nil
  then show ?case by (simp add: parse_chars.simps)
next
  case (Cons c s)
  then show ?case using parse_escaped [of c "concat (map escape_char s) @ CHR 0x22 # t"] by simp
qed

subsection \<open>Values\<close>

fun float_free :: "json \<Rightarrow> bool" where
  "float_free (JFloat m e) = False"
| "float_free JNonFinite = False"
| "float_free (JList xs) = list_all float_free xs"
| "float_free (JObj kv) = list_all (\<lambda>(k, v). float_free v) kv"
| "float_free _ = True"

lemma dict_update_append:
  "distinct (keys_of (acc @ kv)) \<Longrightarrow> dict_update acc kv = acc @ kv"
proof (induction kv arbitrary: acc)
  case Nil
  then show ?case by (simp add: dict_update_def)
next
  case (Cons p kv)
  have fresh: "dict_set acc (fst p) (snd p) = acc @ [p]" if "fst p \<notin> set (keys_of acc)" for acc
    using that by (induction acc) auto
  have "dict_update acc (p # kv) = dict_update (acc @ [p]) kv"
    using Cons.prems fresh [of acc] by (simp add: dict_update_def keys_of_def)
  also have "\<dots> = acc @ p # kv"
    using Cons.IH [of "acc @ [p]"] Cons.prems by simp
  finally show ?case .
qed

lemma dict_update_Nil: "distinct (map fst kv) \<Longrightarrow> dict_update [] kv = kv"
  using dict_update_append [of "[]" kv] by (simp add: keys_of_def)

locale separators =
  fixes isep ksep ws1 ws2 :: string
  assumes isep: "isep = CHR '','' # ws1" and ksep: "ksep = CHR '':'' # ws2"
    and ws1: "list_all is_ws ws1" and ws2: "list_all is_ws ws2"
begin

abbreviation text_of :: "json \<Rightarrow> string" where
  "text_of \<equiv> render isep ksep"

abbreviation pair_text :: "string \<times> json \<Rightarrow> string" where
  "pair_text \<equiv> (\<lambda>(k, v). quote k @ ksep @ text_of v)"

lemma skip_ws: "list_all is_ws w \<Longrightarrow> skip (w @ s) = skip s"
  by (induction w) auto

lemma text_head:
  assumes "float_free v"
  obtains c cs where "text_of v = c # cs" and "\<not> is_ws c" and "c \<noteq> CHR '']''"
proof -
  have "\<exists>c cs. text_of v = c # cs \<and> \<not> is_ws c \<and> c \<noteq> CHR '']''"
  proof (cases v)
    case (JInt i)
    obtain c cs where ds: "map digit_char (rev (digits_rev 10 \<bar>i\<bar>)) = c # cs" "is_digit c"
      using digits_head [of "\<bar>i\<bar>"] by (metis abs_ge_zero)
    have "\<not> is_ws c \<and> c \<noteq> CHR '']''"
      using ds(2) by (auto simp: is_digit_def between_def code_def is_ws_def)
    then show ?thesis using JInt ds by (cases "i < 0") (auto simp: show_int_def is_ws_def)
  qed (use assms in \<open>auto simp: quote_def is_ws_def\<close>)
  then show thesis using that by blast
qed

lemma skip_text: "float_free v \<Longrightarrow> skip (text_of v @ r) = text_of v @ r"
  by (erule text_head [of v]) simp

definition reads :: "json \<Rightarrow> bool" where
  "reads v \<longleftrightarrow> (\<forall>n r. length (text_of v) < n \<longrightarrow> ends_number r \<longrightarrow> parse_value n (text_of v @ r) = Some (v, r))"

lemma readsD: "reads v \<Longrightarrow> length (text_of v) < n \<Longrightarrow> ends_number r \<Longrightarrow> parse_value n (text_of v @ r) = Some (v, r)"
  by (simp add: reads_def)

lemma ends_marks: "ends_number (CHR '']'' # r)" "ends_number (CHR ''}'' # r)" "ends_number (CHR '','' # r)"
  by (simp_all add: ends_number_def is_digit_def between_def code_def)

lemma marks_not_ws: "\<not> is_ws CHR '']''" "\<not> is_ws CHR ''}''" "\<not> is_ws CHR '',''" "\<not> is_ws CHR '':''" "\<not> is_ws CHR 0x22"
  by (simp_all add: is_ws_def)

lemma parse_list_join:
  "xs \<noteq> [] \<Longrightarrow> list_all (\<lambda>v. reads v \<and> float_free v) xs \<Longrightarrow> Suc (length (join isep (map text_of xs))) < n
   \<Longrightarrow> parse_list n (join isep (map text_of xs) @ CHR '']'' # r) = Some (xs, r)"
proof (induction xs arbitrary: n)
  case (Cons v xs)
  obtain m where n: "n = Suc m" using Cons.prems by (cases n) auto
  show ?case
  proof (cases xs)
    case Nil
    then have "parse_value m (text_of v @ CHR '']'' # r) = Some (v, CHR '']'' # r)"
      using Cons.prems n by (intro readsD) (auto simp: ends_marks)
    then show ?thesis using Nil n by (simp add: parse_list.simps marks_not_ws)
  next
    case (Cons w ws)
    let ?t = "join isep (map text_of xs) @ CHR '']'' # r"
    have j: "join isep (map text_of (v # xs)) = text_of v @ isep @ join isep (map text_of xs)"
      using Cons by simp
    have "parse_value m (text_of v @ CHR '','' # ws1 @ ?t) = Some (v, CHR '','' # ws1 @ ?t)"
      using Cons.prems n j by (intro readsD) (auto simp: ends_marks isep)
    moreover have "skip (ws1 @ ?t) = ?t"
      using skip_text [of w] Cons.prems Cons by (cases ws) (simp_all add: skip_ws ws1)
    moreover have "parse_list m ?t = Some (xs, r)"
      using Cons.prems n j Cons by (intro Cons.IH) (auto simp: isep)
    ultimately show ?thesis using n j by (simp add: parse_list.simps marks_not_ws isep)
  qed
qed simp

lemma parse_pairs_join:
  "kv \<noteq> [] \<Longrightarrow> list_all (\<lambda>p. reads (snd p) \<and> float_free (snd p)) kv \<Longrightarrow> Suc (length (join isep (map pair_text kv))) < n
   \<Longrightarrow> parse_pairs n (join isep (map pair_text kv) @ CHR ''}'' # r) = Some (kv, r)"
proof (induction kv arbitrary: n)
  case (Cons p kv)
  obtain m where n: "n = Suc m" using Cons.prems by (cases n) auto
  obtain k v where p: "p = (k, v)" by (cases p)
  have ff: "float_free v" and rd: "reads v" using Cons.prems p by auto
  have key: "parse_chars (concat (map escape_char k) @ CHR 0x22 # ksep @ t) = Some (k, ksep @ t)" for t
    by (rule parse_quoted)
  have colon: "starts_with (skip (ksep @ t)) '':''" "skip (tl (skip (ksep @ text_of v @ t))) = text_of v @ t" for t
    using skip_text [OF ff] by (simp_all add: ksep marks_not_ws starts_with_def skip_ws ws2)
  show ?case
  proof (cases kv)
    case Nil
    then have "parse_value m (text_of v @ CHR ''}'' # r) = Some (v, CHR ''}'' # r)"
      using Cons.prems n rd p by (intro readsD) (auto simp: ends_marks)
    then show ?thesis using Nil n p key colon by (simp add: parse_pairs.simps quote_def marks_not_ws)
  next
    case (Cons q qs)
    let ?t = "join isep (map pair_text kv) @ CHR ''}'' # r"
    have j: "join isep (map pair_text (p # kv)) = quote k @ ksep @ text_of v @ isep @ join isep (map pair_text kv)"
      using Cons p by simp
    have "parse_value m (text_of v @ CHR '','' # ws1 @ ?t) = Some (v, CHR '','' # ws1 @ ?t)"
      using Cons.prems n j rd by (intro readsD) (auto simp: ends_marks isep)
    moreover have "skip (ws1 @ ?t) = ?t"
      using Cons by (cases q; cases qs) (simp_all add: skip_ws ws1 quote_def marks_not_ws)
    moreover have "parse_pairs m ?t = Some (kv, r)"
      using Cons.prems n j Cons by (intro Cons.IH) (auto simp: isep)
    ultimately show ?thesis using n j p key colon
      by (simp add: parse_pairs.simps quote_def marks_not_ws isep)
  qed
qed simp

lemma int_text_start:
  assumes "ends_number r"
  shows "parse_value (Suc n) (show_int i @ r) = Some (JInt i, r)"
proof -
  obtain c cs where ds: "map digit_char (rev (digits_rev 10 \<bar>i\<bar>)) = c # cs" "is_digit c"
    using digits_head [of "\<bar>i\<bar>"] by (metis abs_ge_zero)
  have sh: "show_int i @ r = (if i < 0 then CHR ''-'' # c # cs @ r else c # cs @ r)"
    using ds by (cases "i < 0") (simp_all add: show_int_def)
  have c: "c \<noteq> CHR 0x22" "c \<noteq> CHR ''[''" "c \<noteq> CHR ''{''" "c \<noteq> CHR ''n''" "c \<noteq> CHR ''t''" "c \<noteq> CHR ''f''"
    "c \<noteq> CHR ''N''" "c \<noteq> CHR ''I''" "c \<noteq> CHR ''-''"
    using ds(2) by (auto simp: is_digit_def between_def code_def)
  show ?thesis
    using parse_number_show [OF assms, of i] c unfolding sh
    by (auto simp: parse_value.simps starts_with_def split: if_splits)
qed

lemma reads_value: "wf_json v \<Longrightarrow> float_free v \<Longrightarrow> reads v"
proof (induction v rule: wf_json.induct)
  case (1 xs)
  then have all: "list_all (\<lambda>v. reads v \<and> float_free v) xs" by (auto simp: list_all_iff)
  show ?case
    unfolding reads_def
  proof (intro allI impI)
    fix n r assume n: "length (text_of (JList xs)) < n" and "ends_number r"
    then obtain m where m: "n = Suc m" by (cases n) auto
    show "parse_value n (text_of (JList xs) @ r) = Some (JList xs, r)"
    proof (cases xs)
      case Nil
      then show ?thesis using m by (simp add: parse_value.simps marks_not_ws starts_with_def)
    next
      case (Cons w ws)
      let ?t = "join isep (map text_of xs) @ CHR '']'' # r"
      have "float_free w" using all Cons by simp
      then obtain c cs where h: "text_of w = c # cs" "\<not> is_ws c" "c \<noteq> CHR '']''"
        by (rule text_head)
      have "skip ?t = ?t" "\<not> starts_with ?t '']''"
        using h Cons by (cases ws; simp add: starts_with_def)+
      moreover have "parse_list m ?t = Some (xs, r)"
        using Cons n m by (intro parse_list_join all) auto
      ultimately show ?thesis using m by (simp add: parse_value.simps)
    qed
  qed
next
  case (2 kv)
  have "reads b \<and> float_free b" if "(a, b) \<in> set kv" for a b
    using "2.IH" [OF that refl] "2.prems" that by (auto simp: list_all_iff)
  then have all: "list_all (\<lambda>p. reads (snd p) \<and> float_free (snd p)) kv" by (auto simp: list_all_iff)
  have d: "distinct (map fst kv)" using 2 by simp
  show ?case
    unfolding reads_def
  proof (intro allI impI)
    fix n r assume n: "length (text_of (JObj kv)) < n" and "ends_number r"
    then obtain m where m: "n = Suc m" by (cases n) auto
    show "parse_value n (text_of (JObj kv) @ r) = Some (JObj kv, r)"
    proof (cases kv)
      case Nil
      then show ?thesis using m by (simp add: parse_value.simps marks_not_ws starts_with_def)
    next
      case (Cons q qs)
      let ?t = "join isep (map pair_text kv) @ CHR ''}'' # r"
      have "skip ?t = ?t" "\<not> starts_with ?t ''}''"
        using Cons by (cases q; cases qs; simp add: starts_with_def quote_def marks_not_ws)+
      moreover have "parse_pairs m ?t = Some (kv, r)"
        using Cons n m by (intro parse_pairs_join all) auto
      ultimately show ?thesis using m d by (simp add: parse_value.simps dict_update_Nil)
    qed
  qed
qed (auto simp: reads_def parse_value.simps starts_with_def quote_def parse_quoted elim: gr0_implies_Suc [THEN exE]
    dest!: gr_implies_not0 not0_implies_Suc intro: int_text_start)

lemma loads_text_render:
  assumes "wf_json v" and "float_free v"
  shows "loads_text (text_of v) = Inr v"
proof -
  have "parse_value (Suc (length (text_of v))) (text_of v @ []) = Some (v, [])"
    by (rule readsD [OF reads_value [OF assms]]) (simp_all add: ends_number_def)
  then show ?thesis using skip_text [OF assms(2), of "[]"] by (simp add: loads_text_def)
qed

end

text \<open>The two forms the program writes.\<close>

interpretation plain: separators "'', ''" "'': ''" "'' ''" "'' ''"
  by unfold_locales (simp_all add: is_ws_def)

interpretation compact: separators "'',''" "'':''" "[]" "[]"
  by unfold_locales simp_all

section \<open>The canonical form\<close>

lemma distinct_sort_key: "distinct (map fst ys) \<Longrightarrow> distinct (map fst (sort_key fst ys))"
  by (simp add: distinct_map)

lemma wf_canon: "wf_json v \<Longrightarrow> wf_json (canon v)"
proof (induction v rule: wf_json.induct)
  case (2 kv)
  have "distinct (map fst (sort_key fst (map (\<lambda>(k, v). (k, canon v)) kv)))"
    using "2.prems" by (intro distinct_sort_key) (simp only: distinct_fst_map_snd wf_json.simps)
  with 2 show ?case by (auto simp: list_all_iff)
qed (auto simp: list_all_iff)

lemma float_free_canon: "float_free v \<Longrightarrow> float_free (canon v)"
  by (induction v rule: float_free.induct) (auto simp: list_all_iff)

lemma loads_dumps_default: "wf_json v \<Longrightarrow> float_free v \<Longrightarrow> loads_text (dumps_default v) = Inr v"
  unfolding dumps_default_def by (rule plain.loads_text_render)

lemma loads_dumps_sorted: "wf_json v \<Longrightarrow> float_free v \<Longrightarrow> loads_text (dumps_sorted v) = Inr (canon v)"
  unfolding dumps_sorted_def by (intro plain.loads_text_render wf_canon float_free_canon)

lemma loads_dumps: "wf_json v \<Longrightarrow> float_free v \<Longrightarrow> loads_text (dumps v) = Inr (canon v)"
  unfolding dumps_def by (intro compact.loads_text_render wf_canon float_free_canon)

text \<open>Different canonical values have different texts: what a fingerprint is computed from
  determines the value up to the order of its keys.\<close>

lemma dumps_inj:
  "wf_json v \<Longrightarrow> float_free v \<Longrightarrow> wf_json w \<Longrightarrow> float_free w \<Longrightarrow> dumps v = dumps w \<Longrightarrow> canon v = canon w"
  using loads_dumps [of v] loads_dumps [of w] by simp

text \<open>A dict whose keys are sorted is still the same dict for Python.\<close>

lemma map_of_canon:
  "distinct (map fst kv) \<Longrightarrow> map_of (sort_key fst (map (\<lambda>(k, v). (k, canon v)) kv)) k = map_option canon (map_of kv k)"
proof -
  assume d: "distinct (map fst kv)"
  let ?kv = "map (\<lambda>(k, v). (k, canon v)) kv"
  have "distinct (map fst ?kv)" unfolding distinct_fst_map_snd by (rule d)
  then have "map_of (sort_key fst ?kv) = map_of ?kv"
    by (subst map_of_set_eq) (simp_all add: distinct_sort_key)
  then show ?thesis by (simp add: map_of_map)
qed

lemma py_eq_canon: "wf_json v \<Longrightarrow> py_eq v (canon v) \<and> py_eq (canon v) v"
proof (induction v rule: wf_json.induct)
  case (1 xs)
  then show ?case by (auto simp: list_all_iff zip_map1 zip_map2 zip_same_conv_map)
next
  case (2 kv)
  then have d: "distinct (map fst kv)" by simp
  have v: "py_eq v (canon v) \<and> py_eq (canon v) v" if "(k, v) \<in> set kv" for k v
    using "2.IH" [OF that refl] "2.prems" that by (auto simp: list_all_iff)
  have "map_of kv k = Some v" if "(k, v) \<in> set kv" for k v
    using that d by simp
  with v show ?case
    using map_of_canon [OF d] d by (auto simp: list_all_iff)
qed auto

text \<open>Canonical forms of dicts, key by key.\<close>

lemma canon_iff:
  assumes "distinct (map fst kv)" and "distinct (map fst kv')"
  shows "canon (JObj kv) = canon (JObj kv') \<longleftrightarrow>
    (\<forall>k. map_option canon (map_of kv k) = map_option canon (map_of kv' k))"
proof
  assume eq: "canon (JObj kv) = canon (JObj kv')"
  show "\<forall>k. map_option canon (map_of kv k) = map_option canon (map_of kv' k)"
  proof
    fix k
    show "map_option canon (map_of kv k) = map_option canon (map_of kv' k)"
      using map_of_canon [OF assms(1), of k] map_of_canon [OF assms(2), of k] eq by simp
  qed
next
  assume eq: "\<forall>k. map_option canon (map_of kv k) = map_option canon (map_of kv' k)"
  let ?c = "map (\<lambda>(k, v). (k, canon v))"
  have d: "distinct (map fst (?c kv))" "distinct (map fst (?c kv'))"
    unfolding distinct_fst_map_snd using assms by simp_all
  moreover have "map_of (?c kv) = map_of (?c kv')"
    using eq by (auto simp: map_of_map fun_eq_iff)
  ultimately have "set (?c kv) = set (?c kv')" using map_of_set_eq by blast
  then show "canon (JObj kv) = canon (JObj kv')"
    unfolding canon.simps json.inject by (rule sort_key_eq_of_set [OF d])
qed

lemma distinct_fst_set: "distinct (map fst kv) \<Longrightarrow> distinct (map fst (dict_set kv k v))"
  using distinct_dict_set by (simp add: keys_of_def)

lemma distinct_fst_pop: "distinct (map fst kv) \<Longrightarrow> distinct (map fst (dict_pop kv k))"
  using distinct_dict_pop by (simp add: keys_of_def)

lemma canon_dict: "canon v = canon (JObj kv) \<Longrightarrow> \<exists>kv'. v = JObj kv'"
  by (cases v) auto

lemma canon_atom: "canon v = JStr s \<longleftrightarrow> v = JStr s" "canon v = JBool b \<longleftrightarrow> v = JBool b"
  by (cases v; simp)+

lemma stored_field:
  assumes "canon stored = canon (JObj kv)" and "wf_json stored" and "wf_json (JObj kv)" and "map_of kv k = Some v"
  shows "\<exists>w. sub (val stored) k = Inr w \<and> canon w = canon v"
proof -
  obtain kv' where kv': "stored = JObj kv'" using canon_dict [OF assms(1)] by blast
  then have "map_option canon (map_of kv' k) = map_option canon (map_of kv k)"
    using assms(1-3) canon_iff [of kv' kv] by (simp del: canon.simps)
  then show ?thesis using assms(4) kv' by auto
qed

lemma wf_dict_set: "wf_json (JObj kv) \<Longrightarrow> wf_json v \<Longrightarrow> wf_json (JObj (dict_set kv k v))"
  using set_dict_set [of kv k v] by (auto simp: distinct_fst_set list_all_iff)

lemma float_free_dict_set: "float_free (JObj kv) \<Longrightarrow> float_free v \<Longrightarrow> float_free (JObj (dict_set kv k v))"
  using set_dict_set [of kv k v] by (auto simp: list_all_iff)

end
