(* ===== verification/Legacy_Access.thy ===== *)
theory Legacy_Access
  imports Kube Py_Loads Approval_Gate
begin

text \<open>
  \<open>scripts/legacy_access.py\<close>: the source ranges of the legacy gateway are restricted, and later
  restored, without touching its backend.  The state of a cycle is a checkpoint in a
  \<open>ConfigMap\<close>.
\<close>

section \<open>Settings\<close>

definition source_range :: "json \<Rightarrow> string res" where
  "source_range v =
     check (val (is_str v)) ''Source CIDRs must be strings'' (
     bindr (ip_network True v) (\<lambda>network.
     check (val (version network = 4 \<and> 0 < plen network \<and> \<not> is_loopback4 network \<and> \<not> is_link_local4 network
                 \<and> \<not> is_multicast4 network \<and> \<not> is_unspecified4 network))
       ''Use explicit IPv4 client or egress CIDRs, never unrestricted or special ranges'' (
     val (net_str network))))"

definition source_ranges :: "json \<Rightarrow> string list res" where
  "source_ranges values =
     check (val (case values of JList vs \<Rightarrow> 1 \<le> length vs \<and> length vs \<le> 64 | _ \<Rightarrow> False))
       ''Provide 1 to 64 explicit source CIDRs'' (
     bindr (list_of (val values)) (\<lambda>vs.
     bindr (map_res source_range vs) (\<lambda>result.
     check (val (distinct result)) ''Duplicate source CIDRs are not allowed'' (
     val (sort result)))))"

record access =
  access_mode :: string
  cidrs :: "string list"

definition access_settings :: "json \<Rightarrow> access res" where
  "access_settings config =
     bindr (dget0 (val config) ''legacyAccess'') (\<lambda>value.
     check (mapr (\<lambda>m. m = ''migration'') (deployment_mode config))
       ''Legacy access changes do not apply to greenfield'' (
     check (val (keys_are [''mode'', ''allowedCidrs'', ''accessImpactAccepted''] value))
       ''legacyAccess requires mode, allowedCidrs and accessImpactAccepted'' (
     bindr (sub (val value) ''mode'') (\<lambda>mode.
     check (conjr (in_strs (val mode) [''load-balancer'', ''nginx-ingress''])
                  (testr (\<lambda>v. v = JBool True) (sub (val value) ''accessImpactAccepted'')))
       ''Approve the legacy entry mode and client access impact'' (
     bindr (str_of (val mode)) (\<lambda>m.
     bindr (bindr (sub (val value) ''allowedCidrs'') source_ranges) (\<lambda>ranges.
     val \<lparr>access_mode = m, cidrs = ranges\<rparr>)))))))"

section \<open>The live entry\<close>

definition ANNOTATION :: string where
  "ANNOTATION = ''nginx.ingress.kubernetes.io/whitelist-source-range''"

definition SERVICE :: string where "SERVICE = ''litellm-mi-proxy''"

definition INGRESS :: string where "INGRESS = ''litellm-ingress''"

definition CHECKPOINT :: string where "CHECKPOINT = ''llmgw-legacy-access''"

text \<open>What the checkpoint keeps of the entry: its identity, a digest of everything but the ranges,
  and whether and with which value the ranges are set.\<close>

definition annotations_of :: "json \<Rightarrow> obj res" where
  "annotations_of metadata =
     bindr (dget0 (val metadata) ''annotations'') (\<lambda>a. if truth a then dict_of (val a) else val [])"

definition view_json :: "json \<Rightarrow> string \<Rightarrow> bool \<Rightarrow> json \<Rightarrow> json" where
  "view_json uid digest present value =
     JObj [(''uid'', uid), (''stableSha256'', JStr digest), (''present'', JBool present), (''value'', value)]"

definition access_view :: "sha \<Rightarrow> json \<Rightarrow> string \<Rightarrow> json res" where
  "access_view sha resource kind =
     bindr (sub (val resource) ''metadata'') (\<lambda>metadata.
     bindr (bindr (sub (val resource) ''spec'') (\<lambda>v. items (val v))) (\<lambda>spec.
     bindr (annotations_of metadata) (\<lambda>annotations0.
     let annotations = dict_pop annotations0 ''kubectl.kubernetes.io/last-applied-configuration'';
         (present, value, spec', annotations') =
           (if kind = ''service''
            then (map_of spec ''loadBalancerSourceRanges'' \<noteq> None,
                  lookup_or spec ''loadBalancerSourceRanges'' JNull,
                  dict_pop spec ''loadBalancerSourceRanges'', annotations)
            else (map_of annotations ANNOTATION \<noteq> None, lookup_or annotations ANNOTATION JNull,
                  spec, dict_pop annotations ANNOTATION))
     in bindr (sub (val metadata) ''uid'') (\<lambda>uid.
        val (view_json uid
          (fingerprint sha (JObj [(''spec'', JObj spec'), (''annotations'', JObj annotations')]))
          present value)))))"

definition named :: "json \<Rightarrow> string \<Rightarrow> bool res" where
  "named item name = eqs (sub (sub (val item) ''metadata'') ''name'') name"

definition backend_name_is :: "json \<Rightarrow> bool res" where
  "backend_name_is backend = eqs (dget0 (dgetO (val backend) ''service'') ''name'') SERVICE"

definition rule_backends :: "json \<Rightarrow> json list res" where
  "rule_backends rule =
     bindr (iter (dget (dgetO (val rule) ''http'') ''paths'' (JList []))) (map_res (\<lambda>path. dgetO (val path) ''backend''))"

definition ingress_related :: "json \<Rightarrow> bool res" where
  "ingress_related item =
     bindr (sub (val item) ''spec'') (\<lambda>spec.
     bindr (dgetO (val spec) ''defaultBackend'') (\<lambda>default.
     bindr (iter (dget (val spec) ''rules'' (JList []))) (\<lambda>rules.
     bindr (map_res rule_backends rules) (\<lambda>backends.
     any_res backend_name_is (default # concat backends)))))"

definition port_ok :: "json \<Rightarrow> bool res" where
  "port_ok p =
     conjr (bindr (dget0 (val p) ''port'') (\<lambda>a. bindr (dget0 (val p) ''targetPort'') (\<lambda>b.
              val (py_eq a b \<and> py_eq b (JInt 4000)))))
           (eqs (dget (val p) ''protocol'' (JStr ''TCP'')) ''TCP'')"

definition check_service :: "json \<Rightarrow> json list \<Rightarrow> unit res" where
  "check_service spec services =
     check (eqr (dget0 (val spec) ''selector'') (val (JObj [(''app'', JStr SERVICE)])))
       ''Legacy service selector differs from the reviewed deployment'' (
     bindr (list_of (dget (val spec) ''ports'' (JList []))) (\<lambda>ports.
     check (case ports of [p] \<Rightarrow> port_ok p | _ \<Rightarrow> val False)
       ''Legacy service ports differ from the reviewed deployment'' (
     check (negr (testr truth (dget0 (val spec) ''externalIPs'')))
       ''Review legacy external IP bypass before restricting access'' (
     check (negr (any_res (\<lambda>item. conjr (negr (named item SERVICE))
               (bindr (dget0 (sub (val item) ''spec'') ''selector'') (\<lambda>a.
                bindr (sub (val spec) ''selector'') (\<lambda>b. val (py_eq a b))))) services))
       ''Additional Services target the legacy application; review them separately'' (val ())))))"

definition reviewed_path :: "json \<Rightarrow> bool res" where
  "reviewed_path p =
     conjr (eqs (dget0 (val p) ''path'') ''/'')
    (conjr (eqs (dget0 (val p) ''pathType'') ''Prefix'')
           (eqr (dget0 (val p) ''backend'') (val (JObj [(''service'', JObj
              [(''name'', JStr SERVICE), (''port'', JObj [(''number'', JInt 4000)])])]))))"

definition check_ingress :: "json \<Rightarrow> unit res" where
  "check_ingress ingress =
     bindr (sub (val ingress) ''spec'') (\<lambda>spec.
     check (conjr (eqs (dget0 (val spec) ''ingressClassName'') ''nginx'')
                  (negr (testr truth (dget0 (val spec) ''defaultBackend''))))
       ''Only the reviewed NGINX ingress is supported'' (
     bindr (list_of (dget (val spec) ''rules'' (JList []))) (\<lambda>rules.
     check (case rules of [r] \<Rightarrow> testr truth (dget0 (val r) ''host'') | _ \<Rightarrow> val False)
       ''Expected one explicit legacy hostname'' (
     bindr (list_of (dget (dgetO (val (hd rules)) ''http'') ''paths'' (JList []))) (\<lambda>paths.
     check (case paths of [p] \<Rightarrow> reviewed_path p | _ \<Rightarrow> val False)
       ''Legacy ingress route differs from the reviewed deployment'' (
     bindr (bindr (sub (val ingress) ''metadata'') annotations_of) (\<lambda>annotations.
     check (val (list_all (\<lambda>name. \<not> is_substring ''snippet'' name
                   \<and> name \<noteq> ''nginx.ingress.kubernetes.io/denylist-source-range'') (keys_of annotations)))
       ''Custom NGINX policy requires separate review'' (val ()))))))))"

definition access_target :: "access \<Rightarrow> json list \<Rightarrow> json list \<Rightarrow> (string \<times> json) res" where
  "access_target settings services ingresses =
     bindr (filter_res (\<lambda>item. named item SERVICE) services) (\<lambda>selected.
     check (val (length selected = 1)) ''Expected the known legacy litellm-mi-proxy Service'' (
     bindr (sub (val (hd selected)) ''spec'') (\<lambda>spec.
     seqr (check_service spec services) (
     bindr (filter_res ingress_related ingresses) (\<lambda>related.
     if access_mode settings = ''load-balancer''
     then check (conjr (eqs (dget0 (val spec) ''type'') ''LoadBalancer'') (val (related = [])))
            ''LoadBalancer mode cannot coexist with an ingress to the same backend''
            (val (''service'', hd selected))
     else check (eqs (dget (val spec) ''type'' (JStr ''ClusterIP'')) ''ClusterIP'')
            ''Ingress mode requires a private backend Service'' (
          check (case related of [r] \<Rightarrow> named r INGRESS | _ \<Rightarrow> val False)
            ''Expected only the known litellm-ingress route'' (
          seqr (check_ingress (hd related)) (val (''ingress'', hd related)))))))))"

section \<open>The restricted value\<close>

text \<open>The ranges in force: the annotation is a comma separated text, the service has a list.\<close>

definition previous_ranges :: "string \<Rightarrow> json \<Rightarrow> json list res" where
  "previous_ranges kind previous =
     (if kind = ''ingress''
      then mapr (\<lambda>s. map (\<lambda>part. JStr (strip part)) (split_on CHR '','' s)) (str_of (val previous))
      else check (val (is_list previous)) ''Existing source ranges have an unexpected format'' (list_of (val previous)))"

definition range_value :: "string \<Rightarrow> string list \<Rightarrow> json" where
  "range_value kind requested =
     (if kind = ''ingress'' then JStr (join '','' requested) else JList (map JStr requested))"

definition within_previous :: "string list \<Rightarrow> net list \<Rightarrow> bool res" where
  "within_previous requested networks =
     all_res (\<lambda>r. bindr (ip_network True (JStr r)) (\<lambda>n. val (list_ex (subnet_of n) networks))) requested"

definition restricted_value :: "access \<Rightarrow> string \<Rightarrow> json \<Rightarrow> json res" where
  "restricted_value settings kind view =
     bindr (sub (val view) ''value'') (\<lambda>previous.
     if truth previous
     then bindr (previous_ranges kind previous) (\<lambda>old.
          bindr (map_res (ip_network True) old) (\<lambda>networks.
          check (within_previous (cidrs settings) networks)
            ''New source ranges would broaden the existing policy''
            (val (range_value kind (cidrs settings)))))
     else val (range_value kind (cidrs settings)))"

section \<open>Patches\<close>

definition ranges_path :: "string \<Rightarrow> string" where
  "ranges_path kind =
     (if kind = ''service'' then ''/spec/loadBalancerSourceRanges''
      else ''/metadata/annotations/'' @ replace ''/'' ''~1'' ANNOTATION)"

definition access_patch :: "json \<Rightarrow> string \<Rightarrow> bool \<Rightarrow> json \<Rightarrow> json list res" where
  "access_patch resource kind present value =
     bindr (sub (val resource) ''metadata'') (\<lambda>metadata.
     bindr (sub (val metadata) ''uid'') (\<lambda>uid.
     bindr (sub (val metadata) ''resourceVersion'') (\<lambda>rv.
     bindr (dget0 (val metadata) ''annotations'') (\<lambda>annotations.
     let tests = [patch_op ''test'' ''/metadata/uid'' (Some uid),
                  patch_op ''test'' ''/metadata/resourceVersion'' (Some rv)] in
     if kind = ''ingress'' \<and> \<not> is_dict annotations
     then check (val present) ''Missing ingress annotations cannot be removed''
            (val (tests @ [patch_op ''add'' ''/metadata/annotations'' (Some (JObj [(ANNOTATION, value)]))]))
     else val (tests @ [patch_op (if present then ''add'' else ''remove'') (ranges_path kind)
                          (if present then Some value else None)])))))"

section \<open>The plan\<close>

record access_plan =
  ap_plan :: json
  ap_state :: obj
  ap_checkpoint :: json
  ap_target :: json
  ap_kind :: string
  ap_view :: json
  ap_desired :: json

definition PHASES :: "string list" where
  "PHASES = [''restricting'', ''restricted'', ''restoring'', ''restored'']"

definition load_state :: "json \<Rightarrow> json \<Rightarrow> json \<Rightarrow> obj res" where
  "load_state checkpoint ascope view =
     check (eqs (dget0 (dgetO (dgetO (val checkpoint) ''metadata'') ''labels'') ''app.kubernetes.io/managed-by'') ''llmgw-legacy-access'')
       ''Existing access checkpoint is not managed by this operation'' (
     bindr (loads_value (dget (dgetO (val checkpoint) ''data'') ''access.json'' (JStr ''null''))) (\<lambda>state.
     check (conjr (val (is_dict state))
           (conjr (eqr (dget0 (val state) ''version'') (val (JInt 1)))
           (conjr (eqr (dget0 (val state) ''scope'') (val ascope))
                  (in_strs (dget0 (val state) ''phase'') PHASES))))
       ''Legacy access checkpoint scope or format differs'' (
     check (bindr (sub (val state) ''original'') (\<lambda>a. bindr (sub (val state) ''restricted'') (\<lambda>b.
              val (py_eq view a \<or> py_eq view b))))
       ''Legacy entry was replaced or changed outside this operation; no automatic overwrite''
       (items (val state)))))"

definition restricted_view :: "json \<Rightarrow> json \<Rightarrow> json res" where
  "restricted_view view value =
     bindr (items (val view)) (\<lambda>kv. val (JObj (dict_set (dict_set kv ''present'' (JBool True)) ''value'' value)))"

text \<open>The state and the desired entry of an action.\<close>

definition access_goal ::
    "string \<Rightarrow> access \<Rightarrow> string \<Rightarrow> json \<Rightarrow> json \<Rightarrow> obj option \<Rightarrow> (obj \<times> json) res" where
  "access_goal action settings kind view ascope found =
     (if action = ''legacy-access-restrict''
      then
        bindr (case found of None \<Rightarrow> val JNull | Some kv \<Rightarrow> sub (val (JObj kv)) ''phase'') (\<lambda>phase.
        check (val (phase \<noteq> JStr ''restoring'')) ''Finish interrupted access restoration before restricting again'' (
        bindr (if found = None \<or> phase = JStr ''restored''
               then check (case found of None \<Rightarrow> val True
                     | Some kv \<Rightarrow> eqr (val view) (sub (val (JObj kv)) ''original''))
                      ''Restored checkpoint differs from the live entry'' (
                    bindr (restricted_value settings kind view) (\<lambda>value.
                    bindr (restricted_view view value) (\<lambda>restricted.
                    val [(''version'', JInt 1), (''scope'', ascope), (''phase'', JStr ''restricting''),
                         (''original'', view), (''restricted'', restricted)])))
               else val (the found)) (\<lambda>state.
        check (eqr (sub (sub (val (JObj state)) ''restricted'') ''value'') (val (range_value kind (cidrs settings))))
          ''Source policy changed during this access cycle; restore or review it separately'' (
        bindr (sub (val (JObj state)) ''restricted'') (\<lambda>desired. val (state, desired))))))
      else
        check (val (found \<noteq> None)) ''No legacy access checkpoint exists to restore'' (
        bindr (sub (val (JObj (the found))) ''original'') (\<lambda>desired. val (the found, desired))))"

definition access_scope :: "json \<Rightarrow> string \<Rightarrow> json \<Rightarrow> json res" where
  "access_scope config kind target =
     bindr (sub (val config) ''azure'') (\<lambda>azure.
     bindr (sub (val config) ''legacy'') (\<lambda>legacy.
     bindr (sub (sub (val target) ''metadata'') ''name'') (\<lambda>name.
     val (JObj [(''azure'', azure), (''legacy'', legacy), (''kind'', JStr kind), (''name'', name)]))))"

definition checkpoint_digest :: "sha \<Rightarrow> json \<Rightarrow> (json \<times> json) res" where
  "checkpoint_digest sha checkpoint =
     (if truth checkpoint
      then bindr (sub (val checkpoint) ''data'') (\<lambda>data.
           bindr (sub (sub (val checkpoint) ''metadata'') ''uid'') (\<lambda>uid.
           val (JStr (fingerprint sha data), uid)))
      else val (JNull, JNull))"

text \<open>The reviewed live entry: its kind, the object, its view and the scope of the plan.\<close>

definition access_entry ::
    "sha \<Rightarrow> json \<Rightarrow> access \<Rightarrow> json list \<Rightarrow> json list \<Rightarrow> (string \<times> json \<times> json \<times> json) res" where
  "access_entry sha config settings services ingresses =
     bindr (access_target settings services ingresses) (\<lambda>(kind, target).
     bindr (access_view sha target kind) (\<lambda>view.
     bindr (access_scope config kind target) (\<lambda>ascope.
     val (kind, target, view, ascope))))"

definition access_plan_of ::
    "sha \<Rightarrow> json \<Rightarrow> access \<Rightarrow> json \<Rightarrow> string \<Rightarrow> string \<times> json \<times> json \<times> json \<Rightarrow> json \<Rightarrow> access_plan res" where
  "access_plan_of sha config settings revision action entry checkpoint =
     (case entry of (kind, target, view, ascope) \<Rightarrow>
     bindr (if truth checkpoint then mapr Some (load_state checkpoint ascope view) else val None) (\<lambda>found.
     bindr (access_goal action settings kind view ascope found) (\<lambda>(state, desired).
     bindr (stage_fingerprint sha config 1) (\<lambda>digest.
     bindr (checkpoint_digest sha checkpoint) (\<lambda>(data, uid).
     val \<lparr>ap_plan = JObj
            [(''stage'', JInt 1), (''action'', JStr action), (''revision'', revision),
             (''configSha256'', JStr digest), (''scope'', ascope), (''current'', view), (''desired'', desired),
             (''checkpointSha256'', data), (''checkpointUid'', uid)],
          ap_state = state, ap_checkpoint = checkpoint, ap_target = target, ap_kind = kind,
          ap_view = view, ap_desired = desired\<rparr>)))))"

text \<open>The summary of a run; the fields of an applied change are added at the end.\<close>

definition access_summary :: "sha \<Rightarrow> string \<Rightarrow> json \<Rightarrow> access_plan \<Rightarrow> obj res" where
  "access_summary sha action revision plan =
     bindr (sub (val (ap_plan plan)) ''scope'') (\<lambda>ascope.
     bindr (sub (val (ap_view plan)) ''value'') (\<lambda>before_value.
     bindr (sub (val (ap_desired plan)) ''value'') (\<lambda>after_value.
     val [(''stage'', JInt 1), (''action'', JStr action), (''revision'', revision),
          (''planSha256'', JStr (fingerprint sha (ap_plan plan))), (''applied'', JBool False),
          (''stageAccepted'', JBool False), (''scope'', ascope), (''before'', before_value),
          (''after'', after_value), (''verification'', JStr ''configuration-only''),
          (''trafficVerified'', JBool False),
          (''notCovered'', JList (map JStr
             [''external source and bypass tests'', ''private admin isolation'',
              ''shared ingress controller and cross-namespace routes'',
              ''credentials and actual client availability'']))])))"

section \<open>The operation\<close>

definition access_prepare :: "sha \<Rightarrow> json \<Rightarrow> string \<Rightarrow> json \<Rightarrow> ('s, string list \<times> access_plan \<times> obj) proc" where
  "access_prepare sha config action revision =
     letp (validate_action config 1 action) (\<lambda>_.
     bindp (connect_cluster config True) (\<lambda>kube.
     thenp reset_counter (
     checkp (val (action \<in> {''legacy-access-restrict'', ''legacy-access-restore''})) ''Unknown legacy access action'' (
     letp (access_settings config) (\<lambda>settings.
     bindp (kube_items kube ''services'') (\<lambda>services.
     bindp (kube_items kube ''ingresses'') (\<lambda>ingresses.
     letp (access_entry sha config settings services ingresses) (\<lambda>entry.
     bindp (kube_get kube ''configmap'' CHECKPOINT True) (\<lambda>checkpoint.
     letp (access_plan_of sha config settings revision action entry checkpoint) (\<lambda>plan.
     letp (access_summary sha action revision plan) (\<lambda>summary.
     thenp (private_write ''runtime-review.json'' (ap_plan plan)) (
     thenp (private_write ''runtime-summary.json'' (JObj summary)) (
     retp (kube, plan, summary))))))))))))))"

definition checkpoint_data :: "obj \<Rightarrow> string \<Rightarrow> json" where
  "checkpoint_data state phase =
     JObj [(''access.json'', JStr (dumps_sorted (JObj (dict_set state ''phase'' (JStr phase)))))]"

definition new_checkpoint :: "json \<Rightarrow> json" where
  "new_checkpoint data =
     JObj [(''apiVersion'', JStr ''v1''), (''kind'', JStr ''ConfigMap''),
       (''metadata'', JObj [(''name'', JStr CHECKPOINT),
          (''labels'', JObj [(''app.kubernetes.io/managed-by'', JStr ''llmgw-legacy-access'')])]),
       (''data'', data)]"

definition save_checkpoint :: "string list \<Rightarrow> json \<Rightarrow> json \<Rightarrow> ('s, unit) proc" where
  "save_checkpoint kube checkpoint data =
     (if checkpoint = JNull then kube_create kube (new_checkpoint data)
      else letp (sub (sub (val checkpoint) ''metadata'') ''uid'') (\<lambda>uid.
           letp (sub (val checkpoint) ''data'') (\<lambda>old.
           kube_patch kube ''configmap'' CHECKPOINT (replace_data uid old data))))"

definition access_apply :: "sha \<Rightarrow> string \<Rightarrow> string list \<Rightarrow> access_plan \<Rightarrow> obj \<Rightarrow> ('s, obj) proc" where
  "access_apply sha action kube plan summary =
     (let restrict = action = ''legacy-access-restrict'';
          data = checkpoint_data (ap_state plan) (if restrict then ''restricting'' else ''restoring'');
          final = (if restrict then ''restricted'' else ''restored'') in
     thenp (save_checkpoint kube (ap_checkpoint plan) data) (
     bindp (kube_get kube ''configmap'' CHECKPOINT False) (\<lambda>checkpoint.
     checkp (eqr (sub (val checkpoint) ''data'') (val data)) ''Access checkpoint changed before patching the entry'' (
     letp (sub (sub (val (ap_plan plan)) ''scope'') ''name'') (\<lambda>jname.
     letp (str_of (val jname)) (\<lambda>name.
     thenp (if py_eq (ap_view plan) (ap_desired plan) then retp ()
            else letp (sub (val (ap_desired plan)) ''present'') (\<lambda>present.
                 letp (sub (val (ap_desired plan)) ''value'') (\<lambda>value.
                 letp (access_patch (ap_target plan) (ap_kind plan) (truth present) value) (\<lambda>operations.
                 kube_patch kube (ap_kind plan) name operations)))) (
     bindp (kube_get kube (ap_kind plan) name False) (\<lambda>entry.
     checkp (eqr (access_view sha entry (ap_kind plan)) (val (ap_desired plan)))
       ''Legacy access patch could not be confirmed; preserve checkpoint and replan'' (
     letp (sub (sub (val checkpoint) ''metadata'') ''uid'') (\<lambda>uid.
     thenp (kube_patch kube ''configmap'' CHECKPOINT (replace_data uid data (checkpoint_data (ap_state plan) final))) (
     let summary = dict_update summary
           [(''applied'', JBool True), (''checkpoint'', JStr CHECKPOINT), (''phase'', JStr final)] in
     thenp (private_write ''runtime-summary.json'' (JObj summary)) (
     retp summary))))))))))))"

definition access_operation :: "sha \<Rightarrow> json \<Rightarrow> string \<Rightarrow> string \<Rightarrow> json \<Rightarrow> string \<Rightarrow> ('s, obj) proc" where
  "access_operation sha config action operation revision approved =
     checkp (val (operation \<in> {''plan'', ''execute''})) ''Unknown legacy access operation'' (
     bindp (access_prepare sha config action revision) (\<lambda>(kube, plan, summary).
     if operation = ''plan'' then retp summary
     else checkp (val (approved = fingerprint sha (ap_plan plan))) ''Legacy access plan changed or was not approved''
            (access_apply sha action kube plan summary)))"

section \<open>Events\<close>

lemma access_prepare_reads: "only kube_reads (access_prepare sha config action revision)"
  unfolding access_prepare_def
  by (intro only_letp only_bindp_returns connect_reads)
    (auto intro!: only_intros only_private_write kube_read_rules dest: connect_returns)

lemma access_apply_any: "only (\<lambda>_. True) (access_apply sha action kube plan summary)"
  unfolding access_apply_def save_checkpoint_def Let_def
  by (intro only_intros only_private_write kube_steps_any kube_reads_any TrueI)

lemma access_prepare_reviewed:
  "wp (access_prepare sha config action revision)
      (\<lambda>p l. \<exists>r. (WriteFile ''runtime-review.json'' (ap_plan (fst (snd p))), r) \<in> set l) (\<lambda>_. True) l"
  unfolding access_prepare_def
  by (rule wp_intros wp_private_write wp_drop TrueI | force)+

interpretation access: approval_gate
    "\<lambda>operation approved. access_operation sha config action operation revision approved"
    "access_prepare sha config action revision" "\<lambda>(kube, plan, summary). retp summary"
    "\<lambda>(kube, plan, summary). access_apply sha action kube plan summary"
    "\<lambda>p. fingerprint sha (ap_plan (fst (snd p)))"
    "\<lambda>p. WriteFile ''runtime-review.json'' (ap_plan (fst (snd p)))"
    "''Legacy access plan changed or was not approved''" kube_reads
  for sha config action revision
proof
  show "access_operation sha config action ''plan'' revision a =
      bindp (access_prepare sha config action revision) (\<lambda>(kube, plan, summary). retp summary)" for a
    by (simp add: access_operation_def checkp_def)
  show "access_operation sha config action ''execute'' revision a =
      bindp (access_prepare sha config action revision)
       (\<lambda>p. checkp (val (a = fingerprint sha (ap_plan (fst (snd p)))))
         ''Legacy access plan changed or was not approved''
         ((\<lambda>(kube, plan, summary). access_apply sha action kube plan summary) p))" for a
    by (simp add: access_operation_def checkp_def case_prod_unfold)
qed (auto intro!: only_intros access_prepare_reads access_apply_any access_prepare_reviewed)

section \<open>The restriction and the checkpoint\<close>

lemma restricted_value_ok:
  "restricted_value settings kind view = Inr v \<Longrightarrow> sub (val view) ''value'' = Inr previous \<Longrightarrow> truth previous \<Longrightarrow>
     \<exists>old networks. previous_ranges kind previous = Inr old \<and> map_res (ip_network True) old = Inr networks
       \<and> within_previous (cidrs settings) networks = Inr True \<and> v = range_value kind (cidrs settings)"
  unfolding restricted_value_def by (auto simp only: py_ok if_True inj_on_eq_iff Inr_inject sum.inject split: if_splits)

lemma within_previousD:
  "within_previous requested networks = Inr True \<Longrightarrow> r \<in> set requested \<Longrightarrow>
     \<exists>n m. ip_network True (JStr r) = Inr n \<and> m \<in> set networks \<and> subnet_of n m"
  unfolding within_previous_def all_res_ok bindr_ok list_ex_iff by (drule bspec, assumption) auto

text \<open>The state a new cycle starts with.\<close>

definition cycle_state :: "json \<Rightarrow> json \<Rightarrow> json \<Rightarrow> string \<Rightarrow> obj" where
  "cycle_state ascope original restricted phase =
     [(''version'', JInt 1), (''scope'', ascope), (''phase'', JStr phase), (''original'', original), (''restricted'', restricted)]"

lemma access_goal_first:
  assumes "access_goal ''legacy-access-restrict'' settings kind view ascope None = Inr (state, desired)"
  shows "\<exists>value. restricted_value settings kind view = Inr value \<and> restricted_view view value = Inr desired
     \<and> state = cycle_state ascope view desired ''restricting''"
  using assms by (auto simp: access_goal_def cycle_state_def bindr_ok check_ok)

lemma load_cycle:
  assumes wf: "wf_json ascope" "wf_json original" "wf_json restricted"
    and ff: "float_free ascope" "float_free original" "float_free restricted"
    and label: "dget0 (dgetO (dgetO (val checkpoint) ''metadata'') ''labels'') ''app.kubernetes.io/managed-by'' = val (JStr ''llmgw-legacy-access'')"
    and data: "dgetO (val checkpoint) ''data'' = val (checkpoint_data (cycle_state ascope original restricted p) phase)"
    and phase: "phase \<in> set PHASES" and live: "live = original \<or> live = restricted"
  shows "\<exists>state. load_state checkpoint ascope live = Inr state \<and> map_of state ''original'' = Some (canon original)
     \<and> map_of state ''restricted'' = Some (canon restricted) \<and> map_of state ''phase'' = Some (JStr phase)"
proof -
  let ?st = "cycle_state ascope original restricted phase"
  have "loads_text (dumps_sorted (JObj ?st)) = Inr (canon (JObj ?st))"
    by (rule loads_dumps_sorted) (use wf ff in \<open>simp_all add: cycle_state_def\<close>)
  moreover obtain kv where kv: "canon (JObj ?st) = JObj kv" by simp
  moreover have "dict_set (cycle_state ascope original restricted p) ''phase'' (JStr phase) = ?st"
    by (simp add: cycle_state_def)
  ultimately have loaded: "loads_value (dget (dgetO (val checkpoint) ''data'') ''access.json'' (JStr ''null'')) = Inr (JObj kv)"
    using data by (simp add: loads_value_def checkpoint_data_def)
  have fields: "map_of kv k = map_option canon (map_of ?st k)" for k
    using kv map_of_canon [of ?st k] by (simp add: cycle_state_def)
  have "load_state checkpoint ascope live = Inr kv"
    using label loaded wf py_eq_canon phase live unfolding load_state_def
    by (auto simp: fields cycle_state_def lookup_or_def in_strs_def)
  then show ?thesis using fields by (auto simp: cycle_state_def)
qed

section \<open>A model of the cluster, for concrete runs\<close>

definition demo_access_config :: json where
  "demo_access_config = JObj
     [(''azure'', JObj [(''tenantId'', JStr ''t''), (''subscriptionId'', JStr ''s'')]),
      (''environment'', JStr ''dev''), (''location'', JStr ''eastus''), (''target'', JObj [(''resourceGroup'', JStr ''rg'')]),
      (''legacy'', JObj [(''resourceGroup'', JStr ''old''), (''aksClusterName'', JStr ''aks''), (''namespace'', JStr ''gw'')]),
      (''parameters'', JObj []),
      (''legacyAccess'', JObj [(''mode'', JStr ''load-balancer''), (''allowedCidrs'', JList [JStr ''203.0.113.0/24'']),
         (''accessImpactAccepted'', JBool True)])]"

definition demo_entry_service :: json where
  "demo_entry_service = JObj
     [(''metadata'', JObj [(''name'', JStr ''litellm-mi-proxy''), (''uid'', JStr ''u''), (''resourceVersion'', JStr ''7'')]),
      (''spec'', JObj [(''type'', JStr ''LoadBalancer''), (''selector'', JObj [(''app'', JStr ''litellm-mi-proxy'')]),
         (''ports'', JList [JObj [(''port'', JInt 4000), (''targetPort'', JInt 4000)]]),
         (''loadBalancerSourceRanges'', JList [JStr ''203.0.112.0/20''])])]"
definition demo_access :: access where
  "demo_access = \<lparr>access_mode = ''load-balancer'', cidrs = [''203.0.113.0/24'']\<rparr>"

definition demo_entry :: "string \<times> json \<times> json \<times> json" where
  "demo_entry = (case access_entry (\<lambda>_. ''h'') demo_access_config demo_access [demo_entry_service] [] of
     Inr e \<Rightarrow> e | Inl _ \<Rightarrow> undefined)"

definition demo_access_plan :: access_plan where
  "demo_access_plan = (case access_plan_of (\<lambda>_. ''h'') demo_access_config demo_access JNull
     ''legacy-access-restrict'' demo_entry JNull of Inr p \<Rightarrow> p | Inl _ \<Rightarrow> undefined)"

definition demo_access_summary :: obj where
  "demo_access_summary = (case access_summary (\<lambda>_. ''h'') ''legacy-access-restrict'' JNull demo_access_plan of
     Inr s \<Rightarrow> s | Inl _ \<Rightarrow> [])"

text \<open>A cluster that has the reviewed service and no checkpoint, and loses the one that is created.\<close>

fun demo_kubectl :: "string \<Rightarrow> string \<Rightarrow> reply" where
  "demo_kubectl verb kind =
     (if verb = ''get'' \<and> kind = ''services'' then Json (JObj [(''items'', JList [demo_entry_service])])
      else if verb = ''get'' \<and> kind = ''ingresses'' then Json (JObj [(''items'', JList [])])
      else Text [])"

fun demo_cluster :: "unit service" where
  "demo_cluster (Command (a # b # c # d # e # f # g # r)) s =
     (if a = ''kubectl'' then demo_kubectl f g
      else if b = ''account'' then Json (JObj [(''tenantId'', JStr ''t''), (''id'', JStr ''s'')])
      else Text [], s)"
| "demo_cluster c s = (Text [], s)"

abbreviation demo_restrict :: "unit world" where
  "demo_restrict \<equiv> snd (access_operation (\<lambda>_. ''h'') demo_access_config ''legacy-access-restrict'' ''execute''
     JNull ''h'' demo_cluster (start ()))"

lemma demo_access_facts [simp]:
  "access_settings demo_access_config = Inr demo_access"
  "validate_action demo_access_config 1 ''legacy-access-restrict'' = Inr ()"
  "deployment_mode demo_access_config = Inr ''migration''"
  "login_scope demo_access_config = Inr (JObj [(''tenantId'', JStr ''t''), (''id'', JStr ''s'')])"
  "subscription_of demo_access_config = Inr (JStr ''s'')"
  "py_eq (JObj [(''tenantId'', JStr ''t''), (''id'', JStr ''s'')]) (JObj [(''tenantId'', JStr ''t''), (''id'', JStr ''s'')])"
  by (code_simp, code_simp, code_simp, code_simp, code_simp, code_simp)

lemma demo_access_connection [simp]:
  "sub (sub (val demo_access_config) ''legacy'') ''resourceGroup'' = Inr (JStr ''old'')"
  "sub (sub (val demo_access_config) ''legacy'') ''aksClusterName'' = Inr (JStr ''aks'')"
  "sub (sub (val demo_access_config) ''legacy'') ''namespace'' = Inr (JStr ''gw'')"
  by (code_simp, code_simp, code_simp)

lemma demo_access_plans [simp]:
  "access_entry (\<lambda>_. ''h'') demo_access_config demo_access [demo_entry_service] [] = Inr demo_entry"
  "access_plan_of (\<lambda>_. ''h'') demo_access_config demo_access JNull ''legacy-access-restrict'' demo_entry JNull
     = Inr demo_access_plan"
  "access_summary (\<lambda>_. ''h'') ''legacy-access-restrict'' JNull demo_access_plan = Inr demo_access_summary"
  "fingerprint (\<lambda>_. ''h'') v = ''h''" "ap_checkpoint demo_access_plan = JNull"
  by (code_simp, code_simp, code_simp, simp add: fingerprint_def, code_simp)

lemmas kube_steps =
  connect_cluster_def check_login_def az_run_def run_command_def kube_run_def kube_get_def kube_items_def
  kube_manifest_def kube_create_def kube_patch_def private_write_def start_def

lemma demo_restrict_changes: "list_ex kube_mutation (log demo_restrict)"
  by (simp add: access_operation_def access_prepare_def access_apply_def save_checkpoint_def kube_steps run_eval
      Let_def mutating_verb_def del: all_res.simps map_res.simps py_eq.simps cong: run_cong)

lemma demo_round_trip:
  "access_goal ''legacy-access-restrict'' demo_access ''service'' (ap_view demo_access_plan) JNull None
     = Inr (cycle_state JNull (ap_view demo_access_plan) (ap_desired demo_access_plan) ''restricting'',
        ap_desired demo_access_plan)"
  "wf_json (ap_view demo_access_plan)" "wf_json (ap_desired demo_access_plan)"
  "float_free (ap_view demo_access_plan)" "float_free (ap_desired demo_access_plan)"
  "sub (val (ap_view demo_access_plan)) ''value'' = Inr (JList [JStr ''203.0.112.0/20''])"
  "restricted_value demo_access ''service'' (ap_view demo_access_plan) = Inr (JList [JStr ''203.0.113.0/24''])"
  "ip_network True (JStr ''203.0.113.0/24'') = Inr (v4 203 0 113 0 24)"
  by (code_simp, code_simp, code_simp, code_simp, code_simp, code_simp, code_simp, code_simp)

section \<open>Properties\<close>

text \<open>
  C3: in a run of \<open>access_operation\<close> that created, patched or deleted anything in the cluster,
  against any behaviour of the cluster, the operation was \<open>execute\<close> and the approved hash is the
  hash of a plan document the same run had written for review.
\<close>

theorem legacy_access_is_approved:
  assumes "operation = ''plan'' \<or> operation = ''execute''"
    and "e \<in> set (log (snd (access_operation sha config action operation revision approved sv (start s))))"
    and "kube_mutation e"
  shows "operation = ''execute'' \<and>
    (\<exists>plan r. approved = fingerprint sha plan \<and> (WriteFile ''runtime-review.json'' plan, r)
       \<in> set (log (snd (access_operation sha config action operation revision approved sv (start s)))))"
  using access.harmful_approved [OF assms(1,2)] assms(3) by (auto simp: kube_reads_def)

theorem legacy_access_is_approved_witness:
  "list_ex kube_mutation (log demo_restrict) \<and> (\<exists>plan r. ''h'' = fingerprint (\<lambda>_. ''h'') plan \<and>
     (WriteFile ''runtime-review.json'' plan, r) \<in> set (log demo_restrict))"
  using demo_restrict_changes
    legacy_access_is_approved [of "''execute''" _ "\<lambda>_. ''h''" demo_access_config "''legacy-access-restrict''" JNull "''h''" demo_cluster "()"]
  by (auto simp: list_ex_iff simp del: demo_access_plans)

text \<open>
  C4: a restriction never broadens the policy in force.  When the entry already has source
  ranges, every address of every range of the new value lies in one of the old ranges, of the
  same IP version.
\<close>

theorem legacy_restriction_narrows:
  assumes "restricted_value settings kind view = Inr v"
    and "sub (val view) ''value'' = Inr previous" and "truth previous"
    and "r \<in> set (cidrs settings)" and "ip_network True (JStr r) = Inr n" and "addr_in a n"
  shows "v = range_value kind (cidrs settings) \<and> (\<exists>old networks m. previous_ranges kind previous = Inr old
    \<and> map_res (ip_network True) old = Inr networks \<and> m \<in> set networks \<and> version m = version n \<and> addr_in a m)"
proof -
  obtain old networks where *: "previous_ranges kind previous = Inr old" "map_res (ip_network True) old = Inr networks"
      "within_previous (cidrs settings) networks = Inr True" "v = range_value kind (cidrs settings)"
    using restricted_value_ok [OF assms(1-3)] by blast
  then obtain m where "m \<in> set networks" "subnet_of n m"
    using within_previousD [OF *(3) assms(4)] assms(5) by auto
  moreover from this have "addr_in a m" using assms(6) by (auto intro: subnet_of_addr)
  ultimately show ?thesis using * by (auto simp: subnet_of_def)
qed

theorem legacy_restriction_narrows_witness:
  "\<exists>old networks m. previous_ranges ''service'' (JList [JStr ''203.0.112.0/20'']) = Inr old
    \<and> map_res (ip_network True) old = Inr networks \<and> m \<in> set networks \<and> addr_in (base (v4 203 0 113 0 24)) m"
  using legacy_restriction_narrows [OF demo_round_trip(7,6), of "''203.0.113.0/24''", OF _ _ demo_round_trip(8),
      of "base (v4 203 0 113 0 24)"]
  by (auto simp: demo_access_def range_defs simp del: map_res.simps)

text \<open>
  C5: the checkpoint brings the entry back.  When a first restriction of an entry stored its
  state, in whatever phase, and the live entry is still the original or the restricted one, then
  a restore accepts the stored checkpoint and its goal is the original entry.
\<close>

theorem legacy_restore_returns_the_original:
  assumes "access_goal ''legacy-access-restrict'' settings kind view ascope None = Inr (state, desired)"
    and "wf_json ascope" "wf_json view" "wf_json desired" and "float_free ascope" "float_free view" "float_free desired"
    and "dget0 (dgetO (dgetO (val checkpoint) ''metadata'') ''labels'') ''app.kubernetes.io/managed-by'' = val (JStr ''llmgw-legacy-access'')"
    and "dgetO (val checkpoint) ''data'' = val (checkpoint_data state phase)"
    and "phase \<in> set PHASES" and "live = view \<or> live = desired"
  shows "\<exists>found target. load_state checkpoint ascope live = Inr found
    \<and> access_goal ''legacy-access-restore'' settings' kind live ascope (Some found) = Inr (found, target)
    \<and> py_eq target view \<and> py_eq view target"
proof -
  have st: "state = cycle_state ascope view desired ''restricting''"
    using access_goal_first [OF assms(1)] by blast
  obtain found where "load_state checkpoint ascope live = Inr found" "map_of found ''original'' = Some (canon view)"
    using load_cycle [OF assms(2-8) assms(9) [unfolded st] assms(10-11)] by blast
  then show ?thesis
    using py_eq_canon [OF assms(3)] by (auto simp: access_goal_def)
qed

theorem legacy_restore_returns_the_original_witness:
  "\<exists>found target. load_state (new_checkpoint (checkpoint_data (cycle_state JNull (ap_view demo_access_plan)
        (ap_desired demo_access_plan) ''restricting'') ''restricted'')) JNull (ap_desired demo_access_plan) = Inr found
    \<and> access_goal ''legacy-access-restore'' demo_access ''service'' (ap_desired demo_access_plan) JNull (Some found) = Inr (found, target)
    \<and> py_eq target (ap_view demo_access_plan)"
  using legacy_restore_returns_the_original [OF demo_round_trip(1) _ demo_round_trip(2,3) _ demo_round_trip(4,5),
      of "new_checkpoint (checkpoint_data (cycle_state JNull (ap_view demo_access_plan)
        (ap_desired demo_access_plan) ''restricting'') ''restricted'')" "''restricted''" "ap_desired demo_access_plan" demo_access]
  by (auto simp: new_checkpoint_def PHASES_def)

end
