(* ===== verification/Py_Time.thy ===== *)
theory Py_Time
  imports Py_Net
begin

text \<open>
  \<open>datetime.fromisoformat\<close> of Python 3.13 and the comparison of aware times.  A time is the
  number of microseconds since the first day of year 1, together with its offset from UTC in
  microseconds when the text names one.
\<close>

record moment =
  local :: int
  offset :: "int option"

definition bad_iso :: "'a res" where
  "bad_iso = Inl (ValueError ''Invalid isoformat string'')"

section \<open>The calendar\<close>

definition is_leap :: "int \<Rightarrow> bool" where
  "is_leap y \<longleftrightarrow> y mod 4 = 0 \<and> (y mod 100 \<noteq> 0 \<or> y mod 400 = 0)"

definition days_in_month :: "int \<Rightarrow> int \<Rightarrow> int" where
  "days_in_month y m =
     (if m = 2 then (if is_leap y then 29 else 28) else if m \<in> {4, 6, 9, 11} then 30 else 31)"

definition days_before_year :: "int \<Rightarrow> int" where
  "days_before_year y = (y - 1) * 365 + (y - 1) div 4 - (y - 1) div 100 + (y - 1) div 400"

definition days_before_month :: "int \<Rightarrow> int \<Rightarrow> int" where
  "days_before_month y m = sum_list (map (days_in_month y) [1..m - 1])"

text \<open>\<open>date.toordinal\<close>, with the range check of the constructor.\<close>

definition ordinal :: "int \<Rightarrow> int \<Rightarrow> int \<Rightarrow> int option" where
  "ordinal y m d =
     (if 1 \<le> y \<and> y \<le> 9999 \<and> 1 \<le> m \<and> m \<le> 12 \<and> 1 \<le> d \<and> d \<le> days_in_month y m
      then Some (days_before_year y + days_before_month y m + d) else None)"

text \<open>The ordinal of a day of an ISO week; the weekday of an ordinal \<open>n\<close> is \<open>(n + 6) mod 7\<close>.\<close>

definition iso_week1_monday :: "int \<Rightarrow> int" where
  "iso_week1_monday y =
     (let first = days_before_year y + 1; weekday = (first + 6) mod 7;
          monday = first - weekday
      in if 3 < weekday then monday + 7 else monday)"

definition iso_ordinal :: "int \<Rightarrow> int \<Rightarrow> int \<Rightarrow> int option" where
  "iso_ordinal y w d =
     (let first_weekday = (days_before_year y + 7) mod 7;
          long = first_weekday = 3 \<or> (first_weekday = 2 \<and> is_leap y);
          n = iso_week1_monday y + (w - 1) * 7 + (d - 1)
      in if 1 \<le> y \<and> y \<le> 9999 \<and> 1 \<le> w \<and> (w \<le> 52 \<or> (w = 53 \<and> long)) \<and> 1 \<le> d \<and> d \<le> 7
            \<and> 1 \<le> n \<and> n \<le> 3652059
         then Some n else None)"

section \<open>The text\<close>

definition digits_at :: "string \<Rightarrow> nat \<Rightarrow> nat \<Rightarrow> int option" where
  "digits_at s i n =
     (let t = take n (drop i s) in if length t = n \<and> all_digits t then Some (dec_value t) else None)"

definition char_at :: "string \<Rightarrow> nat \<Rightarrow> char \<Rightarrow> bool" where
  "char_at s i c \<longleftrightarrow> i < length s \<and> s ! i = c"

definition digit_at :: "string \<Rightarrow> nat \<Rightarrow> bool" where
  "digit_at s i \<longleftrightarrow> i < length s \<and> is_digit (s ! i)"

text \<open>Where the date ends.\<close>

definition separator_location :: "string \<Rightarrow> nat option" where
  "separator_location s =
     (let n = length s in
      if n = 7 then Some 7
      else if char_at s 4 CHR ''-'' then
        (if char_at s 5 CHR ''W'' then
           (if 8 < n \<and> char_at s 8 CHR ''-'' then
              (if n = 9 then None else if 10 < n \<and> digit_at s 10 then Some 8 else Some 10)
            else Some 8)
         else Some 10)
      else if char_at s 4 CHR ''W'' then
        (let idx = 7 + length (takeWhile is_digit (drop 7 s))
         in if idx < 9 then Some idx else if even idx then Some 7 else Some 8)
      else Some 8)"

definition parse_date :: "string \<Rightarrow> int option" where
  "parse_date s =
     (let dash = char_at s 4 CHR ''-''; p = (if dash then 5 else 4) in
      case digits_at s 0 4 of None \<Rightarrow> None
      | Some y \<Rightarrow>
          if char_at s p CHR ''W'' then
            (case digits_at s (p + 1) 2 of None \<Rightarrow> None
             | Some w \<Rightarrow>
                 if length s \<le> p + 3 then iso_ordinal y w 1
                 else if char_at s (p + 3) CHR ''-'' \<noteq> dash then None
                 else (let q = p + 3 + (if dash then 1 else 0)
                       in if length s \<noteq> q + 1 then None
                          else case digits_at s q 1 of None \<Rightarrow> None | Some d \<Rightarrow> iso_ordinal y w d))
          else
            (case digits_at s p 2 of None \<Rightarrow> None
             | Some m \<Rightarrow>
                 if char_at s (p + 2) CHR ''-'' \<noteq> dash then None
                 else (let q = p + 2 + (if dash then 1 else 0)
                       in if length s \<noteq> q + 2 then None
                          else case digits_at s q 2 of None \<Rightarrow> None | Some d \<Rightarrow> ordinal y m d)))"

text \<open>Up to six digits of a fraction in microseconds; further digits are only checked.\<close>

definition parse_fraction :: "string \<Rightarrow> int option" where
  "parse_fraction s =
     (if all_digits s then Some (dec_value (take 6 s) * 10 ^ (6 - min 6 (length s))) else None)"

text \<open>\<open>HH[:MM[:SS]]\<close> or the same without colons, each form with an optional fraction of a
  second: hour, minute, second, microsecond.\<close>

fun parse_parts :: "bool \<Rightarrow> nat \<Rightarrow> string \<Rightarrow> (int list \<times> int) option" where
  "parse_parts colon 0 s = None"
| "parse_parts colon (Suc k) s =
     (case digits_at s 0 2 of None \<Rightarrow> None
      | Some n \<Rightarrow>
          (let r = drop 2 s in
           if r = [] then Some ([n], 0)
           else if hd r = CHR ''.'' \<or> hd r = CHR '',''
           then map_option (\<lambda>f. ([n], f)) (parse_fraction (tl r))
           else if colon \<and> hd r \<noteq> CHR '':'' then None
           else map_option (\<lambda>(ns, f). (n # ns, f)) (parse_parts colon k (if colon then tl r else r))))"

definition parse_clock :: "string \<Rightarrow> (int \<times> int \<times> int \<times> int) option" where
  "parse_clock s =
     (case parse_parts (char_at s 2 CHR '':'') 3 s of
        Some ([h], f) \<Rightarrow> Some (h, 0, 0, f)
      | Some ([h, m], f) \<Rightarrow> Some (h, m, 0, f)
      | Some ([h, m, sec], f) \<Rightarrow> Some (h, m, sec, f)
      | _ \<Rightarrow> None)"

definition micros :: "int \<times> int \<times> int \<times> int \<Rightarrow> int" where
  "micros t = (case t of (h, m, s, f) \<Rightarrow> ((h * 60 + m) * 60 + s) * 1000000 + f)"

definition clock_in_range :: "int \<times> int \<times> int \<times> int \<Rightarrow> bool" where
  "clock_in_range t = (case t of (h, m, s, f) \<Rightarrow> h \<le> 23 \<and> m \<le> 59 \<and> s \<le> 59)"

definition is_zone_mark :: "char \<Rightarrow> bool" where
  "is_zone_mark c \<longleftrightarrow> c = CHR ''+'' \<or> c = CHR ''-'' \<or> c = CHR ''Z''"

definition day_micros :: int where
  "day_micros = 86400000000"

text \<open>The zone: \<open>Z\<close> at the very end, or a signed clock below 24 hours.\<close>

definition parse_zone :: "string \<Rightarrow> int option option" where
  "parse_zone s =
     (case s of
        [] \<Rightarrow> Some None
      | c # cs \<Rightarrow>
          if c = CHR ''Z'' then (if cs = [] then Some (Some 0) else None)
          else if length cs \<in> {0, 1, 3} then None
          else (case parse_clock cs of None \<Rightarrow> None
                | Some t \<Rightarrow>
                    if micros t < day_micros
                    then Some (Some (if c = CHR ''-'' then - micros t else micros t)) else None))"

definition fromisoformat :: "string \<Rightarrow> moment res" where
  "fromisoformat s =
     (if length s < 7 then bad_iso
      else case separator_location s of None \<Rightarrow> bad_iso
      | Some k \<Rightarrow>
          (case parse_date (take k s) of None \<Rightarrow> bad_iso
           | Some day \<Rightarrow>
               (let t = drop (k + 1) s;
                    clock = takeWhile (Not \<circ> is_zone_mark) t;
                    rest = dropWhile (Not \<circ> is_zone_mark) t
                in if t = [] then val \<lparr>local = day * day_micros, offset = None\<rparr>
                   else case (parse_clock clock, parse_zone rest) of
                     (Some c, Some z) \<Rightarrow>
                       if clock_in_range c then val \<lparr>local = day * day_micros + micros c, offset = z\<rparr> else bad_iso
                   | _ \<Rightarrow> bad_iso)))"

text \<open>The instant of an aware time, in UTC.\<close>

definition instant :: "moment \<Rightarrow> int option" where
  "instant t = map_option (\<lambda>z. local t - z) (offset t)"

end
