(* ===== verification/Customer_Config.thy ===== *)
theory Customer_Config
  imports Dns_Runtime Legacy_Access Py_Time
begin

text \<open>
  The second half of \<open>scripts/customer_migration.py\<close>: the validation of a customer
  configuration, the validation of the evidence of earlier stages, the parameters of a
  component and the readiness check of \<open>main\<close>.
\<close>

section \<open>\<open>validate_config\<close>\<close>

text \<open>\<open>if key in config: f(config)\<close>\<close>

definition when_present :: "json \<Rightarrow> string \<Rightarrow> 'a res \<Rightarrow> unit res" where
  "when_present config key r =
     bindr (has (val config) key) (\<lambda>present. if present then bindr r (\<lambda>_. val ()) else val ())"

lemma when_present_ok [py_ok]:
  "when_present config key r = Inr u \<longleftrightarrow>
     (\<exists>present. has (val config) key = Inr present \<and> (present \<longrightarrow> (\<exists>x. r = Inr x)))"
  unfolding when_present_def by (cases "has (val config) key"; cases r) (simp_all del: has.simps)

definition optional_fields :: "string list" where
  "optional_fields =
     [''governance'', ''deploymentMode'', ''privateIngress'', ''databaseAccess'', ''application'', ''proxy'',
      ''entra'', ''auditRuntime'', ''contentAudit'', ''observability'', ''auditGovernance'', ''dns'',
      ''certificates'', ''legacyAccess'', ''l3Audit'']"

definition required_fields :: "string \<Rightarrow> string list" where
  "required_fields mode =
     [''schemaVersion'', ''environment'', ''azure'', ''location'', ''baseDomain'', ''ownerEmail'', ''target'',
      ''parameters''] @ (if mode = ''migration'' then [''legacy''] else [])"

definition fields_ok :: "string \<Rightarrow> obj \<Rightarrow> bool" where
  "fields_ok mode kv \<longleftrightarrow> set (keys_of kv) - set optional_fields = set (required_fields mode)"

definition native_conflicts :: "string list" where
  "native_conflicts = [''entra'', ''proxy'', ''auditRuntime'', ''auditGovernance'', ''observability'']"

definition check_native :: "json \<Rightarrow> unit res" where
  "check_native config =
     bindr (native_gateway config) (\<lambda>native.
     whenr native (
       check (has (val config) ''contentAudit'')
         ''Native gateway authentication requires the explicit native Spend Logs policy'' (
       check (negr (any_res (has (val config)) native_conflicts))
         ''Native gateway authentication cannot retain Entra proxy or enhanced L3 configuration'' (val ()))))"

definition database_access :: "json \<Rightarrow> unit res" where
  "database_access config =
     bindr (sub (val config) ''databaseAccess'') (\<lambda>access.
     check (conjr (val (keys_are [''migrationPrincipalId''] access))
            (bindr (sub (val access) ''migrationPrincipalId'') (\<lambda>v.
             conjr (val (is_str v)) (mapr (\<lambda>n. n \<noteq> 0) (uuid_int v)))))
       ''databaseAccess requires a nonzero migration service principal Object ID'' (val ()))"

text \<open>The optional sections, in the order the code validates them.\<close>

definition check_sections :: "sha \<Rightarrow> json \<Rightarrow> unit res" where
  "check_sections sha config =
     seqr (when_present config ''l3Audit'' (l3_enabled config)) (
     seqr (check_native config) (
     seqr (when_present config ''legacyAccess'' (access_settings config)) (
     seqr (when_present config ''contentAudit'' (native_audit_settings config)) (
     seqr (when_present config ''certificates'' (certificate_settings config)) (
     seqr (when_present config ''dns'' (dns_settings config)) (
     seqr (when_present config ''auditGovernance'' (governance_settings config)) (
     seqr (when_present config ''observability'' (
       check (disjr (has (val config) ''auditRuntime'') (has (val config) ''contentAudit''))
         ''Managed observability requires an explicit audit mode'' (telemetry_settings config))) (
     seqr (when_present config ''auditRuntime'' (audit_settings config)) (
     seqr (when_present config ''proxy'' (proxy_settings config)) (
     seqr (when_present config ''entra'' (entra_settings config)) (
     seqr (when_present config ''application'' (bindr (application_settings config) (\<lambda>_. application_authentication config))) (
     seqr (when_present config ''databaseAccess'' (database_access config)) (
     seqr (when_present config ''privateIngress'' (ingress_settings config)) (
     bindr (approval_policy config) (\<lambda>_. val ())))))))))))))))"

definition LOCATION :: rx where
  "LOCATION = plus1 (lownum_or [])"

definition mail_char :: rx where
  "mail_char = Cls (\<lambda>c. \<not> is_space c \<and> c \<noteq> CHR ''@'')"

definition OWNER_EMAIL :: rx where
  "OWNER_EMAIL = cat [plus1 mail_char, chr CHR ''@'', plus1 mail_char, chr CHR ''.'', plus1 mail_char]"

definition GROUP_NAME :: rx where
  "GROUP_NAME = times 1 90 (alnum_or ''_().-'')"

definition named_scope :: "json \<Rightarrow> json res" where
  "named_scope config =
     mapr JObj (map_res (\<lambda>key. mapr (\<lambda>v. (key, v)) (sub (val config) key))
       [''location'', ''baseDomain'', ''ownerEmail'', ''target''])"

definition check_identity :: "json \<Rightarrow> string \<Rightarrow> unit res" where
  "check_identity config environment =
     check (conjr (val (environment \<in> {''dev'', ''test'', ''prod''})) (eqs (sub (val config) ''environment'') environment))
       ''Environment mismatch'' (
     check (bindr (iter (sub (val config) ''azure'')) (set_is [''tenantId'', ''subscriptionId'']))
       ''Invalid Azure scope fields'' (
     check (bindr (items (sub (val config) ''azure'')) (all_res (\<lambda>p. mapr (\<lambda>n. n \<noteq> 0) (uuid_int (snd p)))))
       ''Nonzero Azure scope identifiers are required'' (
     bindr (named_scope config) (\<lambda>named.
     check (val (configured named)) ''Replace customer configuration placeholders'' (
     bindr (bindr (sub (val config) ''baseDomain'') domain_hosts) (\<lambda>_.
     check (fullmatch LOCATION (sub (val config) ''location'')) ''Invalid location'' (
     check (fullmatch OWNER_EMAIL (sub (val config) ''ownerEmail'')) ''Invalid ownerEmail'' (
     check (bindr (iter (sub (val config) ''target'')) (set_is [''resourceGroup''])) ''Invalid target fields'' (
     val ())))))))))"

definition check_group :: "json \<Rightarrow> unit res" where
  "check_group rgroup =
     check (conjr (fullmatch GROUP_NAME (val rgroup)) (mapr (\<lambda>s. \<not> ends_with s ''.'') (str_of (val rgroup))))
       ''Invalid resource group name'' (val ())"

definition check_groups :: "json \<Rightarrow> string \<Rightarrow> unit res" where
  "check_groups config mode =
     bindr (target_group config) (\<lambda>tgroup.
     bindr (if mode = ''migration''
            then bindr (sub (val config) ''legacy'') (\<lambda>legacy.
                 check (val (keys_are [''resourceGroup'', ''aksClusterName'', ''namespace'', ''postgresPvc''] legacy))
                   ''Invalid legacy inventory fields'' (
                 check (val (configured legacy)) ''Replace legacy inventory placeholders'' (
                 bindr (sub (val legacy) ''resourceGroup'') (\<lambda>lgroup.
                 check (bindr (str_of (val lgroup)) (\<lambda>l. mapr (\<lambda>t. lower l \<noteq> lower t) (str_of (val tgroup))))
                   ''Target must use a separate resource group; in-place migration is not supported''
                   (val [tgroup, lgroup])))))
            else val [tgroup]) (each check_group))"

definition check_component :: "string \<Rightarrow> string \<times> json \<Rightarrow> unit res" where
  "check_component mode p =
     check (val (case snd p of
              JObj kv \<Rightarrow> set (keys_of kv) \<subseteq> set (allowed_fields (the (map_of COMPONENTS (fst p)))) | _ \<Rightarrow> False))
       ''Unknown or reserved component parameter'' (
     check (val (mode \<noteq> ''greenfield'' \<or> fst p \<notin> set LEGACY_COMPONENTS))
       ''Legacy monitoring components do not apply to greenfield'' (val ()))"

definition check_components :: "json \<Rightarrow> string \<Rightarrow> unit res" where
  "check_components config mode =
     bindr (sub (val config) ''parameters'') (\<lambda>parameters.
     check (val (keys_within (map fst COMPONENTS) parameters)) ''Unknown parameter component'' (
     check (negr (conjr (has (val parameters) ''network'') (has (val parameters) ''backup'')))
       ''Choose one bootstrap network owner: network or backup, never both'' (
     bindr (items (val parameters)) (each (check_component mode)))))"

definition check_origin :: "json \<Rightarrow> string \<Rightarrow> unit res" where
  "check_origin edge name =
     bindr (dget0 (val edge) name) (\<lambda>origin.
     whenr (is_dict origin) (
       bindr (dget0 (val origin) ''privateLinkLocation'') (\<lambda>location.
       whenr (configured location) (bindr (front_door_private_link_location location) (\<lambda>_. val ())))))"

definition check_edge_parameters :: "json \<Rightarrow> unit res" where
  "check_edge_parameters config =
     bindr (dget0 (sub (val config) ''parameters'') ''edge'') (\<lambda>edge.
     whenr (edge \<noteq> JNull) (
       seqr (when_present edge ''adminAllowedCidrs'' (
         bindr (sub (val edge) ''adminAllowedCidrs'') (\<lambda>cidrs.
         whenr (configured cidrs) (bindr (admin_source_cidrs cidrs) (\<lambda>_. val ()))))) (
       each (check_origin edge) [''privateOrigin'', ''adminPrivateOrigin''])))"

definition check_connectivity :: "sha \<Rightarrow> json \<Rightarrow> unit res" where
  "check_connectivity sha config =
     bindr (dget0 (sub (val config) ''parameters'') ''certificate-vault'') (\<lambda>vault.
     bindr (has (val config) ''privateIngress'') (\<lambda>ingress.
     seqr (whenr (vault \<noteq> JNull \<and> (configured vault \<or> ingress))
            (bindr (certificate_vault_parameters config) (\<lambda>_. val ()))) (
     bindr (dget0 (sub (val config) ''parameters'') ''runner-target-connectivity'') (\<lambda>target.
     whenr (target \<noteq> JNull \<and> configured target)
       (bindr (target_connectivity_settings sha config) (\<lambda>_. val ()))))))"

definition network_key_agrees :: "json \<Rightarrow> json \<Rightarrow> string \<Rightarrow> unit res" where
  "network_key_agrees platform network key =
     check (disjr (negr (has (val platform) key)) (eqr (sub (val platform) key) (sub (val network) key)))
       ''Platform network names must match network bootstrap'' (val ())"

definition check_network :: "json \<Rightarrow> unit res" where
  "check_network config =
     bindr (dget0 (sub (val config) ''parameters'') ''network'') (\<lambda>network.
     whenr (network \<noteq> JNull) (
       check (val (case network of JObj kv \<Rightarrow> set (the (map_of REQUIRED ''network'')) \<subseteq> set (keys_of kv) | _ \<Rightarrow> False))
         ''Network bootstrap configuration is incomplete'' (
       seqr (whenr (configured network) (
         bindr (bindr (sub (val network) ''virtualNetworkAddressPrefix'') (ip_network True)) (\<lambda>address.
         bindr (bindr (sub (val network) ''privateEndpointSubnetPrefix'') (ip_network True)) (\<lambda>endpoint.
         check (val (version address = 4 \<and> version endpoint = 4 \<and> subnet_of endpoint address))
           ''Private Endpoint subnet must be inside the IPv4 target VNet'' (val ()))))) (
       bindr (dgetO (parameters_of config ''platform'') ''stage4Network'') (\<lambda>platform.
       each (network_key_agrees platform network) [''virtualNetworkName'', ''privateEndpointSubnetName''])))))"

definition validate_config :: "sha \<Rightarrow> json \<Rightarrow> string \<Rightarrow> json res" where
  "validate_config sha config environment =
     check (conjr (val (is_dict config)) (eqr (dget0 (val config) ''schemaVersion'') (val (JInt 1))))
       ''Unsupported customer configuration'' (
     bindr (deployment_mode config) (\<lambda>mode.
     bindr (items (val config)) (\<lambda>kv.
     check (val (fields_ok mode kv))
       ''Unexpected or missing customer configuration fields; greenfield must omit legacy'' (
     seqr (check_sections sha config) (
     seqr (check_identity config environment) (
     seqr (check_groups config mode) (
     seqr (check_components config mode) (
     seqr (check_edge_parameters config) (
     seqr (check_connectivity sha config) (
     seqr (check_network config) (
     val config)))))))))))"

section \<open>\<open>validate_evidence\<close>\<close>

definition REVISION :: rx where
  "REVISION = times 40 40 hexlow"

definition REPORT_HASH :: rx where
  "REPORT_HASH = times 64 64 hexlow"

text \<open>The stage of a record: an int that no record before it has.\<close>

definition evidence_stage :: "int list \<Rightarrow> json \<Rightarrow> int res" where
  "evidence_stage completed item =
     bindr (dget0 (val item) ''stage'') (\<lambda>v. case v of
       JInt n \<Rightarrow> if 0 \<le> n \<and> n \<le> 9 \<and> n \<notin> set completed then val n
                 else Inl (MigrationError ''Invalid or duplicate evidence stage'')
     | _ \<Rightarrow> Inl (MigrationError ''Invalid or duplicate evidence stage''))"

definition check_binding_hash :: "sha \<Rightarrow> json \<Rightarrow> json \<Rightarrow> string \<Rightarrow> json \<Rightarrow> int \<Rightarrow> unit res" where
  "check_binding_hash sha config revision mode item previous =
     bindr (dget (val item) ''binding'' (JStr ''full-config'')) (\<lambda>binding.
     check (in_strs (val binding) [''full-config'', ''stage-config'']) ''Invalid evidence binding'' (
     bindr (if binding = JStr ''stage-config'' then stage_fingerprint sha config previous
            else val (fingerprint sha config)) (\<lambda>expected.
     bindr (dget (val item) ''revision'' (JStr [])) (\<lambda>reviewed.
     bindr (conjr (fullmatch REVISION (val reviewed))
             (val (mode = ''single-operator'' \<or> py_eq reviewed revision))) (\<lambda>revision_matches.
     check (conjr (eqr (dget0 (val item) ''environment'') (sub (val config) ''environment''))
           (conjr (eqs (dget0 (val item) ''configSha256'') expected) (val revision_matches)))
       ''Evidence configuration or revision mismatch'' (val ()))))))"

text \<open>The bodies of \<open>try\<close>: the three exceptions become one \<open>ValueError\<close>.\<close>

fun bad_evidence :: "'a res \<Rightarrow> 'a res" where
  "bad_evidence (Inl (MigrationError m)) = Inl (ValueError ''Invalid evidence approval or timestamp'')"
| "bad_evidence (Inl (ValueError m)) = Inl (ValueError ''Invalid evidence approval or timestamp'')"
| "bad_evidence (Inl TypeError) = Inl (ValueError ''Invalid evidence approval or timestamp'')"
| "bad_evidence (Inl KeyError) = Inl (ValueError ''Invalid evidence approval or timestamp'')"
| "bad_evidence r = r"

lemma bad_evidence_ok [py_ok]: "bad_evidence r = Inr x \<longleftrightarrow> r = Inr x"
  by (cases r rule: bad_evidence.cases) auto

definition observed_at :: "json \<Rightarrow> moment res" where
  "observed_at item =
     bindr (str_of (sub (val item) ''observedAt'')) (\<lambda>s. fromisoformat (replace ''Z'' ''+00:00'' s))"

definition signed_off :: "json list \<Rightarrow> json \<Rightarrow> (int list \<times> moment) res" where
  "signed_off approvers item =
     bad_evidence (bindr (nonzero_uuids approvers) (\<lambda>identities.
       bindr (observed_at item) (\<lambda>observed. val (identities, observed))))"

definition recent :: "int \<Rightarrow> moment \<Rightarrow> bool" where
  "recent now observed =
     (case instant observed of None \<Rightarrow> False | Some t \<Rightarrow> now - 7 * day_micros \<le> t \<and> t \<le> now)"

definition no_text :: "string option \<Rightarrow> bool" where
  "no_text s \<longleftrightarrow> s = None \<or> s = Some []"

definition report_ok :: "url \<Rightarrow> bool" where
  "report_ok u \<longleftrightarrow> scheme u = ''https'' \<and> hostname u \<noteq> None \<and> no_text (username u)
     \<and> no_text (password u) \<and> query u = []"

definition check_approval :: "json \<Rightarrow> int \<Rightarrow> string \<times> int list \<Rightarrow> unit res" where
  "check_approval item now policy =
     (let needed = (if fst policy = ''single-operator'' then 1 else 2) in
     bindr (dget (val item) ''approvedBy'' (JList [])) (\<lambda>approvers.
     check (val (case approvers of JList xs \<Rightarrow> length xs = needed | _ \<Rightarrow> False))
       ''Approval count does not match configured policy'' (
     bindr (bindr (list_of (val approvers)) (\<lambda>xs. signed_off xs item)) (\<lambda>(identities, observed).
     check (val (length identities = needed \<and> list_all (\<lambda>i. i \<noteq> 0) identities))
       ''Distinct nonzero approver object IDs are required'' (
     check (val (snd policy = [] \<or> set identities \<subseteq> set (snd policy)))
       ''Evidence contains an ineligible approver'' (
     check (val (recent now observed)) ''Evidence must be from the last seven days'' (val ())))))))"

definition check_report :: "json \<Rightarrow> unit res" where
  "check_report item =
     bindr (bindr (dget (val item) ''reportUrl'' (JStr [])) urlsplit_value) (\<lambda>report.
     check (val (report_ok report))
       ''Report must be a private HTTPS reference without embedded credentials or query tokens'' (
     check (fullmatch REPORT_HASH (dget (val item) ''reportSha256'' (JStr []))) ''Report hash is required'' (val ())))"

definition check_record ::
    "sha \<Rightarrow> json \<Rightarrow> json \<Rightarrow> int \<Rightarrow> string \<times> int list \<Rightarrow> json \<Rightarrow> int list \<Rightarrow> int list res" where
  "check_record sha config revision now policy item completed =
     check (val (is_dict item)) ''Invalid evidence record'' (
     bindr (evidence_stage completed item) (\<lambda>previous.
     seqr (check_binding_hash sha config revision (fst policy) item previous) (
     check (eqs (dget (val item) ''approvalMode'' (JStr ''dual'')) (fst policy)) ''Evidence approval policy mismatch'' (
     check (conjr (eqs (dget0 (val item) ''status'') ''passed'')
             (bindr (iter (dget (val item) ''checks'' (JList []))) (\<lambda>checks.
              if list_all hashable checks then bindr (stage_checks previous config) (\<lambda>cs. set_is cs checks)
              else Inl TypeError)))
       ''Stage checks are incomplete'' (
     seqr (check_approval item now policy) (
     seqr (check_report item) (
     val (completed @ [previous]))))))))"

definition validate_evidence :: "sha \<Rightarrow> json \<Rightarrow> int \<Rightarrow> json \<Rightarrow> json \<Rightarrow> int \<Rightarrow> int list res" where
  "validate_evidence sha evidence stage config revision now =
     bindr (if stage = 10 then val True else mapr (\<lambda>s. stage \<in> set s) (active_stages config)) (\<lambda>applies.
     check (val applies) ''Stage does not apply to the selected deployment mode'' (
     check (fullmatch REVISION (val (if truth revision then revision else JStr [])))
       ''A full reviewed Git revision is required'' (
     check (val (is_list evidence)) ''Evidence must be an array'' (
     bindr (approval_policy config) (\<lambda>policy.
     bindr (list_of (val evidence)) (\<lambda>records.
     bindr (fold_res (check_record sha config revision now policy) records []) (\<lambda>completed.
     bindr (active_stages config) (\<lambda>stages.
     check (val (\<forall>p \<in> set stages. p < stage \<longrightarrow> p \<in> set completed))
       ''Prior stage evidence is missing; do not skip migration gates'' (
     val completed)))))))))"

section \<open>\<open>parameters_for\<close>\<close>

text \<open>\<open>parameters.update(a=x, b=y)\<close> with values that may raise.\<close>

definition update_with :: "obj \<Rightarrow> (string \<times> json res) list \<Rightarrow> obj res" where
  "update_with kv fs =
     bindr (map_res (\<lambda>(k, r). mapr (\<lambda>v. (k, v)) r) fs) (\<lambda>new. val (dict_update kv new))"

abbreviation subs :: "json res \<Rightarrow> string list \<Rightarrow> json res" where
  "subs e ks \<equiv> fold (\<lambda>k r. sub r k) ks e"

definition component_stages :: "string \<Rightarrow> int list" where
  "component_stages component =
     (if component = ''platform'' then [3, 4, 5] else [first_stage (the (map_of COMPONENTS component))])"

definition selected_parameters :: "json \<Rightarrow> int \<Rightarrow> string \<Rightarrow> obj res" where
  "selected_parameters config stage component =
     mapr (scoped_values stage component) (dict_of (parameters_of config component))"

definition bootstrap_parameters :: "json \<Rightarrow> obj \<Rightarrow> obj res" where
  "bootstrap_parameters config parameters =
     bindr (dgetO (sub (val config) ''parameters'') ''platform'') (\<lambda>platform.
     bindr (dget (sub (val config) ''parameters'') ''backup'' platform) (\<lambda>logging.
     bindr (let own = lookup_or parameters ''logAnalyticsWorkspaceName'' JNull in
            if truth own then val own else dget (val logging) ''logAnalyticsWorkspaceName'' (JStr [])) (\<lambda>workspace.
     check (val (configured workspace)) ''Target Log Analytics workspace name is required for bootstrap'' (
     update_with parameters
       [(''resourceGroupName'', target_group config), (''logAnalyticsWorkspaceName'', val workspace)]))))"

definition legacy_logging_parameters :: "json \<Rightarrow> obj \<Rightarrow> obj res" where
  "legacy_logging_parameters config parameters =
     bindr (dget (parameters_of config ''monitoring'') ''logAnalyticsWorkspaceName'' (JStr [])) (\<lambda>workspace.
     check (val (configured workspace)) ''Legacy monitoring workspace name is required'' (
     val (dict_set parameters ''logAnalyticsWorkspaceName'' workspace)))"

text \<open>The links of the data platform to the runner network.\<close>

definition runner_dns_fields :: "json \<Rightarrow> (json \<times> json) res" where
  "runner_dns_fields config =
     bindr (parameters_of config ''runner-target-connectivity'') (\<lambda>runner.
     case runner of
       JObj kv \<Rightarrow>
         (let vnet = lookup_or kv ''runnerVirtualNetworkId'' (JStr []) in
          val (vnet, if truth vnet then lookup_or kv ''manageDnsLink'' (JBool True) else JBool False))
     | _ \<Rightarrow> val (JStr [], JBool False))"

definition vault_dns_parameters :: "json \<Rightarrow> obj \<Rightarrow> obj res" where
  "vault_dns_parameters config parameters =
     bindr (has (sub (val config) ''parameters'') ''certificate-vault'') (\<lambda>vault.
     if vault
     then check (val (\<not> truth (lookup_or parameters ''createStage5KeyVaultPrivateDnsZone'' (JBool False))))
            ''certificate-vault owns Key Vault DNS; set createStage5KeyVaultPrivateDnsZone=false''
            (val (dict_update parameters
              [(''createStage5KeyVaultPrivateDnsZone'', JBool False), (''configureStage5KeyVaultDnsLink'', JBool False)]))
     else val parameters)"

definition data_parameters :: "json \<Rightarrow> obj \<Rightarrow> obj res" where
  "data_parameters config parameters =
     check (val (map_of parameters ''stage5Data'' \<noteq> None)) ''Stage 5 database configuration is required'' (
     bindr (runner_dns_fields config) (\<lambda>(vnet, manage).
     bindr (vault_dns_parameters config (dict_update parameters
       [(''stage5RunnerVirtualNetworkId'', vnet), (''manageStage5RunnerDnsLinks'', manage)])) (\<lambda>parameters.
     bindr (has (val config) ''databaseAccess'') (\<lambda>access.
     if access then bindr (subs (val config) [''databaseAccess'', ''migrationPrincipalId'']) (\<lambda>v.
                    val (dict_set parameters ''bootstrapPrincipalId'' v))
     else val parameters))))"

definition platform_parameters :: "json \<Rightarrow> int \<Rightarrow> obj \<Rightarrow> obj res" where
  "platform_parameters config stage parameters =
     check (in_strs (val (lookup_or parameters ''stage4RoleAssignmentNaming'' (JStr ''principal-id'')))
              [''principal-id'', ''resource-id'']) ''Invalid Stage 4 role assignment naming mode'' (
     bindr (if 5 \<le> stage then data_parameters config parameters else val parameters) (\<lambda>parameters.
     bindr (deployment_mode config) (\<lambda>mode.
     check (disjr (val (mode \<noteq> ''migration''))
              (bindr (subs (val (JObj parameters)) [''stage4Aks'', ''name'']) (\<lambda>a.
               mapr (\<lambda>b. \<not> py_eq a b) (subs (val config) [''legacy'', ''aksClusterName'']))))
       ''New AKS must not reuse the legacy name'' (
     update_with parameters
       [(''environmentName'', sub (val config) ''environment''), (''deployContainerRegistry'', val (JBool True)),
        (''deployStage4'', val (JBool (4 \<le> stage))), (''deployStage5'', val (JBool (5 \<le> stage))),
        (''containerRegistryPublicNetworkAccess'', val (JStr ''Disabled''))]))))"

definition platform_of :: "json \<Rightarrow> json res" where
  "platform_of config = subs (val config) [''parameters'', ''platform'']"

definition network_fields :: "json \<Rightarrow> (string \<times> json res) list" where
  "network_fields config =
     [(''virtualNetworkName'', subs (platform_of config) [''stage4Network'', ''virtualNetworkName'']),
      (''privateEndpointSubnetName'', subs (platform_of config) [''stage4Network'', ''privateEndpointSubnetName''])]"

definition cluster_field :: "json \<Rightarrow> string \<times> json res" where
  "cluster_field config = (''aksClusterName'', subs (platform_of config) [''stage4Aks'', ''name''])"

definition workspace_field :: "json \<Rightarrow> string \<times> json res" where
  "workspace_field config = (''logAnalyticsWorkspaceName'', sub (platform_of config) ''logAnalyticsWorkspaceName'')"

definition monitoring_parameters :: "json \<Rightarrow> obj \<Rightarrow> obj res" where
  "monitoring_parameters config parameters =
     check (conjr (eqs (subs (val config) [''legacy'', ''namespace'']) ''litellm'')
                  (eqs (subs (val config) [''legacy'', ''postgresPvc'']) ''pg-data''))
       ''Monitoring queries currently require litellm namespace and pg-data PVC'' (
     update_with parameters
       [(''aksClusterName'', subs (val config) [''legacy'', ''aksClusterName'']), (''ownerEmail'', sub (val config) ''ownerEmail'')])"

definition foundation_keys :: "string list" where
  "foundation_keys = [''cmkVaultName'', ''cmkKeyName'', ''virtualNetworkName'', ''privateEndpointSubnetName'']"

definition audit_foundation_parameters :: "json \<Rightarrow> obj \<Rightarrow> obj res" where
  "audit_foundation_parameters config parameters =
     bindr (parameters_of config ''audit'') (\<lambda>audit.
     check (all_res (\<lambda>key. testr configured (dget (val audit) key (JStr []))) foundation_keys)
       ''Audit Vault/key and network names must be configured'' (
     update_with parameters (map (\<lambda>key. (key, sub (val audit) key)) foundation_keys @ [cluster_field config])))"

definition proxy_foundation_parameters :: "json \<Rightarrow> obj \<Rightarrow> obj res" where
  "proxy_foundation_parameters config parameters =
     bindr (platform_of config) (\<lambda>_.
     check (has (val config) ''databaseAccess'')
       ''Proxy foundation requires an explicitly approved bootstrap identity'' (
     bindr (update_with parameters ([(''environmentName'', sub (val config) ''environment''), cluster_field config]
        @ network_fields config @ [workspace_field config,
          (''bootstrapPrincipalId'', subs (val config) [''databaseAccess'', ''migrationPrincipalId''])])) (\<lambda>parameters.
     bindr (has (val config) ''entra'') (\<lambda>entra.
     if entra then bindr (subs (val config) [''entra'', ''bootstrapPrincipalId'']) (\<lambda>v.
                    val (dict_set parameters ''entraBootstrapPrincipalId'' v))
     else val parameters))))"

definition edge_parameters :: "json \<Rightarrow> obj \<Rightarrow> obj res" where
  "edge_parameters config parameters =
     bindr (bindr (sub (val (JObj parameters)) ''adminAllowedCidrs'') admin_source_cidrs) (\<lambda>cidrs.
     bindr (fold_res (\<lambda>name kv.
         bindr (bindr (subs (val (JObj kv)) [name, ''privateLinkLocation'']) front_door_private_link_location) (\<lambda>location.
         set_nested kv name ''privateLinkLocation'' location))
       [''privateOrigin'', ''adminPrivateOrigin'']
       (dict_set parameters ''adminAllowedCidrs'' (JList (map JStr cidrs)))) (\<lambda>parameters.
     update_with parameters
       [(''deployEdge'', val (JBool True)), (''enableApiTraffic'', val (JBool False)),
        (''enableAdminTraffic'', val (JBool False)), (''environmentName'', sub (val config) ''environment''),
        (''baseDomain'', sub (val config) ''baseDomain''), (''wafMode'', val (JStr ''Detection''))]))"

definition component_parameters :: "sha \<Rightarrow> json \<Rightarrow> int \<Rightarrow> string \<Rightarrow> obj \<Rightarrow> obj res" where
  "component_parameters sha config stage component parameters =
     (if component = ''bootstrap'' then bootstrap_parameters config parameters
      else if component = ''legacy-logging'' then legacy_logging_parameters config parameters
      else if component = ''platform'' then platform_parameters config stage parameters
      else if component = ''backup'' then update_with parameters [(''backupOwnerUpn'', sub (val config) ''ownerEmail'')]
      else if component = ''aks-ingress-role'' then
        update_with parameters [cluster_field config,
          (''virtualNetworkName'', subs (platform_of config) [''stage4Network'', ''virtualNetworkName''])]
      else if component = ''runner-connectivity'' then connectivity_parameters sha config
      else if component = ''certificate-vault'' then certificate_vault_parameters config
      else if component = ''runner-target-connectivity'' then
        bindr (target_connectivity_settings sha config) (pick [''runnerVirtualNetworkId'', ''manageDnsLink''])
      else if component = ''monitoring'' then monitoring_parameters config parameters
      else if component = ''audit-foundation'' then audit_foundation_parameters config parameters
      else if component = ''observability'' then
        update_with parameters ([cluster_field config, workspace_field config] @ network_fields config)
      else if component = ''proxy-foundation'' then proxy_foundation_parameters config parameters
      else if component = ''audit'' then val (dict_set parameters ''deployAuditStorage'' (JBool True))
      else if component = ''origin'' then val (dict_set parameters ''deployPrivateOrigin'' (JBool True))
      else if component = ''edge'' then edge_parameters config parameters
      else val parameters)"

definition common_parameters :: "json \<Rightarrow> string \<Rightarrow> obj \<Rightarrow> obj res" where
  "common_parameters config component parameters =
     bindr (if component \<notin> {''edge'', ''aks-ingress-role''}
            then update_with parameters [(''location'', sub (val config) ''location'')] else val parameters) (\<lambda>parameters.
     if component \<noteq> ''aks-ingress-role''
     then bindr (sub (val config) ''ownerEmail'') (\<lambda>owner. bindr (sub (val config) ''environment'') (\<lambda>environment.
          val (dict_set parameters ''tags'' (JObj
            [(''owner'', owner), (''environment'', environment), (''workload'', JStr ''litellm''),
             (''managedBy'', JStr ''bicep'')]))))
     else val parameters)"

definition parameter_document :: "obj \<Rightarrow> json" where
  "parameter_document parameters =
     JObj [(''$schema'', JStr ''https://schema.management.azure.com/schemas/2019-04-01/deploymentParameters.json#''),
       (''contentVersion'', JStr ''1.0.0.0''),
       (''parameters'', JObj (map (\<lambda>(key, value). (key, JObj [(''value'', value)])) parameters))]"

definition parameters_for :: "sha \<Rightarrow> json \<Rightarrow> int \<Rightarrow> string \<Rightarrow> (string \<times> json) res" where
  "parameters_for sha config stage component =
     require_active stage config (
     check (val (map_of COMPONENTS component \<noteq> None)) ''Select an IaC component'' (
     check (val (stage \<in> set (component_stages component))) ''Component does not belong to the selected stage'' (
     bindr (selected_parameters config stage component) (\<lambda>parameters.
     check (val (set (the (map_of REQUIRED component)) \<subseteq> set (keys_of parameters) \<and> configured (JObj parameters)))
       ''Component configuration is missing or contains placeholders'' (
     bindr (component_parameters sha config stage component parameters) (\<lambda>parameters.
     bindr (common_parameters config component parameters) (\<lambda>parameters.
     val (''infra/'' @ template (the (map_of COMPONENTS component)) @ ''/main.bicep'', parameter_document parameters))))))))"

section \<open>Preparation, preview and the readiness check\<close>

text \<open>Whether the output stays under the ignored directory is an answer of the file system.\<close>

definition prepare_component :: "sha \<Rightarrow> bool \<Rightarrow> json \<Rightarrow> int \<Rightarrow> string \<Rightarrow> ('s, string) proc" where
  "prepare_component sha under_temp config stage component =
     checkp (val under_temp) ''Output must stay under ignored temp/'' (
     letp (parameters_for sha config stage component) (\<lambda>(file, parameters).
     thenp (private_write ''parameters.json'' parameters) (retp file)))"

definition what_if_scope :: "json \<Rightarrow> string \<Rightarrow> string list res" where
  "what_if_scope config component =
     bindr (str_of (subs (val config) [if component \<in> set LEGACY_COMPONENTS then ''legacy'' else ''target'', ''resourceGroup''])) (\<lambda>rgroup.
     if component = ''bootstrap''
     then mapr (\<lambda>location. [''sub'', ''what-if'', ''--location'', location]) (str_of (sub (val config) ''location''))
     else val [''group'', ''what-if'', ''--resource-group'', rgroup])"

definition change_kinds :: "json list \<Rightarrow> json list res" where
  "change_kinds changes =
     bindr (map_res (\<lambda>change. dget (val change) ''changeType'' (JStr ''Unknown'')) changes) (\<lambda>kinds.
     if list_all hashable kinds then val kinds else Inl TypeError)"

definition preview_result :: "json \<Rightarrow> (json \<times> nat) list res" where
  "preview_result document =
     check (conjr (eqs (dget0 (val document) ''status'') ''Succeeded'') (testr is_list (dget0 (val document) ''changes'')))
       ''Unrecognized What-if response'' (
     bindr (bindr (list_of (sub (val document) ''changes'')) change_kinds) (\<lambda>kinds.
     check (val (set kinds \<subseteq> JStr ` {''Create'', ''NoChange'', ''Ignore''}))
       ''Review required: Modify/Delete/Unsupported/unknown changes block this gate'' (
     check (val (JStr ''Create'' \<in> set kinds)) ''No creation detected'' (
     val (map (\<lambda>k. (k, count_list kinds k)) (remdups kinds))))))"

definition preview_component :: "json \<Rightarrow> string \<Rightarrow> string \<Rightarrow> ('s, (json \<times> nat) list) proc" where
  "preview_component config file component =
     checkp (val (component \<noteq> ''runner-target-connectivity''))
       ''Use Customer infrastructure deployment plan to discover and review existing AKS DNS resources'' (
     letp (what_if_scope config component) (\<lambda>arguments.
     letp (str_of (subscription_of config)) (\<lambda>s.
     bindp (perform (Command ([''az'', ''deployment''] @ arguments @ [''--subscription'', s, ''--template-file'', file,
              ''--parameters'', ''@parameters.json'', ''--result-format'', ''FullResourcePayloads'', ''--no-pretty-print'',
              ''--output'', ''json'']))) (\<lambda>r.
     thenp (private_write ''what-if.json'' (stdout_of r)) (
     thenp (private_write ''diagnostics.txt'' JNull) (
     checkp (val (r \<noteq> Failure)) ''Azure what-if failed'' (
     letp (case r of Json v \<Rightarrow> val v | _ \<Rightarrow> Inl (ValueError ''Expecting value'')) (\<lambda>document.
     letp (preview_result document) retp))))))))"

text \<open>The arguments and the environment variables of one invocation; the evidence is what the
  artifacts or the variable gave.\<close>

record invocation =
  inv_stage :: int
  inv_mode :: string
  inv_component :: string
  inv_environment :: string
  inv_tenant :: json
  inv_subscription :: json
  inv_revision :: json
  inv_evidence :: "json res"
  inv_now :: int

definition login_matches :: "invocation \<Rightarrow> json \<Rightarrow> bool res" where
  "login_matches call config =
     conjr (eqr (val (inv_tenant call)) (subs (val config) [''azure'', ''tenantId'']))
           (eqr (val (inv_subscription call)) (subscription_of config))"

definition readiness :: "sha \<Rightarrow> bool \<Rightarrow> json \<Rightarrow> invocation \<Rightarrow> ('s, unit) proc" where
  "readiness sha under_temp supplied call =
     letp (stage_title (inv_stage call) supplied) (\<lambda>_.
     letp (stage_checks (inv_stage call) supplied) (\<lambda>_.
     if inv_mode call = ''guide'' then retp ()
     else
     letp (validate_config sha supplied (inv_environment call)) (\<lambda>config.
     checkp (login_matches call config) ''OIDC scope does not match customer configuration'' (
     letp (stage_fingerprint sha config (inv_stage call)) (\<lambda>_.
     if inv_mode call = ''config-check''
     then (if inv_component call = ''none'' then retp ()
           else letp (parameters_for sha config (inv_stage call) (inv_component call)) (\<lambda>_. retp ()))
     else
     letp (inv_evidence call) (\<lambda>previous.
     letp (validate_evidence sha previous (inv_stage call) config (inv_revision call) (inv_now call)) (\<lambda>completed.
     checkp (val (\<not> (inv_component call \<in> {''backup'', ''network''} \<and> (\<exists>s \<in> set completed. 4 \<le> s))))
       ''Do not reapply the bootstrap VNet after Stage 4'' (
     if inv_component call \<noteq> ''none''
     then bindp (prepare_component sha under_temp config (inv_stage call) (inv_component call)) (\<lambda>file.
          whenp (inv_mode call = ''what-if'')
            (bindp (preview_component config file (inv_component call)) (\<lambda>_. retp ())))
     else checkp (val (inv_mode call \<noteq> ''what-if'')) ''What-if needs an IaC component'' (
          whenp (inv_stage call \<in> {7, 8, 9})
            (bindp (perform (Client ''render'' [JInt (inv_stage call)])) (\<lambda>_. retp ())))))))))))"

end
