(* ===== verification/Config_Facts.thy ===== *)
theory Config_Facts
  imports Customer_Config Runtime_Settings Model_Config
begin

text \<open>
  Properties of the customer configuration: the evidence of earlier stages, the approval
  policy, the source ranges of the administrators, the preview of a deployment, the stage
  fingerprints, the runtime settings and the rendered models.
\<close>

section \<open>Evidence\<close>

text \<open>What an accepted evidence record says about its stage \<open>s\<close>.\<close>

definition attested :: "json \<Rightarrow> int \<Rightarrow> string \<times> int list \<Rightarrow> json \<Rightarrow> int \<Rightarrow> bool" where
  "attested config now policy item s \<longleftrightarrow>
     (\<exists>kv xs ids observed t checks. item = JObj kv \<and> map_of kv ''stage'' = Some (JInt s) \<and> 0 \<le> s \<and> s \<le> 9 \<and>
        map_of kv ''status'' = Some (JStr ''passed'') \<and>
        stage_checks s config = Inr checks \<and> (checks \<noteq> [] \<longrightarrow> map_of kv ''checks'' \<noteq> None) \<and>
        iter (val (lookup_or kv ''checks'' (JList []))) = Inr xs \<and> set xs = JStr ` set checks \<and>
        signed_off (case lookup_or kv ''approvedBy'' (JList []) of JList vs \<Rightarrow> vs | _ \<Rightarrow> []) item = Inr (ids, observed) \<and>
        distinct ids \<and> 0 \<notin> set ids \<and> length ids = (if fst policy = ''single-operator'' then 1 else 2) \<and>
        (snd policy \<noteq> [] \<longrightarrow> set ids \<subseteq> set (snd policy)) \<and>
        instant observed = Some t \<and> now - 7 * day_micros \<le> t \<and> t \<le> now)"

lemma nonzero_uuids_distinct: "nonzero_uuids vs = Inr ids \<Longrightarrow> distinct ids"
  by (auto simp: nonzero_uuids_def py_ok)

lemma lookup_str: "lookup_or kv k d = v \<Longrightarrow> v \<noteq> d \<Longrightarrow> map_of kv k = Some v"
  by (auto simp: lookup_or_def split: option.splits)

lemma evidence_stage_ok:
  "evidence_stage completed item = Inr s \<Longrightarrow>
     \<exists>kv. item = JObj kv \<and> map_of kv ''stage'' = Some (JInt s) \<and> 0 \<le> s \<and> s \<le> 9 \<and> s \<notin> set completed"
proof -
  assume "evidence_stage completed item = Inr s"
  then obtain kv v where kv: "item = JObj kv" "lookup_or kv ''stage'' JNull = v"
      "(case v of JInt n \<Rightarrow> if 0 \<le> n \<and> n \<le> 9 \<and> n \<notin> set completed then val n
                 else Inl (MigrationError ''Invalid or duplicate evidence stage'')
        | _ \<Rightarrow> Inl (MigrationError ''Invalid or duplicate evidence stage'')) = Inr s"
    unfolding evidence_stage_def bindr_ok dget_ok by blast
  then show ?thesis
    by (cases v) (auto split: if_splits dest: lookup_str)
qed

lemma check_approval_ok:
  assumes "check_approval item now policy = Inr ()" and "item = JObj kv"
  shows "\<exists>ids observed t. signed_off (case lookup_or kv ''approvedBy'' (JList []) of JList vs \<Rightarrow> vs | _ \<Rightarrow> []) item = Inr (ids, observed) \<and>
        distinct ids \<and> 0 \<notin> set ids \<and> length ids = (if fst policy = ''single-operator'' then 1 else 2) \<and>
        (snd policy \<noteq> [] \<longrightarrow> set ids \<subseteq> set (snd policy)) \<and>
        instant observed = Some t \<and> now - 7 * day_micros \<le> t \<and> t \<le> now"
proof -
  obtain xs ids observed where *: "lookup_or kv ''approvedBy'' (JList []) = JList xs"
      "signed_off xs item = Inr (ids, observed)"
      "length ids = (if fst policy = ''single-operator'' then 1 else 2)" "list_all (\<lambda>i. i \<noteq> 0) ids"
      "snd policy = [] \<or> set ids \<subseteq> set (snd policy)" "recent now observed"
    using assms by (auto simp: check_approval_def Let_def py_ok split: json.splits prod.splits)
  have "distinct ids"
    using *(2) by (auto simp: signed_off_def py_ok dest: nonzero_uuids_distinct)
  then show ?thesis
    using * by (auto simp: recent_def list_all_iff split: option.splits)
qed

lemma check_record_ok:
  assumes "check_record sha config revision now policy item completed = Inr completed'"
  shows "\<exists>s. completed' = completed @ [s] \<and> s \<notin> set completed \<and> attested config now policy item s"
proof -
  obtain s where s: "evidence_stage completed item = Inr s" "completed' = completed @ [s]"
      "eqs (dget0 (val item) ''status'') ''passed'' = Inr True" "check_approval item now policy = Inr ()"
    and c: "bindr (iter (dget (val item) ''checks'' (JList []))) (\<lambda>checks.
              if list_all hashable checks then bindr (stage_checks s config) (\<lambda>cs. set_is cs checks)
              else Inl TypeError) = Inr True"
    using assms by (auto simp: check_record_def py_ok simp del: dget_ok)
  obtain kv where kv: "item = JObj kv" "map_of kv ''stage'' = Some (JInt s)" "0 \<le> s" "s \<le> 9" "s \<notin> set completed"
    using evidence_stage_ok [OF s(1)] by blast
  obtain xs cs where x: "iter (val (lookup_or kv ''checks'' (JList []))) = Inr xs" "stage_checks s config = Inr cs"
      "set xs = JStr ` set cs"
    using c kv(1) by (auto simp: bindr_ok set_is_ok split: if_splits)
  have "cs \<noteq> [] \<longrightarrow> map_of kv ''checks'' \<noteq> None"
    using x by (cases "map_of kv ''checks''") (auto simp: lookup_or_def)
  moreover have "map_of kv ''status'' = Some (JStr ''passed'')"
    using s(3) kv(1) by (auto simp: py_ok dest: lookup_str)
  ultimately show ?thesis
    unfolding attested_def using s(2) kv x check_approval_ok [OF s(4) kv(1)] by blast
qed

lemma check_records_ok:
  assumes "fold_res (check_record sha config revision now policy) recs done_before = Inr completed" and "distinct done_before"
  shows "\<exists>added. completed = done_before @ added \<and> distinct completed \<and> list_all2 (attested config now policy) recs added"
  using assms
proof (induction recs arbitrary: done_before)
  case (Cons item rest)
  then obtain s where s: "s \<notin> set done_before" "attested config now policy item s"
      "fold_res (check_record sha config revision now policy) rest (done_before @ [s]) = Inr completed"
    by (auto simp: bindr_ok dest!: check_record_ok)
  show ?case
    using Cons.IH [OF s(3)] Cons.prems(2) s(1,2) by force
qed auto

text \<open>
  C15: evidence that \<open>validate_evidence\<close> accepts covers every active stage before the one to be
  run, once each, and every record of it has passed with exactly the exit checks of its stage,
  is signed by the number of distinct eligible approvers the policy asks for, and is at most
  seven days old.
\<close>

theorem evidence_is_complete:
  assumes "validate_evidence sha evidence stage config revision now = Inr completed"
  shows "\<exists>stages policy recs. active_stages config = Inr stages \<and> approval_policy config = Inr policy \<and>
    evidence = JList recs \<and> distinct completed \<and> {p \<in> set stages. p < stage} \<subseteq> set completed \<and>
    list_all2 (attested config now policy) recs completed"
proof -
  obtain policy recs stages where *: "approval_policy config = Inr policy" "evidence = JList recs"
      "fold_res (check_record sha config revision now policy) recs [] = Inr completed"
      "active_stages config = Inr stages" "\<forall>p \<in> set stages. p < stage \<longrightarrow> p \<in> set completed"
    using assms by (auto simp: validate_evidence_def bindr_ok check_ok list_of_ok)
  show ?thesis
    using check_records_ok [OF *(3)] *(1,2,4,5) by auto
qed

text \<open>A migration at stage 1 with the evidence of stage 0.\<close>

definition sample_config :: json where
  "sample_config = JObj [(''environment'', JStr ''dev'')]"

definition sample_hex :: "nat \<Rightarrow> string" where
  "sample_hex n = replicate n CHR ''a''"

definition sample_record :: json where
  "sample_record = JObj
     [(''stage'', JInt 0), (''environment'', JStr ''dev''), (''configSha256'', JStr ''h''),
      (''revision'', JStr (sample_hex 40)), (''status'', JStr ''passed''),
      (''checks'', JList (map JStr [''inventory'', ''backup_restore'', ''key_salt_recovery'', ''protocol_baseline''])),
      (''approvedBy'', JList [JStr ''00000000-0000-0000-0000-000000000001'', JStr ''00000000-0000-0000-0000-000000000002'']),
      (''observedAt'', JStr ''2026-01-02T00:00:00Z''), (''reportUrl'', JStr ''https://reports.corp/1''),
      (''reportSha256'', JStr (sample_hex 64))]"

definition sample_now :: int where
  "sample_now = (case instant (case fromisoformat ''2026-01-03T00:00:00+00:00'' of Inr m \<Rightarrow> m) of Some t \<Rightarrow> t)"

lemma sample_evidence:
  "validate_evidence (\<lambda>_. ''h'') (JList [sample_record]) 1 sample_config (JStr (sample_hex 40)) sample_now = Inr [0]"
  by code_simp

theorem evidence_is_complete_witness:
  "\<exists>stages policy recs. active_stages sample_config = Inr stages \<and> approval_policy sample_config = Inr policy \<and>
    JList [sample_record] = JList recs \<and> distinct [0::int] \<and> {p \<in> set stages. p < 1} \<subseteq> set [0] \<and>
    list_all2 (attested sample_config sample_now policy) recs [0]"
  by (rule evidence_is_complete [OF sample_evidence])

section \<open>The approval policy\<close>

text \<open>
  C16: an approval policy that is accepted names one operator who accepted the risk, or nobody
  in particular, or at least two eligible approvers; the identities are distinct and nonzero.
\<close>

theorem approval_policy_separates:
  assumes "approval_policy config = Inr (mode, ids)"
  shows "distinct ids \<and> 0 \<notin> set ids \<and>
    (mode = ''single-operator'' \<and> length ids = 1 \<and>
       bindr (dgetO (val config) ''governance'') (\<lambda>g. dget0 (val g) ''singleOperatorRiskAccepted'') = Inr (JBool True)
     \<or> mode = ''dual'' \<and> (ids = [] \<or> 2 \<le> length ids))"
proof -
  obtain policy m uuids accepted where *: "dgetO (val config) ''governance'' = Inr policy"
      "hashable m" "m \<in> JStr ` set [''dual'', ''single-operator'']" "m = JStr mode"
      "nonzero_uuids uuids = Inr ids" "length ids = length uuids" "\<forall>i \<in> set ids. i \<noteq> 0"
      "dget0 (val policy) ''singleOperatorRiskAccepted'' = Inr accepted"
      "(if m = JStr ''single-operator''
           then check (val (accepted = JBool True \<and> length ids = 1))
             ''Single-operator mode requires one named operator and explicit risk acceptance'' (val ())
           else whenr (uuids \<noteq> [])
             (check (val (2 \<le> length ids)) ''Dual approval requires two eligible approvers'' (val ()))) = Inr ()"
    using assms unfolding approval_policy_def bindr_ok check_ok seqr_ok in_strs_ok str_of_ok list_of_ok by auto
  have "distinct ids"
    by (rule nonzero_uuids_distinct [OF *(5)])
  moreover have "bindr (dgetO (val config) ''governance'') (\<lambda>g. dget0 (val g) ''singleOperatorRiskAccepted'') = Inr accepted"
    using *(1,8) by simp
  ultimately show ?thesis
    using * by (auto simp: check_ok whenr_ok simp del: dget_ok split: if_splits)
qed

theorem approval_policy_separates_witness:
  "distinct [7::int] \<and> 0 \<notin> set [7::int] \<and>
    (''single-operator'' = ''single-operator'' \<and> length [7::int] = 1 \<and>
       bindr (dgetO (val (JObj [(''governance'', JObj [(''approvalMode'', JStr ''single-operator''),
           (''approverObjectIds'', JList [JStr ''00000000-0000-0000-0000-000000000007'']),
           (''singleOperatorRiskAccepted'', JBool True)])])) ''governance'')
         (\<lambda>g. dget0 (val g) ''singleOperatorRiskAccepted'') = Inr (JBool True)
     \<or> ''single-operator'' = ''dual'' \<and> ([7::int] = [] \<or> 2 \<le> length [7::int]))"
  by (rule approval_policy_separates) code_simp

section \<open>The source ranges of the administrators\<close>

text \<open>The addresses of a range: at most \<open>2 ^ 8\<close> of IPv4, \<open>2 ^ 64\<close> of IPv6.\<close>

definition range_size :: "net \<Rightarrow> int" where
  "range_size n = broadcast n - base n + 1"

lemma list_all2_in: "list_all2 P xs ys \<Longrightarrow> y \<in> set ys \<Longrightarrow> \<exists>x \<in> set xs. P x y"
  by (induction xs ys rule: list_all2_induct) auto

text \<open>
  C17: the source ranges that are accepted for administrators are between one and 32, distinct
  and in order, each written in canonical form, public, and no larger than 256 addresses of
  IPv4 or \<open>2 ^ 64\<close> of IPv6.
\<close>

theorem admin_sources_are_bounded:
  assumes "admin_source_cidrs v = Inr rs"
  shows "1 \<le> length rs \<and> length rs \<le> 32 \<and> sorted rs \<and> distinct rs \<and>
    (\<forall>c \<in> set rs. \<exists>n. c = net_str n \<and> is_global n \<and>
       range_size n \<le> (if version n = 4 then 2 ^ 8 else 2 ^ 64))"
proof -
  obtain xs networks where *: "v = JList xs" "1 \<le> length xs" "length xs \<le> 32"
      "list_all2 (\<lambda>x y. admin_cidr x = Inr y) xs networks" "distinct networks" "rs = sort networks"
    using assms by (auto simp: admin_source_cidrs_def py_ok split: json.splits)
  have size: "range_size n \<le> (if version n = 4 then 2 ^ 8 else 2 ^ 64)"
    if "(if version n = 4 then 24 else 64) \<le> plen n" for n
  proof -
    have "host_bits n \<le> (if version n = 4 then 8 else 64)"
      using that by (auto simp: host_bits_def bits_def)
    then have "(2::int) ^ host_bits n \<le> 2 ^ (if version n = 4 then 8 else 64)"
      by (rule power_increasing) simp
    moreover have "range_size n = 2 ^ host_bits n"
      by (simp add: range_size_def broadcast_def)
    ultimately show ?thesis
      by (cases "version n = 4") (simp_all only: simp_thms if_True if_False)
  qed
  have "\<exists>n. c = net_str n \<and> is_global n \<and> range_size n \<le> (if version n = 4 then 2 ^ 8 else 2 ^ 64)"
    if c: "c \<in> set networks" for c
  proof -
    obtain x where "admin_cidr x = Inr c"
      using list_all2_in [OF *(4) c] by blast
    then show ?thesis
      using admin_cidr_ok size by blast
  qed
  then show ?thesis
    using * by (simp add: list_all2_lengthD)
qed

theorem admin_sources_are_bounded_witness:
  "\<exists>n. ''203.0.114.0/24'' = net_str n \<and> is_global n \<and> range_size n \<le> (if version n = 4 then 2 ^ 8 else 2 ^ 64)"
proof -
  have "admin_source_cidrs (JList [JStr ''203.0.114.0/24'']) = Inr [''203.0.114.0/24'']" by code_simp
  from admin_sources_are_bounded [OF this] show ?thesis by simp
qed

section \<open>The preview of a deployment\<close>

text \<open>The change kinds a preview lets pass.\<close>

definition harmless_kinds :: "json set" where
  "harmless_kinds = JStr ` {''Create'', ''NoChange'', ''Ignore''}"

text \<open>
  A what-if document with a change of any kind but Create, NoChange and Ignore (Modify,
  Delete, Deploy, Unsupported, a missing kind) is refused with the review error, whatever the
  other changes are.
\<close>

theorem destructive_previews_are_refused:
  assumes "map_of kv ''status'' = Some (JStr ''Succeeded'')" and "map_of kv ''changes'' = Some (JList (map JObj changes))"
    and "\<forall>c \<in> set changes. hashable (lookup_or c ''changeType'' (JStr ''Unknown''))"
    and "c \<in> set changes" and "lookup_or c ''changeType'' (JStr ''Unknown'') \<notin> harmless_kinds"
  shows "preview_result (JObj kv) =
    Inl (MigrationError ''Review required: Modify/Delete/Unsupported/unknown changes block this gate'')"
proof -
  let ?kind = "\<lambda>c. lookup_or c ''changeType'' (JStr ''Unknown'')"
  have "map_res (\<lambda>change. dget (val change) ''changeType'' (JStr ''Unknown'')) (map JObj changes) = val (map ?kind changes)"
    by (induction changes) auto
  then have kinds: "change_kinds (map JObj changes) = val (map ?kind changes)"
    using assms(3) by (simp add: change_kinds_def list_all_iff)
  have "\<not> set (map ?kind changes) \<subseteq> JStr ` {''Create'', ''NoChange'', ''Ignore''}"
    using assms(4,5) unfolding harmless_kinds_def by auto
  then show ?thesis
    using assms(1,2) kinds unfolding preview_result_def by (simp add: lookup_or_def del: map_map)
qed

theorem destructive_previews_are_refused_witness:
  "preview_result (JObj [(''status'', JStr ''Succeeded''),
      (''changes'', JList (map JObj [[(''changeType'', JStr ''Create'')], [(''changeType'', JStr ''Delete'')]]))]) =
    Inl (MigrationError ''Review required: Modify/Delete/Unsupported/unknown changes block this gate'')"
  using destructive_previews_are_refused [of "[(''status'', JStr ''Succeeded''),
      (''changes'', JList (map JObj [[(''changeType'', JStr ''Create'')], [(''changeType'', JStr ''Delete'')]]))]"
      "[[(''changeType'', JStr ''Create'')], [(''changeType'', JStr ''Delete'')]]" "[(''changeType'', JStr ''Delete'')]"]
  by (simp add: harmless_kinds_def image_iff)

section \<open>Runtime settings\<close>

text \<open>A leaf of a runtime document, and the reference of the merge: a map of maps.\<close>

definition section_in :: "json \<Rightarrow> string \<Rightarrow> obj" where
  "section_in doc s = (case doc of JObj kv \<Rightarrow> (case map_of kv s of Some (JObj sec) \<Rightarrow> sec | _ \<Rightarrow> []) | _ \<Rightarrow> [])"

definition setting_of :: "json \<Rightarrow> string \<Rightarrow> string \<rightharpoonup> json" where
  "setting_of doc s = map_of (section_in doc s)"

lemma section_in_set: "section_in (JObj (dict_set kv s (JObj sec))) t = (if t = s then sec else section_in (JObj kv) t)"
  by (simp add: section_in_def)

lemma merge_section_ok:
  assumes "merge_section kv s vals = Inr kv'" and "distinct (map fst vals)"
  shows "setting_of (JObj kv') t = (if t = s then setting_of (JObj kv) s ++ map_of vals else setting_of (JObj kv) t)"
    and "t \<noteq> s \<Longrightarrow> map_of kv' t = map_of kv t"
proof -
  obtain old where old: "lookup_or kv s (JObj []) = JObj old" "kv' = dict_set kv s (JObj (dict_update old vals))"
    using assms(1) by (auto simp: py_ok)
  have "section_in (JObj kv) s = old"
    using old(1) by (auto simp: section_in_def lookup_or_def split: option.splits)
  then show "setting_of (JObj kv') t = (if t = s then setting_of (JObj kv) s ++ map_of vals else setting_of (JObj kv) t)"
    using assms(2) old(2) by (simp add: setting_of_def section_in_set map_of_dict_update keys_of_def)
  show "t \<noteq> s \<Longrightarrow> map_of kv' t = map_of kv t"
    using old(2) by simp
qed

lemma merge_sections_ok:
  assumes "fold_res (\<lambda>(s, vals) r. bindr (items (val vals)) (merge_section r s)) sections kv = Inr kv'"
    and "wf_json (JObj sections)"
  shows "setting_of (JObj kv') t = setting_of (JObj kv) t ++ setting_of (JObj sections) t"
    and "t \<notin> fst ` set sections \<Longrightarrow> map_of kv' t = map_of kv t"
  using assms
proof (induction sections arbitrary: kv)
  case Nil
  { case 1 then show ?case by (simp add: setting_of_def section_in_def) next
    case 2 then show ?case by simp }
next
  case (Cons p rest)
  obtain s vals where p: "p = (s, vals)" by (cases p)
  have step: "\<exists>sec kv1. vals = JObj sec \<and> merge_section kv s sec = Inr kv1 \<and>
      fold_res (\<lambda>(s, vals) r. bindr (items (val vals)) (merge_section r s)) rest kv1 = Inr kv' \<and>
      distinct (map fst sec) \<and> wf_json (JObj rest) \<and> s \<notin> fst ` set rest"
    if "fold_res (\<lambda>(s, vals) r. bindr (items (val vals)) (merge_section r s)) (p # rest) kv = Inr kv'"
      "wf_json (JObj (p # rest))" for kv
    using that unfolding p by (auto simp: bindr_ok items_ok simp del: merge_section.simps)
  { case 1
    from step [OF this] obtain sec kv1 where *: "vals = JObj sec" "merge_section kv s sec = Inr kv1"
      "fold_res (\<lambda>(s, vals) r. bindr (items (val vals)) (merge_section r s)) rest kv1 = Inr kv'"
      "distinct (map fst sec)" "wf_json (JObj rest)" "s \<notin> fst ` set rest"
      by blast
    have "map_of rest s = None"
      using *(6) by (simp add: map_of_eq_None_iff)
    then show ?case
      using Cons.IH(1) [OF *(3,5)] merge_section_ok(1) [OF *(2,4), of t] p *(1)
      by (simp add: setting_of_def section_in_def)
  next
    case 2
    from step [OF 2(2,3)] obtain sec kv1 where *: "vals = JObj sec" "merge_section kv s sec = Inr kv1"
      "fold_res (\<lambda>(s, vals) r. bindr (items (val vals)) (merge_section r s)) rest kv1 = Inr kv'"
      "distinct (map fst sec)" "wf_json (JObj rest)"
      by blast
    then show ?case
      using Cons.IH(2) [OF _ *(3,5)] merge_section_ok(2) [OF *(2,4), of t] p 2(1) by simp
  }
qed

text \<open>
  C19: applying validated runtime settings is the pointwise override of a map of maps: a leaf of
  the result is the leaf of the overrides where they have one and the leaf of the runtime
  configuration elsewhere, and a section the overrides do not name is left as it is.
\<close>

theorem runtime_settings_override:
  assumes "apply_runtime_settings (JObj runtime) overrides = Inr (JObj merged)" and "wf_json overrides"
  shows "(\<forall>s. setting_of (JObj merged) s = setting_of (JObj runtime) s ++ setting_of overrides s) \<and>
    (\<forall>s \<in> - fst ` set (case overrides of JObj kv \<Rightarrow> kv | _ \<Rightarrow> []). map_of merged s = map_of runtime s)"
proof -
  obtain sections where *: "overrides = JObj sections"
      "fold_res (\<lambda>(s, vals) r. bindr (items (val vals)) (merge_section r s)) sections runtime = Inr merged"
    using assms(1) by (auto simp: apply_runtime_settings_def bindr_ok check_ok mapr_ok items_ok
        validate_runtime_settings_iff)
  show ?thesis
    using merge_sections_ok [OF *(2)] assms(2) *(1) by simp
qed

theorem runtime_settings_override_witness:
  "setting_of (JObj [(''router_settings'', JObj []), (''litellm_settings'', JObj [(''drop_params'', JBool True), (''request_timeout'', JInt 60)])])
      ''litellm_settings'' =
    setting_of (JObj [(''router_settings'', JObj []), (''litellm_settings'', JObj [(''drop_params'', JBool True), (''request_timeout'', JInt 30)])])
      ''litellm_settings'' ++ setting_of (JObj [(''litellm_settings'', JObj [(''request_timeout'', JInt 60)])]) ''litellm_settings'' \<and>
   map_of [(''router_settings'', JObj []), (''litellm_settings'', JObj [(''drop_params'', JBool True), (''request_timeout'', JInt 60)])]
      ''router_settings'' =
    map_of [(''router_settings'', JObj []), (''litellm_settings'', JObj [(''drop_params'', JBool True), (''request_timeout'', JInt 30)])]
      ''router_settings''"
  (is "setting_of (JObj ?merged) _ = setting_of (JObj ?runtime) _ ++ setting_of ?overrides _ \<and> _")
proof -
  have "apply_runtime_settings (JObj ?runtime) ?overrides = Inr (JObj ?merged)" "wf_json ?overrides" by code_simp+
  note result = runtime_settings_override [OF this]
  show ?thesis
    using spec [OF conjunct1 [OF result], of "''litellm_settings''"] bspec [OF conjunct2 [OF result], of "''router_settings''"]
    by simp
qed


text \<open>When the merge is possible: an exact account of its errors.\<close>

definition mergeable :: "obj \<Rightarrow> string \<Rightarrow> bool" where
  "mergeable kv s \<longleftrightarrow> (case map_of kv s of None \<Rightarrow> True | Some v \<Rightarrow> is_dict v)"

lemma merge_section_total: "(\<exists>kv'. merge_section kv s vals = Inr kv') \<longleftrightarrow> mergeable kv s"
  by (auto simp: mergeable_def check_ok bindr_ok items_ok lookup_or_def is_dict_iff simp del: items.simps
      split: option.splits)

lemma merge_section_keeps: "merge_section kv s vals = Inr kv' \<Longrightarrow> mergeable kv' t \<longleftrightarrow> mergeable kv t"
  by (auto simp: mergeable_def check_ok bindr_ok items_ok split: if_splits)

lemma merge_sections_total:
  assumes "list_all (is_dict \<circ> snd) sections"
  shows "(\<exists>kv'. fold_res (\<lambda>(s, vals) r. bindr (items (val vals)) (merge_section r s)) sections kv = Inr kv') \<longleftrightarrow>
    list_all (mergeable kv \<circ> fst) sections"
  using assms
proof (induction sections arbitrary: kv)
  case (Cons p rest)
  obtain s sec where p: "p = (s, JObj sec)"
    using Cons.prems by (cases p) (auto simp: is_dict_iff)
  show ?case
  proof (cases "merge_section kv s sec")
    case (Inl e)
    then show ?thesis
      using merge_section_total [of kv s sec] by (simp add: p del: merge_section.simps)
  next
    case (Inr kv1)
    then show ?thesis
      using merge_section_total [of kv s sec] merge_section_keeps [OF Inr] Cons
      by (simp add: p comp_def del: merge_section.simps)
  qed
qed simp

lemma settings_ok_dicts: "settings_ok (JObj kv) \<Longrightarrow> list_all (is_dict \<circ> snd) kv"
  by (auto simp: settings_ok_def list_all_iff)

text \<open>
  C20: the runtime settings are merged exactly when the overrides are in the reviewed subset, the
  runtime configuration is a dict and every section they target is absent or a dict; every
  other input ends in an error.
\<close>

theorem runtime_settings_errors:
  "(\<exists>merged. apply_runtime_settings runtime overrides = Inr merged) \<longleftrightarrow>
     settings_ok overrides \<and> is_dict runtime \<and>
     (case (overrides, runtime) of (JObj sections, JObj kv) \<Rightarrow> list_all (mergeable kv \<circ> fst) sections | _ \<Rightarrow> False)"
proof (cases "settings_ok overrides \<and> is_dict runtime")
  case True
  then obtain sections kv where *: "overrides = JObj sections" "runtime = JObj kv"
    by (auto simp: settings_ok_def is_dict_iff)
  then show ?thesis
    using True merge_sections_total [OF settings_ok_dicts, of sections kv]
    by (auto simp: apply_runtime_settings_def bindr_ok check_ok mapr_ok items_ok validate_runtime_settings_iff)
next
  case False
  then show ?thesis
    by (auto simp: apply_runtime_settings_def bindr_ok check_ok validate_runtime_settings_iff)
qed

text \<open>Well-formed documents stay so.\<close>

lemma wf_set: "wf_json (JObj kv) \<Longrightarrow> wf_json v \<Longrightarrow> wf_json (JObj (dict_set kv k v))"
  using distinct_dict_set [of kv k v] set_dict_set [of kv k v]
  by (auto simp: keys_of_def list_all_iff)

lemma wf_update: "wf_json (JObj kv) \<Longrightarrow> wf_json (JObj kv') \<Longrightarrow> wf_json (JObj (dict_update kv kv'))"
proof (induction kv' arbitrary: kv)
  case (Cons p ps)
  then have "wf_json (JObj (dict_set kv (fst p) (snd p)))" and "wf_json (JObj ps)"
    using wf_set by (auto split: prod.splits)
  with Cons.IH show ?case
    by (simp add: dict_update_def del: wf_json.simps)
qed (simp add: dict_update_def)

lemma set_dict_update: "set (dict_update kv kv') \<subseteq> set kv \<union> set kv'"
  unfolding dict_update_def
proof (induction kv' arbitrary: kv)
  case (Cons p ps)
  show ?case
    using Cons.IH [of "dict_set kv (fst p) (snd p)"] set_dict_set [of kv "fst p" "snd p"] by auto
qed simp

lemma section_ok_update: "section_ok s old \<Longrightarrow> section_ok s new \<Longrightarrow> section_ok s (dict_update old new)"
  using set_dict_update [of old new] unfolding section_ok_def by fastforce

text \<open>The type of a runtime document: well-formed, and of the reviewed settings only.\<close>

definition reviewed :: "json \<Rightarrow> bool" where
  "reviewed doc \<longleftrightarrow> wf_json doc \<and> settings_ok doc"

lemma reviewed_section: "reviewed (JObj kv) \<Longrightarrow> (s, JObj sec) \<in> set kv \<Longrightarrow> wf_json (JObj sec) \<and> section_ok s sec"
proof -
  assume r: "reviewed (JObj kv)" and m: "(s, JObj sec) \<in> set kv"
  have "\<forall>(k, v) \<in> set kv. wf_json v"
    using r by (simp add: reviewed_def list_all_iff)
  with m have "wf_json (JObj sec)" by blast
  moreover have "section_ok s sec"
    using r m by (auto simp: reviewed_def settings_ok_def)
  ultimately show "wf_json (JObj sec) \<and> section_ok s sec" ..
qed

lemma settings_ok_sets: "settings_ok (JObj kv) \<Longrightarrow> section_ok s sec \<Longrightarrow> settings_ok (JObj (dict_set kv s (JObj sec)))"
  using set_dict_set [of kv s "JObj sec"] by (auto simp: settings_ok_def)

lemma settings_ok_code [code]: "settings_ok v \<longleftrightarrow> (case validate_runtime_settings v of Inr _ \<Rightarrow> True | _ \<Rightarrow> False)"
  using validate_runtime_settings_iff [of v] by (cases "validate_runtime_settings v") auto

lemma merge_section_reviewed:
  assumes "reviewed (JObj kv)" and "wf_json (JObj sec)" and "section_ok s sec" and "merge_section kv s sec = Inr kv'"
  shows "reviewed (JObj kv')"
proof -
  obtain old where old: "lookup_or kv s (JObj []) = JObj old" "kv' = dict_set kv s (JObj (dict_update old sec))"
    using assms(4) by (auto simp: py_ok)
  have "wf_json (JObj old) \<and> section_ok s old"
  proof (cases "map_of kv s")
    case None
    then show ?thesis
      using old(1) assms(3) by (auto simp: lookup_or_def section_ok_def)
  next
    case (Some v)
    then have "(s, JObj old) \<in> set kv"
      using old(1) by (auto simp: lookup_or_def dest: map_of_SomeD)
    then show ?thesis
      by (rule reviewed_section [OF assms(1)])
  qed
  then have new: "wf_json (JObj (dict_update old sec))" "section_ok s (dict_update old sec)"
    using wf_update section_ok_update assms(2,3) by blast+
  have "wf_json (JObj kv')"
    unfolding old(2) by (rule wf_set) (use assms(1) new(1) in \<open>auto simp: reviewed_def\<close>)
  moreover have "settings_ok (JObj kv')"
    unfolding old(2) by (rule settings_ok_sets) (use assms(1) new(2) in \<open>simp_all add: reviewed_def\<close>)
  ultimately show ?thesis
    by (simp add: reviewed_def)
qed

text \<open>
  C21: the reviewed runtime documents are closed under the application of reviewed overrides:
  the result has no duplicate key, and only supported fields with values of their kind.
\<close>

theorem runtime_settings_keep_their_type:
  assumes "reviewed runtime" and "wf_json overrides" and "apply_runtime_settings runtime overrides = Inr merged"
  shows "reviewed merged"
proof -
  obtain sections kv kv' where *: "overrides = JObj sections" "settings_ok overrides" "runtime = JObj kv"
      "fold_res (\<lambda>(s, vals) r. bindr (items (val vals)) (merge_section r s)) sections kv = Inr kv'" "merged = JObj kv'"
    using assms(3) by (auto simp: apply_runtime_settings_def bindr_ok check_ok mapr_ok items_ok
        validate_runtime_settings_iff)
  have keeps: "reviewed (JObj t)"
    if s: "reviewed (JObj s)" and p: "p \<in> set sections"
      and step: "(\<lambda>(s, vals) r. bindr (items (val vals)) (merge_section r s)) p s = Inr t" for p s t
  proof -
    obtain k sec where k: "p = (k, JObj sec)" "section_ok k sec" "wf_json (JObj sec)"
      using *(1,2) assms(2) p by (cases p) (fastforce simp: settings_ok_def list_all_iff)
    then have "merge_section s k sec = Inr t"
      using step by simp
    then show ?thesis
      by (rule merge_section_reviewed [OF s k(3,2)])
  qed
  have "reviewed (JObj kv')"
    by (rule fold_res_invariant [where P = "\<lambda>s. reviewed (JObj s)", OF *(4)])
      (use assms(1) *(3) in simp, rule keeps)
  with *(5) show ?thesis by simp
qed

theorem runtime_settings_keep_their_type_witness:
  "reviewed (JObj [(''router_settings'', JObj [(''num_retries'', JInt 2), (''timeout'', JFloat 5 (-1))])])"
  by (rule runtime_settings_keep_their_type [of "JObj [(''router_settings'', JObj [(''num_retries'', JInt 2)])]"
        "JObj [(''router_settings'', JObj [(''timeout'', JFloat 5 (-1))])]"])
    code_simp+

section \<open>Rendered models\<close>

lemma meets_only: "A \<inter> R = {} \<Longrightarrow> K \<subseteq> A \<union> N \<Longrightarrow> N \<subseteq> M \<Longrightarrow> M \<inter> R \<subseteq> X \<Longrightarrow> K \<inter> R \<subseteq> X"
  by blast

text \<open>
  C22: a rendered model calls an Azure OpenAI account root over HTTPS and the deployment of the
  model, whatever the options of the model are, and none of its parameters names another
  endpoint, provider or credential.
\<close>

theorem rendered_models_are_pinned:
  assumes "rendered_model accounts model = Inr r"
  shows "\<exists>kv ps h d. r = JObj kv \<and> map_of kv ''litellm_params'' = Some (JObj ps) \<and>
    sub (val model) ''deploymentName'' = Inr (JStr d) \<and> map_of ps ''model'' = Some (JStr (''azure/'' @ d)) \<and>
    map_of ps ''api_base'' = Some (JStr (''https://'' @ h)) \<and> rmatch OPENAI_HOST h \<and>
    set (keys_of ps) \<inter> set reserved_params \<subseteq> {''model'', ''api_base''}"
proof -
  obtain params info has_base basis grp ps m' connection apiBase apiVersion more identity where *:
      "validate_options params info False = Inr ()"
      "(if has_base then mapr (\<lambda>b. [(''base_model'', b)]) (sub (val model) ''baseModel'') else val []) = Inr basis"
      "items (val params) = Inr ps" "bindr (sub (val model) ''deploymentName'') (\<lambda>d.
              case d of JStr s \<Rightarrow> val (''azure/'' @ s) | _ \<Rightarrow> Inl TypeError) = Inr m'"
      "connection_endpoint connection = Inr apiBase"
      "r = JObj
       [(''model_name'', grp),
        (''litellm_params'', JObj (dict_update ps
           ([(''model'', JStr m'), (''api_base'', JStr apiBase), (''api_version'', apiVersion)] @ basis))),
        (''model_info'', JObj (dict_update more ([(''id'', identity)] @ basis)))]"
    using assms unfolding rendered_model_def bindr_ok seqr_ok
    by (elim exE conjE) (simp only: sum.inject, blast)
  have b: "basis = [] \<or> (\<exists>b. basis = [(''base_model'', b)])"
    using *(2) by (auto simp: mapr_ok split: if_splits)
  obtain d where d: "sub (val model) ''deploymentName'' = Inr (JStr d)" "m' = ''azure/'' @ d"
    using *(4) unfolding bindr_ok by (elim exE conjE) (rename_tac x, case_tac x, auto)
  obtain h where h: "apiBase = ''https://'' @ h" "rmatch OPENAI_HOST h"
    using *(5) normalize_endpoint_shape by (auto simp: connection_endpoint_def ifr_ok bindr_ok)
  let ?new = "[(''model'', JStr m'), (''api_base'', JStr apiBase), (''api_version'', apiVersion)] @ basis"
  let ?ps = "dict_update ps ?new"
  have new: "distinct (keys_of ?new)" "map_of ?new ''model'' = Some (JStr m')" "map_of ?new ''api_base'' = Some (JStr apiBase)"
    "set (keys_of ?new) \<subseteq> {''model'', ''api_base'', ''api_version'', ''base_model''}"
    using b by auto
  have own: "set (keys_of ps) \<inter> set reserved_params = {}"
    using validate_options_keys(1) [of ps] validate_options_dicts [OF *(1)] *(1,3) allowed_params_subset reserved_not_allowed
    by (auto simp: items_ok) blast
  have all: "set (keys_of ?ps) \<subseteq> set (keys_of ps) \<union> set (keys_of ?new)"
    using set_dict_update [of ps ?new] by (auto simp: keys_of_def)
  have some: "{''model'', ''api_base'', ''api_version'', ''base_model''} \<inter> set reserved_params \<subseteq> {''model'', ''api_base''}"
    by (simp add: reserved_params_def)
  have "set (keys_of ?ps) \<inter> set reserved_params \<subseteq> {''model'', ''api_base''}"
    by (rule meets_only [OF own all new(4) some])
  moreover have "map_of ?ps ''model'' = Some (JStr m')" "map_of ?ps ''api_base'' = Some (JStr apiBase)"
    unfolding map_of_dict_update [OF new(1)] using new(2,3) by (simp_all only: map_add_Some_iff simp_thms)
  ultimately show ?thesis
    using *(6) d h by simp
qed

definition sample_model :: json where
  "sample_model = JObj [(''id'', JStr ''m1''), (''modelGroup'', JStr ''gpt''), (''deploymentName'', JStr ''gpt-prod''),
      (''connectionAlias'', JStr ''main''), (''apiVersion'', JStr ''2024-10-21''),
      (''litellmParams'', JObj [(''stream'', JBool True)])]"

definition sample_rendered :: json where
  "sample_rendered = JObj [(''model_name'', JStr ''gpt''),
      (''litellm_params'', JObj [(''stream'', JBool True), (''model'', JStr ''azure/gpt-prod''),
         (''api_base'', JStr ''https://acct1.openai.azure.com''), (''api_version'', JStr ''2024-10-21'')]),
      (''model_info'', JObj [(''id'', JStr ''m1'')])]"

definition sample_connection :: json where
  "sample_connection = JObj [(''alias'', JStr ''main''), (''accountName'', JStr ''acct1'')]"

lemma sample_endpoint: "connection_endpoint sample_connection = Inr ''https://acct1.openai.azure.com''"
  by code_simp

lemma sample_options: "validate_options (JObj [(''stream'', JBool True)]) (JObj []) False = Inr ()"
  by code_simp

lemma sample_model_renders: "rendered_model [(JStr ''main'', sample_connection)] sample_model = Inr sample_rendered"
  by (simp add: rendered_model_def sample_model_def sample_rendered_def sample_endpoint sample_options key_sub_def
      lookup_or_def dict_update_def)

theorem rendered_models_are_pinned_witness:
  "\<exists>kv ps h d. sample_rendered = JObj kv \<and> map_of kv ''litellm_params'' = Some (JObj ps) \<and>
    sub (val sample_model) ''deploymentName'' = Inr (JStr d) \<and> map_of ps ''model'' = Some (JStr (''azure/'' @ d)) \<and>
    map_of ps ''api_base'' = Some (JStr (''https://'' @ h)) \<and> rmatch OPENAI_HOST h \<and>
    set (keys_of ps) \<inter> set reserved_params \<subseteq> {''model'', ''api_base''}"
  by (rule rendered_models_are_pinned [OF sample_model_renders])

section \<open>Evidence and later stages\<close>

text \<open>The sections that belong to a later stage than the one whose evidence is recorded.  The
  Level 3 audit belongs to stage 4, which builds its nodes, and to the stages from 8 on.\<close>

definition later_sections :: "(string \<times> int) list" where
  "later_sections =
     [(''legacyAccess'', 1), (''contentAudit'', 2), (''privateIngress'', 4), (''certificates'', 4), (''databaseAccess'', 5),
      (''application'', 6), (''proxy'', 7), (''entra'', 7), (''auditRuntime'', 8), (''observability'', 8),
      (''auditGovernance'', 8), (''dns'', 9)]"

definition later_section :: "int \<Rightarrow> string \<Rightarrow> bool" where
  "later_section stage k \<longleftrightarrow> list_ex (\<lambda>(name, first). k = name \<and> stage < first) later_sections \<or> k = ''l3Audit'' \<and> stage \<noteq> 4 \<and> stage < 8"

text \<open>The fields of the platform that a later stage than its first one deploys.\<close>

definition later_platform_fields :: "(string \<times> int) list" where
  "later_platform_fields = [(''azureOpenAIConnections'', 4), (''stage4RoleAssignmentNaming'', 4), (''stage5Data'', 5)]"

text \<open>A change of the parameters of one component that concerns a later stage only: the component
  is deployed first in a later stage, or the change is one of a later field of the platform.\<close>

definition later_parameters :: "int \<Rightarrow> obj \<Rightarrow> string \<Rightarrow> json \<Rightarrow> bool" where
  "later_parameters stage ps name w \<longleftrightarrow>
     (case map_of COMPONENTS name of Some c \<Rightarrow> stage < first_stage c | None \<Rightarrow> False) \<or>
     name = ''platform'' \<and> (\<exists>old field first v. map_of ps ''platform'' = Some (JObj old) \<and>
       (field, first) \<in> set later_platform_fields \<and> stage < first \<and> w = JObj (dict_set old field v))"

definition login_mode :: "obj \<Rightarrow> json res" where
  "login_mode kv = dget (dgetO (dgetO (val (JObj kv)) ''application'') ''authentication'') ''mode'' (JStr ''entra'')"

lemma dict_pop_of_set: "dict_pop (dict_set kv k v) k = dict_pop kv k"
  by (induction kv) (auto simp: dict_pop_def)

lemma dict_pop_set_other: "a \<noteq> k \<Longrightarrow> dict_set (dict_pop kv k) a v = dict_pop (dict_set kv a v) k"
  by (induction kv) (auto simp: dict_pop_def)

lemma pop_when_comm: "pop_when b a (dict_pop kv k) = dict_pop (pop_when b a kv) k"
  by (simp add: pop_when_def dict_pop_comm)

lemma map_of_pop_when: "map_of (pop_when b a kv) k = (if b \<and> k = a then None else map_of kv k)"
  by (simp add: pop_when_def)

lemma scoped_fields_pop_comm:
  assumes "k \<noteq> ''applicationAuthenticationMode''"
  shows "scoped_fields stage mode (dict_pop kv k) = dict_pop (scoped_fields stage mode kv) k"
  using assms unfolding scoped_fields_def Let_def
  by (simp add: pop_when_comm dict_pop_set_other [of _ k] dict_pop_comm [of _ k "''parameters''"])

lemma scoped_fields_drop:
  assumes "later_section stage k"
  shows "map_of (scoped_fields stage mode kv) k = None"
  using assms unfolding later_section_def later_sections_def scoped_fields_def Let_def
  by (simp only: list_ex_iff list.set bex_simps prod.case, elim disjE conjE FalseE) (simp_all add: map_of_pop_when)

lemma later_section_names: "later_section stage k \<Longrightarrow> k \<noteq> ''applicationAuthenticationMode'' \<and> k \<noteq> ''parameters''"
  by (auto simp: later_section_def later_sections_def)

lemma scoped_fields_later:
  assumes "later_section stage k"
  shows "scoped_fields stage mode (dict_set kv k v) = scoped_fields stage mode kv"
proof -
  have "scoped_fields stage mode kv = scoped_fields stage mode (dict_pop kv k)" for kv
    using scoped_fields_pop_comm [of k] later_section_names [OF assms] dict_pop_absent [OF scoped_fields_drop [OF assms]] by simp
  from this [of "dict_set kv k v"] this [of kv] show ?thesis
    by (simp add: dict_pop_of_set)
qed

text \<open>The parameters that a later component has are skipped.\<close>

lemma fold_res_skip:
  fixes f :: "string \<times> json \<Rightarrow> obj \<Rightarrow> obj res"
  assumes "\<And>w acc. f (name, w) acc = Inr acc"
  shows "fold_res f (dict_set ps name v) acc = fold_res f ps acc"
  by (induction ps arbitrary: acc) (auto simp: assms intro!: arg_cong2 [where f = bindr])

lemma fold_res_same:
  fixes f :: "string \<times> json \<Rightarrow> obj \<Rightarrow> obj res"
  assumes "map_of ps name = Some u" and "\<And>acc. f (name, w) acc = f (name, u) acc"
  shows "fold_res f (dict_set ps name w) acc = fold_res f ps acc"
  using assms(1)
proof (induction ps arbitrary: acc)
  case (Cons p ps)
  obtain k v where p: "p = (k, v)" by (cases p)
  show ?case
  proof (cases "k = name")
    case True
    then show ?thesis using Cons.prems p assms(2) by simp
  next
    case False
    then show ?thesis using Cons.prems p Cons.IH by (auto intro!: arg_cong2 [where f = bindr])
  qed
qed simp

lemma dict_pop_twice: "dict_pop (dict_pop kv k) k = dict_pop kv k"
  by simp

lemma scoped_values_later:
  assumes "(field, first) \<in> set later_platform_fields" and "stage < first"
  shows "scoped_values stage ''platform'' (dict_set old field v) = scoped_values stage ''platform'' old"
proof -
  have "scoped_values stage ''platform'' kv = scoped_values stage ''platform'' (dict_pop kv field)" for kv
    using assms unfolding later_platform_fields_def scoped_values_def pop_when_def
    by (auto simp: dict_pop_comm [of _ field] dict_pop_twice)
  from this [of "dict_set old field v"] this [of old] show ?thesis
    by (simp add: dict_pop_of_set)
qed

lemma scoped_parameters_later:
  assumes "later_parameters stage ps name w"
  shows "scoped_parameters stage (dict_set ps name w) = scoped_parameters stage ps"
proof (cases "case map_of COMPONENTS name of Some c \<Rightarrow> stage < first_stage c | None \<Rightarrow> False")
  case True
  then show ?thesis
    unfolding scoped_parameters_def by (intro fold_res_skip) (simp split: option.splits)
next
  case False
  then obtain old field first v where n: "name = ''platform''" and old: "map_of ps name = Some (JObj old)"
    and f: "(field, first) \<in> set later_platform_fields" "stage < first" and w: "w = JObj (dict_set old field v)"
    using assms unfolding later_parameters_def by blast
  show ?thesis
    unfolding scoped_parameters_def
    by (rule fold_res_same [OF old]) (simp add: n w scoped_values_later [OF f] split: option.splits)
qed

lemma scoped_fields_parameters: "scoped_fields stage mode (dict_set kv ''parameters'' v) = scoped_fields stage mode kv"
  unfolding scoped_fields_def by (simp add: dict_pop_of_set)

text \<open>
  C18: the evidence of a stage stays valid when the configuration of later stages changes.  The
  fingerprint of a stage is the same after a change of a section that belongs to a later stage
  and of parameters that belong to a later stage (those of a component that is deployed first
  in a later stage, or the fields of the platform that stages 4 and 5 add), provided that the
  change leaves the name of the bootstrap workspace as it is and, for the stages 4 and 5, the
  authentication mode of the application: these two are part of the fingerprint.
\<close>

theorem later_configuration_keeps_evidence:
  assumes "map_of kv ''parameters'' = Some (JObj ps)"
    and "later_section stage part" and "later_parameters stage ps name w"
    and "kv' = dict_set (dict_set kv part v) ''parameters'' (JObj (dict_set ps name w))"
    and "bootstrap_workspace (JObj kv') = bootstrap_workspace (JObj kv)"
    and "4 \<le> stage \<and> stage < 6 \<longrightarrow> login_mode kv' = login_mode kv"
  shows "stage_fingerprint sha (JObj kv') stage = stage_fingerprint sha (JObj kv) stage"
proof -
  have part: "part \<noteq> ''parameters''" using later_section_names [OF assms(2)] by blast
  have fields: "scoped_fields stage mode kv' = scoped_fields stage mode kv" for mode
    by (simp add: assms(4) scoped_fields_parameters scoped_fields_later [OF assms(2)])
  have mode: "(if 4 \<le> stage \<and> stage < 6
            then dget (dgetO (dgetO (val (JObj kv')) ''application'') ''authentication'') ''mode'' (JStr ''entra'') else val JNull) =
       (if 4 \<le> stage \<and> stage < 6
            then dget (dgetO (dgetO (val (JObj kv)) ''application'') ''authentication'') ''mode'' (JStr ''entra'') else val JNull)"
    using assms(6) unfolding login_mode_def by simp
  have ps: "items (sub (val (JObj kv')) ''parameters'') = val (dict_set ps name w)" "items (sub (val (JObj kv)) ''parameters'') = val ps"
    using assms(1,4) by simp_all
  have "stage_scope (JObj kv') stage = stage_scope (JObj kv) stage"
    unfolding stage_scope_def mode assms(5) ps using fields scoped_parameters_later [OF assms(3)] by simp
  then show ?thesis
    by (simp add: stage_fingerprint_def)
qed

theorem later_configuration_keeps_evidence_witness:
  "stage_fingerprint (\<lambda>s. s) (JObj [(''parameters'', JObj [(''platform'', JObj [(''stage5Data'', JBool True)])]),
      (''application'', JObj [(''models'', JList [])])]) 4
    = stage_fingerprint (\<lambda>s. s) (JObj [(''parameters'', JObj [(''platform'', JObj [(''stage5Data'', JNull)])])]) 4"
  by (rule later_configuration_keeps_evidence [where part = "''application''" and name = "''platform''"
        and ps = "[(''platform'', JObj [(''stage5Data'', JNull)])]" and w = "JObj [(''stage5Data'', JBool True)]"
        and v = "JObj [(''models'', JList [])]"])
    (simp_all add: later_section_def later_sections_def later_parameters_def later_platform_fields_def bootstrap_workspace_def
      login_mode_def exI [of _ "''stage5Data''"])

end
