(* ===== verification/Evidence.thy ===== *)
theory Evidence
  imports Config_Facts
begin

text \<open>
  The acceptance of a stage, from \<open>scripts/migration_evidence.py\<close>: the pending checklist
  (\<open>draft_report\<close>), its confirmation by the one operator (\<open>confirm_report\<close>) and the ledger of
  evidence (\<open>record_evidence\<close>), which the deployment gate reads back through
  \<open>validate_evidence\<close>.  Times are microseconds, with their ISO text beside them where the code
  writes one.  The Markdown summary, in Chinese, is not modelled.
\<close>

section \<open>The pending checklist\<close>

definition pending_check :: json where
  "pending_check = JObj [(''status'', JStr ''pending''), (''evidence'', JStr ''REPLACE_ACTUAL_TEST_RESULT_AND_PRIVATE_REFERENCE'')]"

text \<open>\<open>{name: v for name in names}\<close>\<close>

definition dict_for :: "string list \<Rightarrow> json \<Rightarrow> json" where
  "dict_for names v = JObj (dict_update [] (map (\<lambda>n. (n, v)) names))"

definition draft_report :: "sha \<Rightarrow> json \<Rightarrow> int \<Rightarrow> json \<Rightarrow> string \<Rightarrow> json res" where
  "draft_report sha config stage revision now_text =
     bindr (sub (val config) ''environment'') (\<lambda>environment.
     bindr (stage_fingerprint sha config stage) (\<lambda>h.
     bindr (stage_checks stage config) (\<lambda>names.
     val (JObj [(''stage'', JInt stage), (''environment'', environment), (''configSha256'', JStr h),
       (''revision'', revision), (''generatedAt'', JStr now_text), (''observedAt'', JStr ''REPLACE_ACTUAL_UTC_ACCEPTANCE_TIME''),
       (''checks'', dict_for names pending_check)]))))"

section \<open>The confirmation of the operator\<close>

text \<open>\<open>re.split("[,\s]+", s)\<close>: a separator at an end leaves an empty string there.\<close>

definition is_separator :: "char \<Rightarrow> bool" where
  "is_separator c \<longleftrightarrow> c = CHR '','' \<or> is_space c"

lemma dropWhile_shorter: "length (dropWhile P xs) \<le> length xs"
  by (induction xs) auto

function split_ids :: "string \<Rightarrow> string list" where
  "split_ids s =
     takeWhile (Not \<circ> is_separator) s #
       (case dropWhile (Not \<circ> is_separator) s of [] \<Rightarrow> [] | c # r \<Rightarrow> split_ids (dropWhile is_separator r))"
  by pat_completeness auto

termination
proof (relation "measure length", simp)
  fix s c r
  assume "dropWhile (Not \<circ> is_separator) s = c # r"
  then have "Suc (length r) \<le> length s"
    using dropWhile_shorter [of "Not \<circ> is_separator" s] by simp
  then show "(dropWhile is_separator r, s) \<in> measure length"
    using dropWhile_shorter [of is_separator r] by simp
qed

declare split_ids.simps [simp del]

text \<open>\<open>"REPLACE" in s.upper()\<close>: no other character has a capital among these letters.\<close>

definition to_upper :: "char \<Rightarrow> char" where
  "to_upper c = (if is_lower c then char_of (of_char c - 32 :: nat) else c)"

definition placeholder_text :: "string \<Rightarrow> bool" where
  "placeholder_text s = is_substring ''REPLACE'' (map to_upper s)"

definition EXECUTION_ID :: rx where
  "EXECUTION_ID = cat [Cls (between 49 57), times 0 19 (Cls is_digit)]"

definition text_in :: "json \<Rightarrow> string \<Rightarrow> string res" where
  "text_in d k = str_of (dget (val d) k (JStr []))"

definition check_actor :: "json \<Rightarrow> json \<Rightarrow> unit res" where
  "check_actor login actor =
     bindr (text_in actor ''login'') (\<lambda>a. bindr (str_of (val login)) (\<lambda>l.
     check (conjr (val (lower a = lower l)) (bindr (text_in actor ''triggeringLogin'') (\<lambda>t. val (lower t = lower l))))
       ''Only the configured GitHub operator may confirm or rerun confirmation'' (
     check (all_res (\<lambda>k. fullmatch EXECUTION_ID (dget (val actor) k (JStr []))) [''id'', ''runId'', ''runAttempt''])
       ''GitHub actor and execution identifiers are required'' (val ()))))"

definition report_scope :: "sha \<Rightarrow> json \<Rightarrow> int \<Rightarrow> json \<Rightarrow> obj res" where
  "report_scope sha config stage revision =
     bindr (sub (val config) ''environment'') (\<lambda>environment.
     bindr (stage_fingerprint sha config stage) (\<lambda>h.
     val [(''stage'', JInt stage), (''environment'', environment), (''revision'', revision), (''configSha256'', JStr h)]))"

definition in_scope :: "json \<Rightarrow> obj \<Rightarrow> bool res" where
  "in_scope d expected = all_res (\<lambda>(k, v). eqr (dget0 (val d) k) (val v)) expected"

fun all_pending :: "string list \<Rightarrow> json \<Rightarrow> bool" where
  "all_pending names (JObj kv) =
     (set (keys_of kv) = set names \<and>
        list_all (\<lambda>(k, v). case v of JObj r \<Rightarrow> lookup_or r ''status'' JNull = JStr ''pending'' | _ \<Rightarrow> False) kv)"
| "all_pending names _ = False"

definition generated_at :: "json \<Rightarrow> moment res" where
  "generated_at checklist = bindr (text_in checklist ''generatedAt'') (\<lambda>s. fromisoformat (replace ''Z'' ''+00:00'' s))"

fun observation_ok :: "json \<Rightarrow> bool" where
  "observation_ok (JStr s) = (12 \<le> length (strip s) \<and> length (strip s) \<le> 4000 \<and> \<not> placeholder_text s)"
| "observation_ok _ = False"

definition confirmed_check :: "string \<Rightarrow> json" where
  "confirmed_check notes =
     JObj [(''status'', JStr ''passed''), (''evidence'', JStr (strip notes)), (''verification'', JStr ''operator-confirmed'')]"

definition confirmed_report :: "obj \<Rightarrow> json \<Rightarrow> string list \<Rightarrow> json \<Rightarrow> json \<Rightarrow> string \<Rightarrow> json res" where
  "confirmed_report expected checklist required notes actor now_text =
     bindr (sub (val checklist) ''generatedAt'') (\<lambda>generated.
     bindr (str_of (val notes)) (\<lambda>text.
     bindr (map_res (\<lambda>(k, field). mapr (\<lambda>v. (k, v)) (sub (val actor) field))
       [(''githubLogin'', ''login''), (''githubActorId'', ''id''), (''runId'', ''runId''), (''runAttempt'', ''runAttempt'')]) (\<lambda>who.
     val (JObj (expected @ [(''generatedAt'', generated), (''observedAt'', JStr now_text),
       (''checks'', dict_for required (confirmed_check text)),
       (''confirmation'', JObj ((''method'', JStr ''manual-workflow'') # who @ [(''independentlyVerified'', JBool False)]))])))))"

definition confirm_report ::
    "sha \<Rightarrow> json \<Rightarrow> int \<Rightarrow> json \<Rightarrow> json \<Rightarrow> json \<Rightarrow> json \<Rightarrow> json \<Rightarrow> int \<Rightarrow> string \<Rightarrow> json res" where
  "confirm_report sha config stage revision checklist checked_items notes actor now now_text =
     bindr (approval_policy config) (\<lambda>policy.
     bindr (dget (dgetO (val config) ''governance'') ''githubLogin'' (JStr [])) (\<lambda>login.
     check (val (fst policy = ''single-operator'' \<and> length (snd policy) = 1 \<and> truth login))
       ''Manual confirmation requires the approved single-operator githubLogin'' (
     seqr (check_actor login actor) (
     bindr (report_scope sha config stage revision) (\<lambda>expected.
     check (conjr (val (is_dict checklist)) (in_scope checklist expected)) ''Reviewed checklist scope or revision changed'' (
     bindr (generated_at checklist) (\<lambda>generated.
     check (val (recent now generated)) ''Reviewed checklist is expired or has an invalid timestamp'' (
     bindr (stage_checks stage config) (\<lambda>required.
     bindr (dgetO (val checklist) ''checks'') (\<lambda>checks.
     check (val (all_pending required checks)) ''Select a pending checklist generated for this stage'' (
     check (val (is_str checked_items)) ''Provide the IDs of each manually checked item'' (
     bindr (str_of (val checked_items)) (\<lambda>chosen.
     let selected = split_ids (strip chosen) in
     check (val (distinct selected \<and> set selected = set required))
       ''Explicitly confirm every required check ID once; missing or unknown checks are rejected'' (
     check (val (observation_ok notes)) ''Provide concise actual observations and evidence references, without secrets'' (
     confirmed_report expected checklist required notes actor now_text)))))))))))))))"

section \<open>The ledger\<close>

fun stage_int :: "json \<Rightarrow> int option" where
  "stage_int (JObj kv) = (case lookup_or kv ''stage'' JNull of JInt n \<Rightarrow> Some n | _ \<Rightarrow> None)"
| "stage_int _ = None"

fun evidence_ok :: "json \<Rightarrow> bool" where
  "evidence_ok (JStr s) = (12 \<le> length (strip s) \<and> \<not> placeholder_text s)"
| "evidence_ok _ = False"

definition check_result :: "json \<Rightarrow> unit res" where
  "check_result outcome =
     check (conjr (val (is_dict outcome)) (eqs (dget0 (val outcome) ''status'') ''passed''))
       ''Acceptance report contains a check that has not passed'' (
     bindr (dget (val outcome) ''evidence'' (JStr [])) (\<lambda>detail.
     check (val (evidence_ok detail)) ''Actual test results and evidence references are required'' (val ())))"

text \<open>\<open>isinstance(checks, dict) and set(checks) == set(names)\<close>, then the loop over its values.\<close>

definition check_results :: "string list \<Rightarrow> json \<Rightarrow> unit res" where
  "check_results names checks =
     check (val (keys_are names checks)) ''Acceptance report check set is incomplete'' (
     bindr (items (val checks)) (\<lambda>kv. each (\<lambda>p. check_result (snd p)) kv))"

definition evidence_record :: "sha \<Rightarrow> json \<Rightarrow> int \<Rightarrow> json \<Rightarrow> json \<Rightarrow> json \<Rightarrow> json \<Rightarrow> json res" where
  "evidence_record sha config stage revision report report_url approvers =
     bindr (sub (val config) ''environment'') (\<lambda>environment.
     bindr (stage_fingerprint sha config stage) (\<lambda>h.
     bindr (approval_policy config) (\<lambda>policy.
     bindr (stage_checks stage config) (\<lambda>names.
     bindr (dget0 (val report) ''observedAt'') (\<lambda>observed.
     bindr (has (val report) ''confirmation'') (\<lambda>confirmed.
     bindr (if confirmed then mapr (\<lambda>c. [(''confirmation'', c)]) (sub (val report) ''confirmation'') else val []) (\<lambda>confirmation.
     val (JObj ([(''stage'', JInt stage), (''environment'', environment), (''binding'', JStr ''stage-config''),
       (''configSha256'', JStr h), (''revision'', revision), (''approvalMode'', JStr (fst policy)), (''status'', JStr ''passed''),
       (''checks'', JList (map JStr names)), (''approvedBy'', approvers), (''observedAt'', observed), (''reportUrl'', report_url),
       (''reportSha256'', JStr (fingerprint sha report))] @ confirmation)))))))))"

definition next_stage :: "json \<Rightarrow> int \<Rightarrow> int res" where
  "next_stage config stage =
     mapr (\<lambda>stages. case filter (\<lambda>s. stage < s) stages of [] \<Rightarrow> 10 | s # _ \<Rightarrow> s) (active_stages config)"

definition stage_of :: "json \<Rightarrow> int" where
  "stage_of entry = the (stage_int entry)"

definition record_evidence ::
    "sha \<Rightarrow> json \<Rightarrow> int \<Rightarrow> json \<Rightarrow> json \<Rightarrow> json \<Rightarrow> json \<Rightarrow> json \<Rightarrow> int \<Rightarrow> json list res" where
  "record_evidence sha config stage revision previous report report_url approvers now =
     check (val (case previous of JList xs \<Rightarrow> list_all (\<lambda>e. stage_int e \<noteq> None) xs | _ \<Rightarrow> False))
       ''Invalid prior evidence ledger'' (
     bindr (list_of (val previous)) (\<lambda>entries.
     let predecessors = filter (\<lambda>e. stage_of e < stage) entries in
     bindr (validate_evidence sha (JList predecessors) stage config revision now) (\<lambda>_.
     check (val (is_dict report)) ''Acceptance report must be an object'' (
     bindr (report_scope sha config stage revision) (\<lambda>expected.
     check (in_scope report expected) ''Acceptance report scope or revision mismatch'' (
     bindr (dgetO (val report) ''checks'') (\<lambda>checks.
     bindr (stage_checks stage config) (\<lambda>names.
     seqr (check_results names checks) (
     bindr (evidence_record sha config stage revision report report_url approvers) (\<lambda>new.
     let ledger = sort_key stage_of (predecessors @ [new]) in
     bindr (next_stage config stage) (\<lambda>following.
     bindr (validate_evidence sha (JList ledger) following config revision now) (\<lambda>_.
     val ledger))))))))))))"

section \<open>What the ledger shows\<close>

text \<open>A check that passed, with an actual observation.\<close>

definition passed_check :: "json \<Rightarrow> bool" where
  "passed_check v \<longleftrightarrow>
     (\<exists>r text. v = JObj r \<and> map_of r ''status'' = Some (JStr ''passed'') \<and> map_of r ''evidence'' = Some (JStr text) \<and>
        12 \<le> length (strip text) \<and> \<not> placeholder_text text)"

lemma evidence_okD: "evidence_ok v \<Longrightarrow> \<exists>s. v = JStr s \<and> 12 \<le> length (strip s) \<and> \<not> placeholder_text s"
  by (cases v) auto

lemma check_result_ok: "check_result v = Inr u \<longleftrightarrow> passed_check v"
proof
  assume ok: "check_result v = Inr u"
  then obtain r where r: "v = JObj r" by (cases v) (auto simp: check_result_def check_ok)
  have "lookup_or r ''status'' JNull = JStr ''passed''" "evidence_ok (lookup_or r ''evidence'' (JStr []))"
    using ok by (auto simp: r check_result_def check_ok bindr_ok eqs_def)
  moreover from this(2) obtain s where "lookup_or r ''evidence'' (JStr []) = JStr s" "12 \<le> length (strip s)" "\<not> placeholder_text s"
    using evidence_okD by blast
  moreover have "s \<noteq> []" using calculation by (auto simp: strip_def)
  ultimately show "passed_check v"
    unfolding passed_check_def r by (auto intro: lookup_str)
next
  assume "passed_check v"
  then show "check_result v = Inr u"
    by (auto simp: passed_check_def check_result_def eqs_def lookup_or_def)
qed

lemma check_results_ok:
  "check_results names checks = Inr u \<longleftrightarrow>
     (\<exists>kv. checks = JObj kv \<and> set (keys_of kv) = set names \<and> (\<forall>p \<in> set kv. passed_check (snd p)))"
  by (cases checks) (auto simp: check_results_def check_ok bindr_ok each_ok check_result_ok keys_are_def)

lemma results_passed:
  assumes "check_results names checks = Inr u" and "n \<in> set names"
  obtains kv v where "checks = JObj kv" "map_of kv n = Some v" "passed_check v"
proof -
  obtain kv where kv: "checks = JObj kv" "set (keys_of kv) = set names" "\<forall>p \<in> set kv. passed_check (snd p)"
    using assms(1) by (auto simp: check_results_ok)
  then obtain v where v: "map_of kv n = Some v"
    using assms(2) by (metis keys_of_def map_of_eq_None_iff list.set_map not_None_eq)
  then show ?thesis using that kv by (force dest: map_of_SomeD)
qed

lemma fold_records:
  "fold_res (check_record sha config revision now policy) recs before = Inr completed \<Longrightarrow> completed = before @ map stage_of recs"
proof (induction recs arbitrary: before)
  case (Cons item recs)
  then obtain mid where m: "check_record sha config revision now policy item before = Inr mid"
      "fold_res (check_record sha config revision now policy) recs mid = Inr completed"
    by (auto simp: bindr_ok)
  from m(1) obtain s where "evidence_stage before item = Inr s" "mid = before @ [s]"
    by (auto simp: check_record_def bindr_ok check_ok seqr_ok)
  moreover from this(1) obtain kv where "item = JObj kv" "map_of kv ''stage'' = Some (JInt s)"
    using evidence_stage_ok by blast
  ultimately show ?case
    using Cons.IH [OF m(2)] by (simp add: stage_of_def lookup_or_def)
qed simp

lemma validated_stages:
  assumes "validate_evidence sha (JList recs) stage config revision now = Inr completed"
  shows "completed = map stage_of recs" and "distinct completed"
proof -
  obtain policy where p: "fold_res (check_record sha config revision now policy) recs [] = Inr completed"
    using assms by (auto simp: validate_evidence_def bindr_ok check_ok)
  show "completed = map stage_of recs" using fold_records [OF p] by simp
  show "distinct completed" using check_records_ok [OF p] by simp
qed

lemma recorded:
  assumes "record_evidence sha config stage revision previous report report_url approvers now = Inr ledger"
  obtains entries names checks new following completed where
    "previous = JList entries" "stage_checks stage config = Inr names" "dgetO (val report) ''checks'' = Inr checks"
    "check_results names checks = Inr ()" "ledger = sort_key stage_of (filter (\<lambda>e. stage_of e < stage) entries @ [new])"
    "evidence_record sha config stage revision report report_url approvers = Inr new"
    "next_stage config stage = Inr following" "validate_evidence sha (JList ledger) following config revision now = Inr completed"
proof -
  obtain entries where e: "previous = JList entries"
    using assms by (cases previous) (auto simp: record_evidence_def check_ok)
  show ?thesis
    using assms unfolding record_evidence_def e
    by (auto simp: check_ok bindr_ok seqr_ok Let_def intro!: that [OF e] simp del: dget_ok)
qed

lemma evidence_record_stage: "evidence_record sha config stage revision report report_url approvers = Inr new \<Longrightarrow> stage_of new = stage"
  by (auto simp: evidence_record_def bindr_ok stage_of_def lookup_or_def)

text \<open>
  C25: a ledger that \<open>record_evidence\<close> returns has the earlier ledger and one new record of the
  stage, in the order of the stages, each stage once; the report named every exit check of the
  stage, each with \<open>passed\<close> and an actual observation; and the deployment gate of the next
  active stage accepts the ledger.
\<close>

theorem recorded_evidence_passed:
  assumes "record_evidence sha config stage revision previous report report_url approvers now = Inr ledger"
  shows "\<exists>names checks following completed.
    stage_checks stage config = Inr names \<and> dgetO (val report) ''checks'' = Inr (JObj checks) \<and>
    (\<forall>n \<in> set names. \<exists>v. map_of checks n = Some v \<and> passed_check v) \<and>
    sorted (map stage_of ledger) \<and> distinct (map stage_of ledger) \<and> stage \<in> set (map stage_of ledger) \<and>
    (\<forall>e. e \<in> set ledger \<and> stage_of e \<noteq> stage \<longrightarrow> (\<exists>entries. previous = JList entries \<and> e \<in> set entries)) \<and>
    next_stage config stage = Inr following \<and>
    validate_evidence sha (JList ledger) following config revision now = Inr completed"
proof -
  obtain entries names checks new following completed where *:
    "previous = JList entries" "stage_checks stage config = Inr names" "dgetO (val report) ''checks'' = Inr checks"
    "check_results names checks = Inr ()" "ledger = sort_key stage_of (filter (\<lambda>e. stage_of e < stage) entries @ [new])"
    "evidence_record sha config stage revision report report_url approvers = Inr new"
    "next_stage config stage = Inr following" "validate_evidence sha (JList ledger) following config revision now = Inr completed"
    by (rule recorded [OF assms])
  obtain kv where kv: "checks = JObj kv"
    using *(4) by (auto simp: check_results_ok)
  have "\<forall>n \<in> set names. \<exists>v. map_of kv n = Some v \<and> passed_check v"
    using results_passed [OF *(4)] kv by blast
  moreover have "stage_of new = stage"
    by (rule evidence_record_stage [OF *(6)])
  moreover have "distinct (map stage_of ledger)"
    using validated_stages [OF *(8)] by simp
  ultimately show ?thesis
    using * kv by (intro exI [of _ names] exI [of _ kv] exI [of _ following] exI [of _ completed]) auto
qed

text \<open>The acceptance of stage 0 in the sample environment.\<close>

definition staged_config :: json where
  "staged_config = JObj [(''environment'', JStr ''dev''), (''parameters'', JObj [])]"

definition sample_checks :: "string list" where
  "sample_checks = [''inventory'', ''backup_restore'', ''key_salt_recovery'', ''protocol_baseline'']"

definition sample_report :: json where
  "sample_report = JObj
     [(''stage'', JInt 0), (''environment'', JStr ''dev''), (''configSha256'', JStr (sample_hex 64)), (''revision'', JStr (sample_hex 40)),
      (''observedAt'', JStr ''2026-01-02T00:00:00Z''),
      (''checks'', dict_for sample_checks (JObj [(''status'', JStr ''passed''), (''evidence'', JStr ''seen in the run of January'')]))]"

definition sample_approvers :: json where
  "sample_approvers = JList [JStr ''00000000-0000-0000-0000-000000000001'', JStr ''00000000-0000-0000-0000-000000000002'']"

definition sample_ledger :: "json list" where
  "sample_ledger = [JObj
     [(''stage'', JInt 0), (''environment'', JStr ''dev''), (''binding'', JStr ''stage-config''),
      (''configSha256'', JStr (sample_hex 64)), (''revision'', JStr (sample_hex 40)), (''approvalMode'', JStr ''dual''),
      (''status'', JStr ''passed''), (''checks'', JList (map JStr sample_checks)), (''approvedBy'', sample_approvers),
      (''observedAt'', JStr ''2026-01-02T00:00:00Z''), (''reportUrl'', JStr ''https://reports.corp/1''),
      (''reportSha256'', JStr (sample_hex 64))]]"

lemma sample_recorded:
  "record_evidence (\<lambda>_. sample_hex 64) staged_config 0 (JStr (sample_hex 40)) (JList []) sample_report
     (JStr ''https://reports.corp/1'') sample_approvers sample_now = Inr sample_ledger"
  by code_simp

theorem recorded_evidence_passed_witness:
  "\<exists>names checks following completed.
    stage_checks 0 staged_config = Inr names \<and> dgetO (val sample_report) ''checks'' = Inr (JObj checks) \<and>
    (\<forall>n \<in> set names. \<exists>v. map_of checks n = Some v \<and> passed_check v) \<and>
    sorted (map stage_of sample_ledger) \<and> distinct (map stage_of sample_ledger) \<and> 0 \<in> set (map stage_of sample_ledger) \<and>
    (\<forall>e. e \<in> set sample_ledger \<and> stage_of e \<noteq> 0 \<longrightarrow> (\<exists>entries. JList [] = JList entries \<and> e \<in> set entries)) \<and>
    next_stage staged_config 0 = Inr following \<and>
    validate_evidence (\<lambda>_. sample_hex 64) (JList sample_ledger) following staged_config (JStr (sample_hex 40)) sample_now = Inr completed"
  by (rule recorded_evidence_passed [OF sample_recorded])

section \<open>Checklists\<close>

lemma keys_dict_for: "set (keys_of (dict_update [] (map (\<lambda>n. (n, v)) names))) = set names"
proof -
  have "set (keys_of (dict_update kv (map (\<lambda>n. (n, v)) names))) = set (keys_of kv) \<union> set names" for kv
    by (induction names arbitrary: kv) (auto simp: dict_update_def)
  then show ?thesis by (simp add: keys_of_def)
qed

lemma values_dict_for: "p \<in> set (dict_update [] (map (\<lambda>n. (n, v)) names)) \<Longrightarrow> snd p = v"
proof -
  have set_dict: "q \<in> set (dict_set kv k v) \<Longrightarrow> snd q = v \<or> q \<in> set kv" for q k kv
    by (induction kv) (auto split: if_splits)
  have "p \<in> set (dict_update kv (map (\<lambda>n. (n, v)) names)) \<Longrightarrow> snd p = v \<or> p \<in> set kv" for kv
    by (induction names arbitrary: kv) (auto simp: dict_update_def dest: set_dict)
  then show "p \<in> set (dict_update [] (map (\<lambda>n. (n, v)) names)) \<Longrightarrow> snd p = v" by fastforce
qed

lemma stages_have_checks: "0 \<le> stage \<Longrightarrow> stage \<le> 9 \<Longrightarrow> snd (STAGES ! nat stage) \<noteq> []"
proof -
  assume "0 \<le> stage" "stage \<le> 9"
  then have "nat stage < length STAGES" by (simp add: STAGES_def)
  moreover have "list_all (\<lambda>s. snd s \<noteq> []) STAGES" by (simp add: STAGES_def)
  ultimately show ?thesis by (simp add: list_all_length)
qed

lemma stage_checks_nonempty:
  assumes "stage_checks stage config = Inr names"
  shows "names \<noteq> []"
proof -
  obtain stages where s: "active_stages config = Inr stages" "stage \<in> set stages"
    using assms by (auto simp: stage_checks_def require_active_def bindr_ok check_ok)
  then have "0 \<le> stage" "stage \<le> 9"
    by (auto simp: active_stages_def bindr_ok)
  from stages_have_checks [OF this] assms show ?thesis
    by (auto simp: stage_checks_def require_active_def bindr_ok check_ok Let_def content_checks_def set_last_def greenfield_checks_def
      split: if_splits)
qed

text \<open>
  C27: a checklist as it was generated is never accepted as evidence: \<open>record_evidence\<close> refuses
  every report of \<open>draft_report\<close>, whatever the ledger, the approvers and the time.
\<close>

theorem drafts_are_not_evidence:
  assumes "draft_report sha config stage revision now_text = Inr report"
  shows "record_evidence sha' config stage revision' previous report report_url approvers now \<noteq> Inr ledger"
proof
  assume "record_evidence sha' config stage revision' previous report report_url approvers now = Inr ledger"
  then obtain names checks where r: "stage_checks stage config = Inr names" "dgetO (val report) ''checks'' = Inr checks"
      "check_results names checks = Inr ()"
    by (rule recorded)
  have c: "checks = dict_for names pending_check"
    using assms r(1,2) by (auto simp: draft_report_def bindr_ok lookup_or_def)
  obtain n where n: "n \<in> set names" using stage_checks_nonempty [OF r(1)] by (cases names) auto
  obtain kv v where kv: "checks = JObj kv" "map_of kv n = Some v" "passed_check v"
    by (rule results_passed [OF r(3) n])
  then have "v = pending_check"
    using c values_dict_for [of "(n, v)" pending_check names] by (auto simp: dict_for_def dest: map_of_SomeD)
  then show False using kv(3) by (simp add: passed_check_def pending_check_def)
qed

theorem drafts_are_not_evidence_witness:
  "\<forall>previous report_url approvers now ledger.
    record_evidence (\<lambda>_. sample_hex 64) staged_config 0 (JStr (sample_hex 40)) previous
      (JObj [(''stage'', JInt 0), (''environment'', JStr ''dev''), (''configSha256'', JStr (sample_hex 64)),
        (''revision'', JStr (sample_hex 40)), (''generatedAt'', JStr ''2026-01-02T00:00:00+00:00''),
        (''observedAt'', JStr ''REPLACE_ACTUAL_UTC_ACCEPTANCE_TIME''), (''checks'', dict_for sample_checks pending_check)])
      report_url approvers now \<noteq> Inr ledger"
proof -
  have "draft_report (\<lambda>_. sample_hex 64) staged_config 0 (JStr (sample_hex 40)) ''2026-01-02T00:00:00+00:00'' =
     Inr (JObj [(''stage'', JInt 0), (''environment'', JStr ''dev''), (''configSha256'', JStr (sample_hex 64)),
        (''revision'', JStr (sample_hex 40)), (''generatedAt'', JStr ''2026-01-02T00:00:00+00:00''),
        (''observedAt'', JStr ''REPLACE_ACTUAL_UTC_ACCEPTANCE_TIME''), (''checks'', dict_for sample_checks pending_check)])"
    by code_simp
  from drafts_are_not_evidence [OF this] show ?thesis by blast
qed

section \<open>Confirmations\<close>

lemma observation_okD: "observation_ok v \<Longrightarrow> \<exists>s. v = JStr s \<and> 12 \<le> length (strip s) \<and> length (strip s) \<le> 4000 \<and> \<not> placeholder_text s"
  by (cases v) auto

lemma is_substring_append: "is_substring p s \<Longrightarrow> is_substring p (t @ s)"
  by (induction t) auto

lemma is_substring_iff: "is_substring p s \<longleftrightarrow> (\<exists>a b. s = a @ p @ b)"
proof (induction s)
  case (Cons c cs)
  have "take (length p) (c # cs) = p \<longleftrightarrow> (\<exists>b. c # cs = p @ b)"
    by (metis append_eq_conv_conj append_take_drop_id)
  then show ?case
    using Cons by (auto simp: Cons_eq_append_conv)
qed auto

lemma strip_within: "\<exists>a b. s = a @ strip s @ b"
proof -
  have "rev (dropWhile P (rev u)) @ rev (takeWhile P (rev u)) = u" for P :: "char \<Rightarrow> bool" and u
    by (metis rev_append rev_rev_ident takeWhile_dropWhile_id)
  then show ?thesis
    unfolding strip_def by (metis append_assoc takeWhile_dropWhile_id)
qed

lemma strip_strip_text: "\<not> placeholder_text s \<Longrightarrow> \<not> placeholder_text (strip s)"
  using strip_within [of s] unfolding placeholder_text_def is_substring_iff
  by (metis append_assoc map_append)

lemma dropWhile_fixed: "xs = [] \<or> \<not> P (hd xs) \<Longrightarrow> dropWhile P xs = xs"
  by (cases xs) auto

lemma hd_rev_dropWhile: "rev (dropWhile P (rev xs)) \<noteq> [] \<Longrightarrow> hd (rev (dropWhile P (rev xs))) = hd xs"
  by (induction xs rule: rev_induct) (auto simp: hd_append)

lemma strip_strip: "strip (strip s) = strip s"
proof -
  define t where "t = dropWhile is_space s"
  define u where "u = rev (dropWhile is_space (rev t))"
  have "u = [] \<or> \<not> is_space (hd u)"
    using hd_rev_dropWhile [of is_space t] hd_dropWhile [of is_space s] unfolding u_def t_def by fastforce
  then have "dropWhile is_space u = u" by (rule dropWhile_fixed)
  moreover have "dropWhile is_space (rev u) = rev u"
    by (rule dropWhile_fixed) (metis u_def hd_dropWhile rev_is_Nil_conv rev_rev_ident)
  ultimately show ?thesis by (simp add: strip_def flip: t_def u_def)
qed

lemma confirmed_check_passes: "observation_ok (JStr notes) \<Longrightarrow> passed_check (confirmed_check notes)"
  by (simp add: passed_check_def confirmed_check_def strip_strip strip_strip_text)

lemma confirmed_results:
  assumes "confirmed_report expected checklist names notes actor now_text = Inr report" and "observation_ok notes"
    and "''checks'' \<notin> set (keys_of expected)"
  shows "bindr (dgetO (val report) ''checks'') (check_results names) = Inr ()"
proof -
  obtain t where t: "notes = JStr t" using observation_okD [OF assms(2)] by blast
  have "map_of expected ''checks'' = None"
    using assms(3) by (simp add: keys_of_def map_of_eq_None_iff)
  then have checks: "dgetO (val report) ''checks'' = Inr (dict_for names (confirmed_check t))"
    using assms(1) by (auto simp: confirmed_report_def bindr_ok t lookup_or_def map_add_def)
  have "\<forall>p \<in> set (dict_update [] (map (\<lambda>n. (n, confirmed_check t)) names)). passed_check (snd p)"
    using confirmed_check_passes assms(2) values_dict_for unfolding t by metis
  then show ?thesis
    unfolding checks bindr.simps check_results_ok dict_for_def using keys_dict_for by blast
qed

lemma report_scope_keys: "report_scope sha config stage revision = Inr expected \<Longrightarrow> ''checks'' \<notin> set (keys_of expected)"
  by (auto simp: report_scope_def bindr_ok keys_of_def)

text \<open>
  C26: a confirmation is the one approved operator's: the login of the run is the configured one,
  every exit check of the stage was typed exactly once and nothing else was, and the report has
  each of them passed in the form that the ledger asks for.
\<close>

theorem confirmations_are_the_operators:
  assumes "confirm_report sha config stage revision checklist checked_items notes actor now now_text = Inr report"
  shows "\<exists>names login operator chosen.
    approval_policy config = Inr (''single-operator'', [operator]) \<and> stage_checks stage config = Inr names \<and>
    text_in actor ''login'' = Inr login \<and>
    bindr (dgetO (val config) ''governance'') (\<lambda>g. mapr lower (text_in g ''githubLogin'')) = Inr (lower login) \<and>
    checked_items = JStr chosen \<and> distinct (split_ids (strip chosen)) \<and> set (split_ids (strip chosen)) = set names \<and>
    bindr (dgetO (val report) ''checks'') (check_results names) = Inr ()"
proof -
  obtain mode ids login expected names chosen where *:
      "approval_policy config = Inr (mode, ids)" "mode = ''single-operator''" "length ids = 1"
      "dget (dgetO (val config) ''governance'') ''githubLogin'' (JStr []) = Inr login"
      "check_actor login actor = Inr ()" "report_scope sha config stage revision = Inr expected"
      "stage_checks stage config = Inr names" "checked_items = JStr chosen" "distinct (split_ids (strip chosen))"
      "set (split_ids (strip chosen)) = set names" "observation_ok notes"
      "confirmed_report expected checklist names notes actor now_text = Inr report"
    using assms unfolding confirm_report_def Let_def
    by (auto simp: bindr_ok check_ok seqr_ok str_of_ok simp del: dget_ok)
  obtain a l where al: "text_in actor ''login'' = Inr a" "login = JStr l" "lower a = lower l"
    using *(5) by (auto simp: check_actor_def bindr_ok check_ok conjr_ok str_of_ok)
  obtain operator where "ids = [operator]" using *(3) by (cases ids) auto
  moreover have "bindr (dgetO (val config) ''governance'') (\<lambda>g. mapr lower (text_in g ''githubLogin'')) = Inr (lower a)"
    using *(4) al by (cases "dgetO (val config) ''governance''") (simp_all add: text_in_def)
  ultimately show ?thesis
    using * al(1) confirmed_results [OF *(12,11) report_scope_keys [OF *(6)]] by blast
qed

text \<open>A single operator confirms the checklist of stage 0.\<close>

definition operated_config :: json where
  "operated_config = JObj
     [(''environment'', JStr ''dev''), (''parameters'', JObj []),
      (''governance'', JObj [(''approvalMode'', JStr ''single-operator''),
         (''approverObjectIds'', JList [JStr ''00000000-0000-0000-0000-000000000007'']),
         (''singleOperatorRiskAccepted'', JBool True), (''githubLogin'', JStr ''Octo'')])]"

definition sample_actor :: json where
  "sample_actor = JObj [(''login'', JStr ''octo''), (''triggeringLogin'', JStr ''Octo''), (''id'', JStr ''583231''),
     (''runId'', JStr ''42''), (''runAttempt'', JStr ''1'')]"

definition typed_ids :: string where
  "typed_ids = '' inventory, backup_restore,key_salt_recovery protocol_baseline ''"

definition sample_checklist :: json where
  "sample_checklist = JObj
     [(''stage'', JInt 0), (''environment'', JStr ''dev''), (''configSha256'', JStr (sample_hex 64)),
      (''revision'', JStr (sample_hex 40)), (''generatedAt'', JStr ''2026-01-02T00:00:00+00:00''),
      (''observedAt'', JStr ''REPLACE_ACTUAL_UTC_ACCEPTANCE_TIME''), (''checks'', dict_for sample_checks pending_check)]"

definition sample_confirmed :: json where
  "sample_confirmed = JObj
     [(''stage'', JInt 0), (''environment'', JStr ''dev''), (''revision'', JStr (sample_hex 40)),
      (''configSha256'', JStr (sample_hex 64)), (''generatedAt'', JStr ''2026-01-02T00:00:00+00:00''),
      (''observedAt'', JStr ''2026-01-03T00:00:00+00:00''),
      (''checks'', dict_for sample_checks (confirmed_check ''seen in the run of January'')),
      (''confirmation'', JObj [(''method'', JStr ''manual-workflow''), (''githubLogin'', JStr ''octo''), (''githubActorId'', JStr ''583231''),
         (''runId'', JStr ''42''), (''runAttempt'', JStr ''1''), (''independentlyVerified'', JBool False)])]"

lemma sample_confirmation:
  "confirm_report (\<lambda>_. sample_hex 64) operated_config 0 (JStr (sample_hex 40)) sample_checklist (JStr typed_ids)
     (JStr ''seen in the run of January'') sample_actor sample_now ''2026-01-03T00:00:00+00:00'' = Inr sample_confirmed"
  by code_simp

theorem confirmations_are_the_operators_witness:
  "\<exists>names login operator chosen.
    approval_policy operated_config = Inr (''single-operator'', [operator]) \<and> stage_checks 0 operated_config = Inr names \<and>
    text_in sample_actor ''login'' = Inr login \<and>
    bindr (dgetO (val operated_config) ''governance'') (\<lambda>g. mapr lower (text_in g ''githubLogin'')) = Inr (lower login) \<and>
    JStr typed_ids = JStr chosen \<and> distinct (split_ids (strip chosen)) \<and> set (split_ids (strip chosen)) = set names \<and>
    bindr (dgetO (val sample_confirmed) ''checks'') (check_results names) = Inr ()"
  by (rule confirmations_are_the_operators [OF sample_confirmation])

end
