(* ===== verification/Local_Settings.thy ===== *)
theory Local_Settings
  imports Customer_Config
begin

text \<open>
  The first half of \<open>local_execution/runner.py\<close>: the steps of a local run, the validation of
  its settings, the configuration file, the identity of a step, the policy, the default operation
  and the environment variables a step runs with.
\<close>

section \<open>Steps\<close>

definition INFRASTRUCTURE_STEPS :: "(string \<times> int \<times> string) list" where
  "INFRASTRUCTURE_STEPS =
     [(''bootstrap'', 0, ''bootstrap''), (''network'', 0, ''network''), (''backup'', 0, ''backup''),
      (''execution-host-connectivity'', 0, ''runner-connectivity''),
      (''legacy-logging'', 1, ''legacy-logging''), (''monitoring'', 1, ''monitoring''),
      (''stage3-platform'', 3, ''platform''), (''stage4-platform'', 4, ''platform''),
      (''stage4-certificate-vault'', 4, ''certificate-vault''),
      (''stage4-target-connectivity'', 4, ''runner-target-connectivity''),
      (''stage4-aks-ingress-role'', 4, ''aks-ingress-role''), (''stage5-platform'', 5, ''platform''),
      (''stage7-proxy-foundation'', 7, ''proxy-foundation''), (''stage8-audit-foundation'', 8, ''audit-foundation''),
      (''stage8-audit-storage'', 8, ''audit''), (''stage8-observability'', 8, ''observability''),
      (''stage9-origin'', 9, ''origin''), (''stage9-edge-prepare'', 9, ''edge'')]"

definition RUNTIME_STEPS :: "(string \<times> int \<times> string) list" where
  "RUNTIME_STEPS =
     [(''monitoring-onboard'', 1, ''monitoring-onboard''), (''legacy-hardening'', 1, ''legacy-hardening''),
      (''legacy-access-restrict'', 1, ''legacy-access-restrict''), (''legacy-access-restore'', 1, ''legacy-access-restore''),
      (''stage4-cluster-bootstrap'', 4, ''cluster-bootstrap''), (''stage4-monitoring-onboard'', 4, ''monitoring-onboard''),
      (''stage4-certificate-renew'', 4, ''certificate-renew''), (''stage4-private-ingress'', 4, ''private-ingress''),
      (''stage5-database-roles'', 5, ''database-roles''), (''stage5-backend-secrets'', 5, ''backend-secrets''),
      (''stage5-restore-target'', 5, ''restore-target''), (''stage5-schema-migrate'', 5, ''schema-migrate''),
      (''stage6-application'', 6, ''application''), (''stage7-entra-apps'', 7, ''entra-apps''),
      (''stage7-entra-access'', 7, ''entra-access''), (''stage7-entra-revoke'', 7, ''entra-revoke''),
      (''stage7-admin-credentials'', 7, ''admin-credentials''),
      (''stage7-admin-credentials-rotate'', 7, ''admin-credentials-rotate''),
      (''stage7-admin-credentials-recover'', 7, ''admin-credentials-recover''),
      (''stage7-admin-session-rotate'', 7, ''admin-credentials-session-rotate''),
      (''stage7-admin-credentials-retire'', 7, ''admin-credentials-retire-expired''),
      (''stage7-proxy-credentials'', 7, ''proxy-credentials''), (''stage7-application'', 7, ''application''),
      (''stage8-application'', 8, ''application''), (''stage8-audit-pause'', 8, ''audit-pause''),
      (''stage8-audit-recover'', 8, ''audit-recover''), (''stage8-audit-resume'', 8, ''audit-resume''),
      (''stage9-edge-bind'', 9, ''edge-bind''), (''stage9-dns-publish'', 9, ''dns-publish''),
      (''stage9-dns-rollback'', 9, ''dns-rollback'')]"

definition IMAGE_STEPS :: "(string \<times> string) list" where
  "IMAGE_STEPS =
     [(''stage4-promote-backend-image'', ''backend''), (''stage7-promote-proxy-image'', ''proxy''),
      (''stage8-promote-collector-image'', ''collector'')]"

definition staged :: "string list \<Rightarrow> string list" where
  "staged steps = filter (\<lambda>s. starts_with s ''stage'') steps"

definition STEPS :: "string list" where
  "STEPS =
     [''config-check'', ''bootstrap'', ''network'', ''backup'', ''execution-host-connectivity'', ''connectivity-check'',
      ''backup-restore'', ''legacy-logging'', ''monitoring-onboard'', ''monitoring'', ''legacy-hardening'',
      ''legacy-access-restrict'', ''legacy-access-restore'', ''stage2-decisions'', ''stage3-source-check'',
      ''stage4-target-check''] @ map fst IMAGE_STEPS @ staged (map fst INFRASTRUCTURE_STEPS)
      @ staged (map fst RUNTIME_STEPS) @ [''stage9-edge-release'']"

definition AUTHENTICATION_PROFILES :: "string list" where
  "AUTHENTICATION_PROFILES =
     [''default'', ''deploy'', ''runtime'', ''database'', ''certificate'', ''entraBootstrap'', ''entraAccess'']"

definition LOCAL_SETTING_FIELDS :: "string list" where
  "LOCAL_SETTING_FIELDS =
     [''postgresRestoreImage'', ''executionHost'', ''authentication'', ''features'', ''runtimeInputs'',
      ''releaseReportPath'', ''imageSigning'']"

text \<open>A step is in one table only.\<close>

abbreviation infrastructure_step :: "string \<Rightarrow> bool" where
  "infrastructure_step step \<equiv> step \<in> fst ` set INFRASTRUCTURE_STEPS"

abbreviation runtime_step :: "string \<Rightarrow> bool" where
  "runtime_step step \<equiv> step \<in> fst ` set RUNTIME_STEPS"

abbreviation image_step :: "string \<Rightarrow> bool" where
  "image_step step \<equiv> step \<in> fst ` set IMAGE_STEPS"

section \<open>\<open>local_settings\<close>\<close>

text \<open>\<open>d.setdefault(k, v)\<close>: the value and the dict afterwards.\<close>

definition setdefault :: "obj \<Rightarrow> string \<Rightarrow> json \<Rightarrow> json \<times> obj" where
  "setdefault kv k d = (case map_of kv k of Some v \<Rightarrow> (v, kv) | None \<Rightarrow> (d, dict_set kv k d))"

definition DIGEST_IMAGE :: rx where
  "DIGEST_IMAGE = cat [plus1 (Cls (\<lambda>c. \<not> is_space c)), lit ''@sha256:'', times 64 64 hexlow]"

definition client_hex :: rx where
  "client_hex = Cls (\<lambda>c. is_digit c \<or> between 97 102 c \<or> between 65 70 c)"

definition CLIENT_ID :: rx where
  "CLIENT_ID = cat [times 8 8 client_hex, times 3 3 (cat [chr CHR ''-'', times 4 4 client_hex]), chr CHR ''-'', times 12 12 client_hex]"

definition check_restore_image :: "obj \<Rightarrow> unit res" where
  "check_restore_image settings =
     (let image_value = lookup_or settings ''postgresRestoreImage'' JNull in
      check (val (image_value = JNull \<or> matches_str DIGEST_IMAGE image_value))
        ''localExecution.postgresRestoreImage must pin a full image digest'' (val ()))"

definition check_host :: "json \<Rightarrow> unit res" where
  "check_host host =
     check (val (keys_are [''virtualNetworkId'', ''managePeering'', ''manageBlobDnsLink''] host))
       ''localExecution.executionHost has unexpected or missing fields'' (
     bindr (sub (val host) ''virtualNetworkId'') (\<lambda>network.
     check (val (is_str network \<and> truth network)) ''Configure the execution host VNet resource ID'' (
     bindr (sub (val host) ''managePeering'') (\<lambda>peering. bindr (sub (val host) ''manageBlobDnsLink'') (\<lambda>link.
     check (val (is_bool peering \<and> is_bool link)) ''Execution host connectivity switches must be booleans'' (val ()))))))"

definition check_profile :: "string \<times> json \<Rightarrow> unit res" where
  "check_profile p =
     (let profile = snd p in
     check (val (keys_within [''method'', ''clientId''] profile \<and> has (val profile) ''method'' = Inr True))
       ''Invalid local Azure authentication profile'' (
     bindr (sub (val profile) ''method'') (\<lambda>method.
     check (in_strs (val method) [''existing'', ''managed-identity'']) ''Unsupported local Azure authentication method'' (
     bindr (dget0 (val profile) ''clientId'') (\<lambda>client.
     check (disjr (val (client = JNull)) (fullmatch CLIENT_ID (val client)))
       ''Invalid Azure client ID in local authentication profile'' (
     check (val (method \<noteq> JStr ''managed-identity'' \<or> client \<noteq> JNull))
       ''Managed identity profile requires clientId'' (val ())))))))"

definition check_authentication :: "json \<Rightarrow> unit res" where
  "check_authentication authentication =
     check (val (is_dict authentication \<and> truth authentication \<and> keys_within AUTHENTICATION_PROFILES authentication))
       ''localExecution.authentication contains an unknown identity profile'' (
     bindr (items (val authentication)) (each check_profile))"

definition check_features :: "json \<Rightarrow> unit res" where
  "check_features features =
     check (val (keys_are [''entraMode'', ''allowTrafficRelease''] features))
       ''localExecution.features requires entraMode and allowTrafficRelease'' (
     check (conjr (in_strs (sub (val features) ''entraMode'') [''enabled'', ''deferred''])
             (testr is_bool (sub (val features) ''allowTrafficRelease'')))
       ''Invalid local feature decision'' (val ()))"

definition RUNTIME_INPUTS :: "string list" where
  "RUNTIME_INPUTS =
     [''backupBlob'', ''backupSha256'', ''postgresMigrationUser'', ''legacySaltSource'', ''privateApiIngressClass'',
      ''privateAdminIngressClass'', ''auditRecoveryCursor'']"

definition MIGRATION_INPUTS :: "string list" where
  "MIGRATION_INPUTS = [''backupBlob'', ''backupSha256'', ''postgresMigrationUser'', ''legacySaltSource'']"

definition check_inputs :: "string \<Rightarrow> json \<Rightarrow> unit res" where
  "check_inputs mode inputs =
     check (val (keys_within RUNTIME_INPUTS inputs)) ''localExecution.runtimeInputs contains unknown fields'' (
     check (disjr (negr (has (val inputs) ''legacySaltSource''))
             (in_strs (sub (val inputs) ''legacySaltSource'') [''secret'', ''master-key'']))
       ''localExecution.runtimeInputs.legacySaltSource must be secret or master-key'' (
     bindr (items (val inputs)) (\<lambda>kv.
     whenr (mode = ''greenfield'') (
       check (val (set MIGRATION_INPUTS \<inter> set (keys_of kv) = {}))
         ''Greenfield local execution cannot contain migration-only runtime inputs'' (val ())))))"

definition check_optional :: "obj \<Rightarrow> unit res" where
  "check_optional settings =
     seqr (each (\<lambda>field. check (val (map_of settings field \<noteq> Some JNull)) ''localExecution field cannot be null'' (val ()))
            [''releaseReportPath'', ''imageSigning'']) (
     seqr (case map_of settings ''releaseReportPath'' of None \<Rightarrow> val ()
       | Some v \<Rightarrow> check (val (is_str v \<and> truth v)) ''localExecution.releaseReportPath must be a file path'' (val ())) (
     case map_of settings ''imageSigning'' of None \<Rightarrow> val ()
       | Some v \<Rightarrow> check (val (case v of
           JObj kv \<Rightarrow> set (keys_of kv) \<subseteq> {''privateKeyPath'', ''publicKeyPath'', ''backendTargetTag'', ''proxyTargetTag'', ''collectorTargetTag''}
             \<and> (\<forall>p \<in> set kv. is_str (snd p) \<and> truth (snd p))
         | _ \<Rightarrow> False)) ''localExecution.imageSigning contains invalid fields'' (val ())))"

definition local_settings :: "json \<Rightarrow> obj res" where
  "local_settings document =
     bindr (dget0 (val document) ''localExecution'') (\<lambda>settings.
     bindr (deployment_mode document) (\<lambda>mode.
     check (val (case settings of
         JObj kv \<Rightarrow> set ([''executionHost''] @ (if mode = ''migration'' then [''postgresRestoreImage''] else [])) \<subseteq> set (keys_of kv)
           \<and> set (keys_of kv) \<subseteq> set LOCAL_SETTING_FIELDS
       | _ \<Rightarrow> False)) ''localExecution has unexpected or missing fields'' (
     bindr (items (val settings)) (\<lambda>settings.
     seqr (check_restore_image settings) (
     seqr (bindr (sub (val (JObj settings)) ''executionHost'') check_host) (
     let (authentication, settings) = setdefault settings ''authentication''
           (JObj [(''default'', JObj [(''method'', JStr ''existing'')])]) in
     seqr (check_authentication authentication) (
     let (features, settings) = setdefault settings ''features''
           (JObj [(''entraMode'', JStr ''deferred''), (''allowTrafficRelease'', JBool False)]) in
     seqr (check_features features) (
     let (inputs, settings) = setdefault settings ''runtimeInputs'' (JObj []) in
     seqr (check_inputs mode inputs) (
     seqr (check_optional settings) (
     val settings))))))))))"

section \<open>Identities\<close>

definition authentication_profile :: "obj \<Rightarrow> string \<Rightarrow> json res" where
  "authentication_profile settings name =
     bindr (sub (val (JObj settings)) ''authentication'') (\<lambda>profiles.
     bindr (dget0 (val profiles) ''default'') (\<lambda>fallback.
     bindr (dget (val profiles) name fallback) (\<lambda>profile.
     check (val (profile \<noteq> JNull)) ''Configure local Azure authentication profile'' (val profile))))"

definition entra_bootstrap_actions :: "string list" where
  "entra_bootstrap_actions =
     [''entra-apps'', ''admin-credentials'', ''admin-credentials-rotate'', ''admin-credentials-recover'',
      ''admin-credentials-session-rotate'', ''admin-credentials-retire-expired'']"

definition runtime_action :: "string \<Rightarrow> string option" where
  "runtime_action step = map_option snd (map_of RUNTIME_STEPS step)"

definition authentication_profile_for_step :: "string \<Rightarrow> string option" where
  "authentication_profile_for_step step =
     (if infrastructure_step step \<or> image_step step \<or> step = ''stage9-edge-release'' then Some ''deploy''
      else if step \<in> {''config-check'', ''stage2-decisions'', ''stage3-source-check''} then None
      else (case runtime_action step of None \<Rightarrow> Some ''runtime''
       | Some action \<Rightarrow>
           if action = ''database-roles'' then Some ''database''
           else if action = ''certificate-renew'' then Some ''certificate''
           else if action \<in> set entra_bootstrap_actions then Some ''entraBootstrap''
           else if action \<in> {''entra-access'', ''entra-revoke''} then Some ''entraAccess''
           else Some ''runtime''))"

section \<open>\<open>load_config\<close>\<close>

text \<open>The configuration names its own environment; anything but a known name is a mismatch.\<close>

definition validate_own :: "sha \<Rightarrow> obj \<Rightarrow> json res" where
  "validate_own sha kv =
     (case lookup_or kv ''environment'' JNull of
        JStr e \<Rightarrow> validate_config sha (JObj kv) e
      | v \<Rightarrow> (case validate_config sha (JObj kv) [] of
          Inl (MigrationError m) \<Rightarrow> if m = ''Environment mismatch'' \<and> \<not> hashable v then Inl TypeError else Inl (MigrationError m)
        | r \<Rightarrow> r))"

definition host_parameters :: "json \<Rightarrow> json res" where
  "host_parameters host =
     mapr JObj (map_res (\<lambda>(name, field). mapr (\<lambda>v. (name, v)) (sub (val host) field))
       [(''runnerVirtualNetworkId'', ''virtualNetworkId''), (''managePeering'', ''managePeering''),
        (''manageBlobDnsLink'', ''manageBlobDnsLink'')])"

definition load_document :: "sha \<Rightarrow> json \<Rightarrow> (json \<times> obj) res" where
  "load_document sha document =
     check (val (is_dict document)) ''Local customer configuration must be a JSON object'' (
     bindr (local_settings document) (\<lambda>settings.
     bindr (items (val document)) (\<lambda>kv.
     let customer = dict_pop kv ''localExecution'' in
     bindr (validate_own sha customer) (\<lambda>config.
     check (negr (has (sub (val config) ''parameters'') ''runner-connectivity''))
       ''Move execution host connectivity from parameters into localExecution.executionHost'' (
     bindr (sub (val (JObj settings)) ''executionHost'') (\<lambda>host.
     bindr (deployment_mode config) (\<lambda>mode.
     seqr (whenr (mode = ''greenfield'') (
       check (mapr (\<lambda>v. v = JBool False) (sub (val host) ''manageBlobDnsLink''))
         ''Greenfield execution host connectivity must not manage migration-only Blob DNS'' (val ()))) (
     bindr (host_parameters host) (\<lambda>connectivity.
     bindr (set_nested customer ''parameters'' ''runner-connectivity'' connectivity) (\<lambda>full.
     bindr (validate_own sha full) (\<lambda>config.
     val (config, settings))))))))))))"

section \<open>Policy and operation\<close>

definition MIGRATION_ONLY_STEPS :: "string list" where
  "MIGRATION_ONLY_STEPS =
     [''backup'', ''connectivity-check'', ''backup-restore'', ''legacy-logging'', ''monitoring'', ''monitoring-onboard'',
      ''legacy-hardening'', ''legacy-access-restrict'', ''legacy-access-restore'', ''stage5-restore-target'']"

definition TRAFFIC_STEPS :: "string list" where
  "TRAFFIC_STEPS = [''stage9-edge-release'', ''stage9-dns-publish'']"

definition blocked_by_entra :: "string \<Rightarrow> bool" where
  "blocked_by_entra step \<longleftrightarrow>
     (starts_with step ''stage7-'' \<and> step \<noteq> ''stage7-promote-proxy-image'') \<or> step = ''stage8-application'' \<or>
     step \<in> {''stage9-edge-bind'', ''stage9-edge-release'', ''stage9-dns-publish''}"

definition enforce_local_policy :: "obj \<Rightarrow> string \<Rightarrow> json \<Rightarrow> unit res" where
  "enforce_local_policy settings step config =
     bindr (sub (val (JObj settings)) ''features'') (\<lambda>features.
     seqr (whenr (truth config) (bindr (deployment_mode config) (\<lambda>mode.
       whenr (mode = ''greenfield'') (
         check (val (step \<notin> set MIGRATION_ONLY_STEPS))
           ''Greenfield local execution does not run legacy backup, restore, monitoring or access operations'' (val ()))))) (
     bindr (if truth config then has (val config) ''application'' else val False) (\<lambda>configured_application.
     bindr (if configured_application
            then bindr (application_authentication config) (\<lambda>a. eqs (sub (val a) ''mode'') ''native'') else val False) (\<lambda>native.
     bindr (sub (val features) ''entraMode'') (\<lambda>entra.
     seqr (if native
           then check (val (entra = JStr ''deferred''))
                  ''Native gateway authentication requires localExecution.features.entraMode=deferred'' (
                check (val (\<not> starts_with step ''stage7-''))
                  ''Native gateway authentication omits all Stage7 Entra and proxy operations'' (val ()))
           else whenr (entra = JStr ''deferred'') (
                check (val (\<not> blocked_by_entra step))
                  ''Entra is deferred: stop before Stage7 identity/proxy deployment'' (val ()))) (
     whenr (step \<in> set TRAFFIC_STEPS) (
       check (mapr (\<lambda>v. v = JBool True) (sub (val features) ''allowTrafficRelease''))
         ''Stage9 traffic changes require localExecution.features.allowTrafficRelease=true'' (val ()))))))))"

text \<open>A step of the validated local path of stages 0 and 1.\<close>

definition direct_step :: "string \<Rightarrow> bool" where
  "direct_step step \<longleftrightarrow> (infrastructure_step step \<or> runtime_step step) \<and> \<not> starts_with step ''stage''"

definition local_operation :: "string \<Rightarrow> string \<Rightarrow> string res" where
  "local_operation step requested =
     check (val (requested \<in> {''auto'', ''plan'', ''execute'', ''apply''})) ''Invalid local operation'' (
     if requested \<noteq> ''auto''
     then seqr (whenr (requested = ''apply'') (
            check (val (direct_step step \<or> step \<in> {''config-check'', ''connectivity-check'', ''backup-restore''}))
              ''Immediate apply is limited to the validated Stage0-1 local path'' (val ()))) (
          val requested)
     else if image_step step then Inl (MigrationError ''Image promotion requires explicit --operation execute'')
     else if direct_step step then val ''apply''
     else if infrastructure_step step \<or> runtime_step step \<or> step = ''stage9-edge-release'' then val ''plan''
     else val ''execute'')"

definition checked_components :: "string \<Rightarrow> (int \<times> string) list" where
  "checked_components mode =
     (if mode = ''greenfield'' then [(0, ''bootstrap''), (0, ''network''), (0, ''runner-connectivity'')]
      else [(0, ''bootstrap''), (0, ''backup''), (0, ''runner-connectivity''), (1, ''legacy-logging''), (1, ''monitoring'')])"

definition check_configuration :: "sha \<Rightarrow> json \<Rightarrow> json res" where
  "check_configuration sha config =
     bindr (deployment_mode config) (\<lambda>mode.
     seqr (each (\<lambda>(stage, component). bindr (parameters_for sha config stage component) (\<lambda>_. val ())) (checked_components mode)) (
     val (JObj [(''status'', JStr ''valid'')])))"

section \<open>The environment of a step\<close>

type_synonym environment = "string \<Rightarrow> string option"

definition required_input :: "obj \<Rightarrow> obj \<Rightarrow> string \<times> string \<Rightarrow> obj res" where
  "required_input inputs updates p =
     (let value = lookup_or inputs (fst p) JNull in
      check (val (is_str value \<and> truth value)) ''Configure localExecution.runtimeInputs''
        (val (dict_set updates (snd p) value)))"

definition set_if_truthy :: "obj \<Rightarrow> string \<Rightarrow> string \<Rightarrow> obj \<Rightarrow> obj" where
  "set_if_truthy inputs setting name updates =
     (let value = lookup_or inputs setting JNull in if truth value then dict_set updates name value else updates)"

definition restore_updates :: "obj \<Rightarrow> obj \<Rightarrow> obj res" where
  "restore_updates inputs updates =
     mapr (set_if_truthy inputs ''postgresMigrationUser'' ''POSTGRES_MIGRATION_USER'')
       (fold_res (\<lambda>p u. required_input inputs u p)
         [(''backupBlob'', ''MIGRATION_RESTORE_BLOB''), (''backupSha256'', ''MIGRATION_BACKUP_SHA256'')]
         (dict_set updates ''POSTGRES_MIGRATION_USER'' (JStr [])))"

definition client_update :: "json \<Rightarrow> string \<Rightarrow> obj \<Rightarrow> obj res" where
  "client_update profile name updates =
     bindr (dget0 (val profile) ''clientId'') (\<lambda>client.
     check (val (truth client)) ''The Entra authentication profile requires clientId'' (
     val (dict_set updates name client)))"

definition environment_updates :: "json \<Rightarrow> obj \<Rightarrow> string \<Rightarrow> json \<Rightarrow> obj res" where
  "environment_updates config settings step profile =
     bindr (subs (val config) [''azure'', ''tenantId'']) (\<lambda>tenant.
     bindr (subs (val config) [''azure'', ''subscriptionId'']) (\<lambda>subscription.
     bindr (items (val (lookup_or settings ''runtimeInputs'' (JObj [])))) (\<lambda>inputs.
     let action = (case runtime_action step of Some a \<Rightarrow> a | None \<Rightarrow> []);
         updates = [(''AZURE_TENANT_ID'', tenant), (''AZURE_SUBSCRIPTION_ID'', subscription),
           (''MIGRATION_MANIFEST_YAML'', JStr []), (''MIGRATION_LEGACY_SALT_SOURCE'', JStr []),
           (''PRIVATE_API_INGRESS_CLASS'', JStr []), (''PRIVATE_ADMIN_INGRESS_CLASS'', JStr [])];
         updates = (if action = ''backend-secrets''
           then dict_set updates ''MIGRATION_LEGACY_SALT_SOURCE'' (lookup_or inputs ''legacySaltSource'' (JStr ''secret''))
           else updates) in
     bindr (if action = ''restore-target'' then restore_updates inputs updates else val updates) (\<lambda>updates.
     let updates = set_if_truthy inputs ''privateAdminIngressClass'' ''PRIVATE_ADMIN_INGRESS_CLASS''
           (set_if_truthy inputs ''privateApiIngressClass'' ''PRIVATE_API_INGRESS_CLASS'' updates);
         updates = (if action = ''audit-recover''
           then set_if_truthy inputs ''auditRecoveryCursor'' ''AUDIT_RECOVERY_CURSOR''
                  (dict_set updates ''AUDIT_RECOVERY_CURSOR'' (JStr [])) else updates) in
     if truth profile \<and> (starts_with step ''stage7-entra'' \<or> starts_with action ''admin-credentials'')
     then if action \<in> {''entra-access'', ''entra-revoke''} then client_update profile ''AZURE_ENTRA_ACCESS_CLIENT_ID'' updates
          else if action \<in> set entra_bootstrap_actions then client_update profile ''AZURE_ENTRA_CLIENT_ID'' updates
          else val updates
     else val updates))))"

text \<open>\<open>os.environ[k] = v\<close>: only strings without a null byte are set, and an update stops at the
  first value that is not one.\<close>

definition setenv :: "string \<Rightarrow> json \<Rightarrow> environment \<Rightarrow> environment res" where
  "setenv k v env =
     (case v of JStr s \<Rightarrow> if CHR 0x00 \<in> set s then Inl (ValueError ''embedded null byte'') else val (env(k \<mapsto> s))
      | _ \<Rightarrow> Inl TypeError)"

primrec setenvs :: "obj \<Rightarrow> environment \<Rightarrow> unit res \<times> environment" where
  "setenvs [] env = (val (), env)"
| "setenvs (p # ps) env =
     (case setenv (fst p) (snd p) env of Inl e \<Rightarrow> (Inl e, env) | Inr env' \<Rightarrow> setenvs ps env')"

text \<open>The values to restore, \<open>previous\<close>, and the loop of the \<open>finally\<close> block over them: a name that had
  no value is popped, any other is assigned its value.\<close>

definition previous_values :: "obj \<Rightarrow> environment \<Rightarrow> (string \<times> string option) list" where
  "previous_values updates env = map (\<lambda>n. (n, env n)) (keys_of updates)"

primrec restore_env :: "(string \<times> string option) list \<Rightarrow> environment \<Rightarrow> environment" where
  "restore_env [] env = env"
| "restore_env (p # ps) env =
     restore_env ps (case snd p of None \<Rightarrow> env(fst p := None) | Some v \<Rightarrow> env(fst p \<mapsto> v))"

text \<open>\<open>with local_operation_environment(...): body\<close>; the update precedes the \<open>try\<close>.\<close>

definition with_environment :: "obj \<Rightarrow> (environment \<Rightarrow> 'r res \<times> environment) \<Rightarrow> environment \<Rightarrow> 'r res \<times> environment" where
  "with_environment updates body env =
     (case setenvs updates env of
        (Inl e, env') \<Rightarrow> (Inl e, env')
      | (Inr _, env') \<Rightarrow> (case body env' of (r, env'') \<Rightarrow> (r, restore_env (previous_values updates env) env'')))"

definition local_environment ::
    "json \<Rightarrow> obj \<Rightarrow> string \<Rightarrow> json \<Rightarrow> (environment \<Rightarrow> 'r res \<times> environment) \<Rightarrow> environment \<Rightarrow> 'r res \<times> environment" where
  "local_environment config settings step profile body env =
     (case environment_updates config settings step profile of
        Inl e \<Rightarrow> (Inl e, env) | Inr updates \<Rightarrow> with_environment updates body env)"

section \<open>Facts\<close>

lemma steps_disjoint:
  "\<not> (infrastructure_step s \<and> runtime_step s)" "\<not> (image_step s \<and> (infrastructure_step s \<or> runtime_step s))"
  by (auto simp: INFRASTRUCTURE_STEPS_def RUNTIME_STEPS_def IMAGE_STEPS_def)

lemma apply_steps:
  "direct_step step \<or> step \<in> {''config-check'', ''connectivity-check'', ''backup-restore''} \<Longrightarrow> \<not> starts_with step ''stage''"
  by (auto simp: starts_with_def direct_step_def)

text \<open>
  The operation a step runs with is \<open>apply\<close>, which changes the environment without an approved
  hash, only on the local path of stages 0 and 1; a later infrastructure or runtime step that is
  not asked for anything else plans.
\<close>

theorem later_stages_need_approval:
  assumes "local_operation step requested = Inr operation"
  shows "(operation = ''apply'' \<longrightarrow> \<not> starts_with step ''stage'') \<and>
    (starts_with step ''stage'' \<and> (infrastructure_step step \<or> runtime_step step) \<and> requested = ''auto'' \<longrightarrow> operation = ''plan'') \<and>
    (image_step step \<and> operation \<noteq> ''plan'' \<longrightarrow> requested = ''execute'')"
proof -
  have no_apply: "\<not> starts_with step ''stage''" if "requested = ''apply''"
    using assms that apply_steps by (simp add: local_operation_def check_ok seqr_ok whenr_ok)
  have image: "image_step step \<longrightarrow> starts_with step ''stage''"
    by (auto simp: IMAGE_STEPS_def starts_with_def)
  show ?thesis
  proof (cases "requested = ''auto''")
    case True
    then show ?thesis
      using assms unfolding local_operation_def direct_step_def
      by (simp split: if_splits) (drule sym, simp)+
  next
    case False
    then have "operation = requested"
      using assms unfolding local_operation_def check_ok by (simp add: seqr_ok)
    moreover have "requested \<in> {''auto'', ''plan'', ''execute'', ''apply''}"
      using assms unfolding local_operation_def check_ok by simp
    ultimately show ?thesis
      using False no_apply image by (elim insertE emptyE) simp_all
  qed
qed

theorem later_stages_need_approval_witness:
  "\<exists>operation. local_operation ''stage9-dns-publish'' ''auto'' = Inr operation \<and> operation = ''plan'' \<and>
    \<not> (operation = ''apply'' \<and> starts_with ''stage9-dns-publish'' ''stage'')"
proof -
  have run: "local_operation ''stage9-dns-publish'' ''auto'' = Inr ''plan''" by code_simp
  show ?thesis using later_stages_need_approval [OF run] run by blast
qed

lemma setenvs_total:
  "list_all (\<lambda>p. is_str (snd p) \<and> (\<forall>s. snd p = JStr s \<longrightarrow> CHR 0x00 \<notin> set s)) ps \<Longrightarrow> \<exists>env'. setenvs ps env = (val (), env')"
  by (induction ps arbitrary: env) (auto simp: setenv_def is_str_iff)

lemma setenvs_frame: "setenvs ps env = (r, env') \<Longrightarrow> n \<notin> set (keys_of ps) \<Longrightarrow> env' n = env n"
  by (induction ps arbitrary: env) (auto simp: setenv_def split: sum.splits json.splits if_splits)

text \<open>The loop over the previous values puts back each of them and nothing else.\<close>

lemma restore_env_frame: "n \<notin> fst ` set ps \<Longrightarrow> restore_env ps env n = env n"
  by (induction ps arbitrary: env) (simp_all split: option.split)

lemma restore_env_values:
  assumes "\<forall>p \<in> set ps. snd p = old (fst p)" and "n \<in> fst ` set ps"
  shows "restore_env ps env n = old n"
  using assms
proof (induction ps arbitrary: env)
  case (Cons p ps)
  then show ?case
    by (cases "n \<in> fst ` set ps") (auto simp: restore_env_frame split: option.split)
qed simp

lemma restore_env_previous:
  "restore_env (previous_values updates env) env' = (\<lambda>n. if n \<in> set (keys_of updates) then env n else env' n)"
proof
  fix n
  have names: "fst ` set (previous_values updates env) = set (keys_of updates)"
    by (simp add: previous_values_def image_image)
  have old: "\<forall>p \<in> set (previous_values updates env). snd p = env (fst p)"
    by (simp add: previous_values_def)
  show "restore_env (previous_values updates env) env' n = (if n \<in> set (keys_of updates) then env n else env' n)"
    by (cases "n \<in> set (keys_of updates)") (simp_all add: restore_env_frame restore_env_values [OF old] names)
qed

text \<open>
  C28: the process environment around a step, in every case.  When the variables of the step cannot be
  computed, the environment is untouched and the step does not run.  When the update stops at a
  value that cannot be set, the step does not run, the error is raised and only variables of the
  update may have changed: they are not restored, since the update precedes the \<open>try\<close>.  Otherwise
  the step runs, and afterwards, also when it raised, every variable of the update has the value
  it had before (or none, when it had none), whatever the step did to it; all other variables are
  as the step left them.
\<close>

theorem local_environment_is_restored:
  "case environment_updates config settings step profile of
     Inl e \<Rightarrow> local_environment config settings step profile body env = (Inl e, env)
   | Inr updates \<Rightarrow>
       (case setenvs updates env of
          (Inl e, partial) \<Rightarrow> local_environment config settings step profile body env = (Inl e, partial) \<and>
            (\<forall>n. n \<notin> set (keys_of updates) \<longrightarrow> partial n = env n)
        | (Inr _, inner) \<Rightarrow> local_environment config settings step profile body env =
            (fst (body inner), \<lambda>n. if n \<in> set (keys_of updates) then env n else snd (body inner) n))"
  using setenvs_frame
  by (auto simp: local_environment_def with_environment_def restore_env_previous split: sum.splits prod.splits)

text \<open>The environment of a restore.\<close>

definition restore_settings :: obj where
  "restore_settings = [(''runtimeInputs'', JObj [(''backupBlob'', JStr ''pre-change/a.dump''), (''backupSha256'', JStr ''ab'')])]"

definition scope_config :: json where
  "scope_config = JObj [(''azure'', JObj [(''tenantId'', JStr ''t''), (''subscriptionId'', JStr ''s'')])]"

definition restore_variables :: obj where
  "restore_variables =
     [(''AZURE_TENANT_ID'', JStr ''t''), (''AZURE_SUBSCRIPTION_ID'', JStr ''s''), (''MIGRATION_MANIFEST_YAML'', JStr []),
      (''MIGRATION_LEGACY_SALT_SOURCE'', JStr []), (''PRIVATE_API_INGRESS_CLASS'', JStr []),
      (''PRIVATE_ADMIN_INGRESS_CLASS'', JStr []), (''POSTGRES_MIGRATION_USER'', JStr []),
      (''MIGRATION_RESTORE_BLOB'', JStr ''pre-change/a.dump''), (''MIGRATION_BACKUP_SHA256'', JStr ''ab'')]"

lemma restore_environment:
  "environment_updates scope_config restore_settings ''stage5-restore-target'' JNull = Inr restore_variables"
  by code_simp

theorem local_environment_is_restored_witness:
  "local_environment scope_config restore_settings ''stage5-restore-target'' JNull
      (\<lambda>env. (val (env ''MIGRATION_RESTORE_BLOB''), env(''AZURE_TENANT_ID'' := None)))
      (\<lambda>n. if n = ''AZURE_TENANT_ID'' then Some ''u'' else None) =
    (val (Some ''pre-change/a.dump''), \<lambda>n. if n = ''AZURE_TENANT_ID'' then Some ''u'' else None)"
proof -
  let ?env = "\<lambda>n. if n = ''AZURE_TENANT_ID'' then Some ''u'' else None"
  let ?body = "\<lambda>env. (val (env ''MIGRATION_RESTORE_BLOB''), env(''AZURE_TENANT_ID'' := None))"
  obtain inner where inner: "setenvs restore_variables ?env = (val (), inner)"
    using setenvs_total [of restore_variables ?env] by (auto simp: restore_variables_def)
  then have blob: "inner ''MIGRATION_RESTORE_BLOB'' = Some ''pre-change/a.dump''"
    by (auto simp: restore_variables_def setenv_def)
  have tenant: "''AZURE_TENANT_ID'' \<in> set (keys_of restore_variables)" by (simp add: restore_variables_def)
  have "local_environment scope_config restore_settings ''stage5-restore-target'' JNull ?body ?env =
      (fst (?body inner), \<lambda>n. if n \<in> set (keys_of restore_variables) then ?env n else snd (?body inner) n)"
    using local_environment_is_restored [of scope_config restore_settings "''stage5-restore-target''" JNull ?body ?env]
    unfolding restore_environment sum.case inner prod.case .
  also have "\<dots> = (val (Some ''pre-change/a.dump''), ?env)"
    using blob tenant setenvs_frame [OF inner] by (auto simp: fun_eq_iff)
  finally show ?thesis .
qed

text \<open>A runtime input that is no string raises in the update, before the \<open>try\<close>: the variables that were
  set before it keep their new values.\<close>

lemma interrupted_update_is_not_restored:
  "fst (local_environment scope_config [(''runtimeInputs'', JObj [(''privateApiIngressClass'', JInt 1)])]
      ''stage4-private-ingress'' JNull (\<lambda>env. (val (), env)) (\<lambda>n. None)) = Inl TypeError \<and>
   snd (local_environment scope_config [(''runtimeInputs'', JObj [(''privateApiIngressClass'', JInt 1)])]
      ''stage4-private-ingress'' JNull (\<lambda>env. (val (), env)) (\<lambda>n. None)) ''AZURE_TENANT_ID'' = Some ''t''"
  by code_simp

end
