(* ===== verification/Config_Merge.thy ===== *)
theory Config_Merge
  imports Local_Settings Py_Proc Py_Loads
begin

text \<open>
  \<open>local_execution/merge_config.py\<close>: merging one fragment of the stage catalog into the local
  customer configuration, with the values its placeholders stand for.
\<close>

section \<open>Merging dicts\<close>

function (sequential) deep_merge :: "obj \<Rightarrow> obj \<Rightarrow> obj" where
  "deep_merge target [] = target"
| "deep_merge target ((key, JObj value) # rest) =
     (case map_of target key of
        Some (JObj old) \<Rightarrow> deep_merge (dict_set target key (JObj (deep_merge old value))) rest
      | _ \<Rightarrow> deep_merge (dict_set target key (JObj value)) rest)"
| "deep_merge target ((key, value) # rest) = deep_merge (dict_set target key value) rest"
  by pat_completeness auto
termination by (relation "measure (\<lambda>(t, a). size (JObj a))") simp_all

definition merge_into :: "json \<Rightarrow> json \<Rightarrow> json res" where
  "merge_into target addition =
     check (val (is_dict target \<and> is_dict addition)) ''Configuration fragments must be JSON objects'' (
     bindr (items (val target)) (\<lambda>t. bindr (items (val addition)) (\<lambda>a. val (JObj (deep_merge t a)))))"

definition remove_keys :: "obj \<Rightarrow> json \<Rightarrow> obj res" where
  "remove_keys target keys =
     check (val (case keys of JList ks \<Rightarrow> \<forall>k \<in> set ks. is_str k \<and> truth k | _ \<Rightarrow> False))
       ''Fragment removal keys must be strings'' (
     bindr (list_of (val keys)) (\<lambda>ks.
     bindr (map_res (\<lambda>k. str_of (val k)) ks) (\<lambda>names. val (fold (\<lambda>k t. dict_pop t k) names target))))"

section \<open>Placeholders\<close>

definition placeholder_char :: "char \<Rightarrow> bool" where
  "placeholder_char c \<longleftrightarrow> is_upper c \<or> is_digit c \<or> c = CHR ''_''"

definition PLACEHOLDER :: rx where
  "PLACEHOLDER = cat [lit ''REPLACE_'', plus1 (Cls placeholder_char)]"

text \<open>\<open>PLACEHOLDER.findall(s)\<close>: from the left, a match takes all the characters it can.\<close>

function find_placeholders :: "string \<Rightarrow> string list" where
  "find_placeholders s =
     (if s = [] then []
      else if starts_with s ''REPLACE_'' \<and> takeWhile placeholder_char (drop 8 s) \<noteq> []
      then (''REPLACE_'' @ takeWhile placeholder_char (drop 8 s))
             # find_placeholders (dropWhile placeholder_char (drop 8 s))
      else find_placeholders (tl s))"
  by auto
termination
proof (relation "measure length", goal_cases)
  case (2 s)
  then show ?case
    using length_dropWhile_le [of placeholder_char "drop 8 s"] by (cases s) (auto simp: less_Suc_eq_le)
qed auto

declare find_placeholders.simps [simp del]

fun unresolved_placeholders :: "json \<Rightarrow> string list" where
  "unresolved_placeholders (JObj kv) = concat (map (\<lambda>(k, v). unresolved_placeholders v) kv)"
| "unresolved_placeholders (JList xs) = concat (map unresolved_placeholders xs)"
| "unresolved_placeholders (JStr s) = find_placeholders s"
| "unresolved_placeholders v = []"

definition missing_placeholders :: "json \<Rightarrow> string list" where
  "missing_placeholders v = sort (remdups (unresolved_placeholders v))"

text \<open>The loop over the values: a list replaces a whole string and ends the loop.\<close>

primrec replace_string :: "string \<Rightarrow> obj \<Rightarrow> json res" where
  "replace_string s [] = val (JStr s)"
| "replace_string s (p # ps) =
     check (val (rmatch PLACEHOLDER (fst p))) ''Values keys must be complete REPLACE_* placeholders'' (
     if s = fst p \<and> is_list (snd p)
     then check (val (truth (snd p) \<and> (case snd p of JList xs \<Rightarrow> list_all is_str xs | _ \<Rightarrow> False)))
            ''Array placeholder replacements must be nonempty string arrays'' (val (snd p))
     else if is_substring (fst p) s
     then check (val (is_str (snd p))) ''Embedded placeholder replacement values must be strings'' (
          bindr (str_of (val (snd p))) (\<lambda>r. replace_string (replace (fst p) r s) ps))
     else replace_string s ps)"

function (sequential) replace_placeholders :: "json \<Rightarrow> obj \<Rightarrow> json res" where
  "replace_placeholders (JObj kv) vals =
     mapr JObj (map_res (\<lambda>p. mapr (\<lambda>v. (fst p, v)) (replace_placeholders (snd p) vals)) kv)"
| "replace_placeholders (JList xs) vals = mapr JList (map_res (\<lambda>x. replace_placeholders x vals) xs)"
| "replace_placeholders (JStr s) vals = replace_string s vals"
| "replace_placeholders v vals = val v"
  by pat_completeness auto
termination by (relation "measure (\<lambda>(v, a). size v)") (auto dest: size_in_dict size_in_list)

section \<open>Values the configuration gives\<close>

definition BACKUP_BLOB_NAME :: "string \<Rightarrow> string option" where
  "BACKUP_BLOB_NAME s =
     (let name = take 32 (drop 11 s) in
      if rmatch (cat [lit ''pre-change/'', times 32 32 hexlow, lit ''.dump'']) s then Some name else None)"

text \<open>\<open>a or b or c\<close>\<close>

fun first_true :: "json res list \<Rightarrow> json res" where
  "first_true [] = val JNull"
| "first_true [r] = r"
| "first_true (r # rs) = bindr r (\<lambda>v. if truth v then val v else first_true rs)"

definition usable :: "json \<Rightarrow> bool" where
  "usable v = (case v of JStr s \<Rightarrow> s \<noteq> [] \<and> \<not> is_substring ''REPLACE_'' s | _ \<Rightarrow> False)"

definition administrator_values :: "json \<Rightarrow> json \<Rightarrow> (string \<times> json res) list res" where
  "administrator_values stage5 profile =
     bindr (dget0 (val stage5) ''postgresqlEntraAdministratorPrincipalType'') (\<lambda>kind.
     val (
       (if kind = JStr ''Group'' then
         [(''REPLACE_PG_ADMIN_GROUP_OBJECT_ID'', dget0 (val stage5) ''postgresqlEntraAdministratorObjectId''),
          (''REPLACE_PG_ADMIN_GROUP_NAME'', dget0 (val stage5) ''postgresqlEntraAdministratorPrincipalName'')]
        else []) @
       (if kind = JStr ''ServicePrincipal'' then
         [(''REPLACE_DATABASE_ADMIN_UAMI_CLIENT_ID'', dget0 (val profile) ''clientId''),
          (''REPLACE_DATABASE_ADMIN_UAMI_PRINCIPAL_ID'', dget0 (val stage5) ''postgresqlEntraAdministratorObjectId''),
          (''REPLACE_DATABASE_ADMIN_UAMI_NAME'', dget0 (val stage5) ''postgresqlEntraAdministratorPrincipalName'')]
        else [])))"

definition derived_values :: "json \<Rightarrow> obj res" where
  "derived_values config =
     (let parameters = dgetO (val config) ''parameters'' in
     bindr (dgetO parameters ''platform'') (\<lambda>platform.
     bindr (dgetO (val platform) ''stage5Data'') (\<lambda>stage5.
     bindr (dgetO parameters ''backup'') (\<lambda>backup.
     bindr (dgetO parameters ''network'') (\<lambda>network.
     bindr (dgetO parameters ''bootstrap'') (\<lambda>bootstrap.
     bindr (dgetO parameters ''certificate-vault'') (\<lambda>certificate.
     bindr (dgetO (val config) ''localExecution'') (\<lambda>own.
     bindr (dgetO (val own) ''executionHost'') (\<lambda>host.
     bindr (dgetO (val own) ''runtimeInputs'') (\<lambda>inputs.
     bindr (dgetO (dgetO (val own) ''authentication'') ''database'') (\<lambda>profile.
     bindr (dget (val inputs) ''backupBlob'' (JStr [])) (\<lambda>blob.
     bindr (dget (val inputs) ''backupSha256'' (JStr [])) (\<lambda>hash.
     let vault = dget0 (val certificate) ''vaultName''; workspace = ''logAnalyticsWorkspaceName''; vnet = ''virtualNetworkName'' in
     bindr (map_res (\<lambda>(k, r). mapr (\<lambda>v. (k, v)) r)
       [(''REPLACE_SUBSCRIPTION_ID'', dget0 (dgetO (val config) ''azure'') ''subscriptionId''),
        (''REPLACE_AZURE_REGION'', dget0 (val config) ''location''),
        (''REPLACE_CUSTOMER_BASE_DOMAIN'', dget0 (val config) ''baseDomain''),
        (''REPLACE_TARGET_LOG_WORKSPACE'',
           first_true [dget0 (val platform) workspace, dget0 (val backup) workspace, dget0 (val bootstrap) workspace]),
        (''REPLACE_TARGET_VNET'',
           first_true [dget0 (dgetO (val platform) ''stage4Network'') vnet, dget0 (val backup) vnet, dget0 (val network) vnet]),
        (''REPLACE_RUNNER_VNET_RESOURCE_ID'', dget0 (val host) ''virtualNetworkId''),
        (''REPLACE_GLOBALLY_UNIQUE_ACR_NAME'', dget0 (val platform) ''containerRegistryName''),
        (''REPLACE_CERTIFICATE_VAULT_NAME'', vault),
        (''REPLACE_GLOBALLY_UNIQUE_CERTIFICATE_VAULT_NAME'', vault),
        (''REPLACE_SUPPORTED_PG_SKU'', dget0 (val stage5) ''postgresqlSkuName''),
        (''REPLACE_LOCAL_OPERATOR_UAMI_PRINCIPAL_ID'', dget0 (dgetO (val config) ''databaseAccess'') ''migrationPrincipalId''),
        (''REPLACE_32_HEX'', val (case blob of
            JStr s \<Rightarrow> (case BACKUP_BLOB_NAME s of Some n \<Rightarrow> JStr n | None \<Rightarrow> JNull) | _ \<Rightarrow> JNull)),
        (''REPLACE_64_HEX_SHA256'', val (if matches_str (times 64 64 hexlow) hash then hash else JNull))]) (\<lambda>values_read.
     bindr (administrator_values stage5 profile) (\<lambda>administrator.
     bindr (map_res (\<lambda>(k, r). mapr (\<lambda>v. (k, v)) r) administrator) (\<lambda>rest.
     val (filter (\<lambda>p. usable (snd p)) (values_read @ rest))))))))))))))))))"

section \<open>Merging a stage\<close>

text \<open>Where the section of an option goes: into the configuration or into its \<open>localExecution\<close>.\<close>

datatype destination = Section | Local

record option_spec =
  option_stage :: int
  option_key :: string
  option_destination :: destination

definition OPTION_SPECS :: "(string \<times> option_spec) list" where
  "OPTION_SPECS =
     [(''single-validation-identity'', \<lparr>option_stage = 2, option_key = ''singleValidationIdentityAlternative'', option_destination = Local\<rparr>),
      (''automatic-api-certificate'', \<lparr>option_stage = 4, option_key = ''optionalAutomaticApiCertificate'', option_destination = Section\<rparr>),
      (''database-admin-identity'', \<lparr>option_stage = 5, option_key = ''separateDatabaseAdminIdentity'', option_destination = Section\<rparr>),
      (''legacy-master-key-salt'', \<lparr>option_stage = 5, option_key = ''legacyMasterKeySaltCompatibility'', option_destination = Section\<rparr>),
      (''native-auth'', \<lparr>option_stage = 6, option_key = ''nativeAuthentication'', option_destination = Section\<rparr>),
      (''observability'', \<lparr>option_stage = 8, option_key = ''nativeAuditOptionalObservability'', option_destination = Section\<rparr>),
      (''enhanced-l3'', \<lparr>option_stage = 8, option_key = ''enhancedL3Alternative'', option_destination = Section\<rparr>),
      (''azure-dns'', \<lparr>option_stage = 9, option_key = ''optionalAzureDns'', option_destination = Section\<rparr>),
      (''approved-release'', \<lparr>option_stage = 9, option_key = ''localExecutionForApprovedRelease'', option_destination = Local\<rparr>)]"

text \<open>\<open>deep_merge(config["localExecution"], addition)\<close>\<close>

definition merge_local :: "obj \<Rightarrow> json \<Rightarrow> obj res" where
  "merge_local config addition =
     bindr (sub (val (JObj config)) ''localExecution'') (\<lambda>own.
     bindr (merge_into own addition) (\<lambda>merged. val (dict_set config ''localExecution'' merged)))"

definition check_local :: "obj \<Rightarrow> 'a res \<Rightarrow> 'a res" where
  "check_local config k =
     check (val (is_dict (lookup_or config ''localExecution'' JNull))) ''Base configuration requires localExecution'' k"

definition apply_section :: "json \<Rightarrow> obj \<Rightarrow> obj res" where
  "apply_section part config =
     check (val (is_dict part)) ''Selected catalog section must be an object'' (
     bindr (items (val part)) (\<lambda>kv.
     bindr (case map_of kv ''removeCustomerConfigKeysBeforeMerge'' of None \<Rightarrow> val config | Some keys \<Rightarrow> remove_keys config keys) (\<lambda>config.
     bindr (case map_of kv ''customerConfig'' of None \<Rightarrow> val config
       | Some addition \<Rightarrow> bindr (merge_into (JObj config) addition) (\<lambda>v. items (val v))) (\<lambda>config.
     case map_of kv ''localExecutionMerge'' of None \<Rightarrow> val config
     | Some addition \<Rightarrow> check_local config (merge_local config addition)))))"

definition check_option :: "int \<Rightarrow> string \<Rightarrow> unit res" where
  "check_option stage option =
     check (val (map_of OPTION_SPECS option \<noteq> None)) ''Unknown merge option'' (
     check (val (stage = option_stage (the (map_of OPTION_SPECS option)))) ''Option applies only to another stage'' (val ()))"

definition validate_merge_options :: "int \<Rightarrow> string list \<Rightarrow> unit res" where
  "validate_merge_options stage options =
     check (val (distinct options)) ''Duplicate merge option'' (
     seqr (each (check_option stage) options) (
     check (val (\<not> {''enhanced-l3'', ''observability''} \<subseteq> set options))
       ''Choose enhanced-l3 or observability in one merge operation, not both'' (val ())))"

definition apply_option :: "json \<Rightarrow> string \<Rightarrow> obj \<Rightarrow> obj res" where
  "apply_option selected option config =
     (case map_of OPTION_SPECS option of None \<Rightarrow> Inl KeyError
      | Some spec \<Rightarrow>
          bindr (sub (val selected) (option_key spec)) (\<lambda>part.
          if option_destination spec = Section then apply_section part config else merge_local config part))"

definition greenfield_inputs :: "obj \<Rightarrow> obj res" where
  "greenfield_inputs config =
     bindr (bindr (sub (val (JObj config)) ''localExecution'') (\<lambda>own. items (val own))) (\<lambda>own.
     let (inputs, own) = setdefault own ''runtimeInputs'' (JObj []) in
     bindr (items (val inputs)) (\<lambda>kv.
     bindr (remove_keys kv (JList (map JStr [''backupBlob'', ''backupSha256'', ''postgresMigrationUser'', ''legacySaltSource'']))) (\<lambda>kv.
     val (dict_set config ''localExecution'' (JObj (dict_set own ''runtimeInputs'' (JObj kv)))))))"

definition selected_stage :: "json \<Rightarrow> int \<Rightarrow> json res" where
  "selected_stage catalog stage =
     check (conjr (eqr (dget0 (val catalog) ''catalogVersion'') (val (JInt 1))) (testr is_dict (dget0 (val catalog) ''stages'')))
       ''Unsupported Stage fragment catalog'' (
     bindr (dget0 (sub (val catalog) ''stages'') (show_int stage)) (\<lambda>selected.
     check (val (is_dict selected)) ''Stage is missing from the fragment catalog'' (val selected)))"

definition merge_fragments :: "json \<Rightarrow> int \<Rightarrow> string \<Rightarrow> string list \<Rightarrow> obj \<Rightarrow> obj res" where
  "merge_fragments selected stage mode options config =
     bindr (apply_section selected config) (\<lambda>config.
     bindr (if stage = 9 \<and> ''approved-release'' \<notin> set options
            then bindr (sub (val (JObj config)) ''localExecution'') (\<lambda>_.
                 bindr (sub (val selected) ''localExecutionForPrepare'') (merge_local config))
            else val config) (\<lambda>config.
     bindr (fold_res (apply_option selected) options config) (\<lambda>config.
     if stage = 5 \<and> mode = ''greenfield'' then greenfield_inputs config else val config)))"

definition merge_stage :: "json \<Rightarrow> json \<Rightarrow> int \<Rightarrow> string list \<Rightarrow> obj \<Rightarrow> (json \<times> string list) res" where
  "merge_stage config catalog stage options supplied =
     check (val (2 \<le> stage \<and> stage \<le> 9)) ''Merge stage must be 2 through 9'' (
     bindr (selected_stage catalog stage) (\<lambda>selected.
     seqr (validate_merge_options stage options) (
     bindr (deployment_mode config) (\<lambda>mode.
     check (val (mode \<noteq> ''greenfield'' \<or> ''legacy-master-key-salt'' \<notin> set options))
       ''legacy-master-key-salt does not apply to greenfield'' (
     bindr (items (val config)) (\<lambda>kv.
     check_local kv (
     bindr (merge_fragments selected stage mode options kv) (\<lambda>merged.
     bindr (derived_values (JObj merged)) (\<lambda>derived.
     bindr (derived_values config) (\<lambda>own.
     bindr (replace_placeholders (JObj merged) (dict_update (dict_update derived own) supplied)) (\<lambda>result.
     val (result, missing_placeholders result))))))))))))"

section \<open>The changed paths\<close>

definition path_of :: "string \<Rightarrow> string \<Rightarrow> string" where
  "path_of prefix key = (if prefix \<noteq> [] then prefix @ ''.'' @ key else key)"

definition all_keys :: "obj \<Rightarrow> obj \<Rightarrow> string list" where
  "all_keys before after = sort (remdups (keys_of before @ keys_of after))"

lemma size_map_of_dict: "map_of kv k = Some v \<Longrightarrow> size v < size (JObj kv)"
  by (induction kv) (auto split: if_splits)

function (sequential) changed_paths :: "string \<Rightarrow> json \<Rightarrow> json \<Rightarrow> string list" where
  "changed_paths prefix (JObj before) (JObj after) =
     concat (map (\<lambda>key. case map_of before key of None \<Rightarrow> [path_of prefix key]
         | Some b \<Rightarrow> (case map_of after key of None \<Rightarrow> [path_of prefix key]
             | Some a \<Rightarrow> changed_paths (path_of prefix key) b a)) (all_keys before after))"
| "changed_paths prefix before after = (if py_eq before after then [] else [prefix])"
  by pat_completeness auto
termination by (relation "measure (\<lambda>(p, b, a). size b)") (auto dest: size_map_of_dict)

section \<open>The operation\<close>

definition read_json :: "string \<Rightarrow> ('s, json) proc" where
  "read_json label =
     bindp (perform (Client ''read_json'' [JStr label])) (\<lambda>r. case r of
       Json document \<Rightarrow> checkp (val (is_dict document)) ''The file must contain a JSON object'' (retp document)
     | _ \<Rightarrow> failp (MigrationError ''Unable to read the file''))"

definition valid_value :: "json \<Rightarrow> bool" where
  "valid_value value =
     (let vals = (case value of JList xs \<Rightarrow> xs | _ \<Rightarrow> [value]) in
      vals \<noteq> [] \<and> (\<forall>v \<in> set vals. case v of JStr s \<Rightarrow> strip s \<noteq> [] \<and> find_placeholders s = [] | _ \<Rightarrow> False))"

record merge_request =
  merge_stage_number :: int
  merge_apply :: bool
  merge_options :: "string list"
  merge_has_values :: bool
  merge_config_name :: "string res"

definition merge_report :: "merge_request \<Rightarrow> string \<Rightarrow> string list \<Rightarrow> json \<Rightarrow> json \<Rightarrow> bool \<Rightarrow> json" where
  "merge_report request name missing source merged applied =
     JObj ([(''stage'', JInt (merge_stage_number request)), (''operation'', JStr (if merge_apply request then ''apply'' else ''plan'')),
       (''options'', JList (map JStr (merge_options request))), (''config'', JStr name),
       (''preview'', JStr ''customer.merged.json''), (''requiredValues'', JStr ''values.required.json''),
       (''missingPlaceholders'', JList (map JStr missing)), (''changedPaths'', JList (map JStr (changed_paths [] source merged))),
       (''applied'', JBool applied)] @ (if applied then [(''backup'', JStr ''customer.before.json'')] else []))"

text \<open>\<open>os.replace\<close> of the configuration by the complete temporary file.\<close>

definition atomic_write :: "json \<Rightarrow> ('s, unit) proc" where
  "atomic_write document =
     bindp (perform (Client ''replace_config'' [document])) (\<lambda>r.
     if r = Failure then failp (OSError ''replace'') else retp ())"

definition apply_merge :: "sha \<Rightarrow> json \<Rightarrow> json \<Rightarrow> string list \<Rightarrow> ('s, unit) proc" where
  "apply_merge sha source merged missing =
     checkp (val (missing = [])) ''Replace every listed placeholder before apply'' (
     bindp (read_json ''customer.merged.json'') (\<lambda>document.
     letp (load_document sha document) (\<lambda>_.
     thenp (private_write ''customer.before.json'' source) (atomic_write merged))))"

definition merge_operation :: "sha \<Rightarrow> bool \<Rightarrow> merge_request \<Rightarrow> ('s, unit) proc" where
  "merge_operation sha under_temp request =
     bindp (read_json ''config'') (\<lambda>source.
     bindp (read_json ''catalog'') (\<lambda>catalog.
     bindp (if merge_has_values request then read_json ''values'' else retp (JObj [])) (\<lambda>supplied.
     letp (items (val supplied)) (\<lambda>vals.
     checkp (val (\<forall>p \<in> set vals. valid_value (snd p)))
       ''Placeholder values must be nonempty strings or string arrays without REPLACE_* tokens'' (
     letp (merge_stage source catalog (merge_stage_number request) (merge_options request) vals) (\<lambda>(merged, missing).
     checkp (val under_temp) ''Merge output must stay under temp/'' (
     thenp (private_write ''customer.merged.json'' merged) (
     thenp (private_write ''values.required.json'' (JObj (map (\<lambda>k. (k, JStr [])) missing))) (
     letp (merge_config_name request) (\<lambda>name.
     thenp (whenp (merge_apply request) (apply_merge sha source merged missing)) (
     private_write ''merge-report.json'' (merge_report request name missing source merged (merge_apply request)))))))))))))"

section \<open>Facts about merging\<close>

text \<open>A merge key by key, and along a path.\<close>

definition merged_value :: "json option \<Rightarrow> json \<Rightarrow> json" where
  "merged_value old v =
     (case (v, old) of (JObj a, Some (JObj t)) \<Rightarrow> JObj (deep_merge t a) | _ \<Rightarrow> v)"

lemma deep_merge_Cons: "deep_merge t ((k, v) # a) = deep_merge (dict_set t k (merged_value (map_of t k) v)) a"
  by (cases v) (auto simp: merged_value_def split: option.splits json.splits)

declare deep_merge.simps(2,3) [simp del]

lemma map_of_deep_merge:
  "distinct (map fst a) \<Longrightarrow> map_of (deep_merge t a) k =
     (case map_of a k of None \<Rightarrow> map_of t k | Some v \<Rightarrow> Some (merged_value (map_of t k) v))"
proof (induction a arbitrary: t)
  case (Cons p a)
  obtain k' v where p: "p = (k', v)" by (cases p)
  then have "map_of a k' = None" and "distinct (map fst a)"
    using Cons.prems by (simp_all add: map_of_eq_None_iff)
  then show ?case
    by (simp add: p deep_merge_Cons Cons.IH fun_upd_def split: option.split)
qed simp

fun at :: "json \<Rightarrow> string list \<Rightarrow> json option" where
  "at v [] = Some v"
| "at (JObj kv) (k # ks) = (case map_of kv k of None \<Rightarrow> None | Some v \<Rightarrow> at v ks)"
| "at v (k # ks) = None"

text \<open>A path that leaves the addition at a dict, before it meets a value.\<close>

fun untouched :: "obj \<Rightarrow> string list \<Rightarrow> bool" where
  "untouched a [] = False"
| "untouched a (k # ks) = (case map_of a k of None \<Rightarrow> True | Some (JObj v) \<Rightarrow> untouched v ks | Some _ \<Rightarrow> False)"

lemma wf_value: "wf_json (JObj kv) \<Longrightarrow> map_of kv k = Some v \<Longrightarrow> wf_json v"
  by (induction kv) (auto split: if_splits)

lemma at_dict: "at v (k # ks) = (case v of JObj kv \<Rightarrow> (case map_of kv k of None \<Rightarrow> None | Some w \<Rightarrow> at w ks) | _ \<Rightarrow> None)"
  by (cases v) auto

lemma untouched_absent: "untouched a p \<Longrightarrow> at (JObj a) p = None"
proof (induction a p rule: untouched.induct)
  case (2 a k ks)
  then show ?case by (cases "map_of a k") (auto split: json.splits)
qed simp

lemma merge_leaf:
  "wf_json (JObj a) \<Longrightarrow> at (JObj a) p = Some v \<Longrightarrow> \<not> is_dict v \<Longrightarrow> at (JObj (deep_merge t a)) p = Some v"
proof (induction p arbitrary: a t)
  case (Cons k ks)
  obtain w where w: "map_of a k = Some w" "at w ks = Some v"
    using Cons.prems(2) by (auto split: option.splits)
  have "at (merged_value old w) ks = Some v" for old
  proof (cases "\<exists>x y. w = JObj x \<and> old = Some (JObj y)")
    case True
    then obtain x y where xy: "w = JObj x" "old = Some (JObj y)" by blast
    have "wf_json (JObj x)"
      using wf_value [OF Cons.prems(1) w(1)] xy by simp
    then show ?thesis
      using Cons.IH w(2) Cons.prems(3) by (simp add: xy merged_value_def)
  next
    case False
    then have "merged_value old w = w"
      by (auto simp: merged_value_def split: json.splits option.splits)
    with w(2) show ?thesis by simp
  qed
  then show ?case
    using Cons.prems(1) w(1) by (simp add: map_of_deep_merge)
qed auto

lemma merge_untouched:
  "wf_json (JObj a) \<Longrightarrow> untouched a p \<Longrightarrow> at (JObj (deep_merge t a)) p = at (JObj t) p"
proof (induction p arbitrary: a t)
  case (Cons k ks)
  have d: "distinct (map fst a)" using Cons.prems(1) by simp
  show ?case
  proof (cases "map_of a k")
    case (Some w)
    then obtain x where x: "w = JObj x" "untouched x ks" "wf_json (JObj x)"
      using Cons.prems(2) wf_value [OF Cons.prems(1) Some] by (cases w) simp_all
    have absent: "at (JObj x) ks = None" using untouched_absent [OF x(2)] .
    have "ks \<noteq> []" using x(2) by (cases ks) auto
    then show ?thesis
      using Some x Cons.IH [OF x(3,2)] absent
      by (auto simp: map_of_deep_merge [OF d] merged_value_def neq_Nil_conv at_dict split: option.splits json.splits)
  qed (simp add: map_of_deep_merge [OF d])
qed simp

text \<open>What a dict already contains.\<close>

fun comprises :: "json \<Rightarrow> json \<Rightarrow> bool" where
  "comprises (JObj t) (JObj a) =
     list_all (\<lambda>(k, v). case map_of t k of None \<Rightarrow> False | Some w \<Rightarrow> comprises w v) a"
| "comprises w v = (w = v)"

lemma comprises_dict:
  "comprises (JObj t) (JObj a) \<longleftrightarrow> (\<forall>(k, v) \<in> set a. \<exists>w. map_of t k = Some w \<and> comprises w v)"
  by (auto simp: list_all_iff split: option.splits)

lemma comprises_atom: "\<not> is_dict v \<Longrightarrow> comprises w v \<longleftrightarrow> w = v"
  by (cases w; cases v) auto

lemma comprises_of_dict: "comprises w (JObj a) \<Longrightarrow> \<exists>t. w = JObj t"
  by (cases w) auto

declare comprises.simps(1) [simp del]

lemma merge_included: "comprises (JObj t) (JObj a) \<Longrightarrow> deep_merge t a = t"
proof (induction "size (JObj a)" arbitrary: t a rule: less_induct)
  case less
  have same: "merged_value (map_of t k) v = the (map_of t k) \<and> map_of t k \<noteq> None" if m: "(k, v) \<in> set a" for k v
  proof -
    obtain w where w: "map_of t k = Some w" "comprises w v"
      using less.prems m unfolding comprises_dict by blast
    show ?thesis
    proof (cases v)
      case (JObj x)
      then obtain y where y: "w = JObj y"
        using w(2) comprises_of_dict by blast
      have "deep_merge y x = y"
        using less.hyps [of x y] size_in_dict [OF m] JObj y w(2) by simp
      then show ?thesis
        using JObj y w(1) by (simp add: merged_value_def)
    qed (use w in \<open>simp_all add: merged_value_def comprises_atom\<close>)
  qed
  have "set b \<subseteq> set a \<Longrightarrow> deep_merge t b = t" for b
  proof (induction b)
    case (Cons p b)
    obtain k v where p: "p = (k, v)" by (cases p)
    then have "map_of t k = Some (merged_value (map_of t k) v)"
      using same [of k v] Cons.prems by auto
    then show ?case
      using Cons p by (simp add: deep_merge_Cons)
  qed simp
  then show ?case by blast
qed

lemma comprises_self: "wf_json v \<Longrightarrow> comprises v v"
proof (induction v rule: wf_json.induct)
  case (2 kv)
  have "comprises v v" if "(k, v) \<in> set kv" for k v
    using "2.IH" [OF that refl] "2.prems" that by (auto simp: list_all_iff)
  then show ?case
    using "2.prems" unfolding comprises_dict by force
qed (simp_all add: comprises_atom)

lemma merge_comprises: "wf_json (JObj a) \<Longrightarrow> comprises (JObj (deep_merge t a)) (JObj a)"
proof (induction "size (JObj a)" arbitrary: a t rule: less_induct)
  case less
  have d: "distinct (map fst a)" using less.prems by simp
  have "comprises (merged_value old v) v" if m: "(k, v) \<in> set a" for old k v
  proof -
    have w: "wf_json v"
      using wf_value [OF less.prems map_of_is_SomeI [OF d m]] .
    show ?thesis
    proof (cases v)
      case (JObj x)
      have "comprises (JObj (deep_merge y x)) (JObj x)" for y
        using less.hyps size_in_dict [OF m] w JObj by simp
      then show ?thesis
        using comprises_self [OF w] JObj by (simp add: merged_value_def split: option.split json.split)
    qed (simp_all add: merged_value_def comprises_atom)
  qed
  then show ?case
    unfolding comprises_dict using d by (auto simp: map_of_deep_merge)
qed

text \<open>
  C30: merging a fragment is an overlay, path by path: every value of the fragment is at its path
  in the result, every path the fragment does not touch has what it had, and merging the same
  fragment again changes nothing.
\<close>

theorem merge_is_an_overlay:
  assumes "wf_json (JObj add)"
  shows "(\<forall>p v. at (JObj add) p = Some v \<and> \<not> is_dict v \<longrightarrow> at (JObj (deep_merge target add)) p = Some v) \<and>
    (\<forall>p. untouched add p \<longrightarrow> at (JObj (deep_merge target add)) p = at (JObj target) p) \<and>
    deep_merge (deep_merge target add) add = deep_merge target add"
  using merge_leaf [OF assms] merge_untouched [OF assms] merge_included [OF merge_comprises [OF assms]] by blast

theorem merge_is_an_overlay_witness:
  "at (JObj (deep_merge [(''a'', JObj [(''c'', JInt 2)])] [(''a'', JObj [(''b'', JInt 1)])])) [''a'', ''b''] = Some (JInt 1) \<and>
   at (JObj (deep_merge [(''a'', JObj [(''c'', JInt 2)])] [(''a'', JObj [(''b'', JInt 1)])])) [''a'', ''c'']
     = at (JObj [(''a'', JObj [(''c'', JInt 2)])]) [''a'', ''c''] \<and>
   deep_merge (deep_merge [(''a'', JObj [(''c'', JInt 2)])] [(''a'', JObj [(''b'', JInt 1)])]) [(''a'', JObj [(''b'', JInt 1)])]
     = deep_merge [(''a'', JObj [(''c'', JInt 2)])] [(''a'', JObj [(''b'', JInt 1)])]"
  (is "at (JObj (deep_merge ?target ?add)) _ = _ \<and> _")
proof -
  have "wf_json (JObj ?add)" by simp
  note result = merge_is_an_overlay [OF this, of ?target]
  have "at (JObj ?add) [''a'', ''b''] = Some (JInt 1) \<and> \<not> is_dict (JInt 1)" "untouched ?add [''a'', ''c'']" by simp_all
  with result show ?thesis by blast
qed

section \<open>Facts about the report and the placeholders\<close>

lemma set_all_keys: "set (all_keys b a) = set (keys_of b) \<union> set (keys_of a)"
  by (simp add: all_keys_def)

lemma py_eq_dicts:
  assumes "distinct (map fst b)" and "distinct (map fst a)"
  shows "py_eq (JObj b) (JObj a) \<longleftrightarrow>
    (\<forall>k \<in> set (keys_of b) \<union> set (keys_of a). \<exists>v w. map_of b k = Some v \<and> map_of a k = Some w \<and> py_eq v w)"
  (is "?l \<longleftrightarrow> ?r")
proof
  assume l: ?l
  have sub: "\<exists>w. map_of a k = Some w \<and> py_eq v w" if "(k, v) \<in> set b" for k v
    using l that by (auto simp: list_all_iff split: option.splits)
  have "set (keys_of b) \<subseteq> set (keys_of a)"
    unfolding subset_iff keys_of_iff using sub map_of_SomeD by (metis option.exhaust option.distinct(1))
  moreover have "card (set (keys_of b)) = card (set (keys_of a))"
    using l distinct_card [OF assms(1)] distinct_card [OF assms(2)] by (simp add: keys_of_def)
  ultimately have "set (keys_of b) = set (keys_of a)"
    by (simp add: card_subset_eq)
  moreover have "\<exists>v w. map_of b k = Some v \<and> map_of a k = Some w \<and> py_eq v w" if k: "k \<in> set (keys_of b)" for k
  proof -
    obtain v where v: "map_of b k = Some v"
      using k unfolding keys_of_iff by blast
    then show ?thesis
      using sub [OF map_of_SomeD [OF v]] by blast
  qed
  ultimately show ?r by blast
next
  assume r: ?r
  have "k \<in> set (keys_of b) \<and> k \<in> set (keys_of a)" if "k \<in> set (keys_of b) \<union> set (keys_of a)" for k
    using bspec [OF r that] unfolding keys_of_iff by (elim exE conjE) simp
  then have "set (keys_of b) = set (keys_of a)" by blast
  then have "card (set (keys_of b)) = card (set (keys_of a))" by simp
  then have "length b = length a"
    using distinct_card [OF assms(1)] distinct_card [OF assms(2)] by (simp add: keys_of_def)
  moreover have "case map_of a k of None \<Rightarrow> False | Some w \<Rightarrow> py_eq v w" if m: "(k, v) \<in> set b" for k v
  proof -
    have v: "map_of b k = Some v"
      using map_of_is_SomeI [OF assms(1) m] .
    then have "k \<in> set (keys_of b) \<union> set (keys_of a)"
      by (simp add: keys_of_iff)
    from bspec [OF r this] obtain w where "map_of a k = Some w" "py_eq v w"
      using v by auto
    then show ?thesis by simp
  qed
  ultimately show ?l by (auto simp: list_all_iff)
qed

lemma changed_paths_Nil: "wf_json b \<Longrightarrow> wf_json a \<Longrightarrow> changed_paths p b a = [] \<longleftrightarrow> py_eq b a"
proof (induction p b a rule: changed_paths.induct)
  case (1 p b a)
  have d: "distinct (map fst b)" "distinct (map fst a)" using "1.prems" by simp_all
  have "(case map_of b k of None \<Rightarrow> [path_of p k]
         | Some v \<Rightarrow> (case map_of a k of None \<Rightarrow> [path_of p k]
             | Some w \<Rightarrow> changed_paths (path_of p k) v w)) = [] \<longleftrightarrow>
      (\<exists>v w. map_of b k = Some v \<and> map_of a k = Some w \<and> py_eq v w)" if k: "k \<in> set (all_keys b a)" for k
  proof (cases "map_of b k")
    case (Some v)
    show ?thesis
    proof (cases "map_of a k")
      case w: (Some w)
      then show ?thesis
        using "1.IH" [OF k Some w] wf_value [OF "1.prems"(1) Some] wf_value [OF "1.prems"(2) w] Some by simp
    qed (simp add: Some)
  qed simp
  then show ?case
    unfolding py_eq_dicts [OF d] by (simp only: changed_paths.simps set_all_keys [symmetric]) simp
qed (simp_all split: if_splits)

text \<open>
  C31: the report lists no changed path exactly when the merged configuration equals the source.
\<close>

theorem changed_paths_detect_every_change:
  assumes "wf_json source" and "wf_json merged"
  shows "changed_paths [] source merged = [] \<longleftrightarrow> py_eq source merged"
  using assms by (rule changed_paths_Nil)

theorem changed_paths_detect_every_change_witness:
  "changed_paths [] (JObj [(''a'', JInt 1), (''b'', JNull)]) (JObj [(''b'', JNull), (''a'', JInt 1)]) = [] \<longleftrightarrow>
    py_eq (JObj [(''a'', JInt 1), (''b'', JNull)]) (JObj [(''b'', JNull), (''a'', JInt 1)])"
  by (rule changed_paths_detect_every_change) simp_all

text \<open>A string without a placeholder has no substring that is one.\<close>

lemma find_placeholders_Nil:
  "find_placeholders s = [] \<Longrightarrow> s = a @ b \<Longrightarrow> starts_with b ''REPLACE_'' \<Longrightarrow> takeWhile placeholder_char (drop 8 b) = []"
proof (induction s arbitrary: a rule: find_placeholders.induct)
  case (1 s)
  have none: "\<not> (starts_with s ''REPLACE_'' \<and> takeWhile placeholder_char (drop 8 s) \<noteq> [])" if "s \<noteq> []"
    using "1.prems"(1) that by (subst (asm) find_placeholders.simps) (simp split: if_splits)
  show ?case
  proof (cases a)
    case Nil
    then show ?thesis
      using none "1.prems"(2,3) by (cases "s = []") auto
  next
    case (Cons c a')
    then have "s \<noteq> []" and "tl s = a' @ b"
      using "1.prems"(2) by auto
    moreover have "find_placeholders (tl s) = []"
      using "1.prems"(1) none [OF \<open>s \<noteq> []\<close>] \<open>s \<noteq> []\<close> by (subst (asm) find_placeholders.simps) (simp split: if_splits)
    ultimately show ?thesis
      using "1.IH"(2) none "1.prems"(3) by blast
  qed
qed

lemma is_substringE:
  assumes "is_substring p s"
  obtains a b where "s = a @ p @ b"
  using assms
proof (induction s arbitrary: thesis)
  case Nil
  then show ?case by simp
next
  case (Cons c s)
  show ?case
  proof (cases "take (length p) (c # s) = p")
    case True
    then show ?thesis
      using Cons.prems(1) [of "[]" "drop (length p) (c # s)"] by (metis append_Nil append_take_drop_id)
  next
    case False
    then have "is_substring p s" using Cons.prems(2) by simp
    then show ?thesis
      using Cons.IH Cons.prems(1) by (metis append_Cons)
  qed
qed

lemma in_rx_lit: "in_rx (lit t) u \<Longrightarrow> u = t"
  by (induction t arbitrary: u rule: lit.induct) (auto simp: chr_def)

inductive_cases in_rx_RepE: "in_rx (Rep r m n) w"

lemma placeholder_shape:
  assumes "rmatch PLACEHOLDER p"
  shows "\<exists>c r. p = ''REPLACE_'' @ c # r \<and> placeholder_char c"
proof -
  have "rx_ok PLACEHOLDER"
    by (simp add: PLACEHOLDER_def plus1_def chr_def)
  then have m: "in_rx (Seq (lit ''REPLACE_'') (Rep (Cls placeholder_char) 1 None)) p"
    using rmatch_sound assms by (simp only: PLACEHOLDER_def plus1_def cat.simps)
  obtain u v where p: "p = u @ v" "in_rx (lit ''REPLACE_'') u" "in_rx (Rep (Cls placeholder_char) 1 None) v"
    by (rule in_rx_SeqE [OF m]) (rule that)
  from p(3) obtain c r where "v = c # r" "placeholder_char c"
    by (rule in_rx_RepE) auto
  then show ?thesis
    using p(1) in_rx_lit [OF p(2)] by (intro exI [of _ c] exI [of _ r]) simp
qed

lemma not_substring:
  assumes "find_placeholders s = []" and "rmatch PLACEHOLDER p"
  shows "\<not> is_substring p s"
proof
  assume "is_substring p s"
  then obtain a b where s: "s = a @ p @ b" by (rule is_substringE)
  obtain c r where c: "p = ''REPLACE_'' @ c # r" "placeholder_char c"
    using placeholder_shape [OF assms(2)] by blast
  show False
    using find_placeholders_Nil [OF assms(1) s] c by (simp add: starts_with_def)
qed

lemma replace_string_resolved:
  assumes "find_placeholders s = []" and "list_all (rmatch PLACEHOLDER \<circ> fst) vals"
  shows "replace_string s vals = val (JStr s)"
  using assms(2)
proof (induction vals)
  case (Cons p vals)
  then have no: "\<not> is_substring (fst p) s" using not_substring assms(1) by simp
  moreover have "s \<noteq> fst p"
  proof
    assume "s = fst p"
    moreover have "is_substring t t" for t by (cases t) auto
    ultimately show False using no by simp
  qed
  ultimately show ?case using Cons by simp
qed simp

lemma map_res_id: "(\<And>x. x \<in> set xs \<Longrightarrow> f x = val x) \<Longrightarrow> map_res f xs = val xs"
  by (induction xs) auto

text \<open>
  Replacing placeholders leaves a configuration without unresolved placeholders as it is,
  whatever complete placeholders the values name: a completed merge is never rewritten.
\<close>

theorem resolved_configurations_stay:
  assumes "unresolved_placeholders v = []" and "list_all (rmatch PLACEHOLDER \<circ> fst) vals"
  shows "replace_placeholders v vals = val v"
  using assms
proof (induction v vals rule: replace_placeholders.induct)
  case (1 kv vals)
  have "mapr (\<lambda>v. (fst p, v)) (replace_placeholders (snd p) vals) = val p" if "p \<in> set kv" for p
  proof -
    have "unresolved_placeholders (snd p) = []"
      using "1.prems"(1) that by (auto simp: case_prod_beta)
    then show ?thesis
      using "1.IH" [OF that] "1.prems"(2) by (cases p) simp
  qed
  then show ?case
    by (simp add: map_res_id)
next
  case (2 xs vals)
  then show ?case
    by (auto simp: map_res_id)
qed (simp_all add: replace_string_resolved)

theorem resolved_configurations_stay_witness:
  "replace_placeholders (JObj [(''location'', JStr ''westeurope'')]) [(''REPLACE_AZURE_REGION'', JStr ''eastus'')]
    = val (JObj [(''location'', JStr ''westeurope'')])"
  by (rule resolved_configurations_stay) code_simp+

section \<open>What an operation does to the configuration\<close>

definition replaces_config :: "event \<Rightarrow> bool" where
  "replaces_config e \<longleftrightarrow> (case fst e of Client m xs \<Rightarrow> m = ''replace_config'' | _ \<Rightarrow> False)"

text \<open>An applied merge: what was read, checked, kept and written, in this order.\<close>

definition applied :: "sha \<Rightarrow> event list \<Rightarrow> bool" where
  "applied sha l \<longleftrightarrow>
     (\<exists>source merged doc cfg r. (Client ''read_json'' [JStr ''config''], Json source) \<in> set l \<and>
        (WriteFile ''customer.merged.json'' merged, r) \<in> set l \<and> unresolved_placeholders merged = [] \<and>
        (Client ''read_json'' [JStr ''customer.merged.json''], Json doc) \<in> set l \<and> load_document sha doc = Inr cfg \<and>
        preceded (\<lambda>e. fst e = WriteFile ''customer.before.json'' source) replaces_config l \<and>
        fst ` set (filter replaces_config l) \<subseteq> {Client ''replace_config'' [merged]})"

definition merge_safe :: "sha \<Rightarrow> merge_request \<Rightarrow> event list \<Rightarrow> bool" where
  "merge_safe sha request l \<longleftrightarrow> filter replaces_config l = [] \<or> merge_apply request \<and> applied sha l"

lemma wp_read_json:
  "(\<And>doc. Q doc (l @ [(Client ''read_json'' [JStr label], Json doc)])) \<Longrightarrow>
   (\<And>r. E (l @ [(Client ''read_json'' [JStr label], r)])) \<Longrightarrow> wp (read_json label) Q E l"
  unfolding read_json_def by (intro wp_intros) (auto split: reply.splits intro!: wp_intros)

lemma missing_Nil: "missing_placeholders v = [] \<longleftrightarrow> unresolved_placeholders v = []"
  unfolding missing_placeholders_def by (metis set_empty set_remdups set_sort)

lemma merge_stage_missing: "merge_stage config catalog stage options vals = Inr (merged, missing) \<Longrightarrow> missing = missing_placeholders merged"
  by (auto simp: merge_stage_def check_local_def bindr_ok check_ok seqr_ok)

lemma replaces_config_simps [simp]:
  "\<not> replaces_config (WriteFile n d, r)" "replaces_config (Client m xs, r) \<longleftrightarrow> m = ''replace_config''"
  by (simp_all add: replaces_config_def)

lemma guarded_append: "guarded A B seen (l @ es) \<longleftrightarrow> guarded A B seen l \<and> guarded A B (seen \<or> list_ex A l) es"
  by (induction l arbitrary: seen) auto

lemma wp_apply_merge:
  assumes "filter replaces_config l = []" and "merge_apply request"
    and "(Client ''read_json'' [JStr ''config''], Json source) \<in> set l"
    and "(WriteFile ''customer.merged.json'' merged, r) \<in> set l" and "missing = missing_placeholders merged"
  shows "wp (apply_merge sha source merged missing) (\<lambda>_. merge_safe sha request) (merge_safe sha request) l"
proof -
  have early: "merge_safe sha request (l @ es)" if "filter replaces_config es = []" for es
    using assms(1) that by (simp add: merge_safe_def)
  have done_it: "merge_safe sha request (l @ [(Client ''read_json'' [JStr ''customer.merged.json''], Json doc),
      (WriteFile ''customer.before.json'' source, q), (Client ''replace_config'' [merged], q')])"
    if "unresolved_placeholders merged = []" "load_document sha doc = Inr cfg" for doc q q' cfg
    unfolding merge_safe_def applied_def using assms that
    by (intro disjI2 conjI exI [of _ source] exI [of _ merged] exI [of _ doc] exI [of _ cfg] exI [of _ r])
      (auto simp: filter_empty_conv guarded_none list_all_iff guarded_append)
  show ?thesis
    unfolding apply_merge_def atomic_write_def
    by (rule wp_intros wp_read_json wp_private_write
        | (insert assms(5), force intro: early early [of "[]", simplified] done_it simp: missing_Nil))+
qed

lemma merge_safe_file: "merge_safe sha request l \<Longrightarrow> merge_safe sha request (l @ [(WriteFile n d, r)])"
  by (auto simp: merge_safe_def applied_def) blast

lemma wp_apply_report:
  assumes "filter replaces_config l = []" and "(Client ''read_json'' [JStr ''config''], Json source) \<in> set l"
    and "(WriteFile ''customer.merged.json'' merged, r) \<in> set l" and "missing = missing_placeholders merged"
  shows "wp (thenp (whenp (merge_apply request) (apply_merge sha source merged missing)) (private_write n d))
    (\<lambda>_. merge_safe sha request) (merge_safe sha request) l"
proof (rule wp_thenp, rule wp_mono [where Q = "\<lambda>_. merge_safe sha request" and E = "merge_safe sha request"])
  show "wp (whenp (merge_apply request) (apply_merge sha source merged missing)) (\<lambda>_. merge_safe sha request)
    (merge_safe sha request) l"
    by (rule wp_whenp, rule wp_apply_merge [OF assms(1) _ assms(2-4)]) (use assms(1) in \<open>simp_all add: merge_safe_def\<close>)
qed (auto intro!: wp_private_write merge_safe_file)

text \<open>
  C29: a merge operation replaces the customer configuration only when it was asked to apply, after
  the merged document had no unresolved placeholder, the preview was read back and accepted as a
  complete configuration, and the previous configuration was written to the backup; what it
  writes is the preview.
\<close>

theorem merges_are_complete_and_backed_up:
  "filter replaces_config (log (snd (merge_operation sha under_temp request sv (start s)))) = [] \<or>
   merge_apply request \<and> applied sha (log (snd (merge_operation sha under_temp request sv (start s))))"
proof -
  have "wp (merge_operation sha under_temp request) (\<lambda>_. merge_safe sha request) (merge_safe sha request) []"
    unfolding merge_operation_def
    by (rule wp_apply_report wp_intros wp_read_json wp_private_write | simp add: merge_safe_def merge_stage_missing)+
  then show ?thesis
    using wp_always [of _ "merge_safe sha request" "start s"] by (simp add: start_def merge_safe_def)
qed

end
