(* ===== verification/Inspection.thy ===== *)
theory Inspection
  imports Migration_Deploy
begin

text \<open>
  The read-only inspections a connectivity deployment starts with: \<open>inspect_certificate_infrastructure\<close>
  of \<open>certificate_vault.py\<close>, \<open>backup_target\<close> and \<open>inspect_connectivity\<close> of \<open>runner_connectivity.py\<close>,
  \<open>inspect_dns_link\<close> and \<open>inspect_target_connectivity\<close> of \<open>runner_target_connectivity.py\<close>.  Each reads the
  live resources and refuses what conflicts with the configuration.
\<close>

section \<open>Shared shapes\<close>

text \<open>\<open>e.get(key, "").lower()\<close>\<close>

definition lower_get :: "json res \<Rightarrow> string \<Rightarrow> string res" where
  "lower_get e key = mapr lower (str_of (dget e key (JStr [])))"

definition lower_is :: "json res \<Rightarrow> string \<Rightarrow> string \<Rightarrow> bool res" where
  "lower_is e key s = mapr (\<lambda>x. x = lower s) (lower_get e key)"

definition setting :: "obj \<Rightarrow> string \<Rightarrow> string res" where
  "setting settings key = str_of (sub (val (JObj settings)) key)"

definition switched :: "obj \<Rightarrow> string \<Rightarrow> bool res" where
  "switched settings key = testr truth (sub (val (JObj settings)) key)"

definition deployment_outputs :: "json \<Rightarrow> string \<Rightarrow> string \<Rightarrow> string \<Rightarrow> ('s, json) proc" where
  "deployment_outputs config rgroup name projection =
     az_scoped config [''deployment'', ''group'', ''show'', ''--resource-group'', rgroup, ''--name'', name, ''--query'', projection]"

definition list_links :: "json \<Rightarrow> string \<Rightarrow> string \<Rightarrow> ('s, json) proc" where
  "list_links config rgroup zone_name =
     az_scoped config [''network'', ''private-dns'', ''link'', ''vnet'', ''list'', ''--resource-group'', rgroup, ''--zone-name'', zone_name]"

definition list_endpoints :: "json \<Rightarrow> string \<Rightarrow> ('s, json) proc" where
  "list_endpoints config rgroup = az_scoped config [''network'', ''private-endpoint'', ''list'', ''--resource-group'', rgroup]"

definition show_vnet :: "json \<Rightarrow> string \<Rightarrow> ('s, json) proc" where
  "show_vnet config identifier = az_scoped config [''network'', ''vnet'', ''show'', ''--ids'', identifier]"

definition nic_addresses :: "json \<Rightarrow> string \<Rightarrow> ('s, json) proc" where
  "nic_addresses config identifier =
     az_scoped config [''network'', ''nic'', ''show'', ''--ids'', identifier, ''--query'', ''ipConfigurations[].privateIPAddress'']"

definition link_network_is :: "json \<Rightarrow> string \<Rightarrow> bool res" where
  "link_network_is link identifier = lower_is (dgetO (val link) ''virtualNetwork'') ''id'' identifier"

definition custom_dns :: "json \<Rightarrow> bool res" where
  "custom_dns network = testr truth (dget0 (dgetO (val network) ''dhcpOptions'') ''dnsServers'')"

section \<open>\<open>certificate_vault.py\<close>\<close>

definition check_vault_owner :: "string \<Rightarrow> json \<Rightarrow> unit res" where
  "check_vault_owner name vault =
     bindr (lower_get (val vault) ''name'') (\<lambda>n.
     whenr (n = name) (
       bindr (dget0 (val vault) ''tags'') (\<lambda>tags.
       check (eqs (dget0 (val (if truth tags then tags else JObj [])) ''purpose'') ''ingress-certificates'')
         ''Refusing to adopt a Vault not marked for ingress certificates'' (val ()))))"

definition check_certificate_link :: "string \<Rightarrow> string \<Rightarrow> json \<Rightarrow> unit res" where
  "check_certificate_link identifier name link =
     bindr (lower_is (val link) ''name'' name) (\<lambda>same_name.
     bindr (link_network_is link identifier) (\<lambda>same_network.
     check (val (\<not> same_network \<or> same_name))
       ''Existing certificate DNS link uses another name; disable management to reuse it'' (
     whenr same_name (
       check (conjr (val same_network) (testr (\<lambda>v. v = JBool False) (dget0 (val link) ''registrationEnabled'')))
         ''Existing certificate DNS link conflicts with the approved link'' (val ())))))"

definition inspect_network :: "json \<Rightarrow> json list \<Rightarrow> string \<times> string \<times> bool \<Rightarrow> ('s, unit) proc" where
  "inspect_network config links p =
     (case p of (identifier, name, managed) \<Rightarrow>
     bindp (show_vnet config identifier) (\<lambda>network.
     checkp (lower_is (val network) ''id'' identifier) ''Certificate VNet differs from the approved scope'' (
     whenp managed (
       checkp (negr (custom_dns network))
         ''Custom DNS requires unmanaged certificate DNS links and approved forwarding'' (
       letp (each (check_certificate_link identifier name) links) retp)))))"

definition certificate_networks :: "json \<Rightarrow> obj \<Rightarrow> (string \<times> string \<times> bool) list res" where
  "certificate_networks config settings =
     bindr (provider_prefix config) (\<lambda>prefix.
     bindr (setting settings ''virtualNetworkName'') (\<lambda>vnet.
     bindr (switched settings ''manageTargetDnsLink'') (\<lambda>manage_target.
     bindr (setting settings ''runnerVirtualNetworkId'') (\<lambda>runner.
     let target = prefix @ ''Microsoft.Network/virtualNetworks/'' @ vnet in
     if lower target = lower runner then val [(target, vnet @ ''-link'', manage_target)]
     else bindr (switched settings ''manageRunnerDnsLink'') (\<lambda>manage_runner.
          val [(target, vnet @ ''-link'', manage_target), (runner, ''certificate-runner-link'', manage_runner)])))))"

definition inspect_certificate_infrastructure :: "json \<Rightarrow> ('s, unit) proc" where
  "inspect_certificate_infrastructure config =
     letp (certificate_vault_parameters config) (\<lambda>settings.
     letp (str_of (target_group config)) (\<lambda>rgroup.
     bindp (az_scoped config [''keyvault'', ''list'', ''--resource-group'', rgroup]) (\<lambda>vaults.
     checkp (val (is_list vaults)) ''Invalid Vault inventory'' (
     letp (setting settings ''vaultName'') (\<lambda>name.
     letp (bindr (list_of (val vaults)) (each (check_vault_owner name))) (\<lambda>_.
     bindp (az_scoped config [''network'', ''private-dns'', ''zone'', ''list'', ''--resource-group'', rgroup]) (\<lambda>zones.
     checkp (val (is_list zones)) ''Invalid private DNS inventory'' (
     letp (bindr (list_of (val zones)) (any_res (\<lambda>zone. lower_is (val zone) ''name'' ZONE_NAME))) (\<lambda>exists.
     checkp (disjr (val exists) (switched settings ''createPrivateDnsZone''))
       ''Create or provide the target-RG Key Vault private DNS zone first'' (
     bindp (if exists then list_links config rgroup ZONE_NAME else retp (JList [])) (\<lambda>links.
     checkp (val (is_list links)) ''Invalid private DNS link inventory'' (
     letp (certificate_networks config settings) (\<lambda>networks.
     letp (list_of (val links)) (\<lambda>ls.
     eachp (inspect_network config ls) networks))))))))))))))"

section \<open>\<open>runner_connectivity.py\<close>\<close>

definition output_name :: rx where
  "output_name = plus1 (alnum_or ''_.-'')"

definition check_backup_outputs :: "json \<Rightarrow> json \<Rightarrow> unit res" where
  "check_backup_outputs config backup =
     seqr (each (\<lambda>field. check (testr (matches_str output_name) (dget0 (val backup) field))
             ''Invalid backup deployment outputs'' (val ()))
       [''storageAccountName'', ''virtualNetworkName'', ''privateEndpointName'', ''privateEndpointSubnetName'',
        ''privateDnsZoneName'', ''containerName'']) (
     check (eqr (sub (val backup) ''virtualNetworkName'')
              (sub (sub (sub (val config) ''parameters'') ''backup'') ''virtualNetworkName''))
       ''Backup output VNet differs from customer configuration'' (
     check (eqs (sub (val backup) ''containerName'') ''litellm-postgresql'')
       ''Backup container differs from the managed contract'' (val ())))"

definition check_backup_account :: "json \<Rightarrow> string \<Rightarrow> string \<Rightarrow> unit res" where
  "check_backup_account account account_id host =
     bindr (bindr (dget (val account) ''blob'' (JStr [])) urlsplit_value) (\<lambda>endpoint.
     check (conjr (lower_is (val account) ''id'' account_id)
                  (eqs (dget0 (val account) ''publicNetworkAccess'') ''Disabled''))
       ''Backup storage must remain private in the approved target group'' (
     check (val (scheme endpoint = ''https'' \<and> netloc endpoint = host \<and> path endpoint \<in> {[], ''/''}
                 \<and> query endpoint = [] \<and> fragment endpoint = []))
       ''Unexpected backup Blob endpoint'' (val ())))"

definition connections_of :: "json \<Rightarrow> json list res" where
  "connections_of endpoint =
     bindr (list_of (dget (val endpoint) ''privateLinkServiceConnections'' (JList []))) (\<lambda>a.
     bindr (list_of (dget (val endpoint) ''manualPrivateLinkServiceConnections'' (JList []))) (\<lambda>b. val (a @ b)))"

definition approved_connection :: "string \<Rightarrow> json \<Rightarrow> bool res" where
  "approved_connection identifier connection =
     conjr (lower_is (val connection) ''privateLinkServiceId'' identifier)
           (eqs (dget0 (dgetO (val connection) ''privateLinkServiceConnectionState'') ''status'') ''Approved'')"

definition check_backup_endpoint :: "json \<Rightarrow> string \<Rightarrow> string \<Rightarrow> unit res" where
  "check_backup_endpoint endpoint subnet account_id =
     check (lower_is (dgetO (val endpoint) ''subnet'') ''id'' subnet)
       ''Backup private endpoint belongs to another subnet'' (
     bindr (connections_of endpoint) (\<lambda>connections.
     check (case connections of
              [c] \<Rightarrow> conjr (lower_is (val c) ''privateLinkServiceId'' account_id)
                    (conjr (eqr (dget0 (val c) ''groupIds'') (val (JList [JStr ''blob''])))
                           (eqs (dget0 (dgetO (val c) ''privateLinkServiceConnectionState'') ''status'') ''Approved''))
            | _ \<Rightarrow> val False)
       ''Backup Blob private endpoint is not approved for this account'' (val ())))"

definition only_nic :: "json \<Rightarrow> string res" where
  "only_nic endpoint =
     bindr (list_of (dget (val endpoint) ''networkInterfaces'' (JList []))) (\<lambda>interfaces.
     check (val (length interfaces = 1)) ''Expected one private endpoint NIC'' (
     str_of (dget (val (hd interfaces)) ''id'' (JStr []))))"

definition backup_nic_ok :: "string \<Rightarrow> string \<Rightarrow> bool" where
  "backup_nic_ok prefix nic \<longleftrightarrow>
     starts_with (lower nic) (lower (prefix @ ''Microsoft.Network/networkInterfaces/''))
     \<and> length (split_on CHR ''/'' nic) = 9"

text \<open>Addresses: a nonempty list in which each address satisfies \<open>p\<close>; the strings, sorted.\<close>

definition private_addresses :: "(net \<Rightarrow> bool) \<Rightarrow> string \<Rightarrow> json \<Rightarrow> string list res" where
  "private_addresses p message addresses =
     check (case addresses of JList xs \<Rightarrow> conjr (val (xs \<noteq> [])) (all_res (\<lambda>a. mapr p (ip_address a)) xs) | _ \<Rightarrow> val False)
       message (
     bindr (list_of (val addresses)) (map_res (\<lambda>a. str_of (val a))))"

definition backup_target :: "json \<Rightarrow> ('s, obj) proc" where
  "backup_target config =
     letp (str_of (target_group config)) (\<lambda>rgroup.
     letp (provider_prefix config) (\<lambda>prefix.
     letp (fmt (sub (val config) ''environment'')) (\<lambda>env.
     bindp (deployment_outputs config rgroup (''llmgw-'' @ env @ ''-s0-backup'')
              ''{state:properties.provisioningState,backup:properties.outputs.backupStorage.value}'') (\<lambda>deployment.
     checkp (eqs (dget0 (val deployment) ''state'') ''Succeeded'')
       ''Deploy the backup component before checking connectivity'' (
     letp (dgetO (val deployment) ''backup'') (\<lambda>backup.
     letp (check_backup_outputs config backup) (\<lambda>_.
     bindp (az_run False [''cloud'', ''show'', ''--query'', ''suffixes.storageEndpoint'']) (\<lambda>suffix.
     checkp (val (matches_str (plus1 (lownum_or ''.-'')) suffix)) ''Invalid Azure Storage DNS suffix'' (
     letp (str_of (val suffix)) (\<lambda>cloud.
     checkp (eqs (sub (val backup) ''privateDnsZoneName'') (''privatelink.blob.'' @ cloud))
       ''Backup DNS zone differs from the selected Azure cloud'' (
     letp (str_of (sub (val backup) ''storageAccountName'')) (\<lambda>storage.
     let account_id = prefix @ ''Microsoft.Storage/storageAccounts/'' @ storage; host = storage @ ''.blob.'' @ cloud in
     bindp (az_scoped config [''storage'', ''account'', ''show'', ''--ids'', account_id, ''--query'',
              ''{id:id,publicNetworkAccess:publicNetworkAccess,blob:primaryEndpoints.blob}'']) (\<lambda>account.
     letp (check_backup_account account account_id host) (\<lambda>_.
     letp (str_of (sub (val backup) ''privateEndpointName'')) (\<lambda>pe_name.
     bindp (az_scoped config [''network'', ''private-endpoint'', ''show'', ''--ids'',
              prefix @ ''Microsoft.Network/privateEndpoints/'' @ pe_name]) (\<lambda>pe.
     letp (str_of (sub (val backup) ''virtualNetworkName'')) (\<lambda>vnet.
     letp (str_of (sub (val backup) ''privateEndpointSubnetName'')) (\<lambda>subnet.
     letp (check_backup_endpoint pe (prefix @ ''Microsoft.Network/virtualNetworks/'' @ vnet @ ''/subnets/'' @ subnet) account_id) (\<lambda>_.
     letp (only_nic pe) (\<lambda>nic.
     checkp (val (backup_nic_ok prefix nic)) ''Backup NIC is outside the approved group'' (
     bindp (nic_addresses config nic) (\<lambda>found.
     letp (private_addresses addr_is_private ''Expected private addresses on the NIC'' found) (\<lambda>addresses.
     letp (sub (val backup) ''containerName'') (\<lambda>container.
     letp (sub (val backup) ''privateDnsZoneName'') (\<lambda>zone_name.
     retp [(''storageAccountName'', JStr storage), (''containerName'', container), (''blobHost'', JStr host),
           (''privateEndpointIps'', JList (map JStr (sort (remdups addresses)))),
           (''privateDnsZoneName'', zone_name), (''storageAccountId'', JStr account_id)])))))))))))))))))))))))))"

definition address_space :: "json \<Rightarrow> string \<Rightarrow> net list res" where
  "address_space network identifier =
     check (lower_is (val network) ''id'' identifier) ''Connectivity VNet resource mismatch'' (
     bindr (dget (dgetO (val network) ''addressSpace'') ''addressPrefixes'' (JList [])) (\<lambda>prefixes.
     check (val (truth prefixes)) ''Connectivity VNet has no address space'' (
     bindr (iter (val prefixes)) (map_res (ip_network True)))))"

definition check_peer :: "obj \<Rightarrow> string \<Rightarrow> json \<Rightarrow> unit res" where
  "check_peer settings remote peer =
     bindr (setting settings ''connectionName'') (\<lambda>name.
     bindr (lower_is (val peer) ''name'' name) (\<lambda>same_name.
     bindr (lower_is (dgetO (val peer) ''remoteVirtualNetwork'') ''id'' remote) (\<lambda>same_remote.
     check (val (\<not> same_remote \<or> same_name))
       ''Existing peering uses another name; select managePeering=false to reuse it'' (
     whenr same_name (
       check (conjr (val same_remote) (negr (any_res (\<lambda>flag. testr truth (dget (val peer) flag (JBool False)))
                [''allowForwardedTraffic'', ''allowGatewayTransit'', ''useRemoteGateways''])))
         ''Existing peering conflicts with managed direct connectivity'' (val ()))))))"

definition check_peers :: "obj \<Rightarrow> json \<times> string \<Rightarrow> unit res" where
  "check_peers settings p =
     bindr (iter (dget (val (fst p)) ''virtualNetworkPeerings'' (JList []))) (each (check_peer settings (snd p)))"

definition check_blob_link :: "obj \<Rightarrow> json \<Rightarrow> unit res" where
  "check_blob_link settings link =
     bindr (setting settings ''connectionName'') (\<lambda>name.
     bindr (lower_is (val link) ''name'' name) (\<lambda>same_name.
     bindr (setting settings ''runnerVirtualNetworkId'') (\<lambda>runner.
     bindr (link_network_is link runner) (\<lambda>same_network.
     check (val (\<not> same_network \<or> same_name))
       ''Existing DNS link uses another name; select manageBlobDnsLink=false to reuse it'' (
     whenr same_name (
       check (conjr (val same_network) (testr (\<lambda>v. v = JBool False) (dget0 (val link) ''registrationEnabled'')))
         ''Existing DNS link conflicts with managed backup connectivity'' (val ())))))))"

definition inspect_connectivity :: "sha \<Rightarrow> json \<Rightarrow> ('s, json) proc" where
  "inspect_connectivity sha config =
     letp (connectivity_settings sha config) (\<lambda>settings.
     letp (deployment_mode config) (\<lambda>mode.
     bindp (if mode = ''migration'' then backup_target config else retp []) (\<lambda>target.
     letp (setting settings ''runnerVirtualNetworkId'') (\<lambda>runner_id.
     letp (setting settings ''backupVirtualNetworkId'') (\<lambda>backup_id.
     bindp (show_vnet config runner_id) (\<lambda>runner.
     bindp (show_vnet config backup_id) (\<lambda>backup.
     letp (address_space runner runner_id) (\<lambda>runner_space.
     letp (address_space backup backup_id) (\<lambda>backup_space.
     checkp (val (\<not> list_ex (\<lambda>a. list_ex (overlaps a) backup_space) runner_space))
       ''Runner and backup VNet address spaces overlap'' (
     letp (switched settings ''managePeering'') (\<lambda>peering.
     letp (whenr peering (each (check_peers settings) [(runner, backup_id), (backup, runner_id)])) (\<lambda>_.
     letp (switched settings ''manageBlobDnsLink'') (\<lambda>dns.
     thenp (whenp dns (
       checkp (negr (custom_dns runner))
         ''Runner uses custom DNS; select manageBlobDnsLink=false and verify approved forwarding'' (
       letp (str_of (target_group config)) (\<lambda>rgroup.
       letp (str_of (sub (val (JObj target)) ''privateDnsZoneName'')) (\<lambda>zone_name.
       bindp (list_links config rgroup zone_name) (\<lambda>links.
       letp (bindr (iter (val links)) (each (check_blob_link settings))) retp)))))) (
     letp (str_of (dget (val (JObj target)) ''privateDnsZoneName'' (JStr []))) (\<lambda>zone_name.
     letp (connectivity_resource_ids sha config zone_name) (\<lambda>ids.
     retp (JObj (dict_update target
       [(''runnerAddressSpaces'', JList (map (\<lambda>n. JStr (net_str n)) runner_space)),
        (''backupAddressSpaces'', JList (map (\<lambda>n. JStr (net_str n)) backup_space)),
        (''allowedResourceIds'', JList (map JStr (sort (remdups ids))))]))))))))))))))))))"

section \<open>\<open>runner_target_connectivity.py\<close>\<close>

text \<open>A link of the inventory: whether it is one to the Runner VNet.\<close>

definition check_dns_link :: "obj \<Rightarrow> string \<Rightarrow> string \<Rightarrow> json \<Rightarrow> bool res" where
  "check_dns_link settings managed_name label link =
     bindr (setting settings ''runnerVirtualNetworkId'') (\<lambda>runner.
     bindr (link_network_is link runner) (\<lambda>same_network.
     bindr (lower_is (val link) ''name'' managed_name) (\<lambda>same_name.
     check (val (\<not> same_name \<or> same_network)) (''Managed '' @ label @ '' DNS link name points to another VNet'') (
     if \<not> same_network then val False
     else check (conjr (testr (\<lambda>v. v = JBool False) (dget0 (val link) ''registrationEnabled''))
                (conjr (eqs (dget0 (val link) ''provisioningState'') ''Succeeded'')
                       (eqs (dget0 (val link) ''virtualNetworkLinkState'') ''Completed'')))
            (''Existing '' @ label @ '' DNS link conflicts with the approved settings or is not ready'') (
          check (disjr (val (\<not> same_name)) (eqs (dget (val link) ''resolutionPolicy'' (JStr ''Default'')) ''Default''))
            (''Managed '' @ label @ '' DNS link has an unexpected resolution policy'') (
          val True))))))"

definition link_name :: "json list \<Rightarrow> string \<Rightarrow> string res" where
  "link_name existing managed_name =
     (case existing of [] \<Rightarrow> val managed_name | link # _ \<Rightarrow> str_of (sub (val link) ''name''))"

definition dns_link_decision :: "obj \<Rightarrow> json list \<Rightarrow> string \<Rightarrow> obj res" where
  "dns_link_decision settings existing managed_name =
     bindr (switched settings ''manageDnsLink'') (\<lambda>manage.
     bindr (link_name existing managed_name) (\<lambda>name.
     let create = manage \<and> (existing = [] \<or> lower name = lower managed_name) in
     val [(''linkName'', JStr name), (''createDnsLink'', JBool create),
          (''management'', JStr (if create then ''managed'' else if manage then ''reused'' else ''external''))]))"

definition inspect_dns_link ::
    "json \<Rightarrow> obj \<Rightarrow> string \<Rightarrow> string \<Rightarrow> string \<Rightarrow> string \<Rightarrow> bool \<Rightarrow> ('s, obj) proc" where
  "inspect_dns_link config settings dns_group zone_name managed_name label require_link =
     bindp (list_links config dns_group zone_name) (\<lambda>links.
     checkp (val (is_list links)) (''Invalid '' @ label @ '' DNS link inventory'') (
     letp (bindr (list_of (val links)) (filter_res (check_dns_link settings managed_name label))) (\<lambda>existing.
     checkp (val (length existing \<le> 1)) (''Multiple '' @ label @ '' DNS links target the Runner VNet'') (
     checkp (disjr (val (\<not> require_link)) (disjr (negr (switched settings ''manageDnsLink'')) (val (existing \<noteq> []))))
       (''Runner '' @ label @ '' DNS link is missing after deployment'') (
     letp (dns_link_decision settings existing managed_name) retp)))))"

definition NODE_GROUP :: rx where
  "NODE_GROUP = times 1 90 (alnum_or ''_().-'')"

definition AKS_HOST :: rx where
  "AKS_HOST =
     cat [plus1 (lownum_or ''-''), star (Seq (chr CHR ''.'') (plus1 (lownum_or ''-''))), lit ''.privatelink.'',
          plus1 (lownum_or ''-''), lit ''.azmk8s.io'']"

text \<open>The pattern of a private DNS zone identity with \<open>re.I\<close>, on the lower case of the string.\<close>

definition ZONE_ID :: rx where
  "ZONE_ID =
     cat [lit ''/subscriptions/'', times 36 36 (Alt hexlow (chr CHR ''-'')), lit ''/resourcegroups/'',
          times 1 90 (lownum_or ''_().-''), lit ''/providers/microsoft'', any_but_newline,
          lit ''network/privatednszones/'', plus1 (lownum_or ''.-'')]"

definition zone_match :: "json \<Rightarrow> (string \<times> string \<times> string) option" where
  "zone_match v =
     (case v of
        JStr s \<Rightarrow>
          if rmatch ZONE_ID (lower s)
          then Some (take 36 (drop 15 s), takeWhile (\<lambda>c. c \<noteq> CHR ''/'') (drop 67 s), after_last_slash s)
          else None
      | _ \<Rightarrow> None)"

text \<open>\<open>(dns_group, zone_name)\<close> of the zone mode the cluster reports.\<close>

definition cluster_zone :: "json \<Rightarrow> json \<Rightarrow> string \<Rightarrow> string \<Rightarrow> (string \<times> string) res" where
  "cluster_zone config dns_mode node_group host =
     (if (case dns_mode of JStr s \<Rightarrow> lower s = ''system'' | _ \<Rightarrow> False)
      then val (node_group, drop 1 (dropWhile (\<lambda>c. c \<noteq> CHR ''.'') host))
      else check (same_subscription config (zone_match dns_mode))
             ''AKS must report a system or same-subscription private DNS zone'' (
           case zone_match dns_mode of
             None \<Rightarrow> Inl TypeError
           | Some (s, rgroup, zone_name) \<Rightarrow> val (rgroup, lower zone_name)))"

text \<open>A NIC identity: the prefix and one more segment, in any case.\<close>

definition nic_in :: "string \<Rightarrow> string \<Rightarrow> bool" where
  "nic_in prefix nic \<longleftrightarrow>
     (let p = lower (prefix @ ''Microsoft.Network/networkInterfaces/'')
      in starts_with (lower nic) p \<and> length p < length nic \<and> CHR ''/'' \<notin> set (drop (length p) nic))"

definition approved_endpoints :: "string \<Rightarrow> json \<Rightarrow> json list res" where
  "approved_endpoints identifier endpoints =
     bindr (iter (val endpoints)) (filter_res (\<lambda>endpoint.
       bindr (connections_of endpoint) (any_res (approved_connection identifier))))"

definition endpoint_nic :: "json \<Rightarrow> string \<Rightarrow> string \<Rightarrow> bool res \<Rightarrow> string \<Rightarrow> string res" where
  "endpoint_nic endpoint prefix label in_subnet subnet_message =
     check (conjr (eqs (dget0 (val endpoint) ''provisioningState'') ''Succeeded'') in_subnet) subnet_message (
     bindr (only_nic endpoint) (\<lambda>nic.
     check (val (nic_in prefix nic)) (label @ '' private endpoint NIC is outside its resource group'') (val nic)))"

definition private_v4 :: "net \<Rightarrow> bool" where
  "private_v4 n \<longleftrightarrow> version n = 4 \<and> addr_is_private n"

definition record_ips :: "json \<Rightarrow> json list res" where
  "record_ips item = bindr (iter (dget (val item) ''aRecords'' (JList []))) (map_res (\<lambda>r. dget0 (val r) ''ipv4Address''))"

definition check_cluster :: "json \<Rightarrow> obj \<Rightarrow> json \<Rightarrow> (string \<times> string \<times> json) res" where
  "check_cluster config settings cluster =
     bindr (setting settings ''aksResourceId'') (\<lambda>identifier.
     bindr (setting settings ''targetVirtualNetworkId'') (\<lambda>network.
     check (conjr (lower_is (val cluster) ''id'' identifier)
           (conjr (eqs (dget0 (val cluster) ''provisioningState'') ''Succeeded'')
                  (eqs (dget0 (dgetO (val cluster) ''powerState'') ''code'') ''Running'')))
       ''Target AKS must match the approved running cluster'' (
     bindr (dget0 (val cluster) ''apiServerAccessProfile'') (\<lambda>p.
     let profile = if truth p then p else JObj [] in
     check (testr (\<lambda>v. v = JBool True) (dget0 (val profile) ''enablePrivateCluster''))
       ''Target connectivity requires a private AKS cluster'' (
     bindr (dget (val cluster) ''agentPoolProfiles'' (JList [])) (\<lambda>pools.
     check (conjr (val (truth pools)) (bindr (iter (val pools)) (all_res (\<lambda>pool.
              mapr (\<lambda>s. starts_with s (lower network @ ''/subnets/'')) (lower_get (val pool) ''vnetSubnetId'')))))
       ''AKS node pools differ from the configured target VNet'' (
     bindr (dget (val cluster) ''nodeResourceGroup'' (JStr [])) (\<lambda>node.
     check (val (matches_str NODE_GROUP node \<and> (case node of JStr s \<Rightarrow> \<not> ends_with s ''.'' | _ \<Rightarrow> False)))
       ''Invalid AKS node resource group'' (
     bindr (str_of (val node)) (\<lambda>node_group.
     bindr (dget0 (sub (sub (sub (val config) ''parameters'') ''platform'') ''stage4Aks'') ''nodeResourceGroupName'') (\<lambda>expected.
     check (disjr (val (\<not> truth expected)) (mapr (\<lambda>s. lower s = lower node_group) (str_of (val expected))))
       ''AKS node resource group differs from configuration'' (
     bindr (lower_get (val cluster) ''privateFqdn'') (\<lambda>host.
     check (val (rmatch AKS_HOST host))
       ''Unsupported AKS private FQDN; verify the Azure cloud and DNS configuration'' (
     bindr (dget0 (val profile) ''privateDnsZone'') (\<lambda>dns_mode.
     val (node_group, host, dns_mode))))))))))))))))"

definition show_zone :: "json \<Rightarrow> string \<Rightarrow> string \<Rightarrow> ('s, json) proc" where
  "show_zone config rgroup zone_name =
     az_scoped config [''network'', ''private-dns'', ''zone'', ''show'', ''--resource-group'', rgroup, ''--name'', zone_name]"

definition inspect_aks ::
    "json \<Rightarrow> obj \<Rightarrow> string \<Rightarrow> string \<Rightarrow> json \<Rightarrow> ('s, string \<times> string \<times> string \<times> string list) proc" where
  "inspect_aks config settings node_group host dns_mode =
     letp (cluster_zone config dns_mode node_group host) (\<lambda>(dns_group, zone_name).
     checkp (val (ends_with host (''.'' @ zone_name))) ''AKS private FQDN does not belong to the reported zone'' (
     letp (str_of (subscription_of config)) (\<lambda>subscription.
     let zone_id = scope_prefix subscription dns_group @ ''/providers/Microsoft.Network/privateDnsZones/'' @ zone_name in
     bindp (show_zone config dns_group zone_name) (\<lambda>zone_doc.
     checkp (lower_is (val zone_doc) ''id'' zone_id) ''AKS private DNS zone identity mismatch'' (
     bindp (list_endpoints config node_group) (\<lambda>endpoints.
     letp (setting settings ''aksResourceId'') (\<lambda>identifier.
     letp (setting settings ''targetVirtualNetworkId'') (\<lambda>network.
     letp (approved_endpoints identifier endpoints) (\<lambda>found.
     checkp (val (length found = 1)) ''Expected one approved AKS API private endpoint in its node resource group'' (
     letp (endpoint_nic (hd found) (scope_prefix subscription node_group @ ''/providers/'') ''AKS''
             (mapr (\<lambda>s. starts_with s (lower network @ ''/subnets/'')) (lower_get (dgetO (val (hd found)) ''subnet'') ''id''))
             ''AKS private endpoint is not ready in the approved target VNet'') (\<lambda>nic.
     bindp (nic_addresses config nic) (\<lambda>reported.
     letp (private_addresses private_v4 ''AKS private endpoint requires private IPv4 addresses'' reported) (\<lambda>addresses.
     bindp (az_scoped config [''network'', ''private-dns'', ''record-set'', ''a'', ''show'', ''--resource-group'', dns_group,
              ''--zone-name'', zone_name, ''--name'', take (length host - (length zone_name + 1)) host]) (\<lambda>record.
     checkp (bindr (record_ips record) (set_is addresses))
       ''AKS DNS record differs from the actual API private endpoint; investigate restart or DNS drift'' (
     retp (dns_group, zone_name, zone_id, addresses))))))))))))))))"

definition data_record :: "string \<Rightarrow> json \<Rightarrow> bool res" where
  "data_record registry item =
     bindr (lower_get (val item) ''name'') (\<lambda>n.
     val (n = lower registry \<or> (starts_with n (lower registry @ ''.'') \<and> ends_with n ''.data'')))"

definition check_registry_records :: "string \<Rightarrow> string list \<Rightarrow> json \<Rightarrow> unit res" where
  "check_registry_records registry addresses records_doc =
     check (val (is_list records_doc)) ''Invalid ACR private DNS record inventory'' (
     bindr (bindr (list_of (val records_doc)) (filter_res (data_record registry))) (\<lambda>matching.
     bindr (map_res record_ips matching) (\<lambda>ips.
     check (conjr (any_res (\<lambda>item. lower_is (val item) ''name'' registry) matching) (set_is addresses (List.concat ips)))
       ''ACR DNS records differ from the actual private endpoint'' (val ()))))"

definition ACR_ZONE :: string where
  "ACR_ZONE = ''privatelink.azurecr.io''"

definition check_registry :: "obj \<Rightarrow> json \<Rightarrow> unit res" where
  "check_registry settings acr =
     bindr (setting settings ''acrResourceId'') (\<lambda>identifier.
     bindr (setting settings ''acrName'') (\<lambda>registry.
     check (conjr (lower_is (val acr) ''id'' identifier) (eqs (dget0 (val acr) ''provisioningState'') ''Succeeded''))
       ''Target ACR must match the approved registry'' (
     check (conjr (eqs (dget0 (val acr) ''publicNetworkAccess'') ''Disabled'')
                  (lower_is (val acr) ''loginServer'' (registry @ ''.azurecr.io'')))
       ''Target ACR must use the approved private login server'' (val ()))))"

definition inspect_acr :: "json \<Rightarrow> obj \<Rightarrow> string \<Rightarrow> ('s, string \<times> string list) proc" where
  "inspect_acr config settings rgroup =
     letp (setting settings ''acrName'') (\<lambda>registry.
     bindp (az_scoped config [''acr'', ''show'', ''--resource-group'', rgroup, ''--name'', registry, ''--query'',
              ''{id:id,provisioningState:provisioningState,loginServer:loginServer,publicNetworkAccess:publicNetworkAccess}'']) (\<lambda>acr.
     letp (check_registry settings acr) (\<lambda>_.
     letp (setting settings ''targetVirtualNetworkId'') (\<lambda>network.
     letp (setting settings ''privateEndpointSubnetName'') (\<lambda>subnet.
     letp (setting settings ''acrResourceId'') (\<lambda>identifier.
     bindp (list_endpoints config rgroup) (\<lambda>endpoints.
     letp (approved_endpoints identifier endpoints) (\<lambda>found.
     checkp (val (length found = 1)) ''Expected one approved ACR private endpoint in the target resource group'' (
     letp (provider_prefix config) (\<lambda>prefix.
     letp (endpoint_nic (hd found) prefix ''ACR''
             (lower_is (dgetO (val (hd found)) ''subnet'') ''id'' (network @ ''/subnets/'' @ subnet))
             ''ACR private endpoint is not ready in the approved endpoint subnet'') (\<lambda>nic.
     bindp (nic_addresses config nic) (\<lambda>reported.
     letp (private_addresses private_v4 ''ACR private endpoint requires private IPv4 addresses'' reported) (\<lambda>addresses.
     bindp (show_zone config rgroup ACR_ZONE) (\<lambda>zone_doc.
     checkp (lower_is (val zone_doc) ''id'' (prefix @ ''Microsoft.Network/privateDnsZones/'' @ ACR_ZONE))
       ''ACR private DNS zone identity mismatch'' (
     bindp (az_scoped config [''network'', ''private-dns'', ''record-set'', ''a'', ''list'', ''--resource-group'', rgroup,
              ''--zone-name'', ACR_ZONE]) (\<lambda>records_doc.
     letp (check_registry_records registry addresses records_doc) (\<lambda>_.
     letp (lower_get (val acr) ''loginServer'') (\<lambda>login_server.
     retp (login_server, addresses)))))))))))))))))))"

definition sorted_strs :: "string list \<Rightarrow> json" where
  "sorted_strs xs = JList (map JStr (sort xs))"

definition inspect_target_connectivity :: "sha \<Rightarrow> json \<Rightarrow> bool \<Rightarrow> ('s, json) proc" where
  "inspect_target_connectivity sha config require_link =
     letp (target_connectivity_settings sha config) (\<lambda>settings.
     letp (str_of (target_group config)) (\<lambda>rgroup.
     letp (fmt (sub (val config) ''environment'')) (\<lambda>env.
     bindp (deployment_outputs config rgroup (''llmgw-'' @ env @ ''-s4-platform'') ''properties.provisioningState'') (\<lambda>deployment.
     checkp (val (deployment = JStr ''Succeeded''))
       ''Complete the Stage 4 platform deployment before target connectivity'' (
     letp (setting settings ''aksName'') (\<lambda>aks.
     bindp (az_scoped config [''aks'', ''show'', ''--resource-group'', rgroup, ''--name'', aks, ''--query'',
              ''{id:id,provisioningState:provisioningState,powerState:powerState,nodeResourceGroup:nodeResourceGroup,privateFqdn:privateFqdn,apiServerAccessProfile:apiServerAccessProfile,agentPoolProfiles:agentPoolProfiles}'']) (\<lambda>cluster.
     letp (check_cluster config settings cluster) (\<lambda>(node_group, host, dns_mode).
     bindp (inspect_aks config settings node_group host dns_mode) (\<lambda>(dns_group, zone_name, zone_id, addresses).
     letp (setting settings ''runnerVirtualNetworkId'') (\<lambda>runner_id.
     bindp (show_vnet config runner_id) (\<lambda>runner.
     checkp (lower_is (val runner) ''id'' runner_id) ''Runner VNet identity mismatch'' (
     letp (dget0 (val runner) ''dhcpOptions'') (\<lambda>dhcp.
     checkp (disjr (negr (switched settings ''manageDnsLink''))
               (negr (testr truth (dget0 (val (if truth dhcp then dhcp else JObj [])) ''dnsServers''))))
       ''Custom Runner DNS requires manageDnsLink=false and approved forwarding'' (
     letp (setting settings ''linkName'') (\<lambda>aks_name.
     bindp (inspect_dns_link config settings dns_group zone_name aks_name ''AKS'' require_link) (\<lambda>aks_link.
     bindp (inspect_acr config settings rgroup) (\<lambda>(login_server, acr_addresses).
     letp (setting settings ''acrLinkName'') (\<lambda>acr_name.
     bindp (inspect_dns_link config settings rgroup ACR_ZONE acr_name ''ACR'' require_link) (\<lambda>acr_link.
     letp (setting settings ''aksResourceId'') (\<lambda>aks_id.
     letp (setting settings ''acrResourceId'') (\<lambda>acr_id.
     letp (provider_prefix config) (\<lambda>prefix.
     retp (JObj (
       [(''aksResourceId'', JStr aks_id), (''apiHostname'', JStr host), (''runnerVirtualNetworkId'', JStr runner_id),
        (''dnsResourceGroupName'', JStr dns_group), (''privateDnsZoneName'', JStr zone_name),
        (''privateDnsZoneId'', JStr zone_id), (''privateEndpointIps'', sorted_strs addresses)] @ aks_link @
       [(''acrResourceId'', JStr acr_id), (''acrLoginServer'', JStr login_server),
        (''acrDnsResourceGroupName'', JStr rgroup), (''acrPrivateDnsZoneName'', JStr ACR_ZONE),
        (''acrPrivateDnsZoneId'', JStr (prefix @ ''Microsoft.Network/privateDnsZones/'' @ ACR_ZONE)),
        (''acrPrivateEndpointIps'', sorted_strs acr_addresses),
        (''acrLinkName'', lookup_or acr_link ''linkName'' JNull), (''createAcrDnsLink'', lookup_or acr_link ''createDnsLink'' JNull),
        (''acrManagement'', lookup_or acr_link ''management'' JNull)]))))))))))))))))))))))))"

section \<open>Inspections only read\<close>

text \<open>The words of an Azure command before its options; a reading command ends in \<open>show\<close> or \<open>list\<close>.\<close>

definition az_words :: "string list \<Rightarrow> string list" where
  "az_words arguments = takeWhile (\<lambda>w. \<not> starts_with w ''--'') arguments"

definition az_reads :: "string list \<Rightarrow> bool" where
  "az_reads arguments \<longleftrightarrow> az_words arguments \<noteq> [] \<and> last (az_words arguments) \<in> {''show'', ''list''}"

definition reading :: "event \<Rightarrow> bool" where
  "reading e \<longleftrightarrow>
     (case fst e of
        Command (tool # arguments) \<Rightarrow> tool = ''az'' \<and> az_reads arguments
      | WriteFile name document \<Rightarrow> True
      | _ \<Rightarrow> False)"

lemma az_reads_append: "list_ex (\<lambda>w. starts_with w ''--'') a \<Longrightarrow> az_reads (a @ b) = az_reads a"
  unfolding az_reads_def az_words_def by (auto simp: list_ex_iff)

lemma reading_scoped:
  "az_reads (arguments @ [''--subscription'']) \<Longrightarrow> reading (az_command (arguments @ [''--subscription'', s]), r)"
  using az_reads_append [of "arguments @ [''--subscription'']" "[s, ''--only-show-errors'', ''--output'', ''json'']"]
  by (simp add: reading_def az_command_def starts_with_def)

lemma reading_run:
  "az_reads (arguments @ [''--only-show-errors'']) \<Longrightarrow> reading (az_command arguments, r)"
  using az_reads_append [of "arguments @ [''--only-show-errors'']" "[''--output'', ''json'']"]
  by (simp add: reading_def az_command_def starts_with_def)

lemma reading_file [simp]: "reading (WriteFile n d, r)"
  by (simp add: reading_def)

lemma only_reading_scoped [only_intros]:
  "az_reads (arguments @ [''--subscription'']) \<Longrightarrow> only reading (az_scoped_with e config arguments)"
  by (rule only_az_scoped) (simp_all add: reading_scoped)

lemma only_reading_run [only_intros]:
  "az_reads (arguments @ [''--only-show-errors'']) \<Longrightarrow> only reading (az_run e arguments)"
  by (rule only_az_run) (simp_all add: reading_run)

lemmas az_reads_eval = az_reads_def az_words_def starts_with_def

lemma only_reading_steps [only_intros]:
  "only reading (list_links config rgroup zone_name)"
  "only reading (list_endpoints config rgroup)"
  "only reading (show_vnet config identifier)"
  "only reading (nic_addresses config identifier)"
  "only reading (deployment_outputs config rgroup name projection)"
  "only reading (show_zone config rgroup zone_name)"
  unfolding list_links_def list_endpoints_def show_vnet_def nic_addresses_def deployment_outputs_def show_zone_def
  by (intro only_intros; simp add: az_reads_eval)+

lemma only_reading_dns_link [only_intros]: "only reading (inspect_dns_link config settings g z m label required)"
  unfolding inspect_dns_link_def by (intro only_intros)

lemma only_reading_aks [only_intros]: "only reading (inspect_aks config settings node_group host dns_mode)"
  unfolding inspect_aks_def Let_def by (intro only_intros; simp add: az_reads_eval)

lemma only_reading_acr [only_intros]: "only reading (inspect_acr config settings rgroup)"
  unfolding inspect_acr_def by (intro only_intros; simp add: az_reads_eval)

lemma only_reading_target: "only reading (inspect_target_connectivity sha config required)"
  unfolding inspect_target_connectivity_def by (intro only_intros; simp add: az_reads_eval)

lemma only_reading_backup [only_intros]: "only reading (backup_target config)"
  unfolding backup_target_def Let_def by (intro only_intros; simp add: az_reads_eval)

lemma only_reading_connectivity: "only reading (inspect_connectivity sha config)"
  unfolding inspect_connectivity_def by (intro only_intros)

lemma only_reading_network [only_intros]: "only reading (inspect_network config links p)"
  unfolding inspect_network_def by (intro only_intros)

lemma only_reading_certificates: "only reading (inspect_certificate_infrastructure config)"
  unfolding inspect_certificate_infrastructure_def by (intro only_intros; simp add: az_reads_eval)

text \<open>Whatever Azure replies, the three inspections of the connectivity components run nothing but
  \<open>az ... show\<close> and \<open>az ... list\<close> commands and write private evidence files: they change no resource.\<close>

theorem inspections_only_read:
  "list_all reading (run_log (inspect_target_connectivity sha config require_link) sv w)
   \<and> list_all reading (run_log (inspect_connectivity sha config) sv w)
   \<and> list_all reading (run_log (inspect_certificate_infrastructure config) sv w)"
  by (intro conjI only_run_log only_reading_target only_reading_connectivity only_reading_certificates)

end
