(* ===== verification/Edge_Binding.thy ===== *)
theory Edge_Binding
  imports Inspection Kube Approval_Gate
begin

text \<open>
  \<open>scripts/edge_binding.py\<close>: the deployed Front Door is read back and compared with the
  configuration in every reviewed respect, both private planes are bound to its identity, and a
  traffic release requires the stored receipt of that binding to agree with the live state.

  The YAML reader and writer (PyYAML) and the network probe of a route are not part of the
  repository: the reader and the writer are the parameters \<open>yload\<close> and \<open>ydump\<close>, the probe is a call
  to the outside.
\<close>

type_synonym yload = "string \<Rightarrow> json res"
type_synonym ydump = "json \<Rightarrow> string"

section \<open>Shared shapes\<close>

text \<open>A conjunction of several conditions, evaluated from the left.\<close>

primrec allr :: "bool res list \<Rightarrow> bool res" where
  "allr [] = Inr True"
| "allr (c # cs) = conjr c (allr cs)"

lemma allr_ok [py_ok]: "allr cs = Inr True \<longleftrightarrow> (\<forall>c \<in> set cs. c = Inr True)"
  by (induction cs) (auto simp: py_ok)

text \<open>\<open>e.get(k1, {}).get(k2, {}) ... .get(kn)\<close>\<close>

fun get_at :: "json res \<Rightarrow> string list \<Rightarrow> json res" where
  "get_at e [] = e"
| "get_at e [k] = dget0 e k"
| "get_at e (k # ks) = get_at (dgetO e k) ks"

fun sub_at :: "json res \<Rightarrow> string list \<Rightarrow> json res" where
  "sub_at e [] = e"
| "sub_at e (k # ks) = sub_at (sub e k) ks"

text \<open>\<open>v[k1][k2]...\<close> replaced by the result of \<open>f\<close>.\<close>

primrec update_in :: "string list \<Rightarrow> (json \<Rightarrow> json res) \<Rightarrow> json \<Rightarrow> json res" where
  "update_in [] f v = f v"
| "update_in (k # ks) f v =
     bindr (sub (val v) k) (\<lambda>x.
     bindr (update_in ks f x) (\<lambda>y.
     bindr (items (val v)) (\<lambda>kv. val (JObj (dict_set kv k y)))))"

definition is_true :: "json res \<Rightarrow> bool res" where
  "is_true e = testr (\<lambda>v. v = JBool True) e"

definition no_text_or :: "string \<Rightarrow> json \<Rightarrow> bool" where
  "no_text_or s v \<longleftrightarrow> v = JNull \<or> v = JStr s"

text \<open>\<open>sorted(e)\<close> of a sequence of strings.\<close>

definition sorted_of :: "json res \<Rightarrow> string list res" where
  "sorted_of e =
     bindr (iter e) (\<lambda>vs. mapr sort (map_res (\<lambda>v. case v of JStr s \<Rightarrow> val s | _ \<Rightarrow> Inl TypeError) vs))"

text \<open>\<open>str(e or "").lower()\<close>\<close>

definition status_text :: "json res \<Rightarrow> string res" where
  "status_text e = bindr e (\<lambda>v. if truth v then mapr lower (fmt (val v)) else val [])"

text \<open>\<open>s.rsplit(p, 1)[0]\<close>\<close>

fun last_split :: "string \<Rightarrow> string \<Rightarrow> string option" where
  "last_split p [] = None"
| "last_split p (c # cs) =
     (case last_split p cs of
        Some a \<Rightarrow> Some (c # a)
      | None \<Rightarrow> if starts_with (c # cs) p then Some [] else None)"

definition before_last :: "string \<Rightarrow> string \<Rightarrow> string" where
  "before_last p s = (case last_split p s of None \<Rightarrow> s | Some a \<Rightarrow> a)"

section \<open>Routing rules\<close>

definition NATIVE_API_PATHS :: "string list" where
  "NATIVE_API_PATHS =
     [''/chat/completions'', ''/v1/chat/completions'', ''/responses'', ''/v1/responses'', ''/embeddings'', ''/v1/embeddings'']"

definition NATIVE_WSS_PATHS :: "string list" where
  "NATIVE_WSS_PATHS = [''/responses'', ''/v1/responses'']"

definition path_rule :: "string list \<Rightarrow> string" where
  "path_rule paths = join '' || '' (map (\<lambda>p. ''Path(`'' @ p @ ''`)'') paths)"

definition bound_rule :: "string \<Rightarrow> string option \<Rightarrow> string" where
  "bound_rule rule identifier =
     (case identifier of
        None \<Rightarrow> rule
      | Some i \<Rightarrow> rule @ '' && HeaderRegexp(`X-Azure-FDID`, `(?i)^'' @ i @ ''$`)'')"

definition native_api_rule :: "string \<Rightarrow> string option \<Rightarrow> string" where
  "native_api_rule host identifier =
     (let blank = ''[, '' @ [CHR 0x5C] @ ''t]'';
          websocket = ''Method(`GET`) && ('' @ path_rule NATIVE_WSS_PATHS @ '')''
            @ '' && HeaderRegexp(`Upgrade`, `(?i)^websocket$`)''
            @ '' && HeaderRegexp(`Connection`, `(?i)(^|'' @ blank @ '')upgrade('' @ blank @ ''|$)`)''
      in bound_rule (''Host(`'' @ host @ ''`) && ((Method(`POST`) && ('' @ path_rule NATIVE_API_PATHS @ '')) || ('' @ websocket @ ''))'')
           identifier)"

definition native_admin_rule :: "string \<Rightarrow> string option \<Rightarrow> string" where
  "native_admin_rule host identifier = bound_rule (''Host(`'' @ host @ ''`)'') identifier"

definition native_health_rule :: "string \<Rightarrow> string" where
  "native_health_rule host = ''Host(`'' @ host @ ''`) && Method(`GET`) && Path(`/readyz`)''"

definition native_rule :: "string \<Rightarrow> string \<Rightarrow> string option \<Rightarrow> string" where
  "native_rule plane host identifier =
     (if plane = ''api'' then native_api_rule host identifier else native_admin_rule host identifier)"

text \<open>\<open>re.findall(r"HeaderRegexp\(`X-Azure-FDID`,\s*`\(\?i\)\^([a-fA-F0-9-]+)\$`\)", rule)\<close>: one match at
  the head of a string with its length, and all matches from the left.\<close>

definition hex_dash :: "char \<Rightarrow> bool" where
  "hex_dash c \<longleftrightarrow> is_digit c \<or> between 97 102 c \<or> between 65 70 c \<or> c = CHR ''-''"

definition fdid_at :: "string \<Rightarrow> (string \<times> nat) option" where
  "fdid_at s =
     (let start = ''HeaderRegexp(`X-Azure-FDID`,''; r = dropWhile is_space (drop (length start) s);
          h = drop 6 r; identifier = takeWhile hex_dash h; t = dropWhile hex_dash h
      in if starts_with s start \<and> starts_with r ''`(?i)^'' \<and> identifier \<noteq> [] \<and> starts_with t ''$`)''
         then Some (identifier, length s - length (drop 3 t)) else None)"

fun fdids :: "nat \<Rightarrow> string \<Rightarrow> string list" where
  "fdids skip [] = []"
| "fdids (Suc k) (c # cs) = fdids k cs"
| "fdids 0 (c # cs) =
     (case fdid_at (c # cs) of None \<Rightarrow> fdids 0 cs | Some (identifier, n) \<Rightarrow> identifier # fdids (n - 1) cs)"

section \<open>Proxy workloads\<close>

definition containers_of :: "json \<Rightarrow> json list res" where
  "containers_of deployment = iter (sub_at (val deployment) [''spec'', ''template'', ''spec'', ''containers''])"

definition fdid_entries :: "json \<Rightarrow> json list res" where
  "fdid_entries deployment =
     bindr (containers_of deployment) (\<lambda>containers.
     bindr (map_res (\<lambda>c. iter (dget (val c) ''env'' (JList []))) containers) (\<lambda>envs.
     filter_res (\<lambda>item. eqs (dget0 (val item) ''name'') ''FRONT_DOOR_ID'') (List.concat envs)))"

definition front_door_id :: "json \<Rightarrow> string option res" where
  "front_door_id deployment =
     (if \<not> truth deployment then val None
      else bindr (fdid_entries deployment) (\<lambda>entries.
        check (val (length entries \<le> 1)) ''Duplicate Front Door identity configuration'' (
        case entries of
          [] \<Rightarrow> val None
        | entry # _ \<Rightarrow>
            bindr (dget0 (val entry) ''value'') (\<lambda>v.
            check (allr [val (keys_are [''name'', ''value''] entry), val (is_str v), mapr (\<lambda>i. i \<noteq> 0) (uuid_int v)])
              ''Front Door ID must be an explicit nonzero UUID'' (
            mapr Some (str_of (val v)))))))"

definition nonzero_id :: "json \<Rightarrow> string res" where
  "nonzero_id identifier =
     check (allr [val (is_str identifier), mapr (\<lambda>i. i \<noteq> 0) (uuid_int identifier)])
       ''Invalid deployed Front Door identity'' (str_of (val identifier))"

definition fdid_entry :: "string \<Rightarrow> json" where
  "fdid_entry identifier = JObj [(''name'', JStr ''FRONT_DOOR_ID''), (''value'', JStr identifier)]"

definition add_fdid :: "string \<Rightarrow> json \<Rightarrow> json res" where
  "add_fdid identifier containers =
     bindr (list_of (val containers)) (\<lambda>cs.
     bindr (items (val (hd cs))) (\<lambda>kv.
     bindr (list_of (val (lookup_or kv ''env'' (JList [])))) (\<lambda>env.
     val (JList (JObj (dict_set kv ''env'' (JList (env @ [fdid_entry identifier]))) # tl cs)))))"

definition bind_deployment :: "json \<Rightarrow> json \<Rightarrow> json res" where
  "bind_deployment deployment identifier =
     bindr (nonzero_id identifier) (\<lambda>wanted.
     check (in_strs (sub_at (val deployment) [''metadata'', ''name'']) [''llm-api-proxy'', ''llm-admin-proxy''])
       ''Only managed API/Admin proxies can bind Front Door'' (
     bindr (front_door_id deployment) (\<lambda>existing.
     check (val (case existing of None \<Rightarrow> True | Some e \<Rightarrow> lower e = lower wanted))
       ''Existing proxy trusts another Front Door; review that change separately'' (
     bindr (containers_of deployment) (\<lambda>containers.
     check (conjr (val (length containers = 1)) (eqs (sub (val (hd containers)) ''name'') ''auth-proxy''))
       ''Unexpected managed API proxy container set'' (
     if existing = None
     then update_in [''spec'', ''template'', ''spec'', ''containers''] (add_fdid wanted) deployment
     else val deployment))))))"

text \<open>The bindings of the live workloads survive a rendering of new documents.\<close>

definition live_items :: "json \<Rightarrow> json list" where
  "live_items live =
     (case live of
        JObj kv \<Rightarrow> if ''metadata'' \<in> set (keys_of kv) then [live] else map snd kv
      | _ \<Rightarrow> [live])"

definition live_names :: "json \<Rightarrow> keyed res" where
  "live_names live =
     fold_res (\<lambda>item acc. bindr (sub_at (val item) [''metadata'', ''name'']) (\<lambda>name.
       if hashable name then val (jassoc_set acc name item) else Inl TypeError)) (filter truth (live_items live)) []"

definition preserve_item :: "keyed \<Rightarrow> json \<Rightarrow> json res" where
  "preserve_item existing item =
     bindr (eqs (sub (val item) ''kind'') ''Deployment'') (\<lambda>workload.
     if \<not> workload then val item
     else bindr (sub_at (val item) [''metadata'', ''name'']) (\<lambda>name.
          bindr (in_strs (val name) [''llm-api-proxy'', ''llm-admin-proxy'']) (\<lambda>managed.
          case (if managed then jassoc existing name else None) of
            None \<Rightarrow> val item
          | Some live \<Rightarrow>
              bindr (front_door_id live) (\<lambda>identifier.
              case identifier of
                Some i \<Rightarrow> if i = [] then val item else bind_deployment item (JStr i)
              | None \<Rightarrow> val item))))"

definition preserve_binding :: "json list \<Rightarrow> json \<Rightarrow> json list res" where
  "preserve_binding documents live =
     bindr (live_names live) (\<lambda>existing. map_res (preserve_item existing) documents)"

section \<open>The live Front Door\<close>

definition deployed_resource :: "json \<Rightarrow> string \<Rightarrow> string \<Rightarrow> ('s, json) proc" where
  "deployed_resource config resource_id api_version =
     bindp (az_scoped config [''resource'', ''show'', ''--ids'', resource_id, ''--api-version'', api_version]) (\<lambda>value.
     checkp (lower_is (val value) ''id'' resource_id)
       ''Azure returned a resource outside the reviewed edge scope'' (retp value))"

definition CDN_API :: string where
  "CDN_API = ''2025-04-15''"

text \<open>The request over the public data plane; its failure is an exception.\<close>

definition probe_enabled_route :: "string \<Rightarrow> string \<Rightarrow> string \<Rightarrow> ('s, unit) proc" where
  "probe_enabled_route host endpoint_host plane =
     bindp (perform (Client ''probe_enabled_route'' [JStr host, JStr endpoint_host, JStr plane])) (\<lambda>r.
     checkp (val (r \<noteq> Failure)) (''Front Door '' @ plane @ '' route did not reach its reviewed public data plane'') (retp ()))"

text \<open>A plane with the names of its fields in the edge output.\<close>

record plane =
  pname :: string
  route_key :: string
  traffic_key :: string
  endpoint_key :: string
  origin_key :: string

definition API :: plane where
  "API = \<lparr>pname = ''api'', route_key = ''routeId'', traffic_key = ''apiTrafficEnabled'',
          endpoint_key = ''endpointHost'', origin_key = ''privateOrigin''\<rparr>"

definition ADMIN :: plane where
  "ADMIN = \<lparr>pname = ''admin'', route_key = ''adminRouteId'', traffic_key = ''adminTrafficEnabled'',
            endpoint_key = ''adminEndpointHost'', origin_key = ''adminPrivateOrigin''\<rparr>"

definition plane_host :: "json \<Rightarrow> plane \<Rightarrow> string res" where
  "plane_host config p = prefixed (''llm-'' @ pname p @ ''.'') (sub (val config) ''baseDomain'')"

definition probe_plane :: "json \<Rightarrow> json \<Rightarrow> plane \<Rightarrow> ('s, unit) proc" where
  "probe_plane config edge p =
     letp (plane_host config p) (\<lambda>host.
     letp (str_of (sub (val edge) (endpoint_key p))) (\<lambda>endpoint.
     probe_enabled_route host endpoint (pname p)))"

definition endpoint_properties :: "json \<Rightarrow> json \<Rightarrow> plane \<Rightarrow> ('s, json) proc" where
  "endpoint_properties config edge p =
     letp (str_of (sub (val edge) (route_key p))) (\<lambda>route_id.
     bindp (deployed_resource config (before_last ''/routes/'' route_id) CDN_API) (\<lambda>endpoint.
     letp (dgetO (val endpoint) ''properties'') retp))"

definition check_endpoint :: "plane \<times> json \<Rightarrow> unit res" where
  "check_endpoint pe =
     (case pe of (p, properties) \<Rightarrow>
     check (allr [eqs (dget0 (val properties) ''provisioningState'') ''Succeeded'',
                  testr (no_text_or ''Disabled'') (dget0 (val properties) ''enforceMtls'')])
       (if pname p = ''api'' then ''Front Door API endpoint unexpectedly enforces mTLS''
        else ''Front Door Admin endpoint has an unexpected mTLS requirement'') (val ()))"

definition expected_patterns :: "plane \<Rightarrow> string list" where
  "expected_patterns p = (if pname p = ''api'' then sort NATIVE_API_PATHS else [''/*''])"

definition route_contract :: "json \<Rightarrow> string \<Rightarrow> plane \<Rightarrow> bool res" where
  "route_contract route profile_id p =
     bindr (iter (dget (val route) ''customDomains'' (JList []))) (\<lambda>domains.
     allr [val (length domains = 1),
           lower_is (val (hd domains)) ''id'' (profile_id @ ''/customDomains/llm-'' @ pname p),
           lower_is (dgetO (val route) ''originGroup'') ''id'' (profile_id @ ''/originGroups/private-'' @ pname p)])"

definition check_route :: "json \<Rightarrow> json \<Rightarrow> string \<Rightarrow> plane \<Rightarrow> ('s, unit) proc" where
  "check_route config edge profile_id p =
     letp (str_of (sub (val edge) (route_key p))) (\<lambda>route_id.
     bindp (deployed_resource config route_id CDN_API) (\<lambda>resource.
     letp (dgetO (val resource) ''properties'') (\<lambda>route.
     letp (is_true (dget0 (val edge) (traffic_key p))) (\<lambda>traffic.
     letp (dget0 (val route) ''deploymentStatus'') (\<lambda>status.
     checkp (allr [eqs (dget0 (val route) ''provisioningState'') ''Succeeded'',
                   eqs (dget0 (val route) ''enabledState'') (if traffic then ''Enabled'' else ''Disabled'')])
       (''Front Door '' @ pname p @ '' route is not deployed in the reviewed traffic state'') (
     thenp (if traffic \<and> status = JStr ''NotStarted'' then probe_plane config edge p
            else checkp (val (status = JStr (if traffic then ''Succeeded'' else ''NotStarted'')))
                   (''Front Door '' @ pname p @ '' route is not deployed in the reviewed traffic state'') (retp ())) (
     checkp (allr [eqr (dget0 (val route) ''supportedProtocols'') (val (JList [JStr ''Https''])),
                   eqs (dget0 (val route) ''forwardingProtocol'') ''HttpsOnly'',
                   eqs (dget0 (val route) ''httpsRedirect'') ''Enabled'',
                   eqs (dget0 (val route) ''linkToDefaultDomain'') ''Disabled''])
       (''Front Door '' @ pname p @ '' route exposes an unreviewed protocol or default endpoint'') (
     checkp (allr [mapr (\<lambda>ps. ps = expected_patterns p) (sorted_of (dget (val route) ''patternsToMatch'' (JList []))),
                   eqr (dget (val route) ''ruleSets'' (JList [])) (val (JList [])),
                   testr (\<lambda>v. v = JNull \<or> v = JObj []) (dget0 (val route) ''cacheConfiguration'')])
       (''Front Door '' @ pname p @ '' route patterns, rules or caching differ from the reviewed contract'') (
     checkp (route_contract route profile_id p)
       (''Front Door '' @ pname p @ '' route targets an unexpected domain or origin group'') (retp ()))))))))))"

text \<open>The connections of a Private Link Service that are approved or pending: status and consumer.\<close>

definition active_connections :: "json \<Rightarrow> (string \<times> json) list res" where
  "active_connections service =
     bindr (iter (dget (val service) ''privateEndpointConnections'' (JList []))) (\<lambda>cs.
     bindr (map_res (\<lambda>c.
              bindr (mapr lower (fmt (get_at (val c) [''properties'', ''privateLinkServiceConnectionState'', ''status'']))) (\<lambda>status.
              val (status, c))) cs) (\<lambda>found.
     map_res (\<lambda>(status, c). bindr (get_at (val c) [''properties'', ''privateEndpoint'', ''id'']) (\<lambda>identifier.
              val (status, identifier)))
       (filter (\<lambda>(status, c). status \<in> {''approved'', ''pending''}) found)))"

definition one_approved :: "(string \<times> json) list \<Rightarrow> bool" where
  "one_approved active \<longleftrightarrow>
     (case active of
        [(status, identifier)] \<Rightarrow> status = ''approved'' \<and> is_str identifier \<and> truth identifier
      | _ \<Rightarrow> False)"

definition check_origin_link :: "json \<Rightarrow> json \<Rightarrow> json \<Rightarrow> plane \<Rightarrow> json res" where
  "check_origin_link config origin_doc deployed p =
     bindr (dgetO (val origin_doc) ''properties'') (\<lambda>properties.
     bindr (dgetO (val properties) ''sharedPrivateLinkResource'') (\<lambda>shared.
     check (allr [eqs (dget0 (val properties) ''provisioningState'') ''Succeeded'',
                  eqs (dget0 (val properties) ''enabledState'') ''Enabled''])
       (''Front Door '' @ pname p @ '' private origin is not provisioned and enabled'') (
     bindr (plane_host config p) (\<lambda>host.
     check (allr [eqs (dget0 (val properties) ''hostName'') host, eqs (dget0 (val properties) ''originHostHeader'') host,
                  is_true (dget0 (val properties) ''enforceCertificateNameCheck'')])
       (''Front Door '' @ pname p @ '' origin TLS identity differs from the reviewed contract'') (
     bindr (str_of (sub (val deployed) ''privateLinkServiceId'')) (\<lambda>service_id.
     check (allr [lower_is (dgetO (val shared) ''privateLink'') ''id'' service_id,
                  eqr (dget0 (val shared) ''privateLinkLocation'') (sub (val deployed) ''privateLinkLocation''),
                  mapr (\<lambda>s. s \<in> {[], ''approved''}) (status_text (dget0 (val shared) ''status''))])
       (''Front Door '' @ pname p @ '' private connection is not ready for the reviewed PLS and traffic state'') (
     val shared)))))))"

definition check_origin_plane :: "json \<Rightarrow> json \<Rightarrow> string \<Rightarrow> json \<Rightarrow> plane \<Rightarrow> ('s, unit) proc" where
  "check_origin_plane config edge profile_id deployed p =
     bindp (deployed_resource config (profile_id @ ''/originGroups/private-'' @ pname p @ ''/origins/private-'' @ pname p) CDN_API) (\<lambda>origin_doc.
     letp (check_origin_link config origin_doc deployed p) (\<lambda>shared.
     letp (str_of (sub (val deployed) ''privateLinkServiceId'')) (\<lambda>service_id.
     bindp (deployed_resource config service_id ''2024-07-01'') (\<lambda>service.
     letp (dgetO (val service) ''properties'') (\<lambda>properties.
     letp (active_connections properties) (\<lambda>active.
     checkp (val (one_approved active))
       (pname p @ '' PLS must have exactly one approved connection and no unexpected pending connection'') (
     checkp (eqr (get_at (val properties) [''autoApproval'', ''subscriptions'']) (val (JList [])))
       (pname p @ '' PLS must not auto-approve consumers'') (
     letp (is_true (dget0 (val edge) (traffic_key p))) (\<lambda>traffic.
     letp (testr truth (dget0 (val shared) ''status'')) (\<lambda>has_status.
     if traffic \<and> \<not> has_status then probe_plane config edge p else retp ()))))))))))"

definition check_domain :: "json \<Rightarrow> string \<Rightarrow> plane \<Rightarrow> ('s, unit) proc" where
  "check_domain config profile_id p =
     bindp (deployed_resource config (profile_id @ ''/customDomains/llm-'' @ pname p) CDN_API) (\<lambda>domain.
     letp (dgetO (val domain) ''properties'') (\<lambda>properties.
     letp (plane_host config p) (\<lambda>host.
     checkp (allr [eqs (dget0 (val properties) ''provisioningState'') ''Succeeded'',
                   eqs (dget0 (val properties) ''deploymentStatus'') ''Succeeded'',
                   eqs (dget0 (val properties) ''domainValidationState'') ''Approved''])
       (''Front Door '' @ pname p @ '' custom domain ownership or edge certificate is not ready'') (
     checkp (allr [eqs (dget0 (val properties) ''hostName'') host,
                   eqs (get_at (val properties) [''tlsSettings'', ''certificateType'']) ''ManagedCertificate'',
                   eqs (get_at (val properties) [''tlsSettings'', ''minimumTlsVersion'']) ''TLS12'',
                   negr (has (val properties) ''mtlsSettings'')])
       (''Front Door '' @ pname p @ '' custom domain TLS differs from the reviewed contract'') (retp ())))))"

section \<open>The web application firewall\<close>

definition managed_rule :: "json \<Rightarrow> (json \<times> json \<times> json) res" where
  "managed_rule item =
     bindr (dget0 (val item) ''ruleSetType'') (\<lambda>a.
     bindr (dget0 (val item) ''ruleSetVersion'') (\<lambda>b.
     bindr (dget0 (val item) ''ruleSetAction'') (\<lambda>c.
     if list_all hashable [a, b, c] then val (a, b, c) else Inl TypeError)))"

definition MANAGED_RULES :: "(json \<times> json \<times> json) list" where
  "MANAGED_RULES =
     [(JStr ''Microsoft_DefaultRuleSet'', JStr ''2.1'', JStr ''Block''),
      (JStr ''Microsoft_BotManagerRuleSet'', JStr ''1.1'', JStr ''Block'')]"

text \<open>The rules by name; of equal names the last one wins.\<close>

definition custom_rules :: "json \<Rightarrow> keyed res" where
  "custom_rules waf =
     bindr (iter (dget (dgetO (val waf) ''customRules'') ''rules'' (JList []))) (\<lambda>rules.
     fold_res (\<lambda>rule acc. bindr (dget0 (val rule) ''name'') (\<lambda>name.
       if hashable name then val (jassoc_set acc name rule) else Inl TypeError)) rules [])"

definition CUSTOM_RULES :: "string list" where
  "CUSTOM_RULES = [''BlockUnapprovedAdminSources'', ''BlockUnsafeMethods'', ''RateLimitAdmin'']"

definition only_condition :: "json \<Rightarrow> bool res list \<Rightarrow> string \<Rightarrow> json res" where
  "only_condition rule conditions message =
     bindr (iter (dget (val rule) ''matchConditions'' (JList []))) (\<lambda>found.
     check (allr (conditions @ [val (length found = 1)])) message (val (hd found)))"

definition check_allowlist_rule :: "json \<Rightarrow> json \<Rightarrow> unit res" where
  "check_allowlist_rule edge_config rule =
     bindr (only_condition rule
       [eqs (dget0 (val rule) ''enabledState'') ''Enabled'', eqs (dget0 (val rule) ''action'') ''Block'',
        eqr (dget0 (val rule) ''priority'') (val (JInt 5))]
       ''Admin WAF source-IP rule is disabled or reordered'') (\<lambda>condition.
     check (allr [eqs (dget0 (val condition) ''matchVariable'') ''SocketAddr'', eqs (dget0 (val condition) ''operator'') ''IPMatch'',
                  is_true (dget0 (val condition) ''negateCondition''),
                  bindr (sorted_of (dget (val condition) ''matchValue'' (JList []))) (\<lambda>live.
                  mapr (\<lambda>wanted. live = wanted) (sorted_of (sub (val edge_config) ''adminAllowedCidrs'')))])
       ''Admin WAF source-IP allowlist differs from the customer configuration'' (val ()))"

definition is_false :: "json res \<Rightarrow> bool res" where
  "is_false e = testr (\<lambda>v. v = JBool False) e"

definition check_methods_rule :: "json \<Rightarrow> unit res" where
  "check_methods_rule rule =
     bindr (only_condition rule
       [eqs (dget0 (val rule) ''enabledState'') ''Enabled'', eqs (dget0 (val rule) ''ruleType'') ''MatchRule'',
        eqs (dget0 (val rule) ''action'') ''Block'', eqr (dget0 (val rule) ''priority'') (val (JInt 10))]
       ''Admin WAF unsafe-method rule is disabled or reordered'') (\<lambda>condition.
     check (allr [eqs (dget0 (val condition) ''matchVariable'') ''RequestMethod'', eqs (dget0 (val condition) ''operator'') ''Equal'',
                  is_false (dget (val condition) ''negateCondition'' (JBool False)),
                  bindr (iter (dget (val condition) ''matchValue'' (JList []))) (set_is [''TRACE'', ''TRACK''])])
       ''Admin WAF unsafe-method contract changed'' (val ()))"

definition check_rate_rule :: "json \<Rightarrow> json \<Rightarrow> unit res" where
  "check_rate_rule edge_config rule =
     bindr (only_condition rule
       [eqs (dget0 (val rule) ''enabledState'') ''Enabled'', eqs (dget0 (val rule) ''ruleType'') ''RateLimitRule'',
        eqs (dget0 (val rule) ''action'') ''Block'', eqr (dget0 (val rule) ''priority'') (val (JInt 20)),
        eqr (dget0 (val rule) ''rateLimitDurationInMinutes'') (val (JInt 1)),
        eqr (dget0 (val rule) ''rateLimitThreshold'') (dget (val edge_config) ''adminRateLimitPerMinute'' (JInt 120))]
       ''Admin WAF rate-limit rule differs from the reviewed contract'') (\<lambda>condition.
     check (allr [eqs (dget0 (val condition) ''matchVariable'') ''RequestUri'', eqs (dget0 (val condition) ''operator'') ''BeginsWith'',
                  is_false (dget (val condition) ''negateCondition'' (JBool False)),
                  eqr (dget0 (val condition) ''matchValue'') (val (JList [JStr ''/'']))])
       ''Admin WAF rate-limit scope changed'' (val ()))"

definition rule_named :: "keyed \<Rightarrow> string \<Rightarrow> json res" where
  "rule_named rules name = key_sub rules (val (JStr name))"

definition check_waf :: "json \<Rightarrow> json \<Rightarrow> unit res" where
  "check_waf edge_config waf =
     bindr (dgetO (val waf) ''policySettings'') (\<lambda>policy.
     check (allr [eqs (dget0 (val waf) ''provisioningState'') ''Succeeded'', eqs (dget0 (val policy) ''enabledState'') ''Enabled'',
                  eqs (dget0 (val policy) ''mode'') ''Prevention'', eqs (dget0 (val policy) ''requestBodyCheck'') ''Enabled'',
                  eqs (get_at (val policy) [''logScrubbing'', ''state'']) ''Enabled''])
       ''Admin WAF source-IP gate, body checks or log scrubbing are not enabled in Prevention mode'' (
     bindr (iter (dget (dgetO (val waf) ''managedRules'') ''managedRuleSets'' (JList []))) (\<lambda>sets.
     bindr (map_res managed_rule sets) (\<lambda>managed.
     check (val (set managed = set MANAGED_RULES))
       ''Admin WAF managed rule sets or actions differ from the reviewed contract'' (
     bindr (custom_rules waf) (\<lambda>rules.
     check (val (set (map fst rules) = JStr ` set CUSTOM_RULES)) ''Admin WAF contains an unexpected custom rule set'' (
     bindr (rule_named rules ''BlockUnapprovedAdminSources'') (\<lambda>allowlist.
     seqr (check_allowlist_rule edge_config allowlist) (
     bindr (rule_named rules ''BlockUnsafeMethods'') (\<lambda>methods.
     seqr (check_methods_rule methods) (
     bindr (rule_named rules ''RateLimitAdmin'') (check_rate_rule edge_config))))))))))))"

definition validate_private_edge_resources :: "json \<Rightarrow> string \<Rightarrow> (plane \<Rightarrow> json) \<Rightarrow> json \<Rightarrow> ('s, unit) proc" where
  "validate_private_edge_resources config profile_id origins edge =
     letp (sub_at (val config) [''parameters'', ''edge'']) (\<lambda>edge_config.
     bindp (mapp (endpoint_properties config edge) [API, ADMIN]) (\<lambda>endpoints.
     letp (each check_endpoint (zip [API, ADMIN] endpoints)) (\<lambda>_.
     thenp (eachp (check_route config edge profile_id) [API, ADMIN]) (
     thenp (eachp (\<lambda>p. check_origin_plane config edge profile_id (origins p) p) [API, ADMIN]) (
     thenp (eachp (check_domain config profile_id) [API, ADMIN]) (
     letp (str_of (sub (val edge) ''adminWafId'')) (\<lambda>waf_id.
     bindp (deployed_resource config waf_id ''2024-02-01'') (\<lambda>resource.
     letp (dgetO (val resource) ''properties'') (\<lambda>waf.
     letp (check_waf edge_config waf) retp)))))))))"

section \<open>The deployed edge\<close>

text \<open>The profile and the endpoint of a route identity under the profiles of the target group, in any case.\<close>

definition route_match :: "string \<Rightarrow> string \<Rightarrow> (string \<times> string) option" where
  "route_match prefix s =
     (if starts_with (lower s) (lower prefix)
      then (case split_on CHR ''/'' (drop (length prefix) s) of
              [a, k, b, l, c] \<Rightarrow>
                if lower k = ''afdendpoints'' \<and> lower l = ''routes'' \<and> list_all (rmatch (plus1 (alnum_or ''-''))) [a, b, c]
                then Some (a, b) else None
            | _ \<Rightarrow> None)
      else None)"

definition ENDPOINT_HOST :: rx where
  "ENDPOINT_HOST =
     cat [plus1 (lownum_or ''-''), chr CHR ''.'', opt (Seq (plus1 (lownum_or ''-'')) (chr CHR ''.'')), lit ''azurefd.net'']"

definition edge_routes :: "json \<Rightarrow> json \<Rightarrow> (string \<times> string) res" where
  "edge_routes config edge =
     bindr (group_id config False) (\<lambda>g.
     let prefix = g @ ''/providers/Microsoft.Cdn/profiles/'' in
     bindr (map_res (\<lambda>p. bindr (dget (val edge) (route_key p) (JStr [])) (\<lambda>v.
              case v of
                JStr s \<Rightarrow> (case route_match prefix s of
                             None \<Rightarrow> Inl (MigrationError (''Front Door '' @ route_key p @ '' belongs to another target scope''))
                           | Some m \<Rightarrow> val m)
              | _ \<Rightarrow> Inl TypeError)) [API, ADMIN]) (\<lambda>matches.
     let (profile, endpoint) = hd matches; (admin_profile, admin_endpoint) = hd (tl matches) in
     check (val (lower profile = lower admin_profile))
       ''API and Admin routes must belong to the same reviewed Front Door profile'' (
     check (val (lower endpoint \<noteq> lower admin_endpoint)) ''API and Admin routes must use separate Front Door endpoints'' (
     val (prefix, profile)))))"

definition edge_hosts :: "json \<Rightarrow> unit res" where
  "edge_hosts edge =
     check (allr [fullmatch ENDPOINT_HOST (dget (val edge) ''endpointHost'' (JStr [])),
                  fullmatch ENDPOINT_HOST (dget (val edge) ''adminEndpointHost'' (JStr [])),
                  bindr (str_of (sub (val edge) ''endpointHost'')) (\<lambda>a.
                  bindr (str_of (sub (val edge) ''adminEndpointHost'')) (\<lambda>b. val (lower a \<noteq> lower b)))])
       ''API and Admin must use distinct deployed Front Door endpoint hosts'' (val ())"

definition edge_output :: "json \<Rightarrow> json \<Rightarrow> json res" where
  "edge_output config output =
     bindr (dgetO (val output) ''edge'') (\<lambda>edge.
     check (allr [eqs (dget0 (val output) ''state'') ''Succeeded'', is_true (dget0 (val edge) ''provisioned'')])
       ''Provision the matching disabled Front Door before binding'' (
     check (allr [bindr (plane_host config API) (\<lambda>h. eqs (dget0 (val edge) ''apiHost'') h),
                  bindr (plane_host config ADMIN) (\<lambda>h. eqs (dget0 (val edge) ''adminHost'') h)])
       ''Front Door domains differ from the customer configuration'' (
     check (eqs (dget0 (val edge) ''adminAccessMode'') ''SourceIpAllowlistAndNativeLogin'')
       ''Admin Front Door does not enforce the reviewed source-IP and native-login access mode'' (
     val edge))))"

definition check_deployed_origin :: "string \<Rightarrow> json \<Rightarrow> json \<Rightarrow> plane \<Rightarrow> unit res" where
  "check_deployed_origin prefix edge_config edge p =
     bindr (dget0 (val edge) (origin_key p)) (\<lambda>origin.
     bindr (sub (val edge_config) (origin_key p)) (\<lambda>wanted.
     check (allr [val (is_dict origin),
                  mapr (\<lambda>s. starts_with s prefix) (lower_get (val origin) ''privateLinkServiceId''),
                  eqr (dget0 (val origin) ''privateLinkLocation'') (sub (val wanted) ''privateLinkLocation'')])
       (''Deployed '' @ pname p @ '' private origin differs from the approved target scope'') (
     check (disjr (eqs (sub (val wanted) ''privateLinkServiceId'') ''auto'') (val (py_eq origin wanted)))
       (''Deployed '' @ pname p @ '' private origin differs from the explicit customer configuration'') (val ()))))"

definition check_deployed_origins :: "json \<Rightarrow> json \<Rightarrow> unit res" where
  "check_deployed_origins config edge =
     bindr (sub_at (val config) [''parameters'', ''edge'']) (\<lambda>edge_config.
     bindr (group_id config False) (\<lambda>g.
     seqr (each (check_deployed_origin (lower g @ ''/providers/microsoft.network/privatelinkservices/'') edge_config edge) [API, ADMIN]) (
     bindr (mapr lower (str_of (sub_at (val edge) [origin_key API, ''privateLinkServiceId'']))) (\<lambda>a.
     bindr (mapr lower (str_of (sub_at (val edge) [origin_key ADMIN, ''privateLinkServiceId'']))) (\<lambda>b.
     check (val (a \<noteq> b)) ''Deployed API and Admin origins reuse one Private Link Service'' (
     check (eqr (dget0 (val edge) ''adminAllowedCidrs'') (sub (val edge_config) ''adminAllowedCidrs''))
       ''Deployed Admin source-IP allowlist differs from the customer configuration'' (val ())))))))"

definition EDGE_KEYS :: "string list" where
  "EDGE_KEYS =
     [''apiHost'', ''adminHost'', ''endpointHost'', ''adminEndpointHost'', ''routeId'', ''adminRouteId'', ''adminWafId'',
      ''adminAccessMode'', ''privateOrigin'', ''adminPrivateOrigin'', ''adminAllowedCidrs'', ''adminRateLimitPerMinute'']"

definition edge_origin :: "json \<Rightarrow> plane \<Rightarrow> json" where
  "edge_origin edge p = (case edge of JObj kv \<Rightarrow> lookup_or kv (origin_key p) JNull | _ \<Rightarrow> JNull)"

definition show_deployment :: "sha \<Rightarrow> json \<Rightarrow> string \<Rightarrow> string \<Rightarrow> ('s, json) proc" where
  "show_deployment sha config component projection =
     letp (str_of (target_group config)) (\<lambda>rgroup.
     letp (deployment_name sha config 9 component) (\<lambda>name.
     deployment_outputs config rgroup name projection))"

definition deployed_edge :: "sha \<Rightarrow> json \<Rightarrow> ('s, obj) proc" where
  "deployed_edge sha config =
     bindp (show_deployment sha config ''edge'' ''{state:properties.provisioningState,edge:properties.outputs.edge.value}'') (\<lambda>output.
     letp (edge_output config output) (\<lambda>edge.
     letp (edge_routes config edge) (\<lambda>(prefix, profile_name).
     letp (edge_hosts edge) (\<lambda>_.
     let resource_id = prefix @ profile_name in
     bindp (deployed_resource config resource_id CDN_API) (\<lambda>profile.
     letp (dget0 (val edge) ''profileId'') (\<lambda>identifier.
     checkp (allr [val (is_str identifier), mapr (\<lambda>i. i \<noteq> 0) (uuid_int identifier),
                   eqr (get_at (val profile) [''properties'', ''frontDoorId'']) (val identifier)])
       ''Actual Front Door identity differs from deployment outputs'' (
     letp (check_deployed_origins config edge) (\<lambda>_.
     thenp (validate_private_edge_resources config resource_id (edge_origin edge) edge) (
     letp (pick EDGE_KEYS (case edge of JObj kv \<Rightarrow> kv | _ \<Rightarrow> [])) (\<lambda>taken.
     retp ([(''profileResourceId'', JStr resource_id), (''frontDoorId'', identifier)] @ taken)))))))))))"

section \<open>The private ingress of a plane\<close>

definition managed_by_workflow :: "json \<Rightarrow> bool res" where
  "managed_by_workflow item = eqs (get_at (val item) [''metadata'', ''labels'', ''app.kubernetes.io/managed-by'']) ''llmgw-workflow''"

definition strs :: "string list \<Rightarrow> json" where
  "strs ss = JList (map JStr ss)"

definition business_route :: "string \<Rightarrow> string \<Rightarrow> json" where
  "business_route plane rule =
     JObj [(''rule'', JStr rule), (''entryPoints'', strs [''websecure'']), (''service'', JStr plane), (''tls'', JObj [])]"

definition health_route :: "string \<Rightarrow> string \<Rightarrow> json" where
  "health_route plane rule =
     JObj [(''rule'', JStr rule), (''entryPoints'', strs [''websecure'']), (''service'', JStr plane),
           (''middlewares'', strs [plane @ ''-health-path'']), (''tls'', JObj [])]"

definition health_middleware :: "string \<Rightarrow> json" where
  "health_middleware plane =
     JObj [(plane @ ''-health-path'', JObj [(''replacePath'', JObj [(''path'', JStr ''/health/readiness'')])])]"

definition plane_services :: "string \<Rightarrow> string \<Rightarrow> json" where
  "plane_services plane url =
     JObj [(plane, JObj [(''loadBalancer'', JObj [(''servers'', JList [JObj [(''url'', JStr url)]]), (''passHostHeader'', JBool True)])])]"

definition ingress_labels :: "string \<Rightarrow> json" where
  "ingress_labels plane =
     JObj [(''app.kubernetes.io/name'', JStr ''llmgw-ingress''), (''app.kubernetes.io/component'', JStr ''controller''),
           (''app.kubernetes.io/managed-by'', JStr ''llmgw-workflow''), (''plane'', JStr plane)]"

text \<open>The dynamic routes of a plane: the Front Door they are bound to, if any.\<close>

definition bound_front_door :: "string \<Rightarrow> json \<Rightarrow> string option \<Rightarrow> string option res" where
  "bound_front_door plane business identifier =
     bindr (dget (val business) ''rule'' (JStr [])) (\<lambda>rule.
     case rule of
       JStr r \<Rightarrow>
         (let bound = fdids 0 r in
          check (conjr (val (length bound \<le> 1))
                  (if bound = [] then val True else mapr (\<lambda>i. i \<noteq> 0) (uuid_of_string (hd bound))))
            (''Native '' @ plane @ '' ingress has an invalid Front Door header binding'') (
          check (val (case identifier of None \<Rightarrow> True | Some i \<Rightarrow> bound \<noteq> [] \<and> lower (hd bound) = lower i))
            (''Native '' @ plane @ '' ingress trusts another or no Front Door'') (
          val (if bound = [] then None else Some (hd bound)))))
     | _ \<Rightarrow> Inl TypeError)"

definition check_routes :: "json \<Rightarrow> json \<Rightarrow> string option \<Rightarrow> string \<Rightarrow> string option res" where
  "check_routes config dynamic identifier plane =
     bindr (dgetO (val dynamic) ''http'') (\<lambda>http.
     bindr (dgetO (val http) ''routers'') (\<lambda>routers.
     check (val (keys_are [plane, plane @ ''-health''] routers)) (''Native '' @ plane @ '' ingress contains an unexpected router'') (
     bindr (sub (val routers) plane) (\<lambda>business.
     bindr (sub (val routers) (plane @ ''-health'')) (\<lambda>health.
     bindr (prefixed (''llm-'' @ plane @ ''.'') (sub (val config) ''baseDomain'')) (\<lambda>host.
     bindr (bound_front_door plane business identifier) (\<lambda>bound.
     check (val (py_eq business (business_route plane (native_rule plane host bound))))
       (''Native '' @ plane @ '' ingress business route differs from the reviewed contract'') (
     check (val (py_eq health (health_route plane (native_health_rule host))))
       (''Native '' @ plane @ '' ingress health router differs from the reviewed contract'') (
     check (eqr (dget0 (val http) ''middlewares'') (val (health_middleware plane)))
       (''Native '' @ plane @ '' ingress middleware differs from the reviewed contract'') (
     check (bindr (dget0 (val http) ''services'') (\<lambda>found. bindr (l3_upstream config plane) (\<lambda>url.
              val (py_eq found (plane_services plane url)))))
       (''Native '' @ plane @ '' ingress targets an unexpected service'') (
     val bound)))))))))))"

definition ingress_sources :: "json \<Rightarrow> string \<Rightarrow> string list res" where
  "ingress_sources config plane =
     bindr (iter (sub_at (val config) [''privateIngress'', plane, ''allowedCidrs''])) (\<lambda>cidr_list.
     bindr (sub_at (val config) [''parameters'', ''platform'', ''stage4Network'', ''ingressSubnetPrefix'']) (\<lambda>subnet.
     ingress_source_ranges (JList (cidr_list @ [subnet]))))"

definition absent :: "json \<Rightarrow> string \<Rightarrow> bool res" where
  "absent v k = negr (testr truth (dget0 (val v) k))"

definition https_port :: "json \<Rightarrow> bool res" where
  "https_port spec =
     bindr (iter (dget (val spec) ''ports'' (JList []))) (\<lambda>ports.
     allr [val (length ports = 1), eqs (dget0 (val (hd ports)) ''name'') ''https'',
           eqr (dget0 (val (hd ports)) ''port'') (val (JInt 443)), eqs (dget0 (val (hd ports)) ''targetPort'') ''https'',
           eqs (dget0 (val (hd ports)) ''protocol'') ''TCP''])"

definition internal_subnet :: string where
  "internal_subnet = ''service.beta.kubernetes.io/azure-load-balancer-internal-subnet''"

definition check_ingress_service :: "json \<Rightarrow> json \<Rightarrow> string \<Rightarrow> unit res" where
  "check_ingress_service config service plane =
     bindr (dgetO (val service) ''spec'') (\<lambda>spec.
     bindr (ingress_sources config plane) (\<lambda>sources.
     bindr (dgetO (dgetO (val service) ''metadata'') ''annotations'') (\<lambda>annotations.
     bindr (https_port spec) (\<lambda>port_ok.
     check (allr [eqs (dget0 (val spec) ''type'') ''LoadBalancer'',
                  eqr (dget0 (val spec) ''selector'') (val (ingress_labels plane)),
                  eqs (dget0 (val spec) ''externalTrafficPolicy'') ''Local'',
                  eqr (dget0 (val spec) ''loadBalancerSourceRanges'') (val (strs sources)),
                  absent spec ''externalIPs'', absent spec ''loadBalancerIP'', absent spec ''loadBalancerClass'', val port_ok,
                  eqs (dget0 (val annotations) ''service.beta.kubernetes.io/azure-load-balancer-internal'') ''true'',
                  eqr (dget0 (val annotations) internal_subnet)
                    (sub_at (val config) [''parameters'', ''platform'', ''stage4Network'', ''ingressSubnetName''])])
       (''Native '' @ plane @ '' ingress Service differs from the reviewed private routing contract'') (val ())))))"

definition check_dynamic_volume :: "json \<Rightarrow> string \<Rightarrow> unit res" where
  "check_dynamic_volume pod plane =
     bindr (iter (dget (val pod) ''volumes'' (JList []))) (\<lambda>volumes.
     bindr (filter_res (\<lambda>v. eqs (dget0 (val v) ''name'') ''dynamic'') volumes) (\<lambda>found.
     let volume = (if length found = 1 then hd found else JObj []) in
     bindr (dgetO (val volume) ''configMap'') (\<lambda>source.
     check (allr [val (keys_are [''name'', ''configMap''] volume), val (is_dict source),
                  val (keys_within [''name'', ''defaultMode'', ''optional''] source),
                  eqs (dget0 (val source) ''name'') (''llm-'' @ plane @ ''-ingress''),
                  eqr (dget (val source) ''defaultMode'' (JInt 420)) (val (JInt 420)),
                  is_false (dget (val source) ''optional'' (JBool False))])
       (''Native '' @ plane @ '' ingress does not mount the reviewed route ConfigMap'') (val ()))))"

definition dynamic_mount :: json where
  "dynamic_mount = JObj [(''name'', JStr ''dynamic''), (''mountPath'', JStr ''/dynamic''), (''readOnly'', JBool True)]"

definition check_ingress_workload :: "json \<Rightarrow> string \<Rightarrow> unit res" where
  "check_ingress_workload deployment plane =
     bindr (dgetO (dgetO (dgetO (dgetO (val deployment) ''spec'') ''template'') ''metadata'') ''labels'') (\<lambda>labels.
     check (val (py_eq labels (ingress_labels plane))) ''Native API ingress deployment labels changed'' (
     bindr (sub_at (val deployment) [''spec'', ''template'', ''spec'']) (\<lambda>pod.
     seqr (check_dynamic_volume pod plane) (
     bindr (iter (dget (val pod) ''containers'' (JList []))) (\<lambda>containers.
     check (allr [val (length containers = 1), eqs (dget0 (val (hd containers)) ''name'') ''traefik'',
                  bindr (iter (dget (val (hd containers)) ''volumeMounts'' (JList []))) (any_res (\<lambda>m. val (py_eq m dynamic_mount)))])
       ''Native API ingress controller does not read the reviewed route ConfigMap'' (val ()))))))"

definition native_ingress_document_state ::
    "sha \<Rightarrow> yload \<Rightarrow> json \<Rightarrow> json \<Rightarrow> json \<Rightarrow> json \<Rightarrow> string option \<Rightarrow> string \<Rightarrow> obj res" where
  "native_ingress_document_state sha yload config config_map deployment service identifier plane =
     check (val (plane \<in> {''api'', ''admin''})) ''Unknown native ingress plane'' (
     seqr (each (\<lambda>item. check (managed_by_workflow item)
             (''Native '' @ plane @ '' ingress must remain workflow managed'') (val ())) [config_map, deployment, service]) (
     bindr (bindr (str_of (dget (dgetO (val config_map) ''data'') ''routes.yaml'' (JStr []))) yload) (\<lambda>dynamic.
     check (val (is_dict dynamic)) ''Native API ingress route configuration is missing'' (
     bindr (check_routes config dynamic identifier plane) (\<lambda>bound.
     seqr (check_ingress_service config service plane) (
     seqr (check_ingress_workload deployment plane) (
     bindr (sub_at (val config_map) [''metadata'', ''uid'']) (\<lambda>map_uid.
     bindr (sub_at (val deployment) [''metadata'', ''uid'']) (\<lambda>deployment_uid.
     bindr (sub_at (val service) [''metadata'', ''uid'']) (\<lambda>service_uid.
     bindr (sub (val service) ''spec'') (\<lambda>service_spec.
     bindr (sub_at (val deployment) [''spec'', ''template'']) (\<lambda>pod_template.
     val [(''bindingMode'', JStr ''native-private-ingress''), (''configMapUid'', map_uid), (''deploymentUid'', deployment_uid),
          (''serviceUid'', service_uid), (''serviceSpecSha256'', JStr (fingerprint sha service_spec)),
          (''podTemplateSha256'', JStr (fingerprint sha pod_template)), (''routeConfigSha256'', JStr (fingerprint sha dynamic)),
          (''frontDoorHeaderBound'', (case bound of None \<Rightarrow> JNull | Some b \<Rightarrow> JStr b))]))))))))))))"

definition ingress_name :: "string \<Rightarrow> string" where
  "ingress_name plane = ''llm-'' @ plane @ ''-ingress''"

definition ingress_documents :: "string list \<Rightarrow> string \<Rightarrow> ('s, json \<times> json \<times> json) proc" where
  "ingress_documents kube plane =
     bindp (kube_get kube ''configmap'' (ingress_name plane) False) (\<lambda>config_map.
     bindp (kube_get kube ''deployment'' (ingress_name plane) False) (\<lambda>deployment.
     bindp (kube_get kube ''service'' (ingress_name plane) False) (\<lambda>service.
     retp (config_map, deployment, service))))"

definition native_ingress_state ::
    "sha \<Rightarrow> yload \<Rightarrow> json \<Rightarrow> string list \<Rightarrow> string option \<Rightarrow> string \<Rightarrow> ('s, obj) proc" where
  "native_ingress_state sha yload config kube identifier plane =
     checkp (val (plane \<in> {''api'', ''admin''})) ''Unknown native ingress plane'' (
     bindp (ingress_documents kube plane) (\<lambda>(config_map, deployment, service).
     letp (native_ingress_document_state sha yload config config_map deployment service identifier plane) retp))"

section \<open>Binding\<close>

record binding =
  b_plane :: string
  b_map :: json
  b_deployment :: json
  b_new_map :: json
  b_new_deployment :: json
  b_current :: obj
  b_desired :: obj

text \<open>The route document and the pod annotations of a binding.\<close>

definition bound_routes :: "json \<Rightarrow> json \<Rightarrow> string \<Rightarrow> string \<Rightarrow> bool \<Rightarrow> json res" where
  "bound_routes config dynamic identifier plane bound =
     bindr (sub_at (val dynamic) [''http'', ''routers'', plane, ''rule'']) (\<lambda>_.
     if bound then val dynamic
     else bindr (prefixed (''llm-'' @ plane @ ''.'') (sub (val config) ''baseDomain'')) (\<lambda>host.
          update_in [''http'', ''routers'', plane] (\<lambda>router. bindr (items (val router)) (\<lambda>kv.
            val (JObj (dict_set kv ''rule'' (JStr (native_rule plane host (Some identifier))))))) dynamic))"

definition annotate :: "sha \<Rightarrow> json \<Rightarrow> string \<Rightarrow> json \<Rightarrow> json res" where
  "annotate sha dynamic identifier metadata =
     bindr (items (val metadata)) (\<lambda>kv.
     bindr (items (val (lookup_or kv ''annotations'' (JObj [])))) (\<lambda>as.
     val (JObj (dict_set kv ''annotations'' (JObj
       (dict_set (dict_set as ''llmgw/front-door-id'' (JStr identifier)) ''llmgw/routes-sha256'' (JStr (fingerprint sha dynamic))))))))"

definition binding_of ::
    "sha \<Rightarrow> yload \<Rightarrow> ydump \<Rightarrow> json \<Rightarrow> json \<Rightarrow> json \<Rightarrow> json \<Rightarrow> string \<Rightarrow> string \<Rightarrow> binding res" where
  "binding_of sha yload ydump config config_map deployment service identifier plane =
     bindr (native_ingress_document_state sha yload config config_map deployment service None plane) (\<lambda>current.
     let bound = lookup_or current ''frontDoorHeaderBound'' JNull in
     check (val (case bound of JStr b \<Rightarrow> lower b = lower identifier | _ \<Rightarrow> True))
       (''Existing native '' @ plane @ '' ingress trusts another Front Door'') (
     bindr (bindr (str_of (sub_at (val config_map) [''data'', ''routes.yaml''])) yload) (\<lambda>dynamic.
     bindr (bound_routes config dynamic identifier plane (bound \<noteq> JNull)) (\<lambda>routes.
     bindr (update_in [''data''] (\<lambda>d. bindr (items (val d)) (\<lambda>kv.
              val (JObj (dict_set kv ''routes.yaml'' (JStr (ydump routes)))))) config_map) (\<lambda>new_map.
     bindr (update_in [''spec'', ''template'', ''metadata''] (annotate sha routes identifier) deployment) (\<lambda>new_deployment.
     bindr (native_ingress_document_state sha yload config new_map new_deployment service (Some identifier) plane) (\<lambda>desired.
     val \<lparr>b_plane = plane, b_map = config_map, b_deployment = deployment, b_new_map = new_map,
          b_new_deployment = new_deployment, b_current = current, b_desired = desired\<rparr>)))))))"

definition bind_native_ingress ::
    "sha \<Rightarrow> yload \<Rightarrow> ydump \<Rightarrow> json \<Rightarrow> string list \<Rightarrow> json \<Rightarrow> string \<Rightarrow> ('s, binding) proc" where
  "bind_native_ingress sha yload ydump config kube identifier plane =
     letp (nonzero_id identifier) (\<lambda>wanted.
     checkp (val (plane \<in> {''api'', ''admin''})) ''Unknown native ingress plane'' (
     bindp (ingress_documents kube plane) (\<lambda>(config_map, deployment, service).
     letp (binding_of sha yload ydump config config_map deployment service wanted plane) retp)))"

definition binding_plan :: "binding \<Rightarrow> json res" where
  "binding_plan b =
     bindr (sub_at (val (b_map b)) [''metadata'', ''uid'']) (\<lambda>map_uid.
     bindr (sub_at (val (b_deployment b)) [''metadata'', ''uid'']) (\<lambda>deployment_uid.
     let now = (\<lambda>k. lookup_or (b_current b) k JNull); goal = (\<lambda>k. lookup_or (b_desired b) k JNull) in
     val (JObj [(''configMapUid'', map_uid), (''deploymentUid'', deployment_uid), (''serviceUid'', goal ''serviceUid''),
       (''currentRouteConfigSha256'', now ''routeConfigSha256''), (''currentPodTemplateSha256'', now ''podTemplateSha256''),
       (''desiredRouteConfigSha256'', goal ''routeConfigSha256''), (''desiredPodTemplateSha256'', goal ''podTemplateSha256'')])))"

text \<open>The client of a plane: the target credentials, in the namespace of its ingress.\<close>

definition plane_client :: "string list \<Rightarrow> string \<Rightarrow> string list" where
  "plane_client kube plane =
     (let n = length kube - 2 in
      if drop n kube = [''--namespace'', ''litellm''] then take n kube else kube) @ [''--namespace'', ingress_name plane]"

record edge_plan =
  ep_kube :: "string list"
  ep_native :: bool
  ep_edge :: obj
  ep_scope :: obj
  ep_bindings :: "(binding \<times> json) list"
  ep_workloads :: "(string \<times> json \<times> json) list"
  ep_plan :: json
  ep_summary :: obj

definition edge_scope :: "sha \<Rightarrow> json \<Rightarrow> json \<Rightarrow> obj \<Rightarrow> obj res" where
  "edge_scope sha config revision edge =
     bindr (stage_fingerprint sha config 9) (\<lambda>config_hash.
     bindr (group_id config False) (\<lambda>g.
     bindr (str_of (sub_at (val config) [''parameters'', ''platform'', ''stage4Aks'', ''name''])) (\<lambda>cluster.
     val (dict_update [(''stage'', JInt 9), (''action'', JStr ''edge-bind''), (''revision'', revision),
       (''configSha256'', JStr config_hash),
       (''clusterResourceId'', JStr (g @ ''/providers/Microsoft.ContainerService/managedClusters/'' @ cluster))] edge))))"

definition binding_mode :: "bool \<Rightarrow> obj" where
  "binding_mode native = (if native then [(''bindingMode'', JStr ''native-private-ingress'')] else [])"

definition edge_summary :: "sha \<Rightarrow> obj \<Rightarrow> bool \<Rightarrow> json \<Rightarrow> obj" where
  "edge_summary sha ascope native plan =
     ascope @ binding_mode native @
       [(''planSha256'', JStr (fingerprint sha plan)), (''applied'', JBool False), (''stageAccepted'', JBool False),
        (''trafficVerified'', JBool False)]"

definition native_plan ::
    "sha \<Rightarrow> yload \<Rightarrow> ydump \<Rightarrow> json \<Rightarrow> json \<Rightarrow> string list \<Rightarrow> obj \<Rightarrow> ('s, edge_plan) proc" where
  "native_plan sha yload ydump config revision kube edge =
     letp (edge_scope sha config revision edge) (\<lambda>ascope.
     bindp (mapp (\<lambda>plane. bind_native_ingress sha yload ydump config (plane_client kube plane)
              (lookup_or edge ''frontDoorId'' JNull) plane) [''api'', ''admin'']) (\<lambda>bindings.
     letp (map_res (\<lambda>b. bindr (binding_plan b) (\<lambda>p. val (b, p))) bindings) (\<lambda>planned.
     let plan = JObj (ascope @ binding_mode True @ [(''planes'', JObj (map (\<lambda>(b, p). (b_plane b, p)) planned))]) in
     retp \<lparr>ep_kube = kube, ep_native = True, ep_edge = edge, ep_scope = ascope, ep_bindings = planned,
           ep_workloads = [], ep_plan = plan, ep_summary = edge_summary sha ascope True plan\<rparr>)))"

definition proxy_name :: "string \<Rightarrow> string" where
  "proxy_name plane = ''llm-'' @ plane @ ''-proxy''"

definition proxy_image :: "json \<Rightarrow> json res" where
  "proxy_image config = dget0 (dgetO (val config) ''proxy'') ''image''"

definition check_bound :: "json \<Rightarrow> string \<Rightarrow> json \<Rightarrow> unit res" where
  "check_bound config plane desired =
     bindr (sub_at (val desired) [''spec'', ''template'', ''spec'']) (\<lambda>pod.
     bindr (iter (sub (val pod) ''containers'')) (\<lambda>containers.
     check (allr [eqs (dget0 (val pod) ''serviceAccountName'') (proxy_name plane),
                  eqr (dget0 (val (hd containers)) ''image'') (proxy_image config)])
       (''Bind only the approved managed '' @ plane @ '' workload and image'') (val ())))"

definition bind_workload :: "json \<Rightarrow> string list \<Rightarrow> json \<Rightarrow> string \<Rightarrow> ('s, string \<times> json \<times> json) proc" where
  "bind_workload config kube identifier plane =
     bindp (kube_get kube ''deployment'' (proxy_name plane) False) (\<lambda>current.
     letp (bind_deployment current identifier) (\<lambda>desired.
     letp (check_bound config plane desired) (\<lambda>_.
     retp (plane, current, desired))))"

definition workload_plan :: "sha \<Rightarrow> string \<times> json \<times> json \<Rightarrow> (string \<times> json) res" where
  "workload_plan sha w =
     (case w of (plane, current, desired) \<Rightarrow>
     bindr (sub_at (val current) [''metadata'', ''uid'']) (\<lambda>uid.
     bindr (sub (val current) ''spec'') (\<lambda>spec.
     bindr (sub (val desired) ''spec'') (\<lambda>new_spec.
     val (plane, JObj [(''deploymentUid'', uid), (''currentSpecSha256'', JStr (fingerprint sha spec)),
       (''desiredSpecSha256'', JStr (fingerprint sha new_spec))])))))"

definition proxy_plan :: "sha \<Rightarrow> json \<Rightarrow> json \<Rightarrow> string list \<Rightarrow> obj \<Rightarrow> ('s, edge_plan) proc" where
  "proxy_plan sha config revision kube edge =
     bindp (mapp (bind_workload config kube (lookup_or edge ''frontDoorId'' JNull)) [''api'', ''admin'']) (\<lambda>workloads.
     letp (edge_scope sha config revision edge) (\<lambda>ascope.
     letp (map_res (workload_plan sha) workloads) (\<lambda>planes.
     let plan = JObj (ascope @ [(''planes'', JObj planes)]) in
     retp \<lparr>ep_kube = kube, ep_native = False, ep_edge = edge, ep_scope = ascope, ep_bindings = [],
           ep_workloads = workloads, ep_plan = plan, ep_summary = edge_summary sha ascope False plan\<rparr>)))"

definition edge_prepare :: "sha \<Rightarrow> yload \<Rightarrow> ydump \<Rightarrow> json \<Rightarrow> json \<Rightarrow> ('s, edge_plan) proc" where
  "edge_prepare sha yload ydump config revision =
     letp (validate_action config 9 ''edge-bind'') (\<lambda>_.
     bindp (deployed_edge sha config) (\<lambda>edge.
     letp (bindr (application_authentication config) (\<lambda>a. eqs (sub (val a) ''mode'') ''native'')) (\<lambda>native.
     bindp (connect_cluster config False) (\<lambda>kube.
     bindp (if native then native_plan sha yload ydump config revision kube edge
            else proxy_plan sha config revision kube edge) (\<lambda>p.
     thenp (private_write ''runtime-review.json'' (ep_plan p)) (
     thenp (private_write ''runtime-summary.json'' (JObj (ep_summary p))) (
     retp p)))))))"

section \<open>Applying a binding\<close>

definition rollout :: "string list \<Rightarrow> string \<Rightarrow> ('s, unit) proc" where
  "rollout kube name =
     bindp (kube_run kube [''rollout'', ''status'', ''deployment/'' @ name, ''--timeout=15m'']) (\<lambda>_. retp ())"

definition unchanged_since_plan :: "binding \<Rightarrow> json \<Rightarrow> json \<Rightarrow> json \<Rightarrow> bool res" where
  "unchanged_since_plan b plan live_map live =
     allr [eqr (sub_at (val live_map) [''metadata'', ''uid'']) (sub (val plan) ''configMapUid''),
           eqr (sub (val live_map) ''data'') (sub (val (b_map b)) ''data''),
           eqr (sub_at (val live) [''metadata'', ''uid'']) (sub (val plan) ''deploymentUid''),
           eqr (sub (val live) ''spec'') (sub (val (b_deployment b)) ''spec'')]"

definition map_operations :: "binding \<Rightarrow> json \<Rightarrow> json \<Rightarrow> json list res" where
  "map_operations b plan live_map =
     bindr (sub (val live_map) ''data'') (\<lambda>old.
     bindr (sub (val (b_new_map b)) ''data'') (\<lambda>new.
     if py_eq old new then val []
     else bindr (sub (val plan) ''configMapUid'') (\<lambda>uid.
          bindr (sub (val new) ''routes.yaml'') (\<lambda>routes.
          val [patch_op ''test'' ''/metadata/uid'' (Some uid), patch_op ''test'' ''/data'' (Some old),
               patch_op ''replace'' ''/data/routes.yaml'' (Some routes)]))))"

definition annotation_path :: "string \<Rightarrow> string" where
  "annotation_path key = ''/spec/template/metadata/annotations/'' @ replace ''/'' ''~1'' key"

definition deployment_operations :: "binding \<Rightarrow> json \<Rightarrow> json \<Rightarrow> json list res" where
  "deployment_operations b plan live =
     bindr (sub (val live) ''spec'') (\<lambda>old.
     bindr (sub (val (b_new_deployment b)) ''spec'') (\<lambda>new.
     if py_eq old new then val []
     else bindr (sub (val plan) ''deploymentUid'') (\<lambda>uid.
          bindr (has (sub_at (val old) [''template'', ''metadata'']) ''annotations'') (\<lambda>annotated.
          bindr (sub_at (val new) [''template'', ''metadata'', ''annotations'']) (\<lambda>annotations.
          bindr (map_res (\<lambda>key. bindr (sub (val annotations) key) (\<lambda>v. val (patch_op ''add'' (annotation_path key) (Some v))))
                   [''llmgw/front-door-id'', ''llmgw/routes-sha256'']) (\<lambda>added.
          val ([patch_op ''test'' ''/metadata/uid'' (Some uid), patch_op ''test'' ''/spec'' (Some old)]
               @ (if annotated then [] else [patch_op ''add'' ''/spec/template/metadata/annotations'' (Some (JObj []))])
               @ added)))))))"

definition patch_when :: "string list \<Rightarrow> string \<Rightarrow> string \<Rightarrow> json list \<Rightarrow> ('s, unit) proc" where
  "patch_when kube kind name operations = whenp (operations \<noteq> []) (kube_patch kube kind name operations)"

definition apply_binding :: "string list \<Rightarrow> binding \<times> json \<Rightarrow> ('s, unit) proc" where
  "apply_binding kube bp =
     (case bp of (b, plan) \<Rightarrow>
     let client = plane_client kube (b_plane b); name = ingress_name (b_plane b) in
     bindp (kube_get client ''configmap'' name False) (\<lambda>live_map.
     bindp (kube_get client ''deployment'' name False) (\<lambda>live.
     checkp (unchanged_since_plan b plan live_map live)
       (''Native '' @ b_plane b @ '' ingress changed during approval'') (
     letp (map_operations b plan live_map) (\<lambda>map_ops.
     thenp (patch_when client ''configmap'' name map_ops) (
     letp (deployment_operations b plan live) (\<lambda>ops.
     thenp (patch_when client ''deployment'' name ops) (
     rollout client name))))))))"

definition check_after :: "binding \<times> json \<Rightarrow> obj \<Rightarrow> unit res" where
  "check_after bp state =
     (let plan = snd bp; now = (\<lambda>k. sub (val (JObj state)) k) in
      check (allr [eqr (now ''deploymentUid'') (sub (val plan) ''deploymentUid''), eqr (now ''serviceUid'') (sub (val plan) ''serviceUid''),
                   eqr (now ''routeConfigSha256'') (sub (val plan) ''desiredRouteConfigSha256''),
                   eqr (now ''podTemplateSha256'') (sub (val plan) ''desiredPodTemplateSha256'')])
        (''Native '' @ b_plane (fst bp) @ '' ingress changed during rollout verification'') (val ()))"

definition apply_native :: "sha \<Rightarrow> yload \<Rightarrow> json \<Rightarrow> edge_plan \<Rightarrow> ('s, obj) proc" where
  "apply_native sha yload config p =
     thenp (eachp (apply_binding (ep_kube p)) (ep_bindings p)) (
     letp (str_of (val (lookup_or (ep_edge p) ''frontDoorId'' JNull))) (\<lambda>identifier.
     bindp (mapp (\<lambda>bp. bindp (native_ingress_state sha yload config (plane_client (ep_kube p) (b_plane (fst bp)))
                               (Some identifier) (b_plane (fst bp))) (\<lambda>state. retp (bp, state))) (ep_bindings p)) (\<lambda>states.
     letp (each (\<lambda>(bp, state). check_after bp state) states) (\<lambda>_.
     retp (map (\<lambda>(bp, state). (b_plane (fst bp), JObj state)) states)))))"

definition apply_workload :: "string list \<Rightarrow> string \<times> json \<times> json \<Rightarrow> ('s, unit) proc" where
  "apply_workload kube w =
     (case w of (plane, current, desired) \<Rightarrow>
     letp (sub_at (val current) [''metadata'', ''uid'']) (\<lambda>uid.
     letp (sub (val current) ''spec'') (\<lambda>old.
     letp (sub (val desired) ''spec'') (\<lambda>new.
     thenp (patch_when kube ''deployment'' (proxy_name plane)
              (if py_eq old new then []
               else [patch_op ''test'' ''/metadata/uid'' (Some uid), patch_op ''test'' ''/spec'' (Some old),
                     patch_op ''replace'' ''/spec'' (Some new)])) (
     rollout kube (proxy_name plane))))))"

definition check_workload_after :: "sha \<Rightarrow> obj \<Rightarrow> (string \<times> json \<times> json) \<times> json \<Rightarrow> (string \<times> json) res" where
  "check_workload_after sha edge wl =
     (case wl of ((plane, current, desired), live) \<Rightarrow>
     bindr (sub_at (val live) [''metadata'', ''uid'']) (\<lambda>uid.
     check (allr [eqr (val uid) (sub_at (val current) [''metadata'', ''uid'']), eqr (sub (val live) ''spec'') (sub (val desired) ''spec''),
                  bindr (front_door_id live) (\<lambda>i. val (map_option JStr i = Some (lookup_or edge ''frontDoorId'' JNull)))])
       (plane @ '' binding changed during rollout; do not release traffic'') (
     bindr (sub_at (val live) [''spec'', ''template'']) (\<lambda>pod_template.
     val (plane, JObj [(''deploymentUid'', uid), (''podTemplateSha256'', JStr (fingerprint sha pod_template))])))))"

definition apply_proxies :: "sha \<Rightarrow> edge_plan \<Rightarrow> ('s, obj) proc" where
  "apply_proxies sha p =
     thenp (eachp (apply_workload (ep_kube p)) (ep_workloads p)) (
     bindp (mapp (\<lambda>w. bindp (kube_get (ep_kube p) ''deployment'' (proxy_name (fst w)) False) (\<lambda>live. retp (w, live)))
              (ep_workloads p)) (\<lambda>after.
     letp (map_res (check_workload_after sha (ep_edge p)) after) retp))"

definition receipt_template :: "obj \<Rightarrow> json" where
  "receipt_template receipt =
     JObj [(''$schema'', JStr ''https://schema.management.azure.com/schemas/2019-04-01/deploymentTemplate.json#''),
           (''contentVersion'', JStr ''1.0.0.0''), (''resources'', JList []),
           (''outputs'', JObj [(''edgeBinding'', JObj [(''type'', JStr ''object''), (''value'', JObj receipt)])])]"

definition save_receipt :: "sha \<Rightarrow> json \<Rightarrow> bool \<Rightarrow> obj \<Rightarrow> ('s, unit) proc" where
  "save_receipt sha config native receipt =
     thenp (private_write ''edge-binding-receipt.json'' (receipt_template receipt)) (
     letp (str_of (target_group config)) (\<lambda>rgroup.
     letp (deployment_name sha config 9 ''edge-bind'') (\<lambda>name.
     bindp (az_scoped config [''deployment'', ''group'', ''create'', ''--resource-group'', rgroup, ''--name'', name,
              ''--mode'', ''Incremental'', ''--template-file'', ''edge-binding-receipt.json'']) (\<lambda>saved.
     checkp (eqs (get_at (val saved) [''properties'', ''provisioningState'']) ''Succeeded'')
       (if native then ''Native ingresses verified but saving the binding receipt failed''
        else ''Proxy bindings applied but receipt storage failed; replan before release'') (retp ())))))"

definition edge_apply :: "sha \<Rightarrow> yload \<Rightarrow> json \<Rightarrow> edge_plan \<Rightarrow> ('s, obj) proc" where
  "edge_apply sha yload config p =
     bindp (if ep_native p then apply_native sha yload config p else apply_proxies sha p) (\<lambda>planes.
     let receipt = ep_scope p @ binding_mode (ep_native p) @ [(''planes'', JObj planes), (''rolloutVerified'', JBool True)];
         summary = dict_update (ep_summary p) [(''applied'', JBool True), (''rolloutVerified'', JBool True)] in
     thenp (save_receipt sha config (ep_native p) receipt) (
     thenp (private_write ''runtime-summary.json'' (JObj summary)) (
     retp summary)))"

definition bind_edge :: "sha \<Rightarrow> yload \<Rightarrow> ydump \<Rightarrow> json \<Rightarrow> string \<Rightarrow> json \<Rightarrow> string \<Rightarrow> ('s, obj) proc" where
  "bind_edge sha yload ydump config operation revision approved =
     checkp (val (operation \<in> {''plan'', ''execute''})) ''Invalid edge binding operation'' (
     bindp (edge_prepare sha yload ydump config revision) (\<lambda>p.
     if operation = ''plan'' then retp (ep_summary p)
     else checkp (val (fingerprint sha (ep_plan p) = approved)) ''Edge binding plan changed or was not approved''
            (edge_apply sha yload config p)))"

section \<open>The receipt a release requires\<close>

definition SHA256 :: rx where
  "SHA256 = times 64 64 hexlow"

definition COMPARED_KEYS :: "string list" where
  "COMPARED_KEYS =
     [''profileResourceId'', ''endpointHost'', ''adminEndpointHost'', ''routeId'', ''adminRouteId'', ''adminWafId'',
      ''privateOrigin'', ''adminPrivateOrigin'', ''adminAllowedCidrs'', ''adminRateLimitPerMinute'']"

definition INGRESS_KEYS :: "string list" where
  "INGRESS_KEYS =
     [''configMapUid'', ''deploymentUid'', ''serviceUid'', ''serviceSpecSha256'', ''podTemplateSha256'', ''routeConfigSha256'',
      ''frontDoorHeaderBound'']"

definition expected_receipt :: "sha \<Rightarrow> json \<Rightarrow> json \<Rightarrow> string \<Rightarrow> obj res" where
  "expected_receipt sha config revision identifier =
     bindr (stage_fingerprint sha config 9) (\<lambda>config_hash.
     bindr (plane_host config API) (\<lambda>api.
     bindr (plane_host config ADMIN) (\<lambda>admin.
     bindr (group_id config False) (\<lambda>g.
     bindr (str_of (sub_at (val config) [''parameters'', ''platform'', ''stage4Aks'', ''name''])) (\<lambda>cluster.
     val [(''revision'', revision), (''configSha256'', JStr config_hash), (''frontDoorId'', JStr identifier),
          (''apiHost'', JStr api), (''adminHost'', JStr admin), (''adminAccessMode'', JStr ''SourceIpAllowlistAndNativeLogin''),
          (''clusterResourceId'', JStr (g @ ''/providers/Microsoft.ContainerService/managedClusters/'' @ cluster))])))))"

definition same_fields :: "string list \<Rightarrow> json \<Rightarrow> json \<Rightarrow> bool res" where
  "same_fields ks a b = all_res (\<lambda>k. eqr (dget0 (val a) k) (dget0 (val b) k)) ks"

definition require_ingress :: "sha \<Rightarrow> yload \<Rightarrow> json \<Rightarrow> string list \<Rightarrow> string \<Rightarrow> json \<Rightarrow> string \<Rightarrow> ('s, unit) proc" where
  "require_ingress sha yload config kube identifier planes plane =
     letp (sub (val planes) plane) (\<lambda>state.
     checkp (allr [testr is_str (dget0 (val state) ''serviceUid''),
                   fullmatch SHA256 (dget (val state) ''routeConfigSha256'' (JStr [])),
                   fullmatch SHA256 (dget (val state) ''serviceSpecSha256'' (JStr []))])
       (''Native edge binding receipt lacks the verified private '' @ plane @ '' ingress'') (
     bindp (native_ingress_state sha yload config (plane_client kube plane) (Some identifier) plane) (\<lambda>live.
     checkp (same_fields INGRESS_KEYS state (JObj live))
       (''Native '' @ plane @ '' ingress differs from the verified edge binding receipt'') (retp ()))))"

definition live_proxy_ok :: "json \<Rightarrow> string \<Rightarrow> string \<Rightarrow> json \<Rightarrow> bool res" where
  "live_proxy_ok config identifier plane live =
     bindr (dgetO (dgetO (dgetO (val live) ''spec'') ''template'') ''spec'') (\<lambda>pod.
     bindr (iter (dget (val pod) ''containers'' (JList []))) (\<lambda>containers.
     allr [eqs (dget0 (val pod) ''serviceAccountName'') (proxy_name plane), val (length containers = 1),
           eqs (dget0 (val (hd containers)) ''name'') ''auth-proxy'',
           eqr (dget0 (val (hd containers)) ''image'') (proxy_image config),
           mapr (\<lambda>i. i = Some identifier) (front_door_id live)]))"

definition require_proxy :: "sha \<Rightarrow> json \<Rightarrow> string list \<Rightarrow> string \<Rightarrow> json \<Rightarrow> string \<Rightarrow> ('s, unit) proc" where
  "require_proxy sha config kube identifier planes plane =
     letp (sub (val planes) plane) (\<lambda>state.
     checkp (allr [testr (\<lambda>v. is_str v \<and> truth v) (dget0 (val state) ''deploymentUid''),
                   fullmatch SHA256 (dget (val state) ''podTemplateSha256'' (JStr []))])
       (''Edge binding receipt lacks the verified '' @ plane @ '' workload'') (
     bindp (kube_get kube ''deployment'' (proxy_name plane) False) (\<lambda>live.
     checkp (allr [eqr (get_at (val live) [''metadata'', ''uid'']) (sub (val state) ''deploymentUid''),
                   bindr (sub_at (val live) [''spec'', ''template'']) (\<lambda>pod_template.
                   eqs (sub (val state) ''podTemplateSha256'') (fingerprint sha pod_template))])
       (''Managed '' @ plane @ '' proxy differs from the verified edge binding receipt'') (
     checkp (live_proxy_ok config identifier plane live)
       (''Managed '' @ plane @ '' proxy no longer enforces the reviewed Front Door binding'') (retp ())))))"

definition require_edge_binding ::
    "sha \<Rightarrow> yload \<Rightarrow> json \<Rightarrow> json \<Rightarrow> string \<Rightarrow> string list option \<Rightarrow> ('s, unit) proc" where
  "require_edge_binding sha yload config revision identifier client =
     bindp (show_deployment sha config ''edge-bind''
              ''{state:properties.provisioningState,binding:properties.outputs.edgeBinding.value}'') (\<lambda>result.
     letp (dgetO (val result) ''binding'') (\<lambda>receipt.
     checkp (allr [eqs (dget0 (val result) ''state'') ''Succeeded'', is_true (dget0 (val receipt) ''rolloutVerified'')])
       ''Run edge-bind and verify its rollout before enabling traffic'' (
     bindp (deployed_edge sha config) (\<lambda>edge.
     checkp (val (lookup_or edge ''frontDoorId'' JNull = JStr identifier))
       ''Current Front Door identity differs from the release'' (
     letp (expected_receipt sha config revision identifier) (\<lambda>expected.
     checkp (all_res (\<lambda>(k, v). eqr (dget0 (val receipt) k) (val v)) expected)
       ''Edge binding receipt is stale or belongs to a different environment'' (
     checkp (same_fields COMPARED_KEYS receipt (JObj edge))
       ''Edge binding receipt differs from the current Front Door and private-origin configuration'' (
     letp (bindr (application_authentication config) (\<lambda>a. eqs (sub (val a) ''mode'') ''native'')) (\<lambda>native.
     letp (dgetO (val receipt) ''planes'') (\<lambda>planes.
     checkp (allr [if native then eqs (dget0 (val receipt) ''bindingMode'') ''native-private-ingress'' else val True,
                   val (keys_are [''api'', ''admin''] planes)])
       (if native then ''Native edge binding receipt lacks both verified private ingresses''
        else ''Edge binding receipt lacks both verified proxy workloads'') (
     case client of
       None \<Rightarrow> failp (MigrationError (if native then ''Native traffic release requires live access to both private ingresses''
                        else ''Proxy traffic release requires live access to both managed proxy workloads''))
     | Some kube \<Rightarrow>
         eachp (if native then require_ingress sha yload config kube identifier planes
                else require_proxy sha config kube identifier planes) [''api'', ''admin''])))))))))))"

section \<open>Events\<close>

text \<open>The client of the target cluster.\<close>

definition target_kube :: "string list" where
  "target_kube = [''kubectl'', ''--kubeconfig'', ''kubeconfig'', ''--namespace'', ''litellm'']"

lemma connect_target: "returns (connect_cluster config False) kube \<Longrightarrow> kube = target_kube"
  by (auto simp: connect_cluster_def target_kube_def dest!: returnsD)

lemma target_client: "is_kube target_kube" "is_kube (plane_client target_kube plane)"
  by (simp_all add: is_kube_def plane_client_def target_kube_def Let_def)

lemma az_harmless: "kube_reads (Command (''az'' # xs), r)"
  by (cases "(Command (''az'' # xs), r)" rule: kube_mutation.cases) (simp_all add: kube_reads_def)

lemma az_reads_harmless: "only kube_reads (az_run e arguments)" "only kube_reads (az_scoped_with e config arguments)"
  by (auto intro!: only_az_run only_az_scoped simp: az_command_def az_harmless)

lemma probe_reads: "only kube_reads (probe_plane config edge p)"
  unfolding probe_plane_def probe_enabled_route_def by (intro only_intros) (simp add: kube_reads_def)

lemma resource_reads: "only kube_reads (deployed_resource config i v)"
  unfolding deployed_resource_def by (intro only_intros az_reads_harmless)

lemma edge_resources_read: "only kube_reads (validate_private_edge_resources config i origins edge)"
  unfolding validate_private_edge_resources_def endpoint_properties_def check_route_def check_origin_plane_def check_domain_def
  by (intro only_intros only_mapp resource_reads probe_reads)

lemma deployed_edge_reads: "only kube_reads (deployed_edge sha config)"
  unfolding deployed_edge_def show_deployment_def deployment_outputs_def Let_def
  by (intro only_intros az_reads_harmless resource_reads edge_resources_read)

lemma ingress_documents_read: "is_kube kube \<Longrightarrow> only kube_reads (ingress_documents kube plane)"
  unfolding ingress_documents_def by (intro only_intros kube_get_reads)

lemma ingress_state_reads: "is_kube kube \<Longrightarrow> only kube_reads (native_ingress_state sha yload config kube i plane)"
  unfolding native_ingress_state_def by (intro only_intros ingress_documents_read)

lemma native_plan_reads: "only kube_reads (native_plan sha yload ydump config revision target_kube edge)"
  unfolding native_plan_def bind_native_ingress_def Let_def
  by (intro only_intros only_mapp ingress_documents_read target_client)

lemma proxy_plan_reads: "only kube_reads (proxy_plan sha config revision target_kube edge)"
  unfolding proxy_plan_def bind_workload_def Let_def by (intro only_intros only_mapp kube_get_reads target_client)

lemma edge_prepare_reads: "only kube_reads (edge_prepare sha yload ydump config revision)"
  unfolding edge_prepare_def
  by (intro only_letp only_bindp_returns deployed_edge_reads connect_reads)
    (auto intro!: only_intros only_private_write native_plan_reads proxy_plan_reads connect_reads deployed_edge_reads
      dest!: connect_target)

lemma rollout_any: "only (\<lambda>_. True) (rollout kube name)"
  unfolding rollout_def by (intro only_intros kube_any)

lemma ingress_any: "only (\<lambda>_. True) (native_ingress_state sha yload config kube i plane)"
  unfolding native_ingress_state_def ingress_documents_def by (intro only_intros kube_reads_any)

lemma receipt_any: "only (\<lambda>_. True) (save_receipt sha config native receipt)"
  unfolding save_receipt_def by (intro only_intros only_private_write only_az_scoped TrueI)

lemma edge_apply_any: "only (\<lambda>_. True) (edge_apply sha yload config p)"
  unfolding edge_apply_def apply_native_def apply_binding_def apply_proxies_def apply_workload_def patch_when_def Let_def
  by (intro only_intros only_private_write kube_reads_any kube_steps_any rollout_any ingress_any receipt_any TrueI)

lemma edge_prepare_reviewed:
  "wp (edge_prepare sha yload ydump config revision)
      (\<lambda>p l. \<exists>r. (WriteFile ''runtime-review.json'' (ep_plan p), r) \<in> set l) (\<lambda>_. True) l"
  unfolding edge_prepare_def
  by (rule wp_intros wp_private_write wp_drop TrueI | force)+

interpretation edge: approval_gate
    "\<lambda>operation approved. bind_edge sha yload ydump config operation revision approved"
    "edge_prepare sha yload ydump config revision" "\<lambda>p. retp (ep_summary p)" "edge_apply sha yload config"
    "\<lambda>p. fingerprint sha (ep_plan p)" "\<lambda>p. WriteFile ''runtime-review.json'' (ep_plan p)"
    "''Edge binding plan changed or was not approved''" kube_reads
  for sha yload ydump config revision
proof
  show "bind_edge sha yload ydump config ''plan'' revision a =
      bindp (edge_prepare sha yload ydump config revision) (\<lambda>p. retp (ep_summary p))" for a
    by (simp add: bind_edge_def checkp_def)
  show "bind_edge sha yload ydump config ''execute'' revision a =
      bindp (edge_prepare sha yload ydump config revision)
       (\<lambda>p. checkp (val (a = fingerprint sha (ep_plan p))) ''Edge binding plan changed or was not approved''
         (edge_apply sha yload config p))" for a
    by (simp add: bind_edge_def checkp_def eq_commute)
qed (auto intro!: only_intros edge_prepare_reads edge_apply_any edge_prepare_reviewed)

text \<open>
  C12: whatever the cluster and Azure reply, a run of \<open>bind_edge\<close> either changed nothing in the
  cluster, or it was an \<open>execute\<close> run whose approved hash is the hash of a plan document the same
  run had written for review.
\<close>

theorem edge_binding_is_approved:
  "list_all kube_reads (log (snd (bind_edge sha yload ydump config operation revision approved sv (start s)))) \<or>
   (operation = ''execute'' \<and> (\<exists>plan r. approved = fingerprint sha plan \<and> (WriteFile ''runtime-review.json'' plan, r)
      \<in> set (log (snd (bind_edge sha yload ydump config operation revision approved sv (start s))))))"
proof (cases "operation = ''plan'' \<or> operation = ''execute''")
  case True
  then show ?thesis
    using edge.harmful_approved [of operation _ sha yload ydump config revision approved sv s]
    unfolding list_all_iff by metis
qed (simp add: bind_edge_def checkp_def failp_def start_def)

section \<open>What a bound workload is\<close>

lemma update_in_at:
  "update_in ks f v = Inr w \<Longrightarrow> \<exists>x y. sub_at (val v) ks = Inr x \<and> f x = Inr y \<and> sub_at (val w) ks = Inr y"
proof (induction ks arbitrary: v w)
  case (Cons k ks)
  then obtain kv x y where *: "v = JObj kv" "map_of kv k = Some x" "update_in ks f x = Inr y" "w = JObj (dict_set kv k y)"
    by (auto simp: py_ok)
  from Cons.IH [OF *(3)] * show ?case by auto
qed simp

lemma update_in_other:
  assumes "update_in (k # ks) f v = Inr w" "k' \<noteq> k"
  shows "sub_at (val w) (k' # ks') = sub_at (val v) (k' # ks')"
  using assms by (auto simp: py_ok)

lemma update_in_truth: "update_in (k # ks) f v = Inr w \<Longrightarrow> truth w"
  by (auto simp: py_ok) (metis map_of_dict_set fun_upd_same map_of.simps(1) option.distinct(1) truth.simps)

lemma add_fdid_ok:
  assumes "add_fdid i (JList [c]) = Inr y"
  obtains kv env where "c = JObj kv" "lookup_or kv ''env'' (JList []) = JList env"
    and "y = JList [JObj (dict_set kv ''env'' (JList (env @ [fdid_entry i])))]"
  using assms by (auto simp: add_fdid_def py_ok)

lemma filter_res_append:
  "filter_res f xs = Inr a \<Longrightarrow> filter_res f ys = Inr b \<Longrightarrow> filter_res f (xs @ ys) = Inr (a @ b)"
  by (induction xs arbitrary: a) (auto simp: bindr_ok)

lemma front_door_none: "front_door_id d = Inr None \<Longrightarrow> truth d \<Longrightarrow> fdid_entries d = Inr []"
  by (cases "fdid_entries d"; cases "projr (fdid_entries d)") (auto simp: front_door_id_def py_ok)

lemma bound_entries:
  assumes "containers_of d = Inr [JObj kv]" "fdid_entries d = Inr []" "lookup_or kv ''env'' (JList []) = JList env"
    and "containers_of d' = Inr [JObj (dict_set kv ''env'' (JList (env @ [fdid_entry i])))]"
  shows "fdid_entries d' = Inr [fdid_entry i]"
proof -
  let ?named = "\<lambda>item. eqs (dget0 (val item) ''name'') ''FRONT_DOOR_ID''"
  have "filter_res ?named env = Inr []"
    using assms(1-3) by (simp add: fdid_entries_def del: eqs_ok)
  moreover have "filter_res ?named [fdid_entry i] = Inr [fdid_entry i]"
    by (simp add: fdid_entry_def)
  ultimately have "filter_res ?named (env @ [fdid_entry i]) = Inr [fdid_entry i]"
    using filter_res_append by fastforce
  then show ?thesis using assms(4) by (simp add: fdid_entries_def)
qed

lemma front_door_of_entry:
  assumes "fdid_entries d = Inr [fdid_entry i]" "truth d" "uuid_int (JStr i) = Inr n" "n \<noteq> 0"
  shows "front_door_id d = Inr (Some i)"
  using assms by (simp add: front_door_id_def fdid_entry_def keys_are_def)

lemma nonzero_id_ok: "nonzero_id v = Inr i \<longleftrightarrow> v = JStr i \<and> (\<exists>n. uuid_int v = Inr n \<and> n \<noteq> 0)"
  by (auto simp: nonzero_id_def py_ok)

text \<open>
  C13: binding a managed proxy to a Front Door leaves a workload that trusts this Front Door, up to
  case, and no other, and binding the result again changes nothing.
\<close>

theorem binding_is_idempotent:
  assumes "bind_deployment d (JStr i) = Inr d'"
  shows "bind_deployment d' (JStr i) = Inr d' \<and> (\<exists>e. front_door_id d' = Inr (Some e) \<and> lower e = lower i)"
proof -
  let ?at = "[''spec'', ''template'', ''spec'', ''containers'']"
  from assms obtain n e cs where n: "uuid_int (JStr i) = Inr n" "n \<noteq> 0"
    and name: "in_strs (sub_at (val d) [''metadata'', ''name'']) [''llm-api-proxy'', ''llm-admin-proxy''] = Inr True"
    and e: "front_door_id d = Inr e" "case e of None \<Rightarrow> True | Some e \<Rightarrow> lower e = lower i"
    and cs: "containers_of d = Inr cs" "length cs = 1" "eqs (sub (val (hd cs)) ''name'') ''auth-proxy'' = Inr True"
    and d': "(if e = None then update_in ?at (add_fdid i) d else val d) = Inr d'"
    unfolding bind_deployment_def bindr_ok check_ok conjr_ok nonzero_id_ok by auto
  show ?thesis
  proof (cases e)
    case (Some f)
    then show ?thesis using assms e d' by auto
  next
    case None
    with d' have up: "update_in ?at (add_fdid i) d = Inr d'" by simp
    from update_in_at [OF up] obtain x y where x: "sub_at (val d) ?at = Inr x" "add_fdid i x = Inr y" "sub_at (val d') ?at = Inr y"
      by blast
    from x(1,2) cs have "x = JList cs" by (auto simp: containers_of_def add_fdid_def py_ok)
    moreover from cs(2) obtain c where c: "cs = [c]" by (auto simp: length_Suc_conv)
    ultimately obtain kv env where kv: "c = JObj kv" "lookup_or kv ''env'' (JList []) = JList env"
        "y = JList [JObj (dict_set kv ''env'' (JList (env @ [fdid_entry i])))]"
      using x(2) by (auto elim: add_fdid_ok)
    have "truth d" using name by (cases d) (auto simp: py_ok)
    then have none: "fdid_entries d = Inr []" using e None by (simp add: front_door_none)
    have cs': "containers_of d' = Inr [JObj (dict_set kv ''env'' (JList (env @ [fdid_entry i])))]"
      using x(3) kv by (simp add: containers_of_def)
    have "front_door_id d' = Inr (Some i)"
      using front_door_of_entry [OF bound_entries [OF _ none kv(2) cs'] update_in_truth [OF up] n] cs c kv by simp
    moreover have "sub_at (val d') [''metadata'', ''name''] = sub_at (val d) [''metadata'', ''name'']"
      using update_in_other [OF up, of "''metadata''" "[''name'']"] by simp
    moreover have "nonzero_id (JStr i) = Inr i" using n by (simp add: nonzero_id_ok)
    moreover have "eqs (sub (val (JObj (dict_set kv ''env'' w))) ''name'') ''auth-proxy'' = Inr True" for w
      using cs c kv by simp
    ultimately show ?thesis using name cs' by (simp add: bind_deployment_def del: sub_at.simps)
  qed
qed

definition demo_front_door :: string where
  "demo_front_door = ''6f9619ff-8b86-4011-b42d-00c04fc964ff''"

definition demo_proxy :: "json list \<Rightarrow> json" where
  "demo_proxy env = JObj [(''metadata'', JObj [(''name'', JStr ''llm-api-proxy'')]),
     (''spec'', JObj [(''template'', JObj [(''spec'', JObj [(''containers'', JList [
        JObj [(''name'', JStr ''auth-proxy''), (''env'', JList env)]])])])])]"

lemma demo_binding:
  "bind_deployment (demo_proxy []) (JStr demo_front_door) = Inr (demo_proxy [fdid_entry demo_front_door])"
  by code_simp

theorem binding_is_idempotent_witness:
  "bind_deployment (demo_proxy [fdid_entry demo_front_door]) (JStr demo_front_door)
     = Inr (demo_proxy [fdid_entry demo_front_door])"
  using binding_is_idempotent [OF demo_binding] by blast

end
