(* ===== verification/Ingress_Render.thy ===== *)
theory Ingress_Render
  imports Edge_Binding
begin

text \<open>
  The documents of \<open>scripts/private_ingress.py\<close>: the isolated gateway of a plane as it is rendered,
  and the binding of a live gateway carried over into newly rendered documents.  The lock file of the
  img is a file of the repository read at run time: its content is the parameter \<open>lock\<close>.
\<close>

section \<open>The gateway of a plane\<close>

definition host_of :: "json \<Rightarrow> string \<Rightarrow> string res" where
  "host_of config plane =
     bindr (bindr (sub (val config) ''baseDomain'') domain_hosts) (\<lambda>(api, admin).
     if plane = ''api'' then val api else if plane = ''admin'' then val admin else Inl KeyError)"

definition REGISTRY_NAME :: rx where
  "REGISTRY_NAME = times 5 50 (alnum_or [])"

definition ingress_image :: "json \<Rightarrow> json \<Rightarrow> string res" where
  "ingress_image lock config =
     bindr (sub_at (val config) [''parameters'', ''platform'', ''containerRegistryName'']) (\<lambda>registry.
     check (fullmatch REGISTRY_NAME (val registry)) ''Invalid ingress ACR name'' (
     bindr (str_of (val registry)) (\<lambda>r.
     bindr (fmt (sub (val lock) ''repository'')) (\<lambda>repository.
     bindr (fmt (sub (val lock) ''digest'')) (\<lambda>digest.
     val (r @ ''.azurecr.io/'' @ repository @ ''@'' @ digest))))))"

definition PINNED_IMAGE :: rx where
  "PINNED_IMAGE = cat [plus1 (lownum_or ''./_-''), lit ''@sha256:'', times 64 64 hexlow]"

definition ingress_metadata :: "string \<Rightarrow> obj" where
  "ingress_metadata plane =
     [(''name'', JStr (ingress_name plane)), (''namespace'', JStr (ingress_name plane)), (''labels'', ingress_labels plane)]"

definition ingress_namespace :: "string \<Rightarrow> json" where
  "ingress_namespace plane =
     JObj [(''apiVersion'', JStr ''v1''), (''kind'', JStr ''Namespace''),
       (''metadata'', JObj [(''name'', JStr (ingress_name plane)),
          (''labels'', JObj [(''pod-security.kubernetes.io/enforce'', JStr ''restricted'')])])]"

text \<open>The dynamic configuration: the routers, the upstream and the certificate.\<close>

definition business_rule :: "bool \<Rightarrow> string \<Rightarrow> string \<Rightarrow> string" where
  "business_rule native plane host =
     (if native then native_rule plane host None else ''Host(`'' @ host @ ''`)'')"

definition ingress_routers :: "bool \<Rightarrow> string \<Rightarrow> string \<Rightarrow> obj" where
  "ingress_routers native plane host =
     [(plane, business_route plane (business_rule native plane host))]
     @ (if native then [(plane @ ''-health'', health_route plane (native_health_rule host))] else [])"

definition tls_options :: json where
  "tls_options =
     JObj [(''certificates'', JList [JObj [(''certFile'', JStr ''/certs/tls.crt''), (''keyFile'', JStr ''/certs/tls.key'')]]),
       (''options'', JObj [(''default'', JObj [(''minVersion'', JStr ''VersionTLS12''), (''sniStrict'', JBool True)])])]"

definition ingress_dynamic :: "bool \<Rightarrow> string \<Rightarrow> string \<Rightarrow> string \<Rightarrow> json" where
  "ingress_dynamic native plane host upstream =
     JObj [(''http'', JObj ([(''routers'', JObj (ingress_routers native plane host)), (''services'', plane_services plane upstream)]
             @ (if native then [(''middlewares'', health_middleware plane)] else []))),
       (''tls'', tls_options)]"

definition ingress_config_map :: "ydump \<Rightarrow> string \<Rightarrow> json \<Rightarrow> json" where
  "ingress_config_map ydump plane dynamic =
     JObj [(''apiVersion'', JStr ''v1''), (''kind'', JStr ''ConfigMap''), (''metadata'', JObj (ingress_metadata plane)),
       (''data'', JObj [(''routes.yaml'', JStr (ydump dynamic))])]"

text \<open>The workload.\<close>

definition ingress_arguments :: "string list" where
  "ingress_arguments =
     [''--entrypoints.websecure.address=:8443'', ''--entrypoints.websecure.http.tls=true'',
      ''--entrypoints.websecure.transport.respondingtimeouts.readtimeout=600s'',
      ''--entrypoints.websecure.transport.respondingtimeouts.writetimeout=0s'',
      ''--entrypoints.websecure.transport.respondingtimeouts.idletimeout=600s'',
      ''--entrypoints.health.address=:8082'', ''--ping=true'', ''--ping.entrypoint=health'',
      ''--providers.file.directory=/dynamic'', ''--providers.file.watch=true'',
      ''--api.dashboard=false'', ''--log.level=ERROR'', ''--accesslog=false'',
      ''--global.checknewversion=false'', ''--global.sendanonymoususage=false'']"

definition ingress_probe :: "string \<Rightarrow> string \<times> json" where
  "ingress_probe probe =
     (probe, JObj [(''httpGet'', JObj [(''path'', JStr ''/ping''), (''port'', JStr ''health'')]), (''periodSeconds'', JInt 10),
        (''timeoutSeconds'', JInt 3), (''failureThreshold'', JInt (if probe = ''startupProbe'' then 30 else 3))])"

definition mount :: "string \<Rightarrow> string \<Rightarrow> json" where
  "mount name at = JObj [(''name'', JStr name), (''mountPath'', JStr at), (''readOnly'', JBool True)]"

definition ingress_container :: "string \<Rightarrow> json" where
  "ingress_container img =
     JObj ([(''name'', JStr ''traefik''), (''image'', JStr img), (''args'', strs ingress_arguments),
       (''ports'', JList [JObj [(''name'', JStr ''https''), (''containerPort'', JInt 8443)],
                          JObj [(''name'', JStr ''health''), (''containerPort'', JInt 8082)]]),
       (''securityContext'', JObj [(''allowPrivilegeEscalation'', JBool False), (''readOnlyRootFilesystem'', JBool True),
          (''capabilities'', JObj [(''drop'', strs [''ALL''])])]),
       (''resources'', JObj [(''requests'', JObj [(''cpu'', JStr ''100m''), (''memory'', JStr ''128Mi'')]),
                             (''limits'', JObj [(''cpu'', JStr ''1''), (''memory'', JStr ''512Mi'')])]),
       (''volumeMounts'', JList [mount ''dynamic'' ''/dynamic'', mount ''tls'' ''/certs'',
          JObj [(''name'', JStr ''tmp''), (''mountPath'', JStr ''/tmp'')]])]
       @ map ingress_probe [''startupProbe'', ''readinessProbe'', ''livenessProbe''])"

definition ingress_pod :: "string \<Rightarrow> string \<Rightarrow> json" where
  "ingress_pod plane img =
     JObj [(''automountServiceAccountToken'', JBool False),
       (''securityContext'', JObj [(''runAsNonRoot'', JBool True), (''runAsUser'', JInt 65532), (''runAsGroup'', JInt 65532),
          (''fsGroup'', JInt 65532), (''seccompProfile'', JObj [(''type'', JStr ''RuntimeDefault'')])]),
       (''terminationGracePeriodSeconds'', JInt 60), (''containers'', JList [ingress_container img]),
       (''volumes'', JList
          [JObj [(''name'', JStr ''dynamic''), (''configMap'', JObj [(''name'', JStr (ingress_name plane))])],
           JObj [(''name'', JStr ''tls''), (''secret'', JObj [(''secretName'', JStr (ingress_name plane @ ''-tls'')),
                   (''defaultMode'', JInt 288)])],
           JObj [(''name'', JStr ''tmp''), (''emptyDir'', JObj [(''sizeLimit'', JStr ''64Mi'')])]]),
       (''topologySpreadConstraints'', JList [JObj [(''maxSkew'', JInt 1), (''topologyKey'', JStr ''kubernetes.io/hostname''),
          (''whenUnsatisfiable'', JStr ''DoNotSchedule''), (''labelSelector'', JObj [(''matchLabels'', ingress_labels plane)])]])]"

definition ingress_deployment :: "string \<Rightarrow> string \<Rightarrow> json" where
  "ingress_deployment plane img =
     JObj [(''apiVersion'', JStr ''apps/v1''), (''kind'', JStr ''Deployment''), (''metadata'', JObj (ingress_metadata plane)),
       (''spec'', JObj [(''replicas'', JInt 2), (''selector'', JObj [(''matchLabels'', ingress_labels plane)]),
          (''strategy'', JObj [(''type'', JStr ''RollingUpdate''),
             (''rollingUpdate'', JObj [(''maxUnavailable'', JInt 0), (''maxSurge'', JInt 1)])]),
          (''template'', JObj [(''metadata'', JObj [(''labels'', ingress_labels plane)]), (''spec'', ingress_pod plane img)])])]"

definition ingress_budget :: "string \<Rightarrow> json" where
  "ingress_budget plane =
     JObj [(''apiVersion'', JStr ''policy/v1''), (''kind'', JStr ''PodDisruptionBudget''), (''metadata'', JObj (ingress_metadata plane)),
       (''spec'', JObj [(''minAvailable'', JInt 1), (''selector'', JObj [(''matchLabels'', ingress_labels plane)])])]"

definition ingress_service :: "string \<Rightarrow> string list \<Rightarrow> json \<Rightarrow> json" where
  "ingress_service plane sources subnet =
     JObj [(''apiVersion'', JStr ''v1''), (''kind'', JStr ''Service''),
       (''metadata'', JObj (ingress_metadata plane @ [(''annotations'', JObj
          [(''service.beta.kubernetes.io/azure-load-balancer-internal'', JStr ''true''), (internal_subnet, subnet)])])),
       (''spec'', JObj [(''type'', JStr ''LoadBalancer''), (''externalTrafficPolicy'', JStr ''Local''),
          (''loadBalancerSourceRanges'', strs sources), (''selector'', ingress_labels plane),
          (''ports'', JList [JObj [(''name'', JStr ''https''), (''port'', JInt 443), (''targetPort'', JStr ''https''),
             (''protocol'', JStr ''TCP'')]])])]"

text \<open>The network policy: only the allowed ranges come in, only DNS and the upstream are reached.\<close>

definition upstream_labels :: "bool \<Rightarrow> bool \<Rightarrow> string \<Rightarrow> json" where
  "upstream_labels native audit_proxy plane =
     (if audit_proxy then JObj [(''app.kubernetes.io/name'', JStr ''l3-audit'')]
      else if native then JObj [(''app.kubernetes.io/name'', JStr ''litellm''), (''app.kubernetes.io/component'', JStr ''gateway'')]
      else JObj [(''app.kubernetes.io/name'', JStr ''entra-auth-proxy''), (''plane'', JStr plane)])"

definition net_port :: "string \<Rightarrow> int \<Rightarrow> json" where
  "net_port protocol number = JObj [(''protocol'', JStr protocol), (''port'', JInt number)]"

definition egress_to :: "string \<Rightarrow> json \<Rightarrow> json list \<Rightarrow> json" where
  "egress_to namespace labels ports =
     JObj [(''to'', JList [JObj [(''namespaceSelector'', JObj [(''matchLabels'', JObj
              [(''kubernetes.io/metadata.name'', JStr namespace)])]), (''podSelector'', JObj [(''matchLabels'', labels)])]]),
       (''ports'', JList ports)]"

definition ingress_policy :: "bool \<Rightarrow> bool \<Rightarrow> string \<Rightarrow> string list \<Rightarrow> json" where
  "ingress_policy native audit_proxy plane sources =
     JObj [(''apiVersion'', JStr ''networking.k8s.io/v1''), (''kind'', JStr ''NetworkPolicy''),
       (''metadata'', JObj (ingress_metadata plane)),
       (''spec'', JObj [(''podSelector'', JObj [(''matchLabels'', ingress_labels plane)]),
          (''policyTypes'', strs [''Ingress'', ''Egress'']),
          (''ingress'', JList [JObj [(''from'', JList (map (\<lambda>cidr. JObj [(''ipBlock'', JObj [(''cidr'', JStr cidr)])]) sources)),
             (''ports'', JList [net_port ''TCP'' 8443])]]),
          (''egress'', JList
             [egress_to ''kube-system'' (JObj [(''k8s-app'', JStr ''kube-dns'')]) [net_port ''UDP'' 53, net_port ''TCP'' 53],
              egress_to ''litellm'' (upstream_labels native audit_proxy plane)
                [net_port ''TCP'' (if audit_proxy \<or> \<not> native then 8080 else 4000)]])])]"

definition ingress_upstream :: "bool \<Rightarrow> json \<Rightarrow> string \<Rightarrow> string res" where
  "ingress_upstream native config plane =
     (if native then l3_upstream config plane
      else val (''http://llm-'' @ plane @ ''-proxy.litellm.svc.cluster.local:8080''))"

definition render_ingress :: "ydump \<Rightarrow> json \<Rightarrow> string \<Rightarrow> string \<Rightarrow> json list \<Rightarrow> json list res" where
  "render_ingress ydump config plane img ranges =
     check (val (plane \<in> {''api'', ''admin''})) ''Unknown ingress plane'' (
     check (val (rmatch PINNED_IMAGE img)) ''Ingress image must be digest pinned'' (
     bindr (host_of config plane) (\<lambda>host.
     bindr (bindr (application_authentication config) (\<lambda>a. eqs (sub (val a) ''mode'') ''native'')) (\<lambda>native.
     bindr (sub_at (val config) [''parameters'', ''platform'', ''stage4Network'']) (\<lambda>network.
     bindr (sub (val network) ''ingressSubnetPrefix'') (\<lambda>prefix.
     bindr (ingress_source_ranges (JList (ranges @ [prefix]))) (\<lambda>sources.
     bindr (if native \<and> plane = ''api'' then l3_enabled config else val False) (\<lambda>audit_proxy.
     bindr (ingress_upstream native config plane) (\<lambda>upstream.
     bindr (sub (val network) ''ingressSubnetName'') (\<lambda>subnet.
     val [ingress_namespace plane, ingress_config_map ydump plane (ingress_dynamic native plane host upstream),
          ingress_deployment plane img, ingress_budget plane, ingress_service plane sources subnet,
          ingress_policy native audit_proxy plane sources]))))))))))"

section \<open>A binding carried over\<close>

definition INGRESS_MAP :: rx where
  "INGRESS_MAP = cat [lit ''llm-'', Alt (lit ''api'') (lit ''admin''), lit ''-ingress'']"

text \<open>The first document of a kind, \<open>next(item for item in result if item["kind"] == kind)\<close>.\<close>

definition first_of_kind :: "string \<Rightarrow> json list \<Rightarrow> json res" where
  "first_of_kind kind documents =
     bindr (find_res (\<lambda>d. eqs (sub (val d) ''kind'') kind) documents) (\<lambda>found.
     case found of None \<Rightarrow> Inl StopIteration | Some d \<Rightarrow> val d)"

definition current_rule :: "yload \<Rightarrow> json \<Rightarrow> string \<Rightarrow> string res" where
  "current_rule yload live plane =
     bindr (bindr (str_of (dget (dgetO (val live) ''data'') ''routes.yaml'' (JStr []))) yload) (\<lambda>current.
     str_of (dget (dgetO (dgetO (dgetO (val (if truth current then current else JObj [])) ''http'') ''routers'') plane)
       ''rule'' (JStr [])))"

text \<open>The first document of a kind, replaced by the result of \<open>f\<close>.\<close>

primrec update_kind :: "string \<Rightarrow> (json \<Rightarrow> json res) \<Rightarrow> json list \<Rightarrow> json list res" where
  "update_kind kind f [] = Inl StopIteration"
| "update_kind kind f (d # ds) =
     bindr (eqs (sub (val d) ''kind'') kind) (\<lambda>found.
     if found then mapr (\<lambda>e. e # ds) (f d) else mapr (\<lambda>es. d # es) (update_kind kind f ds))"

definition rebind_documents ::
    "sha \<Rightarrow> yload \<Rightarrow> ydump \<Rightarrow> json \<Rightarrow> json list \<Rightarrow> json \<Rightarrow> string \<Rightarrow> string \<Rightarrow> json list res" where
  "rebind_documents sha yload ydump config documents config_map plane identifier =
     bindr (first_of_kind ''Deployment'' documents) (\<lambda>_.
     bindr (bindr (str_of (sub_at (val config_map) [''data'', ''routes.yaml''])) yload) (\<lambda>dynamic.
     bindr (str_of (sub_at (val dynamic) [''http'', ''routers'', plane, ''rule''])) (\<lambda>rendered.
     check (val (\<not> is_substring ''X-Azure-FDID'' rendered))
       (''Rendered native '' @ plane @ '' ingress unexpectedly contains a Front Door binding'') (
     bindr (host_of config plane) (\<lambda>host.
     bindr (update_in [''http'', ''routers'', plane] (\<lambda>router. bindr (items (val router)) (\<lambda>kv.
              val (JObj (dict_set kv ''rule'' (JStr (native_rule plane host (Some identifier))))))) dynamic) (\<lambda>bound.
     bindr (update_kind ''ConfigMap'' (update_in [''data''] (\<lambda>d. bindr (items (val d)) (\<lambda>kv.
              val (JObj (dict_set kv ''routes.yaml'' (JStr (ydump bound))))))) documents) (\<lambda>ds.
     update_kind ''Deployment'' (update_in [''spec'', ''template'', ''metadata''] (annotate sha bound identifier)) ds)))))))"

definition preserve_native_front_door_binding ::
    "sha \<Rightarrow> yload \<Rightarrow> ydump \<Rightarrow> json \<Rightarrow> json list \<Rightarrow> json \<Rightarrow> json list res" where
  "preserve_native_front_door_binding sha yload ydump config documents live =
     (if \<not> truth live then val documents
      else
      bindr (first_of_kind ''ConfigMap'' documents) (\<lambda>config_map.
      bindr (sub_at (val config_map) [''metadata'', ''name'']) (\<lambda>name.
      check (fullmatch INGRESS_MAP (val name)) ''Cannot preserve a Front Door binding for an unknown ingress plane'' (
      let plane = (if name = JStr ''llm-api-ingress'' then ''api'' else ''admin'') in
      bindr (current_rule yload live plane) (\<lambda>rule.
      let bound = fdids 0 rule in
      check (val (length bound \<le> 1)) ''Existing native API ingress has ambiguous Front Door bindings'' (
      if bound = [] then val documents
      else check (mapr (\<lambda>i. i \<noteq> 0) (uuid_of_string (hd bound))) ''Existing native API ingress has an invalid Front Door binding'' (
        rebind_documents sha yload ydump config documents config_map plane (hd bound))))))))"

end
