(* ===== verification/Ingress_Runtime.thy ===== *)
theory Ingress_Runtime
  imports Ingress_Render
begin

text \<open>
  \<open>scripts/private_ingress_runtime.py\<close>: planning, deploying and verifying the private gateways.  The
  scanner, the resolver, the TLS library and the sockets are outside: each of them is a \<open>Client\<close> call
  whose reply is arbitrary.
\<close>

section \<open>Ownership\<close>

text \<open>A gateway object that an earlier version patched with \<open>kubectl patch\<close> is handed over to the
  workflow's field manager, unless somebody else manages one of its fields.\<close>

definition managed_root :: "string \<Rightarrow> string" where
  "managed_root kind = (if kind = ''ConfigMap'' then ''f:data'' else ''f:spec'')"

definition foreign_manager :: "json \<Rightarrow> string \<Rightarrow> json \<Rightarrow> bool res" where
  "foreign_manager document root entry =
     bindr (dgetO (val entry) ''fieldsV1'') (\<lambda>managed.
     bindr (dgetO (dgetO (val managed) ''f:metadata'') ''f:labels'') (\<lambda>labels.
     bindr (disjr (has (val managed) root)
              (bindr (items (dgetO (sub (val document) ''metadata'') ''labels'')) (\<lambda>own.
               any_res (\<lambda>key. has (val labels) (''f:'' @ key)) (keys_of own)))) (\<lambda>touched.
     conjr (val touched) (negr (in_strs (dget0 (val entry) ''manager'') [''llmgw-ingress'', ''kubectl-patch''])))))"

definition ingress_ownership_handoff :: "json \<Rightarrow> json \<Rightarrow> bool \<Rightarrow> bool res" where
  "ingress_ownership_handoff document current native =
     (if \<not> native \<or> \<not> truth current then val False
      else
      bindr (in_strs (sub (val document) ''kind'') [''ConfigMap'', ''Deployment'']) (\<lambda>handed.
      if \<not> handed then val False
      else
      bindr (str_of (sub (val document) ''kind'')) (\<lambda>kind.
      let root = managed_root kind in
      bindr (dget0 (sub (val current) ''metadata'') ''managedFields'') (\<lambda>managers.
      check (val (is_list managers \<and> truth managers))
        ''Native ingress ownership metadata is missing; read objects with --show-managed-fields'' (
      bindr (list_of (val managers)) (\<lambda>entries.
      bindr (any_res (\<lambda>entry. conjr (eqs (dget0 (val entry) ''manager'') ''kubectl-patch'')
               (has (dgetO (val entry) ''fieldsV1'') root)) entries) (\<lambda>legacy.
      if \<not> legacy then val False
      else
      check (eqs (dget0 (dgetO (sub (val current) ''metadata'') ''labels'') ''app.kubernetes.io/managed-by'') ''llmgw-workflow'')
        ''Ownership handoff requires an existing workflow-managed ingress'' (
      seqr (each (\<lambda>entry. check (negr (foreign_manager document root entry))
              ''Ingress ownership handoff would override another manager; review its fields separately'' (val ())) entries) (
      check (allr [testr truth (dget0 (sub (val current) ''metadata'') ''uid''),
                   testr truth (dget0 (sub (val current) ''metadata'') ''resourceVersion'')])
        ''Ownership handoff requires live UID and resourceVersion'' (val True))))))))))"

section \<open>The certificate of a plane\<close>

definition version_digit :: "char \<Rightarrow> bool" where
  "version_digit c \<longleftrightarrow> is_digit c \<or> between 97 102 c"

text \<open>The secret that Key Vault returned is the requested one, at a concrete version.\<close>

definition secret_agrees :: "url \<Rightarrow> url \<Rightarrow> unit res" where
  "secret_agrees requested returned =
     check (val (scheme returned = scheme requested \<and> netloc returned = netloc requested \<and> query returned = [] \<and> fragment returned = []))
       ''TLS secret returned from an unexpected Vault'' (
     let expected = split_on CHR ''/'' (path requested); actual = split_on CHR ''/'' (path returned) in
     check (val (length actual = 4 \<and> take 3 actual = take 3 expected \<and> length (actual ! 3) = 32 \<and> list_all version_digit (actual ! 3)))
       ''TLS secret must resolve to the configured secret and a concrete version'' (
     check (val (length expected = 3 \<or> actual = expected)) ''TLS secret version differs from the requested version'' (val ())))"

definition read_certificate :: "json \<Rightarrow> json \<Rightarrow> string \<Rightarrow> ('s, obj) proc" where
  "read_certificate config secret_id host =
     letp (str_of (val secret_id)) (\<lambda>i.
     letp (str_of (subscription_of config)) (\<lambda>s.
     bindp (perform (Command [''az'', ''keyvault'', ''secret'', ''show'', ''--id'', i, ''--subscription'', s,
              ''--only-show-errors'', ''--output'', ''json''])) (\<lambda>r.
     checkp (val (r \<noteq> Failure)) ''Cannot read the configured TLS secret; check private access and Key Vault authorization'' (
     letp (loads r) (\<lambda>secret.
     checkp (is_true (dget0 (dgetO (val secret) ''attributes'') ''enabled'')) ''TLS secret is disabled'' (
     letp (urlsplit i) (\<lambda>requested.
     letp (bindr (sub (val secret) ''id'') urlsplit_value) (\<lambda>returned.
     letp (secret_agrees requested returned) (\<lambda>_.
     bindp (case secret of JObj kv \<Rightarrow> perform (Client ''certificate_material'' [lookup_or kv ''value'' JNull, JStr host])
            | _ \<Rightarrow> failp TypeError) (\<lambda>m.
     case m of
       Json (JObj material) \<Rightarrow> letp (sub (val secret) ''id'') (\<lambda>identifier. retp (dict_set material ''secretId'' identifier))
     | _ \<Rightarrow> failp (MigrationError ''TLS PEM failed certificate, key, hostname or validity checks'')))))))))))"

section \<open>The image\<close>

text \<open>The findings of a scan report, or the reason it is refused.\<close>

definition safe_text :: "json \<Rightarrow> bool" where
  "safe_text v \<longleftrightarrow>
     (case v of JStr s \<Rightarrow> 1 \<le> length s \<and> length s \<le> 200 \<and> CHR 0x0A \<notin> set s \<and> CHR 0x0D \<notin> set s | _ \<Rightarrow> False)"

definition text_or_empty :: "json \<Rightarrow> string" where
  "text_or_empty v = (case v of JStr s \<Rightarrow> s | _ \<Rightarrow> [])"

definition vulnerability_finding :: "json \<Rightarrow> string res" where
  "vulnerability_finding v =
     check (val (is_dict v)) ''Ingress image scan returned an invalid vulnerability'' (
     bindr (dget (val v) ''VulnerabilityID'' (JStr ''unknown'')) (\<lambda>identifier.
     bindr (dget (val v) ''PkgName'' (JStr ''unknown'')) (\<lambda>package.
     bindr (dget (val v) ''InstalledVersion'' (JStr ''unknown'')) (\<lambda>installed.
     bindr (mapr (\<lambda>x. if truth x then x else JStr ''unavailable'') (dget0 (val v) ''FixedVersion'')) (\<lambda>fixed.
     check (val (list_all safe_text [identifier, package, installed, fixed]))
       ''Ingress image scan returned unsafe vulnerability metadata'' (
     val (''vulnerability='' @ text_or_empty identifier @ '' package='' @ text_or_empty package @ '' installed=''
          @ text_or_empty installed @ '' fixed='' @ text_or_empty fixed)))))))"

definition entry_finding :: "string \<Rightarrow> string \<Rightarrow> string \<Rightarrow> json \<Rightarrow> string res" where
  "entry_finding kind key1 key2 entry =
     check (val (is_dict entry)) (''Ingress image scan returned an invalid '' @ kind) (
     bindr (map_res (\<lambda>k. mapr (\<lambda>x. if truth x then x else JStr ''unknown'') (dget0 (val entry) k)) [key1, key2]) (\<lambda>values.
     check (val (list_all safe_text values)) (''Ingress image scan returned unsafe '' @ kind @ '' metadata'') (
     val (kind @ ''='' @ text_or_empty (hd values) @ '' category='' @ text_or_empty (hd (tl values))))))"

definition entries_of :: "json \<Rightarrow> string \<Rightarrow> json list res" where
  "entries_of target key =
     bindr (dget0 (val target) key) (\<lambda>v.
     check (val (\<not> truth v \<or> is_list v)) (''Ingress image scan returned invalid '' @ lower key) (
     if truth v then list_of (val v) else val []))"

definition target_findings :: "json \<Rightarrow> string list res" where
  "target_findings target =
     check (val (is_dict target)) ''Ingress image scan returned an unexpected result'' (
     bindr (bindr (entries_of target ''Vulnerabilities'') (map_res vulnerability_finding)) (\<lambda>vs.
     bindr (bindr (entries_of target ''Secrets'') (map_res (entry_finding ''secret'' ''RuleID'' ''Category''))) (\<lambda>ss.
     bindr (bindr (entries_of target ''Misconfigurations'') (map_res (entry_finding ''misconfiguration'' ''ID'' ''Type''))) (\<lambda>ms.
     val (vs @ ss @ ms)))))"

definition report_findings :: "json \<Rightarrow> string list res" where
  "report_findings report =
     bindr (bindr (list_of (sub (val report) ''Results'')) (map_res target_findings)) (\<lambda>fs. val (List.concat fs))"

text \<open>A scan: the exit code with the report, if the output is one of at most 8 MiB.\<close>

definition scan_verdict :: "int \<Rightarrow> string list \<Rightarrow> unit res" where
  "scan_verdict status findings =
     check (val (findings = []))
       (''Ingress image scan found CRITICAL findings: '' @ join ''; '' (take 20 findings)
          @ (if 20 < length findings then ''; and '' @ show_nat (length findings - 20) @ '' more'' else [])) (
     check (val (status = 0)) ''Ingress image scan failed'' (val ()))"

definition scan_image :: "string \<Rightarrow> ('s, unit) proc" where
  "scan_image source =
     bindp (perform (Client ''trivy image'' [JStr source])) (\<lambda>r.
     thenp (private_write ''ingress-image-scan.stderr.txt'' JNull) (
     case r of
       Json (JList [JInt status, report]) \<Rightarrow>
         checkp (conjr (val (is_dict report)) (testr is_list (dget0 (val report) ''Results'')))
           ''Ingress image scan returned an unexpected report'' (
         thenp (private_write ''ingress-image-scan.json'' report) (
         letp (report_findings report) (\<lambda>findings.
         letp (scan_verdict status findings) (\<lambda>_. retp ()))))
     | _ \<Rightarrow> failp (MigrationError ''Ingress image scan failed'')))"

text \<open>The registry resolves to private addresses only.\<close>

definition all_private :: "json list \<Rightarrow> bool res" where
  "all_private addresses =
     conjr (val (addresses \<noteq> []))
       (all_res (\<lambda>a. bindr (ip_address a) (\<lambda>n. val (list_ex (\<lambda>r. version n = version r \<and> addr_in (base n) r) rfc1918))) addresses)"

definition require_private_registry_dns :: "string \<Rightarrow> ('s, unit) proc" where
  "require_private_registry_dns registry =
     bindp (perform (Client ''getaddrinfo'' [JStr (registry @ ''.azurecr.io''), JInt 443])) (\<lambda>r.
     case r of
       Json (JList addresses) \<Rightarrow>
         checkp (all_private addresses)
           ''ACR login server must resolve only to private endpoint addresses; deploy runner-target-connectivity before private-ingress'' (retp ())
     | _ \<Rightarrow> failp (MigrationError ''Unable to resolve the ACR login server from the private runner''))"

text \<open>\<open>base64.b64encode\<close>: three bytes become four characters of six bits.\<close>

definition base64_digits :: string where
  "base64_digits = ''ABCDEFGHIJKLMNOPQRSTUVWXYZabcdefghijklmnopqrstuvwxyz0123456789+/''"

definition base64_digit :: "nat \<Rightarrow> char" where
  "base64_digit n = base64_digits ! (n mod 64)"

fun base64 :: "nat list \<Rightarrow> string" where
  "base64 [] = []"
| "base64 [a] = [base64_digit (a div 4), base64_digit (a mod 4 * 16), CHR ''='', CHR ''='']"
| "base64 [a, b] = [base64_digit (a div 4), base64_digit (a mod 4 * 16 + b div 16), base64_digit (b mod 16 * 4), CHR ''='']"
| "base64 (a # b # c # r) =
     base64_digit (a div 4) # base64_digit (a mod 4 * 16 + b div 16) # base64_digit (b mod 16 * 4 + c div 64)
       # base64_digit (c mod 64) # base64 r"

text \<open>\<open>s.encode()\<close>: the UTF-8 bytes of code points up to 255.\<close>

definition utf8 :: "string \<Rightarrow> nat list" where
  "utf8 s = List.concat (map (\<lambda>c. let n = of_char c :: nat in if n < 128 then [n] else [192 + n div 64, 128 + n mod 64]) s)"

definition b64 :: "string \<Rightarrow> string" where
  "b64 s = base64 (utf8 s)"

definition promote_image :: "json \<Rightarrow> json \<Rightarrow> ('s, unit) proc" where
  "promote_image config lock =
     letp (fmt (sub (val lock) ''source'')) (\<lambda>lock_source.
     letp (str_of (sub (val lock) ''digest'')) (\<lambda>digest.
     letp (str_of (sub_at (val config) [''parameters'', ''platform'', ''containerRegistryName''])) (\<lambda>registry.
     letp (str_of (sub (val lock) ''repository'')) (\<lambda>repository.
     let source = lock_source @ ''@'' @ digest; target = registry @ ''.azurecr.io/'' @ repository in
     thenp (require_private_registry_dns registry) (
     thenp (scan_image source) (
     bindp (run_command [''syft'', source, ''--platform'', ''linux/amd64'', ''--output'', ''spdx-json=ingress-sbom.spdx.json''] ''ingress-image-sbom'') (\<lambda>_.
     letp (str_of (subscription_of config)) (\<lambda>s.
     bindp (perform (Command [''az'', ''acr'', ''login'', ''--name'', registry, ''--expose-token'', ''--subscription'', s,
              ''--only-show-errors'', ''--output'', ''json''])) (\<lambda>token.
     checkp (val (token \<noteq> Failure)) ''Unable to obtain scoped ACR login token'' (
     letp (loads token) (\<lambda>credentials.
     letp (str_of (sub (val credentials) ''loginServer'')) (\<lambda>server.
     checkp (val (lower server = lower (registry @ ''.azurecr.io''))) ''Unexpected ACR login server'' (
     letp (str_of (sub (val credentials) ''accessToken'')) (\<lambda>access.
     thenp (private_write ''registry-auth.json'' (JObj [(''auths'', JObj [(server, JObj
              [(''auth'', JStr (b64 (''00000000-0000-0000-0000-000000000000:'' @ access)))])])])) (
     finallyp
       (letp (case split_on CHR '':'' digest of _ # d # _ \<Rightarrow> val d | _ \<Rightarrow> Inl IndexError) (\<lambda>tag.
        bindp (run_command [''skopeo'', ''copy'', ''--all'', ''--preserve-digests'', ''--authfile'', ''registry-auth.json'',
                 ''docker://'' @ source, ''docker://'' @ target @ '':sha256-'' @ tag] ''ingress-image-copy'') (\<lambda>_.
        bindp (az_scoped config [''acr'', ''repository'', ''show'', ''--name'', registry, ''--image'', repository @ ''@'' @ digest,
                 ''--query'', ''digest'']) (\<lambda>shown.
        checkp (val (shown = JStr digest)) ''Promoted ingress image digest mismatch'' (retp ())))))
       (bindp (perform (Client ''unlink'' [JStr ''registry-auth.json''])) (\<lambda>_. retp ())))))))))))))))))"

section \<open>Probes of a gateway\<close>

record probe =
  p_method :: string
  p_path :: string
  p_host :: string
  p_statuses :: "int list"
  p_identifier :: "string option"
  p_body :: string
  p_label :: string

text \<open>One request over TLS to the address; the reply is the digest of the served certificate and the
  status of the answer.\<close>

definition send_probe :: "string \<Rightarrow> string \<Rightarrow> string \<Rightarrow> probe \<Rightarrow> ('s, unit) proc" where
  "send_probe address host sha256 p =
     bindp (perform (Client ''ingress probe'' [JStr address, JStr host, JStr (p_method p), JStr (p_path p), JStr (p_host p),
              (case p_identifier p of None \<Rightarrow> JNull | Some i \<Rightarrow> if i = [] then JNull else JStr i), JStr (p_body p)])) (\<lambda>r.
     case r of
       Json (JList [JStr served, JInt got]) \<Rightarrow>
         checkp (val (served = sha256)) ''Ingress served an unexpected TLS certificate'' (
         checkp (val (got \<in> set (p_statuses p))) (''ingress '' @ p_label p @ '' verification failed for '' @ p_path p) (retp ()))
     | _ \<Rightarrow> failp (OSError ''connection failed''))"

definition simple_probe :: "string \<Rightarrow> string \<Rightarrow> int list \<Rightarrow> string option \<Rightarrow> probe" where
  "simple_probe at host statuses identifier =
     \<lparr>p_method = ''GET'', p_path = at, p_host = host, p_statuses = statuses, p_identifier = identifier, p_body = [], p_label = ''route''\<rparr>"

definition wrong_front_door :: "string \<Rightarrow> string res" where
  "wrong_front_door identifier =
     bindr (uuid_of_string identifier) (\<lambda>i.
     val (if i = 1 then ''00000000-0000-0000-0000-000000000002'' else ''00000000-0000-0000-0000-000000000001''))"

text \<open>The probes of a bound route: without, with a wrong and with the right Front Door header.\<close>

definition bound_probes :: "string \<Rightarrow> string \<Rightarrow> string \<Rightarrow> string \<Rightarrow> probe list" where
  "bound_probes plane host identifier wrong =
     (let route = \<lparr>p_method = (if plane = ''api'' then ''POST'' else ''GET''),
                   p_path = (if plane = ''api'' then ''/v1/responses'' else ''/fallback/login''), p_host = host,
                   p_statuses = [404], p_identifier = None, p_body = (if plane = ''api'' then ''{}'' else []),
                   p_label = ''missing-FDID rejection''\<rparr>
      in [route, route\<lparr>p_identifier := Some wrong, p_label := ''wrong-FDID rejection''\<rparr>,
          route\<lparr>p_identifier := Some identifier, p_statuses := (if plane = ''api'' then [401, 403] else [200]),
                p_label := ''bound route''\<rparr>])"

definition ingress_probes :: "string \<Rightarrow> string \<Rightarrow> bool \<Rightarrow> string \<Rightarrow> string option \<Rightarrow> probe list res" where
  "ingress_probes host other_host native plane identifier =
     (let other = (simple_probe ''/'' other_host [404, 421] identifier)\<lparr>p_label := ''other-host rejection''\<rparr> in
      if \<not> native then val [other]
      else
      check (val (plane \<in> {''api'', ''admin''})) ''Native ingress verification requires an explicit plane'' (
      let api = (if plane = ''api'' then [simple_probe ''/readyz'' host [200] None, simple_probe ''/fallback/login'' host [404] identifier]
                 else []) in
      case identifier of
        None \<Rightarrow> val (other # api @ (if plane = ''admin'' then [simple_probe ''/fallback/login'' host [200] None] else []))
      | Some i \<Rightarrow> bindr (wrong_front_door i) (\<lambda>wrong. val (other # api @ bound_probes plane host i wrong))))"

definition FRONT_DOOR_ID :: rx where
  "FRONT_DOOR_ID =
     cat [times 8 8 hex_any, times 3 3 (Seq (chr CHR ''-'') (times 4 4 hex_any)), chr CHR ''-'', times 12 12 hex_any]"

definition verify_endpoint ::
    "json \<Rightarrow> string \<Rightarrow> string \<Rightarrow> json \<Rightarrow> bool \<Rightarrow> string \<Rightarrow> string option \<Rightarrow> ('s, unit) proc" where
  "verify_endpoint address host other_host sha256 native plane identifier =
     checkp (val (identifier = None \<or> native)) ''Front Door probes require native ingress'' (
     checkp (case identifier of None \<Rightarrow> val True
             | Some i \<Rightarrow> conjr (val (rmatch FRONT_DOOR_ID i)) (mapr (\<lambda>n. n \<noteq> 0) (uuid_of_string i)))
       ''Invalid Front Door identity for ingress verification'' (
     letp (str_of (val address)) (\<lambda>a.
     letp (str_of (val sha256)) (\<lambda>digest.
     letp (ingress_probes host other_host native plane identifier) (\<lambda>probes.
     eachp (send_probe a host digest) probes)))))"

text \<open>The load balancer frontend of a private address in the approved subnet.\<close>

definition ingress_subnet_id :: "json \<Rightarrow> json \<Rightarrow> string res" where
  "ingress_subnet_id config network =
     bindr (group_id config False) (\<lambda>g.
     bindr (str_of (sub (val network) ''virtualNetworkName'')) (\<lambda>vnet.
     bindr (str_of (sub (val network) ''ingressSubnetName'')) (\<lambda>subnet.
     val (g @ ''/providers/Microsoft.Network/virtualNetworks/'' @ vnet @ ''/subnets/'' @ subnet))))"

definition frontend_of :: "string \<Rightarrow> json \<Rightarrow> json \<Rightarrow> bool res" where
  "frontend_of subnet address frontend =
     allr [eqr (dget0 (val frontend) ''privateIPAddress'') (val address),
           negr (testr truth (dget0 (val frontend) ''publicIPAddress'')),
           lower_is (dgetO (val frontend) ''subnet'') ''id'' subnet]"

definition candidate_frontends :: "json \<Rightarrow> string \<Rightarrow> json \<Rightarrow> json \<Rightarrow> json list res" where
  "candidate_frontends node_group subnet address candidate =
     bindr (eqs (get_at (val candidate) [''sku'', ''name'']) ''Standard'') (\<lambda>standard.
     if \<not> standard then val []
     else
     bindr (iter (dget (val candidate) ''frontendIPConfigurations'' (JList []))) (\<lambda>frontends.
     bindr (filter_res (frontend_of subnet address) frontends) (\<lambda>found.
     map_res (\<lambda>frontend. bindr (sub (val candidate) ''name'') (\<lambda>name. bindr (sub (val frontend) ''name'') (\<lambda>frontend_name.
       val (JObj [(''resourceGroupName'', node_group), (''name'', name), (''frontendName'', frontend_name),
                  (''privateIpAddress'', address)])))) found)))"

definition frontend_for :: "json \<Rightarrow> json \<Rightarrow> json \<Rightarrow> ('s, json) proc" where
  "frontend_for config node_group address =
     letp (sub_at (val config) [''parameters'', ''platform'', ''stage4Network'']) (\<lambda>network.
     letp (ingress_subnet_id config network) (\<lambda>subnet.
     letp (str_of (val node_group)) (\<lambda>g.
     bindp (az_scoped config [''network'', ''lb'', ''list'', ''--resource-group'', g]) (\<lambda>listed.
     letp (bindr (iter (val listed)) (map_res (candidate_frontends node_group subnet address))) (\<lambda>found.
     let matches = List.concat found in
     checkp (val (length matches = 1))
       ''Private ingress IP must map to exactly one Standard LB frontend in the approved ingress subnet'' (
     retp (hd matches)))))))"

section \<open>Observation\<close>

definition slice_observation :: "json \<Rightarrow> (json \<times> nat) res" where
  "slice_observation item =
     bindr (dget (val item) ''endpoints'' (JList [])) (\<lambda>endpoints.
     check (val (is_list endpoints)) ''EndpointSlice observation returned invalid endpoints'' (
     bindr (list_of (val endpoints)) (\<lambda>es.
     bindr (map_res (\<lambda>e. bindr (dgetO (val e) ''conditions'') (\<lambda>conditions.
              bindr (dget0 (val conditions) ''ready'') (\<lambda>ready.
              bindr (dget0 (val e) ''nodeName'') (\<lambda>node.
              val (JObj [(''nodeName'', node), (''conditions'', conditions)], ready \<noteq> JBool False))))) (take 50 es)) (\<lambda>observed.
     bindr (get_at (val item) [''metadata'', ''name'']) (\<lambda>name.
     bindr (dget0 (val item) ''addressType'') (\<lambda>kind.
     bindr (dget (val item) ''ports'' (JList [])) (\<lambda>ports.
     val (JObj [(''name'', name), (''addressType'', kind), (''ports'', ports), (''endpoints'', JList (map fst observed))],
          length (filter snd observed)))))))))"

definition event_fields :: "string list" where
  "event_fields = [''type'', ''reason'', ''count'', ''firstTimestamp'', ''lastTimestamp'', ''eventTime'']"

definition event_observation :: "json \<Rightarrow> json res" where
  "event_observation item =
     bindr (dget0 (val item) ''message'') (\<lambda>message.
     bindr (map_res (\<lambda>k. bindr (dget0 (val item) k) (\<lambda>v. val (k, v))) event_fields) (\<lambda>taken.
     bindr (get_at (val item) [''source'', ''component'']) (\<lambda>component.
     val (JObj (taken @ [(''sourceComponent'', component),
       (''message'', (case message of JStr s \<Rightarrow> JStr (take 2000 s) | _ \<Rightarrow> JNull))])))))"

definition last_items :: "nat \<Rightarrow> 'a list \<Rightarrow> 'a list" where
  "last_items n xs = drop (length xs - n) xs"

definition observation_of :: "json \<Rightarrow> json \<Rightarrow> json \<Rightarrow> obj res" where
  "observation_of slices events service =
     check (conjr (val (is_dict slices)) (testr is_list (dget0 (val slices) ''items'')))
       ''EndpointSlice observation returned an unexpected response'' (
     check (conjr (val (is_dict events)) (testr is_list (dget0 (val events) ''items'')))
       ''Service event observation returned an unexpected response'' (
     bindr (list_of (sub (val slices) ''items'')) (\<lambda>ss.
     bindr (map_res slice_observation (take 20 ss)) (\<lambda>observed.
     bindr (list_of (sub (val events) ''items'')) (\<lambda>es.
     bindr (map_res event_observation (last_items 20 es)) (\<lambda>observed_events.
     let s = (if truth service then service else JObj []) in
     bindr (dgetO (dgetO (val s) ''status'') ''loadBalancer'') (\<lambda>balancer.
     bindr (dget (val balancer) ''ingress'' (JList [])) (\<lambda>ingress.
     bindr (get_at (val s) [''metadata'', ''uid'']) (\<lambda>uid.
     bindr (get_at (val s) [''metadata'', ''resourceVersion'']) (\<lambda>resource_version.
     val [(''serviceExists'', JBool (service \<noteq> JNull)), (''serviceUid'', uid), (''serviceResourceVersion'', resource_version),
          (''loadBalancerStatus'', balancer),
          (''loadBalancerIngressCount'', JInt (case ingress of JList xs \<Rightarrow> int (length xs) | _ \<Rightarrow> 0)),
          (''readyEndpointCount'', JInt (int (sum_list (map snd observed)))),
          (''endpointSlices'', JList (map fst observed)), (''events'', JList observed_events)]))))))))))"

definition ingress_observation :: "string list \<Rightarrow> string \<Rightarrow> json \<Rightarrow> ('s, obj) proc" where
  "ingress_observation scoped namespace service =
     bindp (run_command (scoped @ [''get'', ''endpointslices.discovery.k8s.io'', ''--selector'',
              ''kubernetes.io/service-name='' @ namespace, ''-o'', ''json'']) (''endpoint-slices-'' @ namespace)) (\<lambda>slices_output.
     letp (loads slices_output) (\<lambda>slices.
     bindp (run_command (scoped @ [''get'', ''events'', ''--field-selector'',
              ''involvedObject.kind=Service,involvedObject.name='' @ namespace, ''-o'', ''json'']) (''service-events-'' @ namespace)) (\<lambda>events_output.
     letp (loads events_output) (\<lambda>events.
     letp (observation_of slices events service) retp))))"

section \<open>The stored gateway and its backend evidence\<close>

definition shown_deployment :: "sha \<Rightarrow> json \<Rightarrow> int \<Rightarrow> string \<Rightarrow> string \<Rightarrow> ('s, json) proc" where
  "shown_deployment sha config stage component projection =
     letp (str_of (target_group config)) (\<lambda>rgroup.
     letp (deployment_name sha config stage component) (\<lambda>name.
     deployment_outputs config rgroup name projection))"

definition deployed_private_ingress :: "sha \<Rightarrow> json \<Rightarrow> ('s, json) proc" where
  "deployed_private_ingress sha config =
     bindp (shown_deployment sha config 4 ''private-ingress''
              ''{state:properties.provisioningState,ingress:properties.outputs.privateIngress.value}'') (\<lambda>result.
     letp (dgetO (val result) ''ingress'') (\<lambda>ingress.
     checkp (allr [eqs (dget0 (val result) ''state'') ''Succeeded'',
                   bindr (dget0 (val ingress) ''configSha256'') (\<lambda>stored.
                   bindr (stage_fingerprint sha config 4) (\<lambda>now. val (stored = JStr now)))])
       ''Deploy the current Stage 4 private ingress before verifying backend routes'' (retp ingress)))"

definition other_plane :: "string \<Rightarrow> string" where
  "other_plane plane = (if plane = ''api'' then ''admin'' else ''api'')"

definition plane_receipt :: "json \<Rightarrow> net \<Rightarrow> string \<Rightarrow> (json \<times> json) res" where
  "plane_receipt ingress network plane =
     bindr (dget0 (dgetO (val ingress) plane) ''privateIpAddress'') (\<lambda>address.
     bindr (dget0 (dgetO (dgetO (val ingress) ''certificates'') plane) ''sha256'') (\<lambda>digest.
     check (allr [val (is_str address),
                  bindr (ip_address address) (\<lambda>a. val (version a = version network \<and> addr_in (base a) network)),
                  fullmatch SHA256 (val (if truth digest then digest else JStr []))])
       ''Stage 4 private ingress receipt is incomplete'' (val (address, digest))))"

definition verify_plane :: "json \<Rightarrow> json \<Rightarrow> net \<Rightarrow> string option \<Rightarrow> string \<Rightarrow> ('s, json) proc" where
  "verify_plane config ingress network identifier plane =
     letp (plane_receipt ingress network plane) (\<lambda>(address, digest).
     letp (host_of config plane) (\<lambda>host.
     letp (host_of config (other_plane plane)) (\<lambda>other_host.
     thenp (verify_endpoint address host other_host digest True plane identifier) (retp address))))"

definition verify_native_ingress_routes :: "json \<Rightarrow> json \<Rightarrow> string option \<Rightarrow> ('s, json) proc" where
  "verify_native_ingress_routes config ingress identifier =
     checkp (allr [eqs (dget0 (val ingress) ''authenticationMode'') ''native'', is_false (dget0 (val ingress) ''backendRoutesVerified'')])
       ''Backend route verification applies only to the initial native private ingress'' (
     letp (host_of config ''api'') (\<lambda>_.
     letp (bindr (sub_at (val config) [''parameters'', ''platform'', ''stage4Network'', ''ingressSubnetPrefix'']) (ip_network True)) (\<lambda>network.
     bindp (mapp (verify_plane config ingress network identifier) [''api'', ''admin'']) (\<lambda>addresses.
     checkp (val (distinct addresses)) ''API/admin must not share an ingress frontend'' (retp ingress)))))"

definition outputs_template :: "string \<Rightarrow> obj \<Rightarrow> json" where
  "outputs_template name value =
     JObj [(''$schema'', JStr ''https://schema.management.azure.com/schemas/2019-04-01/deploymentTemplate.json#''),
           (''contentVersion'', JStr ''1.0.0.0''), (''resources'', JList []),
           (''outputs'', JObj [(name, JObj [(''type'', JStr ''object''), (''value'', JObj value)])])]"

definition save_outputs :: "sha \<Rightarrow> json \<Rightarrow> int \<Rightarrow> string \<Rightarrow> string \<Rightarrow> json \<Rightarrow> string \<Rightarrow> ('s, unit) proc" where
  "save_outputs sha config stage component file document msg =
     thenp (private_write file document) (
     letp (str_of (target_group config)) (\<lambda>rgroup.
     letp (deployment_name sha config stage component) (\<lambda>name.
     bindp (az_scoped config [''deployment'', ''group'', ''create'', ''--resource-group'', rgroup, ''--name'', name,
              ''--mode'', ''Incremental'', ''--template-file'', file]) (\<lambda>saved.
     checkp (eqs (get_at (val saved) [''properties'', ''provisioningState'']) ''Succeeded'') msg (retp ())))))"

definition verify_private_ingress_backends :: "sha \<Rightarrow> json \<Rightarrow> json \<Rightarrow> string \<Rightarrow> ('s, obj) proc" where
  "verify_private_ingress_backends sha config revision now =
     bindp (deployed_private_ingress sha config) (\<lambda>stored.
     bindp (verify_native_ingress_routes config stored None) (\<lambda>ingress.
     letp (stage_fingerprint sha config 6) (\<lambda>config_hash.
     let verification = [(''revision'', revision), (''configSha256'', JStr config_hash),
           (''privateIngressSha256'', JStr (fingerprint sha ingress)), (''authenticationMode'', JStr ''native''),
           (''backendRoutesVerified'', JBool True), (''verifiedAt'', JStr now)] in
     thenp (save_outputs sha config 6 ''private-ingress-backend'' ''ingress-backend-receipt-template.json''
              (outputs_template ''privateIngressBackend'' verification)
              ''Private ingress backend routes passed, but saving verification evidence failed'') (
     retp verification))))"

definition require_private_ingress_backends :: "sha \<Rightarrow> json \<Rightarrow> string option \<Rightarrow> ('s, unit) proc" where
  "require_private_ingress_backends sha config identifier =
     bindp (deployed_private_ingress sha config) (\<lambda>ingress.
     bindp (shown_deployment sha config 6 ''private-ingress-backend''
              ''{state:properties.provisioningState,verification:properties.outputs.privateIngressBackend.value}'') (\<lambda>result.
     letp (dgetO (val result) ''verification'') (\<lambda>verification.
     letp (stage_fingerprint sha config 6) (\<lambda>config_hash.
     checkp (allr [eqs (dget0 (val result) ''state'') ''Succeeded'',
                   fullmatch (times 40 40 hexlow) (dget (val verification) ''revision'' (JStr [])),
                   eqs (dget0 (val verification) ''configSha256'') config_hash,
                   eqs (dget0 (val verification) ''authenticationMode'') ''native'',
                   eqr (dget0 (val verification) ''backendRoutesVerified'') (val (JBool True))])
       ''Verify the current native private ingress against the Stage 6 backend before enabling traffic'' (
     bindp (verify_native_ingress_routes config ingress identifier) (\<lambda>_. retp ()))))))"

section \<open>Deploying the gateways\<close>

text \<open>A gateway of a plane as the plan has it: the documents, those that are applied together and
  those that are handed over one by one, with the live objects they replace.\<close>

record gateway =
  g_plane :: string
  g_material :: obj
  g_documents :: "json list"
  g_ordinary :: "json list"
  g_handoffs :: "(string \<times> string) list"
  g_before :: "json list"
  g_service :: json
  g_observed :: obj

text \<open>The pod of a rendered workload names the certificate it serves.\<close>

definition tls_secret_name :: "string \<Rightarrow> string \<Rightarrow> string" where
  "tls_secret_name plane sha256 = ingress_name plane @ ''-tls-'' @ take 16 sha256"

definition annotate_certificate :: "json \<Rightarrow> json \<Rightarrow> json res" where
  "annotate_certificate digest metadata =
     bindr (items (val metadata)) (\<lambda>kv.
     bindr (items (val (lookup_or kv ''annotations'' (JObj [])))) (\<lambda>as.
     val (JObj (dict_set kv ''annotations'' (JObj (dict_set as ''llmgw/certificate-sha256'' digest))))))"

definition name_secret :: "string \<Rightarrow> json \<Rightarrow> json res" where
  "name_secret name volumes =
     bindr (list_of (val volumes)) (\<lambda>vs.
     if length vs < 2 then Inl IndexError
     else bindr (update_in [''secret''] (\<lambda>s. bindr (items (val s)) (\<lambda>kv. val (JObj (dict_set kv ''secretName'' (JStr name))))) (vs ! 1)) (\<lambda>v.
          val (JList (vs[1 := v]))))"

definition with_certificate :: "string \<Rightarrow> obj \<Rightarrow> json \<Rightarrow> json res" where
  "with_certificate plane material document =
     bindr (eqs (sub (val document) ''kind'') ''Deployment'') (\<lambda>workload.
     if \<not> workload then val document
     else bindr (str_of (sub (val (JObj material)) ''sha256'')) (\<lambda>digest.
          bindr (update_in [''spec'', ''template'', ''metadata''] (annotate_certificate (JStr digest)) document) (\<lambda>annotated.
          update_in [''spec'', ''template'', ''spec'', ''volumes''] (name_secret (tls_secret_name plane digest)) annotated)))"

text \<open>\<open>json.loads(output or "null")\<close>\<close>

definition loads_or_null :: "reply \<Rightarrow> json res" where
  "loads_or_null r = (if r = Text [] then val JNull else loads r)"

definition get_live :: "string list \<Rightarrow> string \<Rightarrow> string \<Rightarrow> string \<Rightarrow> ('s, json) proc" where
  "get_live scoped kind name label =
     bindp (run_command (scoped @ [''get'', kind, name, ''--ignore-not-found'', ''--show-managed-fields'', ''-o'', ''json'']) label)
       (\<lambda>output. letp (loads_or_null output) retp)"

definition untimed :: "json \<Rightarrow> json res" where
  "untimed entry = bindr (items (val entry)) (\<lambda>kv. val (JObj (filter (\<lambda>(k, v). k \<noteq> ''time'') kv)))"

definition before_record :: "json \<Rightarrow> json res" where
  "before_record current =
     (if \<not> truth current then val JNull
      else
      bindr (sub (val current) ''metadata'') (\<lambda>metadata.
      check (eqs (dget0 (dgetO (val metadata) ''labels'') ''app.kubernetes.io/managed-by'') ''llmgw-workflow'')
        ''Refusing to adopt an existing unmanaged ingress object'' (
      bindr (sub (val metadata) ''uid'') (\<lambda>uid.
      bindr (dget0 (val current) ''spec'') (\<lambda>spec.
      bindr (dget0 (val current) ''data'') (\<lambda>data.
      bindr (dget0 (val metadata) ''labels'') (\<lambda>labels.
      bindr (dget0 (val metadata) ''annotations'') (\<lambda>annotations.
      bindr (bindr (iter (dget (val metadata) ''managedFields'' (JList []))) (map_res untimed)) (\<lambda>managed.
      val (JObj [(''uid'', uid), (''spec'', spec), (''data'', data), (''labels'', labels), (''annotations'', annotations),
        (''managedFields'', JList managed)]))))))))))"

definition handoff_payload :: "json \<Rightarrow> json \<Rightarrow> json res" where
  "handoff_payload document current =
     bindr (sub_at (val current) [''metadata'', ''uid'']) (\<lambda>uid.
     bindr (sub_at (val current) [''metadata'', ''resourceVersion'']) (\<lambda>resource_version.
     update_in [''metadata''] (\<lambda>m. bindr (items (val m)) (\<lambda>kv.
       val (JObj (dict_update kv [(''uid'', uid), (''resourceVersion'', resource_version)])))) document))"

definition apply_arguments :: "bool \<Rightarrow> bool \<Rightarrow> string \<Rightarrow> string list" where
  "apply_arguments forced dry file =
     [''apply'', ''--server-side'', ''--field-manager=llmgw-ingress''] @ (if forced then [''--force-conflicts''] else [])
     @ (if dry then [''--dry-run=server''] else []) @ [''-f'', file]"

definition scoped_to :: "string list \<Rightarrow> string \<Rightarrow> string list" where
  "scoped_to kube plane = kube @ [''--namespace'', ingress_name plane]"

definition plan_document ::
    "ydump \<Rightarrow> string list \<Rightarrow> bool \<Rightarrow> json \<Rightarrow> json \<Rightarrow> gateway \<Rightarrow> ('s, gateway) proc" where
  "plan_document ydump kube native preserved document g =
     letp (with_certificate (g_plane g) (g_material g) document) (\<lambda>document.
     letp (str_of (sub (val document) ''kind'')) (\<lambda>kind.
     letp (str_of (sub_at (val document) [''metadata'', ''name''])) (\<lambda>name.
     bindp (if kind = ''ConfigMap'' \<and> preserved \<noteq> JNull then retp preserved
            else get_live (scoped_to kube (g_plane g)) kind name (''before-'' @ g_plane g @ ''-'' @ kind)) (\<lambda>current.
     letp (before_record current) (\<lambda>before.
     let g = g\<lparr>g_documents := g_documents g @ [document], g_before := g_before g @ [before],
               g_service := (if kind = ''Service'' then current else g_service g)\<rparr> in
     letp (ingress_ownership_handoff document current native) (\<lambda>handed.
     if \<not> handed then retp (g\<lparr>g_ordinary := g_ordinary g @ [document]\<rparr>)
     else
     letp (handoff_payload document current) (\<lambda>payload.
     let file = ''ownership-'' @ g_plane g @ ''-'' @ kind @ ''.yaml'' in
     thenp (private_write file (JStr (ydump payload))) (
     bindp (run_command (scoped_to kube (g_plane g) @ apply_arguments True True file)
              (''dry-run-ownership-'' @ g_plane g @ ''-'' @ kind)) (\<lambda>_.
     retp (g\<lparr>g_handoffs := g_handoffs g @ [(file, ''ownership-apply-ownership-'' @ g_plane g @ ''-'' @ kind)]\<rparr>))))))))))"

definition manifest_file :: "string \<Rightarrow> string" where
  "manifest_file plane = ''ingress-'' @ plane @ ''.yaml''"

definition rendered_documents :: "sha \<Rightarrow> yload \<Rightarrow> ydump \<Rightarrow> json \<Rightarrow> bool \<Rightarrow> string \<Rightarrow> string \<Rightarrow> json \<Rightarrow> json \<Rightarrow> json list res" where
  "rendered_documents sha yload ydump config native plane img settings preserved =
     bindr (iter (sub_at (val settings) [plane, ''allowedCidrs''])) (\<lambda>ranges.
     bindr (render_ingress ydump config plane img ranges) (\<lambda>rendered.
     bindr (filter_res (\<lambda>d. negr (eqs (sub (val d) ''kind'') ''Namespace'')) rendered) (\<lambda>documents.
     if native then preserve_native_front_door_binding sha yload ydump config documents preserved else val documents)))"

definition plan_gateway ::
    "sha \<Rightarrow> yload \<Rightarrow> ydump \<Rightarrow> (json list \<Rightarrow> string) \<Rightarrow> json \<Rightarrow> bool \<Rightarrow> string \<Rightarrow> json \<Rightarrow> string list \<Rightarrow> string \<Rightarrow> ('s, gateway) proc" where
  "plan_gateway sha yload ydump ydumps config native img settings kube plane =
     (let name = ingress_name plane; scoped = scoped_to kube plane; chain = plane @ ''-chain.pem'' in
     bindp (run_command (scoped @ [''get'', ''namespace'', name, ''-o'', ''name'']) (''namespace-'' @ plane)) (\<lambda>_.
     letp (sub_at (val settings) [plane, ''tlsSecretId'']) (\<lambda>secret_id.
     letp (host_of config plane) (\<lambda>host.
     bindp (read_certificate config secret_id host) (\<lambda>material.
     letp (sub (val (JObj material)) ''certificate'') (\<lambda>certificate.
     thenp (private_write chain certificate) (
     bindp (run_command [''openssl'', ''verify'', ''-CAfile'', ''cacert.pem'', ''-purpose'', ''sslserver'', ''-verify_hostname'', host,
              ''-untrusted'', chain, chain] (''certificate-trust-'' @ plane)) (\<lambda>_.
     bindp (if native then get_live scoped ''ConfigMap'' name (''before-binding-'' @ plane @ ''-configmap'') else retp JNull) (\<lambda>preserved.
     letp (rendered_documents sha yload ydump config native plane img settings preserved) (\<lambda>documents.
     bindp (foldp (plan_document ydump kube native preserved) documents
              \<lparr>g_plane = plane, g_material = material, g_documents = [], g_ordinary = [], g_handoffs = [], g_before = [],
               g_service = JNull, g_observed = []\<rparr>) (\<lambda>g.
     thenp (private_write (manifest_file plane) (JStr (ydumps (g_ordinary g)))) (
     bindp (run_command (scoped @ apply_arguments False True (manifest_file plane)) (''dry-run-'' @ plane)) (\<lambda>_.
     bindp (ingress_observation scoped name (g_service g)) (\<lambda>observed.
     retp (g\<lparr>g_observed := observed\<rparr>)))))))))))))))"

definition public_certificate :: "gateway \<Rightarrow> (string \<times> json) res" where
  "public_certificate g =
     bindr (pick [''sha256'', ''expiresAt'', ''secretId''] (g_material g)) (\<lambda>kv. val (g_plane g, JObj kv))"

definition public_observation :: "gateway \<Rightarrow> (string \<times> json) res" where
  "public_observation g =
     (let seen = g_observed g; events = (case lookup_or seen ''events'' (JList []) of JList es \<Rightarrow> es | _ \<Rightarrow> []) in
      bindr (map_res (\<lambda>e. dget0 (val e) ''reason'') events) (\<lambda>reasons.
      val (g_plane g, JObj [(''serviceExists'', lookup_or seen ''serviceExists'' JNull),
        (''loadBalancerIngressCount'', lookup_or seen ''loadBalancerIngressCount'' JNull),
        (''readyEndpointCount'', lookup_or seen ''readyEndpointCount'' JNull),
        (''eventReasons'', strs (sort (remdups (map text_or_empty (filter is_str reasons)))))])))"

definition public_handoffs :: "gateway \<Rightarrow> string \<times> json" where
  "public_handoffs g = (g_plane g, strs (map fst (g_handoffs g)))"

record ingress_plan =
  ip_kube :: "string list"
  ip_image :: string
  ip_mode :: json
  ip_lock :: json
  ip_cluster :: json
  ip_subnet :: json
  ip_gateways :: "gateway list"
  ip_certificates :: obj
  ip_contract :: json
  ip_summary :: obj

definition authentication_mode :: "json \<Rightarrow> json res" where
  "authentication_mode config =
     bindr (has (val config) ''application'') (\<lambda>present.
     if present then bindr (application_authentication config) (\<lambda>a. sub (val a) ''mode'') else val (JStr ''entra''))"

definition ingress_contract :: "sha \<Rightarrow> json \<Rightarrow> json \<Rightarrow> json \<Rightarrow> json \<Rightarrow> gateway list \<Rightarrow> obj \<Rightarrow> json res" where
  "ingress_contract sha config revision cluster subnet gateways certificates =
     bindr (stage_fingerprint sha config 4) (\<lambda>config_hash.
     val (JObj [(''stage'', JInt 4), (''action'', JStr ''private-ingress''), (''revision'', revision), (''configSha256'', JStr config_hash),
       (''cluster'', cluster), (''subnet'', subnet),
       (''documents'', JObj (map (\<lambda>g. (g_plane g, JList (g_documents g))) gateways)), (''certificates'', JObj certificates),
       (''before'', JList (List.concat (map g_before gateways))),
       (''legacyOwnershipHandoffs'', JObj (map public_handoffs gateways))]))"

definition show_cluster :: "json \<Rightarrow> ('s, json) proc" where
  "show_cluster config =
     letp (str_of (target_group config)) (\<lambda>rgroup.
     letp (str_of (sub_at (val config) [''parameters'', ''platform'', ''stage4Aks'', ''name''])) (\<lambda>name.
     bindp (az_scoped config [''aks'', ''show'', ''--resource-group'', rgroup, ''--name'', name, ''--query'',
              ''{id:id,nodeResourceGroup:nodeResourceGroup,private:apiServerAccessProfile.enablePrivateCluster}'']) (\<lambda>cluster.
     checkp (is_true (dget0 (val cluster) ''private'')) ''Managed ingress requires the target Private AKS'' (retp cluster))))"

definition show_ingress_subnet :: "json \<Rightarrow> ('s, json) proc" where
  "show_ingress_subnet config =
     letp (sub_at (val config) [''parameters'', ''platform'', ''stage4Network'']) (\<lambda>network.
     letp (str_of (target_group config)) (\<lambda>rgroup.
     letp (str_of (sub (val network) ''virtualNetworkName'')) (\<lambda>vnet.
     letp (str_of (sub (val network) ''ingressSubnetName'')) (\<lambda>name.
     bindp (az_scoped config [''network'', ''vnet'', ''subnet'', ''show'', ''--resource-group'', rgroup, ''--vnet-name'', vnet,
              ''--name'', name, ''--query'', ''{prefix:addressPrefix,plsPolicy:privateLinkServiceNetworkPolicies}'']) (\<lambda>subnet.
     checkp (eqs (dget0 (val subnet) ''plsPolicy'') ''Disabled'') ''Ingress subnet must permit Private Link Service before deployment'' (
     checkp (eqr (sub (val subnet) ''prefix'') (sub (val network) ''ingressSubnetPrefix''))
       ''Deployed ingress subnet differs from configuration'' (retp subnet)))))))"

definition ingress_prepare ::
    "sha \<Rightarrow> yload \<Rightarrow> ydump \<Rightarrow> (json list \<Rightarrow> string) \<Rightarrow> json \<Rightarrow> json \<Rightarrow> json \<Rightarrow> ('s, ingress_plan) proc" where
  "ingress_prepare sha yload ydump ydumps lock config revision =
     letp (ingress_settings config) (\<lambda>settings.
     letp (authentication_mode config) (\<lambda>mode.
     letp (ingress_image lock config) (\<lambda>img.
     letp (host_of config ''api'') (\<lambda>_.
     bindp (connect_cluster config False) (\<lambda>kube.
     bindp (show_cluster config) (\<lambda>cluster.
     bindp (show_ingress_subnet config) (\<lambda>subnet.
     bindp (mapp (plan_gateway sha yload ydump ydumps config (mode = JStr ''native'') img settings kube) [''api'', ''admin'']) (\<lambda>gateways.
     letp (map_res public_certificate gateways) (\<lambda>certificates.
     letp (ingress_contract sha config revision cluster subnet gateways certificates) (\<lambda>contract.
     letp (map_res public_observation gateways) (\<lambda>observed.
     let handoffs = JObj (map public_handoffs gateways);
         summary = [(''stage'', JInt 4), (''action'', JStr ''private-ingress''), (''planSha256'', JStr (fingerprint sha contract)),
           (''stageAccepted'', JBool False), (''ingressObservation'', JObj observed), (''legacyOwnershipHandoffs'', handoffs)] in
     thenp (private_write ''runtime-summary.json'' (JObj summary)) (
     thenp (private_write ''runtime-review.json'' (JObj ((''planSha256'', JStr (fingerprint sha contract))
              # (case contract of JObj kv \<Rightarrow> kv | _ \<Rightarrow> []) @
              [(''currentIngressObservationNotPlanBound'', JObj (map (\<lambda>g. (g_plane g, JObj (g_observed g))) gateways))]))) (
     retp \<lparr>ip_kube = kube, ip_image = img, ip_mode = mode, ip_lock = lock, ip_cluster = cluster, ip_subnet = subnet,
           ip_gateways = gateways, ip_certificates = certificates, ip_contract = contract, ip_summary = summary\<rparr>)))))))))))))"

text \<open>The TLS secret of a plane: written to a file, applied, and removed from the disk whatever happens.\<close>

definition tls_secret :: "gateway \<Rightarrow> json res" where
  "tls_secret g =
     bindr (str_of (sub (val (JObj (g_material g))) ''sha256'')) (\<lambda>digest.
     bindr (str_of (sub (val (JObj (g_material g))) ''certificate'')) (\<lambda>certificate.
     bindr (str_of (sub (val (JObj (g_material g))) ''key'')) (\<lambda>key.
     val (JObj [(''apiVersion'', JStr ''v1''), (''kind'', JStr ''Secret''), (''type'', JStr ''kubernetes.io/tls''),
       (''immutable'', JBool True),
       (''metadata'', JObj [(''name'', JStr (tls_secret_name (g_plane g) digest)), (''namespace'', JStr (ingress_name (g_plane g))),
          (''labels'', JObj [(''app.kubernetes.io/managed-by'', JStr ''llmgw-workflow'')])]),
       (''data'', JObj [(''tls.crt'', JStr (b64 certificate)), (''tls.key'', JStr (b64 key))])]))))"

definition apply_secret :: "string list \<Rightarrow> gateway \<Rightarrow> ('s, unit) proc" where
  "apply_secret scoped g =
     letp (tls_secret g) (\<lambda>secret.
     thenp (private_write ''ingress-tls.json'' secret) (
     finallyp
       (bindp (run_command (scoped @ apply_arguments False False ''ingress-tls.json'' @ [''-o'', ''name'']) (''tls-apply-'' @ g_plane g))
          (\<lambda>_. retp ()))
       (bindp (perform (Client ''unlink'' [JStr ''ingress-tls.json''])) (\<lambda>_. retp ()))))"

definition service_address :: "json \<Rightarrow> json \<Rightarrow> json res" where
  "service_address subnet service =
     bindr (iter (dget (dgetO (dgetO (val service) ''status'') ''loadBalancer'') ''ingress'' (JList []))) (\<lambda>addresses.
     check (conjr (val (length addresses = 1)) (has (val (hd addresses)) ''ip'')) ''Expected one IPv4 private ingress address'' (
     bindr (sub (val (hd addresses)) ''ip'') (\<lambda>address.
     bindr (bindr (sub (val subnet) ''prefix'') (ip_network True)) (\<lambda>network.
     check (bindr (ip_address address) (\<lambda>a. val (version a = version network \<and> addr_in (base a) network)))
       ''Ingress address is outside the approved subnet'' (val address)))))"

definition apply_gateway :: "json \<Rightarrow> ingress_plan \<Rightarrow> gateway \<Rightarrow> ('s, string \<times> json) proc" where
  "apply_gateway config p g =
     (let plane = g_plane g; name = ingress_name plane; scoped = scoped_to (ip_kube p) plane in
     thenp (apply_secret scoped g) (
     thenp (eachp (\<lambda>(file, label). bindp (run_command (scoped @ apply_arguments True False file) label) (\<lambda>_. retp ())) (g_handoffs g)) (
     bindp (run_command (scoped @ apply_arguments False False (manifest_file plane)) (''apply-'' @ plane)) (\<lambda>_.
     bindp (run_command (scoped @ [''rollout'', ''status'', ''deployment/'' @ name, ''--timeout=15m'']) (''ready-'' @ plane)) (\<lambda>_.
     bindp (run_command (scoped @ [''wait'', ''--for=jsonpath={.status.loadBalancer.ingress[0].ip}'', ''service/'' @ name, ''--timeout=10m''])
              (''lb-ready-'' @ plane)) (\<lambda>_.
     bindp (run_command (scoped @ [''get'', ''service'', name, ''-o'', ''json'']) (''service-'' @ plane)) (\<lambda>output.
     letp (loads output) (\<lambda>service.
     letp (service_address (ip_subnet p) service) (\<lambda>address.
     letp (sub (val (ip_cluster p)) ''nodeResourceGroup'') (\<lambda>node_group.
     bindp (frontend_for config node_group address) (\<lambda>frontend.
     letp (host_of config plane) (\<lambda>host.
     letp (host_of config (other_plane plane)) (\<lambda>other_host.
     letp (sub (val (JObj (g_material g))) ''sha256'') (\<lambda>digest.
     thenp (verify_endpoint address host other_host digest False plane None) (
     retp (plane, frontend))))))))))))))))"

definition ingress_apply :: "sha \<Rightarrow> json \<Rightarrow> json \<Rightarrow> string \<Rightarrow> ingress_plan \<Rightarrow> ('s, obj) proc" where
  "ingress_apply sha config revision now p =
     thenp (promote_image config (ip_lock p)) (
     bindp (mapp (apply_gateway config p) (ip_gateways p)) (\<lambda>endpoints.
     letp (map_res (\<lambda>(plane, frontend). sub (val frontend) ''privateIpAddress'') endpoints) (\<lambda>addresses.
     checkp (val (distinct addresses)) ''API/admin must not share an ingress frontend'' (
     letp (stage_fingerprint sha config 4) (\<lambda>config_hash.
     let output = dict_update [(''revision'', revision), (''configSha256'', JStr config_hash), (''authenticationMode'', ip_mode p),
           (''backendRoutesVerified'', JBool False), (''verifiedAt'', JStr now), (''image'', JStr (ip_image p)),
           (''certificates'', JObj (ip_certificates p))] endpoints;
         summary = dict_update (ip_summary p) [(''applied'', JBool True), (''verified'', JBool True),
           (''backendRoutesVerified'', JBool False), (''endpoints'', JObj endpoints)] in
     thenp (save_outputs sha config 4 ''private-ingress'' ''ingress-receipt-template.json'' (outputs_template ''privateIngress'' output)
              ''Private ingress verified, but saving deployment outputs failed'') (
     thenp (private_write ''runtime-summary.json'' (JObj summary)) (
     retp summary)))))))"

definition deploy_private_ingress ::
    "sha \<Rightarrow> yload \<Rightarrow> ydump \<Rightarrow> (json list \<Rightarrow> string) \<Rightarrow> json \<Rightarrow> json \<Rightarrow> string \<Rightarrow> json \<Rightarrow> string \<Rightarrow> string \<Rightarrow> ('s, obj) proc" where
  "deploy_private_ingress sha yload ydump ydumps lock config operation revision now approved =
     checkp (val (operation \<in> {''plan'', ''execute''})) ''Invalid private ingress operation'' (
     bindp (ingress_prepare sha yload ydump ydumps lock config revision) (\<lambda>p.
     if operation = ''plan'' then retp (ip_summary p)
     else checkp (val (approved = fingerprint sha (ip_contract p))) ''Private ingress plan changed or was not approved''
            (ingress_apply sha config revision now p)))"

section \<open>Events\<close>

text \<open>A call that changes the target: an apply that is no dry run, a copied image or a stored deployment.\<close>

definition changes_ingress :: "call \<Rightarrow> bool" where
  "changes_ingress c \<longleftrightarrow>
     (case c of
        Command xs \<Rightarrow> (xs ! 0 = ''kubectl'' \<and> xs ! 7 = ''apply'' \<and> ''--dry-run=server'' \<notin> set xs)
          \<or> xs ! 0 = ''skopeo'' \<or> take 4 xs = [''az'', ''deployment'', ''group'', ''create'']
      | _ \<Rightarrow> False)"

definition ingress_kept :: "event \<Rightarrow> bool" where
  "ingress_kept e \<longleftrightarrow> \<not> changes_ingress (fst e)"

lemma ingress_kept_simps [simp]:
  "ingress_kept (WriteFile n d, r)" "ingress_kept (Client m arguments, r)"
  "ingress_kept (Command (''az'' # xs), r) \<longleftrightarrow> take 3 xs \<noteq> [''deployment'', ''group'', ''create'']"
  "ingress_kept (Command (''openssl'' # xs), r)" "ingress_kept (Command (''kubelogin'' # xs), r)"
  "ingress_kept (Command (scoped_to target_kube plane @ verb # args), r) \<longleftrightarrow> verb = ''apply'' \<longrightarrow> ''--dry-run=server'' \<in> set args"
  by (auto simp: ingress_kept_def changes_ingress_def scoped_to_def target_kube_def ingress_name_def)

lemma kept_run:
  "verb \<noteq> ''apply'' \<or> ''--dry-run=server'' \<in> set args \<Longrightarrow> only ingress_kept (run_command (scoped_to target_kube plane @ verb # args) label)"
  by (intro only_run_command) auto

lemma kept_az:
  "take 3 arguments \<noteq> [''deployment'', ''group'', ''create''] \<Longrightarrow> 3 \<le> length arguments \<Longrightarrow> only ingress_kept (az_scoped_with e config arguments)"
  by (intro only_az_scoped) (auto simp: az_command_def)

lemma kept_run_az: "take 3 xs \<noteq> [''deployment'', ''group'', ''create''] \<Longrightarrow> only ingress_kept (run_command (''az'' # xs) label)"
  by (intro only_run_command) auto

lemma kept_openssl: "only ingress_kept (run_command (''openssl'' # xs) label)"
  by (intro only_run_command) auto

lemma login_kept: "only ingress_kept (check_login config)"
  unfolding check_login_def by (intro only_intros only_az_run) (auto simp: az_command_def)

lemma connect_kept: "only ingress_kept (connect_cluster config legacy)"
  unfolding connect_cluster_def by (intro only_intros login_kept only_run_command) auto

lemma certificate_kept: "only ingress_kept (read_certificate config secret_id host)"
  unfolding read_certificate_def
  by (intro only_intros only_retp) (auto intro!: only_intros split: json.splits reply.splits)

lemma get_live_kept: "only ingress_kept (get_live (scoped_to target_kube plane) kind name label)"
  unfolding get_live_def by (intro only_intros kept_run) simp

lemma observation_kept: "only ingress_kept (ingress_observation (scoped_to target_kube plane) ns service)"
  unfolding ingress_observation_def by (intro only_intros kept_run) simp_all

lemma kept_dry_run: "only ingress_kept (run_command (scoped_to target_kube plane @ apply_arguments forced True file) label)"
  unfolding apply_arguments_def by (simp only: append.simps, rule kept_run) simp

lemma plan_document_kept: "only ingress_kept (plan_document ydump target_kube native preserved document g)"
  unfolding plan_document_def Let_def
  by (intro only_intros only_private_write kept_dry_run get_live_kept) simp_all

lemma plan_gateway_kept: "only ingress_kept (plan_gateway sha yload ydump ydumps config native img settings target_kube plane)"
  unfolding plan_gateway_def Let_def
  by (intro only_intros only_private_write kept_run kept_dry_run get_live_kept certificate_kept plan_document_kept observation_kept
      kept_openssl) simp_all

lemma ingress_prepare_kept: "only ingress_kept (ingress_prepare sha yload ydump ydumps lock config revision)"
  unfolding ingress_prepare_def show_cluster_def show_ingress_subnet_def Let_def
  by (intro only_letp only_bindp_returns connect_kept)
    (auto intro!: only_intros only_private_write only_mapp plan_gateway_kept kept_az dest!: connect_target)

lemma save_outputs_any: "only (\<lambda>_. True) (save_outputs sha config stage component file document msg)"
  unfolding save_outputs_def by (intro only_intros only_private_write only_az_scoped TrueI)

lemma run_any: "only (\<lambda>_. True) (run_command xs label)"
  by (rule only_run_command) simp_all

lemma verify_endpoint_any: "only (\<lambda>_. True) (verify_endpoint address host other_host sha256 native plane identifier)"
  unfolding verify_endpoint_def send_probe_def
  by (intro only_intros) (auto intro!: only_intros split: reply.splits json.splits list.splits)

lemma promote_image_any: "only (\<lambda>_. True) (promote_image config lock)"
  unfolding promote_image_def scan_image_def require_private_registry_dns_def Let_def
  by (intro only_intros only_private_write run_any only_az_scoped TrueI)
    (auto intro!: only_intros only_private_write split: reply.splits json.splits list.splits)

lemma apply_gateway_any: "only (\<lambda>_. True) (apply_gateway config p g)"
  unfolding apply_gateway_def apply_secret_def frontend_for_def Let_def
  by (intro only_intros only_private_write run_any only_az_scoped verify_endpoint_any TrueI)

lemma ingress_apply_any: "only (\<lambda>_. True) (ingress_apply sha config revision now p)"
  unfolding ingress_apply_def Let_def
  by (intro only_intros only_private_write only_mapp promote_image_any apply_gateway_any save_outputs_any TrueI)

text \<open>The document of a reviewed plan: its hash, the plan, and the observation the hash does not bind.\<close>

definition ingress_review :: "sha \<Rightarrow> ingress_plan \<Rightarrow> json" where
  "ingress_review sha p =
     JObj ((''planSha256'', JStr (fingerprint sha (ip_contract p))) # (case ip_contract p of JObj kv \<Rightarrow> kv | _ \<Rightarrow> []) @
       [(''currentIngressObservationNotPlanBound'', JObj (map (\<lambda>g. (g_plane g, JObj (g_observed g))) (ip_gateways p)))])"

lemma ingress_prepare_reviewed:
  "wp (ingress_prepare sha yload ydump ydumps lock config revision)
      (\<lambda>p l. \<exists>r. (WriteFile ''runtime-review.json'' (ingress_review sha p), r) \<in> set l) (\<lambda>_. True) l"
  unfolding ingress_prepare_def ingress_review_def Let_def
  by (rule wp_intros wp_private_write wp_drop TrueI | force)+

interpretation ingress: approval_gate
    "\<lambda>operation approved. deploy_private_ingress sha yload ydump ydumps lock config operation revision now approved"
    "ingress_prepare sha yload ydump ydumps lock config revision" "\<lambda>p. retp (ip_summary p)" "ingress_apply sha config revision now"
    "\<lambda>p. fingerprint sha (ip_contract p)" "\<lambda>p. WriteFile ''runtime-review.json'' (ingress_review sha p)"
    "''Private ingress plan changed or was not approved''" ingress_kept
  for sha yload ydump ydumps lock config revision now
proof
  show "deploy_private_ingress sha yload ydump ydumps lock config ''plan'' revision now a =
      bindp (ingress_prepare sha yload ydump ydumps lock config revision) (\<lambda>p. retp (ip_summary p))" for a
    by (simp add: deploy_private_ingress_def checkp_def)
  show "deploy_private_ingress sha yload ydump ydumps lock config ''execute'' revision now a =
      bindp (ingress_prepare sha yload ydump ydumps lock config revision)
       (\<lambda>p. checkp (val (a = fingerprint sha (ip_contract p))) ''Private ingress plan changed or was not approved''
         (ingress_apply sha config revision now p))" for a
    by (simp add: deploy_private_ingress_def checkp_def)
qed (auto intro!: only_intros ingress_prepare_kept ingress_apply_any ingress_prepare_reviewed)

text \<open>
  Whatever the cluster, Azure and the vault reply, a run of \<open>deploy_private_ingress\<close> either applied
  nothing, copied no image and stored no deployment, or it was an \<open>execute\<close> run whose approved hash is
  the hash of a plan it had written for review.
\<close>

theorem ingress_deployment_is_approved:
  "list_all ingress_kept (log (snd (deploy_private_ingress sha yload ydump ydumps lock config operation revision now approved sv (start s)))) \<or>
   (operation = ''execute'' \<and> (\<exists>p r. approved = fingerprint sha (ip_contract p) \<and>
      (WriteFile ''runtime-review.json'' (ingress_review sha p), r) \<in>
        set (log (snd (deploy_private_ingress sha yload ydump ydumps lock config operation revision now approved sv (start s))))))"
proof (cases "operation = ''plan'' \<or> operation = ''execute''")
  case True
  then show ?thesis
    using ingress.harmful_approved [of operation _ sha yload ydump ydumps lock config revision now approved sv s]
    unfolding list_all_iff by metis
qed (simp add: deploy_private_ingress_def checkp_def failp_def start_def)

text \<open>
  The private key of a gateway does not stay on the disk: a run of \<open>apply_secret\<close> wrote nothing, or
  its write failed, or its last event is the removal of the file, whatever \<open>kubectl\<close> did.
\<close>

theorem tls_secret_is_removed:
  "log (snd (apply_secret scoped g sv w)) = log w \<or>
   (\<exists>d. last (log (snd (apply_secret scoped g sv w))) = (WriteFile ''ingress-tls.json'' d, Failure)) \<or>
   (\<exists>r. last (log (snd (apply_secret scoped g sv w))) = (Client ''unlink'' [JStr ''ingress-tls.json''], r))"
  by (auto simp: apply_secret_def letp_def thenp_def bindp_def failp_def private_write_def perform_def finallyp_def retp_def checkp_def
      split: sum.splits prod.splits)

end
