(* ===== verification/Release.thy ===== *)
theory Release
  imports Customer_Config
begin

text \<open>
  \<open>scripts/stage9_release.py\<close>: the attestations a traffic release has to carry, which depend on the
  phase, the authentication mode and the audit mode, the checks of an origin snapshot and of a
  What-if result, and the parameters of the preview artifacts.
\<close>

section \<open>The required checks\<close>

definition PREPARE_CHECKS :: "string list" where
  "PREPARE_CHECKS =
     [''private_origin_tls'', ''origin_bypass_denied'', ''admin_source_ip_allowlist'',
      ''admin_private_origin_isolation'', ''waf_diagnostics_privacy'', ''private_link_approval'', ''rollback_plan'']"

definition CANARY_CHECKS :: "string list" where
  "CANARY_CHECKS = PREPARE_CHECKS @
     [''entra_backend_acl'', ''stage8_capture_architecture'', ''l3_governance_and_recovery'',
      ''required_protocol_matrix'', ''database_restore'', ''telemetry_alerts'',
      ''waf_detection_review'', ''approved_pilot_clients'']"

definition PRODUCTION_CHECKS :: "string list" where
  "PRODUCTION_CHECKS = CANARY_CHECKS @ [''canary_slo'', ''waf_prevention_review'', ''dns_cutover_and_rollback'']"

definition PLS_ID :: rx where
  "PLS_ID =
     cat [lit ''/subscriptions/'', times 36 36 hex_any, lit ''/resourceGroups/'', plus1 (alnum_or ''_.()-''),
          lit ''/providers/Microsoft'', any_but_newline, lit ''Network/privateLinkServices/'', plus1 (alnum_or ''_.-'')]"

definition hex_digit :: rx where
  "hex_digit = Cls (\<lambda>c. is_digit c \<or> between 97 102 c \<or> between 65 70 c)"

definition UUID :: rx where
  "UUID =
     cat [times 8 8 hex_digit, times 3 3 (Seq (chr CHR ''-'') (times 4 4 hex_digit)), chr CHR ''-'', times 12 12 hex_digit]"

definition without :: "string list \<Rightarrow> string list \<Rightarrow> string list" where
  "without xs ys = filter (\<lambda>x. x \<notin> set ys) xs"

definition phase_checks :: "string \<Rightarrow> string list" where
  "phase_checks phase =
     (if phase = ''prepare'' then PREPARE_CHECKS else if phase = ''canary'' then CANARY_CHECKS else PRODUCTION_CHECKS)"

definition authentication_checks :: "string \<Rightarrow> string list \<Rightarrow> string list" where
  "authentication_checks authentication required =
     (if authentication = ''native''
      then without required [''entra_backend_acl''] @ [''native_virtual_key_acl'', ''native_admin_password_login'']
      else required)"

definition audit_checks :: "string \<Rightarrow> bool \<Rightarrow> string list \<Rightarrow> string list" where
  "audit_checks mode telemetry required =
     (if mode = ''native''
      then (let rs = without required [''stage8_capture_architecture'', ''l3_governance_and_recovery'']
                       @ [''native_spend_logs'', ''native_audit_access'', ''native_retention_recovery'']
            in if telemetry then rs else without rs [''telemetry_alerts''] @ [''telemetry_disabled''])
      else required)"

definition l3_checks :: "string list" where
  "l3_checks = [''l3_protocol_capture'', ''l3_delivery_recovery'', ''l3_query_hold'', ''l3_alerts'']"

definition live_gated :: "json \<Rightarrow> string \<Rightarrow> string \<Rightarrow> string \<Rightarrow> bool res" where
  "live_gated config phase authentication mode =
     conjr (val (phase = ''canary'')) (
     conjr (in_strs (dget0 (val config) ''environmentName'') [''dev'', ''test'']) (
     val (authentication = ''native'' \<and> mode = ''native'')))"

definition release_checks :: "json \<Rightarrow> string list res" where
  "release_checks config =
     bindr (dget0 (val config) ''phase'') (\<lambda>phase_value.
     reject (negr (in_strs (val phase_value) [''prepare'', ''canary'', ''production'']))
       ''phase must be prepare, canary or production'' (
     bindr (dget (val config) ''auditMode'' (JStr ''l3'')) (\<lambda>mode_value.
     bindr (has (val config) ''optionalL3Enabled'') (\<lambda>decided.
     reject (conjr (val decided) (negr (testr is_bool (sub (val config) ''optionalL3Enabled''))))
       ''optionalL3Enabled must be a boolean'' (
     reject (negr (in_strs (val mode_value) [''l3'', ''native''])) ''Release auditMode must be native or l3'' (
     bindr (dget (val config) ''authenticationMode'' (JStr ''entra'')) (\<lambda>authentication_value.
     reject (negr (in_strs (val authentication_value) [''entra'', ''native'']))
       ''Release authenticationMode must be entra or native'' (
     bindr (str_of (val phase_value)) (\<lambda>phase.
     bindr (str_of (val mode_value)) (\<lambda>mode.
     bindr (str_of (val authentication_value)) (\<lambda>authentication.
     bindr (dget0 (val config) ''telemetryEnabled'') (\<lambda>telemetry.
     reject (val (mode = ''native'' \<and> \<not> is_bool telemetry)) ''Native release requires an explicit telemetry decision'' (
     bindr (live_gated config phase authentication mode) (\<lambda>gated.
     if gated then val []
     else bindr (dget0 (val config) ''optionalL3Enabled'') (\<lambda>l3.
          let required = phase_checks phase in
          if phase = ''prepare'' then val required
          else let rs = audit_checks mode (truth telemetry) (authentication_checks authentication required)
               in val (if l3 = JBool True then rs @ l3_checks else rs))))))))))))))))"

section \<open>The release\<close>

definition origin_id :: "json \<Rightarrow> string \<Rightarrow> string \<Rightarrow> string res" where
  "origin_id config key label =
     bindr (dgetO (val config) key) (\<lambda>origin.
     bindr (dget (val origin) ''privateLinkServiceId'' (JStr [])) (\<lambda>identifier.
     reject (negr (fullmatch PLS_ID (val identifier)))
       (''An explicit '' @ label @ '' Private Link Service resource ID is required'') (
     bindr (bindr (dget0 (val origin) ''privateLinkLocation'') front_door_private_link_location) (\<lambda>_.
     str_of (val identifier)))))"

text \<open>\<open>not v or "REPLACE" in v\<close>\<close>

definition placeholder :: "json \<Rightarrow> bool res" where
  "placeholder v = disjr (val (\<not> truth v)) (has (val v) ''REPLACE'')"

definition int_between :: "int \<Rightarrow> int \<Rightarrow> json \<Rightarrow> bool" where
  "int_between lo hi v = (case v of JInt i \<Rightarrow> lo \<le> i \<and> i \<le> hi | _ \<Rightarrow> False)"

definition owners_bad :: "nat \<Rightarrow> json list \<Rightarrow> bool res" where
  "owners_bad needed owners =
     disjr (val (length owners < needed)) (
     disjr (if list_all hashable owners then val (\<not> no_repeats owners) else Inl TypeError)
           (any_res (\<lambda>owner. negr (fullmatch UUID (val owner))) owners))"

definition eligible_ok :: "int list \<Rightarrow> json list \<Rightarrow> bool res" where
  "eligible_ok eligible owners =
     (if eligible = [] then val True
      else bindr (map_res (\<lambda>owner. mapr lower (str_of (val owner))) owners) (\<lambda>names.
           val (set names \<subseteq> set (map uuid_str eligible))))"

definition check_evidence :: "json \<Rightarrow> int \<Rightarrow> string \<Rightarrow> unit res" where
  "check_evidence config now name =
     bindr (dgetO (dgetO (val config) ''checks'') name) (\<lambda>evidence.
     reject (disjr (negr (testr (\<lambda>v. v = JBool True) (dget0 (val evidence) ''passed'')))
               (bindr (dget0 (val evidence) ''report'') placeholder))
       (''Missing passing evidence: '' @ name) (
     bindr (bindr (str_of (dget (val evidence) ''observedAt'' (JStr [])))
              (\<lambda>s. fromisoformat (replace ''Z'' ''+00:00'' s))) (\<lambda>observed.
     reject (val (\<not> recent now observed)) (''Expired or invalid evidence timestamp: '' @ name) (val ()))))"

definition check_limits :: "json \<Rightarrow> string \<Rightarrow> unit res" where
  "check_limits config phase =
     bindr (bindr (dget0 (val config) ''adminAllowedCidrs'') admin_source_cidrs) (\<lambda>_.
     reject (bindr (dget0 (val config) ''logAnalyticsWorkspaceName'') placeholder)
       ''An explicit diagnostics workspace is required'' (
     reject (negr (testr (int_between 1 100000) (dget0 (val config) ''rateLimitPerMinute''))) ''Invalid rate limit'' (
     reject (negr (testr (int_between 1 10000) (dget0 (val config) ''adminRateLimitPerMinute'')))
       ''Invalid Admin rate limit'' (
     reject (negr (eqs (dget0 (val config) ''wafMode'') (if phase = ''production'' then ''Prevention'' else ''Detection'')))
       ''Prepare/canary use Detection; production requires reviewed Prevention'' (val ())))))"

definition validate_release :: "json \<Rightarrow> int \<Rightarrow> nat \<Rightarrow> int list \<Rightarrow> unit res" where
  "validate_release config now required_approvers eligible =
     bindr (dget0 (val config) ''phase'') (\<lambda>phase_value.
     reject (negr (in_strs (val phase_value) [''prepare'', ''canary'', ''production'']))
       ''phase must be prepare, canary or production'' (
     bindr (str_of (val phase_value)) (\<lambda>phase.
     bindr (bindr (sub (val config) ''baseDomain'') domain_hosts) (\<lambda>_.
     reject (negr (in_strs (dget (val config) ''authenticationMode'' (JStr ''entra'')) [''entra'', ''native'']))
       ''Release authenticationMode must be entra or native'' (
     reject (negr (in_strs (dget0 (val config) ''environmentName'') [''dev'', ''test'', ''prod''])) ''Invalid environment'' (
     bindr (origin_id config ''privateOrigin'' ''API'') (\<lambda>api.
     bindr (origin_id config ''adminPrivateOrigin'' ''Admin'') (\<lambda>admin.
     reject (val (lower api = lower admin)) ''API and Admin releases require separate Private Link Services'' (
     seqr (check_limits config phase) (
     reject (conjr (val (phase \<noteq> ''prepare'')) (negr (fullmatch UUID (dget (val config) ''frontDoorId'' (JStr [])))))
       ''Traffic requires the actual Front Door ID'' (
     reject (bindr (dget0 (val config) ''changeTicket'') placeholder) ''Approved change ticket required'' (
     bindr (iter (dget (val config) ''approvedBy'' (JList []))) (\<lambda>owners.
     reject (owners_bad required_approvers owners)
       ''Distinct approval owners matching the release policy are required'' (
     reject (negr (eligible_ok eligible owners)) ''Release contains an ineligible approver'' (
     bindr (release_checks config) (\<lambda>required.
     each (check_evidence config now) (sort (remdups required))))))))))))))))))"

section \<open>Snapshots and What-if results\<close>

text \<open>\<open>try: e except ValueError: raise ValueError(message)\<close>\<close>

fun as_value_error :: "'a res \<Rightarrow> string \<Rightarrow> 'a res" where
  "as_value_error (Inl e) msg = (if is_value_error e then Inl (ValueError msg) else Inl e)"
| "as_value_error (Inr x) msg = Inr x"

definition frontend_bad :: "json \<Rightarrow> bool res" where
  "frontend_bad properties =
     bindr (as_value_error (bindr (dget (val properties) ''privateIPAddress'' (JStr [])) ip_address)
              ''Selected Private Link frontend must have a valid private IP address'') (\<lambda>address.
     disjr (testr truth (dget0 (val properties) ''publicIPAddress'')) (
     disjr (val (\<not> addr_is_private address \<or> addr_is_loopback address \<or> addr_is_link_local address))
           (negr (testr truth (dget0 (dgetO (val properties) ''subnet'') ''id'')))))"

definition validate_origin_snapshot :: "json \<Rightarrow> string \<Rightarrow> json \<Rightarrow> unit res" where
  "validate_origin_snapshot load_balancer frontend_id subnet =
     reject (negr (eqs (dget0 (dgetO (val load_balancer) ''sku'') ''name'') ''Standard''))
       ''Private Link requires a Standard load balancer'' (
     bindr (iter (dget (dgetO (val load_balancer) ''properties'') ''frontendIPConfigurations'' (JList []))) (\<lambda>frontends.
     bindr (find_res (\<lambda>item. mapr (\<lambda>s. lower s = lower frontend_id) (str_of (dget (val item) ''id'' (JStr [])))) frontends) (\<lambda>found.
     case found of
       None \<Rightarrow> Inl (ValueError ''Selected Private Link frontend is missing from the load balancer snapshot'')
     | Some selected \<Rightarrow>
         bindr (dgetO (val selected) ''properties'') (\<lambda>properties.
         reject (frontend_bad properties)
           ''Private Link frontend must have a private address and subnet, with no public IP'' (
         reject (negr (eqs (dget0 (dgetO (val subnet) ''properties'') ''privateLinkServiceNetworkPolicies'') ''Disabled''))
           ''PLS NAT subnet requires privateLinkServiceNetworkPolicies=Disabled'' (val ()))))))"

text \<open>\<open>counts[kind] = counts.get(kind, 0) + 1\<close>\<close>

fun count_up :: "(json \<times> nat) list \<Rightarrow> json \<Rightarrow> (json \<times> nat) list" where
  "count_up [] k = [(k, 1)]"
| "count_up ((k', n) # r) k = (if py_eq k' k then (k', Suc n) # r else (k', n) # count_up r k)"

definition count_change :: "json \<Rightarrow> (json \<times> nat) list \<Rightarrow> (json \<times> nat) list res" where
  "count_change change counts =
     bindr (dget0 (val change) ''changeType'') (\<lambda>kind.
     reject (negr (in_strs (val kind) [''Create'', ''Ignore'', ''NoChange'']))
       ''What-if requires review; Modify/Delete/unsupported analysis cannot pass automatically'' (
     val (count_up counts kind)))"

definition validate_what_if :: "json \<Rightarrow> (json \<times> nat) list res" where
  "validate_what_if result =
     reject (disjr (negr (eqs (dget0 (val result) ''status'') ''Succeeded'')) (negr (testr is_list (dget0 (val result) ''changes''))))
       ''What-if did not complete successfully'' (
     bindr (list_of (sub (val result) ''changes'')) (\<lambda>changes. fold_res count_change changes []))"

section \<open>The preview parameters\<close>

definition release_parameter_names :: "string list" where
  "release_parameter_names =
     [''environmentName'', ''privateOrigin'', ''adminPrivateOrigin'', ''adminAllowedCidrs'', ''logAnalyticsWorkspaceName'',
      ''wafMode'', ''rateLimitPerMinute'', ''adminRateLimitPerMinute'']"

definition wrapped :: "json \<Rightarrow> json" where
  "wrapped v = JObj [(''value'', v)]"

definition release_parameters :: "json \<Rightarrow> obj res" where
  "release_parameters config =
     bindr (map_res (\<lambda>name. bindr (sub (val config) name) (\<lambda>v. val (name, wrapped v))) release_parameter_names) (\<lambda>taken.
     bindr (bindr (sub (val config) ''baseDomain'') domain_hosts) (\<lambda>(api, admin).
     bindr (sub (val config) ''phase'') (\<lambda>phase.
     let traffic = wrapped (JBool (phase \<noteq> JStr ''prepare'')) in
     val (dict_update taken
       [(''baseDomain'', wrapped (JStr (remove_prefix api ''llm-api.''))), (''deployEdge'', wrapped (JBool True)),
        (''enableApiTraffic'', traffic), (''enableAdminTraffic'', traffic)]))))"

text \<open>The files \<open>generate\<close> writes once the attestations are checked, apart from the overlay.\<close>

definition release_documents :: "sha \<Rightarrow> json \<Rightarrow> int \<Rightarrow> (json \<times> json) res" where
  "release_documents sha config now =
     seqr (validate_release config now 2 []) (
     reject (disjr (negr (eqs (dget (val config) ''auditMode'' (JStr ''l3'')) ''l3''))
                   (negr (eqs (dget (val config) ''authenticationMode'' (JStr ''entra'')) ''entra'')))
       ''Native release uses managed customer-runtime manifests, not the legacy Stage9 overlay'' (
     bindr (release_parameters config) (\<lambda>parameters.
     bindr (sub (val config) ''phase'') (\<lambda>phase.
     val (JObj [(''$schema'', JStr ''https://schema.management.azure.com/schemas/2019-04-01/deploymentParameters.json#''),
                (''contentVersion'', JStr ''1.0.0.0''), (''parameters'', JObj parameters)],
          JObj [(''phase'', phase), (''configurationSha256'', JStr (sha (dumps_sorted config))),
                (''attestationsChecked'', JBool True), (''deploymentPerformed'', JBool False)])))))"

section \<open>What an accepted release has\<close>

text \<open>\<open>v.get(k)\<close> of a value known to be a dict.\<close>

definition field :: "json \<Rightarrow> string \<Rightarrow> json" where
  "field v k = (case v of JObj kv \<Rightarrow> lookup_or kv k JNull | _ \<Rightarrow> JNull)"

lemma dget0_field: "dget0 (val v) k = Inr x \<longleftrightarrow> is_dict v \<and> x = field v k"
  by (cases v) (auto simp: field_def)

lemma dgetO_field: "dgetO (val v) k = Inr x \<Longrightarrow> is_dict v \<and> (x = field v k \<or> x = JObj [] \<and> field v k = JNull)"
  by (cases v) (auto simp: field_def lookup_or_def split: option.splits)

lemma dget_dget: "dget (dget e k d) k' d' = Inr x \<longleftrightarrow> (\<exists>y. dget e k d = Inr y \<and> dget (Inr y) k' d' = Inr x)"
  by (cases "dget e k d") auto

lemma field_empty [simp]: "field (JObj []) k = JNull" "field JNull k = JNull"
  by (simp_all add: field_def lookup_or_def)

definition attested :: "json \<Rightarrow> int \<Rightarrow> string \<Rightarrow> bool" where
  "attested config now name \<longleftrightarrow>
     (let evidence = field (field config ''checks'') name in
      field evidence ''passed'' = JBool True \<and> truth (field evidence ''report'') \<and>
      (\<exists>s m t. field evidence ''observedAt'' = JStr s \<and> fromisoformat (replace ''Z'' ''+00:00'' s) = Inr m \<and>
         instant m = Some t \<and> now - 7 * day_micros \<le> t \<and> t \<le> now))"

lemma fromisoformat_Nil: "fromisoformat (replace ''Z'' ''+00:00'' []) = bad_iso"
  by (simp add: fromisoformat_def replace_def)

lemma dget_str_field:
  "str_of (dget (val v) k (JStr [])) = Inr s \<Longrightarrow> field v k = JStr s \<or> s = []"
  by (auto simp: py_ok field_def lookup_or_def split: option.splits)

lemma check_evidence_attested:
  assumes "check_evidence config now name = Inr ()"
  shows "attested config now name"
proof -
  obtain checks evidence where e: "dgetO (val config) ''checks'' = Inr checks" "dgetO (val checks) name = Inr evidence"
    and p: "field evidence ''passed'' = JBool True" and r: "placeholder (field evidence ''report'') = Inr False"
    and o: "\<exists>s m. str_of (dget (val evidence) ''observedAt'' (JStr [])) = Inr s \<and>
              fromisoformat (replace ''Z'' ''+00:00'' s) = Inr m \<and> recent now m"
    using assms by (auto simp: check_evidence_def py_ok dget0_field dget_dget simp del: dget_ok)
  have filled: "field evidence k \<noteq> JNull \<Longrightarrow> evidence = field (field config ''checks'') name" for k
    using e by (auto dest!: dgetO_field)
  from p filled [of "''passed''"] have ev: "evidence = field (field config ''checks'') name" by simp
  from r have "truth (field evidence ''report'')" by (simp add: placeholder_def py_ok)
  moreover from o obtain s m where "str_of (dget (val evidence) ''observedAt'' (JStr [])) = Inr s"
      "fromisoformat (replace ''Z'' ''+00:00'' s) = Inr m" "recent now m" by blast
  moreover from this have "field evidence ''observedAt'' = JStr s"
    using dget_str_field by (fastforce simp: fromisoformat_Nil bad_iso_def)
  ultimately show ?thesis
    using p by (auto simp: attested_def ev Let_def recent_def split: option.splits)
qed

lemma strings_of_owners:
  assumes "any_res (\<lambda>owner. negr (fullmatch r (val owner))) owners = Inr False"
  shows "\<exists>names. owners = map JStr names \<and> (\<forall>n \<in> set names. rmatch r n)"
  using assms
proof (induction owners)
  case Nil
  then show ?case by simp
next
  case (Cons a owners)
  then obtain s names where "a = JStr s" "rmatch r s" "owners = map JStr names" "\<forall>n \<in> set names. rmatch r n"
    by (auto simp: py_ok split: if_splits)
  then show ?case by (intro exI [of _ "s # names"]) simp
qed

lemma names_of_owners: "map_res (\<lambda>owner. mapr lower (str_of (val owner))) (map JStr names) = Inr (map lower names)"
  by (induction names) simp_all

lemma owners_accepted:
  assumes "owners_bad needed owners = Inr False" "eligible_ok eligible owners = Inr True"
  shows "\<exists>names. owners = map JStr names \<and> needed \<le> length names \<and> distinct names \<and>
    (\<forall>n \<in> set names. rmatch UUID n) \<and> (eligible = [] \<or> lower ` set names \<subseteq> uuid_str ` set eligible)"
proof -
  have bad: "any_res (\<lambda>owner. negr (fullmatch UUID (val owner))) owners = Inr False"
      "needed \<le> length owners" "no_repeats owners"
    using assms(1) by (auto simp: owners_bad_def py_ok split: if_splits)
  then obtain names where "owners = map JStr names" "\<forall>n \<in> set names. rmatch UUID n"
    using strings_of_owners by blast
  with assms(2) bad show ?thesis
    by (intro exI [of _ names]) (auto simp: eligible_ok_def names_of_owners split: if_splits)
qed

text \<open>C10: An accepted release names its phase, carries for every check its phase and modes require a report that
  passed within the last seven days, names at least the required number of approvers, keeps API and Admin on
  different Private Link Services, and runs the WAF in Prevention mode exactly in production.  The approvers are
  pairwise different strings that are object IDs, all eligible up to case when the policy names any.  The
  comparison of the strings is the only one: they stand for the required number of different object IDs if no
  two of them differ in case alone, and \<open>spellings_count_as_approvers\<close> below shows that a release with two
  spellings of one object ID passes.\<close>

theorem releases_are_attested:
  assumes "validate_release config now needed eligible = Inr ()"
  shows "\<exists>phase required names api admin.
    field config ''phase'' = JStr phase \<and> phase \<in> {''prepare'', ''canary'', ''production''} \<and>
    release_checks config = Inr required \<and> (\<forall>name \<in> set required. attested config now name) \<and>
    iter (dget (Inr config) ''approvedBy'' (JList [])) = Inr (map JStr names) \<and> needed \<le> length names \<and>
    distinct names \<and> (\<forall>n \<in> set names. rmatch UUID n) \<and>
    (eligible = [] \<or> lower ` set names \<subseteq> uuid_str ` set eligible) \<and>
    (inj_on lower (set names) \<longrightarrow> needed \<le> card (lower ` set names)) \<and>
    origin_id config ''privateOrigin'' ''API'' = Inr api \<and> origin_id config ''adminPrivateOrigin'' ''Admin'' = Inr admin \<and>
    lower api \<noteq> lower admin \<and>
    field config ''wafMode'' = JStr (if phase = ''production'' then ''Prevention'' else ''Detection'')"
proof -
  obtain phase required owners api admin where
    phase: "dget0 (val config) ''phase'' = Inr (JStr phase)" "phase \<in> {''prepare'', ''canary'', ''production''}"
    and origins: "origin_id config ''privateOrigin'' ''API'' = Inr api"
      "origin_id config ''adminPrivateOrigin'' ''Admin'' = Inr admin" "lower api \<noteq> lower admin"
    and limits: "check_limits config phase = Inr ()"
    and owners: "iter (dget (val config) ''approvedBy'' (JList [])) = Inr owners" "owners_bad needed owners = Inr False"
      "eligible_ok eligible owners = Inr True"
    and checks: "release_checks config = Inr required" "each (check_evidence config now) (sort (remdups required)) = Inr ()"
    using assms by (auto simp: validate_release_def py_ok simp del: dget_ok)
  obtain names where "owners = map JStr names" "needed \<le> length names" "distinct names"
      "\<forall>n \<in> set names. rmatch UUID n" "eligible = [] \<or> lower ` set names \<subseteq> uuid_str ` set eligible"
    using owners_accepted [OF owners(2,3)] by blast
  moreover have "inj_on lower (set names) \<longrightarrow> needed \<le> card (lower ` set names)"
    using calculation(2,3) by (simp add: card_image distinct_card)
  moreover have "\<forall>name \<in> set required. attested config now name"
    using checks(2) check_evidence_attested by (auto simp: py_ok)
  moreover have "field config ''wafMode'' = JStr (if phase = ''production'' then ''Prevention'' else ''Detection'')"
    using limits by (auto simp: check_limits_def py_ok dget0_field simp del: dget_ok)
  moreover have "field config ''phase'' = JStr phase"
    using phase(1) by (simp add: dget0_field)
  ultimately show ?thesis
    using phase(2) origins owners(1) checks(1)
    by (intro exI [of _ phase] exI [of _ required] exI [of _ names] exI [of _ api] exI [of _ admin]) simp
qed

section \<open>A release\<close>

definition demo_origin :: "string \<Rightarrow> json" where
  "demo_origin name =
     JObj [(''privateLinkServiceId'', JStr (''/subscriptions/11111111-1111-1111-1111-111111111111/resourceGroups/rg/providers/Microsoft.Network/privateLinkServices/'' @ name)),
           (''privateLinkLocation'', JStr ''eastus'')]"

definition demo_evidence :: json where
  "demo_evidence = JObj [(''passed'', JBool True), (''report'', JStr ''r''), (''observedAt'', JStr ''2024-01-02T00:00:00Z'')]"

definition demo_release :: json where
  "demo_release =
     JObj [(''phase'', JStr ''prepare''), (''baseDomain'', JStr ''corp.net''), (''environmentName'', JStr ''dev''),
           (''privateOrigin'', demo_origin ''a''), (''adminPrivateOrigin'', demo_origin ''b''),
           (''adminAllowedCidrs'', JList [JStr ''8.8.8.0/24'']), (''logAnalyticsWorkspaceName'', JStr ''w''),
           (''rateLimitPerMinute'', JInt 600), (''adminRateLimitPerMinute'', JInt 120), (''wafMode'', JStr ''Detection''),
           (''changeTicket'', JStr ''c''),
           (''approvedBy'', JList [JStr ''11111111-1111-1111-1111-111111111111'', JStr ''22222222-1111-1111-1111-111111111111'']),
           (''checks'', JObj (map (\<lambda>n. (n, demo_evidence)) PREPARE_CHECKS))]"

definition demo_now :: int where
  "demo_now = (case fromisoformat ''2024-01-03T00:00:00+00:00'' of Inr m \<Rightarrow> local m | _ \<Rightarrow> 0)"


lemma demo_release_valid: "validate_release demo_release demo_now 2 [] = Inr ()"
  by code_simp

lemma releases_are_attested_witness:
  "validate_release demo_release demo_now 2 [] = Inr () \<and>
   (\<exists>phase required names api admin.
      field demo_release ''phase'' = JStr phase \<and> phase \<in> {''prepare'', ''canary'', ''production''} \<and>
      release_checks demo_release = Inr required \<and> (\<forall>name \<in> set required. attested demo_release demo_now name) \<and>
      iter (dget (Inr demo_release) ''approvedBy'' (JList [])) = Inr (map JStr names) \<and> 2 \<le> length names \<and>
      distinct names \<and> (\<forall>n \<in> set names. rmatch UUID n) \<and>
      (([]::int list) = [] \<or> lower ` set names \<subseteq> uuid_str ` set []) \<and>
      (inj_on lower (set names) \<longrightarrow> 2 \<le> card (lower ` set names)) \<and>
      origin_id demo_release ''privateOrigin'' ''API'' = Inr api \<and> origin_id demo_release ''adminPrivateOrigin'' ''Admin'' = Inr admin \<and>
      lower api \<noteq> lower admin \<and>
      field demo_release ''wafMode'' = JStr (if phase = ''production'' then ''Prevention'' else ''Detection''))"
  by (rule conjI [OF demo_release_valid releases_are_attested [OF demo_release_valid]])

text \<open>Two spellings of one object ID count as two approvers, also against a policy of two eligible ones.\<close>

definition respelled_release :: json where
  "respelled_release =
     (case demo_release of
        JObj kv \<Rightarrow> JObj (dict_set kv ''approvedBy''
          (JList [JStr ''aaaaaaaa-1111-1111-1111-111111111111'', JStr ''AAAAAAAA-1111-1111-1111-111111111111'']))
      | v \<Rightarrow> v)"

definition policy_ids :: "int list" where
  "policy_ids =
     (case map_res (\<lambda>s. uuid_int (JStr s)) [''aaaaaaaa-1111-1111-1111-111111111111'', ''bbbbbbbb-1111-1111-1111-111111111111''] of
        Inr ids \<Rightarrow> ids | Inl _ \<Rightarrow> [])"

lemma spellings_count_as_approvers:
  "validate_release respelled_release demo_now 2 policy_ids = Inr () \<and> length policy_ids = 2"
  by code_simp

definition full_checks :: "string \<Rightarrow> string \<Rightarrow> string \<Rightarrow> bool \<Rightarrow> bool \<Rightarrow> string list" where
  "full_checks phase authentication mode telemetry l3 =
     (let rs = audit_checks mode telemetry (authentication_checks authentication (phase_checks phase))
      in if l3 then rs @ l3_checks else rs)"

lemma release_checks_shape:
  assumes "release_checks (JObj (dict_set kv ''phase'' (JStr phase))) = Inr rs" "phase \<noteq> ''prepare''"
  shows "\<exists>authentication mode. lookup_or kv ''authenticationMode'' (JStr ''entra'') = JStr authentication \<and>
    lookup_or kv ''auditMode'' (JStr ''l3'') = JStr mode \<and>
    (phase = ''canary'' \<and> rs = [] \<or> rs = full_checks phase authentication mode (truth (lookup_or kv ''telemetryEnabled'' JNull))
       (lookup_or kv ''optionalL3Enabled'' JNull = JBool True))"
  using assms by (auto simp: release_checks_def py_ok full_checks_def Let_def live_gated_def split: if_splits)

lemma checks_grow:
  "set (full_checks ''canary'' a m t l) \<subseteq> set (full_checks ''production'' a m t l)"
  by (auto simp: full_checks_def audit_checks_def authentication_checks_def phase_checks_def without_def
      PRODUCTION_CHECKS_def Let_def)

definition replaceable :: "string list" where
  "replaceable = [''entra_backend_acl'', ''stage8_capture_architecture'', ''l3_governance_and_recovery'', ''telemetry_alerts'']"

lemma kept_checks: "set rs - set replaceable \<subseteq> set (audit_checks m t (authentication_checks a rs))"
  by (auto simp: audit_checks_def authentication_checks_def without_def replaceable_def Let_def)

lemma preparation_is_kept: "set PREPARE_CHECKS \<inter> set replaceable = {}"
  by (simp add: PREPARE_CHECKS_def replaceable_def)

lemma checks_include_preparation:
  "set PREPARE_CHECKS \<subseteq> set (full_checks phase a m t l)"
proof -
  have "set PREPARE_CHECKS \<subseteq> set (phase_checks phase) - set replaceable"
    using preparation_is_kept by (auto simp: phase_checks_def CANARY_CHECKS_def PRODUCTION_CHECKS_def)
  also have "\<dots> \<subseteq> set (audit_checks m t (authentication_checks a (phase_checks phase)))" by (rule kept_checks)
  also have "\<dots> \<subseteq> set (full_checks phase a m t l)" by (auto simp: full_checks_def Let_def)
  finally show ?thesis .
qed

text \<open>With the same decisions on audit, authentication and telemetry, production needs every check a canary
  needs; and every release outside the live-gated native canary needs every preparation check.\<close>

theorem later_phases_need_more:
  assumes "release_checks (JObj (dict_set kv ''phase'' (JStr ''canary''))) = Inr canary"
    and "release_checks (JObj (dict_set kv ''phase'' (JStr ''production''))) = Inr production"
  shows "set canary \<subseteq> set production \<and> set PREPARE_CHECKS \<subseteq> set production \<and>
    (canary = [] \<or> set PREPARE_CHECKS \<subseteq> set canary)"
proof -
  obtain a m where am: "lookup_or kv ''authenticationMode'' (JStr ''entra'') = JStr a"
      "lookup_or kv ''auditMode'' (JStr ''l3'') = JStr m"
    and c: "canary = [] \<or> canary = full_checks ''canary'' a m (truth (lookup_or kv ''telemetryEnabled'' JNull))
       (lookup_or kv ''optionalL3Enabled'' JNull = JBool True)"
    using release_checks_shape [OF assms(1)] by auto
  have p: "production = full_checks ''production'' a m (truth (lookup_or kv ''telemetryEnabled'' JNull))
       (lookup_or kv ''optionalL3Enabled'' JNull = JBool True)"
    using release_checks_shape [OF assms(2)] am by auto
  from c p show ?thesis
    by (elim disjE) (simp_all add: checks_grow checks_include_preparation)
qed

lemma later_phases_need_more_witness:
  "set PREPARE_CHECKS \<subseteq> set PRODUCTION_CHECKS \<and> set CANARY_CHECKS \<subseteq> set PRODUCTION_CHECKS"
proof -
  have "release_checks (JObj (dict_set [] ''phase'' (JStr ''canary''))) = Inr CANARY_CHECKS"
      "release_checks (JObj (dict_set [] ''phase'' (JStr ''production''))) = Inr PRODUCTION_CHECKS"
    by (simp_all add: release_checks_def in_strs_def live_gated_def phase_checks_def Let_def audit_checks_def
        authentication_checks_def)
  from later_phases_need_more [OF this] show ?thesis by simp
qed

end
