(* ===== verification/Deploy.thy ===== *)
theory Deploy
  imports Ingress_Runtime Customer_Config Release
begin

text \<open>
  The rest of \<open>scripts/migration_deploy.py\<close>: the values a deployment takes from earlier ones
  (\<open>resolve_origin\<close>), the narrow update of the Admin allowlist, and \<open>deploy_component\<close>, the operation
  that plans an infrastructure component, binds an approval to the plan and deploys it.
\<close>

section \<open>Resolved values\<close>

definition unset_or_auto :: "json \<Rightarrow> bool" where
  "unset_or_auto v \<longleftrightarrow> \<not> configured v \<or> v = JStr ''auto''"

definition put_parameters :: "json \<Rightarrow> string \<Rightarrow> obj \<Rightarrow> json res" where
  "put_parameters config component parameters = update_in [''parameters'', component] (\<lambda>_. val (JObj parameters)) config"

definition principal_key :: "string \<Rightarrow> string" where
  "principal_key role = role @ ''PrincipalId''"

definition audit_roles :: "obj \<Rightarrow> string list" where
  "audit_roles audit =
     [''writer'', ''reader'', ''retention''] @ (if ''recoveryPrincipalId'' \<in> set (keys_of audit) then [''recovery''] else [])"

definition principal_missing :: "obj \<Rightarrow> string \<Rightarrow> bool" where
  "principal_missing audit role \<longleftrightarrow>
     lookup_or audit (principal_key role) JNull = JStr ''auto'' \<or> \<not> configured (lookup_or audit (principal_key role) (JStr []))"

definition resolve_role :: "json \<Rightarrow> string \<Rightarrow> obj \<Rightarrow> obj res" where
  "resolve_role foundation role audit =
     (if \<not> principal_missing audit role then val audit
      else bindr (dget0 (val foundation) role) (\<lambda>v.
           check (val (is_dict v)) ''Redeploy audit-foundation to initialize the requested identity'' (
           bindr (sub (val v) ''principalId'') (\<lambda>principal. val (dict_set audit (principal_key role) principal)))))"

definition resolve_roles :: "json \<Rightarrow> obj \<Rightarrow> string list \<Rightarrow> obj res" where
  "resolve_roles output audit roles =
     check (eqs (dget0 (val output) ''state'') ''Succeeded'') ''Deploy audit-foundation before resolving audit identities'' (
     bindr (sub (val output) ''foundation'') (\<lambda>foundation.
     check (all_res (\<lambda>k. eqr (sub (val (JObj audit)) k) (sub (val foundation) k)) [''cmkVaultName'', ''cmkKeyName''])
       ''Audit foundation Vault/key differs from configured names'' (
     fold_res (resolve_role foundation) roles audit)))"

definition resolve_audit :: "sha \<Rightarrow> json \<Rightarrow> ('s, json) proc" where
  "resolve_audit sha config =
     letp (items (sub_at (val config) [''parameters'', ''audit''])) (\<lambda>audit.
     let roles = audit_roles audit in
     bindp (if list_ex (principal_missing audit) roles
            then bindp (shown_deployment sha config 8 ''audit-foundation''
                          ''{state:properties.provisioningState,foundation:properties.outputs.auditFoundation.value}'')
                   (\<lambda>output. letp (resolve_roles output audit roles) retp)
            else retp audit) (\<lambda>resolved.
     letp (map_res (\<lambda>role. mapr lower (str_of (sub (val (JObj resolved)) (principal_key role)))) roles) (\<lambda>principals.
     checkp (val (distinct principals)) ''Audit roles must be distinct service principals'' (
     letp (put_parameters config ''audit'' resolved) retp))))"

text \<open>The Private Link Services of the edge.\<close>

definition resolve_link :: "json \<Rightarrow> json \<Rightarrow> plane \<Rightarrow> obj \<Rightarrow> obj res" where
  "resolve_link config output p edge =
     bindr (items (sub (val (JObj edge)) (origin_key p))) (\<lambda>origin.
     bindr (sub (val (JObj origin)) ''privateLinkServiceId'') (\<lambda>service.
     if \<not> unset_or_auto service then val edge
     else
     bindr (dget0 (val output) (pname p)) (\<lambda>deployed.
     check (val (is_dict deployed)) (''Origin deployment lacks the '' @ pname p @ '' Private Link Service output'') (
     check (eqr (dget0 (val deployed) ''privateLinkLocation'') (sub (val config) ''location''))
       (''Deployed '' @ pname p @ '' Private Link Service location differs from the target region'') (
     bindr (dget (val deployed) ''privateLinkServiceId'' (JStr [])) (\<lambda>identifier.
     val (dict_set edge (origin_key p) (JObj (dict_set origin ''privateLinkServiceId'' identifier)))))))))"

definition link_of :: "obj \<Rightarrow> plane \<Rightarrow> json res" where
  "link_of edge p = sub (sub (val (JObj edge)) (origin_key p)) ''privateLinkServiceId''"

definition check_links :: "json \<Rightarrow> obj \<Rightarrow> unit res" where
  "check_links config edge =
     bindr (group_id config False) (\<lambda>g.
     let prefix = lower g @ ''/providers/microsoft.network/privatelinkservices/'' in
     check (all_res (\<lambda>p. mapr (\<lambda>s. starts_with (lower s) prefix) (str_of (link_of edge p))) [API, ADMIN])
       ''PLS resources must belong to the approved target resource group'' (
     bindr (str_of (link_of edge API)) (\<lambda>a.
     bindr (str_of (link_of edge ADMIN)) (\<lambda>b.
     check (val (lower a \<noteq> lower b)) ''API and Admin must use separate Private Link Services'' (val ())))))"

definition resolve_edge :: "sha \<Rightarrow> json \<Rightarrow> ('s, json) proc" where
  "resolve_edge sha config =
     letp (items (sub_at (val config) [''parameters'', ''edge''])) (\<lambda>edge.
     letp (any_res (\<lambda>p. mapr unset_or_auto (link_of edge p)) [API, ADMIN]) (\<lambda>missing.
     bindp (if missing
            then bindp (shown_deployment sha config 9 ''origin''
                   ''{state:properties.provisioningState,api:properties.outputs.privateOrigin.value,admin:properties.outputs.adminPrivateOrigin.value}'') (\<lambda>output.
                 checkp (eqs (dget0 (val output) ''state'') ''Succeeded'') ''Deploy the origin component before resolving edge'' (
                 letp (fold_res (resolve_link config output) [API, ADMIN] edge) retp))
            else retp edge) (\<lambda>resolved.
     letp (check_links config resolved) (\<lambda>_.
     letp (put_parameters config ''edge'' resolved) retp))))"

text \<open>The load balancer frontends of the origin.\<close>

definition balancer_key :: "string \<Rightarrow> string" where
  "balancer_key plane = plane @ ''LoadBalancer''"

definition managed_balancer :: "json \<Rightarrow> string \<Rightarrow> json \<Rightarrow> (json \<times> json) res" where
  "managed_balancer ingress plane balancer =
     bindr (sub (val ingress) plane) (\<lambda>managed.
     bindr (sub (val managed) ''privateIpAddress'') (\<lambda>address.
     bindr (fold_res (\<lambda>k b.
              bindr (sub (val (JObj b)) k) (\<lambda>wanted.
              check (disjr (val (unset_or_auto wanted)) (eqr (val wanted) (sub (val managed) k)))
                (''Configured origin differs from the verified '' @ plane @ '' ingress'') (
              bindr (sub (val managed) k) (\<lambda>v. val (dict_set b k v)))))
            [''resourceGroupName'', ''name'', ''frontendName''] (case balancer of JObj kv \<Rightarrow> kv | _ \<Rightarrow> [])) (\<lambda>b.
     val (JObj b, address))))"

definition managed_balancers :: "sha \<Rightarrow> json \<Rightarrow> json \<Rightarrow> (string \<times> json) list \<Rightarrow> (string \<times> json \<times> json) list res" where
  "managed_balancers sha config output balancers =
     check (eqs (dget0 (val output) ''state'') ''Succeeded'') ''Deploy and verify private-ingress before creating the origin'' (
     bindr (sub (val output) ''ingress'') (\<lambda>ingress.
     check (bindr (dget0 (val ingress) ''configSha256'') (\<lambda>stored. bindr (stage_fingerprint sha config 4) (\<lambda>now. val (stored = JStr now))))
       ''Private ingress outputs differ from the approved Stage 4 configuration'' (
     bindr (authentication_mode config) (\<lambda>mode.
     check (eqr (dget (val ingress) ''authenticationMode'' (JStr ''entra'')) (val mode))
       ''Private ingress authentication mode differs from the application; replan and execute private-ingress'' (
     bindr (map_res (\<lambda>(plane, b). bindr (managed_balancer ingress plane b) (\<lambda>(b, address). val (plane, b, address))) balancers) (\<lambda>managed.
     check (val (\<not> py_eq (snd (snd (hd managed))) (snd (snd (hd (tl managed))))))
       ''API/Admin private frontends must have separate addresses'' (val managed)))))))"

definition fits :: "json \<Rightarrow> string \<Rightarrow> json res \<Rightarrow> bool res" where
  "fits balancer key actual =
     bindr (sub (val balancer) key) (\<lambda>wanted. disjr (val (unset_or_auto wanted)) (eqr actual (val wanted)))"

definition frontend_fits :: "string \<Rightarrow> json \<Rightarrow> json \<Rightarrow> json \<Rightarrow> bool res" where
  "frontend_fits subnet balancer address frontend =
     allr [negr (testr truth (dget0 (val frontend) ''publicIPAddress'')), testr truth (dget0 (val frontend) ''privateIPAddress''),
           disjr (val (\<not> truth address)) (eqr (sub (val frontend) ''privateIPAddress'') (val address)),
           fits balancer ''frontendName'' (sub (val frontend) ''name''),
           lower_is (dgetO (val frontend) ''subnet'') ''id'' subnet]"

definition balancer_matches :: "json \<Rightarrow> string \<Rightarrow> json \<Rightarrow> json \<Rightarrow> json \<Rightarrow> json list res" where
  "balancer_matches node_group subnet balancer address candidate =
     bindr (conjr (eqs (get_at (val candidate) [''sku'', ''name'']) ''Standard'') (fits balancer ''name'' (sub (val candidate) ''name''))) (\<lambda>fit.
     if \<not> fit then val []
     else
     bindr (iter (dget (val candidate) ''frontendIPConfigurations'' (JList []))) (\<lambda>frontends.
     bindr (filter_res (frontend_fits subnet balancer address) frontends) (\<lambda>found.
     map_res (\<lambda>frontend. bindr (sub (val candidate) ''name'') (\<lambda>name. bindr (sub (val frontend) ''name'') (\<lambda>frontend_name.
       val (JObj [(''resourceGroupName'', node_group), (''name'', name), (''frontendName'', frontend_name)])))) found)))"

definition select_frontend :: "json \<Rightarrow> string \<Rightarrow> json list \<Rightarrow> string \<times> json \<times> json \<Rightarrow> (string \<times> json) res" where
  "select_frontend node_group subnet candidates b =
     (case b of (plane, balancer, address) \<Rightarrow>
     bindr (sub (val balancer) ''resourceGroupName'') (\<lambda>supplied.
     check (disjr (val (unset_or_auto supplied))
              (bindr (str_of (val supplied)) (\<lambda>s. bindr (str_of (val node_group)) (\<lambda>g. val (lower s = lower g)))))
       ''Configured load balancer group differs from actual AKS node resource group'' (
     bindr (map_res (balancer_matches node_group subnet balancer address) candidates) (\<lambda>found.
     let matches = List.concat found in
     check (val (length matches = 1))
       (''Expected exactly one reviewed private '' @ plane @ '' frontend; specify actual LB/frontend names to resolve ambiguity'') (
     val (plane, hd matches))))))"

definition resolve_origin_component :: "sha \<Rightarrow> json \<Rightarrow> ('s, json) proc" where
  "resolve_origin_component sha config =
     letp (str_of (sub_at (val config) [''parameters'', ''platform'', ''stage4Aks'', ''name''])) (\<lambda>cluster.
     letp (str_of (target_group config)) (\<lambda>rgroup.
     bindp (az_scoped config [''aks'', ''show'', ''--resource-group'', rgroup, ''--name'', cluster, ''--query'', ''nodeResourceGroup'']) (\<lambda>node_group.
     letp (items (sub_at (val config) [''parameters'', ''origin''])) (\<lambda>origin.
     letp (map_res (\<lambda>plane. bindr (sub (val (JObj origin)) (balancer_key plane)) (\<lambda>b. val (plane, b))) [''api'', ''admin'']) (\<lambda>balancers.
     letp (has (val config) ''privateIngress'') (\<lambda>managed.
     bindp (if managed
            then bindp (shown_deployment sha config 4 ''private-ingress''
                          ''{state:properties.provisioningState,ingress:properties.outputs.privateIngress.value}'')
                   (\<lambda>output. letp (managed_balancers sha config output balancers) retp)
            else retp (map (\<lambda>(plane, b). (plane, b, JNull)) balancers)) (\<lambda>wanted.
     letp (str_of (val node_group)) (\<lambda>g.
     bindp (az_scoped config [''network'', ''lb'', ''list'', ''--resource-group'', g]) (\<lambda>listed.
     letp (ingress_subnet_id config (JObj origin)) (\<lambda>subnet.
     letp (iter (val listed)) (\<lambda>candidates.
     letp (map_res (select_frontend node_group subnet candidates) wanted) (\<lambda>selected.
     checkp (val (\<not> py_eq (snd (hd selected)) (snd (hd (tl selected)))))
       ''API and Admin origins must not share one load balancer frontend'' (
     letp (put_parameters config ''origin'' (dict_update origin (map (\<lambda>(plane, b). (balancer_key plane, b)) selected))) retp)))))))))))))"

definition resolve_origin :: "sha \<Rightarrow> json \<Rightarrow> string \<Rightarrow> ('s, json) proc" where
  "resolve_origin sha config component =
     (if component = ''audit'' then resolve_audit sha config
      else if component = ''edge'' then resolve_edge sha config
      else if component = ''origin'' then resolve_origin_component sha config
      else retp config)"

section \<open>The narrow update of the Admin allowlist\<close>

text \<open>\<open>what_if_leaf_deltas\<close> is a generator that may raise: its values in order, where nothing is taken
  after an error.\<close>

definition is_digit_text :: "string \<Rightarrow> bool" where
  "is_digit_text s \<longleftrightarrow> s \<noteq> [] \<and> list_all (\<lambda>c. is_digit c \<or> c \<in> {CHR 0xB2, CHR 0xB3, CHR 0xB9}) s"

definition delta_path :: "string \<Rightarrow> string \<Rightarrow> string" where
  "delta_path parent segment =
     (if is_digit_text segment then parent @ ''['' @ segment @ '']''
      else join ''.'' (filter (\<lambda>p. p \<noteq> []) [parent, segment]))"

lemma size_map_of: "map_of kv k = Some v \<Longrightarrow> size v < size (JObj kv)"
  by (induction kv) (auto split: if_splits)

function (sequential) leaf_deltas :: "string \<Rightarrow> json \<Rightarrow> string res list" where
  "leaf_deltas parent (JList (d # ds)) =
     (case d of
        JObj kv \<Rightarrow>
          (case map_of kv ''path'' of
             Some (JStr (c # cs)) \<Rightarrow>
               (let at = delta_path parent (c # cs) in
                (case map_of kv ''children'' of
                   None \<Rightarrow> [val at]
                 | Some children \<Rightarrow> if truth children then leaf_deltas at children else [val at]))
           | _ \<Rightarrow> [Inl (MigrationError ''What-if property path is missing'')])
      | _ \<Rightarrow> [Inl AttributeError])
     @ (if ds = [] then [] else leaf_deltas parent (JList ds))"
| "leaf_deltas parent v = [Inl (MigrationError ''What-if requires explicit property changes'')]"
  by pat_completeness auto

termination
  by (relation "measure (\<lambda>(p, v). size v)") (auto dest!: size_map_of)

definition ALLOWLIST_PATH :: rx where
  "ALLOWLIST_PATH =
     cat [lit ''properties.customRules.rules[0].matchConditions[0].matchValue'',
          opt (cat [chr CHR ''['', plus1 (Cls (\<lambda>c. is_digit c)), chr CHR '']''])]"

definition allowlist_change :: "json \<Rightarrow> json \<Rightarrow> unit res" where
  "allowlist_change edge change =
     bindr (in_strs (dget0 (val change) ''changeType'') [''NoChange'', ''Ignore'']) (\<lambda>unaffected.
     if unaffected then val ()
     else
     check (allr [eqs (dget0 (val change) ''changeType'') ''Modify'',
                  bindr (mapr lower (str_of (dget (val change) ''resourceId'' (JStr [])))) (\<lambda>resource.
                  bindr (str_of (sub (val edge) ''adminWafId'')) (\<lambda>waf. val (resource = lower waf)))])
       ''Allowlist update cannot change endpoints, routes or other resources'' (
     bindr (dget0 (val change) ''delta'') (\<lambda>deltas.
     check (val (is_list deltas \<and> truth deltas)) ''Allowlist update requires explicit WAF property changes'' (
     check (all_res (mapr (rmatch ALLOWLIST_PATH)) (leaf_deltas [] deltas))
       ''Allowlist update requires granular source-IP matchValue changes only'' (val ())))))"

definition assert_allowlist_changes :: "json list \<Rightarrow> json \<Rightarrow> unit res" where
  "assert_allowlist_changes changes edge =
     check (conjr (is_true (dget0 (val edge) ''apiTrafficEnabled'')) (is_true (dget0 (val edge) ''adminTrafficEnabled'')))
       ''Allowlist updates require both existing traffic gates to be enabled'' (
     each (allowlist_change edge) changes)"

definition WAF_PROPERTIES :: "string list" where
  "WAF_PROPERTIES =
     [''policySettings'', ''customRules'', ''managedRules'', ''frontendEndpointLinks'', ''securityPolicyLinks'', ''routingRuleLinks'',
      ''resourceState'', ''provisioningState'']"

definition WAF_TYPE :: string where
  "WAF_TYPE = ''Microsoft.Network/frontDoorWebApplicationFirewallPolicies''"

definition set_match_value :: "json \<Rightarrow> json \<Rightarrow> json res" where
  "set_match_value cidr_list rule =
     bindr (items (val rule)) (\<lambda>kv.
     bindr (list_of (sub (val rule) ''matchConditions'')) (\<lambda>conditions.
     case conditions of
       [] \<Rightarrow> Inl IndexError
     | condition # rest \<Rightarrow> bindr (items (val condition)) (\<lambda>c.
         val (JObj (dict_set kv ''matchConditions'' (JList (JObj (dict_set c ''matchValue'' cidr_list) # rest)))))))"

text \<open>The WAF properties with the new source ranges in the first rule.\<close>

definition allowlist_properties :: "json \<Rightarrow> json \<Rightarrow> json \<Rightarrow> json res" where
  "allowlist_properties edge cidr_list properties =
     check (val (keys_within WAF_PROPERTIES properties)) ''Admin WAF has unknown properties; review before updating'' (
     bindr (items (val properties)) (\<lambda>all_properties.
     bindr (pick [''policySettings'', ''customRules'', ''managedRules''] all_properties) (\<lambda>desired.
     check (allr [eqs (dget0 (val properties) ''provisioningState'') ''Succeeded'',
                  eqs (dget0 (sub (val (JObj desired)) ''policySettings'') ''mode'') ''Prevention''])
       ''Admin WAF must be provisioned in Prevention mode'' (
     bindr (list_of (sub_at (val (JObj desired)) [''customRules'', ''rules''])) (\<lambda>rules.
     check (allr [val (rules \<noteq> []), eqs (dget0 (val (hd rules)) ''name'') ''BlockUnapprovedAdminSources'',
                  bindr (iter (dget (val (hd rules)) ''matchConditions'' (JList []))) (\<lambda>cs. val (length cs = 1))])
       ''Admin source-IP rule must retain its reviewed position and condition'' (
     bindr (iter (sub (val (hd rules)) ''matchConditions'')) (\<lambda>conditions.
     check (eqr (dget0 (val (hd conditions)) ''matchValue'') (sub (val edge) ''adminAllowedCidrs''))
       ''Live Admin WAF differs from the reviewed baseline'' (
     bindr (set_match_value cidr_list (hd rules)) (\<lambda>rule.
     update_in [''customRules'', ''rules''] (\<lambda>_. val (JList (rule # tl rules))) (JObj desired))))))))))"

definition parameter_kind :: "json \<Rightarrow> string res" where
  "parameter_kind v =
     (case v of
        JStr _ \<Rightarrow> val ''string'' | JBool _ \<Rightarrow> val ''bool'' | JInt _ \<Rightarrow> val ''int'' | JList _ \<Rightarrow> val ''array'' | JObj _ \<Rightarrow> val ''object''
      | _ \<Rightarrow> Inl (MigrationError ''Unsupported edge parameter type''))"

definition allowlist_template :: "json \<Rightarrow> json \<Rightarrow> json \<Rightarrow> json \<Rightarrow> string \<Rightarrow> json \<Rightarrow> json res" where
  "allowlist_template edge cidr_list live desired name parameters =
     bindr (sub (val live) ''location'') (\<lambda>location.
     bindr (sub_at (val live) [''sku'', ''name'']) (\<lambda>sku.
     bindr (dget0 (val live) ''tags'') (\<lambda>tags.
     bindr (items (val edge)) (\<lambda>e.
     bindr (items (sub (val parameters) ''parameters'')) (\<lambda>ps.
     bindr (map_res (\<lambda>(key, parameter). bindr (bindr (sub (val parameter) ''value'') parameter_kind) (\<lambda>kind.
              val (key, JObj [(''type'', JStr kind)]))) ps) (\<lambda>declarations.
     val (JObj [(''$schema'', JStr ''https://schema.management.azure.com/schemas/2019-04-01/deploymentTemplate.json#''),
       (''contentVersion'', JStr ''1.0.0.0''), (''parameters'', JObj declarations),
       (''resources'', JList [JObj ([(''type'', JStr WAF_TYPE), (''apiVersion'', JStr ''2024-02-01''), (''name'', JStr name),
          (''location'', location), (''sku'', JObj [(''name'', sku)]), (''properties'', desired)]
          @ (if tags \<noteq> JNull then [(''tags'', tags)] else []))]),
       (''outputs'', JObj [(''edge'', JObj [(''type'', JStr ''object''),
          (''value'', JObj (dict_set e ''adminAllowedCidrs'' cidr_list))])])])))))))"

definition prepare_allowlist_template :: "json \<Rightarrow> json \<Rightarrow> json \<Rightarrow> ('s, unit) proc" where
  "prepare_allowlist_template config edge parameters =
     letp (str_of (sub (val edge) ''adminWafId'')) (\<lambda>identifier.
     letp (group_id config False) (\<lambda>g.
     let prefix = g @ ''/providers/'' @ WAF_TYPE @ ''/''; name = drop (length prefix) identifier in
     checkp (val (starts_with (lower identifier) (lower prefix) \<and> CHR ''/'' \<notin> set name))
       ''Admin WAF must belong to the approved resource group'' (
     bindp (az_scoped config [''resource'', ''show'', ''--ids'', identifier, ''--api-version'', ''2024-02-01'']) (\<lambda>live.
     checkp (lower_is (val live) ''id'' identifier) ''Azure returned a different Admin WAF'' (
     letp (sub_at (val config) [''parameters'', ''edge'', ''adminAllowedCidrs'']) (\<lambda>cidr_list.
     letp (bindr (sub (val live) ''properties'') (allowlist_properties edge cidr_list)) (\<lambda>desired.
     letp (allowlist_template edge cidr_list live desired name parameters) (\<lambda>template.
     thenp (private_write ''template.json'' template) (
     private_write ''admin-waf-before.json'' live)))))))))"

section \<open>Deploying a component\<close>

text \<open>A request: \<open>JNull\<close> stands for an argument that was not given.\<close>

record request =
  rq_stage :: int
  rq_component :: string
  rq_revision :: json
  rq_previous :: json
  rq_release :: json
  rq_baseline :: json

definition with_admin_cidrs :: "json \<Rightarrow> json \<Rightarrow> json res" where
  "with_admin_cidrs config cidr_list =
     update_in [''parameters'', ''edge''] (\<lambda>e. bindr (items (val e)) (\<lambda>kv. val (JObj (dict_set kv ''adminAllowedCidrs'' cidr_list)))) config"

definition grows :: "json \<Rightarrow> json \<Rightarrow> bool res" where
  "grows before after =
     bindr (iter (val before)) (\<lambda>bs. bindr (iter (val after)) (\<lambda>as.
     if list_all hashable (bs @ as) then val (set bs \<subset> set as) else Inl TypeError))"

definition check_baseline :: "json \<Rightarrow> string \<Rightarrow> request \<Rightarrow> unit res" where
  "check_baseline config operation rq =
     (let at = [''parameters'', ''edge'', ''adminAllowedCidrs''] in
     check (val (operation = ''plan'' \<and> rq_stage rq = 9 \<and> rq_component rq = ''edge'' \<and> rq_release rq \<noteq> JNull))
       ''Allowlist baseline is only supported by the reviewed Stage9 edge plan'' (
     bindr (sub_at (val (rq_baseline rq)) at) (\<lambda>before.
     bindr (sub_at (val config) at) (\<lambda>after.
     bindr (with_admin_cidrs (rq_baseline rq) after) (\<lambda>expected.
     check (conjr (val (py_eq expected config)) (grows before after)) ''Allowlist update must only add Admin CIDRs'' (
     check (allr [in_strs (sub (val config) ''environment'') [''dev'', ''test''],
                  eqs (dget0 (val (rq_release rq)) ''phase'') ''canary'',
                  eqs (dget0 (val (rq_release rq)) ''authenticationMode'') ''native'',
                  eqs (dget0 (val (rq_release rq)) ''auditMode'') ''native''])
       ''Allowlist update is limited to native dev/test canary'' (val ())))))))"

definition check_request :: "sha \<Rightarrow> json \<Rightarrow> string \<Rightarrow> request \<Rightarrow> unit res" where
  "check_request sha config operation rq =
     check (val (operation \<in> {''plan'', ''deploy''})) ''Invalid deployment operation'' (
     check (val (map_of COMPONENTS (rq_component rq) \<noteq> None)) ''Unknown deployment component'' (
     check (fullmatch REVISION (val (if truth (rq_revision rq) then rq_revision rq else JStr [])))
       ''Full reviewed Git revision required'' (
     seqr (if rq_baseline rq \<noteq> JNull then check_baseline config operation rq else val ()) (
     bindr (str_of (sub (val config) ''environment'')) (\<lambda>environment.
     bindr (validate_config sha config environment) (\<lambda>_.
     bindr (active_stages config) (\<lambda>stages.
     check (val (rq_stage rq \<in> set stages)) ''Stage does not apply to the selected deployment mode'' (val ()))))))))"

text \<open>What a deployment needs beyond a plan: the evidence of the earlier stages and a well-formed
  approval, and no stage is deployed over a later accepted one.\<close>

definition check_deploy :: "sha \<Rightarrow> json \<Rightarrow> request \<Rightarrow> int \<Rightarrow> string \<Rightarrow> unit res" where
  "check_deploy sha config rq now approved =
     bindr (validate_evidence sha (rq_previous rq) (rq_stage rq) config (rq_revision rq) now) (\<lambda>completed.
     check (val (rmatch SHA256 approved)) ''Deploy requires an approved plan SHA256'' (
     check (val (\<not> (rq_component rq \<in> {''backup'', ''network''} \<and> (\<exists>s \<in> set completed. 4 \<le> s))))
       ''Do not reapply the bootstrap VNet after Stage 4'' (
     check (val (\<not> (rq_component rq = ''platform'' \<and> (\<exists>s \<in> set completed. rq_stage rq < s))))
       ''Do not apply an earlier platform stage over a later accepted stage'' (val ()))))"

text \<open>The context of the connectivity components, read before their plan.\<close>

definition component_connectivity :: "sha \<Rightarrow> json \<Rightarrow> string \<Rightarrow> ('s, json) proc" where
  "component_connectivity sha config component =
     thenp (whenp (component = ''certificate-vault'') (inspect_certificate_infrastructure config)) (
     if component = ''runner-connectivity'' then inspect_connectivity sha config
     else if component = ''runner-target-connectivity'' then inspect_target_connectivity sha config False
     else retp JNull)"

definition TARGET_KEYS :: "string list" where
  "TARGET_KEYS =
     [''createDnsLink'', ''dnsResourceGroupName'', ''privateDnsZoneName'', ''linkName'', ''aksResourceId'', ''apiHostname'',
      ''createAcrDnsLink'', ''acrDnsResourceGroupName'', ''acrPrivateDnsZoneName'', ''acrLinkName'', ''acrResourceId'', ''acrLoginServer'']"

definition put_values :: "obj \<Rightarrow> json \<Rightarrow> json res" where
  "put_values vs document =
     update_in [''parameters''] (\<lambda>p. bindr (items (val p)) (\<lambda>kv.
       val (JObj (dict_update kv (map (\<lambda>(k, v). (k, wrapped v)) vs))))) document"

definition target_documents :: "json \<Rightarrow> json \<Rightarrow> json res" where
  "target_documents connectivity document =
     bindr (items (val connectivity)) (\<lambda>kv. bindr (pick TARGET_KEYS kv) (\<lambda>vs. put_values vs document))"

text \<open>The release bound to the request: the code, the configuration and the resolved edge.\<close>

definition expected_audit :: "json \<Rightarrow> string res" where
  "expected_audit config = mapr (\<lambda>native. if native then ''native'' else ''l3'') (has (val config) ''contentAudit'')"

definition release_modes :: "json \<Rightarrow> json \<Rightarrow> unit res" where
  "release_modes config release =
     bindr (expected_audit config) (\<lambda>audit.
     check (bindr (dget (val release) ''optionalL3Enabled'' (JBool False)) (\<lambda>v.
              mapr (\<lambda>present. v = JBool present) (has (val config) ''l3Audit'')))
       ''Release optional L3 decision differs from customer configuration'' (
     check (eqs (dget (val release) ''auditMode'' (JStr ''l3'')) audit) ''Release audit mode differs from customer configuration'' (
     bindr (authentication_mode config) (\<lambda>authentication.
     check (eqr (dget (val release) ''authenticationMode'' (JStr ''entra'')) (val authentication))
       ''Release authentication mode differs from customer configuration'' (
     if audit = ''native''
     then check (bindr (dget0 (val release) ''telemetryEnabled'') (\<lambda>v. mapr (\<lambda>present. v = JBool present) (has (val config) ''observability'')))
            ''Release telemetry decision differs from customer configuration'' (val ())
     else val ())))))"

definition release_edge :: "json \<Rightarrow> json \<Rightarrow> unit res" where
  "release_edge release edge =
     seqr (each (\<lambda>(k, msg). check (eqr (sub (val release) k) (sub (val edge) k)) msg (val ()))
             [(''privateOrigin'', ''Release PLS differs from deployed origin''),
              (''adminPrivateOrigin'', ''Release Admin PLS differs from deployed origin''),
              (''adminAllowedCidrs'', ''Release Admin source-IP allowlist differs from the reviewed edge'')]) (
     check (allr [eqr (sub (val release) ''logAnalyticsWorkspaceName'') (sub (val edge) ''logAnalyticsWorkspaceName''),
                  eqr (sub (val release) ''rateLimitPerMinute'') (dget (val edge) ''rateLimitPerMinute'' (JInt 600)),
                  eqr (sub (val release) ''adminRateLimitPerMinute'') (dget (val edge) ''adminRateLimitPerMinute'' (JInt 120))])
       ''Release logging/rate configuration mismatch'' (val ()))"

definition approvals_of :: "string \<Rightarrow> nat" where
  "approvals_of mode = (if mode = ''single-operator'' then 1 else 2)"

definition check_release :: "sha \<Rightarrow> json \<Rightarrow> json \<Rightarrow> request \<Rightarrow> int \<Rightarrow> unit res" where
  "check_release sha config resolved rq now =
     (let release = rq_release rq in
     check (val (rq_stage rq = 9 \<and> rq_component rq = ''edge'')) ''Release operation only applies to Stage 9 edge'' (
     seqr (release_modes config release) (
     bindr (approval_policy config) (\<lambda>(mode, eligible).
     seqr (validate_release release now (approvals_of mode) eligible) (
     check (bindr (iter (sub (val release) ''approvedBy'')) (\<lambda>owners. val (length owners = approvals_of mode)))
       ''Release approval count differs from configured policy'' (
     check (allr [eqr (dget0 (val release) ''revision'') (val (rq_revision rq)),
                  bindr (stage_fingerprint sha config 9) (\<lambda>h. eqs (dget0 (val release) ''configSha256'') h)])
       ''Release must bind the reviewed code and stage configuration'' (
     check (allr [eqr (sub (val release) ''environmentName'') (sub (val config) ''environment''),
                  eqr (sub (val release) ''baseDomain'') (sub (val config) ''baseDomain'')])
       ''Release environment/domain mismatch'' (
     bindr (sub_at (val resolved) [''parameters'', ''edge'']) (release_edge release)))))))))"

text \<open>The previous edge, and the live bindings a release that opens traffic requires.\<close>

definition previous_edge :: "sha \<Rightarrow> json \<Rightarrow> json \<Rightarrow> ('s, json) proc" where
  "previous_edge sha config release =
     bindp (shown_deployment sha config 9 ''edge'' ''{state:properties.provisioningState,edge:properties.outputs.edge.value}'') (\<lambda>output.
     checkp (eqs (dget0 (val output) ''state'') ''Succeeded'') ''Provision the disabled edge before releasing traffic'' (
     checkp (eqr (dget0 (val release) ''frontDoorId'') (dget0 (dgetO (val output) ''edge'') ''profileId''))
       ''Release Front Door identity differs from the provisioned edge'' (retp output)))"

definition opens_traffic :: "json \<Rightarrow> json \<Rightarrow> bool res" where
  "opens_traffic config release = conjr (negr (eqs (sub (val release) ''phase'') ''prepare'')) (has (val config) ''application'')"

definition require_bindings :: "sha \<Rightarrow> yload \<Rightarrow> json \<Rightarrow> request \<Rightarrow> ('s, unit) proc" where
  "require_bindings sha yload config rq =
     (let reviewed = (if truth (rq_baseline rq) then rq_baseline rq else config) in
     bindp (connect_cluster config False) (\<lambda>kube.
     letp (str_of (sub (val (rq_release rq)) ''frontDoorId'')) (\<lambda>identifier.
     thenp (require_edge_binding sha yload reviewed (rq_revision rq) identifier (Some kube)) (
     letp (authentication_mode config) (\<lambda>mode.
     whenp (mode = JStr ''native'') (require_private_ingress_backends sha reviewed (Some identifier)))))))"

definition traffic_values :: "json \<Rightarrow> obj res" where
  "traffic_values release =
     bindr (sub (val release) ''phase'') (\<lambda>phase.
     bindr (sub (val release) ''wafMode'') (\<lambda>waf.
     val [(''enableApiTraffic'', JBool (phase \<noteq> JStr ''prepare'')), (''enableAdminTraffic'', JBool (phase \<noteq> JStr ''prepare'')),
          (''wafMode'', waf)]))"

text \<open>The parameters of a release and the edge it starts from.\<close>

definition release_section ::
    "sha \<Rightarrow> yload \<Rightarrow> json \<Rightarrow> json \<Rightarrow> request \<Rightarrow> int \<Rightarrow> json \<Rightarrow> ('s, json \<times> json) proc" where
  "release_section sha yload config resolved rq now document =
     (if rq_release rq = JNull then retp (document, JNull)
      else
      letp (check_release sha config resolved rq now) (\<lambda>_.
      bindp (previous_edge sha config (rq_release rq)) (\<lambda>before.
      letp (opens_traffic config (rq_release rq)) (\<lambda>opens.
      thenp (whenp opens (require_bindings sha yload config rq)) (
      letp (bindr (traffic_values (rq_release rq)) (\<lambda>vs. put_values vs document)) (\<lambda>document.
      thenp (private_write ''parameters.json'' document) (retp (document, before))))))))"

definition target_section :: "string \<Rightarrow> json \<Rightarrow> json \<Rightarrow> ('s, json) proc" where
  "target_section component connectivity document =
     (if component \<noteq> ''runner-target-connectivity'' then retp document
      else letp (target_documents connectivity document) (\<lambda>document.
           thenp (private_write ''parameters.json'' document) (
           thenp (private_write ''connectivity-review.json'' connectivity) (retp document))))"

text \<open>The template: compiled from Bicep, or the narrow allowlist template; the hash is of its bytes.\<close>

definition compile_template :: "json \<Rightarrow> request \<Rightarrow> string \<Rightarrow> json \<Rightarrow> json \<Rightarrow> ('s, string) proc" where
  "compile_template config rq file before document =
     thenp (if rq_baseline rq \<noteq> JNull
            then letp (sub (val before) ''edge'') (\<lambda>edge. prepare_allowlist_template config edge document)
            else bindp (perform (Command [''az'', ''bicep'', ''build'', ''--file'', file, ''--outfile'', ''template.json''])) (\<lambda>r.
                 thenp (private_write ''bicep-diagnostics.txt'' JNull) (
                 checkp (val (r \<noteq> Failure)) ''Bicep compilation failed'' (retp ())))) (
     bindp (perform (Client ''read_bytes'' [JStr ''template.json''])) (\<lambda>bytes.
     case bytes of Text t \<Rightarrow> retp t | _ \<Rightarrow> failp (OSError ''template.json'')))"

definition deployment_scope :: "string \<Rightarrow> string" where
  "deployment_scope component = (if component = ''bootstrap'' then ''sub'' else ''group'')"

definition deployment_arguments :: "sha \<Rightarrow> json \<Rightarrow> request \<Rightarrow> string list res" where
  "deployment_arguments sha config rq =
     bindr (if rq_component rq = ''bootstrap''
            then mapr (\<lambda>l. [''--location'', l]) (str_of (sub (val config) ''location''))
            else mapr (\<lambda>g. [''--resource-group'', g])
              (str_of (sub_at (val config) [if rq_component rq \<in> set LEGACY_COMPONENTS then ''legacy'' else ''target'', ''resourceGroup'']))) (\<lambda>place.
     bindr (deployment_name sha config (rq_stage rq) (rq_component rq)) (\<lambda>name.
     val (place @ [''--name'', name, ''--template-file'', ''template.json'', ''--parameters'', ''@parameters.json''])))"

definition reviewed_parameters :: "sha \<Rightarrow> request \<Rightarrow> json \<Rightarrow> json \<Rightarrow> obj res" where
  "reviewed_parameters sha rq document connectivity =
     bindr (if rq_baseline rq \<noteq> JNull
            then mapr (\<lambda>h. [(''allowlistBaselineSha256'', JStr h)]) (stage_fingerprint sha (rq_baseline rq) 9) else val []) (\<lambda>baseline.
     val ([(''parameters'', document), (''release'', rq_release rq)] @ baseline
          @ (if connectivity \<noteq> JNull then [(''connectivity'', connectivity)] else [])))"

definition deployment_review :: "obj \<Rightarrow> request \<Rightarrow> json list \<Rightarrow> json res" where
  "deployment_review plan rq changes =
     bindr (filter_res (\<lambda>c. negr (eqs (sub (val c) ''changeType'') ''Ignore'')) changes) (\<lambda>shown.
     val (JObj [(''planSha256'', lookup_or plan ''planSha256'' JNull), (''revision'', rq_revision rq), (''changes'', JList shown)]))"

record deployment_plan =
  dp_plan :: obj
  dp_arguments :: "string list"
  dp_connectivity :: json

definition plan_changes ::
    "sha \<Rightarrow> (string \<Rightarrow> string) \<Rightarrow> json \<Rightarrow> request \<Rightarrow> string \<Rightarrow> json \<Rightarrow> json \<Rightarrow> json \<Rightarrow> json \<Rightarrow> (obj \<times> json) res" where
  "plan_changes sha uuid5 config rq bytes document before connectivity response =
     check (conjr (eqs (dget0 (val response) ''status'') ''Succeeded'') (testr is_list (dget0 (val response) ''changes'')))
       ''What-if did not produce a successful change list'' (
     bindr (list_of (sub (val response) ''changes'')) (\<lambda>changes.
     seqr (if rq_baseline rq \<noteq> JNull then bindr (sub (val before) ''edge'') (assert_allowlist_changes changes) else val ()) (
     bindr (reviewed_parameters sha rq document connectivity) (\<lambda>parameters.
     bindr (build_plan sha uuid5 config (rq_stage rq) (rq_component rq) (rq_revision rq) (sha bytes) (JObj parameters) changes connectivity) (\<lambda>plan.
     bindr (deployment_review plan rq changes) (\<lambda>review. val (plan, review)))))))"

definition deploy_prepare ::
    "sha \<Rightarrow> (string \<Rightarrow> string) \<Rightarrow> yload \<Rightarrow> bool \<Rightarrow> json \<Rightarrow> request \<Rightarrow> int \<Rightarrow> ('s, deployment_plan) proc" where
  "deploy_prepare sha uuid5 yload under_temp config rq now =
     checkp (val under_temp) ''Deployment output must stay under temp/'' (
     thenp (check_login config) (
     bindp (component_connectivity sha config (rq_component rq)) (\<lambda>connectivity.
     bindp (resolve_origin sha config (rq_component rq)) (\<lambda>resolved.
     bindp (prepare_component sha under_temp resolved (rq_stage rq) (rq_component rq)) (\<lambda>file.
     letp (mapr snd (parameters_for sha resolved (rq_stage rq) (rq_component rq))) (\<lambda>document.
     bindp (target_section (rq_component rq) connectivity document) (\<lambda>document.
     bindp (release_section sha yload config resolved rq now document) (\<lambda>(document, before).
     bindp (compile_template config rq file before document) (\<lambda>bytes.
     letp (deployment_arguments sha config rq) (\<lambda>arguments.
     bindp (az_scoped config ([''deployment'', deployment_scope (rq_component rq), ''what-if''] @ arguments
              @ [''--result-format'', ''FullResourcePayloads'', ''--no-pretty-print''])) (\<lambda>response.
     letp (plan_changes sha uuid5 config rq bytes document before connectivity response) (\<lambda>(plan, review).
     thenp (private_write ''reviewed-plan.json'' review) (
     thenp (private_write ''plan-summary.json'' (JObj plan)) (
     retp \<lparr>dp_plan = plan, dp_arguments = arguments, dp_connectivity = connectivity\<rparr>))))))))))))))"

definition RECEIPT_KEYS :: "string list" where
  "RECEIPT_KEYS = [''stage'', ''component'', ''environment'', ''revision'', ''configSha256'', ''planSha256'']"

definition deploy_apply :: "sha \<Rightarrow> json \<Rightarrow> request \<Rightarrow> deployment_plan \<Rightarrow> ('s, obj) proc" where
  "deploy_apply sha config rq p =
     bindp (az_scoped config ([''deployment'', deployment_scope (rq_component rq), ''create''] @ dp_arguments p
              @ (if deployment_scope (rq_component rq) = ''group'' then [''--mode'', ''Incremental''] else []))) (\<lambda>deployed.
     checkp (eqs (get_at (val deployed) [''properties'', ''provisioningState'']) ''Succeeded'')
       ''Deployment did not succeed; no acceptance evidence created'' (
     thenp (whenp (rq_component rq = ''runner-target-connectivity'')
              (bindp (inspect_target_connectivity sha config True) (\<lambda>verified.
               checkp (val (py_eq verified (dp_connectivity p)))
                 ''AKS DNS context changed during deployment; inspect connectivity before proceeding'' (retp ())))) (
     letp (pick RECEIPT_KEYS (dp_plan p)) (\<lambda>kept.
     letp (dget0 (val deployed) ''id'') (\<lambda>identifier.
     let receipt = dict_update kept [(''deploymentId'', identifier), (''provisioningState'', JStr ''Succeeded''), (''stageAccepted'', JBool False)] in
     letp (dgetO (dgetO (val deployed) ''properties'') ''outputs'') (\<lambda>outputs.
     thenp (private_write ''deployment-outputs.json'' outputs) (
     thenp (private_write ''deployment-receipt.json'' (JObj receipt)) (retp receipt))))))))"

text \<open>\<open>plan["planSha256"]\<close>, which \<open>build_plan\<close> sets to a string.\<close>

definition plan_hash :: "deployment_plan \<Rightarrow> string" where
  "plan_hash p = text_or_empty (lookup_or (dp_plan p) ''planSha256'' JNull)"

definition deploy_component ::
    "sha \<Rightarrow> (string \<Rightarrow> string) \<Rightarrow> yload \<Rightarrow> bool \<Rightarrow> json \<Rightarrow> request \<Rightarrow> int \<Rightarrow> string \<Rightarrow> string \<Rightarrow> ('s, obj) proc" where
  "deploy_component sha uuid5 yload under_temp config rq now operation approved =
     letp (check_request sha config operation rq) (\<lambda>_.
     letp (if operation = ''deploy'' then check_deploy sha config rq now approved else val ()) (\<lambda>_.
     bindp (deploy_prepare sha uuid5 yload under_temp config rq now) (\<lambda>p.
     if operation = ''plan'' then retp (dp_plan p)
     else checkp (val (plan_hash p = approved)) ''Plan changed since approval; review the new plan before deploying''
            (deploy_apply sha config rq p))))"

section \<open>Events\<close>

text \<open>An Azure command that creates something: its words end in \<open>create\<close>.\<close>

definition creates :: "event \<Rightarrow> bool" where
  "creates e \<longleftrightarrow>
     (case fst e of
        Command (tool # arguments) \<Rightarrow> tool = ''az'' \<and> az_words arguments \<noteq> [] \<and> last (az_words arguments) = ''create''
      | _ \<Rightarrow> False)"

definition keeping :: "event \<Rightarrow> bool" where
  "keeping e \<longleftrightarrow> \<not> creates e"

named_theorems keeping_intros \<open>runs that create nothing\<close>

lemma keeping_simps [simp]: "keeping (WriteFile n d, r)" "keeping (Client m a, r)" "tool \<noteq> ''az'' \<Longrightarrow> keeping (Command (tool # xs), r)"
  by (simp_all add: keeping_def creates_def)

lemma reading_keeps: "only reading p \<Longrightarrow> only keeping p"
  by (erule only_mono) (auto simp: reading_def keeping_def creates_def az_reads_def split: call.splits list.splits)

lemma az_words_append: "list_ex (\<lambda>w. starts_with w ''--'') a \<Longrightarrow> az_words (a @ b) = az_words a"
  by (induction a) (auto simp: az_words_def)

lemma keeping_az:
  "last (az_words (arguments @ [''--only-show-errors''])) \<noteq> ''create'' \<Longrightarrow> keeping (az_command arguments, r)"
  using az_words_append [of "arguments @ [''--only-show-errors'']" "[''--output'', ''json'']"]
  by (simp add: keeping_def creates_def az_command_def starts_with_def)

lemma keeping_subscription:
  "last (az_words (arguments @ [''--subscription''])) \<noteq> ''create'' \<Longrightarrow> keeping (az_command (arguments @ [''--subscription'', i]), r)"
  using az_words_append [of "arguments @ [''--subscription'']" "[i, ''--only-show-errors'', ''--output'', ''json'']"]
  by (simp add: keeping_def creates_def az_command_def starts_with_def)

lemma keeping_scoped [keeping_intros]:
  "last (az_words (arguments @ [''--subscription''])) \<noteq> ''create'' \<Longrightarrow> only keeping (az_scoped_with e config arguments)"
  by (intro only_az_scoped keeping_subscription) simp_all

lemma keeping_run [keeping_intros]:
  "last (az_words (arguments @ [''--only-show-errors''])) \<noteq> ''create'' \<Longrightarrow> only keeping (az_run e arguments)"
  by (intro only_az_run keeping_az) simp_all

lemma keeping_command [keeping_intros]:
  "tool \<noteq> ''az'' \<or> last (az_words arguments) \<noteq> ''create'' \<Longrightarrow> only keeping (run_command (tool # arguments) label)"
  by (intro only_run_command) (auto simp: keeping_def creates_def)

lemmas words_eval = az_words_def starts_with_def

lemma keeping_shows [keeping_intros]:
  "only keeping (deployment_outputs config rgroup name projection)" "only keeping (deployed_resource config i v)"
  "only keeping (check_login config)"
  unfolding deployment_outputs_def deployed_resource_def check_login_def
  by (intro only_intros keeping_intros; simp add: words_eval)+

lemma keeping_shown [keeping_intros]:
  "only keeping (shown_deployment sha config stage component projection)" "only keeping (show_deployment sha config component projection)"
  unfolding shown_deployment_def show_deployment_def by (intro only_intros keeping_intros)+

lemma keeping_probe [keeping_intros]: "only keeping (probe_plane config edge p)"
  unfolding probe_plane_def probe_enabled_route_def by (intro only_intros) simp

lemma keeping_edge_resources [keeping_intros]: "only keeping (validate_private_edge_resources config i origins edge)"
  unfolding validate_private_edge_resources_def endpoint_properties_def Edge_Binding.check_route_def check_origin_plane_def check_domain_def
  by (intro only_intros only_mapp keeping_intros)

lemma keeping_edge [keeping_intros]: "only keeping (Edge_Binding.deployed_edge sha config)"
  unfolding Edge_Binding.deployed_edge_def Let_def by (intro only_intros keeping_intros)

lemma keeping_connect [keeping_intros]: "only keeping (connect_cluster config legacy)"
  unfolding connect_cluster_def by (intro only_intros keeping_intros) (simp_all add: words_eval)

lemma keeping_get: "is_kube kube \<Longrightarrow> only keeping (kube_get kube kind name optional)"
  unfolding kube_get_def by (intro only_intros only_kube_run) (auto simp: is_kube_def)

lemma keeping_require [keeping_intros]:
  "only keeping (require_ingress sha yload config target_kube identifier planes plane)"
  "only keeping (require_proxy sha config target_kube identifier planes plane)"
  unfolding require_ingress_def require_proxy_def native_ingress_state_def ingress_documents_def
  by (intro only_intros keeping_get target_client)+

lemma keeping_require_edge [keeping_intros]:
  "only keeping (require_edge_binding sha yload config revision identifier (Some target_kube))"
  unfolding require_edge_binding_def option.case by (intro only_intros keeping_intros) (auto intro: keeping_intros)

lemma keeping_verify [keeping_intros]: "only keeping (verify_endpoint address host other_host sha256 native plane identifier)"
  unfolding verify_endpoint_def send_probe_def
  by (intro only_intros) (auto intro!: only_intros split: reply.splits json.splits list.splits)

lemma keeping_backends [keeping_intros]: "only keeping (require_private_ingress_backends sha config identifier)"
  unfolding require_private_ingress_backends_def deployed_private_ingress_def verify_native_ingress_routes_def verify_plane_def
  by (intro only_intros only_mapp keeping_intros)

lemma keeping_connectivity [keeping_intros]: "only keeping (component_connectivity sha config component)"
  unfolding component_connectivity_def
  by (intro only_intros reading_keeps [OF only_reading_certificates] reading_keeps [OF only_reading_connectivity]
      reading_keeps [OF only_reading_target])

lemma keeping_resolve [keeping_intros]: "only keeping (resolve_origin sha config component)"
  unfolding resolve_origin_def resolve_audit_def resolve_edge_def resolve_origin_component_def Let_def
  by (intro only_intros keeping_intros; simp add: words_eval)

lemma keeping_prepare [keeping_intros]: "only keeping (prepare_component sha under_temp config stage component)"
  unfolding prepare_component_def by (intro only_intros only_private_write) simp

lemma keeping_release [keeping_intros]: "only keeping (release_section sha yload config resolved rq now document)"
proof -
  have "only keeping (require_bindings sha yload config rq)"
    unfolding require_bindings_def Let_def
    by (intro only_bindp_returns keeping_intros)
      (auto intro!: only_intros keeping_intros dest!: connect_target)
  then show ?thesis
    unfolding release_section_def previous_edge_def by (intro only_intros only_private_write keeping_intros) simp_all
qed

lemma keeping_compile [keeping_intros]: "only keeping (compile_template config rq file before document)"
  unfolding compile_template_def prepare_allowlist_template_def Let_def
  by (intro only_intros only_private_write keeping_intros)
    (auto intro!: only_intros simp: words_eval keeping_def creates_def split: reply.splits)

lemma keeping_target [keeping_intros]: "only keeping (target_section component connectivity document)"
  unfolding target_section_def by (intro only_intros only_private_write) simp_all

lemma deployment_arguments_shape:
  "deployment_arguments sha config rq = Inr xs \<Longrightarrow> \<exists>r. xs = ''--location'' # r \<or> xs = ''--resource-group'' # r"
  by (auto simp: deployment_arguments_def py_ok split: if_splits)

lemma deploy_prepare_keeps: "only keeping (deploy_prepare sha uuid5 yload under_temp config rq now)"
  unfolding deploy_prepare_def
  by (intro only_intros only_private_write keeping_intros) (auto dest!: deployment_arguments_shape simp: words_eval)


lemma deploy_apply_any: "only (\<lambda>_. True) (deploy_apply sha config rq p)"
  unfolding deploy_apply_def Let_def
  by (intro only_intros only_private_write only_az_scoped only_mono [OF only_reading_target] TrueI)

lemma deploy_prepare_reviewed:
  "wp (deploy_prepare sha uuid5 yload under_temp config rq now)
      (\<lambda>p l. \<exists>r. (WriteFile ''plan-summary.json'' (JObj (dp_plan p)), r) \<in> set l) (\<lambda>_. True) l"
  unfolding deploy_prepare_def
  by (rule wp_intros wp_private_write wp_drop TrueI | force)+

text \<open>The two phases of \<open>deploy_component\<close> without the checks of the request.\<close>

definition deploy_gate ::
    "sha \<Rightarrow> (string \<Rightarrow> string) \<Rightarrow> yload \<Rightarrow> bool \<Rightarrow> json \<Rightarrow> request \<Rightarrow> int \<Rightarrow> string \<Rightarrow> string \<Rightarrow> ('s, obj) proc" where
  "deploy_gate sha uuid5 yload under_temp config rq now operation approved =
     bindp (deploy_prepare sha uuid5 yload under_temp config rq now) (\<lambda>p.
     if operation = ''plan'' then retp (dp_plan p)
     else checkp (val (approved = plan_hash p)) ''Plan changed since approval; review the new plan before deploying''
            (deploy_apply sha config rq p))"

definition admit_deployment :: "sha \<Rightarrow> json \<Rightarrow> request \<Rightarrow> int \<Rightarrow> string \<Rightarrow> string \<Rightarrow> unit res" where
  "admit_deployment sha config rq now operation approved =
     bindr (check_request sha config operation rq) (\<lambda>_.
     if operation = ''deploy'' then check_deploy sha config rq now approved else val ())"

lemma deploy_component_gate:
  "operation = ''plan'' \<or> operation = ''deploy'' \<Longrightarrow>
   deploy_component sha uuid5 yload under_temp config rq now operation approved =
     letp (admit_deployment sha config rq now operation approved) (\<lambda>_.
     deploy_gate sha uuid5 yload under_temp config rq now (if operation = ''plan'' then ''plan'' else ''execute'') approved)"
  by (cases "check_request sha config operation rq")
    (auto simp: deploy_component_def admit_deployment_def deploy_gate_def letp_def eq_commute [of approved] split: sum.splits)

interpretation deployment: admitted_gate
    "deploy_gate sha uuid5 yload under_temp config rq now" "deploy_prepare sha uuid5 yload under_temp config rq now"
    "\<lambda>p. retp (dp_plan p)" "deploy_apply sha config rq" plan_hash "\<lambda>p. WriteFile ''plan-summary.json'' (JObj (dp_plan p))"
    "''Plan changed since approval; review the new plan before deploying''" keeping
    "deploy_component sha uuid5 yload under_temp config rq now" "admit_deployment sha config rq now" "''deploy''"
  for sha uuid5 yload under_temp config rq now
  by unfold_locales
    (auto simp: deploy_gate_def deploy_component_gate
      intro!: only_intros deploy_prepare_keeps deploy_apply_any deploy_prepare_reviewed)

text \<open>
  C14: whatever Azure and the cluster reply, a run of \<open>deploy_component\<close> either created nothing in Azure,
  or it was a \<open>deploy\<close> run that was admitted (a valid request, the evidence of every earlier stage, a
  well-formed approval, no stage deployed over a later one) and whose approved hash is the hash of a
  plan the same run had written for review.
\<close>

theorem deployments_are_approved:
  "list_all keeping (log (snd (deploy_component sha uuid5 yload under_temp config rq now operation approved sv (start s)))) \<or>
   (operation = ''deploy'' \<and> admit_deployment sha config rq now ''deploy'' approved = Inr () \<and>
    (\<exists>plan r. approved = text_or_empty (lookup_or plan ''planSha256'' JNull) \<and> (WriteFile ''plan-summary.json'' (JObj plan), r) \<in>
       set (log (snd (deploy_component sha uuid5 yload under_temp config rq now operation approved sv (start s))))))"
proof (cases "operation = ''plan'' \<or> operation = ''deploy''")
  case True
  then show ?thesis
    using deployment.admitted_harmful [of operation _ sha uuid5 yload under_temp config rq now approved sv s]
    unfolding list_all_iff plan_hash_def by metis
next
  case False
  then show ?thesis
    by (simp add: deploy_component_def check_request_def letp_def failp_def start_def)
qed

end
