(* ===== verification/Audit_Window.thy ===== *)
theory Audit_Window
  imports Kube Py_Loads Approval_Gate
begin

text \<open>
  \<open>scripts/audit_window.py\<close> and the window branch of \<open>audit_operation\<close> in
  \<open>scripts/audit_runtime.py\<close>: the audit writer and the retention job are paused for a recovery
  and resumed afterwards.  The window is a \<open>ConfigMap\<close> that keeps the phase and what the
  workloads looked like; an absent window is \<open>JNull\<close>.  The identity \<open>uuid4()\<close> gives a new
  window is a parameter.
\<close>

section \<open>The window\<close>

definition WINDOW_NAME :: string where "WINDOW_NAME = ''llmgw-audit-recovery-window''"

definition TARGETS :: "(string \<times> string) list" where
  "TARGETS = [(''deployment'', ''llm-api-proxy''), (''cronjob'', ''l3-retention'')]"

definition window_phases :: "string list" where
  "window_phases = [''pausing'', ''paused'', ''resuming'']"

definition window_state :: "json \<Rightarrow> json \<Rightarrow> json res" where
  "window_state wscope resource =
     bindr (loads_value (dget (dgetO (val resource) ''data'') ''window.json'' (JStr ''null''))) (\<lambda>state.
     check (conjr (val (is_dict state))
           (conjr (eqr (dget0 (val state) ''version'') (val (JInt 1))) (eqr (dget0 (val state) ''scope'') (val wscope))))
       ''Audit maintenance window belongs to another configuration or target'' (
     check (in_strs (dget0 (val state) ''phase'') window_phases) ''Invalid audit maintenance phase'' (
     check (bindr (iter (dgetO (val state) ''resources'')) (set_is (map fst TARGETS))) ''Invalid audit maintenance targets'' (
     val state))))"

definition load_window :: "string list \<Rightarrow> json \<Rightarrow> ('s, json \<times> json) proc" where
  "load_window kube wscope =
     bindp (kube_get kube ''configmap'' WINDOW_NAME True) (\<lambda>resource.
     if resource = JNull then retp (JNull, JNull)
     else letp (window_state wscope resource) (\<lambda>state. retp (resource, state)))"

definition window_data :: "json \<Rightarrow> json" where
  "window_data state = JObj [(''window.json'', JStr (dumps_sorted state))]"

definition save_window :: "string list \<Rightarrow> json \<Rightarrow> json \<Rightarrow> ('s, unit) proc" where
  "save_window kube resource state =
     letp (sub (sub (val resource) ''metadata'') ''uid'') (\<lambda>uid.
     letp (sub (val resource) ''data'') (\<lambda>old.
     kube_patch kube ''configmap'' WINDOW_NAME (replace_data uid old (window_data state))))"

section \<open>The workloads\<close>

definition writer_account :: "json \<Rightarrow> bool res" where
  "writer_account resource =
     eqs (dget0 (sub (sub (sub (val resource) ''spec'') ''template'') ''spec'') ''serviceAccountName'') ''llm-api-proxy''"

definition retention_account :: "json \<Rightarrow> bool res" where
  "retention_account resource =
     eqs (dget0 (sub (sub (sub (sub (sub (val resource) ''spec'') ''jobTemplate'') ''spec'') ''template'') ''spec'')
       ''serviceAccountName'') ''l3-retention''"

text \<open>The two workloads with their kinds, in the order of \<open>TARGETS\<close>.\<close>

definition target_state :: "string list \<Rightarrow> ('s, obj) proc" where
  "target_state kube =
     bindp (kube_get kube ''deployment'' ''llm-api-proxy'' False) (\<lambda>writer.
     bindp (kube_get kube ''cronjob'' ''l3-retention'' False) (\<lambda>retention.
     checkp (writer_account writer) ''Unexpected audit writer service account'' (
     checkp (retention_account retention) ''Unexpected audit retention service account'' (
     retp [(''deployment'', writer), (''cronjob'', retention)]))))"

definition spec_hash :: "sha \<Rightarrow> json \<Rightarrow> string res" where
  "spec_hash sha resource = mapr (fingerprint sha) (sub (val resource) ''spec'')"

text \<open>The field that stops a workload, its stopped value and its default.\<close>

definition pause_field :: "string \<Rightarrow> string" where
  "pause_field kind = (if kind = ''deployment'' then ''replicas'' else ''suspend'')"

definition paused_value :: "string \<Rightarrow> json" where
  "paused_value kind = (if kind = ''deployment'' then JInt 0 else JBool True)"

definition default_value :: "string \<Rightarrow> json" where
  "default_value kind = (if kind = ''deployment'' then JInt 1 else JBool False)"

definition paused_spec :: "string \<Rightarrow> obj \<Rightarrow> obj" where
  "paused_spec kind spec = dict_set spec (pause_field kind) (paused_value kind)"

definition saved_target :: "sha \<Rightarrow> string \<Rightarrow> json \<Rightarrow> json res" where
  "saved_target sha kind resource =
     bindr (dict_of (sub (val resource) ''spec'')) (\<lambda>spec.
     bindr (sub (sub (val resource) ''metadata'') ''uid'') (\<lambda>uid.
     val (JObj
       [(''uid'', uid), (''originalSha256'', JStr (fingerprint sha (JObj spec))),
        (''pausedSha256'', JStr (fingerprint sha (JObj (paused_spec kind spec)))),
        (''fieldPresent'', JBool (map_of spec (pause_field kind) \<noteq> None)),
        (''originalValue'', lookup_or spec (pause_field kind) (default_value kind))])))"

definition snapshot :: "sha \<Rightarrow> obj \<Rightarrow> json res" where
  "snapshot sha resources =
     bindr (dget (sub (sub (val (JObj resources)) ''deployment'') ''spec'') ''replicas'' (JInt 1)) (\<lambda>replicas.
     check (val (is_int replicas \<and> int_le 1 replicas \<and> le_int replicas 32))
       ''Initial audit writer replicas must be between 1 and 32'' (
     mapr JObj (map_res (\<lambda>(kind, resource).
       mapr (\<lambda>s. (kind, s)) (saved_target sha kind resource)) resources)))"

definition saved_of :: "json \<Rightarrow> string \<Rightarrow> json res" where
  "saved_of state kind = sub (sub (val state) ''resources'') kind"

text \<open>\<open>h in {a, b}\<close> of a string and two values.\<close>

definition hash_among :: "string \<Rightarrow> json list \<Rightarrow> bool res" where
  "hash_among h vs = (if list_all hashable vs then val (JStr h \<in> set vs) else Inl TypeError)"

definition verify_target :: "sha \<Rightarrow> json \<Rightarrow> string \<times> json \<Rightarrow> unit res" where
  "verify_target sha state p =
     (case p of (kind, resource) \<Rightarrow>
     bindr (saved_of state kind) (\<lambda>saved.
     check (eqr (sub (sub (val resource) ''metadata'') ''uid'') (sub (val saved) ''uid''))
       ''Audit workload was replaced during maintenance'' (
     check (bindr (spec_hash sha resource) (\<lambda>h. bindr (sub (val saved) ''originalSha256'') (\<lambda>a.
            bindr (sub (val saved) ''pausedSha256'') (\<lambda>b. hash_among h [a, b]))))
       ''Audit workload changed outside the approved maintenance plan'' (val ()))))"

definition verify_targets :: "sha \<Rightarrow> json \<Rightarrow> obj \<Rightarrow> unit res" where
  "verify_targets sha state resources = each (verify_target sha state) resources"

definition all_paused :: "sha \<Rightarrow> json \<Rightarrow> obj \<Rightarrow> bool res" where
  "all_paused sha state resources =
     all_res (\<lambda>(kind, resource). bindr (spec_hash sha resource) (\<lambda>h.
       eqr (val (JStr h)) (sub (saved_of state kind) ''pausedSha256''))) resources"

section \<open>The plan\<close>

definition WINDOW_ACTIONS :: "string list" where
  "WINDOW_ACTIONS = [''audit-pause'', ''audit-resume'']"

text \<open>What a plan continues from: the stored state, or the state a first pause would store.\<close>

definition planned_state :: "sha \<Rightarrow> json \<Rightarrow> string \<Rightarrow> json \<Rightarrow> obj \<Rightarrow> json res" where
  "planned_state sha wscope action state resources =
     (if state = JNull
      then check (val (action = ''audit-pause'')) ''No audit window exists to resume'' (
           bindr (snapshot sha resources) (\<lambda>saved.
           val (JObj [(''version'', JInt 1), (''scope'', wscope), (''phase'', JStr ''pausing''), (''resources'', saved)])))
      else check (disjr (val (action \<noteq> ''audit-pause'')) (testr (\<lambda>p. p \<noteq> JStr ''resuming'') (sub (val state) ''phase'')))
             ''Finish the interrupted resume before pausing again'' (
           seqr (verify_targets sha state resources) (val state)))"

definition window_plan :: "sha \<Rightarrow> string \<Rightarrow> json \<Rightarrow> json \<Rightarrow> obj \<Rightarrow> json res" where
  "window_plan sha action resource state resources =
     bindr (if truth resource then sub (sub (val resource) ''metadata'') ''uid'' else val JNull) (\<lambda>uid.
     bindr (map_res (\<lambda>(kind, r). mapr (\<lambda>h. (kind, JStr h)) (spec_hash sha r)) resources) (\<lambda>observed.
     val (JObj [(''action'', JStr action), (''window'', state), (''checkpointUid'', uid), (''observed'', JObj observed)])))"

definition plan_window :: "sha \<Rightarrow> string list \<Rightarrow> json \<Rightarrow> string \<Rightarrow> ('s, json) proc" where
  "plan_window sha kube wscope action =
     checkp (val (action \<in> set WINDOW_ACTIONS)) ''Invalid audit window action'' (
     bindp (load_window kube wscope) (\<lambda>(resource, found).
     bindp (target_state kube) (\<lambda>resources.
     thenp (assert_no_recovery_jobs kube) (
     letp (planned_state sha wscope action found resources) (\<lambda>state.
     letp (window_plan sha action resource state resources) retp)))))"

section \<open>The execution\<close>

definition patch_target :: "string list \<Rightarrow> string \<Rightarrow> json \<Rightarrow> obj \<Rightarrow> ('s, unit) proc" where
  "patch_target kube kind resource desired =
     letp (sub (val resource) ''spec'') (\<lambda>spec.
     if py_eq spec (JObj desired) then retp ()
     else letp (sub (sub (val resource) ''metadata'') ''uid'') (\<lambda>uid.
          kube_patch kube kind (the (map_of TARGETS kind))
            [patch_op ''test'' ''/metadata/uid'' (Some uid), patch_op ''test'' ''/spec'' (Some spec),
             patch_op ''replace'' ''/spec'' (Some (JObj desired))]))"

text \<open>The specification an action wants, from the live one and what was saved.\<close>

definition resumed_spec :: "string \<Rightarrow> json \<Rightarrow> obj \<Rightarrow> obj res" where
  "resumed_spec kind saved spec =
     bindr (sub (val saved) ''fieldPresent'') (\<lambda>present.
     if truth present
     then bindr (sub (val saved) ''originalValue'') (\<lambda>v. val (dict_set spec (pause_field kind) v))
     else val (dict_pop spec (pause_field kind)))"

definition desired_spec :: "string \<Rightarrow> json \<Rightarrow> string \<Rightarrow> json \<Rightarrow> obj res" where
  "desired_spec action state kind current =
     bindr (dict_of (sub (val current) ''spec'')) (\<lambda>spec.
     if action = ''audit-pause'' then val (paused_spec kind spec)
     else bindr (saved_of state kind) (\<lambda>saved. resumed_spec kind saved spec))"

definition window_step :: "sha \<Rightarrow> string list \<Rightarrow> string \<Rightarrow> json \<Rightarrow> string \<Rightarrow> ('s, unit) proc" where
  "window_step sha kube action state kind =
     bindp (target_state kube) (\<lambda>resources.
     letp (verify_targets sha state resources) (\<lambda>_.
     letp (sub (val (JObj resources)) kind) (\<lambda>current.
     letp (desired_spec action state kind current) (\<lambda>desired.
     patch_target kube kind current desired))))"

definition patch_order :: "string \<Rightarrow> string list" where
  "patch_order action =
     (if action = ''audit-pause'' then [''cronjob'', ''deployment''] else [''deployment'', ''cronjob''])"

text \<open>\<open>state[k] = v\<close>\<close>

definition with_field :: "json \<Rightarrow> string \<Rightarrow> json \<Rightarrow> json res" where
  "with_field state k v = (case state of JObj kv \<Rightarrow> val (JObj (dict_set kv k v)) | _ \<Rightarrow> Inl TypeError)"

definition window_document :: "json \<Rightarrow> json" where
  "window_document state =
     JObj [(''apiVersion'', JStr ''v1''), (''kind'', JStr ''ConfigMap''),
       (''metadata'', JObj [(''name'', JStr WINDOW_NAME)]), (''data'', window_data state)]"

text \<open>A window that does not exist is created with an identity of its own.\<close>

definition open_window :: "string \<Rightarrow> string list \<Rightarrow> json \<Rightarrow> json \<Rightarrow> ('s, unit) proc" where
  "open_window fresh kube plan found =
     whenp (found = JNull) (
       letp (bindr (sub (val plan) ''window'') (\<lambda>w. with_field w ''id'' (JStr fresh))) (\<lambda>state.
       kube_create kube (window_document state)))"

definition finish_pause :: "sha \<Rightarrow> string list \<Rightarrow> json \<Rightarrow> json \<Rightarrow> ('s, json) proc" where
  "finish_pause sha kube wscope state =
     thenp (wait_quiet 331 kube) (
     bindp (target_state kube) (\<lambda>resources.
     checkp (all_paused sha state resources) ''Audit writers did not remain paused'' (
     bindp (load_window kube wscope) (\<lambda>(resource, found).
     letp (with_field found ''phase'' (JStr ''paused'')) (\<lambda>state.
     thenp (save_window kube resource state) (retp state))))))"

definition finish_resume :: "string list \<Rightarrow> json \<Rightarrow> ('s, unit) proc" where
  "finish_resume kube wscope =
     thenp (wait_ready kube) (
     bindp (load_window kube wscope) (\<lambda>(resource, found).
     letp (sub (sub (val resource) ''metadata'') ''uid'') (\<lambda>uid.
     kube_delete kube ''configmap'' WINDOW_NAME uid)))"

definition begin_resume :: "string list \<Rightarrow> string \<Rightarrow> json \<Rightarrow> json \<Rightarrow> ('s, json) proc" where
  "begin_resume kube action resource found =
     (if action = ''audit-resume''
      then letp (with_field found ''phase'' (JStr ''resuming'')) (\<lambda>state.
           thenp (save_window kube resource state) (retp state))
      else retp found)"

text \<open>The end of an action, with the state that names the window in the result.\<close>

definition finish_window :: "sha \<Rightarrow> string list \<Rightarrow> json \<Rightarrow> string \<Rightarrow> json \<Rightarrow> ('s, json) proc" where
  "finish_window sha kube wscope action state =
     (if action = ''audit-pause'' then finish_pause sha kube wscope state
      else thenp (finish_resume kube wscope) (retp state))"

definition window_result :: "string \<Rightarrow> json \<Rightarrow> obj res" where
  "window_result action state =
     bindr (sub (val state) ''id'') (\<lambda>wid.
     val [(''windowId'', wid), (''phase'', JStr (if action = ''audit-pause'' then ''paused'' else ''resumed'')),
          (''stageAccepted'', JBool False)])"

text \<open>What follows once the window exists.\<close>

definition change_workloads :: "sha \<Rightarrow> string list \<Rightarrow> json \<Rightarrow> string \<Rightarrow> json \<Rightarrow> json \<Rightarrow> ('s, obj) proc" where
  "change_workloads sha kube wscope action resource found =
     bindp (begin_resume kube action resource found) (\<lambda>state.
     thenp (eachp (window_step sha kube action state) (patch_order action)) (
     bindp (finish_window sha kube wscope action state) (\<lambda>state.
     letp (window_result action state) retp)))"

definition execute_window :: "sha \<Rightarrow> string \<Rightarrow> string list \<Rightarrow> json \<Rightarrow> string \<Rightarrow> string \<Rightarrow> ('s, obj) proc" where
  "execute_window sha fresh kube wscope action approved =
     bindp (plan_window sha kube wscope action) (\<lambda>plan.
     checkp (val (fingerprint sha plan = approved)) ''Audit window plan changed or was not approved'' (
     bindp (load_window kube wscope) (\<lambda>(resource, found).
     thenp (open_window fresh kube plan found) (
     bindp (load_window kube wscope) (\<lambda>(resource, found).
     change_workloads sha kube wscope action resource found)))))"

definition assert_paused :: "sha \<Rightarrow> string list \<Rightarrow> json \<Rightarrow> ('s, json) proc" where
  "assert_paused sha kube wscope =
     bindp (load_window kube wscope) (\<lambda>(resource, state).
     checkp (conjr (val (state \<noteq> JNull)) (eqs (sub (val state) ''phase'') ''paused''))
       ''Run the approved audit-pause workflow before recovery'' (
     bindp (target_state kube) (\<lambda>resources.
     letp (verify_targets sha state resources) (\<lambda>_.
     checkp (all_paused sha state resources) ''Audit workload is not paused'' (
     thenp (assert_quiet kube) (
     letp (sub (sub (val resource) ''metadata'') ''uid'') (\<lambda>uid.
     letp (sub (val state) ''id'') (\<lambda>wid.
     retp (JObj [(''uid'', uid), (''stateSha256'', JStr (fingerprint sha state)), (''windowId'', wid)])))))))))"

section \<open>The operation\<close>

definition audit_scope :: "sha \<Rightarrow> json \<Rightarrow> json res" where
  "audit_scope sha config =
     bindr (sub (sub (val config) ''azure'') ''tenantId'') (\<lambda>tenant.
     bindr (group_id config False) (\<lambda>g.
     bindr (str_of (sub (sub (sub (sub (val config) ''parameters'') ''platform'') ''stage4Aks'') ''name'')) (\<lambda>name.
     bindr (stage_fingerprint sha config 8) (\<lambda>digest.
     val (JObj [(''tenantId'', tenant),
       (''clusterId'', JStr (g @ ''/providers/Microsoft.ContainerService/managedClusters/'' @ name)),
       (''configSha256'', JStr digest)])))))"

record window_review =
  wr_kube :: "string list"
  wr_scope :: json
  wr_plan :: json
  wr_window :: json
  wr_summary :: obj

definition review_document :: "json \<Rightarrow> json \<Rightarrow> json \<Rightarrow> json" where
  "review_document revision wscope window =
     JObj [(''revision'', revision), (''scope'', wscope), (''windowPlan'', window)]"

definition window_prepare :: "sha \<Rightarrow> json \<Rightarrow> string \<Rightarrow> json \<Rightarrow> ('s, window_review) proc" where
  "window_prepare sha config action revision =
     checkp (val (action \<in> set WINDOW_ACTIONS)) ''Invalid audit runtime operation'' (
     bindp (connect_cluster config False) (\<lambda>kube.
     thenp reset_counter (
     letp (audit_scope sha config) (\<lambda>wscope.
     thenp (assert_managed_writers kube) (
     bindp (plan_window sha kube wscope action) (\<lambda>window.
     let plan = review_document revision wscope window;
         summary = [(''stage'', JInt 8), (''action'', JStr action), (''revision'', revision),
           (''planSha256'', JStr (fingerprint sha plan)), (''stageAccepted'', JBool False), (''applied'', JBool False)] in
     thenp (private_write ''runtime-review.json'' plan) (
     thenp (private_write ''runtime-summary.json'' (JObj summary)) (
     retp \<lparr>wr_kube = kube, wr_scope = wscope, wr_plan = plan, wr_window = window, wr_summary = summary\<rparr>))))))))"

definition report :: "obj \<Rightarrow> ('s, obj) proc" where
  "report summary = thenp (private_write ''runtime-summary.json'' (JObj summary)) (retp summary)"

definition window_apply :: "sha \<Rightarrow> string \<Rightarrow> string \<Rightarrow> window_review \<Rightarrow> ('s, obj) proc" where
  "window_apply sha fresh action review =
     bindp (execute_window sha fresh (wr_kube review) (wr_scope review) action (fingerprint sha (wr_window review))) (\<lambda>result.
     report (dict_update (dict_update (wr_summary review) result) [(''applied'', JBool True)]))"

text \<open>The branch of \<open>audit_operation\<close> for \<open>audit-pause\<close> and \<open>audit-resume\<close>.\<close>

definition window_operation :: "sha \<Rightarrow> string \<Rightarrow> json \<Rightarrow> string \<Rightarrow> string \<Rightarrow> json \<Rightarrow> string \<Rightarrow> ('s, obj) proc" where
  "window_operation sha fresh config action operation revision approved =
     checkp (val (operation \<in> {''plan'', ''execute''})) ''Invalid audit runtime operation'' (
     bindp (window_prepare sha config action revision) (\<lambda>review.
     if operation = ''plan'' then report (wr_summary review)
     else checkp (val (approved = fingerprint sha (wr_plan review))) ''Audit window plan changed or was not approved''
            (window_apply sha fresh action review)))"

section \<open>Pausing and resuming a specification\<close>

lemma saved_target_ok:
  "saved_target sha kind resource = Inr saved \<Longrightarrow> sub (val resource) ''spec'' = Inr (JObj spec) \<Longrightarrow>
     sub (val saved) ''originalSha256'' = Inr (JStr (fingerprint sha (JObj spec)))
     \<and> sub (val saved) ''pausedSha256'' = Inr (JStr (fingerprint sha (JObj (paused_spec kind spec))))
     \<and> sub (val saved) ''fieldPresent'' = Inr (JBool (map_of spec (pause_field kind) \<noteq> None))
     \<and> sub (val saved) ''originalValue'' = Inr (lookup_or spec (pause_field kind) (default_value kind))"
  by (auto simp: saved_target_def dict_of_def bindr_ok)

lemma stored_target:
  assumes saved: "saved_target sha kind resource = Inr saved" "sub (val resource) ''spec'' = Inr (JObj spec)"
    and stored: "canon stored = canon saved" "wf_json stored" "wf_json saved"
  shows "sub (val stored) ''originalSha256'' = Inr (JStr (fingerprint sha (JObj spec)))"
    and "sub (val stored) ''pausedSha256'' = Inr (JStr (fingerprint sha (JObj (paused_spec kind spec))))"
    and "\<exists>w. resumed_spec kind stored live =
           Inr (if map_of spec (pause_field kind) = None then dict_pop live (pause_field kind)
                else dict_set live (pause_field kind) w)
         \<and> canon w = canon (lookup_or spec (pause_field kind) (default_value kind))"
proof -
  obtain kv where kv: "saved = JObj kv" using saved by (auto simp: saved_target_def bindr_ok)
  note field = stored_field [OF stored(1) [unfolded kv] stored(2) stored(3) [unfolded kv]]
  have *: "map_of kv ''originalSha256'' = Some (JStr (fingerprint sha (JObj spec)))"
      "map_of kv ''pausedSha256'' = Some (JStr (fingerprint sha (JObj (paused_spec kind spec))))"
      "map_of kv ''fieldPresent'' = Some (JBool (map_of spec (pause_field kind) \<noteq> None))"
      "map_of kv ''originalValue'' = Some (lookup_or spec (pause_field kind) (default_value kind))"
    using saved_target_ok [OF saved] kv by (auto split: option.splits)
  show "sub (val stored) ''originalSha256'' = Inr (JStr (fingerprint sha (JObj spec)))"
    and "sub (val stored) ''pausedSha256'' = Inr (JStr (fingerprint sha (JObj (paused_spec kind spec))))"
    using field [OF *(1)] field [OF *(2)] by (auto simp: canon_atom)
  show "\<exists>w. resumed_spec kind stored live =
           Inr (if map_of spec (pause_field kind) = None then dict_pop live (pause_field kind)
                else dict_set live (pause_field kind) w)
         \<and> canon w = canon (lookup_or spec (pause_field kind) (default_value kind))"
    using field [OF *(3)] field [OF *(4)] by (auto simp: canon_atom resumed_spec_def)
qed

text \<open>A live specification that is, up to the order of keys, the original or the paused one is
  brought back to the original.\<close>

lemma resumed_canon:
  assumes d: "distinct (map fst spec)" "distinct (map fst live)"
    and live: "canon (JObj live) = canon (JObj spec) \<or> canon (JObj live) = canon (JObj (paused_spec kind spec))"
    and w: "canon w = canon (lookup_or spec (pause_field kind) (default_value kind))"
  shows "canon (JObj (if map_of spec (pause_field kind) = None then dict_pop live (pause_field kind)
                else dict_set live (pause_field kind) w)) = canon (JObj spec)"
    (is "canon (JObj ?desired) = _")
proof -
  let ?f = "pause_field kind"
  have off: "map_option canon (map_of live k) = map_option canon (map_of spec k)" if "k \<noteq> ?f" for k
  proof -
    have "(\<forall>k. map_option canon (map_of live k) = map_option canon (map_of spec k))
        \<or> (\<forall>k. map_option canon (map_of live k) = map_option canon (map_of (paused_spec kind spec) k))"
      using live unfolding paused_spec_def
      by (simp only: canon_iff [OF d(2,1)] canon_iff [OF d(2) distinct_fst_set [OF d(1)]])
    then show ?thesis using that by (auto simp: paused_spec_def)
  qed
  have "distinct (map fst ?desired)"
    using d by (simp add: distinct_fst_set distinct_fst_pop)
  moreover have "map_option canon (map_of ?desired k) = map_option canon (map_of spec k)" for k
    using off [of k] w by (cases "k = ?f") (auto simp: lookup_or_def)
  ultimately show ?thesis using canon_iff d(1) by blast
qed

text \<open>Two documents with the same fingerprint have the same content, or their texts are a collision
  of the hash.\<close>

definition collision :: "sha \<Rightarrow> json \<Rightarrow> json \<Rightarrow> bool" where
  "collision sha v w \<longleftrightarrow> dumps v \<noteq> dumps w \<and> sha (dumps v) = sha (dumps w)"

lemma fingerprint_canon:
  "fingerprint sha v = fingerprint sha w \<Longrightarrow> wf_json v \<Longrightarrow> float_free v \<Longrightarrow> wf_json w \<Longrightarrow> float_free w \<Longrightarrow>
     canon v = canon w \<or> collision sha v w"
  using dumps_inj [of v w] by (auto simp: fingerprint_def collision_def)

lemma paused_spec_plain:
  "wf_json (JObj spec) \<Longrightarrow> wf_json (JObj (paused_spec kind spec))"
  "float_free (JObj spec) \<Longrightarrow> float_free (JObj (paused_spec kind spec))"
  unfolding paused_spec_def
  by (intro wf_dict_set float_free_dict_set; simp add: paused_value_def)+


section \<open>Events\<close>

text \<open>A patch of one of the two workloads, and a read that found the window of this scope.\<close>

definition workload_patch :: "event \<Rightarrow> bool" where
  "workload_patch e \<longleftrightarrow> patches e \<in> Some ` set TARGETS"

fun window_read :: "json \<Rightarrow> event \<Rightarrow> bool" where
  "window_read wscope (Command [k, a, b, c, d, verb, kind, name, x, y, z, t], Json r) =
     (verb = ''get'' \<and> kind = ''configmap'' \<and> name = WINDOW_NAME \<and> r \<noteq> JNull
      \<and> (case window_state wscope r of Inr state \<Rightarrow> True | Inl _ \<Rightarrow> False))"
| "window_read wscope _ = False"

abbreviation calm :: "event \<Rightarrow> bool" where
  "calm e \<equiv> \<not> workload_patch e"

lemma calm_simps [simp]: "calm (WriteFile n d, r)"
  "is_kube kube \<Longrightarrow> verb \<noteq> ''patch'' \<Longrightarrow> calm (Command (kube @ verb # args), r)"
  "is_kube kube \<Longrightarrow> calm (Command (kube @ ''patch'' # ''configmap'' # name # args), r)"
  by (auto simp: workload_patch_def patches_other patches_kube TARGETS_def)

lemma calm_reads: "kube_reads e \<Longrightarrow> calm e"
  by (cases e; cases "patches e"; cases "fst e")
    (auto simp: workload_patch_def kube_reads_def mutating_verb_def elim!: patches.elims split: if_splits)

lemmas only_calm = only_mono [OF _ calm_reads]

lemma kube_run_calm: "is_kube kube \<Longrightarrow> verb \<noteq> ''patch'' \<Longrightarrow> only calm (kube_run kube (verb # args))"
  by (intro only_kube_run) simp_all

lemma kube_create_calm: "is_kube kube \<Longrightarrow> only calm (kube_create kube r)"
  unfolding kube_create_def by (intro only_intros only_kube_manifest kube_run_calm) simp_all

lemma kube_delete_calm: "is_kube kube \<Longrightarrow> only calm (kube_delete kube kind name uid)"
  unfolding kube_delete_def Let_def by (intro only_intros only_kube_manifest kube_run_calm) simp_all

lemma configmap_patch_calm: "is_kube kube \<Longrightarrow> only calm (kube_patch kube ''configmap'' name ops)"
  unfolding kube_patch_def by (intro only_intros only_kube_manifest only_kube_run) simp_all

lemma load_window_reads: "is_kube kube \<Longrightarrow> only kube_reads (load_window kube wscope)"
  unfolding load_window_def by (intro only_intros kube_read_rules)

lemma target_state_reads: "is_kube kube \<Longrightarrow> only kube_reads (target_state kube)"
  unfolding target_state_def by (intro only_intros kube_read_rules)

lemma plan_window_reads: "is_kube kube \<Longrightarrow> only kube_reads (plan_window sha kube wscope action)"
  unfolding plan_window_def by (intro only_intros kube_read_rules load_window_reads target_state_reads)

lemma window_prepare_reads: "only kube_reads (window_prepare sha config action revision)"
  unfolding window_prepare_def Let_def
  by (intro only_checkp only_bindp_returns connect_reads)
    (auto intro!: only_intros only_private_write kube_read_rules plan_window_reads dest: connect_returns)

lemma save_window_calm: "is_kube kube \<Longrightarrow> only calm (save_window kube resource state)"
  unfolding save_window_def by (intro only_intros configmap_patch_calm)

lemma open_window_calm: "is_kube kube \<Longrightarrow> only calm (open_window fresh kube plan found)"
  unfolding open_window_def by (intro only_intros kube_create_calm)

lemma begin_resume_calm: "is_kube kube \<Longrightarrow> only calm (begin_resume kube action resource found)"
  unfolding begin_resume_def by (intro only_intros save_window_calm)

lemma finish_calm:
  "is_kube kube \<Longrightarrow> only calm (finish_pause sha kube wscope state)"
  "is_kube kube \<Longrightarrow> only calm (finish_resume kube wscope)"
  unfolding finish_pause_def finish_resume_def wait_ready_def
  by (intro only_intros save_window_calm kube_delete_calm kube_run_calm only_calm [OF load_window_reads]
      only_calm [OF target_state_reads] only_calm [OF wait_quiet_reads]; simp)+


section \<open>The order of a run\<close>

text \<open>Before the first patch of a workload the run has read a valid window.\<close>

definition windowed :: "json \<Rightarrow> event list \<Rightarrow> bool" where
  "windowed wscope es \<longleftrightarrow> preceded (window_read wscope) workload_patch es"

definition opened :: "json \<Rightarrow> json \<Rightarrow> event list \<Rightarrow> bool" where
  "opened wscope found es \<longleftrightarrow>
     (if found = JNull then list_all calm es else windowed wscope es \<and> list_ex (window_read wscope) es)"

lemma calm_windowed: "list_all calm es \<Longrightarrow> windowed wscope es"
  by (simp add: windowed_def guarded_none)

lemma opened_windowed: "opened wscope found es \<Longrightarrow> windowed wscope es"
  by (auto simp: opened_def calm_windowed split: if_splits)

lemma opened_calm_step: "opened wscope found es \<Longrightarrow> calm e \<Longrightarrow> opened wscope found (es @ [e])"
  by (auto simp: opened_def windowed_def split: if_splits)

lemma opened_any_step: "found \<noteq> JNull \<Longrightarrow> opened wscope found es \<Longrightarrow> opened wscope found (es @ [e])"
  by (auto simp: opened_def windowed_def)

lemma wp_opened:
  assumes "only calm p" and "opened wscope found l"
  shows "wp p (\<lambda>_. opened wscope found) (opened wscope found) l"
  using assms(1,2) by (rule only_wp) (rule opened_calm_step)

lemma wp_load_window:
  assumes "is_kube kube"
  shows "wp (load_window kube wscope) (\<lambda>p l'. snd p \<noteq> JNull \<longrightarrow> list_ex (window_read wscope) l') (\<lambda>_. True) l"
  unfolding load_window_def
  by (rule wp_bindp, rule wp_mono [OF wp_kube_get_event [OF assms]])
    (use assms in \<open>auto intro!: wp_intros simp: list_ex_iff is_kube_def split: sum.splits intro!: bexI\<close>)

lemma wp_calm: "only calm p \<Longrightarrow> list_all calm l \<Longrightarrow> wp p (\<lambda>_. list_all calm) (list_all calm) l"
  by (erule only_wp) simp_all

lemma wp_load_opened:
  assumes kube: "is_kube kube" and l: "list_all calm l"
  shows "wp (load_window kube wscope) (\<lambda>p. opened wscope (snd p)) (list_all calm) l"
  by (rule wp_mono [OF wp_conj [OF wp_calm [OF only_calm [OF load_window_reads [OF kube]] l] wp_load_window [OF kube]]])
    (auto simp: opened_def calm_windowed)

lemma target_state_returns:
  "returns (target_state kube) rs \<Longrightarrow> \<exists>a b. rs = [(''deployment'', a), (''cronjob'', b)]"
  by (auto simp: target_state_def dest!: returnsD)

lemma window_step_unopened: "is_kube kube \<Longrightarrow> only calm (window_step sha kube action JNull kind)"
  unfolding window_step_def
  by (intro only_bindp_returns only_calm [OF target_state_reads])
    (auto dest!: target_state_returns simp: verify_targets_def verify_target_def saved_of_def letp_def
      intro: only_intros)

lemma window_step_any: "only (\<lambda>_. True) (window_step sha kube action state kind)"
  unfolding window_step_def target_state_def kube_get_def patch_target_def kube_patch_def
  by (intro only_intros only_kube_manifest kube_any TrueI)

lemma wp_window_step:
  assumes "is_kube kube" and o: "opened wscope state l"
  shows "wp (window_step sha kube action state kind) (\<lambda>_. opened wscope state) (opened wscope state) l"
proof (cases "state = JNull")
  case True
  then show ?thesis using assms by (auto intro: wp_opened window_step_unopened)
next
  case False
  show ?thesis by (rule only_wp [OF window_step_any, where I = "opened wscope state", OF o]) (rule opened_any_step [OF False])
qed

lemma begin_resume_returns:
  "returns (begin_resume kube action resource found) state \<Longrightarrow> state = JNull \<longleftrightarrow> found = JNull"
  by (cases found) (auto simp: begin_resume_def with_field_def dest!: returnsD split: if_splits)

lemma wp_begin_resume:
  assumes "is_kube kube" and "opened wscope found l"
  shows "wp (begin_resume kube action resource found) (opened wscope) (windowed wscope) l"
  by (rule wp_mono [OF wp_returns [OF wp_opened [OF begin_resume_calm [OF assms(1)] assms(2)]]])
    (auto dest: begin_resume_returns simp: opened_def calm_windowed split: if_splits)

lemma finish_window_calm: "is_kube kube \<Longrightarrow> only calm (finish_window sha kube wscope action state)"
  unfolding finish_window_def by (intro only_intros finish_calm)

lemma wp_finish_window:
  assumes "is_kube kube" and "opened wscope state l"
  shows "wp (bindp (finish_window sha kube wscope action state) (\<lambda>state. letp (window_result action state) retp))
    (\<lambda>_. windowed wscope) (windowed wscope) l"
  by (rule wp_mono [OF wp_opened [OF _ assms(2)]]) (auto intro!: only_intros finish_window_calm assms(1) dest: opened_windowed)

lemma wp_change_workloads:
  assumes kube: "is_kube kube" and "opened wscope found l"
  shows "wp (change_workloads sha kube wscope action resource found) (\<lambda>_. windowed wscope) (windowed wscope) l"
  unfolding change_workloads_def
proof (rule wp_bindp, rule wp_mono [OF wp_begin_resume [OF assms]])
  fix state l' assume "opened wscope state l'"
  then show "wp (thenp (eachp (window_step sha kube action state) (patch_order action))
      (bindp (finish_window sha kube wscope action state) (\<lambda>state. letp (window_result action state) retp)))
      (\<lambda>_. windowed wscope) (windowed wscope) l'"
    by (intro wp_thenp, intro wp_mono [OF wp_eachp [OF wp_window_step [OF kube]]])
      (auto intro: wp_finish_window [OF kube] opened_windowed)
qed

lemma wp_execute_window:
  assumes kube: "is_kube kube" and l: "list_all calm l"
  shows "wp (execute_window sha fresh kube wscope action approved) (\<lambda>_. windowed wscope) (windowed wscope) l"
proof -
  note calm = calm_windowed
  have load: "wp (bindp (load_window kube wscope) (\<lambda>(resource, found). change_workloads sha kube wscope action resource found))
      (\<lambda>_. windowed wscope) (windowed wscope) l'" if "list_all calm l'" for l'
    by (rule wp_bindp, rule wp_mono [OF wp_load_opened [OF kube that]])
      (auto intro!: wp_change_workloads [OF kube] calm)
  have window: "wp (bindp (load_window kube wscope) (\<lambda>(resource, found). thenp (open_window fresh kube plan found)
      (bindp (load_window kube wscope) (\<lambda>(resource, found). change_workloads sha kube wscope action resource found))))
      (\<lambda>_. windowed wscope) (windowed wscope) l'" if "list_all calm l'" for plan l'
    by (rule wp_bindp, rule wp_mono [OF wp_calm [OF only_calm [OF load_window_reads [OF kube]] that]])
      (auto intro!: wp_thenp wp_mono [OF wp_calm [OF open_window_calm [OF kube]]] load calm)
  show ?thesis
    unfolding execute_window_def
    by (rule wp_bindp, rule wp_mono [OF wp_calm [OF only_calm [OF plan_window_reads [OF kube]] l]])
      (auto intro!: wp_checkp window calm)
qed

lemma load_window_any: "only (\<lambda>_. True) (load_window kube wscope)"
  unfolding load_window_def by (intro only_intros kube_reads_any)

lemma target_state_any: "only (\<lambda>_. True) (target_state kube)"
  unfolding target_state_def by (intro only_intros kube_reads_any)

lemma finish_window_any: "only (\<lambda>_. True) (finish_window sha kube wscope action state)"
  unfolding finish_window_def finish_pause_def finish_resume_def wait_ready_def save_window_def kube_patch_def kube_delete_def Let_def
  by (intro only_intros only_kube_manifest kube_any kube_reads_any load_window_any target_state_any TrueI)

lemma report_any: "only (\<lambda>_. True) (report summary)"
  unfolding report_def by (intro only_intros only_private_write TrueI)

lemmas window_any = report_any load_window_any target_state_any finish_window_any window_step_any kube_reads_any

lemma window_apply_any: "only (\<lambda>_. True) (window_apply sha fresh action review)"
  unfolding window_apply_def execute_window_def change_workloads_def plan_window_def assert_no_recovery_jobs_def
    open_window_def kube_create_def begin_resume_def save_window_def kube_patch_def
  by (intro only_intros only_kube_manifest kube_any window_any TrueI)

lemma window_prepare_reviewed:
  "wp (window_prepare sha config action revision)
      (\<lambda>p l. \<exists>r. (WriteFile ''runtime-review.json'' (wr_plan p), r) \<in> set l) (\<lambda>_. True) l"
  unfolding window_prepare_def Let_def
  by (rule wp_intros wp_private_write wp_drop TrueI | force)+

lemma window_prepare_returns:
  "returns (window_prepare sha config action revision) p \<Longrightarrow>
     is_kube (wr_kube p) \<and> audit_scope sha config = Inr (wr_scope p)"
  by (auto simp: window_prepare_def Let_def dest!: returnsD connect_returns)

interpretation window: approval_gate
    "\<lambda>operation approved. window_operation sha fresh config action operation revision approved"
    "window_prepare sha config action revision" "\<lambda>review. report (wr_summary review)"
    "window_apply sha fresh action" "\<lambda>p. fingerprint sha (wr_plan p)"
    "\<lambda>p. WriteFile ''runtime-review.json'' (wr_plan p)"
    "''Audit window plan changed or was not approved''" kube_reads
  for sha fresh config action revision
proof
  show "window_operation sha fresh config action ''plan'' revision a =
      bindp (window_prepare sha config action revision) (\<lambda>review. report (wr_summary review))" for a
    by (simp add: window_operation_def checkp_def)
  show "window_operation sha fresh config action ''execute'' revision a =
      bindp (window_prepare sha config action revision) (\<lambda>p. checkp (val (a = fingerprint sha (wr_plan p)))
         ''Audit window plan changed or was not approved'' (window_apply sha fresh action p))" for a
    by (simp add: window_operation_def checkp_def)
  show "only kube_reads (report (wr_summary p))" for p
    unfolding report_def by (intro only_intros only_private_write) simp
qed (intro window_prepare_reads window_apply_any window_prepare_reviewed)+

lemma wp_window_apply:
  assumes "is_kube (wr_kube p)" and "list_all calm l"
  shows "wp (window_apply sha fresh action p) (\<lambda>_. windowed (wr_scope p)) (windowed (wr_scope p)) l"
proof -
  have keep: "windowed s es \<Longrightarrow> windowed s (es @ [(WriteFile n d, r)])" for s es n d r
    by (simp add: windowed_def)
  show ?thesis
    unfolding window_apply_def report_def
    by (rule wp_bindp, rule wp_mono [OF wp_execute_window [OF assms]])
      (auto intro!: wp_thenp wp_private_write wp_retp keep)
qed

section \<open>The phases\<close>

text \<open>The phases a window goes through, as a machine of its own.\<close>

datatype window_phase = Absent | Pausing | Paused | Resuming

inductive moves :: "string \<Rightarrow> window_phase \<Rightarrow> window_phase \<Rightarrow> bool" where
  open_pause: "moves ''audit-pause'' Absent Pausing"
| drained: "moves ''audit-pause'' Pausing Paused"
| again: "moves ''audit-pause'' Paused Paused"
| open_resume: "p \<noteq> Absent \<Longrightarrow> moves ''audit-resume'' p Resuming"
| ready: "moves ''audit-resume'' Resuming Absent"

inductive_simps moves_simps: "moves action p q"
inductive_cases moves_cases: "moves action p q"

text \<open>The phases in the order a window takes.\<close>

primrec phase_rank :: "window_phase \<Rightarrow> nat" where
  "phase_rank Absent = 0"
| "phase_rank Pausing = 1"
| "phase_rank Paused = 2"
| "phase_rank Resuming = 3"

instantiation window_phase :: linorder
begin

definition less_eq_window_phase :: "window_phase \<Rightarrow> window_phase \<Rightarrow> bool" where
  "p \<le> q \<longleftrightarrow> phase_rank p \<le> phase_rank q"

definition less_window_phase :: "window_phase \<Rightarrow> window_phase \<Rightarrow> bool" where
  "p < q \<longleftrightarrow> phase_rank p < phase_rank q"

instance
proof
  fix p q :: window_phase
  assume "p \<le> q" and "q \<le> p"
  then show "p = q" by (cases p; cases q) (simp_all add: less_eq_window_phase_def)
qed (auto simp: less_eq_window_phase_def less_window_phase_def)

end

fun phase_of :: "json \<Rightarrow> window_phase option" where
  "phase_of JNull = Some Absent"
| "phase_of (JObj kv) =
     (let p = lookup_or kv ''phase'' JNull in
      if p = JStr ''pausing'' then Some Pausing else if p = JStr ''paused'' then Some Paused
      else if p = JStr ''resuming'' then Some Resuming else None)"
| "phase_of _ = None"

text \<open>Resuming ends the window before anything can pause again.\<close>

inductive reaches :: "window_phase \<Rightarrow> window_phase \<Rightarrow> bool" where
  stays: "reaches p p"
| goes: "reaches p q \<Longrightarrow> moves action q r \<Longrightarrow> r \<noteq> Absent \<Longrightarrow> reaches p r"

lemma moves_forward: "moves action p q \<Longrightarrow> q \<noteq> Absent \<Longrightarrow> p \<le> q"
  by (cases p) (auto simp: less_eq_window_phase_def elim: moves_cases)

lemma reaches_forward: "reaches p q \<Longrightarrow> p \<le> q"
  by (induction rule: reaches.induct) (auto intro: order_trans moves_forward)

lemma resuming_is_final: "reaches p q \<Longrightarrow> p = Resuming \<Longrightarrow> q = Resuming"
  by (cases q) (auto dest!: reaches_forward simp: less_eq_window_phase_def)

lemma window_state_phase:
  "window_state wscope resource = Inr state \<Longrightarrow> \<exists>kv p. state = JObj kv \<and> map_of kv ''phase'' = Some (JStr p)
     \<and> p \<in> set window_phases"
  by (auto simp: window_state_def py_ok window_phases_def lookup_or_def split: option.splits)

lemma planned_phase:
  assumes "state = JNull \<or> window_state wscope resource = Inr state"
  obtains p where "phase_of state = Some p" and "p = Absent \<longleftrightarrow> state = JNull"
    and "p = Resuming \<longleftrightarrow> sub (val state) ''phase'' = Inr (JStr ''resuming'')"
  using assms
proof
  assume "window_state wscope resource = Inr state"
  then obtain kv p where "state = JObj kv" "map_of kv ''phase'' = Some (JStr p)" "p \<in> set window_phases"
    using window_state_phase by blast
  then show thesis by (auto simp: window_phases_def lookup_or_def intro: that)
qed (auto intro: that)

lemma planned_moves:
  assumes "state = JNull \<or> window_state wscope resource = Inr state" and "action \<in> set WINDOW_ACTIONS"
    and "planned_state sha wscope action state resources = Inr planned"
  shows "\<exists>p q. phase_of state = Some p \<and> moves action p q"
  using planned_phase [OF assms(1)]
proof cases
  case (1 p)
  then have "\<exists>q. moves action p q"
    using assms(2,3) unfolding planned_state_def
    by (cases p) (auto simp: WINDOW_ACTIONS_def py_ok moves_simps split: if_splits)
  with 1 show ?thesis by blast
qed

section \<open>A model of the cluster, for concrete runs\<close>

text \<open>A window that is being paused, with both workloads still running; the writer was reviewed
  without an explicit number of replicas.\<close>

definition demo_audit_config :: json where
  "demo_audit_config = JObj
     [(''azure'', JObj [(''tenantId'', JStr ''t''), (''subscriptionId'', JStr ''s'')]),
      (''environment'', JStr ''dev''), (''target'', JObj [(''resourceGroup'', JStr ''rg'')]),
      (''parameters'', JObj [(''platform'', JObj [(''stage4Aks'', JObj [(''name'', JStr ''aks'')])])])]"

definition demo_audit_scope :: json where
  "demo_audit_scope = (case audit_scope (\<lambda>_. ''h'') demo_audit_config of Inr v \<Rightarrow> v | Inl _ \<Rightarrow> JNull)"

definition demo_writer :: json where
  "demo_writer = JObj [(''metadata'', JObj [(''uid'', JStr ''w'')]), (''spec'', JObj
     [(''template'', JObj [(''spec'', JObj [(''serviceAccountName'', JStr ''llm-api-proxy'')])])])]"

definition demo_retention :: json where
  "demo_retention = JObj [(''metadata'', JObj [(''uid'', JStr ''r'')]), (''spec'', JObj
     [(''suspend'', JBool False), (''jobTemplate'', JObj [(''spec'', JObj [(''template'', JObj [(''spec'',
        JObj [(''serviceAccountName'', JStr ''l3-retention'')])])])])])]"

definition demo_targets :: obj where
  "demo_targets = [(''deployment'', demo_writer), (''cronjob'', demo_retention)]"

definition demo_state :: json where
  "demo_state = JObj [(''id'', JStr ''i''), (''phase'', JStr ''pausing''),
     (''resources'', JObj
       [(''cronjob'', JObj [(''fieldPresent'', JBool True), (''originalSha256'', JStr ''h''),
           (''originalValue'', JBool False), (''pausedSha256'', JStr ''h''), (''uid'', JStr ''r'')]),
        (''deployment'', JObj [(''fieldPresent'', JBool False), (''originalSha256'', JStr ''h''),
           (''originalValue'', JInt 1), (''pausedSha256'', JStr ''h''), (''uid'', JStr ''w'')])]),
     (''scope'', canon demo_audit_scope), (''version'', JInt 1)]"

definition demo_window :: json where
  "demo_window = JObj [(''metadata'', JObj [(''uid'', JStr ''c'')]), (''data'', window_data demo_state)]"

definition demo_window_plan :: json where
  "demo_window_plan = (case window_plan (\<lambda>_. ''h'') ''audit-pause'' demo_window demo_state demo_targets of
     Inr v \<Rightarrow> v | Inl _ \<Rightarrow> JNull)"

definition demo_suspended :: obj where
  "demo_suspended = (case desired_spec ''audit-pause'' demo_state ''cronjob'' demo_retention of Inr v \<Rightarrow> v | Inl _ \<Rightarrow> [])"

fun demo_audit :: "unit service" where
  "demo_audit (Command (a # b # c # d # e # f # g # r)) s =
     (if a = ''kubectl''
      then (if f = ''patch'' then Failure
            else if g = ''configmap'' then Json demo_window
            else if g = ''deployment'' then Json demo_writer
            else if g = ''cronjob'' then Json demo_retention
            else Json (JObj [(''items'', JList [])]))
      else if b = ''account'' then Json (JObj [(''tenantId'', JStr ''t''), (''id'', JStr ''s'')])
      else Text [], s)"
| "demo_audit c s = (Text [], s)"

abbreviation demo_pause :: "unit world" where
  "demo_pause \<equiv> snd (window_operation (\<lambda>_. ''h'') ''i'' demo_audit_config ''audit-pause'' ''execute''
     JNull ''h'' demo_audit (start ()))"

lemma demo_hash [simp]: "fingerprint (\<lambda>_. ''h'') v = ''h''"
  by (simp add: fingerprint_def)

lemma demo_fingerprint [simp]: "stage_fingerprint (\<lambda>_. ''h'') demo_audit_config 8 = Inr ''h''"
proof -
  have "map_option (\<lambda>_. ()) (case stage_scope demo_audit_config 8 of Inr v \<Rightarrow> Some v | Inl _ \<Rightarrow> None) = Some ()"
    by code_simp
  then show ?thesis by (cases "stage_scope demo_audit_config 8") (auto simp: stage_fingerprint_def)
qed

lemma demo_group [simp]: "group_id demo_audit_config False = Inr ''/subscriptions/s/resourceGroups/rg''"
  by code_simp

lemma demo_audit_facts [simp]:
  "login_scope demo_audit_config = Inr (JObj [(''tenantId'', JStr ''t''), (''id'', JStr ''s'')])"
  "subscription_of demo_audit_config = Inr (JStr ''s'')"
  "py_eq (JObj [(''tenantId'', JStr ''t''), (''id'', JStr ''s'')]) (JObj [(''tenantId'', JStr ''t''), (''id'', JStr ''s'')])"
  "sub (sub (val demo_audit_config) ''target'') ''resourceGroup'' = Inr (JStr ''rg'')"
  "sub (sub (val demo_audit_config) ''azure'') ''tenantId'' = Inr (JStr ''t'')"
  "sub (sub (sub (sub (val demo_audit_config) ''parameters'') ''platform'') ''stage4Aks'') ''name'' = Inr (JStr ''aks'')"
  by (code_simp, code_simp, code_simp, code_simp, code_simp, code_simp)

lemma demo_scope_fact [simp]: "audit_scope (\<lambda>_. ''h'') demo_audit_config = Inr demo_audit_scope"
  unfolding demo_audit_scope_def audit_scope_def by simp

lemma stored_window:
  assumes "wf_json state" and "float_free state"
  shows "loads_value (dget (dgetO (val (JObj [(''metadata'', m), (''data'', window_data state)])) ''data'') ''window.json'' (JStr ''null''))
    = Inr (canon state)"
  using loads_dumps_sorted [OF assms] by (simp add: window_data_def loads_value_def)

lemma demo_state_canon: "canon demo_state = demo_state" "wf_json demo_state" "float_free demo_state"
  unfolding demo_state_def demo_audit_scope_def by (code_simp, code_simp, code_simp)

lemma demo_window_facts [simp]:
  "demo_window \<noteq> JNull" "demo_state \<noteq> JNull" "truth demo_window"
  "writer_account demo_writer = Inr True" "retention_account demo_retention = Inr True"
  "sub (sub (val demo_window) ''metadata'') ''uid'' = Inr (JStr ''c'')"
  by (simp_all add: demo_window_def demo_state_def writer_account_def retention_account_def demo_writer_def demo_retention_def)

lemma demo_window_state [simp]: "window_state demo_audit_scope demo_window = Inr demo_state"
proof -
  have "py_eq (canon demo_audit_scope) demo_audit_scope"
    unfolding demo_audit_scope_def by code_simp
  moreover have "dget0 (val demo_state) ''scope'' = Inr (canon demo_audit_scope)"
    "dget0 (val demo_state) ''version'' = Inr (JInt 1)" "dget0 (val demo_state) ''phase'' = Inr (JStr ''pausing'')"
    "is_dict demo_state" "iter (dgetO (val demo_state) ''resources'') = Inr [JStr ''cronjob'', JStr ''deployment'']"
    by (simp_all add: demo_state_def)
  ultimately show ?thesis
    using stored_window [OF demo_state_canon(2,3)] demo_state_canon(1)
    by (auto simp: window_state_def demo_window_def in_strs_def window_phases_def set_is_def TARGETS_def
        insert_commute simp del: py_eq.simps)
qed

lemma demo_verified [simp]:
  "verify_targets (\<lambda>_. ''h'') demo_state [(''deployment'', demo_writer), (''cronjob'', demo_retention)] = Inr ()"
  by (simp add: verify_targets_def verify_target_def saved_of_def demo_state_def spec_hash_def hash_among_def
      demo_writer_def demo_retention_def)

lemma demo_planned [simp]:
  "planned_state (\<lambda>_. ''h'') demo_audit_scope ''audit-pause'' demo_state
     [(''deployment'', demo_writer), (''cronjob'', demo_retention)] = Inr demo_state"
proof -
  have "sub (val demo_state) ''phase'' = Inr (JStr ''pausing'')" by (simp add: demo_state_def)
  then show ?thesis by (simp add: planned_state_def)
qed

lemma demo_plan_fact [simp]:
  "window_plan (\<lambda>_. ''h'') ''audit-pause'' demo_window demo_state
     [(''deployment'', demo_writer), (''cronjob'', demo_retention)] = Inr demo_window_plan"
  unfolding demo_window_plan_def by (simp add: window_plan_def demo_targets_def spec_hash_def demo_writer_def demo_retention_def)

lemma demo_step_facts [simp]:
  "desired_spec ''audit-pause'' demo_state ''cronjob'' demo_retention = Inr demo_suspended"
  "sub (val demo_retention) ''spec'' = Inr (JObj (dict_set demo_suspended ''suspend'' (JBool False)))"
  "\<not> py_eq (JObj (dict_set demo_suspended ''suspend'' (JBool False))) (JObj demo_suspended)"
  "sub (sub (val demo_retention) ''metadata'') ''uid'' = Inr (JStr ''r'')"
  by (simp_all add: demo_suspended_def desired_spec_def demo_retention_def dict_of_def paused_spec_def pause_field_def paused_value_def)

definition demo_kube :: "string list" where
  "demo_kube = [''kubectl'', ''--kubeconfig'', ''kubeconfig'', ''--namespace'', ''litellm'']"

lemma demo_audit_files: "files_ok demo_audit"
  by (simp add: files_ok_def answer_def)

lemma demo_connects: "yields demo_audit (connect_cluster demo_audit_config False) demo_kube"
  unfolding connect_cluster_def demo_kube_def
  by (rule yield_intros demo_audit_files | simp add: answer_def az_command_def)+

lemma demo_items: "kind \<notin> {''configmap'', ''deployment'', ''cronjob''} \<Longrightarrow> yields demo_audit (kube_items demo_kube kind) []"
  by (rule yields_kube_items [OF _ demo_audit_files]) (simp add: answer_def demo_kube_def)

lemma demo_load: "yields demo_audit (load_window demo_kube demo_audit_scope) (demo_window, demo_state)"
proof -
  have get: "yields demo_audit (kube_get demo_kube ''configmap'' WINDOW_NAME True) demo_window"
    by (rule yields_kube_get [OF _ demo_audit_files]) (simp add: answer_def demo_kube_def)
  show ?thesis
    unfolding load_window_def by (rule yields_rules(4) [OF get]) (simp add: yield_intros)
qed

lemma demo_target_state: "yields demo_audit (target_state demo_kube) [(''deployment'', demo_writer), (''cronjob'', demo_retention)]"
proof -
  have get: "yields demo_audit (kube_get demo_kube ''deployment'' name False) demo_writer"
    "yields demo_audit (kube_get demo_kube ''cronjob'' name False) demo_retention" for name
    by (rule yields_kube_get [OF _ demo_audit_files], simp add: answer_def demo_kube_def)+
  show ?thesis
    unfolding target_state_def by (rule yield_intros get | simp)+
qed

lemma demo_no_jobs: "yields demo_audit (assert_no_recovery_jobs demo_kube) ()"
  unfolding assert_no_recovery_jobs_def
  by (rule yields_rules(4), rule demo_items, simp, rule yields_rules(7), simp)+ (rule yields_rules(1))

lemma demo_writers: "yields demo_audit (assert_managed_writers demo_kube) ()"
proof -
  have "yields demo_audit (bindp (kube_items demo_kube kind) (\<lambda>found. letp (each (managed_writer kind) found) retp)) ()"
    if "kind \<notin> {''configmap'', ''deployment'', ''cronjob''}" for kind
    by (rule yields_rules(4), rule demo_items, use that in simp, simp add: yield_intros letp_def)
  note each = this
  show ?thesis
    unfolding assert_managed_writers_def
    by (rule yields_rules(5), (rule yields_rules(9), rule each, simp)+, rule yields_rules(8),
        rule yields_rules(4), rule demo_items, simp, rule yields_rules(7), simp, rule yields_rules(1))
qed

lemma demo_plan: "yields demo_audit (plan_window (\<lambda>_. ''h'') demo_kube demo_audit_scope ''audit-pause'') demo_window_plan"
  unfolding plan_window_def
  by (rule yields_rules(7), simp add: WINDOW_ACTIONS_def, rule yields_rules(4), rule demo_load, simp only: prod.case,
      rule yields_rules(4), rule demo_target_state, rule yields_rules(5), rule demo_no_jobs)
    (simp add: letp_def yield_intros)

lemma demo_step: "emits demo_audit workload_patch (window_step (\<lambda>_. ''h'') demo_kube ''audit-pause'' demo_state ''cronjob'')"
  unfolding window_step_def patch_target_def
  by (rule emits_rules(2), rule demo_target_state)
    (auto simp: letp_def TARGETS_def workload_patch_def demo_kube_def simp del: py_eq.simps
      intro!: emits_kube_mutation demo_audit_files)

lemma demo_pause_patches: "list_ex workload_patch (log demo_pause)"
proof -
  have "yields demo_audit (begin_resume demo_kube ''audit-pause'' r demo_state) demo_state" for r
    by (simp add: begin_resume_def yield_intros)
  moreover have "emits demo_audit workload_patch (eachp (window_step (\<lambda>_. ''h'') demo_kube ''audit-pause'' demo_state) (patch_order ''audit-pause''))"
    by (auto simp: patch_order_def intro!: emits_early_then demo_step only_intros window_any)
  ultimately have "emits demo_audit workload_patch (change_workloads (\<lambda>_. ''h'') demo_kube demo_audit_scope ''audit-pause'' r demo_state)" for r
    unfolding change_workloads_def
    by (intro emits_rules(2)) (auto intro!: emits_early_then only_intros window_any)
  then have "emits demo_audit workload_patch (execute_window (\<lambda>_. ''h'') ''i'' demo_kube demo_audit_scope ''audit-pause'' ''h'')"
    unfolding execute_window_def
    by (intro emits_rules(2) [OF demo_plan] emits_rules(5))
      (auto intro!: emits_rules(2) [OF demo_load] emits_rules(3) simp: open_window_def whenp_def yield_intros)
  then have "emits demo_audit workload_patch (window_apply (\<lambda>_. ''h'') ''i'' ''audit-pause''
      \<lparr>wr_kube = demo_kube, wr_scope = demo_audit_scope, wr_plan = p, wr_window = v, wr_summary = s\<rparr>)" for p v s
    unfolding window_apply_def by (auto intro!: emits_early window_any)
  moreover have "\<exists>p v s. yields demo_audit (window_prepare (\<lambda>_. ''h'') demo_audit_config ''audit-pause'' JNull)
      \<lparr>wr_kube = demo_kube, wr_scope = demo_audit_scope, wr_plan = p, wr_window = v, wr_summary = s\<rparr>"
    unfolding window_prepare_def Let_def
    by (intro exI, rule yields_rules(7), simp add: WINDOW_ACTIONS_def, rule yields_rules(4), rule demo_connects,
        rule yields_rules(5), rule yields_rules(3), rule yields_rules(6), simp, rule yields_rules(5), rule demo_writers,
        rule yields_rules(4), rule demo_plan, rule yields_rules(5), rule yield_intros, rule demo_audit_files,
        rule yields_rules(5), rule yield_intros, rule demo_audit_files, rule yields_rules(1))
  ultimately have "emits demo_audit workload_patch (window_operation (\<lambda>_. ''h'') ''i'' demo_audit_config ''audit-pause'' ''execute'' JNull ''h'')"
    unfolding window_operation_def by (auto simp: checkp_def intro: emits_rules(2))
  then show ?thesis
    using emitsD [of demo_audit workload_patch _ "start ()"] by (auto simp: list_ex_iff)
qed

section \<open>Properties\<close>

text \<open>
  C6: in a run of the pause and resume actions, against any behaviour of the cluster, a patch of
  the audit writer or of the retention job happens only in an \<open>execute\<close> run whose approved hash
  is that of a plan the run wrote for review, and only after the run has read a valid window of
  this very scope.
\<close>

theorem audit_patches_follow_the_window:
  assumes "operation = ''plan'' \<or> operation = ''execute''"
    and "e \<in> set (log (snd (window_operation sha fresh config action operation revision approved sv (start s))))"
    and "workload_patch e"
  shows "operation = ''execute'' \<and>
    (\<exists>plan r. approved = fingerprint sha plan \<and> (WriteFile ''runtime-review.json'' plan, r)
       \<in> set (log (snd (window_operation sha fresh config action operation revision approved sv (start s))))) \<and>
    (\<exists>wscope. audit_scope sha config = Inr wscope \<and> preceded (window_read wscope) workload_patch
       (log (snd (window_operation sha fresh config action operation revision approved sv (start s)))))"
proof -
  have "\<not> kube_reads e" using assms(3) calm_reads by blast
  note gate = window.harmful_run [OF assms(1,2) this]
  obtain p w' where p: "window_prepare sha config action revision sv (start s) = (Inr p, w')" "list_all kube_reads (log w')"
      "window_operation sha fresh config action operation revision approved sv (start s) = window_apply sha fresh action p sv w'"
    by (rule gate)
  have "list_all calm (log w')" using p(2) calm_reads by (auto simp: list_all_iff)
  moreover have "returns (window_prepare sha config action revision :: ('a, window_review) proc) p"
    using p(1) by (rule returnsI)
  then have "is_kube (wr_kube p) \<and> audit_scope sha config = Inr (wr_scope p)"
    by (rule window_prepare_returns)
  ultimately have "windowed (wr_scope p) (log (snd (window_apply sha fresh action p sv w')))"
    and scope: "audit_scope sha config = Inr (wr_scope p)"
    using wp_always [OF wp_window_apply] by blast+
  then show ?thesis
    using window.harmful_approved [OF assms(1,2) \<open>\<not> kube_reads e\<close>] p(3)
    by (auto simp: windowed_def)
qed

theorem audit_patches_follow_the_window_witness:
  "list_ex workload_patch (log demo_pause) \<and> preceded (window_read demo_audit_scope) workload_patch (log demo_pause)"
  using demo_pause_patches
    audit_patches_follow_the_window [of "''execute''" _ "\<lambda>_. ''h''" "''i''" demo_audit_config "''audit-pause''" JNull "''h''" demo_audit "()"]
  by (auto simp: list_ex_iff simp del: demo_hash)

text \<open>
  C7: however often a window is interrupted, a resume restores the reviewed workload.  Take what
  \<open>snapshot\<close> saved of a workload, stored and read back with its keys in any order; whenever the
  live workload still passes \<open>verify_targets\<close>, the specification a resume wants exists and has
  the same content as the original one, with or without the field that stops it.  Nothing is
  assumed of the hash: the only way out is that the live specification and the original or the
  paused one are a collision of it, two different texts with the same SHA-256.
\<close>

theorem interrupted_windows_resume_the_original:
  assumes "saved_target sha kind original = Inr saved" and "sub (val original) ''spec'' = Inr (JObj spec)"
    and "wf_json (JObj spec)" and "float_free (JObj spec)" and "wf_json saved"
    and "saved_of state kind = Inr stored" and "canon stored = canon saved" and "wf_json stored"
    and "sub (val live) ''spec'' = Inr (JObj lspec)" and "wf_json (JObj lspec)" and "float_free (JObj lspec)"
    and "verify_target sha state (kind, live) = Inr ()"
  shows "(\<exists>desired. desired_spec ''audit-resume'' state kind live = Inr desired
      \<and> canon (JObj desired) = canon (JObj spec))
    \<or> collision sha (JObj lspec) (JObj spec) \<or> collision sha (JObj lspec) (JObj (paused_spec kind spec))"
proof -
  note stored = stored_target [OF assms(1,2,7,8,5)]
  have "fingerprint sha (JObj lspec) = fingerprint sha (JObj spec)
      \<or> fingerprint sha (JObj lspec) = fingerprint sha (JObj (paused_spec kind spec))"
    using assms(12) stored(1,2) assms(6,9)
    by (auto simp: verify_target_def py_ok spec_hash_def hash_among_def split: if_splits)
  then consider "canon (JObj lspec) = canon (JObj spec) \<or> canon (JObj lspec) = canon (JObj (paused_spec kind spec))"
    | "collision sha (JObj lspec) (JObj spec) \<or> collision sha (JObj lspec) (JObj (paused_spec kind spec))"
    using fingerprint_canon assms(3,4,10,11) paused_spec_plain [of spec kind] by metis
  then show ?thesis
  proof cases
    case 1
    obtain w where w: "resumed_spec kind stored lspec = Inr (if map_of spec (pause_field kind) = None
          then dict_pop lspec (pause_field kind) else dict_set lspec (pause_field kind) w)"
        "canon w = canon (lookup_or spec (pause_field kind) (default_value kind))"
      using stored(3) by blast
    have "distinct (map fst spec)" "distinct (map fst lspec)" using assms(3,10) by simp_all
    then show ?thesis
      using resumed_canon [OF _ _ 1 w(2)] w(1) assms(6,9)
      by (auto simp: desired_spec_def dict_of_def)
  qed blast
qed

text \<open>A cron job that an interrupted pause left suspended, with a hash of the last 40 characters.\<close>

definition short_hash :: sha where
  "short_hash s = rev (take 40 (rev s))"

definition demo_stopped :: json where
  "demo_stopped =
     (case dict_of (sub (val demo_retention) ''spec'') of
        Inr spec \<Rightarrow> JObj [(''metadata'', JObj [(''uid'', JStr ''r'')]), (''spec'', JObj (paused_spec ''cronjob'' spec))] | Inl _ \<Rightarrow> JNull)"

theorem interrupted_windows_resume_the_original_witness:
  "\<exists>saved desired spec. saved_target short_hash ''cronjob'' demo_retention = Inr saved
    \<and> sub (val demo_retention) ''spec'' = Inr (JObj spec) \<and> demo_stopped \<noteq> demo_retention
    \<and> desired_spec ''audit-resume'' (JObj [(''resources'', JObj [(''cronjob'', saved)])]) ''cronjob'' demo_stopped = Inr desired
    \<and> canon (JObj desired) = canon (JObj spec)"
proof -
  obtain spec where spec: "sub (val demo_retention) ''spec'' = Inr (JObj spec)" "wf_json (JObj spec)" "float_free (JObj spec)"
    and differ: "short_hash (dumps (JObj (paused_spec ''cronjob'' spec))) \<noteq> short_hash (dumps (JObj spec))"
    and field: "map_of spec ''suspend'' = Some (JBool False)"
  proof
    let ?spec = "[(''suspend'', JBool False), (''jobTemplate'', JObj [(''spec'', JObj [(''template'', JObj [(''spec'',
        JObj [(''serviceAccountName'', JStr ''l3-retention'')])])])])]"
    show "short_hash (dumps (JObj (paused_spec ''cronjob'' ?spec))) \<noteq> short_hash (dumps (JObj ?spec))" by code_simp
  qed (simp_all add: demo_retention_def)
  obtain saved where saved: "saved_target short_hash ''cronjob'' demo_retention = Inr saved"
    using spec(1) by (simp add: saved_target_def dict_of_def)
  have wf: "wf_json saved"
    using saved by (auto simp: saved_target_def dict_of_def demo_retention_def pause_field_def)
  let ?paused = "paused_spec ''cronjob'' spec"
  let ?state = "JObj [(''resources'', JObj [(''cronjob'', saved)])]"
  have live: "sub (val demo_stopped) ''spec'' = Inr (JObj ?paused)" "sub (sub (val demo_stopped) ''metadata'') ''uid'' = Inr (JStr ''r'')"
    using spec(1) by (simp_all add: demo_stopped_def dict_of_def)
  have state: "saved_of ?state ''cronjob'' = Inr saved" by (simp add: saved_of_def)
  have ok: "verify_target short_hash ?state (''cronjob'', demo_stopped) = Inr ()"
    using saved_target_ok [OF saved spec(1)] spec(1) saved live
    by (auto simp: verify_target_def saved_of_def spec_hash_def hash_among_def saved_target_def bindr_ok
        demo_retention_def dict_of_def)
  have "\<not> collision short_hash (JObj ?paused) (JObj spec)" "\<not> collision short_hash (JObj ?paused) (JObj ?paused)"
    using differ by (simp_all add: collision_def)
  then obtain desired where "desired_spec ''audit-resume'' ?state ''cronjob'' demo_stopped = Inr desired" "canon (JObj desired) = canon (JObj spec)"
    using interrupted_windows_resume_the_original [OF saved spec wf state refl wf live(1) paused_spec_plain(1) [OF spec(2)]
        paused_spec_plain(2) [OF spec(3)] ok] by blast
  moreover have "demo_stopped \<noteq> demo_retention"
  proof
    assume "demo_stopped = demo_retention"
    then have "?paused = spec" using live(1) spec(1) by simp
    then show False using differ by simp
  qed
  ultimately show ?thesis using saved spec(1) by blast
qed

text \<open>
  C9: planning refines the machine of the phases.  From an absent window or any stored one of the
  scope, an action is planned only if the machine has a move for it, and refused with a
  \<open>MigrationError\<close> if it has none; a planned action continues the stored state, or opens the
  window in phase \<open>pausing\<close>.
\<close>

theorem window_plans_follow_the_phases:
  assumes "state = JNull \<or> window_state wscope resource = Inr state" and "action \<in> set WINDOW_ACTIONS"
  shows "\<exists>p. phase_of state = Some p \<and>
    ((\<exists>q. moves action p q) \<or> (\<exists>m. planned_state sha wscope action state resources = Inl (MigrationError m))) \<and>
    (\<forall>planned. planned_state sha wscope action state resources = Inr planned \<longrightarrow>
       (if p = Absent then phase_of planned = Some Pausing else planned = state))"
  using planned_phase [OF assms(1)]
proof cases
  case (1 p)
  have "(\<exists>q. moves action p q) \<or> (\<exists>m. planned_state sha wscope action state resources = Inl (MigrationError m))"
    using 1 assms(2) by (cases p) (auto simp: WINDOW_ACTIONS_def moves_simps planned_state_def)
  moreover have "if p = Absent then phase_of planned = Some Pausing else planned = state"
    if "planned_state sha wscope action state resources = Inr planned" for planned
    using 1 that by (auto simp: planned_state_def bindr_ok check_ok seqr_ok)
  ultimately show ?thesis using 1 by blast
qed

theorem window_plans_follow_the_phases_witness:
  "\<exists>m. planned_state (\<lambda>_. ''h'') JNull ''audit-resume'' JNull [(''deployment'', demo_writer)] = Inl (MigrationError m)"
  using window_plans_follow_the_phases [of JNull JNull JNull "''audit-resume''" "\<lambda>_. ''h''" "[(''deployment'', demo_writer)]"]
  by (auto simp: WINDOW_ACTIONS_def moves_simps)

end
