(* ===== verification/Local_Runner.thy ===== *)
theory Local_Runner
  imports Local_Settings Deploy Dns_Runtime Audit_Window
begin

text \<open>
  The second half of \<open>local_execution/runner.py\<close>: the identity check, the infrastructure and
  runtime operations of a local run with their approved hashes, the dispatch of a step and the
  run of \<open>main\<close>.  The operations the runner calls are the ones of the other theories; those that
  are not modelled are the field \<open>others\<close> of its tools.
\<close>

section \<open>\<open>authenticate_azure\<close>\<close>

definition auth_run :: "string list \<Rightarrow> string \<Rightarrow> ('s, reply) proc" where
  "auth_run arguments label =
     bindp (perform (Command arguments)) (\<lambda>r.
     thenp (private_write (''azure-auth-'' @ label @ ''.stderr.txt'') JNull) (
     checkp (val (r \<noteq> Failure)) ''Local Azure authentication failed'' (retp r)))"

text \<open>The payload of a token is decoded by the standard library: \<open>claims\<close> gives its JSON, if it has any.\<close>

definition verify_identity :: "(string \<Rightarrow> json option) \<Rightarrow> json \<Rightarrow> json \<Rightarrow> ('s, unit) proc" where
  "verify_identity claims config client =
     letp (str_of (subscription_of config)) (\<lambda>s.
     bindp (auth_run [''az'', ''account'', ''get-access-token'', ''--subscription'', s, ''--resource'',
        ''https://management.azure.com/'', ''--query'', ''accessToken'', ''--output'', ''tsv'', ''--only-show-errors''] ''identity'') (\<lambda>r.
     case claims (case r of Text t \<Rightarrow> strip t | _ \<Rightarrow> []) of
       None \<Rightarrow> failp (MigrationError ''Unable to verify the Azure client identity token'')
     | Some payload \<Rightarrow>
         letp (bindr (dget0 (val payload) ''appid'') (\<lambda>a. if truth a then val a else dget0 (val payload) ''azp'')) (\<lambda>actual.
         checkp (conjr (val (is_str actual)) (bindr (str_of (val actual)) (\<lambda>a. mapr (\<lambda>c. lower a = lower c) (str_of (val client)))))
           ''Current Azure CLI token was not issued to the configured client ID'' (retp ()))))"

definition authenticate_azure :: "(string \<Rightarrow> json option) \<Rightarrow> json \<Rightarrow> obj \<Rightarrow> string \<Rightarrow> ('s, json) proc" where
  "authenticate_azure claims config settings name =
     letp (authentication_profile settings name) (\<lambda>profile.
     letp (sub (val profile) ''method'') (\<lambda>method.
     thenp (whenp (method = JStr ''managed-identity'') (
        letp (bindr (sub (val profile) ''clientId'') (\<lambda>c. str_of (val c))) (\<lambda>client.
        bindp (auth_run [''az'', ''login'', ''--identity'', ''--client-id'', client, ''--output'', ''none'', ''--only-show-errors'']
          ''login'') (\<lambda>_. retp ())))) (
     letp (str_of (subscription_of config)) (\<lambda>s.
     bindp (auth_run [''az'', ''account'', ''set'', ''--subscription'', s, ''--only-show-errors''] ''subscription'') (\<lambda>_.
     bindp (auth_run [''az'', ''account'', ''show'', ''--query'', ''{tenantId:tenantId,id:id}'', ''--output'', ''json'',
        ''--only-show-errors''] ''scope'') (\<lambda>r.
     letp (catch_value_error (loads r) ''Local Azure account check returned invalid JSON'') (\<lambda>account.
     letp (login_scope config) (\<lambda>expected.
     checkp (val (py_eq account expected)) ''Local Azure login scope does not match customer configuration'' (
     letp (dget0 (val profile) ''clientId'') (\<lambda>client.
     thenp (whenp (truth client) (verify_identity claims config client)) (
     letp (items (val expected)) (\<lambda>scope_pairs.
     thenp (private_write ''azure-auth.json'' (JObj ([(''profile'', JStr name), (''method'', method)] @ scope_pairs
        @ (if truth client then [(''clientId'', client), (''clientIdentityVerified'', JBool True)] else [])))) (
     retp profile)))))))))))))"

section \<open>Infrastructure\<close>

definition local_deployment_arguments :: "sha \<Rightarrow> json \<Rightarrow> request \<Rightarrow> string list res" where
  "local_deployment_arguments sha config rq =
     bindr (if deployment_scope (rq_component rq) = ''sub''
            then mapr (\<lambda>l. [''--location'', l]) (str_of (sub (val config) ''location''))
            else mapr (\<lambda>g. [''--resource-group'', g])
                   (str_of (subs (val config) [if rq_component rq \<in> {''monitoring'', ''legacy-logging''} then ''legacy'' else ''target'',
                      ''resourceGroup'']))) (\<lambda>placement.
     bindr (deployment_name sha config (rq_stage rq) (rq_component rq)) (\<lambda>name.
     val (placement @ [''--name'', name, ''--template-file'', ''plan/template.json'', ''--parameters'', ''@plan/parameters.json''])))"

definition same_connectivity :: "sha \<Rightarrow> json \<Rightarrow> ('s, unit) proc" where
  "same_connectivity sha config =
     bindp (perform (Client ''read_json'' [JStr ''connectivity-review.json''])) (\<lambda>r.
     letp (loads r) (\<lambda>reviewed.
     bindp (inspect_target_connectivity sha config True) (\<lambda>verified.
     checkp (val (py_eq verified reviewed)) ''AKS or ACR DNS context changed during local deployment'' (retp ()))))"

definition execute_infrastructure_plan :: "sha \<Rightarrow> json \<Rightarrow> request \<Rightarrow> obj \<Rightarrow> ('s, json) proc" where
  "execute_infrastructure_plan sha config rq plan =
     thenp (check_login config) (
     letp (local_deployment_arguments sha config rq) (\<lambda>arguments.
     bindp (az_scoped config ([''deployment'', deployment_scope (rq_component rq), ''create''] @ arguments
              @ (if deployment_scope (rq_component rq) = ''group'' then [''--mode'', ''Incremental''] else []))) (\<lambda>deployed.
     checkp (eqs (dget0 (dgetO (val deployed) ''properties'') ''provisioningState'') ''Succeeded'')
       ''Local infrastructure deployment did not succeed'' (
     thenp (whenp (rq_component rq = ''runner-target-connectivity'') (same_connectivity sha config)) (
     letp (map_res (\<lambda>k. mapr (\<lambda>v. (k, v)) (sub (val (JObj plan)) k)) [''revision'', ''configSha256'', ''planSha256'']) (\<lambda>kept.
     letp (sub (val config) ''environment'') (\<lambda>environment.
     letp (dget0 (val deployed) ''id'') (\<lambda>identifier.
     letp (dgetO (dgetO (val deployed) ''properties'') ''outputs'') (\<lambda>outputs.
     thenp (private_write ''deployment-outputs.json'' outputs) (
     let receipt = JObj ([(''stage'', JInt (rq_stage rq)), (''component'', JStr (rq_component rq)), (''environment'', environment)]
           @ kept @ [(''deploymentId'', identifier), (''provisioningState'', JStr ''Succeeded'')]) in
     thenp (private_write ''deployment-receipt.json'' receipt) (retp receipt)))))))))))"

text \<open>A run of the infrastructure: always a plan first, and the execution of that plan unless the
  operation is \<open>plan\<close>; \<open>execute\<close> needs the approved hash.\<close>

definition approved_hash :: "string \<Rightarrow> string \<Rightarrow> json \<Rightarrow> unit res" where
  "approved_hash operation approved plan_sha =
     whenr (operation = ''execute'') (
       check (fullmatch REPORT_HASH (val (JStr approved))) ''Local execute requires --approved-plan-sha256'' (
       check (val (plan_sha = JStr approved)) ''Local plan changed since approval'' (val ())))"

definition run_infrastructure ::
    "sha \<Rightarrow> (string \<Rightarrow> string) \<Rightarrow> yload \<Rightarrow> bool \<Rightarrow> json \<Rightarrow> request \<Rightarrow> int \<Rightarrow> string \<Rightarrow> string \<Rightarrow> ('s, json) proc" where
  "run_infrastructure sha uuid5 yload under_temp config rq now operation approved =
     checkp (val (operation \<in> {''plan'', ''execute'', ''apply''})) ''Invalid local infrastructure operation'' (
     bindp (deploy_component sha uuid5 yload under_temp config rq now ''plan'' []) (\<lambda>plan.
     letp (sub (val (JObj plan)) ''planSha256'') (\<lambda>plan_sha.
     if operation = ''plan'' then retp (JObj [(''planSha256'', plan_sha), (''deploymentPerformed'', JBool False)])
     else letp (approved_hash operation approved plan_sha) (\<lambda>_.
          bindp (execute_infrastructure_plan sha config rq plan) (\<lambda>receipt.
          retp (JObj [(''planSha256'', plan_sha), (''receipt'', receipt)]))))))"

section \<open>Runtime actions\<close>

definition runtime_plan_sha :: "('s, json) proc" where
  "runtime_plan_sha =
     bindp (perform (Client ''read_json'' [JStr ''runtime-summary.json''])) (\<lambda>r.
     letp (loads r) (\<lambda>summary.
     letp (dget (val summary) ''planSha256'' (JStr [])) (\<lambda>v.
     checkp (fullmatch REPORT_HASH (val v)) ''Local runtime preview did not produce a plan hash'' (retp v))))"

definition run_runtime :: "(string \<Rightarrow> string \<Rightarrow> ('s, unit) proc) \<Rightarrow> string \<Rightarrow> string \<Rightarrow> ('s, json) proc" where
  "run_runtime invoke operation approved =
     checkp (val (operation \<in> {''plan'', ''execute'', ''apply''})) ''Invalid local runtime operation'' (
     thenp (invoke ''plan'' []) (
     bindp runtime_plan_sha (\<lambda>plan_sha.
     if operation = ''plan'' then retp (JObj [(''planSha256'', plan_sha), (''executionPerformed'', JBool False)])
     else letp (approved_hash operation approved plan_sha) (\<lambda>_.
          letp (str_of (val plan_sha)) (\<lambda>h.
          thenp (invoke ''execute'' h) (retp (JObj [(''planSha256'', plan_sha)])))))))"

text \<open>The summary the runner read names the approved hash.\<close>

definition summary_approved :: "string \<Rightarrow> event list \<Rightarrow> bool" where
  "summary_approved approved l \<longleftrightarrow>
     (\<exists>doc. (Client ''read_json'' [JStr ''runtime-summary.json''], Json doc) \<in> set l \<and>
        dget (val doc) ''planSha256'' (JStr []) = Inr (JStr approved))"

lemma summary_approved_append: "summary_approved approved l \<Longrightarrow> summary_approved approved (l @ es)"
  by (auto simp: summary_approved_def)

lemma approved_hash_ok: "approved_hash ''execute'' approved v = Inr u \<longleftrightarrow> rmatch REPORT_HASH approved \<and> v = JStr approved"
  by (auto simp: approved_hash_def whenr_ok check_ok)

text \<open>What an operation promises the runner: planning is harmless.\<close>

locale reviewed_action =
  fixes invoke :: "string \<Rightarrow> string \<Rightarrow> ('s, unit) proc" and harmless :: "event \<Rightarrow> bool"
  assumes plans_harmless: "only harmless (invoke ''plan'' a)"
    and execute_appends: "only (\<lambda>_. True) (invoke ''execute'' a)"
    and summary_harmless: "harmless (Client ''read_json'' b, r)"
begin

lemma plan_run_harmless: "only harmless (run_runtime invoke ''plan'' approved)"
  unfolding run_runtime_def runtime_plan_sha_def
  by (intro only_intros plans_harmless summary_harmless) simp_all

lemma wp_executed:
  "wp (run_runtime invoke ''execute'' approved) (\<lambda>_. summary_approved approved)
     (\<lambda>l. list_all harmless l \<or> summary_approved approved l) []"
proof -
  have plans: "wp (invoke ''plan'' []) (\<lambda>_. list_all harmless) (list_all harmless) []"
    by (rule only_wp [OF plans_harmless]) simp_all
  have goes: "wp (invoke ''execute'' h) (\<lambda>_. summary_approved approved) (summary_approved approved) l"
    if "summary_approved approved l" for h l
    by (rule only_wp [where I = "summary_approved approved", OF execute_appends that])
      (rule summary_approved_append)
  have rest: "wp (bindp runtime_plan_sha (\<lambda>plan_sha. letp (approved_hash ''execute'' approved plan_sha) (\<lambda>_.
      letp (str_of (val plan_sha)) (\<lambda>h. thenp (invoke ''execute'' h) (retp (JObj [(''planSha256'', plan_sha)]))))))
      (\<lambda>_. summary_approved approved) (\<lambda>l. list_all harmless l \<or> summary_approved approved l) l"
    if "list_all harmless l" for l
    unfolding runtime_plan_sha_def
    by (rule wp_intros | rule wp_mono [OF goes])+
      (use that in \<open>auto simp: summary_harmless approved_hash_ok summary_approved_def intro!: wp_retp dest!: loads_Json\<close>)
  show ?thesis
    unfolding run_runtime_def
    by (simp add: checkp_def) (rule wp_thenp, rule wp_mono [OF plans rest], simp_all)
qed

lemma executed_as_approved:
  assumes "e \<in> set (log (snd (run_runtime invoke ''execute'' approved sv (start s))))" and "\<not> harmless e"
  shows "summary_approved approved (log (snd (run_runtime invoke ''execute'' approved sv (start s))))"
proof -
  have "wp (run_runtime invoke ''execute'' approved) (\<lambda>_ l. list_all harmless l \<or> summary_approved approved l)
     (\<lambda>l. list_all harmless l \<or> summary_approved approved l) (log (start s))"
    using wp_executed by (simp add: start_def, rule wp_mono) simp_all
  from wp_always [OF this, of sv] assms show ?thesis
    by (auto simp: list_all_iff)
qed

end

text \<open>Every approval gate whose harmless events include the read of a file is such an operation.\<close>

locale filed_gate = approval_gate +
  assumes reads_harmless: "harmless (Client ''read_json'' b, r)"
begin

lemma execute_any: "only (\<lambda>_. True) (operate ''execute'' a)"
  unfolding execute_op by (intro only_intros only_mono [OF prepare_harmless] apply_appends TrueI)

end

sublocale filed_gate \<subseteq> runner: reviewed_action "\<lambda>operation a. bindp (operate operation a) (\<lambda>_. retp ())" harmless
  by unfold_locales (intro only_intros plan_harmless execute_any reads_harmless)+

interpretation access_run: filed_gate
    "\<lambda>operation approved. access_operation sha config action operation revision approved"
    "access_prepare sha config action revision" "\<lambda>(kube, plan, summary). retp summary"
    "\<lambda>(kube, plan, summary). access_apply sha action kube plan summary"
    "\<lambda>p. fingerprint sha (ap_plan (fst (snd p)))" "\<lambda>p. WriteFile ''runtime-review.json'' (ap_plan (fst (snd p)))"
    "''Legacy access plan changed or was not approved''" kube_reads
  for sha config action revision
  by unfold_locales (simp add: kube_reads_def)

interpretation window_run: filed_gate
    "\<lambda>operation approved. window_operation sha fresh config action operation revision approved"
    "window_prepare sha config action revision" "\<lambda>review. report (wr_summary review)"
    "window_apply sha fresh action" "\<lambda>p. fingerprint sha (wr_plan p)"
    "\<lambda>p. WriteFile ''runtime-review.json'' (wr_plan p)" "''Audit window plan changed or was not approved''" kube_reads
  for sha fresh config action revision
  by unfold_locales (simp add: kube_reads_def)

interpretation edge_run: filed_gate
    "\<lambda>operation approved. bind_edge sha yload ydump config operation revision approved"
    "edge_prepare sha yload ydump config revision" "\<lambda>p. retp (ep_summary p)" "edge_apply sha yload config"
    "\<lambda>p. fingerprint sha (ep_plan p)" "\<lambda>p. WriteFile ''runtime-review.json'' (ep_plan p)"
    "''Edge binding plan changed or was not approved''" kube_reads
  for sha yload ydump config revision
  by unfold_locales (simp add: kube_reads_def)

interpretation dns_run: filed_gate
    "\<lambda>operation approved. change_dns sha config action operation revision approved"
    "checkp (val (action \<in> {''dns-publish'', ''dns-rollback''})) ''Invalid DNS operation''
       (dns_prepare sha config action revision)"
    "\<lambda>_. retp ()" "dns_apply sha config action" Dns_Runtime.dp_sha
    "\<lambda>p. WriteFile ''runtime-review.json'' (Dns_Runtime.dp_plan p)" "''DNS plan changed or was not approved''" dns_harmless
  for sha config action revision
  by unfold_locales (simp add: dns_harmless_def)

interpretation ingress_run: filed_gate
    "\<lambda>operation approved. deploy_private_ingress sha yload ydump ydumps lock config operation revision now approved"
    "ingress_prepare sha yload ydump ydumps lock config revision" "\<lambda>p. retp (ip_summary p)" "ingress_apply sha config revision now"
    "\<lambda>p. fingerprint sha (ip_contract p)" "\<lambda>p. WriteFile ''runtime-review.json'' (ingress_review sha p)"
    "''Private ingress plan changed or was not approved''" ingress_kept
  for sha yload ydump ydumps lock config revision now
  by unfold_locales simp

section \<open>Dispatch\<close>

text \<open>What a run gets from outside: the hash and the YAML functions, the clock, the decoder of tokens
  and the operations that are not modelled here.\<close>

record 's tools =
  t_sha :: sha
  t_uuid5 :: "string \<Rightarrow> string"
  t_yload :: yload
  t_ydump :: ydump
  t_ydumps :: "json list \<Rightarrow> string"
  t_lock :: json
  t_now :: string
  t_micros :: int
  t_fresh :: string
  t_claims :: "string \<Rightarrow> json option"
  t_under_temp :: bool
  t_output :: string
  t_other_action :: "string \<Rightarrow> string \<Rightarrow> string \<Rightarrow> ('s, unit) proc"
  t_other_step :: "string \<Rightarrow> ('s, json) proc"

definition runtime_actions :: "string list" where
  "runtime_actions = map (\<lambda>p. snd (snd p)) RUNTIME_STEPS"

definition invoke_runtime_action :: "'s tools \<Rightarrow> json \<Rightarrow> json \<Rightarrow> string \<Rightarrow> string \<Rightarrow> string \<Rightarrow> ('s, unit) proc" where
  "invoke_runtime_action tools config revision action operation approved =
     (if action \<in> {''legacy-access-restrict'', ''legacy-access-restore''}
      then bindp (access_operation (t_sha tools) config action operation revision approved) (\<lambda>_. retp ())
      else if action = ''private-ingress''
      then bindp (deploy_private_ingress (t_sha tools) (t_yload tools) (t_ydump tools) (t_ydumps tools) (t_lock tools) config
             operation revision (t_now tools) approved) (\<lambda>_. retp ())
      else if action = ''edge-bind''
      then bindp (bind_edge (t_sha tools) (t_yload tools) (t_ydump tools) config operation revision approved) (\<lambda>_. retp ())
      else if action \<in> {''audit-pause'', ''audit-resume''}
      then bindp (window_operation (t_sha tools) (t_fresh tools) config action operation revision approved) (\<lambda>_. retp ())
      else if action \<in> {''dns-publish'', ''dns-rollback''}
      then bindp (change_dns (t_sha tools) config action operation revision approved) (\<lambda>_. retp ())
      else if action \<in> set runtime_actions then t_other_action tools action operation approved
      else failp (MigrationError ''Unsupported local runtime action''))"

definition step_request :: "json \<Rightarrow> int \<Rightarrow> string \<Rightarrow> json \<Rightarrow> request" where
  "step_request revision stage component release_doc =
     \<lparr>rq_stage = stage, rq_component = component, rq_revision = revision, rq_previous = JList [], rq_release = release_doc,
      rq_baseline = JNull\<rparr>"

definition release_report :: "('s, json) proc" where
  "release_report =
     bindp (perform (Client ''read_json'' [JStr ''releaseReportPath''])) (\<lambda>r.
     letp (catch_value_error (loads r) ''Unable to read local Stage9 release report JSON'') (\<lambda>document.
     checkp (val (is_dict document)) ''Local Stage9 release report must be a JSON object'' (retp document)))"

definition stepped :: "'s tools \<Rightarrow> json \<Rightarrow> json \<Rightarrow> int \<Rightarrow> string \<Rightarrow> json \<Rightarrow> string \<Rightarrow> string \<Rightarrow> ('s, json) proc" where
  "stepped tools config revision stage component release_doc operation approved =
     run_infrastructure (t_sha tools) (t_uuid5 tools) (t_yload tools) (t_under_temp tools) config
       (step_request revision stage component release_doc) (t_micros tools) operation approved"

definition run_step :: "'s tools \<Rightarrow> json \<Rightarrow> json \<Rightarrow> string \<Rightarrow> string \<Rightarrow> string \<Rightarrow> ('s, json) proc" where
  "run_step tools config revision step operation approved =
     (case map_of INFRASTRUCTURE_STEPS step of
        Some (stage, component) \<Rightarrow> stepped tools config revision stage component JNull operation approved
      | None \<Rightarrow>
     if image_step step
     then checkp (val (operation \<in> {''execute'', ''apply''})) ''Image promotion is an explicit execute operation and has no ARM plan''
            (t_other_step tools step)
     else if step = ''stage9-edge-release''
     then bindp release_report (\<lambda>document. stepped tools config revision 9 ''edge'' document operation approved)
     else (case map_of RUNTIME_STEPS step of
        Some (stage, action) \<Rightarrow>
          checkp (disjr (val (action \<notin> {''legacy-access-restrict'', ''legacy-access-restore''})) (has (val config) ''legacyAccess''))
            ''Configure legacyAccess before changing legacy source restrictions'' (
          run_runtime (invoke_runtime_action tools config revision action) operation approved)
      | None \<Rightarrow>
     if step \<in> {''connectivity-check'', ''backup-restore''}
     then checkp (val (operation \<in> {''execute'', ''apply''})) ''The step does not use plan/execute'' (t_other_step tools step)
     else failp (MigrationError ''Unknown local execution step'')))"

definition unplanned_steps :: "string list" where
  "unplanned_steps = [''config-check'', ''stage2-decisions'', ''stage3-source-check'', ''stage4-target-check'']"

definition execute_step :: "'s tools \<Rightarrow> json \<Rightarrow> obj \<Rightarrow> json \<Rightarrow> string \<Rightarrow> environment \<Rightarrow> string \<Rightarrow> string \<Rightarrow> ('s, json) proc" where
  "execute_step tools config settings revision step env requested approved =
     letp (enforce_local_policy settings step config) (\<lambda>_.
     letp (local_operation step requested) (\<lambda>operation.
     if step \<in> set unplanned_steps
     then checkp (val (operation \<in> {''execute'', ''apply''})) ''The step does not use plan/execute'' (
          if step = ''config-check'' then letp (check_configuration (t_sha tools) config) retp else t_other_step tools step)
     else
     bindp (case authentication_profile_for_step step of
         None \<Rightarrow> retp JNull | Some name \<Rightarrow> authenticate_azure (t_claims tools) config settings name) (\<lambda>profile.
     letp (environment_updates config settings step profile) (\<lambda>updates.
     letp (fst (setenvs updates env)) (\<lambda>_.
     run_step tools config revision step operation approved)))))"

section \<open>\<open>main\<close>\<close>

text \<open>The files with credentials or data below the output directory, which are unlinked at the end.\<close>

definition SENSITIVE_FILES :: "string list" where
  "SENSITIVE_FILES = [''kubeconfig'', ''aks-ca.crt'', ''database.dump'', ''downloaded.dump'']"

definition remove_sensitive_runtime_files :: "('s, unit) proc" where
  "remove_sensitive_runtime_files =
     bindp (perform (Client ''unlink_files'' (map JStr SENSITIVE_FILES))) (\<lambda>r.
     if r = Failure then failp (OSError ''unlink'') else retp ())"

text \<open>\<open>type(error).__name__\<close>\<close>

fun error_name :: "py_error \<Rightarrow> string" where
  "error_name (MigrationError m) = ''MigrationError''"
| "error_name (DatabaseAuthError m) = ''DatabaseAuthError''"
| "error_name (ValueError m) = ''ValueError''"
| "error_name TypeError = ''TypeError''"
| "error_name KeyError = ''KeyError''"
| "error_name AttributeError = ''AttributeError''"
| "error_name IndexError = ''IndexError''"
| "error_name StopIteration = ''StopIteration''"
| "error_name OverflowError = ''OverflowError''"
| "error_name (OSError m) = ''OSError''"
| "error_name (RuntimeError m) = ''RuntimeError''"

definition run_summary :: "'s tools \<Rightarrow> json \<Rightarrow> string \<Rightarrow> string \<Rightarrow> json \<Rightarrow> string \<Rightarrow> json \<Rightarrow> json" where
  "run_summary tools environment step operation revision config_sha result =
     JObj [(''version'', JInt 1), (''mode'', JStr ''local-direct''), (''environment'', environment), (''step'', JStr step),
       (''operation'', JStr operation), (''revision'', revision), (''configSha256'', JStr config_sha),
       (''completedAt'', JStr (t_now tools)), (''outputDirectory'', JStr (t_output tools)), (''result'', result)]"

definition local_main :: "'s tools \<Rightarrow> json \<Rightarrow> obj \<Rightarrow> json \<Rightarrow> string \<Rightarrow> environment \<Rightarrow> string \<Rightarrow> string \<Rightarrow> ('s, json) proc" where
  "local_main tools config settings revision step env requested approved =
     letp (local_operation step requested) (\<lambda>operation.
     let config_sha = fingerprint (t_sha tools) (JObj [(''customer'', config), (''localExecution'', JObj settings)]);
         summary = (\<lambda>environment. run_summary tools environment step operation revision config_sha) in
     bindp (finallyp
        (catchp (\<lambda>_. True) (execute_step tools config settings revision step env operation approved) (\<lambda>e.
           letp (sub (val config) ''environment'') (\<lambda>environment.
           thenp (private_write ''local-execution.json''
             (summary environment (JObj [(''status'', JStr ''failed''), (''errorType'', JStr (error_name e))]))) (failp e))))
        remove_sensitive_runtime_files) (\<lambda>result.
     letp (sub (val config) ''environment'') (\<lambda>environment.
     thenp (private_write ''local-execution.json'' (summary environment result)) (retp (summary environment result)))))"

section \<open>What local runs do\<close>

text \<open>The runtime actions that are modelled, and the events each of them may cause without approval.\<close>

definition modelled_actions :: "string list" where
  "modelled_actions =
     [''legacy-access-restrict'', ''legacy-access-restore'', ''private-ingress'', ''edge-bind'', ''audit-pause'',
      ''audit-resume'', ''dns-publish'', ''dns-rollback'']"

definition quiet :: "string \<Rightarrow> event \<Rightarrow> bool" where
  "quiet action =
     (if action \<in> {''dns-publish'', ''dns-rollback''} then dns_harmless
      else if action = ''private-ingress'' then ingress_kept else kube_reads)"

lemma modelled_reviewed:
  "action \<in> set modelled_actions \<Longrightarrow> reviewed_action (invoke_runtime_action tools config revision action) (quiet action)"
  unfolding modelled_actions_def
  by (simp, elim disjE)
    (simp_all add: invoke_runtime_action_def [abs_def] quiet_def access_run.runner.reviewed_action_axioms
      window_run.runner.reviewed_action_axioms edge_run.runner.reviewed_action_axioms
      dns_run.runner.reviewed_action_axioms ingress_run.runner.reviewed_action_axioms del: unit_abs_eta_conv)

text \<open>
  C23: a local run of a runtime action changed nothing outside its harmless events, or it was asked
  to execute with the hash that the plan of this same run had just reported, or to apply at once.
\<close>

theorem local_runtime_runs_are_approved:
  assumes "action \<in> set modelled_actions"
  shows "list_all (quiet action) (log (snd (run_runtime (invoke_runtime_action tools config revision action) operation approved sv (start s))))
    \<or> operation = ''apply'' \<or> operation = ''execute'' \<and> summary_approved approved
        (log (snd (run_runtime (invoke_runtime_action tools config revision action) operation approved sv (start s))))"
proof -
  let ?run = "run_runtime (invoke_runtime_action tools config revision action)"
  note reviewed = modelled_reviewed [OF assms, of tools config revision]
  consider "operation = ''plan''" | "operation = ''execute''" | "operation = ''apply''"
    | "operation \<notin> {''plan'', ''execute'', ''apply''}" by blast
  then show ?thesis
  proof cases
    case 1
    then show ?thesis
      using onlyD [OF reviewed_action.plan_run_harmless [OF reviewed], of approved sv "start s"]
      by (auto simp: start_def)
  next
    case 2
    then show ?thesis
      using reviewed_action.executed_as_approved [OF reviewed, of _ approved sv s] by (auto simp: list_all_iff)
  next
    case 4
    then show ?thesis by (simp add: run_runtime_def checkp_def failp_def start_def)
  qed simp
qed

theorem local_runtime_runs_are_approved_witness:
  "\<forall>(tools :: unit tools) config revision operation approved sv s.
    list_all (quiet ''edge-bind'') (log (snd (run_runtime (invoke_runtime_action tools config revision ''edge-bind'') operation approved sv (start s))))
    \<or> operation = ''apply'' \<or> operation = ''execute'' \<and> summary_approved approved
        (log (snd (run_runtime (invoke_runtime_action tools config revision ''edge-bind'') operation approved sv (start s))))"
  by (intro allI local_runtime_runs_are_approved) (simp add: modelled_actions_def)

section \<open>Infrastructure runs\<close>

lemma auth_run_keeps:
  "(\<And>r. keeping (Command arguments, r)) \<Longrightarrow> only keeping (auth_run arguments label)"
  unfolding auth_run_def by (intro only_intros only_private_write) simp_all

lemma verify_identity_keeps: "only keeping (verify_identity claims config client)"
  unfolding verify_identity_def
  by (intro only_intros auth_run_keeps) (auto simp: keeping_def creates_def words_eval intro!: only_intros split: option.split)

lemma authenticate_keeps: "only keeping (authenticate_azure claims config settings name)"
  unfolding authenticate_azure_def
  by (intro only_intros only_private_write auth_run_keeps verify_identity_keeps)
    (simp_all add: keeping_def creates_def words_eval)

text \<open>The plan that was written for review allows what was asked for.\<close>

definition infrastructure_reviewed :: "string \<Rightarrow> string \<Rightarrow> event list \<Rightarrow> bool" where
  "infrastructure_reviewed operation approved l \<longleftrightarrow>
     (\<exists>plan r. (WriteFile ''plan-summary.json'' (JObj plan), r) \<in> set l \<and>
        (operation = ''apply'' \<or> operation = ''execute'' \<and> map_of plan ''planSha256'' = Some (JStr approved)))"

definition infrastructure_safe :: "string \<Rightarrow> string \<Rightarrow> event list \<Rightarrow> bool" where
  "infrastructure_safe operation approved l \<longleftrightarrow> list_all keeping l \<or> infrastructure_reviewed operation approved l"

lemma infrastructure_reviewed_append:
  "infrastructure_reviewed operation approved l \<Longrightarrow> infrastructure_reviewed operation approved (l @ es)"
  by (auto simp: infrastructure_reviewed_def)

lemma plan_only_keeps: "only keeping (deploy_component sha uuid5 yload under_temp config rq now ''plan'' a)"
  by (simp add: deploy_component_gate) (intro only_intros deployment.plan_harmless)

lemma wp_plan_written:
  "wp (deploy_component sha uuid5 yload under_temp config rq now ''plan'' a)
     (\<lambda>plan l. \<exists>r. (WriteFile ''plan-summary.json'' (JObj plan), r) \<in> set l) (\<lambda>_. True) l"
  unfolding deploy_component_def
  by (rule wp_intros TrueI | rule wp_mono [OF deploy_prepare_reviewed] | simp add: wp_retp)+

lemma wp_keeping: "only keeping p \<Longrightarrow> list_all keeping l \<Longrightarrow> wp p (\<lambda>_. list_all keeping) (list_all keeping) l"
  by (erule only_wp) simp_all

lemma execute_plan_any: "only (\<lambda>_. True) (execute_infrastructure_plan sha config rq plan)"
  unfolding execute_infrastructure_plan_def same_connectivity_def Let_def
  by (intro only_intros only_private_write only_az_scoped only_mono [OF only_reading_target]
      only_mono [OF keeping_shows(3)] TrueI)

lemma wp_execute:
  "infrastructure_reviewed operation approved l \<Longrightarrow>
     wp (execute_infrastructure_plan sha config rq plan) (\<lambda>_. infrastructure_reviewed operation approved)
       (infrastructure_reviewed operation approved) l"
  by (rule only_wp [OF execute_plan_any]) (simp_all add: infrastructure_reviewed_append)

lemma wp_run_infrastructure:
  assumes "list_all keeping l"
  shows "wp (run_infrastructure sha uuid5 yload under_temp config rq now operation approved)
    (\<lambda>_. infrastructure_safe operation approved) (infrastructure_safe operation approved) l"
proof -
  let ?plan = "deploy_component sha uuid5 yload under_temp config rq now ''plan'' []"
  have planned: "wp ?plan (\<lambda>plan l. list_all keeping l \<and> (\<exists>r. (WriteFile ''plan-summary.json'' (JObj plan), r) \<in> set l))
      (list_all keeping) l"
    by (rule wp_mono [OF wp_conj [OF wp_keeping [OF plan_only_keeps assms] wp_plan_written]]) auto
  have reviewed: "infrastructure_reviewed operation approved l'"
    if "(WriteFile ''plan-summary.json'' (JObj plan), r) \<in> set l'" "sub (val (JObj plan)) ''planSha256'' = Inr h"
      "approved_hash operation approved h = Inr u" "operation \<in> {''plan'', ''execute'', ''apply''}" "operation \<noteq> ''plan''"
    for plan r l' h u
    using that by (auto simp: infrastructure_reviewed_def approved_hash_ok sub_ok)
  have rest: "wp (letp (sub (val (JObj plan)) ''planSha256'') (\<lambda>h.
      if operation = ''plan'' then retp (JObj [(''planSha256'', h), (''deploymentPerformed'', JBool False)])
      else letp (approved_hash operation approved h) (\<lambda>_.
        bindp (execute_infrastructure_plan sha config rq plan) (\<lambda>receipt.
        retp (JObj [(''planSha256'', h), (''receipt'', receipt)])))))
      (\<lambda>_. infrastructure_safe operation approved) (infrastructure_safe operation approved) l'"
    if l': "list_all keeping l'" "(WriteFile ''plan-summary.json'' (JObj plan), r) \<in> set l'"
      and op: "operation \<in> {''plan'', ''execute'', ''apply''}" for plan r l'
  proof (rule wp_letp)
    fix h
    assume h: "sub (val (JObj plan)) ''planSha256'' = Inr h"
    show "wp (if operation = ''plan'' then retp (JObj [(''planSha256'', h), (''deploymentPerformed'', JBool False)])
      else letp (approved_hash operation approved h) (\<lambda>_.
        bindp (execute_infrastructure_plan sha config rq plan) (\<lambda>receipt.
        retp (JObj [(''planSha256'', h), (''receipt'', receipt)]))))
      (\<lambda>_. infrastructure_safe operation approved) (infrastructure_safe operation approved) l'"
    proof (cases "operation = ''plan''")
      case True
      then show ?thesis using l' by (simp add: wp_retp infrastructure_safe_def)
    next
      case False
      have go: "wp (bindp (execute_infrastructure_plan sha config rq plan) (\<lambda>receipt.
          retp (JObj [(''planSha256'', h), (''receipt'', receipt)])))
        (\<lambda>_. infrastructure_safe operation approved) (infrastructure_safe operation approved) l'"
        if "infrastructure_reviewed operation approved l'"
        by (rule wp_bindp, rule wp_mono [OF wp_execute [OF that]]) (simp_all add: wp_retp infrastructure_safe_def)
      show ?thesis
        unfolding if_not_P [OF False]
        by (rule wp_letp) (use l' in \<open>simp_all add: go reviewed [OF l'(2) h _ op False] infrastructure_safe_def\<close>)
    qed
  qed (use l' in \<open>simp add: infrastructure_safe_def\<close>)
  show ?thesis
    unfolding run_infrastructure_def
    by (rule wp_checkp, rule wp_bindp, rule wp_mono [OF planned])
      (use assms rest in \<open>auto simp: infrastructure_safe_def\<close>)
qed

text \<open>What the guards on the operation leave for a later stage.\<close>

lemma staged_operation:
  assumes "local_operation step requested = Inr operation" and "infrastructure_step step" and "starts_with step ''stage''"
  shows "operation = ''plan'' \<or> requested = ''execute'' \<and> operation = ''execute''"
proof (cases "requested = ''auto''")
  case True
  then show ?thesis
    using assms by (auto simp: local_operation_def check_ok direct_step_def IMAGE_STEPS_def split: if_splits)
next
  case False
  then have "operation = requested" "requested \<in> {''plan'', ''execute'', ''apply''}" "requested = ''apply'' \<Longrightarrow> False"
    using assms apply_steps by (auto simp: local_operation_def check_ok seqr_ok whenr_ok)
  then show ?thesis by auto
qed

lemma staged_safe:
  "operation = ''plan'' \<or> operation = ''execute'' \<Longrightarrow> infrastructure_safe operation approved l \<Longrightarrow>
     list_all keeping l \<or> operation = ''execute'' \<and> infrastructure_reviewed ''execute'' approved l"
  by (auto simp: infrastructure_safe_def infrastructure_reviewed_def)

lemma infrastructure_planned: "infrastructure_step step \<Longrightarrow> step \<notin> set unplanned_steps"
  by (auto simp: INFRASTRUCTURE_STEPS_def unplanned_steps_def)

lemma run_step_infrastructure:
  assumes "infrastructure_step step"
  obtains stage component where
    "run_step tools config revision step operation approved = stepped tools config revision stage component JNull operation approved"
proof -
  obtain p where "map_of INFRASTRUCTURE_STEPS step = Some p"
    using assms by (metis map_of_eq_None_iff not_None_eq)
  then show ?thesis by (cases p) (auto simp: run_step_def intro: that)
qed

lemma wp_execute_step:
  assumes infra: "infrastructure_step step" and staged: "starts_with step ''stage''"
    and safe_def: "safe = (\<lambda>l. list_all keeping l \<or> requested = ''execute'' \<and> infrastructure_reviewed ''execute'' approved l)"
  shows "wp (execute_step tools config settings revision step env requested approved) (\<lambda>_. safe) safe []"
proof -
  have run: "wp (run_step tools config revision step operation approved) (\<lambda>_. safe) safe l"
    if op: "local_operation step requested = Inr operation" and l: "list_all keeping l" for operation l
  proof -
    obtain stage component where
      eq: "run_step tools config revision step operation approved = stepped tools config revision stage component JNull operation approved"
      by (rule run_step_infrastructure [OF infra])
    have "safe l'" if "infrastructure_safe operation approved l'" for l'
      using staged_operation [OF op infra staged] that unfolding safe_def
      by (auto simp: infrastructure_safe_def infrastructure_reviewed_def)
    then show ?thesis
      unfolding eq stepped_def by (intro wp_mono [OF wp_run_infrastructure [OF l]])
  qed
  have login: "wp (case authentication_profile_for_step step of
      None \<Rightarrow> retp JNull | Some name \<Rightarrow> authenticate_azure (t_claims tools) config settings name)
      (\<lambda>_. list_all keeping) (list_all keeping) []"
    by (rule wp_keeping) (auto intro: only_intros authenticate_keeps split: option.split)
  have safe: "safe l" if "list_all keeping l" for l using that by (simp add: safe_def)
  show ?thesis
    unfolding execute_step_def if_not_P [OF infrastructure_planned [OF infra]]
  proof (rule wp_letp, rule wp_letp)
    fix operation
    assume op: "local_operation step requested = Inr operation"
    show "wp (bindp (case authentication_profile_for_step step of
        None \<Rightarrow> retp JNull | Some name \<Rightarrow> authenticate_azure (t_claims tools) config settings name) (\<lambda>profile.
      letp (environment_updates config settings step profile) (\<lambda>updates.
      letp (fst (setenvs updates env)) (\<lambda>_.
      run_step tools config revision step operation approved)))) (\<lambda>_. safe) safe []"
      by (rule wp_bindp, rule wp_mono [OF login], (rule wp_letp)+) (auto intro: run [OF op] safe)
  qed (simp_all add: safe)
qed

text \<open>
  A local run of an infrastructure step of the stages 3 to 9 creates nothing in Azure, or it
  was asked to execute with the hash of the plan that this same run wrote for review.
\<close>

theorem staged_infrastructure_needs_approval:
  assumes "infrastructure_step step" and "starts_with step ''stage''"
  shows "list_all keeping (log (snd (execute_step tools config settings revision step env requested approved sv (start s))))
    \<or> requested = ''execute'' \<and> infrastructure_reviewed ''execute'' approved
        (log (snd (execute_step tools config settings revision step env requested approved sv (start s))))"
proof -
  have "wp (execute_step tools config settings revision step env requested approved)
     (\<lambda>_ l. list_all keeping l \<or> requested = ''execute'' \<and> infrastructure_reviewed ''execute'' approved l)
     (\<lambda>l. list_all keeping l \<or> requested = ''execute'' \<and> infrastructure_reviewed ''execute'' approved l) (log (start s))"
    using wp_execute_step [OF assms refl] by (simp add: start_def)
  from wp_always [OF this] show ?thesis .
qed

theorem staged_infrastructure_needs_approval_witness:
  "\<forall>(tools :: unit tools) config settings revision env requested approved sv s.
    list_all keeping (log (snd (execute_step tools config settings revision ''stage5-platform'' env requested approved sv (start s))))
    \<or> requested = ''execute'' \<and> infrastructure_reviewed ''execute'' approved
        (log (snd (execute_step tools config settings revision ''stage5-platform'' env requested approved sv (start s))))"
  by (intro allI staged_infrastructure_needs_approval) (simp_all add: INFRASTRUCTURE_STEPS_def starts_with_def)

section \<open>The end of a local run\<close>

lemma log_finallyp: "log (snd (finallyp m c sv w)) = log (snd (c sv (snd (m sv w))))"
  by (auto simp: finallyp_def split: prod.splits sum.splits)

lemma log_remove:
  "\<exists>r. log (snd (remove_sensitive_runtime_files sv w)) = log w @ [(Client ''unlink_files'' (map JStr SENSITIVE_FILES), r)]"
  unfolding remove_sensitive_runtime_files_def
  by (cases "sv (Client ''unlink_files'' (map JStr SENSITIVE_FILES)) (ext w)")
    (auto simp: bindp_def perform_def failp_def retp_def)

text \<open>
  C24: every local run that gets past the check of its operation, failed or not, unlinks the files
  with credentials and data, and only writes its summary after that.
\<close>

theorem sensitive_files_are_removed:
  fixes tools :: "'s tools"
  shows "log (snd (local_main tools config settings revision step env requested approved sv (start s))) = []
   \<or> (\<exists>before r after.
       log (snd (local_main tools config settings revision step env requested approved sv (start s)))
         = before @ (Client ''unlink_files'' (map JStr SENSITIVE_FILES), r) # after \<and> list_all is_write_file after)"
proof (cases "local_operation step requested")
  case (Inl e)
  then show ?thesis by (simp add: local_main_def letp_def failp_def start_def)
next
  case (Inr operation)
  define body where "body = catchp (\<lambda>_. True) (execute_step tools config settings revision step env operation approved) (\<lambda>e.
       letp (sub (val config) ''environment'') (\<lambda>environment.
       thenp (private_write ''local-execution.json''
         (run_summary tools environment step operation revision (fingerprint (t_sha tools) (JObj [(''customer'', config), (''localExecution'', JObj settings)]))
            (JObj [(''status'', JStr ''failed''), (''errorType'', JStr (error_name e))]))) (failp e)))"
  define rest :: "json \<Rightarrow> ('s, json) proc" where "rest = (\<lambda>result. letp (sub (val config) ''environment'') (\<lambda>environment.
     let summary = run_summary tools environment step operation revision
       (fingerprint (t_sha tools) (JObj [(''customer'', config), (''localExecution'', JObj settings)])) result in
     thenp (private_write ''local-execution.json'' summary) (retp summary)))"
  have main: "local_main tools config settings revision step env requested approved = bindp (finallyp body remove_sensitive_runtime_files) rest"
    unfolding local_main_def Inr letp_def by (simp add: body_def rest_def Let_def letp_def)
  have writes: "only is_write_file (rest result)" for result
    unfolding rest_def Let_def by (intro only_intros only_private_write) (simp_all add: is_write_file_def)
  obtain q w where q: "finallyp body remove_sensitive_runtime_files sv (start s) = (q, w)" by fastforce
  obtain r where r: "log w = log (snd (body sv (start s))) @ [(Client ''unlink_files'' (map JStr SENSITIVE_FILES), r)]"
    using log_remove [of sv "snd (body sv (start s))"] log_finallyp [of body remove_sensitive_runtime_files sv "start s"] q by auto
  show ?thesis
  proof (cases q)
    case (Inl e)
    then show ?thesis using q r by (simp add: main bindp_def) (intro exI conjI, rule refl, simp)
  next
    case (Inr result)
    obtain es where "log (snd (rest result sv w)) = log w @ es" "list_all is_write_file es"
      by (rule onlyD [OF writes])
    then show ?thesis using q r Inr by (auto simp: main bindp_def)
  qed
qed

end
