(* ===== verification/Model_Catalog.thy ===== *)
theory Model_Catalog
  imports Settings Migration_Deploy
begin

text \<open>
  \<open>scripts/model_sync_catalog.py\<close>: the nested model catalog is parsed into accounts with their targets,
  every target is found on the live Azure account it names, and the matches are reconciled into the
  configuration: known connections and mappings are kept, new ones get names derived from a hash.
\<close>

section \<open>Identifiers\<close>

definition ACCOUNT_API :: string where
  "ACCOUNT_API = ''2024-10-01''"

definition plain :: "rx \<Rightarrow> json \<Rightarrow> string res" where
  "plain expression value =
     check (val (matches_str expression value)) ''Catalog identifiers must be plain, non-empty identifiers'' (
     str_of (val value))"

definition uuid_text :: "json \<Rightarrow> string res" where
  "uuid_text value =
     check (val (is_str value)) ''Subscription must be a UUID'' (
     bindr (catch_value_error (uuid_int value) ''Subscription must be a valid UUID'') (\<lambda>i.
     check (val (i \<noteq> 0)) ''Subscription must be a nonzero UUID'' (
     val (uuid_str i))))"

definition account_id :: "string \<Rightarrow> string \<Rightarrow> string \<Rightarrow> string" where
  "account_id subscription rgroup name =
     scope_prefix subscription rgroup @ ''/providers/Microsoft.CognitiveServices/accounts/'' @ name"

definition RESOURCE_GROUP :: rx where
  "RESOURCE_GROUP = cat [alnum_or [], times 0 89 (alnum_or ''._()-'')]"

text \<open>\<open>required <= d.keys() and not d.keys() - (required | optional)\<close> of a dict.\<close>

definition shape_ok :: "string list \<Rightarrow> string list \<Rightarrow> json \<Rightarrow> bool" where
  "shape_ok needed optional v =
     (case v of
        JObj kv \<Rightarrow> set needed \<subseteq> set (keys_of kv) \<and> set (keys_of kv) \<subseteq> set needed \<union> set optional
      | _ \<Rightarrow> False)"

section \<open>Parsing the catalog\<close>

definition target_of :: "json \<Rightarrow> json \<Rightarrow> string \<Rightarrow> string \<Rightarrow> json res" where
  "target_of api_version model alias deployment =
     bindr (dgetO (val model) ''litellm_params'') (\<lambda>params.
     bindr (dgetO (val model) ''model_info'') (\<lambda>info.
     seqr (validate_options params info True) (
     bindr (items (val params)) (\<lambda>ps.
     bindr (items (val info)) (\<lambda>is.
     let version = lookup_or ps ''api_version'' api_version in
     check (val (version \<noteq> JNull)) ''Each model requires litellm_params.api_version or explicit --api-version fallback'' (
     bindr (identifier_of version) (\<lambda>version.
     let target = [(''modelGroup'', JStr alias), (''deploymentName'', JStr deployment), (''apiVersion'', version),
                   (''litellmParams'', JObj (dict_pop ps ''api_version'')), (''modelInfo'', JObj (dict_pop is ''base_model''))]
     in case map_of is ''base_model'' of
          None \<Rightarrow> val (JObj target)
        | Some b \<Rightarrow> bindr (azure_base_model b) (\<lambda>b. val (JObj (target @ [(''baseModel'', b)]))))))))))"

definition parse_model :: "json \<Rightarrow> json \<Rightarrow> json list \<times> (string \<times> string) list \<Rightarrow> (json list \<times> (string \<times> string) list) res" where
  "parse_model api_version model acc =
     (case acc of (targets, exact) \<Rightarrow>
     check (val (shape_ok [''model_name'', ''deployment_name''] [''litellm_params'', ''model_info''] model))
       ''Model requires model_name/deployment_name with optional litellm_params/model_info only'' (
     bindr (bindr (sub (val model) ''model_name'') (plain IDENTIFIER)) (\<lambda>alias.
     bindr (bindr (sub (val model) ''deployment_name'') (plain IDENTIFIER)) (\<lambda>deployment.
     check (val ((alias, deployment) \<notin> set exact)) ''Duplicate exact model mapping in resource'' (
     bindr (target_of api_version model alias deployment) (\<lambda>target.
     val (targets @ [target], (alias, deployment) # exact)))))))"

definition parse_resource ::
    "json \<Rightarrow> string \<Rightarrow> json \<Rightarrow> json list \<times> string list \<Rightarrow> (json list \<times> string list) res" where
  "parse_resource api_version subscription_id resource acc =
     (case acc of (accounts, resource_ids) \<Rightarrow>
     check (val (is_dict resource)) ''Catalog resource must be an object'' (
     check (negr (has (val resource) ''account_name''))
       ''Catalog account_name is no longer supported; migrate to name (the Azure ARM resource name)'' (
     check (val (shape_ok [''resource_group'', ''name'', ''models''] [''endpoint''] resource))
       ''Resource requires resource_group, name and models with optional expected endpoint only'' (
     bindr (mapr lower (bindr (sub (val resource) ''name'') (plain ACCOUNT_NAME))) (\<lambda>name.
     bindr (bindr (sub (val resource) ''resource_group'') (plain RESOURCE_GROUP)) (\<lambda>rgroup.
     let identity = account_id subscription_id rgroup name in
     check (val (lower identity \<notin> set resource_ids)) ''Duplicate resource identity'' (
     bindr (sub (val resource) ''models'') (\<lambda>models.
     check (val (is_list models \<and> truth models)) ''Each resource must explicitly map at least one model'' (
     bindr (list_of (val models)) (\<lambda>ms.
     bindr (fold_res (parse_model api_version) ms ([], [])) (\<lambda>(targets, exact).
     let account = [(''accountResourceId'', JStr identity), (''accountName'', JStr name),
                    (''subscriptionId'', JStr subscription_id), (''resourceGroupName'', JStr rgroup),
                    (''models'', JList targets)] in
     bindr (has (val resource) ''endpoint'') (\<lambda>expected.
     bindr (if expected
            then bindr (bindr (sub (val resource) ''endpoint'') normalize_openai_endpoint) (\<lambda>e.
                 val (account @ [(''expectedEndpoint'', JStr e)]))
            else val account) (\<lambda>account.
     val (accounts @ [JObj account], lower identity # resource_ids))))))))))))))"

type_synonym catalog_state = "json list \<times> string list \<times> string list"

definition parse_subscription :: "json \<Rightarrow> json \<Rightarrow> catalog_state \<Rightarrow> catalog_state res" where
  "parse_subscription api_version subscription acc =
     (case acc of (accounts, resource_ids, subscription_ids) \<Rightarrow>
     check (val (is_dict subscription \<and> keys_are [''subscription_id'', ''resources''] subscription))
       ''Subscription requires exactly subscription_id and resources'' (
     bindr (bindr (sub (val subscription) ''subscription_id'') uuid_text) (\<lambda>subscription_id.
     check (val (subscription_id \<notin> set subscription_ids)) ''Duplicate subscription_id'' (
     bindr (sub (val subscription) ''resources'') (\<lambda>resources.
     check (val (is_list resources \<and> truth resources)) ''Subscription resources must be nonempty'' (
     bindr (list_of (val resources)) (\<lambda>rs.
     bindr (fold_res (parse_resource api_version subscription_id) rs (accounts, resource_ids)) (\<lambda>(accounts, resource_ids).
     val (accounts, resource_ids, subscription_id # subscription_ids)))))))))"

definition LEGACY_KEYS :: "string list" where
  "LEGACY_KEYS = [''azure-openai-list'', ''deployment_list'', ''apim_name'', ''apim_resource_group'', ''region'']"

definition parse_catalog :: "json \<Rightarrow> json \<Rightarrow> json list res" where
  "parse_catalog document api_version =
     check (val (is_dict document)) ''Catalog must be a JSON object'' (
     bindr (items (val document)) (\<lambda>kv.
     check (val (set (keys_of kv) \<inter> set LEGACY_KEYS = {}))
       ''Legacy catalog is no longer supported; migrate to schema_version/subscriptions/resources/models'' (
     check (conjr (val (keys_are [''schema_version'', ''subscriptions''] document))
              (testr (\<lambda>v. v = JInt 1) (sub (val document) ''schema_version'')))
       ''Catalog requires exactly schema_version=1 and subscriptions'' (
     seqr (if api_version \<noteq> JNull then mapr (\<lambda>_. ()) (identifier_of api_version) else val ()) (
     bindr (sub (val document) ''subscriptions'') (\<lambda>subscriptions.
     check (val (is_list subscriptions \<and> truth subscriptions)) ''Catalog requires nonempty subscriptions'' (
     bindr (list_of (val subscriptions)) (\<lambda>ss.
     bindr (fold_res (parse_subscription api_version) ss ([], [], [])) (\<lambda>(accounts, _).
     val accounts)))))))))"

section \<open>Discovery\<close>

definition check_tenant :: "json \<Rightarrow> string \<Rightarrow> ('s, unit) proc" where
  "check_tenant config subscription =
     bindp (az_run False [''account'', ''show'', ''--subscription'', subscription, ''--query'', ''{id:id,tenantId:tenantId}'']) (\<lambda>context.
     letp (str_of (sub (sub (val config) ''azure'') ''tenantId'')) (\<lambda>tenant.
     checkp (conjr (mapr (\<lambda>s. lower s = lower subscription) (str_of (dget (val context) ''id'' (JStr []))))
                   (mapr (\<lambda>s. lower s = lower tenant) (str_of (dget (val context) ''tenantId'' (JStr [])))))
       ''Cross-tenant Azure OpenAI onboarding is forbidden'' (retp ())))"

definition openai_endpoints :: "json \<Rightarrow> string list res" where
  "openai_endpoints endpoints =
     bindr (items (val endpoints)) (\<lambda>kv.
     mapr remdups (map_res (\<lambda>k. normalize_openai_endpoint (lookup_or kv k JNull))
       (filter (\<lambda>k. k \<in> set (keys_of kv)) [''OpenAI'', ''OpenAI Language Model Instance API''])))"

definition live_endpoint :: "json \<Rightarrow> json \<Rightarrow> json res" where
  "live_endpoint live properties =
     bindr (sub (val live) ''kind'') (\<lambda>kind.
     if kind = JStr ''OpenAI'' then dget0 (val properties) ''endpoint''
     else bindr (dgetO (val properties) ''endpoints'') (\<lambda>endpoints.
          check (val (is_dict endpoints)) ''Foundry account must publish an explicit OpenAI endpoint'' (
          bindr (openai_endpoints endpoints) (\<lambda>candidates.
          check (val (length candidates = 1)) ''Foundry account requires one unambiguous explicit OpenAI endpoint'' (
          val (JStr (hd candidates)))))))"

text \<open>The account of the observation, with the endpoint Azure reports.\<close>

definition live_account :: "json \<Rightarrow> json \<Rightarrow> obj res" where
  "live_account requested live =
     bindr (items (val requested)) (\<lambda>kv.
     let account = filter (\<lambda>(k, v). k \<notin> {''models'', ''expectedEndpoint''}) kv in
     bindr (str_of (sub (val (JObj account)) ''accountResourceId'')) (\<lambda>identity.
     bindr (dgetO (val live) ''properties'') (\<lambda>properties.
     check (conjr (mapr (\<lambda>s. lower s = lower identity) (str_of (dget (val live) ''id'' (JStr []))))
           (conjr (in_strs (dget0 (val live) ''kind'') [''OpenAI'', ''AIServices''])
                  (eqs (dget0 (val properties) ''provisioningState'') ''Succeeded'')))
       ''Account must be an existing Succeeded Azure OpenAI/Foundry AI Services resource'' (
     bindr (mapr lower (bindr (dget0 (val properties) ''customSubDomainName'') (plain ACCOUNT_NAME))) (\<lambda>host.
     bindr (live_endpoint live properties) (\<lambda>endpoint.
     bindr (connection_endpoint (JObj (dict_set account ''endpoint'' endpoint))) (\<lambda>url.
     check (val (url = ''https://'' @ host @ ''.openai.azure.com''))
       ''Live OpenAI endpoint must exactly match the account customSubDomainName'' (
     check (disjr (negr (has (val requested) ''expectedEndpoint''))
                  (eqs (sub (val requested) ''expectedEndpoint'') url))
       ''Provided endpoint differs from the authoritative ARM OpenAI endpoint'' (
     val (dict_set account ''endpoint'' (JStr url)))))))))))"

definition live_deployment :: "json \<Rightarrow> (string \<times> json) list \<Rightarrow> (string \<times> json) list res" where
  "live_deployment deployment names =
     bindr (dget0 (val deployment) ''name'') (\<lambda>name.
     check (val (is_str name \<and> (case name of JStr s \<Rightarrow> map_of names s = None | _ \<Rightarrow> False)))
       ''Duplicate or invalid live deployment'' (
     bindr (str_of (val name)) (\<lambda>s. val (names @ [(s, deployment)]))))"

definition live_deployments :: "json \<Rightarrow> (string \<times> json) list res" where
  "live_deployments response =
     check (conjr (testr is_list (dget0 (val response) ''value'')) (negr (testr truth (dget0 (val response) ''nextLink''))))
       ''Unexpected or paginated deployment response; complete discovery required'' (
     bindr (list_of (sub (val response) ''value'')) (\<lambda>deployments. fold_res live_deployment deployments []))"

definition check_deployment :: "string \<Rightarrow> string \<Rightarrow> json \<Rightarrow> json res" where
  "check_deployment identity name deployment =
     bindr (dgetO (val deployment) ''properties'') (\<lambda>props.
     bindr (dgetO (val props) ''model'') (\<lambda>metadata.
     check (conjr (eqs (dget0 (val props) ''provisioningState'') ''Succeeded'') (eqs (dget0 (val metadata) ''format'') ''OpenAI''))
       ''Requested deployment must be Succeeded and use the OpenAI model format'' (
     bindr (bindr (dget0 (val metadata) ''name'') azure_base_model) (\<lambda>actual.
     check (testr (\<lambda>v. is_str v \<and> truth v) (dget0 (val metadata) ''version''))
       ''Requested deployment must expose its actual model version'' (
     check (mapr (\<lambda>s. lower s = lower (identity @ ''/deployments/'' @ name)) (str_of (dget (val deployment) ''id'' (JStr []))))
       ''Live deployment ID does not match the explicitly mapped resource'' (
     val actual))))))"

record discovery =
  selected :: "json list"
  unmatched :: "string list"
  found :: "(obj \<times> json) list"
  missing :: "string list"

definition select_target :: "obj \<Rightarrow> string \<Rightarrow> (string \<times> json) list \<Rightarrow> json \<Rightarrow> discovery \<Rightarrow> discovery res" where
  "select_target account identity names target d =
     bindr (str_of (sub (val target) ''deploymentName'')) (\<lambda>name.
     case map_of names name of
       None \<Rightarrow> val (d\<lparr>unmatched := unmatched d @ [name], missing := missing d @ [identity @ ''/deployments/'' @ name]\<rparr>)
     | Some deployment \<Rightarrow>
         bindr (check_deployment identity name deployment) (\<lambda>actual.
         bindr (items (val target)) (\<lambda>kv.
         val (d\<lparr>selected := selected d @ [deployment],
                found := found d @ [(account, JObj (dict_set kv ''actualBaseModel'' actual))]\<rparr>))))"

definition observation :: "json \<Rightarrow> obj \<Rightarrow> json \<Rightarrow> discovery \<Rightarrow> json res" where
  "observation requested account live d =
     bindr (has (val requested) ''expectedEndpoint'') (\<lambda>expected.
     bindr (if expected then bindr (sub (val requested) ''expectedEndpoint'') (\<lambda>e. val [(''expectedEndpoint'', e)]) else val []) (\<lambda>extra.
     bindr (map_res (\<lambda>item. sub (val item) ''name'') (selected d)) (\<lambda>names.
     val (JObj ([(''account'', JObj account), (''live'', live), (''deployments'', JList (selected d))] @ extra @
       [(''matchedDeployments'', JList names), (''missingDeployments'', JList (map JStr (unmatched d))),
        (''status'', JStr (if unmatched d \<noteq> [] then ''missing-explicit-deployment'' else ''matched''))])))))"

type_synonym discovered = "json list \<times> (obj \<times> json) list \<times> string list"

definition discover_account :: "json \<Rightarrow> discovered \<Rightarrow> ('s, discovered) proc" where
  "discover_account requested acc =
     (case acc of (observations, matches, lost) \<Rightarrow>
     letp (str_of (sub (val requested) ''accountResourceId'')) (\<lambda>identity.
     bindp (az_run False [''resource'', ''show'', ''--ids'', identity, ''--api-version'', ACCOUNT_API]) (\<lambda>live.
     letp (live_account requested live) (\<lambda>account.
     bindp (az_run False [''rest'', ''--method'', ''get'', ''--url'',
              ''https://management.azure.com'' @ identity @ ''/deployments?api-version='' @ ACCOUNT_API]) (\<lambda>response.
     letp (live_deployments response) (\<lambda>names.
     letp (list_of (sub (val requested) ''models'')) (\<lambda>targets.
     letp (fold_res (select_target account identity names) targets
             \<lparr>selected = [], unmatched = [], found = matches, missing = lost\<rparr>) (\<lambda>d.
     letp (observation requested account live d) (\<lambda>o_doc.
     retp (observations @ [o_doc], found d, missing d))))))))))"

text \<open>Deployments of one model group share their base model.\<close>

definition check_family :: "(obj \<times> json) list \<Rightarrow> json \<Rightarrow> unit res" where
  "check_family matches target =
     bindr (sub (val target) ''modelGroup'') (\<lambda>g.
     bindr (filter_res (\<lambda>m. eqr (sub (val (snd m)) ''modelGroup'') (val g)) matches) (\<lambda>same.
     bindr (map_res (\<lambda>m. sub (val (snd m)) ''actualBaseModel'') same) (\<lambda>families.
     check (val (length (remdups families) = 1))
       ''Load-balanced deployments must have the same actual base model family'' (val ()))))"

definition discover :: "json \<Rightarrow> json list \<Rightarrow> ('s, json list \<times> (obj \<times> json) list) proc" where
  "discover config accounts =
     letp (map_res (\<lambda>item. str_of (sub (val item) ''subscriptionId'')) accounts) (\<lambda>subscriptions.
     thenp (eachp (check_tenant config) (sort (remdups subscriptions))) (
     bindp (foldp discover_account accounts ([], [], [])) (\<lambda>(observations, matches, lost).
     thenp (private_write ''discovery.json'' (JList observations)) (
     checkp (val (lost = [])) ''Requested deployment missing from its explicitly mapped resource'' (
     letp (each (\<lambda>m. check_family matches (snd m)) matches) (\<lambda>_.
     retp (observations, matches)))))))"

section \<open>Reconciliation\<close>

definition triple :: "json \<Rightarrow> (json \<times> json \<times> json) res" where
  "triple m =
     bindr (sub (val m) ''modelGroup'') (\<lambda>g.
     bindr (sub (val m) ''connectionAlias'') (\<lambda>a.
     bindr (sub (val m) ''deploymentName'') (\<lambda>d. val (g, a, d))))"

definition check_known :: "json \<Rightarrow> json list \<times> string list \<Rightarrow> (json list \<times> string list) res" where
  "check_known connection acc =
     (case acc of (aliases, identities) \<Rightarrow>
     bindr (sub (val connection) ''alias'') (\<lambda>alias.
     bindr (str_of (sub (val connection) ''accountResourceId'')) (\<lambda>identity.
     check (val (alias \<notin> set aliases \<and> lower identity \<notin> set identities))
       ''Existing connection aliases/resource IDs must be unique'' (
     bindr (fmt (sub (val connection) ''subscriptionId'')) (\<lambda>s.
     bindr (fmt (sub (val connection) ''resourceGroupName'')) (\<lambda>g.
     bindr (fmt (sub (val connection) ''accountName'')) (\<lambda>n.
     check (val (lower (account_id s g n) = lower identity)) ''Existing connection identity is inconsistent'' (
     val (alias # aliases, lower identity # identities)))))))))"

text \<open>The index of the first element that satisfies \<open>p\<close>.\<close>

fun position_res :: "('a \<Rightarrow> bool res) \<Rightarrow> 'a list \<Rightarrow> nat option res" where
  "position_res p [] = Inr None"
| "position_res p (x # xs) =
     bindr (p x) (\<lambda>b. if b then Inr (Some 0) else mapr (map_option Suc) (position_res p xs))"

record plan_state =
  connections :: "json list"
  known :: "json list"
  mappings :: "json list"
  chosen :: "(json \<times> json \<times> json) list"

text \<open>The connection of an account: a new one, or the existing one with its endpoint brought up to date.\<close>

definition connect :: "sha \<Rightarrow> obj \<Rightarrow> plan_state \<Rightarrow> (json \<times> plan_state) res" where
  "connect sha account st =
     bindr (str_of (sub (val (JObj account)) ''accountResourceId'')) (\<lambda>identity.
     bindr (position_res (\<lambda>c. mapr (\<lambda>s. lower s = lower identity) (str_of (sub (val c) ''accountResourceId''))) (connections st)) (\<lambda>at.
     case at of
       None \<Rightarrow>
         (let alias = JStr (''aoai-'' @ take 16 (sha (lower identity))) in
          check (val (alias \<notin> set (known st))) ''Generated connection alias collides with existing configuration'' (
          val (alias, st\<lparr>connections := connections st @ [JObj (dict_set account ''alias'' alias)], known := alias # known st\<rparr>)))
     | Some i \<Rightarrow>
         bindr (connection_endpoint (connections st ! i)) (\<lambda>url.
         bindr (sub (val (JObj account)) ''endpoint'') (\<lambda>endpoint.
         bindr (items (val (connections st ! i))) (\<lambda>kv.
         let kv = (if JStr url \<noteq> endpoint then dict_set kv ''endpoint'' endpoint else kv) in
         bindr (sub (val (JObj kv)) ''alias'') (\<lambda>alias.
         val (alias, st\<lparr>connections := (connections st)[i := JObj kv]\<rparr>)))))))"

definition merge_section_of :: "json \<Rightarrow> string \<Rightarrow> obj \<Rightarrow> obj res" where
  "merge_section_of target key exact =
     bindr (sub (val target) key) (\<lambda>updates.
     if \<not> truth updates then val exact
     else bindr (items (val updates)) (\<lambda>us.
          bindr (items (val (lookup_or exact key (JObj [])))) (\<lambda>kv.
          val (dict_set exact key (JObj (dict_update kv us))))))"

definition refresh_mapping :: "json \<Rightarrow> obj \<Rightarrow> obj res" where
  "refresh_mapping target exact =
     bindr (sub (val target) ''apiVersion'') (\<lambda>api_version.
     bindr (has (val target) ''baseModel'') (\<lambda>declared.
     bindr (if declared then mapr Some (sub (val target) ''baseModel'')
            else if map_of exact ''baseModel'' = None then mapr Some (sub (val target) ''actualBaseModel'')
            else val None) (\<lambda>family.
     let exact = dict_set exact ''apiVersion'' api_version;
         exact = (case family of None \<Rightarrow> exact | Some b \<Rightarrow> dict_set exact ''baseModel'' b) in
     bindr (merge_section_of target ''litellmParams'' exact) (\<lambda>exact.
     bindr (merge_section_of target ''modelInfo'' exact) (\<lambda>exact.
     seqr (validate_options (lookup_or exact ''litellmParams'' (JObj [])) (lookup_or exact ''modelInfo'' (JObj [])) False) (
     val exact))))))"

definition model_identity :: "sha \<Rightarrow> string \<Rightarrow> string \<Rightarrow> string \<Rightarrow> string" where
  "model_identity sha model_group identity deployment =
     ''sync-'' @ take 24 (sha (model_group @ ''|'' @ lower identity @ ''|'' @ deployment))"

text \<open>The mapping of a target: its index in the list, after a new one was appended when there was none.\<close>

definition locate_mapping :: "sha \<Rightarrow> obj \<Rightarrow> json \<Rightarrow> json \<times> json \<times> json \<Rightarrow> json list \<Rightarrow> (nat \<times> json list) res" where
  "locate_mapping sha account target t ms =
     bindr (position_res (\<lambda>m. mapr (\<lambda>x. x = t) (triple m)) ms) (\<lambda>at.
     case at of
       Some i \<Rightarrow> val (i, ms)
     | None \<Rightarrow>
         bindr (str_of (sub (val target) ''modelGroup'')) (\<lambda>g.
         bindr (str_of (sub (val target) ''deploymentName'')) (\<lambda>d.
         bindr (str_of (sub (val (JObj account)) ''accountResourceId'')) (\<lambda>identity.
         bindr (map_res (\<lambda>m. sub (val m) ''id'') ms) (\<lambda>ids.
         check (val (JStr (model_identity sha g identity d) \<notin> set ids))
           ''Generated model ID collides with existing configuration'' (
         val (length ms, ms @ [JObj [(''modelGroup'', JStr g), (''deploymentName'', JStr d),
                (''connectionAlias'', fst (snd t)), (''id'', JStr (model_identity sha g identity d))]])))))))"

definition reconcile_match :: "sha \<Rightarrow> obj \<times> json \<Rightarrow> plan_state \<Rightarrow> plan_state res" where
  "reconcile_match sha m st =
     (case m of (account, target) \<Rightarrow>
     bindr (connect sha account st) (\<lambda>(alias, st).
     bindr (sub (val target) ''modelGroup'') (\<lambda>g.
     bindr (sub (val target) ''deploymentName'') (\<lambda>d.
     let t = (g, alias, d) in
     bindr (locate_mapping sha account target t (mappings st)) (\<lambda>(i, ms).
     bindr (items (val (ms ! i))) (\<lambda>exact.
     bindr (refresh_mapping target exact) (\<lambda>exact.
     val (st\<lparr>mappings := ms[i := JObj exact], chosen := t # chosen st\<rparr>))))))))"

definition set_models :: "json list \<Rightarrow> json list \<Rightarrow> json \<Rightarrow> json res" where
  "set_models cs ms config =
     bindr (items (val config)) (\<lambda>kv.
     bindr (items (sub (val config) ''parameters'')) (\<lambda>ps.
     bindr (items (sub (val (JObj ps)) ''platform'')) (\<lambda>platform.
     bindr (items (sub (val config) ''application'')) (\<lambda>application.
     val (JObj (dict_set (dict_set kv
       ''parameters'' (JObj (dict_set ps ''platform'' (JObj (dict_set platform ''azureOpenAIConnections'' (JList cs))))))
       ''application'' (JObj (dict_set application ''models'' (JList ms)))))))))"

definition configured_connections :: "json \<Rightarrow> json list res" where
  "configured_connections config =
     list_of (sub (sub (sub (val config) ''parameters'') ''platform'') ''azureOpenAIConnections'')"

definition configured_models :: "json \<Rightarrow> json list res" where
  "configured_models config = list_of (sub (sub (val config) ''application'') ''models'')"

definition reconcile_plan :: "sha \<Rightarrow> json \<Rightarrow> (obj \<times> json) list \<Rightarrow> string \<Rightarrow> json res" where
  "reconcile_plan sha config matches model_policy =
     bindr (configured_connections config) (\<lambda>cs.
     bindr (fold_res check_known cs ([], [])) (\<lambda>(aliases, identities).
     bindr (configured_models config) (\<lambda>ms.
     bindr (map_res triple ms) (\<lambda>ts.
     check (val (distinct ts)) ''Existing model mapping identities are duplicated'' (
     bindr (fold_res (reconcile_match sha) matches
              \<lparr>connections = cs, known = aliases, mappings = ms, chosen = []\<rparr>) (\<lambda>st.
     bindr (if model_policy = ''replace''
            then filter_res (\<lambda>m. mapr (\<lambda>t. t \<in> set (chosen st)) (triple m)) (mappings st)
            else val (mappings st)) (\<lambda>retained.
     set_models (connections st) retained config)))))))"

definition reconcile :: "sha \<Rightarrow> json \<Rightarrow> (obj \<times> json) list \<Rightarrow> string \<Rightarrow> json res" where
  "reconcile sha config matches model_policy =
     check (val (model_policy \<in> {''merge'', ''replace''})) ''Model policy must be merge or replace'' (
     check (val (matches \<noteq> [])) ''Model synchronization requires at least one discovered model'' (
     bindr (application_settings config) (\<lambda>_.
     bindr (reconcile_plan sha config matches model_policy) (\<lambda>desired.
     bindr (application_settings desired) (\<lambda>_.
     val desired)))))"

definition model_list :: "json \<Rightarrow> json list res" where
  "model_list config = bindr (application_settings config) (\<lambda>_. rendered_models config)"

section \<open>What a reconciliation keeps\<close>

text \<open>\<open>ys\<close> starts with the elements of \<open>xs\<close>, which may differ in the fields \<open>changed\<close> only.\<close>

definition kept :: "string list \<Rightarrow> json list \<Rightarrow> json list \<Rightarrow> bool" where
  "kept changed xs ys \<longleftrightarrow> length xs \<le> length ys \<and>
     (\<forall>i < length xs. \<forall>k. k \<notin> set changed \<longrightarrow> sub (val (ys ! i)) k = sub (val (xs ! i)) k)"

lemma kept_refl: "kept ch xs xs"
  by (simp add: kept_def)

lemma kept_trans: "kept ch xs ys \<Longrightarrow> kept ch ys zs \<Longrightarrow> kept ch xs zs"
  by (auto simp: kept_def)

lemma kept_append: "kept ch xs (xs @ ys)"
  by (simp add: kept_def nth_append)

lemma kept_mono: "kept [] xs ys \<Longrightarrow> kept ch xs ys"
  by (auto simp: kept_def)

lemma kept_update:
  assumes "i < length xs" and "\<And>k. k \<notin> set ch \<Longrightarrow> sub (val v) k = sub (val (xs ! i)) k"
  shows "kept ch xs (xs[i := v])"
  using assms by (auto simp: kept_def nth_list_update)

lemma kept_member:
  assumes "kept ch xs ys" "x \<in> set xs"
  shows "\<exists>y \<in> set ys. \<forall>k. k \<notin> set ch \<longrightarrow> sub (val y) k = sub (val x) k"
proof -
  from assms(2) obtain i where "i < length xs" "x = xs ! i" by (auto simp: in_set_conv_nth)
  with assms(1) show ?thesis by (intro bexI [of _ "ys ! i"]) (auto simp: kept_def)
qed

lemma position_res_Some:
  "position_res p xs = Inr (Some i) \<Longrightarrow> i < length xs \<and> p (xs ! i) = Inr True"
proof (induction xs arbitrary: i)
  case (Cons x xs)
  then show ?case by (cases i) (auto simp: py_ok map_option_case split: if_splits option.splits)
qed simp

abbreviation SYNCED :: "string list" where
  "SYNCED \<equiv> [''apiVersion'', ''baseModel'', ''litellmParams'', ''modelInfo'']"

definition same_account :: "obj \<Rightarrow> json \<Rightarrow> bool" where
  "same_account account c \<longleftrightarrow>
     (\<exists>a b. sub (val (JObj account)) ''accountResourceId'' = Inr (JStr a) \<and>
        sub (val c) ''accountResourceId'' = Inr (JStr b) \<and> lower a = lower b)"

lemma same_accountI:
  "sub (val (JObj account)) ''accountResourceId'' = Inr (JStr a) \<Longrightarrow> sub (val c) ''accountResourceId'' = Inr (JStr b) \<Longrightarrow>
     lower a = lower b \<Longrightarrow> same_account account c"
  unfolding same_account_def by blast

lemma connect_result:
  assumes "connect sha account st = Inr (alias, st')"
  shows "kept [''endpoint''] (connections st) (connections st')"
    and "mappings st' = mappings st" and "chosen st' = chosen st"
    and "\<exists>c \<in> set (connections st'). same_account account c \<and> sub (val c) ''alias'' = Inr alias"
    and "\<forall>c \<in> set (connections st'). c \<in> set (connections st) \<or> same_account account c"
proof -
  obtain identity at where i: "sub (val (JObj account)) ''accountResourceId'' = Inr (JStr identity)"
    and at: "position_res (\<lambda>c. mapr (\<lambda>s. lower s = lower identity) (str_of (sub (val c) ''accountResourceId''))) (connections st) = Inr at"
    using assms by (auto simp: connect_def py_ok)
  have "kept [''endpoint''] (connections st) (connections st') \<and> mappings st' = mappings st \<and> chosen st' = chosen st \<and>
    (\<exists>c \<in> set (connections st'). same_account account c \<and> sub (val c) ''alias'' = Inr alias) \<and>
    (\<forall>c \<in> set (connections st'). c \<in> set (connections st) \<or> same_account account c)"
  proof (cases at)
    case None
    let ?al = "JStr (''aoai-'' @ take 16 (sha (lower identity)))"
    have "same_account account (JObj (dict_set account ''alias'' ?al))"
      by (rule same_accountI [OF i _ refl]) (use i in \<open>auto simp: py_ok\<close>)
    then show ?thesis
      using assms i at None by (auto simp: connect_def Let_def kept_append check_ok sub_ok)
  next
    case (Some n)
    note n = position_res_Some [OF at [unfolded Some], THEN conjunct1] position_res_Some [OF at [unfolded Some], THEN conjunct2]
    obtain kv url endpoint where c: "connections st ! n = JObj kv"
      and st': "st' = st\<lparr>connections := (connections st)[n := JObj (if JStr url \<noteq> endpoint then dict_set kv ''endpoint'' endpoint else kv)]\<rparr>"
      and al: "sub (val (JObj (if JStr url \<noteq> endpoint then dict_set kv ''endpoint'' endpoint else kv))) ''alias'' = Inr alias"
      using assms i at Some by (auto simp: connect_def Let_def py_ok)
    let ?c = "JObj (if JStr url \<noteq> endpoint then dict_set kv ''endpoint'' endpoint else kv)"
    obtain b where b: "map_of kv ''accountResourceId'' = Some (JStr b)" "lower b = lower identity"
      using n(2) c by (auto simp: py_ok)
    have "same_account account ?c"
      by (rule same_accountI [OF i, of _ b]) (use b in \<open>auto simp: py_ok\<close>)
    moreover have "?c \<in> set (connections st')"
      using n(1) by (simp add: st' set_update_memI)
    moreover have "kept [''endpoint''] (connections st) (connections st')"
      unfolding st' using n(1) c by (auto intro!: kept_update)
    moreover have "set (connections st') \<subseteq> insert ?c (set (connections st))"
      by (simp add: st' set_update_subset_insert)
    ultimately show ?thesis
      using al by (auto simp: st')
  qed
  then show "kept [''endpoint''] (connections st) (connections st')"
    and "mappings st' = mappings st" and "chosen st' = chosen st"
    and "\<exists>c \<in> set (connections st'). same_account account c \<and> sub (val c) ''alias'' = Inr alias"
    and "\<forall>c \<in> set (connections st'). c \<in> set (connections st) \<or> same_account account c"
    by blast+
qed

lemma locate_result:
  assumes "locate_mapping sha account target (g, a, d) ms = Inr (i, ms')"
    and "sub (val target) ''modelGroup'' = Inr g" and "sub (val target) ''deploymentName'' = Inr d"
  shows "kept ch ms ms' \<and> i < length ms' \<and> triple (ms' ! i) = Inr (g, a, d) \<and>
    (\<forall>x \<in> set ms'. x \<in> set ms \<or> triple x = Inr (g, a, d))"
proof -
  obtain at where at: "position_res (\<lambda>m. mapr (\<lambda>x. x = (g, a, d)) (triple m)) ms = Inr at"
    using assms(1) by (auto simp: locate_mapping_def py_ok)
  show ?thesis
  proof (cases at)
    case None
    with assms at show ?thesis
      by (auto simp: locate_mapping_def py_ok kept_append triple_def)
  next
    case (Some n)
    with assms at position_res_Some [OF at [unfolded Some]] show ?thesis
      by (auto simp: locate_mapping_def kept_refl py_ok)
  qed
qed

lemma merge_section_other:
  "merge_section_of target key exact = Inr exact' \<Longrightarrow> k \<noteq> key \<Longrightarrow> map_of exact' k = map_of exact k"
  by (auto simp: merge_section_of_def py_ok split: if_splits)

lemma refresh_result:
  assumes "refresh_mapping target exact = Inr exact'" and "k \<notin> set SYNCED"
  shows "map_of exact' k = map_of exact k"
proof -
  obtain api family e2 where
    e1: "merge_section_of target ''litellmParams'' (case family of None \<Rightarrow> dict_set exact ''apiVersion'' api
           | Some b \<Rightarrow> dict_set (dict_set exact ''apiVersion'' api) ''baseModel'' b) = Inr e2"
    and e2: "merge_section_of target ''modelInfo'' e2 = Inr exact'"
    using assms(1) by (auto simp: refresh_mapping_def Let_def py_ok)
  show ?thesis
    using merge_section_other [OF e1, of k] merge_section_other [OF e2, of k] assms(2) by (auto split: option.splits)
qed

text \<open>The identity of a mapping that a match asks for: its model group and deployment over the alias of the
  connection of its account.\<close>

definition wants :: "json list \<Rightarrow> obj \<times> json \<Rightarrow> json \<times> json \<times> json \<Rightarrow> bool" where
  "wants cs m t \<longleftrightarrow>
     (\<exists>c \<in> set cs. \<exists>g a d. same_account (fst m) c \<and> sub (val c) ''alias'' = Inr a \<and>
        sub (val (snd m)) ''modelGroup'' = Inr g \<and> sub (val (snd m)) ''deploymentName'' = Inr d \<and> t = (g, a, d))"

definition covers :: "json list \<Rightarrow> json list \<Rightarrow> (json \<times> json \<times> json) set \<Rightarrow> obj \<times> json \<Rightarrow> bool" where
  "covers cs ms ts m \<longleftrightarrow> (\<exists>t \<in> ts. wants cs m t \<and> (\<exists>x \<in> set ms. triple x = Inr t))"

definition asked :: "json list \<Rightarrow> (obj \<times> json) list \<Rightarrow> json \<Rightarrow> bool" where
  "asked cs matches x \<longleftrightarrow> (\<exists>m \<in> set matches. \<exists>t. wants cs m t \<and> triple x = Inr t)"

lemma triple_kept:
  assumes "kept SYNCED xs ys" "x \<in> set xs" "triple x = Inr t"
  shows "\<exists>y \<in> set ys. triple y = Inr t"
proof -
  obtain y where "y \<in> set ys" "\<And>k. k \<notin> set SYNCED \<Longrightarrow> sub (val y) k = sub (val x) k"
    using kept_member [OF assms(1,2)] by blast
  then show ?thesis
    using assms(3) by (intro bexI [of _ y]) (simp_all add: triple_def)
qed

lemma same_account_kept:
  assumes "kept [''endpoint''] xs ys" "x \<in> set xs" "same_account account x" "sub (val x) ''alias'' = Inr a"
  shows "\<exists>y \<in> set ys. same_account account y \<and> sub (val y) ''alias'' = Inr a"
proof -
  obtain y where "y \<in> set ys" "\<And>k. k \<notin> {''endpoint''} \<Longrightarrow> sub (val y) k = sub (val x) k"
    using kept_member [OF assms(1,2)] by auto
  then show ?thesis
    using assms(3,4) by (intro bexI [of _ y]) (simp_all add: same_account_def)
qed

lemma wants_kept:
  assumes "wants cs m t" "kept [''endpoint''] cs cs'"
  shows "wants cs' m t"
proof -
  obtain c g a d where c: "c \<in> set cs" "same_account (fst m) c" "sub (val c) ''alias'' = Inr a"
    and m: "sub (val (snd m)) ''modelGroup'' = Inr g" "sub (val (snd m)) ''deploymentName'' = Inr d" "t = (g, a, d)"
    using assms(1) unfolding wants_def by blast
  from same_account_kept [OF assms(2) c] m show ?thesis unfolding wants_def by blast
qed

lemma covers_kept:
  assumes "covers cs ms ts m" "kept [''endpoint''] cs cs'" "kept SYNCED ms ms'" "ts \<subseteq> ts'"
  shows "covers cs' ms' ts' m"
  using assms wants_kept [OF _ assms(2)] triple_kept [OF assms(3)] unfolding covers_def by blast

lemma reconcile_match_result:
  assumes "reconcile_match sha m st = Inr st'"
  shows "kept [''endpoint''] (connections st) (connections st') \<and> kept SYNCED (mappings st) (mappings st') \<and>
    set (chosen st) \<subseteq> set (chosen st') \<and> covers (connections st') (mappings st') (set (chosen st')) m"
    and "\<forall>c \<in> set (connections st'). c \<in> set (connections st) \<or> same_account (fst m) c"
    and "\<forall>x \<in> set (mappings st'). x \<in> set (mappings st) \<or> asked (connections st') [m] x"
    and "\<forall>t \<in> set (chosen st'). t \<in> set (chosen st) \<or> wants (connections st') m t"
proof -
  obtain account target where m: "m = (account, target)" by (cases m)
  obtain al st1 g d i ms kv kv' where
    c: "connect sha account st = Inr (al, st1)"
    and t: "sub (val target) ''modelGroup'' = Inr g" "sub (val target) ''deploymentName'' = Inr d"
    and l: "locate_mapping sha account target (g, al, d) (mappings st1) = Inr (i, ms)"
    and e: "ms ! i = JObj kv" "refresh_mapping target kv = Inr kv'"
    and st': "st' = st1\<lparr>mappings := ms[i := JObj kv'], chosen := (g, al, d) # chosen st1\<rparr>"
    using assms unfolding m reconcile_match_def by (auto simp: bindr_ok items_ok Let_def split: prod.splits)
  note con = connect_result [OF c]
  have loc: "kept SYNCED (mappings st1) ms" "i < length ms" "triple (ms ! i) = Inr (g, al, d)"
    "\<forall>x \<in> set ms. x \<in> set (mappings st1) \<or> triple x = Inr (g, al, d)"
    using locate_result [OF l t] by blast+
  have upd: "kept SYNCED ms (ms[i := JObj kv'])"
    by (rule kept_update [OF loc(2)]) (simp add: e(1) refresh_result [OF e(2)])
  have all: "kept SYNCED (mappings st) (mappings st')"
    using kept_trans [OF loc(1) upd] con(2) by (simp add: st')
  have new: "triple (JObj kv') = Inr (g, al, d)"
    using loc(3) refresh_result [OF e(2)] by (simp add: triple_def e(1) sub_def)
  have here: "\<exists>x \<in> set (mappings st'). triple x = Inr (g, al, d)"
    using new loc(2) by (intro bexI [of _ "JObj kv'"]) (simp_all add: st' set_update_memI)
  have w: "wants (connections st') m (g, al, d)"
    using con(4) t unfolding wants_def m by (auto simp: st')
  show "kept [''endpoint''] (connections st) (connections st') \<and> kept SYNCED (mappings st) (mappings st') \<and>
    set (chosen st) \<subseteq> set (chosen st') \<and> covers (connections st') (mappings st') (set (chosen st')) m"
    using all con here w unfolding covers_def by (auto simp: st')
  show "\<forall>c \<in> set (connections st'). c \<in> set (connections st) \<or> same_account (fst m) c"
    using con(5) by (simp add: st' m)
  have "set (mappings st') \<subseteq> insert (JObj kv') (set ms)"
    by (simp add: st' set_update_subset_insert)
  moreover have "asked (connections st') [m] x" if "triple x = Inr (g, al, d)" for x
    unfolding asked_def using that w by (intro bexI [of _ m] exI [of _ "(g, al, d)"]) simp_all
  ultimately show "\<forall>x \<in> set (mappings st'). x \<in> set (mappings st) \<or> asked (connections st') [m] x"
    using loc(4) new con(2) by auto
  show "\<forall>t \<in> set (chosen st'). t \<in> set (chosen st) \<or> wants (connections st') m t"
    using w con(3) by (auto simp: st')
qed

lemma asked_grows: "asked cs [m] x \<Longrightarrow> kept [''endpoint''] cs cs' \<Longrightarrow> asked cs' (m # ms) x"
  "asked cs ms x \<Longrightarrow> asked cs (m # ms) x"
  unfolding asked_def using wants_kept by fastforce+

lemma reconcile_all:
  assumes "fold_res (reconcile_match sha) matches st = Inr st'"
  shows "kept [''endpoint''] (connections st) (connections st') \<and> kept SYNCED (mappings st) (mappings st') \<and>
    set (chosen st) \<subseteq> set (chosen st') \<and>
    (\<forall>m \<in> set matches. covers (connections st') (mappings st') (set (chosen st')) m) \<and>
    (\<forall>c \<in> set (connections st'). c \<in> set (connections st) \<or> (\<exists>m \<in> set matches. same_account (fst m) c)) \<and>
    (\<forall>x \<in> set (mappings st'). x \<in> set (mappings st) \<or> asked (connections st') matches x) \<and>
    (\<forall>t \<in> set (chosen st'). t \<in> set (chosen st) \<or> (\<exists>m \<in> set matches. wants (connections st') m t))"
  using assms
proof (induction matches arbitrary: st)
  case Nil
  then show ?case by (simp add: kept_refl)
next
  case (Cons m matches)
  then obtain st1 where m: "reconcile_match sha m st = Inr st1" and r: "fold_res (reconcile_match sha) matches st1 = Inr st'"
    by (auto simp: py_ok)
  note one = reconcile_match_result [OF m]
  note rest = Cons.IH [OF r]
  have grow: "kept [''endpoint''] (connections st1) (connections st')" using rest by blast
  have cs: "\<forall>c \<in> set (connections st'). c \<in> set (connections st1) \<or> (\<exists>m \<in> set matches. same_account (fst m) c)"
    and ms: "\<forall>x \<in> set (mappings st'). x \<in> set (mappings st1) \<or> asked (connections st') matches x"
    and ts: "\<forall>t \<in> set (chosen st'). t \<in> set (chosen st1) \<or> (\<exists>m \<in> set matches. wants (connections st') m t)"
    using rest by simp_all
  have "covers (connections st') (mappings st') (set (chosen st')) m"
    using covers_kept [of "connections st1" "mappings st1" "set (chosen st1)" m] one(1) rest by blast
  moreover have "kept [''endpoint''] (connections st) (connections st')"
    using kept_trans one(1) rest by blast
  moreover have "kept SYNCED (mappings st) (mappings st')"
    using kept_trans one(1) rest by blast
  moreover have "set (chosen st) \<subseteq> set (chosen st')"
    using one(1) rest by blast
  moreover have "\<forall>c \<in> set (connections st'). c \<in> set (connections st) \<or> (\<exists>m \<in> set (m # matches). same_account (fst m) c)"
    using one(2) cs by auto
  moreover have "\<forall>x \<in> set (mappings st'). x \<in> set (mappings st) \<or> asked (connections st') (m # matches) x"
    using one(3) ms asked_grows(1) [OF _ grow] asked_grows(2) by blast
  moreover have "\<forall>t \<in> set (chosen st'). t \<in> set (chosen st) \<or> (\<exists>m \<in> set (m # matches). wants (connections st') m t)"
    using one(4) ts wants_kept [OF _ grow] by (metis list.set_intros)
  ultimately show ?case
    using rest by simp
qed

lemma set_models_reads:
  assumes "set_models cs ms config = Inr desired"
  shows "configured_connections desired = Inr cs" and "configured_models desired = Inr ms"
  using assms by (auto simp: set_models_def configured_connections_def configured_models_def py_ok)

lemma covers_filter:
  assumes "covers cs ms ts m" and "filter_res (\<lambda>m. mapr (\<lambda>t. t \<in> ts) (triple m)) ms = Inr ms'"
  shows "covers cs ms' ts m"
proof -
  have "ms' = filter (\<lambda>x. mapr (\<lambda>t. t \<in> ts) (triple x) = Inr True) ms"
    using filter_res_ok [OF assms(2)] by blast
  then show ?thesis
    using assms(1) unfolding covers_def by force
qed

text \<open>The specification of a reconciliation: what it keeps, what it adds and what it leaves out.\<close>

definition reconciled :: "json \<Rightarrow> (obj \<times> json) list \<Rightarrow> string \<Rightarrow> json \<Rightarrow> bool" where
  "reconciled config matches policy desired \<longleftrightarrow>
     (\<exists>cs ms cs' ms'. configured_connections config = Inr cs \<and> configured_models config = Inr ms \<and>
        configured_connections desired = Inr cs' \<and> configured_models desired = Inr ms' \<and>
        (\<exists>settings. application_settings desired = Inr settings) \<and>
        kept [''endpoint''] cs cs' \<and> (\<forall>c \<in> set cs'. c \<in> set cs \<or> (\<exists>m \<in> set matches. same_account (fst m) c)) \<and>
        (\<forall>m \<in> set matches. \<exists>t. wants cs' m t \<and> (\<exists>x \<in> set ms'. triple x = Inr t)) \<and>
        (policy = ''merge'' \<and> kept [''apiVersion'', ''baseModel'', ''litellmParams'', ''modelInfo''] ms ms' \<and>
           (\<forall>x \<in> set ms'. x \<in> set ms \<or> asked cs' matches x) \<or>
         policy = ''replace'' \<and> (\<forall>x \<in> set ms'. asked cs' matches x)))"

text \<open>C11: A reconciled configuration is accepted by the validation of application settings and covers every match:
  there is a mapping of the model group and deployment of the match over the alias of the connection of its account
  (resource IDs compared without case).  Every connection the configuration had is still there, changed in its
  endpoint at most, and every connection that is not literally an old one is that of a matched account.  With the
  policy merge every mapping is still there, with its identity, alias, group and deployment, and every other one is
  asked for by a match; with the policy replace each mapping of the result is asked for by a match, so the mappings
  no match asks for are gone.\<close>

theorem reconciliation_keeps_and_covers:
  assumes "reconcile sha config matches policy = Inr desired"
  shows "reconciled config matches policy desired"
proof -
  obtain cs ms ids st settings kept_ms where
    cs: "configured_connections config = Inr cs" and ms: "configured_models config = Inr ms"
    and policy: "policy \<in> {''merge'', ''replace''}"
    and fold: "fold_res (reconcile_match sha) matches \<lparr>connections = cs, known = ids, mappings = ms, chosen = []\<rparr> = Inr st"
    and kept_ms: "(if policy = ''replace'' then filter_res (\<lambda>m. mapr (\<lambda>t. t \<in> set (chosen st)) (triple m)) (mappings st)
                   else val (mappings st)) = Inr kept_ms"
    and desired: "set_models (connections st) kept_ms config = Inr desired" "application_settings desired = Inr settings"
    using assms by (auto simp: reconcile_def reconcile_plan_def bindr_ok check_ok split: prod.splits)
  note all = reconcile_all [OF fold, simplified]
  note reads = set_models_reads [OF desired(1)]
  have cover: "\<exists>t. wants (connections st) m t \<and> (\<exists>x \<in> set kept_ms. triple x = Inr t)" if m: "m \<in> set matches" for m
  proof -
    have here: "covers (connections st) (mappings st) (set (chosen st)) m" using all m by simp
    have "covers (connections st) kept_ms (set (chosen st)) m"
    proof (cases "policy = ''replace''")
      case True
      show ?thesis by (rule covers_filter [OF here kept_ms [unfolded if_P [OF True]]])
    next
      case False
      then show ?thesis using here kept_ms by simp
    qed
    then show ?thesis unfolding covers_def by blast
  qed
  have "policy = ''merge'' \<and> kept SYNCED ms kept_ms \<and> (\<forall>x \<in> set kept_ms. x \<in> set ms \<or> asked (connections st) matches x) \<or>
      policy = ''replace'' \<and> (\<forall>x \<in> set kept_ms. asked (connections st) matches x)"
  proof (cases "policy = ''replace''")
    case True
    note f = kept_ms [unfolded True, simplified]
    have "\<forall>x \<in> set kept_ms. \<exists>t \<in> set (chosen st). triple x = Inr t"
      using filter_res_ok [OF f] by (auto simp: py_ok)
    then show ?thesis using all True unfolding asked_def by blast
  next
    case False
    then show ?thesis using policy kept_ms all by auto
  qed
  then show ?thesis
    using cs ms reads desired(2) all cover
    unfolding reconciled_def
    by (intro exI [of _ cs] exI [of _ ms] exI [of _ "connections st"] exI [of _ kept_ms]) simp
qed

section \<open>A synchronization\<close>

definition demo_uuid :: string where
  "demo_uuid = ''1-1-1-1''"

definition demo_connection :: "string \<Rightarrow> obj" where
  "demo_connection name =
     [(''accountResourceId'', JStr (account_id demo_uuid ''rg'' name)), (''accountName'', JStr name),
      (''subscriptionId'', JStr demo_uuid), (''resourceGroupName'', JStr ''rg'')]"

definition demo_config :: json where
  "demo_config =
     JObj [(''application'', JObj
        [(''backendImage'', JStr (''acr01.azurecr.io/litellm@sha256:'' @ replicate 64 CHR ''a'')),
         (''models'', JList [JObj [(''modelGroup'', JStr ''gpt''), (''connectionAlias'', JStr ''east''),
            (''deploymentName'', JStr ''gpt-d''), (''id'', JStr ''m1''), (''apiVersion'', JStr ''2024-10-21'')]])]),
       (''parameters'', JObj [(''platform'', JObj
        [(''containerRegistryName'', JStr ''acr01''),
         (''azureOpenAIConnections'', JList [JObj (dict_set (demo_connection ''one'') ''alias'' (JStr ''east''))])])])]"

definition demo_target :: "string \<Rightarrow> json" where
  "demo_target deployment =
     JObj [(''modelGroup'', JStr ''gpt''), (''deploymentName'', JStr deployment), (''apiVersion'', JStr ''2025-01-01''),
           (''litellmParams'', JObj []), (''modelInfo'', JObj []), (''actualBaseModel'', JStr ''azure/gpt'')]"

definition demo_account :: "string \<Rightarrow> obj" where
  "demo_account name = dict_set (demo_connection name) ''endpoint'' (JStr (''https://'' @ name @ ''.openai.azure.com''))"

definition demo_matches :: "(obj \<times> json) list" where
  "demo_matches = [(demo_account ''two'', demo_target ''gpt-e'')]"

definition demo_desired :: json where
  "demo_desired =
     (case reconcile_plan (\<lambda>s. ''0123'') demo_config demo_matches ''replace'' of Inr d \<Rightarrow> d | Inl _ \<Rightarrow> JNull)"

lemma demo_reconcile_plan: "reconcile_plan (\<lambda>s. ''0123'') demo_config demo_matches ''replace'' = Inr demo_desired"
  by code_simp

lemma demo_accepted:
  "case application_settings demo_config of Inr _ \<Rightarrow> True | Inl _ \<Rightarrow> False"
  by code_simp

lemma demo_result_accepted:
  "case application_settings demo_desired of Inr _ \<Rightarrow> True | Inl _ \<Rightarrow> False"
  by code_simp

lemma demo_reconciles: "reconcile (\<lambda>s. ''0123'') demo_config demo_matches ''replace'' = Inr demo_desired"
  using demo_reconcile_plan demo_accepted demo_result_accepted
  by (auto simp: reconcile_def demo_matches_def bindr_ok split: sum.splits)

lemma reconciliation_keeps_and_covers_witness:
  "reconcile (\<lambda>s. ''0123'') demo_config demo_matches ''replace'' = Inr demo_desired \<and>
     reconciled demo_config demo_matches ''replace'' demo_desired"
  using demo_reconciles reconciliation_keeps_and_covers [OF demo_reconciles] by blast

end
