(* ===== verification/Py_Track.thy ===== *)
theory Py_Track
  imports Py_Proc
begin

text \<open>
  Runs that update a dict in place while they go on (the \<open>record\<close> of an operation, which it
  saves again and again): the dict is threaded through, and it survives an exception, so that the
  \<open>finally\<close> that saves it once more sees its last value.

  \<open>wpt m Q E d l\<close> and \<open>onlyt P m\<close> are the counterparts of \<open>wp\<close> and \<open>only\<close>.
\<close>

named_theorems wpt_intros \<open>decomposition of runs with a dict\<close>
named_theorems onlyt_intros \<open>decomposition of the events of runs with a dict\<close>

type_synonym ('s, 'a) tracked = "obj \<Rightarrow> ('s, 'a res \<times> obj) proc"

definition rett :: "'a \<Rightarrow> ('s, 'a) tracked" where
  "rett x = (\<lambda>d. retp (Inr x, d))"

definition failt :: "py_error \<Rightarrow> ('s, 'a) tracked" where
  "failt e = (\<lambda>d. retp (Inl e, d))"

definition bindt :: "('s, 'a) tracked \<Rightarrow> ('a \<Rightarrow> ('s, 'b) tracked) \<Rightarrow> ('s, 'b) tracked" where
  "bindt m f = (\<lambda>d. bindp (m d) (\<lambda>(r, d'). case r of Inl e \<Rightarrow> retp (Inl e, d') | Inr x \<Rightarrow> f x d'))"

definition thent :: "('s, unit) tracked \<Rightarrow> ('s, 'a) tracked \<Rightarrow> ('s, 'a) tracked" where
  "thent m k = bindt m (\<lambda>_. k)"

text \<open>A run that does not touch the dict, and a pure expression.\<close>

definition liftt :: "('s, 'a) proc \<Rightarrow> ('s, 'a) tracked" where
  "liftt p = (\<lambda>d sv w. case p sv w of (r, w') \<Rightarrow> (Inr (r, d), w'))"

definition lett :: "'a res \<Rightarrow> ('a \<Rightarrow> ('s, 'b) tracked) \<Rightarrow> ('s, 'b) tracked" where
  "lett r f = (case r of Inl e \<Rightarrow> failt e | Inr x \<Rightarrow> f x)"

definition checkt :: "bool res \<Rightarrow> string \<Rightarrow> ('s, 'a) tracked \<Rightarrow> ('s, 'a) tracked" where
  "checkt c msg k = (case c of Inl e \<Rightarrow> failt e | Inr b \<Rightarrow> if b then k else failt (MigrationError msg))"

definition whent :: "bool \<Rightarrow> ('s, unit) tracked \<Rightarrow> ('s, unit) tracked" where
  "whent b m = (if b then m else rett ())"

text \<open>\<open>d.update(...)\<close> and the dict itself.\<close>

definition putt :: "obj \<Rightarrow> ('s, unit) tracked" where
  "putt new = (\<lambda>d. retp (Inr (), dict_update d new))"

definition gett :: "('s, obj) tracked" where
  "gett = (\<lambda>d. retp (Inr d, d))"

text \<open>\<open>d[k] = f(d[k])\<close>\<close>

definition changet :: "string \<Rightarrow> json \<Rightarrow> (json \<Rightarrow> json res) \<Rightarrow> ('s, unit) tracked" where
  "changet k v f =
     bindt gett (\<lambda>d. lett (f (lookup_or d k v)) (\<lambda>v'. putt [(k, v')]))"

definition savet :: "string \<Rightarrow> ('s, unit) tracked" where
  "savet name = bindt gett (\<lambda>d. liftt (private_write name (JObj d)))"

primrec eacht :: "('a \<Rightarrow> ('s, unit) tracked) \<Rightarrow> 'a list \<Rightarrow> ('s, unit) tracked" where
  "eacht f [] = rett ()"
| "eacht f (x # xs) = thent (f x) (eacht f xs)"

primrec mapt :: "('a \<Rightarrow> ('s, 'b) tracked) \<Rightarrow> 'a list \<Rightarrow> ('s, 'b list) tracked" where
  "mapt f [] = rett []"
| "mapt f (x # xs) = bindt (f x) (\<lambda>y. bindt (mapt f xs) (\<lambda>ys. rett (y # ys)))"

text \<open>The whole run: \<open>closing\<close> is what the \<open>except\<close> or \<open>finally\<close> does to the dict (it is told
  whether the run failed), and the dict is saved at the end of every run.\<close>

definition closed_run :: "string \<Rightarrow> (bool \<Rightarrow> obj \<Rightarrow> obj) \<Rightarrow> ('s, 'a) tracked \<Rightarrow> obj \<Rightarrow> ('s, 'a) proc" where
  "closed_run name closing m d =
     bindp (m d) (\<lambda>(r, d').
     thenp (private_write name (JObj (closing (case r of Inl e \<Rightarrow> True | Inr x \<Rightarrow> False) d'))) (
     case r of Inl e \<Rightarrow> failp e | Inr x \<Rightarrow> retp x))"

section \<open>Weakest preconditions\<close>

definition outcome :: "('a \<Rightarrow> obj \<Rightarrow> event list \<Rightarrow> bool) \<Rightarrow> (obj \<Rightarrow> event list \<Rightarrow> bool) \<Rightarrow> 'a res \<times> obj \<Rightarrow> event list \<Rightarrow> bool" where
  "outcome Q E = (\<lambda>(r, d') l. case r of Inl e \<Rightarrow> E d' l | Inr x \<Rightarrow> Q x d' l)"

lemma outcome_simps [simp]: "outcome Q E (Inl e, d) l = E d l" "outcome Q E (Inr x, d) l = Q x d l"
  by (simp_all add: outcome_def)

definition wpt :: "('s, 'a) tracked \<Rightarrow> ('a \<Rightarrow> obj \<Rightarrow> event list \<Rightarrow> bool) \<Rightarrow> (obj \<Rightarrow> event list \<Rightarrow> bool) \<Rightarrow> obj \<Rightarrow> event list \<Rightarrow> bool" where
  "wpt m Q E d l \<longleftrightarrow> wp (m d) (outcome Q E) (\<lambda>l. \<forall>d. E d l) l"

lemma wpt_rett [wpt_intros]: "Q x d l \<Longrightarrow> wpt (rett x) Q E d l"
  by (simp add: wpt_def rett_def wp_retp)

lemma wpt_failt [wpt_intros]: "E d l \<Longrightarrow> wpt (failt e) Q E d l"
  by (simp add: wpt_def failt_def wp_retp)

lemma wpt_bindt [wpt_intros]:
  assumes "wpt m (\<lambda>x. wpt (f x) Q E) E d l"
  shows "wpt (bindt m f) Q E d l"
  unfolding wpt_def bindt_def
proof (rule wp_bindp, rule wp_mono [OF assms [unfolded wpt_def [where m = m]]])
  fix p l'
  assume "outcome (\<lambda>x. wpt (f x) Q E) E p l'"
  then show "wp (case p of (Inl e, d') \<Rightarrow> retp (Inl e, d') | (Inr x, d') \<Rightarrow> f x d') (outcome Q E) (\<lambda>l. \<forall>d. E d l) l'"
    by (cases p; cases "fst p") (auto simp: wpt_def intro: wp_retp)
qed

lemma wpt_thent [wpt_intros]: "wpt m (\<lambda>_. wpt k Q E) E d l \<Longrightarrow> wpt (thent m k) Q E d l"
  unfolding thent_def by (rule wpt_bindt)

lemma wpt_liftt [wpt_intros]:
  fixes p :: "('s, 'a) proc"
  assumes "wp p (\<lambda>x. Q x d) (E d) l"
  shows "wpt (liftt p) Q E d l"
  unfolding wpt_def wp_def
proof (intro allI impI)
  fix sv :: "'s service" and w :: "'s world"
  assume l: "log w = l"
  obtain r w' where run: "p sv w = (r, w')" by fastforce
  have "case p sv w of (Inl e, w') \<Rightarrow> E d (log w') | (Inr x, w') \<Rightarrow> Q x d (log w')"
    using wp_run [of p "\<lambda>x. Q x d" "E d" w sv] assms l by simp
  then show "case liftt p d sv w of (Inl e, w') \<Rightarrow> \<forall>d. E d (log w') | (Inr x, w') \<Rightarrow> outcome Q E x (log w')"
    unfolding liftt_def run by (cases r) simp_all
qed

lemma wpt_lett [wpt_intros]:
  "(\<And>x. r = Inr x \<Longrightarrow> wpt (f x) Q E d l) \<Longrightarrow> E d l \<Longrightarrow> wpt (lett r f) Q E d l"
  by (cases r) (simp_all add: lett_def wpt_failt)

lemma wpt_checkt [wpt_intros]:
  "(c = Inr True \<Longrightarrow> wpt k Q E d l) \<Longrightarrow> E d l \<Longrightarrow> wpt (checkt c msg k) Q E d l"
  by (cases c) (auto simp: checkt_def intro: wpt_failt)

lemma wpt_whent [wpt_intros]:
  "(b \<Longrightarrow> wpt m Q E d l) \<Longrightarrow> (\<not> b \<Longrightarrow> Q () d l) \<Longrightarrow> wpt (whent b m) Q E d l"
  by (simp add: whent_def wpt_rett)

lemma wpt_putt [wpt_intros]: "Q () (dict_update d new) l \<Longrightarrow> wpt (putt new) Q E d l"
  by (simp add: wpt_def putt_def wp_retp)

lemma wpt_gett [wpt_intros]: "Q d d l \<Longrightarrow> wpt gett Q E d l"
  by (simp add: wpt_def gett_def wp_retp)

lemma wpt_if [wpt_intros]:
  "(b \<Longrightarrow> wpt m Q E d l) \<Longrightarrow> (\<not> b \<Longrightarrow> wpt k Q E d l) \<Longrightarrow> wpt (if b then m else k) Q E d l"
  by simp

lemma wpt_mono:
  assumes "wpt m Q E d l" and "\<And>x d' l'. Q x d' l' \<Longrightarrow> Q' x d' l'" and "\<And>d' l'. E d' l' \<Longrightarrow> E' d' l'"
  shows "wpt m Q' E' d l"
  unfolding wpt_def
proof (rule wp_mono [OF assms(1) [unfolded wpt_def]])
  fix p l'
  assume "outcome Q E p l'"
  then show "outcome Q' E' p l'"
    by (cases p; cases "fst p") (auto intro: assms(2,3))
qed (simp add: assms(3))

lemma wpt_conj:
  assumes "wpt m Q E d l" and "wpt m Q' E' d l"
  shows "wpt m (\<lambda>x d' l'. Q x d' l' \<and> Q' x d' l') (\<lambda>d' l'. E d' l' \<and> E' d' l') d l"
  unfolding wpt_def
proof (rule wp_mono [OF wp_conj [OF assms [unfolded wpt_def]]])
  fix p l'
  assume "outcome Q E p l' \<and> outcome Q' E' p l'"
  then show "outcome (\<lambda>x d' l'. Q x d' l' \<and> Q' x d' l') (\<lambda>d' l'. E d' l' \<and> E' d' l') p l'"
    by (cases p; cases "fst p") auto
qed simp

text \<open>What holds of the log of a whole run.\<close>

lemma wpt_log: "wpt m (\<lambda>_ _. I) (\<lambda>_. I) d (log w) \<Longrightarrow> I (log (snd (m d sv w)))"
  unfolding wpt_def
  by (drule wp_run [where sv = sv]) (auto simp: outcome_def split: prod.splits sum.splits)

section \<open>Events\<close>

definition onlyt :: "(event \<Rightarrow> bool) \<Rightarrow> ('s, 'a) tracked \<Rightarrow> bool" where
  "onlyt P m \<longleftrightarrow> (\<forall>d. only P (m d))"

lemma onlytD: "onlyt P m \<Longrightarrow> only P (m d)"
  by (simp add: onlyt_def)

lemma onlyt_rett [onlyt_intros]: "onlyt P (rett x)"
  by (simp add: onlyt_def rett_def only_retp)

lemma onlyt_failt [onlyt_intros]: "onlyt P (failt e)"
  by (simp add: onlyt_def failt_def only_retp)

lemma onlyt_bindt [onlyt_intros]: "onlyt P m \<Longrightarrow> (\<And>x. onlyt P (f x)) \<Longrightarrow> onlyt P (bindt m f)"
  unfolding onlyt_def bindt_def
  by (auto intro!: only_bindp only_retp split: sum.splits prod.splits)

lemma onlyt_thent [onlyt_intros]: "onlyt P m \<Longrightarrow> onlyt P k \<Longrightarrow> onlyt P (thent m k)"
  unfolding thent_def by (intro onlyt_intros)

lemma onlyt_liftt [onlyt_intros]:
  fixes p :: "('s, 'a) proc"
  assumes "only P p"
  shows "onlyt P (liftt p)"
  unfolding onlyt_def
proof (intro allI onlyI)
  fix d :: obj and sv :: "'s service" and w :: "'s world"
  obtain es where "log (snd (p sv w)) = log w @ es" "list_all P es"
    by (rule onlyD [OF assms])
  then show "\<exists>es. log (snd (liftt p d sv w)) = log w @ es \<and> list_all P es"
    by (cases "p sv w") (simp add: liftt_def)
qed

text \<open>A part whose value matters for what follows.\<close>

lemma onlyt_returns:
  fixes p :: "('s, 'a) proc"
  assumes p: "only P p" and f: "\<And>x. returns p x \<Longrightarrow> onlyt P (f x)"
  shows "onlyt P (bindt (liftt p) f)"
  unfolding onlyt_def
proof (intro allI onlyI)
  fix d :: obj and sv :: "'s service" and w :: "'s world"
  obtain r w' where run: "p sv w = (r, w')" by fastforce
  obtain es where es: "log w' = log w @ es" "list_all P es"
    using onlyD [OF p, of sv w] run by auto
  show "\<exists>es. log (snd (bindt (liftt p) f d sv w)) = log w @ es \<and> list_all P es"
  proof (cases r)
    case (Inl e)
    then show ?thesis using run es by (simp add: bindt_def liftt_def bindp_def retp_def)
  next
    case (Inr x)
    obtain fs where "log (snd (f x d sv w')) = log w' @ fs" "list_all P fs"
      using onlyD [OF onlytD [OF f [OF returnsI]], of sv w x w' d sv w'] run Inr by blast
    then show ?thesis using run es Inr by (simp add: bindt_def liftt_def bindp_def)
  qed
qed

lemma onlyt_lett [onlyt_intros]: "(\<And>x. onlyt P (f x)) \<Longrightarrow> onlyt P (lett r f)"
  by (cases r) (simp_all add: lett_def onlyt_failt)

lemma onlyt_checkt [onlyt_intros]: "onlyt P k \<Longrightarrow> onlyt P (checkt c msg k)"
  by (cases c) (simp_all add: checkt_def onlyt_failt)

lemma onlyt_whent [onlyt_intros]: "onlyt P m \<Longrightarrow> onlyt P (whent b m)"
  by (simp add: whent_def onlyt_rett)

lemma onlyt_putt [onlyt_intros]: "onlyt P (putt new)"
  by (simp add: onlyt_def putt_def only_retp)

lemma onlyt_gett [onlyt_intros]: "onlyt P gett"
  by (simp add: onlyt_def gett_def only_retp)

lemma onlyt_changet [onlyt_intros]: "onlyt P (changet k v f)"
  unfolding changet_def by (intro onlyt_intros)

lemma onlyt_savet [onlyt_intros]: "(\<And>c r. P (WriteFile name c, r)) \<Longrightarrow> onlyt P (savet name)"
  unfolding savet_def by (intro onlyt_intros only_private_write)

lemma onlyt_eacht [onlyt_intros]: "(\<And>x. onlyt P (f x)) \<Longrightarrow> onlyt P (eacht f xs)"
  by (induction xs) (auto intro: onlyt_intros)

lemma onlyt_mapt [onlyt_intros]: "(\<And>x. onlyt P (f x)) \<Longrightarrow> onlyt P (mapt f xs)"
  by (induction xs) (auto intro!: onlyt_intros)

text \<open>An invariant of the log that every event of the run keeps.\<close>

lemma onlyt_wpt:
  assumes "onlyt P m" and "I l" and "\<And>l es. I l \<Longrightarrow> list_all P es \<Longrightarrow> I (l @ es)"
  shows "wpt m (\<lambda>_ _. I) (\<lambda>_. I) d l"
  unfolding wpt_def
proof (rule wp_mono [OF only_wp [where I = I, OF onlytD [OF assms(1)]]])
  fix p l'
  assume "I l'"
  then show "outcome (\<lambda>_ _. I) (\<lambda>_. I) p l'" by (cases p; cases "fst p") simp_all
qed (use assms in auto)

text \<open>An invariant of the log that saving the dict keeps.\<close>

lemma wp_closed_run:
  assumes "wpt m (\<lambda>_ _. I) (\<lambda>_. I) d l" and keep: "\<And>l c r. I l \<Longrightarrow> I (l @ [(WriteFile name c, r)])"
  shows "wp (closed_run name closing m d) (\<lambda>_. I) I l"
  unfolding closed_run_def
proof (rule wp_bindp, rule wp_mono [OF assms(1) [unfolded wpt_def]])
  fix p l'
  assume "outcome (\<lambda>_ _. I) (\<lambda>_. I) p l'"
  then have "I l'" by (cases p; cases "fst p") auto
  then show "wp (case p of (r, d') \<Rightarrow> thenp (private_write name (JObj (closing (case r of Inl e \<Rightarrow> True | Inr x \<Rightarrow> False) d')))
      (case r of Inl e \<Rightarrow> failp e | Inr x \<Rightarrow> retp x)) (\<lambda>_. I) I l'"
    by (cases p; cases "fst p") (auto intro!: wp_thenp wp_private_write keep wp_failp wp_retp)
qed simp

lemma only_closed_run [only_intros]:
  "onlyt P m \<Longrightarrow> (\<And>c r. P (WriteFile name c, r)) \<Longrightarrow> only P (closed_run name closing m d)"
  unfolding closed_run_def
  by (auto intro!: only_bindp only_thenp only_private_write only_retp only_failp dest: onlytD split: sum.splits)

text \<open>A part of a run about which nothing needs to be known.\<close>

lemma wpt_drop: "(\<And>x d' l'. Q x d' l') \<Longrightarrow> wpt m Q (\<lambda>_ _. True) d l"
  unfolding wpt_def by (rule wp_mono [OF wp_drop [where Q = "\<lambda>_ _. True"]]) (auto simp: outcome_def split: sum.splits)

text \<open>A tracked run that keeps every exception for its closing.\<close>

definition contained :: "('s, 'a) tracked \<Rightarrow> bool" where
  "contained m \<longleftrightarrow> (\<forall>d sv w. \<exists>p w'. m d sv w = (Inr p, w'))"

named_theorems contained_intros \<open>runs that keep their exceptions\<close>

lemma contained_steps [contained_intros]:
  "contained (rett x)" "contained (failt e)" "contained (liftt q)" "contained (putt new)" "contained gett"
  by (simp_all add: contained_def rett_def failt_def liftt_def putt_def gett_def retp_def split: prod.split)

lemma contained_bindt [contained_intros]: "contained m \<Longrightarrow> (\<And>x. contained (f x)) \<Longrightarrow> contained (bindt m f)"
proof (unfold contained_def, intro allI)
  fix d sv w
  assume m: "\<forall>d sv w. \<exists>p w'. m d sv w = (Inr p, w')" and f: "\<And>x. \<forall>d sv w. \<exists>p w'. f x d sv w = (Inr p, w')"
  obtain r d' w' where run: "m d sv w = (Inr (r, d'), w')" using m by (metis prod.exhaust)
  show "\<exists>p w'. bindt m f d sv w = (Inr p, w')"
  proof (cases r)
    case (Inl e)
    then show ?thesis using run by (simp add: bindt_def bindp_def retp_def)
  next
    case (Inr x)
    then show ?thesis using run f [of x] by (simp add: bindt_def bindp_def)
  qed
qed

lemma contained_thent [contained_intros]: "contained m \<Longrightarrow> contained k \<Longrightarrow> contained (thent m k)"
  unfolding thent_def by (intro contained_intros)

lemma contained_lett [contained_intros]: "(\<And>x. contained (f x)) \<Longrightarrow> contained (lett r f)"
  by (cases r) (simp_all add: lett_def contained_steps)

lemma contained_checkt [contained_intros]: "contained k \<Longrightarrow> contained (checkt c msg k)"
  by (cases c) (simp_all add: checkt_def contained_steps)

lemma contained_whent [contained_intros]: "contained m \<Longrightarrow> contained (whent b m)"
  by (simp add: whent_def contained_steps)

lemma contained_if [contained_intros]: "contained a \<Longrightarrow> contained b \<Longrightarrow> contained (if c then a else b)"
  by simp

lemma contained_savet [contained_intros]: "contained (savet name)"
  unfolding savet_def by (intro contained_intros)

lemma wp_contained:
  fixes m :: "('s, 'a) tracked"
  shows "contained m \<Longrightarrow> wp (m d) Q (\<lambda>_. True) l \<Longrightarrow> wp (m d) Q E l"
proof (unfold wp_def, intro allI impI)
  fix sv and w :: "'s world"
  assume "contained m" and run: "\<forall>sv w. log w = l \<longrightarrow>
    (case m d sv w of (Inl e, w') \<Rightarrow> True | (Inr x, w') \<Rightarrow> Q x (log w'))" and "log w = l"
  then obtain p w' where "m d sv w = (Inr p, w')" unfolding contained_def by blast
  with spec [OF spec [OF run, of sv], of w] \<open>log w = l\<close>
  show "case m d sv w of (Inl e, w') \<Rightarrow> E (log w') | (Inr x, w') \<Rightarrow> Q x (log w')" by simp
qed

text \<open>The last event of such a run saves what the closing made of the dict.\<close>

lemma wp_closed_contained:
  fixes m :: "('s, 'a) tracked"
  assumes m: "contained m" and run: "wpt m (\<lambda>x d' _. Q x d') (\<lambda>_ _. True) d l"
    and good: "\<And>x d' r l. Q x d' \<Longrightarrow> r \<noteq> Failure \<Longrightarrow> Q' x (l @ [(WriteFile name (JObj (closing False d')), r)])"
    and bad: "\<And>f d' r l. E (l @ [(WriteFile name (JObj (closing f d')), r)])"
  shows "wp (closed_run name closing m d) Q' E l"
  unfolding closed_run_def
proof (rule wp_bindp, rule wp_contained [OF m], rule wp_mono [OF run [unfolded wpt_def]])
  fix p :: "'a res \<times> obj" and l'
  assume p: "outcome (\<lambda>x d' _. Q x d') (\<lambda>_ _. True) p l'"
  obtain r d' where p': "p = (r, d')" by (cases p)
  show "wp (case p of (r, d') \<Rightarrow> thenp (private_write name (JObj (closing (case r of Inl e \<Rightarrow> True | Inr x \<Rightarrow> False) d')))
      (case r of Inl e \<Rightarrow> failp e | Inr x \<Rightarrow> retp x)) Q' E l'"
    unfolding p' private_write_def
    by (cases r) (use p p' in \<open>auto intro!: wp_intros intro: good bad\<close>)
qed simp

end
