(* ===== verification/Model_Infra.thy ===== *)
theory Model_Infra
  imports Model_Catalog Edge_Binding Py_Track "HOL-Library.AList"
begin

text \<open>
  The network and role prerequisites of a model synchronisation, from
  \<open>scripts/model_sync_infra.py\<close>: what a subnet, its DNS zone, an existing private endpoint and a
  role assignment have to look like (\<open>network_context\<close>, \<open>endpoint_state\<close>, \<open>role_state\<close>), the
  check of a What-if result against an exact list of resources (\<open>assert_what_if\<close>), the plan
  (\<open>infrastructure_plan\<close>) and its execution (\<open>execute_infrastructure\<close>).  Documents that reach
  a review stay JSON objects.
\<close>

section \<open>Reads\<close>

definition ROLE :: string where
  "ROLE = ''5e0bd9bd-7b93-4f28-af87-19fc36ad61bd''"

definition NETWORK_API :: string where
  "NETWORK_API = ''2024-07-01''"

definition DNS_API :: string where
  "DNS_API = ''2024-06-01''"

definition az_get :: "string \<Rightarrow> string \<Rightarrow> ('s, json) proc" where
  "az_get resource api = az_run False [''resource'', ''show'', ''--ids'', resource, ''--api-version'', api]"

definition az_collection :: "string \<Rightarrow> string \<Rightarrow> ('s, json list) proc" where
  "az_collection resource api =
     bindp (az_run False [''rest'', ''--method'', ''get'', ''--url'',
       ''https://management.azure.com'' @ resource @ ''?api-version='' @ api]) (\<lambda>document.
     checkp (conjr (testr is_list (dget0 (val document) ''value'')) (testr (Not \<circ> truth) (dget0 (val document) ''nextLink'')))
       ''Incomplete Azure collection; paginated responses are not accepted'' (
     letp (list_of (sub (val document) ''value'')) retp))"

section \<open>\<open>network_context\<close>\<close>

definition platform_of :: "json \<Rightarrow> json res" where
  "platform_of config = sub (sub (val config) ''parameters'') ''platform''"

record network_ids =
  vnet_id :: string
  subnet_id :: string
  openai_zone :: string
  link_id :: string

definition network_ids_of :: "json \<Rightarrow> network_ids res" where
  "network_ids_of config =
     bindr (group_id config False) (\<lambda>g.
     bindr (sub (platform_of config) ''stage4Network'') (\<lambda>network.
     bindr (prefixed (g @ ''/providers/Microsoft.Network/virtualNetworks/'') (sub (val network) ''virtualNetworkName'')) (\<lambda>vnet.
     bindr (prefixed (vnet @ ''/subnets/'') (sub (val network) ''privateEndpointSubnetName'')) (\<lambda>subnet.
     let dns = g @ ''/providers/Microsoft.Network/privateDnsZones/privatelink.openai.azure.com'' in
     bindr (prefixed (dns @ ''/virtualNetworkLinks/model-sync-'') (sub (val network) ''virtualNetworkName'')) (\<lambda>link.
     val \<lparr>vnet_id = vnet, subnet_id = subnet, openai_zone = dns, link_id = link\<rparr>)))))"

text \<open>\<open>props.get("addressPrefixes") or [props.get("addressPrefix")]\<close>\<close>

definition subnet_prefixes :: "json \<Rightarrow> json list res" where
  "subnet_prefixes props =
     bindr (dget0 (val props) ''addressPrefixes'') (\<lambda>several.
     if truth several then iter (val several) else mapr (\<lambda>p. [p]) (dget0 (val props) ''addressPrefix''))"

definition check_prefixes :: "json list \<Rightarrow> unit res" where
  "check_prefixes prefixes =
     bindr (map_res (ip_network True) prefixes) (\<lambda>networks.
     check (val (networks \<noteq> [] \<and> list_all is_private networks)) ''Private Endpoint subnet must be private'' (val ()))"

definition link_targets :: "string \<Rightarrow> json \<Rightarrow> bool res" where
  "link_targets vnet link = lower_is (dgetO (dgetO (val link) ''properties'') ''virtualNetwork'') ''id'' vnet"

definition check_links_of :: "network_ids \<Rightarrow> json list \<Rightarrow> json list \<Rightarrow> unit res" where
  "check_links_of ids links matching =
     check (val (length matching \<le> 1)) ''Ambiguous private DNS VNet links'' (
     seqr (case matching of [] \<Rightarrow> val () | link # _ \<Rightarrow>
        bindr (sub (val link) ''properties'') (\<lambda>props.
        check (allr [eqs (dget0 (val props) ''provisioningState'') ''Succeeded'',
                     eqs (dget0 (val props) ''virtualNetworkLinkState'') ''Completed'',
                     mapr (\<lambda>v. v = JBool False) (dget0 (val props) ''registrationEnabled'')])
          ''Private DNS VNet link must be completed with registration disabled'' (val ()))) (
     check (disjr (val (matching \<noteq> [])) (negr (any_res (\<lambda>link. lower_is (val link) ''id'' (link_id ids)) links)))
       ''DNS link name collides with another VNet'' (val ())))"

definition network_context :: "json \<Rightarrow> ('s, json) proc" where
  "network_context config =
     letp (network_ids_of config) (\<lambda>ids.
     bindp (az_get (subnet_id ids) NETWORK_API) (\<lambda>subnet.
     bindp (az_get (openai_zone ids) DNS_API) (\<lambda>dns_zone.
     checkp (conjr (lower_is (val subnet) ''id'' (subnet_id ids)) (lower_is (val dns_zone) ''id'' (openai_zone ids)))
       ''Target subnet/DNS zone identity mismatch'' (
     letp (sub (val subnet) ''properties'') (\<lambda>props.
     letp (subnet_prefixes props) (\<lambda>prefixes.
     letp (check_prefixes prefixes) (\<lambda>_.
     bindp (az_collection (openai_zone ids @ ''/virtualNetworkLinks'') DNS_API) (\<lambda>links.
     letp (filter_res (link_targets (vnet_id ids)) links) (\<lambda>matching.
     letp (check_links_of ids links matching) (\<lambda>_.
     letp (group_id config False) (\<lambda>g.
     bindp (az_collection (g @ ''/providers/Microsoft.Network/privateEndpoints'') NETWORK_API) (\<lambda>endpoints.
     retp (JObj [(''subnet'', subnet), (''zone'', dns_zone), (''links'', JList matching), (''endpoints'', JList endpoints),
       (''vnetId'', JStr (vnet_id ids)), (''subnetId'', JStr (subnet_id ids)), (''zoneId'', JStr (openai_zone ids)),
       (''linkId'', JStr (link_id ids)), (''prefixes'', JList prefixes)])))))))))))))"

section \<open>\<open>endpoint_state\<close>\<close>

text \<open>\<open>props.get(a, []) + props.get(b, [])\<close> of lists.\<close>

definition connections_in :: "json \<Rightarrow> json list res" where
  "connections_in props =
     bindr (list_of (dget (val props) ''privateLinkServiceConnections'' (JList []))) (\<lambda>own.
     bindr (list_of (dget (val props) ''manualPrivateLinkServiceConnections'' (JList []))) (\<lambda>manual.
     val (own @ manual)))"

definition account_of :: "json \<Rightarrow> string res" where
  "account_of account = str_of (sub (val account) ''accountResourceId'')"

definition serves :: "json \<Rightarrow> json \<Rightarrow> bool res" where
  "serves account connection =
     bindr (lower_get (dgetO (val connection) ''properties'') ''privateLinkServiceId'') (\<lambda>service.
     mapr (\<lambda>a. service = lower a) (account_of account))"

definition is_candidate :: "json \<Rightarrow> json \<Rightarrow> json \<Rightarrow> bool res" where
  "is_candidate account context endpoint =
     bindr (dgetO (val endpoint) ''properties'') (\<lambda>props.
     bindr (connections_in props) (\<lambda>connections.
     conjr (any_res (serves account) connections)
       (bindr (lower_get (dgetO (val props) ''subnet'') ''id'') (\<lambda>subnet.
        mapr (\<lambda>s. subnet = lower s) (str_of (sub (val context) ''subnetId''))))))"

text \<open>The only reviewed connection of an existing endpoint.\<close>

definition check_connection :: "json \<Rightarrow> json \<Rightarrow> unit res" where
  "check_connection account props =
     bindr (connections_in props) (\<lambda>connections.
     check (conjr (eqs (dget0 (val props) ''provisioningState'') ''Succeeded'') (val (length connections = 1)))
       ''Existing Private Endpoint must be Succeeded with one reviewed connection'' (
     bindr (sub (val (hd connections)) ''properties'') (\<lambda>connection.
     check (allr [bindr (lower_get (val connection) ''privateLinkServiceId'') (\<lambda>service. mapr (\<lambda>a. service = lower a) (account_of account)),
                  mapr (\<lambda>v. py_eq v (JList [JStr ''account''])) (dget0 (val connection) ''groupIds''),
                  eqs (dget0 (dgetO (val connection) ''privateLinkServiceConnectionState'') ''status'') ''Approved''])
       ''Private Endpoint must target this account and be Approved; pending requests require the account owner'' (val ()))))"

text \<open>The addresses of the network interfaces: all of them, and those of the hostname.\<close>

record nic_state =
  nic_ips :: "json list"
  host_ips :: "json list"
  nics_read :: "json list"
  names_seen :: bool

definition address_within :: "json list \<Rightarrow> json \<Rightarrow> bool res" where
  "address_within prefixes ip =
     any_res (\<lambda>p. bindr (ip_address ip) (\<lambda>a. mapr (\<lambda>n. version a = version n \<and> addr_in (base a) n) (ip_network True p))) prefixes"

fun name_list :: "json \<Rightarrow> string list option" where
  "name_list (JList xs) = (if list_all is_str xs then Some (map (\<lambda>x. case x of JStr s \<Rightarrow> s | _ \<Rightarrow> []) xs) else None)"
| "name_list _ = None"

definition read_ip_configuration :: "json list \<Rightarrow> string list \<Rightarrow> json \<Rightarrow> nic_state \<Rightarrow> nic_state res" where
  "read_ip_configuration prefixes hosts item st =
     bindr (dgetO (val item) ''properties'') (\<lambda>properties.
     bindr (dget0 (val properties) ''privateIPAddress'') (\<lambda>ip.
     check (conjr (val (truth ip)) (address_within prefixes ip)) ''Private Endpoint NIC address is outside the approved subnet'' (
     bindr (dgetO (val properties) ''privateLinkConnectionProperties'') (\<lambda>mapping.
     check (val (is_dict mapping)) ''Private Endpoint NIC requires valid hostname mapping metadata'' (
     seqr (whenr (truth mapping) (
       check (eqs (dget0 (val mapping) ''groupId'') ''account'')
         ''Private Endpoint NIC mapping must belong to the approved account group'' (val ()))) (
     bindr (dget (val mapping) ''fqdns'' (JList [])) (\<lambda>fqdns.
     case name_list fqdns of None \<Rightarrow> Inl (MigrationError ''Private Endpoint NIC FQDN mappings must be strings'')
     | Some names \<Rightarrow>
         val (st\<lparr>nic_ips := nic_ips st @ [ip], names_seen := names_seen st \<or> names \<noteq> [],
           host_ips := host_ips st @ (if list_ex (\<lambda>n. lower (rstrip_dots n) \<in> set hosts) names then [ip] else [])\<rparr>))))))))"

definition read_nic :: "json list \<Rightarrow> string list \<Rightarrow> json \<Rightarrow> nic_state \<Rightarrow> ('s, nic_state) proc" where
  "read_nic prefixes hosts reference st =
     letp (prefixed [] (sub (val reference) ''id'')) (\<lambda>nic_id.
     bindp (az_get nic_id NETWORK_API) (\<lambda>nic.
     letp (iter (dget (dgetO (val nic) ''properties'') ''ipConfigurations'' (JList []))) (\<lambda>configurations.
     letp (fold_res (read_ip_configuration prefixes hosts) configurations (st\<lparr>nics_read := nics_read st @ [nic]\<rparr>)) retp)))"

text \<open>\<open>sorted(set(ips))\<close>; the addresses are strings.\<close>

definition sorted_ips :: "json list \<Rightarrow> string list res" where
  "sorted_ips ips = mapr (\<lambda>ss. sort (remdups ss)) (map_res (\<lambda>v. prefixed [] (val v)) ips)"

definition approved_ips :: "nic_state \<Rightarrow> string list res" where
  "approved_ips st =
     check (val (nic_ips st \<noteq> [])) ''Private Endpoint requires private NIC addresses'' (
     if host_ips st \<noteq> [] then sorted_ips (host_ips st)
     else check (val (\<not> names_seen st \<and> length (remdups (nic_ips st)) = 1))
            ''Private Endpoint NIC metadata cannot identify the OpenAI hostname'' (sorted_ips (nic_ips st)))"

definition check_groups :: "json \<Rightarrow> json list \<Rightarrow> unit res" where
  "check_groups context groups =
     check (val (length groups \<le> 1)) ''Multiple Private DNS groups require explicit remediation'' (
     case groups of [] \<Rightarrow> val () | g # _ \<Rightarrow>
       bindr (list_of (dget (dgetO (val g) ''properties'') ''privateDnsZoneConfigs'' (JList []))) (\<lambda>configs.
       check (allr [eqs (dget0 (sub (val g) ''properties'') ''provisioningState'') ''Succeeded'', val (length configs = 1),
                    bindr (lower_get (dgetO (val (hd configs)) ''properties'') ''privateDnsZoneId'') (\<lambda>z.
                    mapr (\<lambda>s. z = lower s) (str_of (sub (val context) ''zoneId'')))])
         ''Private Endpoint DNS group differs from the approved zone'' (val ())))"

definition record_addresses :: "json option \<Rightarrow> json list res" where
  "record_addresses r =
     bindr (iter (dget (dgetO (val (case r of None \<Rightarrow> JObj [] | Some v \<Rightarrow> v)) ''properties'') ''aRecords'' (JList []))) (\<lambda>entries.
     bindr (map_res (\<lambda>e. dget0 (val e) ''ipv4Address'') entries) (\<lambda>addresses.
     if list_all hashable addresses then val addresses else Inl TypeError))"

definition check_record_of :: "json list \<Rightarrow> string list \<Rightarrow> json option \<Rightarrow> unit res" where
  "check_record_of groups ips r =
     bindr (record_addresses r) (\<lambda>actual.
     let same = (set actual = JStr ` set ips) in
     if groups \<noteq> []
     then check (val same) ''Private DNS A record does not match the approved Private Endpoint'' (val ())
     else check (val (r = None \<or> same)) ''Existing DNS A record conflicts with missing binding'' (val ()))"

text \<open>The endpoint that a plan has to create: its name may not be taken.\<close>

definition missing_endpoint :: "json list \<Rightarrow> string \<Rightarrow> string \<Rightarrow> json res" where
  "missing_endpoint endpoints endpoint_id endpoint_name =
     check (negr (any_res (\<lambda>e. mapr (\<lambda>i. lower i = lower endpoint_id) (str_of (sub (val e) ''id''))) endpoints))
       ''Private Endpoint name is occupied by an unrelated resource'' (
     val (JObj [(''createEndpoint'', JBool True), (''createDnsBinding'', JBool False), (''endpointId'', JStr endpoint_id),
       (''endpointName'', JStr endpoint_name), (''ips'', JList []), (''live'', JNull), (''dnsGroups'', JList [])]))"

definition endpoint_names :: "json \<Rightarrow> json \<Rightarrow> (string \<times> string) res" where
  "endpoint_names alias context =
     bindr (str_of (sub (val context) ''zoneId'')) (\<lambda>z.
     bindr (prefixed ''pe-'' (val alias)) (\<lambda>n.
     val (before_text ''/providers/'' z @ ''/providers/Microsoft.Network/privateEndpoints/'' @ n @ ''-account'', n @ ''-account'')))"

definition private_hosts :: "json \<Rightarrow> string list res" where
  "private_hosts account =
     bindr (connection_endpoint account) (\<lambda>e.
     let hostname = remove_prefix ''https://'' e in
     val [hostname, remove_suffix ''.openai.azure.com'' hostname @ ''.privatelink.openai.azure.com''])"

definition live_endpoint_state :: "json \<Rightarrow> json \<Rightarrow> json \<Rightarrow> ('s, json) proc" where
  "live_endpoint_state account context endpoint =
     letp (sub (val endpoint) ''properties'') (\<lambda>props.
     letp (check_connection account props) (\<lambda>_.
     letp (private_hosts account) (\<lambda>hosts.
     letp (iter (dget (val props) ''networkInterfaces'' (JList []))) (\<lambda>references.
     letp (bindr (sub (val context) ''prefixes'') (\<lambda>ps. list_of (val ps))) (\<lambda>prefixes.
     bindp (foldp (read_nic prefixes hosts) references \<lparr>nic_ips = [], host_ips = [], nics_read = [], names_seen = False\<rparr>) (\<lambda>st.
     letp (approved_ips st) (\<lambda>ips.
     letp (prefixed [] (sub (val endpoint) ''id'')) (\<lambda>endpoint_id.
     bindp (az_collection (endpoint_id @ ''/privateDnsZoneGroups'') NETWORK_API) (\<lambda>groups.
     letp (check_groups context groups) (\<lambda>_.
     letp (str_of (sub (val context) ''zoneId'')) (\<lambda>z.
     bindp (az_collection (z @ ''/A'') DNS_API) (\<lambda>answers.
     letp (find_res (\<lambda>r. mapr (\<lambda>n. n = hd (split_on CHR ''.'' (hd hosts))) (lower_get (val r) ''name'')) answers) (\<lambda>found.
     letp (check_record_of groups ips found) (\<lambda>_.
     letp (sub (val endpoint) ''name'') (\<lambda>name.
     letp (sorted_ips (nic_ips st)) (\<lambda>all_ips.
     retp (JObj [(''createEndpoint'', JBool False), (''createDnsBinding'', JBool (groups = [])), (''endpointId'', JStr endpoint_id),
       (''endpointName'', name), (''ips'', JList (map JStr ips)), (''nicIps'', JList (map JStr all_ips)), (''live'', endpoint),
       (''dnsGroups'', JList groups), (''nics'', JList (nics_read st)),
       (''record'', case found of None \<Rightarrow> JNull | Some r \<Rightarrow> r)])))))))))))))))))"

definition endpoint_state :: "json \<Rightarrow> json \<Rightarrow> json \<Rightarrow> ('s, json) proc" where
  "endpoint_state account alias context =
     letp (list_of (sub (val context) ''endpoints'')) (\<lambda>endpoints.
     letp (filter_res (is_candidate account context) endpoints) (\<lambda>candidates.
     checkp (val (length candidates \<le> 1)) ''Multiple Private Endpoints for this account/subnet require explicit remediation'' (
     letp (endpoint_names alias context) (\<lambda>(endpoint_id, endpoint_name).
     case candidates of
       [] \<Rightarrow> letp (missing_endpoint endpoints endpoint_id endpoint_name) retp
     | endpoint # _ \<Rightarrow> live_endpoint_state account context endpoint))))"

section \<open>\<open>role_state\<close>\<close>

definition principal_of :: "json \<Rightarrow> json res" where
  "principal_of identity = sub (sub (val identity) ''properties'') ''principalId''"

definition holds_role :: "string \<Rightarrow> json \<Rightarrow> json \<Rightarrow> bool res" where
  "holds_role at identity role =
     allr [lower_is (val role) ''scope'' at,
           bindr (lower_get (val role) ''principalId'') (\<lambda>p. mapr (\<lambda>i. p = lower i) (str_of (principal_of identity))),
           mapr (\<lambda>d. ends_with d (''/'' @ ROLE)) (lower_get (val role) ''roleDefinitionId'')]"

definition plain_role :: "json \<Rightarrow> bool res" where
  "plain_role role =
     allr [testr (Not \<circ> truth) (dget0 (val role) ''condition''), testr (Not \<circ> truth) (dget0 (val role) ''conditionVersion''),
           eqs (dget0 (val role) ''principalType'') ''ServicePrincipal'']"

text \<open>\<open>source or principal\<close>, and the name of the assignment that a deployment would create.\<close>

definition role_id :: "(string \<Rightarrow> string) \<Rightarrow> json \<Rightarrow> json \<Rightarrow> json \<Rightarrow> string res" where
  "role_id uuid5 account identity source =
     bindr (account_of account) (\<lambda>at.
     bindr (fmt (sub (val account) ''subscriptionId'')) (\<lambda>s.
     bindr (prefixed [] (if truth source then val source else principal_of identity)) (\<lambda>p.
     val (at @ ''/providers/Microsoft.Authorization/roleAssignments/''
       @ uuid5 (join ''-'' [at, p, ''/subscriptions/'' @ s @ ''/providers/Microsoft.Authorization/roleDefinitions/'' @ ROLE])))))"

definition role_state :: "(string \<Rightarrow> string) \<Rightarrow> json \<Rightarrow> json \<Rightarrow> json \<Rightarrow> ('s, json) proc" where
  "role_state uuid5 account identity source =
     letp (account_of account) (\<lambda>at.
     letp (prefixed [] (sub (val account) ''subscriptionId'')) (\<lambda>s.
     bindp (az_run False [''role'', ''assignment'', ''list'', ''--scope'', at, ''--subscription'', s,
        ''--fill-principal-name'', ''false'', ''--fill-role-definition-name'', ''false'']) (\<lambda>listed.
     checkp (val (is_list listed)) ''Unexpected role assignment response'' (
     letp (list_of (val listed)) (\<lambda>roles.
     letp (filter_res (holds_role at identity) roles) (\<lambda>matching.
     checkp (all_res plain_role matching) ''Existing model role has unsupported conditions/principal type'' (
     letp (role_id uuid5 account identity source) (\<lambda>expected.
     checkp (disjr (val (matching \<noteq> [])) (negr (any_res (\<lambda>role. lower_is (val role) ''id'' expected) roles)))
       ''Role assignment name conflicts with an existing assignment'' (
     retp (JObj [(''createRole'', JBool (matching = [])), (''roleId'', JStr expected), (''existingRoles'', JList matching)]))))))))))"

section \<open>\<open>assert_what_if\<close>\<close>

text \<open>What one change of a result says: its resource, its kind and the changes below it.\<close>

definition change_head :: "json \<Rightarrow> (string \<times> json \<times> json list) res" where
  "change_head change =
     bindr (dget0 (val change) ''resourceId'') (\<lambda>resource.
     check (val (case resource of JStr s \<Rightarrow> strip s \<noteq> [] | _ \<Rightarrow> False)) ''What-if resourceId must be a non-empty string'' (
     bindr (str_of (val resource)) (\<lambda>name.
     bindr (dget0 (val change) ''changeType'') (\<lambda>kind.
     check (in_strs (val kind) [''Create'', ''Modify'', ''NoChange'', ''Ignore''])
       ''What-if Delete/Unsupported/unknown change blocked'' (
     bindr (dget (val change) ''resourceChanges'' (JList [])) (\<lambda>children.
     check (val (is_list children)) ''What-if resourceChanges must be a list'' (
     bindr (list_of (val children)) (\<lambda>cs. val (lower name, kind, cs)))))))))"

text \<open>The list of allowed resources: \<open>required\<close>, \<open>optional\<close> or a \<open>deployment\<close>.\<close>

definition allowed_change :: "(string \<times> string) list \<Rightarrow> string \<Rightarrow> json \<Rightarrow> string list \<Rightarrow> string list res" where
  "allowed_change admitted resource kind seen =
     (if kind = JStr ''Ignore'' then val seen
      else check (val (map_of admitted resource \<noteq> None)) ''What-if resource is outside the exact model-sync allowlist'' (
           check (val (kind \<noteq> JStr ''Modify'' \<or> map_of admitted resource = Some ''deployment''))
             ''What-if cannot modify an existing PE, NIC, DNS record/link or role'' (val (resource # seen))))"

lemma size_lookup: "lookup_or kv k (JList []) = JList cs \<Longrightarrow> size_list size cs < size (JObj kv)"
  by (induction kv) (auto simp: lookup_or_def split: if_splits option.splits)

lemma change_head_size: "change_head c = Inr (resource, kind, cs) \<Longrightarrow> size_list size cs < size c"
  by (cases c) (auto simp: change_head_def bindr_ok check_ok list_of_ok dest!: size_lookup)

function check_changes :: "(string \<times> string) list \<Rightarrow> json list \<Rightarrow> string list \<Rightarrow> string list res" where
  "check_changes admitted [] seen = val seen"
| "check_changes admitted (c # cs) seen =
     (case change_head c of Inl e \<Rightarrow> Inl e
      | Inr (resource, kind, children) \<Rightarrow>
          (case check_changes admitted children seen of Inl e \<Rightarrow> Inl e
           | Inr seen1 \<Rightarrow>
               (case allowed_change admitted resource kind seen1 of Inl e \<Rightarrow> Inl e
                | Inr seen2 \<Rightarrow> check_changes admitted cs seen2)))"
  by pat_completeness auto

termination
  by (relation "measure (\<lambda>(a, cs, s). size_list size cs)") (auto dest: change_head_size)

definition assert_what_if :: "json \<Rightarrow> (string \<times> string) list \<Rightarrow> unit res" where
  "assert_what_if document admitted =
     check (conjr (eqs (dget0 (val document) ''status'') ''Succeeded'') (testr is_list (dget0 (val document) ''changes'')))
       ''What-if did not complete; verify cross-subscription deployment and account role-write permissions'' (
     bindr (list_of (sub (val document) ''changes'')) (\<lambda>changes.
     bindr (check_changes admitted changes []) (\<lambda>seen.
     check (val (\<forall>(resource, kind) \<in> set admitted. kind = ''required'' \<longrightarrow> resource \<in> set seen))
       ''What-if did not expand all planned prerequisite resources'' (val ()))))"

text \<open>The changes of a result, at any depth.\<close>

inductive occurs :: "json list \<Rightarrow> json \<Rightarrow> bool" where
  here: "c \<in> set cs \<Longrightarrow> occurs cs c"
| below: "c \<in> set cs \<Longrightarrow> change_head c = Inr (resource, kind, children) \<Longrightarrow> occurs children d \<Longrightarrow> occurs cs d"

lemma occurs_Nil [simp]: "\<not> occurs [] d"
proof
  assume "occurs [] d"
  then show False by (cases rule: occurs.cases) simp_all
qed

lemma occurs_Cons:
  assumes "change_head c = Inr (resource, kind, children)"
  shows "occurs (c # cs) d \<longleftrightarrow> d = c \<or> occurs children d \<or> occurs cs d"
proof
  assume "occurs (c # cs) d"
  then show "d = c \<or> occurs children d \<or> occurs cs d"
    by (cases rule: occurs.cases) (use assms in \<open>auto intro: occurs.intros\<close>)
next
  assume "d = c \<or> occurs children d \<or> occurs cs d"
  then show "occurs (c # cs) d"
  proof (elim disjE)
    assume "occurs cs d"
    then show ?thesis by (cases rule: occurs.cases) (auto intro: occurs.intros)
  qed (use assms in \<open>auto intro: occurs.intros\<close>)
qed

text \<open>What the list of allowed resources says of one change.\<close>

definition within_plan :: "(string \<times> string) list \<Rightarrow> json \<Rightarrow> bool" where
  "within_plan admitted d \<longleftrightarrow>
     (\<exists>resource kind children. change_head d = Inr (resource, kind, children) \<and>
        (kind = JStr ''Ignore'' \<or> kind = JStr ''Create'' \<and> map_of admitted resource \<noteq> None \<or>
         kind = JStr ''NoChange'' \<and> map_of admitted resource \<noteq> None \<or>
         kind = JStr ''Modify'' \<and> map_of admitted resource = Some ''deployment''))"

definition touched :: "json list \<Rightarrow> string set" where
  "touched cs = {resource. \<exists>d kind children. occurs cs d \<and> change_head d = Inr (resource, kind, children) \<and> kind \<noteq> JStr ''Ignore''}"

lemma touched_Nil [simp]: "touched [] = {}"
  by (simp add: touched_def)

lemma touched_Cons:
  "change_head c = Inr (resource, kind, children) \<Longrightarrow>
     touched (c # cs) = (if kind = JStr ''Ignore'' then {} else {resource}) \<union> touched children \<union> touched cs"
  by (auto simp: touched_def occurs_Cons)

lemma change_head_kind:
  "change_head c = Inr (resource, kind, children) \<Longrightarrow>
     kind = JStr ''Create'' \<or> kind = JStr ''Modify'' \<or> kind = JStr ''NoChange'' \<or> kind = JStr ''Ignore''"
  by (auto simp: change_head_def bindr_ok check_ok in_strs_ok)

lemma allowed_change_ok:
  "allowed_change admitted resource kind seen = Inr seen' \<longleftrightarrow>
     (if kind = JStr ''Ignore'' then seen' = seen
      else map_of admitted resource \<noteq> None \<and> (kind = JStr ''Modify'' \<longrightarrow> map_of admitted resource = Some ''deployment'') \<and>
        seen' = resource # seen)"
  by (auto simp: allowed_change_def check_ok)

lemma check_changes_ok:
  "check_changes admitted cs seen = Inr seen' \<Longrightarrow>
     (\<forall>d. occurs cs d \<longrightarrow> within_plan admitted d) \<and> set seen' = set seen \<union> touched cs"
proof (induction admitted cs seen arbitrary: seen' rule: check_changes.induct)
  case (2 admitted c cs seen)
  obtain resource kind children seen1 seen2 where r:
      "change_head c = Inr (resource, kind, children)" "check_changes admitted children seen = Inr seen1"
      "allowed_change admitted resource kind seen1 = Inr seen2" "check_changes admitted cs seen2 = Inr seen'"
    using "2.prems" by (auto split: sum.splits)
  have children: "\<forall>d. occurs children d \<longrightarrow> within_plan admitted d" "set seen1 = set seen \<union> touched children"
    using "2.IH"(1) [OF r(1) refl refl r(2)] by auto
  have rest: "\<forall>d. occurs cs d \<longrightarrow> within_plan admitted d" "set seen' = set seen2 \<union> touched cs"
    using "2.IH"(2) [OF r(1) refl refl r(2,3,4)] by auto
  have "within_plan admitted c"
    unfolding within_plan_def using r(1,3) change_head_kind [OF r(1)]
    by (intro exI [of _ resource] exI [of _ kind] exI [of _ children]) (auto simp: allowed_change_ok split: if_splits)
  moreover have "set seen2 = (if kind = JStr ''Ignore'' then {} else {resource}) \<union> set seen1"
    using r(3) by (auto simp: allowed_change_ok split: if_splits)
  ultimately show ?case
    using children rest by (auto simp: occurs_Cons [OF r(1)] touched_Cons [OF r(1)])
qed auto

text \<open>
  C32: a What-if result that \<open>assert_what_if\<close> accepts creates, at any depth, only resources of the
  list, modifies only the nested deployments of the list, and shows every required resource.
\<close>

theorem model_what_if_is_exact:
  assumes "assert_what_if document admitted = Inr ()"
  shows "\<exists>changes. sub (val document) ''changes'' = Inr (JList changes) \<and>
    (\<forall>d. occurs changes d \<longrightarrow> within_plan admitted d) \<and>
    touched changes \<subseteq> fst ` set admitted \<and> {r. (r, ''required'') \<in> set admitted} \<subseteq> touched changes"
proof -
  obtain changes seen where c: "sub (val document) ''changes'' = Inr (JList changes)"
      "check_changes admitted changes [] = Inr seen"
      "\<forall>(resource, kind) \<in> set admitted. kind = ''required'' \<longrightarrow> resource \<in> set seen"
    using assms by (auto simp: assert_what_if_def bindr_ok check_ok list_of_ok)
  have ok: "\<forall>d. occurs changes d \<longrightarrow> within_plan admitted d" "set seen = touched changes"
    using check_changes_ok [OF c(2)] by auto
  have "r \<in> fst ` set admitted" if r: "r \<in> touched changes" for r
  proof -
    obtain d kind children where d: "occurs changes d" "change_head d = Inr (r, kind, children)" "kind \<noteq> JStr ''Ignore''"
      using r by (auto simp: touched_def)
    then have "map_of admitted r \<noteq> None"
      using ok(1) by (auto simp: within_plan_def)
    then show ?thesis by (simp add: map_of_eq_None_iff)
  qed
  then show ?thesis using c ok by auto
qed

text \<open>A result that creates the endpoint and updates its nested deployment.\<close>

definition sample_what_if :: json where
  "sample_what_if = JObj [(''status'', JStr ''Succeeded''), (''changes'', JList
     [JObj [(''resourceId'', JStr ''/sub/PE''), (''changeType'', JStr ''Create'')],
      JObj [(''resourceId'', JStr ''/sub/dep''), (''changeType'', JStr ''Modify''),
        (''resourceChanges'', JList [JObj [(''resourceId'', JStr ''/sub/group''), (''changeType'', JStr ''Create'')]])],
      JObj [(''resourceId'', JStr ''/sub/other''), (''changeType'', JStr ''Ignore'')]])]"

definition sample_allowed :: "(string \<times> string) list" where
  "sample_allowed = [(''/sub/pe'', ''required''), (''/sub/group'', ''required''), (''/sub/dep'', ''deployment'')]"

theorem model_what_if_is_exact_witness:
  "\<exists>changes. sub (val sample_what_if) ''changes'' = Inr (JList changes) \<and>
    (\<forall>d. occurs changes d \<longrightarrow> within_plan sample_allowed d) \<and>
    touched changes \<subseteq> fst ` set sample_allowed \<and> {r. (r, ''required'') \<in> set sample_allowed} \<subseteq> touched changes"
  by (rule model_what_if_is_exact) code_simp

section \<open>\<open>infrastructure_plan\<close>\<close>

text \<open>The accounts of the matches, one for each resource.\<close>

definition unique_accounts :: "(obj \<times> json) list \<Rightarrow> json list res" where
  "unique_accounts matches =
     mapr (map snd) (fold_res (\<lambda>(account, t) acc. mapr (\<lambda>a. dict_set acc (lower a) (JObj account)) (account_of (JObj account))) matches [])"

definition account_alias :: "json \<Rightarrow> json \<Rightarrow> json res" where
  "account_alias desired account =
     bindr (iter (sub (platform_of desired) ''azureOpenAIConnections'')) (\<lambda>cs.
     bindr (find_res (\<lambda>c. bindr (str_of (sub (val c) ''accountResourceId'')) (\<lambda>i. mapr (\<lambda>a. lower i = lower a) (account_of account))) cs) (\<lambda>found.
     case found of None \<Rightarrow> Inl StopIteration | Some c \<Rightarrow> sub (val c) ''alias''))"

definition role_source :: "json \<Rightarrow> json \<Rightarrow> json res" where
  "role_source config identity =
     bindr (dget (platform_of config) ''stage4RoleAssignmentNaming'' (JStr ''principal-id'')) (\<lambda>naming.
     if naming = JStr ''resource-id'' then sub (val identity) ''id'' else val (JStr []))"

definition account_parameters :: "json \<Rightarrow> json \<Rightarrow> json \<Rightarrow> json \<Rightarrow> json \<Rightarrow> json \<Rightarrow> json \<Rightarrow> bool \<Rightarrow> json res" where
  "account_parameters config identity source account alias endpoint role create_link =
     mapr JObj (map_res (\<lambda>(k, r). mapr (\<lambda>v. (k, v)) r)
       (let network = sub (platform_of config) ''stage4Network'' in
       [(''location'', sub (val config) ''location''), (''virtualNetworkName'', sub network ''virtualNetworkName''),
        (''privateEndpointSubnetName'', sub network ''privateEndpointSubnetName''),
        (''accountResourceId'', sub (val account) ''accountResourceId''), (''accountAlias'', val alias),
        (''accountName'', sub (val account) ''accountName''), (''accountSubscriptionId'', sub (val account) ''subscriptionId''),
        (''accountResourceGroupName'', sub (val account) ''resourceGroupName''), (''principalId'', principal_of identity),
        (''principalSourceResourceId'', val source), (''createEndpoint'', sub (val endpoint) ''createEndpoint''),
        (''createDnsBinding'', sub (val endpoint) ''createDnsBinding''), (''endpointName'', sub (val endpoint) ''endpointName''),
        (''createDnsLink'', val (JBool create_link)), (''createRole'', sub (val role) ''createRole'')]))"

text \<open>The resources that a What-if result of the account may show.\<close>

definition allow :: "(string \<times> string) list \<Rightarrow> (string \<times> string) list \<Rightarrow> (string \<times> string) list" where
  "allow new kinds = fold (\<lambda>(resource, kind) ks. AList.update (lower resource) kind ks) new kinds"

definition endpoint_resources :: "string \<Rightarrow> string \<Rightarrow> json \<Rightarrow> (string \<times> string) list res" where
  "endpoint_resources g alias endpoint =
     bindr (str_of (sub (val endpoint) ''endpointId'')) (\<lambda>e.
     bindr (sub (val endpoint) ''createEndpoint'') (\<lambda>create.
     bindr (sub (val endpoint) ''createDnsBinding'') (\<lambda>bind.
     val (if truth create
          then [(e, ''required''), (e @ ''/privateDnsZoneGroups/default'', ''required''),
                (g @ ''/providers/Microsoft.Network/networkInterfaces/nic-pe-'' @ alias @ ''-account'', ''optional''),
                (g @ ''/providers/Microsoft.Resources/deployments/model-sync-pe-'' @ alias, ''deployment'')]
          else if truth bind then [(e @ ''/privateDnsZoneGroups/default'', ''required'')] else []))))"

definition role_resources :: "json \<Rightarrow> string \<Rightarrow> json \<Rightarrow> (string \<times> string) list res" where
  "role_resources account alias role =
     bindr (sub (val role) ''createRole'') (\<lambda>create.
     if truth create
     then bindr (str_of (sub (val role) ''roleId'')) (\<lambda>r.
          bindr (fmt (sub (val account) ''subscriptionId'')) (\<lambda>s.
          bindr (fmt (sub (val account) ''resourceGroupName'')) (\<lambda>g.
          val [(r, ''required''),
               (scope_prefix s g @ ''/providers/Microsoft.Resources/deployments/model-sync-role-'' @ alias, ''deployment'')])))
     else val [])"

definition allowed_resources :: "json \<Rightarrow> json \<Rightarrow> string \<Rightarrow> json \<Rightarrow> json \<Rightarrow> json \<Rightarrow> bool \<Rightarrow> (string \<times> string) list res" where
  "allowed_resources config account alias context endpoint role create_link =
     bindr (group_id config False) (\<lambda>g.
     bindr (endpoint_resources g alias endpoint) (\<lambda>es.
     bindr (role_resources account alias role) (\<lambda>rs.
     bindr (if create_link then mapr (\<lambda>l. [(l, ''required'')]) (str_of (sub (val context) ''linkId'')) else val []) (\<lambda>ls.
     val (allow (es @ rs @ ls) [])))))"

definition prerequisite_arguments :: "json \<Rightarrow> string \<Rightarrow> string \<Rightarrow> string list res" where
  "prerequisite_arguments config alias verb =
     bindr (prefixed [] (subscription_of config)) (\<lambda>s.
     bindr (prefixed [] (target_group config)) (\<lambda>g.
     val ([''deployment'', ''group'', verb, ''--subscription'', s, ''--resource-group'', g, ''--name'', ''model-sync-'' @ alias,
       ''--template-file'', ''model-sync.template.json'', ''--parameters'', ''@parameters-'' @ alias @ ''.json'', ''--mode'', ''Incremental'']
       @ (if verb = ''what-if'' then [''--result-format'', ''FullResourcePayloads'', ''--no-pretty-print''] else []))))"

definition parameters_document :: "json \<Rightarrow> json" where
  "parameters_document params =
     JObj [(''$schema'', JStr ''https://schema.management.azure.com/schemas/2019-04-01/deploymentParameters.json#''),
       (''contentVersion'', JStr ''1.0.0.0''),
       (''parameters'', JObj (case params of JObj kv \<Rightarrow> map (\<lambda>(k, v). (k, JObj [(''value'', v)])) kv | _ \<Rightarrow> []))]"

text \<open>The What-if of an account with something to create, and the hash of its changes.\<close>

definition review_what_if :: "sha \<Rightarrow> json \<Rightarrow> string \<Rightarrow> json \<Rightarrow> (string \<times> string) list \<Rightarrow> ('s, obj) proc" where
  "review_what_if sha config alias params admitted =
     thenp (private_write (''parameters-'' @ alias @ ''.json'') (parameters_document params)) (
     letp (prerequisite_arguments config alias ''what-if'') (\<lambda>arguments.
     bindp (az_run False arguments) (\<lambda>what_if.
     thenp (private_write (''what-if-'' @ alias @ ''.json'') what_if) (
     letp (assert_what_if what_if admitted) (\<lambda>_.
     letp (sub (val what_if) ''changes'') (\<lambda>changes.
     retp [(''whatIfSha256'', JStr (fingerprint sha changes))]))))))"

definition creates_link :: "json \<Rightarrow> bool res" where
  "creates_link plan = mapr truth (sub (sub (val plan) ''parameters'') ''createDnsLink'')"

definition account_plan ::
    "sha \<Rightarrow> (string \<Rightarrow> string) \<Rightarrow> json \<Rightarrow> json \<Rightarrow> json \<Rightarrow> json \<Rightarrow> json \<Rightarrow> json \<Rightarrow> json list \<Rightarrow> ('s, json list) proc" where
  "account_plan sha uuid5 config desired identity source context account plans =
     letp (account_alias desired account) (\<lambda>alias.
     bindp (endpoint_state account alias context) (\<lambda>endpoint.
     bindp (role_state uuid5 account identity source) (\<lambda>role.
     letp (conjr (testr (Not \<circ> truth) (sub (val context) ''links'')) (negr (any_res creates_link plans))) (\<lambda>create_link.
     letp (account_parameters config identity source account alias endpoint role create_link) (\<lambda>params.
     letp (prefixed [] (val alias)) (\<lambda>a.
     letp (allowed_resources config account a context endpoint role create_link) (\<lambda>admitted.
     bindp (if admitted = [] then retp [] else review_what_if sha config a params admitted) (\<lambda>checked.
     retp (plans @ [JObj ([(''account'', account), (''parameters'', params), (''endpoint'', endpoint), (''role'', role),
       (''allowedResources'', JObj (map (\<lambda>(r, k). (r, JStr k)) admitted))] @ checked)])))))))))"

definition infrastructure_plan ::
    "sha \<Rightarrow> (string \<Rightarrow> string) \<Rightarrow> json \<Rightarrow> json \<Rightarrow> (obj \<times> json) list \<Rightarrow> json \<Rightarrow> ('s, json) proc" where
  "infrastructure_plan sha uuid5 config desired matches identity =
     bindp (network_context config) (\<lambda>context.
     letp (role_source config identity) (\<lambda>source.
     letp (unique_accounts matches) (\<lambda>accounts.
     bindp (foldp (account_plan sha uuid5 config desired identity source context) accounts []) (\<lambda>plans.
     retp (JObj [(''context'', context), (''accounts'', JList plans)])))))"

section \<open>\<open>execute_infrastructure\<close>\<close>

definition STATE_FILE :: string where
  "STATE_FILE = ''model-sync-state.json''"

definition append_to :: "json \<Rightarrow> json \<Rightarrow> json res" where
  "append_to x v = (case v of JList xs \<Rightarrow> val (JList (xs @ [x])) | _ \<Rightarrow> Inl AttributeError)"

definition set_item :: "string \<Rightarrow> json \<Rightarrow> json \<Rightarrow> json res" where
  "set_item k x v = (case v of JObj kv \<Rightarrow> val (JObj (dict_set kv k x)) | _ \<Rightarrow> Inl TypeError)"

definition deploy_prerequisite :: "json \<Rightarrow> json \<Rightarrow> ('s, unit) tracked" where
  "deploy_prerequisite config item =
     lett (sub (val item) ''allowedResources'') (\<lambda>admitted.
     whent (truth admitted) (
     lett (prefixed [] (sub (sub (val item) ''parameters'') ''accountAlias'')) (\<lambda>alias.
     thent (changet ''infrastructureAttempted'' (JList []) (append_to (JStr alias))) (
     thent (savet STATE_FILE) (
     lett (prerequisite_arguments config alias ''create'') (\<lambda>arguments.
     bindt (liftt (az_run False arguments)) (\<lambda>outcome.
     thent (liftt (private_write (''receipt-'' @ alias @ ''.json'') outcome)) (
     lett (dget (dgetO (val outcome) ''properties'') ''provisioningState'' (JStr ''unknown'')) (\<lambda>state.
     thent (changet ''infrastructureReceipts'' (JObj []) (set_item alias state)) (
     thent (savet STATE_FILE) (
     checkt (eqs (dget0 (dgetO (val outcome) ''properties'') ''provisioningState'') ''Succeeded'')
       ''Prerequisite deployment did not succeed; inspect receipt before retrying'' (
     thent (bindt gett (\<lambda>d. lett (sub (val (JObj d)) ''infrastructureCompleted'') (\<lambda>v. lett (append_to (JStr alias) v) (\<lambda>v'.
       putt [(''infrastructureCompleted'', v')])))) (
     thent (putt [(''phase'', JStr ''infrastructure'')]) (savet STATE_FILE))))))))))))))"

text \<open>Every prerequisite is read again before the application is touched.\<close>

definition verify_prerequisite :: "(string \<Rightarrow> string) \<Rightarrow> json \<Rightarrow> json \<Rightarrow> ('s, json) proc" where
  "verify_prerequisite uuid5 context item =
     letp (sub (val item) ''account'') (\<lambda>account.
     letp (sub (sub (val item) ''parameters'') ''accountAlias'') (\<lambda>alias.
     bindp (endpoint_state account alias context) (\<lambda>endpoint.
     checkp (allr [testr (Not \<circ> truth) (sub (val endpoint) ''createEndpoint''), testr (Not \<circ> truth) (sub (val endpoint) ''createDnsBinding'')])
       ''Private Endpoint/DNS prerequisite remains missing; no application update performed'' (
     letp (sub (sub (val item) ''parameters'') ''principalId'') (\<lambda>principal.
     letp (sub (sub (val item) ''parameters'') ''principalSourceResourceId'') (\<lambda>source.
     bindp (role_state uuid5 account (JObj [(''id'', JStr []), (''properties'', JObj [(''principalId'', principal)])]) source) (\<lambda>role.
     checkp (testr (Not \<circ> truth) (sub (val role) ''createRole'')) ''Workload role assignment remains missing'' (
     letp (sub (val endpoint) ''ips'') (\<lambda>ips.
     letp (set_item ''verifiedIps'' ips item) retp)))))))))"

definition execute_infrastructure :: "(string \<Rightarrow> string) \<Rightarrow> json \<Rightarrow> json \<Rightarrow> ('s, json list) tracked" where
  "execute_infrastructure uuid5 config plan =
     lett (list_of (sub (val plan) ''accounts'')) (\<lambda>items.
     thent (eacht (deploy_prerequisite config) items) (
     bindt (liftt (network_context config)) (\<lambda>context.
     checkt (testr truth (sub (val context) ''links'')) ''Private DNS link was not completed'' (
     liftt (mapp (verify_prerequisite uuid5 context) items)))))"

end
