(* ===== verification/Model_Runtime.thy ===== *)
theory Model_Runtime
  imports Model_Infra Runtime_Settings
begin

text \<open>
  The update of the running gateway by a model synchronisation, from
  \<open>scripts/model_sync_runtime.py\<close>: the check that the live configuration holds no credential
  (\<open>safe_settings\<close>), the baseline of the workload (\<open>live_baseline\<close>), the new ConfigMap and the JSON
  patch that points the deployment to it (\<open>render_models\<close>), the server-side dry run, and the
  update with its verification (\<open>apply_models\<close>).  YAML is read and written by the parameters
  \<open>yload\<close> and \<open>ydump\<close>; its keys are strings here.
\<close>

section \<open>Commands\<close>

definition model_command :: "string list \<Rightarrow> string list \<Rightarrow> ('s, reply) proc" where
  "model_command kube arguments =
     bindp (perform (Command (kube @ arguments))) (\<lambda>r.
     checkp (val (r \<noteq> Failure)) ''Model-sync Kubernetes operation failed'' (retp r))"

definition model_get :: "string list \<Rightarrow> string list \<Rightarrow> ('s, json) proc" where
  "model_get kube arguments = bindp (model_command kube arguments) (\<lambda>r. letp (loads r) retp)"

section \<open>\<open>safe_settings\<close>\<close>

definition SECRET_WORDS :: "string list" where
  "SECRET_WORDS = [''api_key'', ''master_key'', ''password'', ''token'', ''secret'']"

text \<open>\<open>(?:$|_)\<close>: the end, also before a last newline, or an underscore.\<close>

fun word_ends :: "string \<Rightarrow> bool" where
  "word_ends [] = True"
| "word_ends (c # r) = (c = CHR ''_'' \<or> c = CHR 0x0A \<and> r = [])"

definition secret_word :: "string \<Rightarrow> bool" where
  "secret_word s = list_ex (\<lambda>w. starts_with s w \<and> word_ends (drop (length w) s)) SECRET_WORDS"

fun after_underscore :: "string \<Rightarrow> bool" where
  "after_underscore [] = False"
| "after_underscore (c # cs) = (c = CHR ''_'' \<and> secret_word cs \<or> after_underscore cs)"

definition sensitive_key :: "string \<Rightarrow> bool" where
  "sensitive_key k = (secret_word (lower k) \<or> after_underscore (lower k))"

definition IDENTITY_SWITCH_PATHS :: "string list list" where
  "IDENTITY_SWITCH_PATHS =
     [[''litellm_settings'', ''enable_azure_ad_token_refresh''], [''router_settings'', ''cache_kwargs'', ''azure_redis_ad_token'']]"

fun from_environment :: "json \<Rightarrow> bool" where
  "from_environment (JStr s) = starts_with s ''os.environ/''"
| "from_environment _ = False"

text \<open>The branches for an entry of a dict; the last one goes into the value.\<close>

definition safe_entry :: "string list \<Rightarrow> string \<Rightarrow> json \<Rightarrow> unit res \<Rightarrow> unit res" where
  "safe_entry at k v below =
     (if at \<in> set IDENTITY_SWITCH_PATHS
      then check (val (v = JBool True)) ''Live runtime identity authentication switch must be true'' (val ())
      else if k \<in> set COST_FIELDS then finite_number v 0 None
      else if sensitive_key k
      then check (val (from_environment v))
             ''Live runtime configuration contains a credential literal or unsupported credential source'' (val ())
      else below)"

definition safe_text :: "string \<Rightarrow> unit res" where
  "safe_text s =
     whenr (is_substring ''://'' s) (
       bindr (urlsplit s) (\<lambda>u. check (val (password u = None))
         ''Live runtime configuration contains a credential-bearing URL'' (val ())))"

lemma size_in_enumerate: "(i, x) \<in> set (enumerate n xs) \<Longrightarrow> size x < Suc (size_list size xs)"
  by (auto simp: in_set_enumerate_eq intro: size_in_list)

function safe_settings :: "string list \<Rightarrow> json \<Rightarrow> unit res" where
  "safe_settings at v =
     (case v of
        JObj kv \<Rightarrow> each (\<lambda>(k, x). safe_entry (at @ [k]) k x (safe_settings (at @ [k]) x)) kv
      | JList xs \<Rightarrow> each (\<lambda>(i, x). safe_settings (at @ [show_nat i]) x) (enumerate 0 xs)
      | JStr s \<Rightarrow> safe_text s
      | _ \<Rightarrow> val ())"
  by pat_completeness auto

termination
  by (relation "measure (\<lambda>(a, v). size v)") (auto dest: size_in_dict size_in_enumerate)

declare safe_settings.simps [simp del]

section \<open>The baseline\<close>

definition load_runtime_yaml :: "yload \<Rightarrow> json \<Rightarrow> json res" where
  "load_runtime_yaml yload content =
     check (val (is_str content)) ''Live runtime YAML must be text'' (
     bindr (catch_value_error (bindr (str_of (val content)) yload) ''Live runtime YAML cannot be parsed; configuration values are withheld'') (\<lambda>v.
     check (val (is_dict v)) ''Live runtime YAML must be an object'' (val v)))"

definition identity_resource :: "json \<Rightarrow> string res" where
  "identity_resource config =
     bindr (group_id config False) (\<lambda>g.
     prefixed (g @ ''/providers/Microsoft.ManagedIdentity/userAssignedIdentities/id-litellm-workload-'') (sub (val config) ''environment''))"

definition aks_resource :: "json \<Rightarrow> string res" where
  "aks_resource config =
     bindr (group_id config False) (\<lambda>g.
     prefixed (g @ ''/providers/Microsoft.ContainerService/managedClusters/'') (sub (sub (platform_of config) ''stage4Aks'') ''name''))"

definition federates :: "json \<Rightarrow> json \<Rightarrow> bool res" where
  "federates issuer item =
     (let props = dgetO (val item) ''properties'' in
     allr [mapr (\<lambda>v. py_eq v issuer) (dget0 props ''issuer''), eqs (dget0 props ''subject'') ''system:serviceaccount:litellm:litellm'',
           mapr (\<lambda>v. py_eq v (JList [JStr ''api://AzureADTokenExchange''])) (dget0 props ''audiences'')])"

definition identity_context :: "json \<Rightarrow> ('s, json) proc" where
  "identity_context config =
     letp (identity_resource config) (\<lambda>identity_id.
     bindp (az_get identity_id ''2023-01-31'') (\<lambda>identity.
     checkp (conjr (lower_is (val identity) ''id'' identity_id)
               (bindr (lower_get (dgetO (val identity) ''properties'') ''tenantId'') (\<lambda>t.
                mapr (\<lambda>c. t = lower c) (str_of (sub (sub (val config) ''azure'') ''tenantId'')))))
       ''Existing workload identity must belong to the customer tenant'' (
     letp (aks_resource config) (\<lambda>aks_id.
     bindp (az_get aks_id ''2024-10-01'') (\<lambda>aks.
     letp (dget0 (dgetO (dgetO (val aks) ''properties'') ''oidcIssuerProfile'') ''issuerURL'') (\<lambda>issuer.
     checkp (conjr (val (case issuer of JStr s \<Rightarrow> starts_with s ''https://'' | _ \<Rightarrow> False))
               (is_true (dget0 (dgetO (dgetO (dgetO (val aks) ''properties'') ''securityProfile'') ''workloadIdentity'') ''enabled'')))
       ''Target AKS must retain OIDC workload identity'' (
     bindp (az_collection (identity_id @ ''/federatedIdentityCredentials'') ''2023-01-31'') (\<lambda>federations.
     letp (filter_res (federates issuer) federations) (\<lambda>valid.
     checkp (val (length valid = 1)) ''Workload identity federation must match the existing target service account'' (
     letp (sub (val aks) ''id'') (\<lambda>i.
     retp (JObj [(''identity'', identity), (''aks'', JObj [(''id'', i), (''issuer'', issuer)]), (''federation'', hd valid)]))))))))))))"

definition scales_backend :: "json \<Rightarrow> bool res" where
  "scales_backend item =
     (let target = dgetO (dgetO (val item) ''spec'') ''scaleTargetRef'' in
     conjr (eqs (dget0 target ''kind'') ''Deployment'') (eqs (dget0 target ''name'') ''litellm''))"

definition named_text :: "json res \<Rightarrow> bool res" where
  "named_text r = mapr (\<lambda>v. case v of JStr s \<Rightarrow> s \<noteq> [] | _ \<Rightarrow> False) r"

definition check_scaler :: "json \<Rightarrow> json \<Rightarrow> unit res" where
  "check_scaler spec metadata =
     check (allr [eqs (dget0 (sub (val spec) ''scaleTargetRef'') ''apiVersion'') ''apps/v1'',
                  eqs (dget0 (val metadata) ''namespace'') ''litellm'', named_text (dget0 (val metadata) ''name''),
                  named_text (dget0 (val metadata) ''uid''), testr (Not \<circ> truth) (dget0 (val metadata) ''deletionTimestamp'')])
       ''Backend HorizontalPodAutoscaler identity/target is unsupported'' (
     bindr (dget (val spec) ''minReplicas'' (JInt 1)) (\<lambda>least.
     bindr (dget0 (val spec) ''maxReplicas'') (\<lambda>most.
     check (val (case (least, most) of (JInt a, JInt b) \<Rightarrow> 1 \<le> a \<and> a \<le> b | _ \<Rightarrow> False))
       ''Backend HorizontalPodAutoscaler replica bounds are invalid'' (val ()))))"

definition autoscaler :: "string list \<Rightarrow> ('s, json) proc" where
  "autoscaler kube =
     bindp (model_get kube [''get'', ''hpa'', ''-o'', ''json'']) (\<lambda>document.
     checkp (conjr (val (is_dict document)) (testr is_list (dget0 (val document) ''items'')))
       ''Unexpected HorizontalPodAutoscaler list response'' (
     letp (list_of (sub (val document) ''items'')) (\<lambda>entries.
     checkp (val (list_all is_dict entries)) ''Unexpected HorizontalPodAutoscaler object'' (
     letp (filter_res scales_backend entries) (\<lambda>selected.
     checkp (val (length selected \<le> 1)) ''Multiple HorizontalPodAutoscalers target the backend'' (
     case selected of [] \<Rightarrow> retp JNull | item # _ \<Rightarrow>
       letp (sub (val item) ''spec'') (\<lambda>spec.
       letp (dgetO (val item) ''metadata'') (\<lambda>metadata.
       letp (check_scaler spec metadata) (\<lambda>_.
       letp (sub (val metadata) ''name'') (\<lambda>name.
       letp (sub (val metadata) ''namespace'') (\<lambda>ns.
       letp (sub (val metadata) ''uid'') (\<lambda>uid.
       retp (JObj [(''name'', name), (''namespace'', ns), (''uid'', uid), (''spec'', spec)])))))))))))))"

definition credential_words :: "string list" where
  "credential_words = [''KEY'', ''TOKEN'', ''PASSWORD'', ''SECRET'']"

definition check_environment_entry :: "string \<times> json \<Rightarrow> unit res" where
  "check_environment_entry p =
     bindr (if list_ex (\<lambda>w. is_substring w (fst p)) credential_words then has (val (snd p)) ''value'' else val False) (\<lambda>inline.
     whenr inline (
       check (val (ends_with (fst p) ''_DIR'')) ''Live Deployment contains unsupported inline credential environment'' (val ())))"

text \<open>\<open>{item["name"]: item for item in container.get("env", [])}\<close>\<close>

definition environment_of :: "json \<Rightarrow> obj res" where
  "environment_of container =
     bindr (iter (dget (val container) ''env'' (JList []))) (\<lambda>entries.
     fold_res (\<lambda>item acc. bindr (prefixed [] (sub (val item) ''name'')) (\<lambda>n. val (dict_set acc n item))) entries [])"

definition check_container :: "json \<Rightarrow> unit res" where
  "check_container container =
     bindr (environment_of container) (\<lambda>env.
     check (eqs (dget0 (val (lookup_or env ''STORE_MODEL_IN_DB'' (JObj []))) ''value'') ''false'')
       ''Model-sync requires file-backed models, not database-backed model storage'' (
     each check_environment_entry env))"

definition config_mount :: "json \<Rightarrow> json res" where
  "config_mount container =
     bindr (iter (dget (val container) ''volumeMounts'' (JList []))) (\<lambda>all.
     bindr (filter_res (\<lambda>m. eqs (dget0 (val m) ''mountPath'') ''/app/config/config.yaml'') all) (\<lambda>mounts.
     check (conjr (val (length mounts = 1)) (conjr (eqs (dget0 (val (hd mounts)) ''subPath'') ''config.yaml'')
         (is_true (dget0 (val (hd mounts)) ''readOnly''))))
       ''Model config must be the existing read-only config.yaml mount'' (
     bindr (list_of (dget (val container) ''args'' (JList []))) (\<lambda>args.
     check (val (take 2 args = [JStr ''--config'', JStr ''/app/config/config.yaml'']))
       ''Backend must use the reviewed configuration file'' (val (hd mounts))))))"

text \<open>The volume of the mount, by its position.\<close>

definition config_volume :: "json \<Rightarrow> json \<Rightarrow> (nat \<times> json) res" where
  "config_volume pod mount =
     bindr (list_of (dget (sub (val pod) ''spec'') ''volumes'' (JList []))) (\<lambda>volumes.
     bindr (position_res (\<lambda>v. eqr (sub (val v) ''name'') (sub (val mount) ''name'')) volumes) (\<lambda>found.
     case found of None \<Rightarrow> Inl (MigrationError ''Live model config volume is missing'')
     | Some i \<Rightarrow>
         check (has (val (volumes ! i)) ''configMap'') ''Live model config must come from a ConfigMap'' (val (i, volumes ! i))))"

text \<open>\<open>sorted(models, key=lambda item: item["model_info"]["id"])\<close>, for identities that are strings.\<close>

definition by_model_id :: "json list \<Rightarrow> json list res" where
  "by_model_id models =
     mapr (\<lambda>ks. map snd (sort_key fst ks))
       (map_res (\<lambda>m. mapr (\<lambda>i. (i, m)) (prefixed [] (sub (sub (val m) ''model_info'') ''id''))) models)"

definition runtime_sections :: "string list" where
  "runtime_sections = [''general_settings'', ''litellm_settings'', ''router_settings'']"

definition check_override :: "sha \<Rightarrow> json \<Rightarrow> string \<Rightarrow> string \<times> json \<Rightarrow> unit res" where
  "check_override sha runtime section p =
     check (conjr (has (dgetO (val runtime) section) (fst p))
        (mapr (\<lambda>live. fingerprint sha live = fingerprint sha (snd p)) (sub (sub (val runtime) section) (fst p))))
       ''Live runtime setting differs from customer configuration'' (val ())"

definition check_overrides :: "sha \<Rightarrow> json \<Rightarrow> json \<Rightarrow> unit res" where
  "check_overrides sha config runtime =
     bindr (bindr (runtime_overrides config) (\<lambda>ov. items (val ov))) (\<lambda>sections.
     each (\<lambda>(section, values). bindr (items (val values)) (each (check_override sha runtime section))) sections)"

definition check_runtime :: "sha \<Rightarrow> json \<Rightarrow> json \<Rightarrow> unit res" where
  "check_runtime sha config runtime =
     check (all_res (\<lambda>s. testr is_dict (dgetO (val runtime) s)) runtime_sections) ''Live runtime settings sections must be objects'' (
     seqr (safe_settings [] runtime) (
     check (conjr (mapr (\<lambda>v. v = JBool False) (dget0 (dgetO (val runtime) ''general_settings'') ''store_model_in_db''))
               (is_true (dget0 (dgetO (val runtime) ''litellm_settings'') ''enable_azure_ad_token_refresh'')))
       ''Live runtime must retain file-backed models and Azure AD token refresh'' (
     bindr (model_list config) (\<lambda>expected.
     bindr (bindr (iter (dget (val runtime) ''model_list'' (JList []))) by_model_id) (\<lambda>live.
     bindr (by_model_id expected) (\<lambda>wanted.
     check (val (py_eq (JList live) (JList wanted)))
       ''Live model YAML differs from customer mapping; reconcile baseline drift before planning'' (
     check_overrides sha config runtime)))))))"

definition check_workload :: "json \<Rightarrow> unit res" where
  "check_workload pod =
     check (conjr (eqs (dget0 (dgetO (sub (val pod) ''metadata'') ''labels'') ''azure.workload.identity/use'') ''true'')
              (eqs (dget0 (sub (val pod) ''spec'') ''serviceAccountName'') ''litellm''))
       ''Live backend must retain workload identity'' (val ())"

definition check_account :: "json \<Rightarrow> json \<Rightarrow> unit res" where
  "check_account identity account =
     check (eqr (dget0 (dgetO (sub (val account) ''metadata'') ''annotations'') ''azure.workload.identity/client-id'')
              (sub (sub (val identity) ''properties'') ''clientId''))
       ''Live service account selects another workload identity'' (val ())"

definition backend_container :: "json \<Rightarrow> json \<Rightarrow> json res" where
  "backend_container config pod =
     bindr (iter (sub (sub (val pod) ''spec'') ''containers'')) (\<lambda>containers.
     bindr (filter_res (\<lambda>c. eqs (sub (val c) ''name'') ''litellm'') containers) (\<lambda>selected.
     check (conjr (val (length selected = 1)) (eqr (dget0 (val (hd selected)) ''image'') (sub (sub (val config) ''application'') ''backendImage'')))
       ''Live backend image differs from approved customer config'' (val (hd selected))))"

definition baseline_document :: "sha \<Rightarrow> json \<Rightarrow> json \<Rightarrow> json \<Rightarrow> nat \<Rightarrow> json \<Rightarrow> json \<Rightarrow> json res" where
  "baseline_document sha deployment account config_map volume_index runtime scaler =
     bindr (sub (sub (val deployment) ''metadata'') ''uid'') (\<lambda>d_uid.
     bindr (sub (sub (val deployment) ''metadata'') ''resourceVersion'') (\<lambda>d_version.
     bindr (sub (val deployment) ''spec'') (\<lambda>spec.
     bindr (sub (sub (val account) ''metadata'') ''uid'') (\<lambda>a_uid.
     bindr (dget0 (sub (val account) ''metadata'') ''annotations'') (\<lambda>annotations.
     bindr (dget0 (val account) ''spec'') (\<lambda>a_spec.
     bindr (sub (sub (val config_map) ''metadata'') ''uid'') (\<lambda>c_uid.
     bindr (sub (sub (val config_map) ''metadata'') ''name'') (\<lambda>c_name.
     bindr (sub (val config_map) ''data'') (\<lambda>data.
     val (JObj [(''deploymentUid'', d_uid), (''deploymentResourceVersion'', d_version),
       (''deploymentSpecSha256'', JStr (fingerprint sha spec)), (''serviceAccountUid'', a_uid),
       (''serviceAccountSha256'', JStr (fingerprint sha (JObj [(''annotations'', annotations), (''spec'', a_spec)]))),
       (''configMapUid'', c_uid), (''configMapName'', c_name), (''configMapSha256'', JStr (fingerprint sha data)),
       (''volumeIndex'', JInt (int volume_index)), (''runtime'', runtime), (''deployment'', deployment),
       (''autoscaler'', scaler)]))))))))))"

text \<open>The fields of the result are read before the autoscaler is.\<close>

definition live_baseline :: "sha \<Rightarrow> yload \<Rightarrow> json \<Rightarrow> json \<Rightarrow> string list \<Rightarrow> ('s, json) proc" where
  "live_baseline sha yload config identity kube =
     bindp (model_get kube [''get'', ''deployment'', ''litellm'', ''-o'', ''json'']) (\<lambda>deployment.
     letp (sub (sub (val deployment) ''spec'') ''template'') (\<lambda>pod.
     letp (check_workload pod) (\<lambda>_.
     bindp (model_get kube [''get'', ''serviceaccount'', ''litellm'', ''-o'', ''json'']) (\<lambda>account.
     letp (check_account identity account) (\<lambda>_.
     letp (backend_container config pod) (\<lambda>container.
     letp (check_container container) (\<lambda>_.
     letp (config_mount container) (\<lambda>mount.
     letp (config_volume pod mount) (\<lambda>(volume_index, volume).
     letp (prefixed [] (sub (sub (val volume) ''configMap'') ''name'')) (\<lambda>name.
     bindp (model_get kube [''get'', ''configmap'', name, ''-o'', ''json'']) (\<lambda>config_map.
     checkp (conjr (bindr (iter (dgetO (val config_map) ''data'')) (set_is [''config.yaml'']))
               (testr (Not \<circ> truth) (dget0 (val config_map) ''binaryData'')))
       ''Model ConfigMap must contain only config.yaml'' (
     letp (bindr (sub (sub (val config_map) ''data'') ''config.yaml'') (load_runtime_yaml yload)) (\<lambda>runtime.
     letp (check_runtime sha config runtime) (\<lambda>_.
     letp (baseline_document sha deployment account config_map volume_index runtime JNull) (\<lambda>_.
     bindp (autoscaler kube) (\<lambda>scaler.
     letp (baseline_document sha deployment account config_map volume_index runtime scaler) retp))))))))))))))))"

section \<open>Rendering\<close>

text \<open>\<open>{m[field] for m in models}\<close>; groups are strings.\<close>

definition group_names :: "string \<Rightarrow> json res \<Rightarrow> string list res" where
  "group_names field models = bindr (iter models) (map_res (\<lambda>m. prefixed [] (sub (val m) field)))"

definition fill_affinities :: "obj \<Rightarrow> json \<Rightarrow> string list \<Rightarrow> obj" where
  "fill_affinities kv prototype wanted = fold (\<lambda>g acc. dict_default acc g prototype) (sort (remdups wanted)) kv"

definition render_affinities :: "json \<Rightarrow> json \<Rightarrow> json \<Rightarrow> json res" where
  "render_affinities desired previous affinities =
     check (val (is_dict affinities \<and> truth affinities)) ''Existing model affinity template is required'' (
     bindr (items (val affinities)) (\<lambda>kv.
     bindr (group_names ''modelGroup'' (sub (sub (val desired) ''application'') ''models'')) (\<lambda>wanted.
     bindr (group_names ''model_name'' (dget (val previous) ''model_list'' (JList []))) (\<lambda>before.
     val (JObj (fill_affinities (filter (\<lambda>p. fst p \<notin> set before - set wanted) kv) (snd (hd kv)) wanted))))))"

definition pointer_of :: "json \<Rightarrow> string res" where
  "pointer_of current =
     bindr (fmt (sub (val current) ''volumeIndex'')) (\<lambda>i. val (''/spec/template/spec/volumes/'' @ i @ ''/configMap/name''))"

definition model_patch :: "json \<Rightarrow> string \<Rightarrow> string \<Rightarrow> json list res" where
  "model_patch current pointer name =
     bindr (sub (val current) ''deploymentUid'') (\<lambda>uid.
     bindr (sub (val current) ''deploymentResourceVersion'') (\<lambda>rv.
     bindr (sub (val current) ''configMapName'') (\<lambda>old.
     val [patch_op ''test'' ''/metadata/uid'' (Some uid), patch_op ''test'' ''/metadata/resourceVersion'' (Some rv),
          patch_op ''test'' pointer (Some old), patch_op ''replace'' pointer (Some (JStr name))])))"

definition configuration_payload :: "sha \<Rightarrow> ydump \<Rightarrow> json \<Rightarrow> json \<Rightarrow> json res" where
  "configuration_payload sha ydump runtime current =
     seqr (safe_settings [] runtime) (
     let content = ydump runtime;
         name = ''litellm-config-'' @ take 12 (sha content);
         config_map = JObj [(''apiVersion'', JStr ''v1''), (''kind'', JStr ''ConfigMap''),
           (''metadata'', JObj [(''name'', JStr name), (''namespace'', JStr ''litellm'')]),
           (''immutable'', JBool True), (''data'', JObj [(''config.yaml'', JStr content)])] in
     bindr (pointer_of current) (\<lambda>pointer.
     bindr (model_patch current pointer name) (\<lambda>patch.
     bindr (sub (val current) ''runtime'') (\<lambda>live.
     val (JObj [(''configMap'', config_map), (''patch'', JList patch),
       (''modelChanged'', JBool (fingerprint sha runtime \<noteq> fingerprint sha live)),
       (''runtimeSha256'', JStr (fingerprint sha runtime))])))))"

definition render_models :: "sha \<Rightarrow> ydump \<Rightarrow> json \<Rightarrow> json \<Rightarrow> json res" where
  "render_models sha ydump desired current =
     bindr (sub (val current) ''runtime'') (\<lambda>live.
     bindr (items (val live)) (\<lambda>kv.
     bindr (model_list desired) (\<lambda>models.
     let replaced = JObj (dict_set kv ''model_list'' (JList models)) in
     bindr (dget0 (dgetO (val replaced) ''router_settings'') ''model_group_affinity_config'') (\<lambda>affinities.
     bindr (if affinities = JNull then val replaced
            else bindr (render_affinities desired live affinities) (\<lambda>a.
              update_in [''router_settings''] (\<lambda>r. bindr (items (val r)) (\<lambda>rs.
                val (JObj (dict_set rs ''model_group_affinity_config'' a)))) replaced)) (\<lambda>runtime.
     bindr (runtime_overrides desired) (\<lambda>overrides.
     bindr (apply_runtime_settings runtime overrides) (\<lambda>final.
     configuration_payload sha ydump final current)))))))"

section \<open>The specification after the patch\<close>

text \<open>\<open>spec["template"]["spec"]["volumes"][index]["configMap"]["name"] = name\<close>\<close>

definition set_config_name :: "json \<Rightarrow> json \<Rightarrow> json res" where
  "set_config_name name volume = update_in [''configMap''] (\<lambda>c. bindr (items (val c)) (\<lambda>kv. val (JObj (dict_set kv ''name'' name)))) volume"

definition volume_at :: "json \<Rightarrow> int \<Rightarrow> nat res" where
  "volume_at volumes i =
     (case volumes of
        JList vs \<Rightarrow> if 0 \<le> i \<and> i < int (length vs) then val (nat i)
                    else if - int (length vs) \<le> i \<and> i < 0 then val (nat (i + int (length vs))) else Inl IndexError
      | _ \<Rightarrow> Inl TypeError)"

definition with_config_map :: "json \<Rightarrow> json \<Rightarrow> json \<Rightarrow> json res" where
  "with_config_map name index spec =
     update_in [''template'', ''spec'', ''volumes''] (\<lambda>vs.
       bindr (case index of JInt i \<Rightarrow> volume_at vs i | _ \<Rightarrow> Inl TypeError) (\<lambda>i.
       bindr (list_of (val vs)) (\<lambda>volumes.
       bindr (set_config_name name (volumes ! i)) (\<lambda>v. val (JList (volumes[i := v])))))) spec"

text \<open>The name of the ConfigMap in a payload.\<close>

definition map_name :: "json \<Rightarrow> json res" where
  "map_name payload = sub (sub (sub (val payload) ''configMap'') ''metadata'') ''name''"

definition dry_run :: "string list \<Rightarrow> json \<Rightarrow> json \<Rightarrow> json \<Rightarrow> ('s, unit) proc" where
  "dry_run kube payload baseline_spec volume_index =
     letp (sub (val payload) ''configMap'') (\<lambda>config_map.
     thenp (private_write ''configmap.json'' config_map) (
     letp (sub (val payload) ''patch'') (\<lambda>patch.
     thenp (private_write ''deployment-patch.json'' patch) (
     letp (sub (val payload) ''modelChanged'') (\<lambda>model_changed.
     whenp (truth model_changed) (
     bindp (model_command kube [''apply'', ''--server-side'', ''--field-manager=llmgw-migration'', ''--dry-run=server'',
        ''-f'', ''configmap.json'', ''-o'', ''json'']) (\<lambda>_.
     bindp (model_get kube [''patch'', ''deployment'', ''litellm'', ''--type=json'', ''--patch-file'', ''deployment-patch.json'',
        ''--dry-run=server'', ''-o'', ''json'']) (\<lambda>output.
     letp (bindr (map_name payload) (\<lambda>n. with_config_map n volume_index baseline_spec)) (\<lambda>expected.
     checkp (mapr (\<lambda>spec. py_eq spec expected) (dget0 (val output) ''spec''))
       ''Server dry-run changes more than the model config volume'' (retp ()))))))))))"

definition PROBE_CODE :: string where
  "PROBE_CODE =
     ''import json,socket,ssl,sys; '' @ ''host=sys.argv[1]; expected=set(json.loads(sys.argv[2])); ''
     @ ''actual={r[4][0] for r in socket.getaddrinfo(host,443,type=socket.SOCK_STREAM)}; ''
     @ ''assert actual and actual<=expected,'' @ [CHR 0x27] @ ''private DNS mismatch'' @ [CHR 0x27] @ ''; ''
     @ ''s=socket.create_connection((host,443),timeout=10); ''
     @ ''tls=ssl.create_default_context().wrap_socket(s,server_hostname=host); tls.close(); print(''
     @ [CHR 0x27] @ ''private-dns-tls-ok'' @ [CHR 0x27] @ '')''"

text \<open>The text of a reply; \<open>exec\<close> of a command prints text.\<close>

definition reply_text :: "reply \<Rightarrow> string" where
  "reply_text r = (case r of Text t \<Rightarrow> t | Json v \<Rightarrow> dumps_default v | Failure \<Rightarrow> [])"

definition network_probe :: "string list \<Rightarrow> json \<Rightarrow> json \<Rightarrow> ('s, unit) proc" where
  "network_probe kube account ips =
     letp (connection_endpoint account) (\<lambda>e.
     bindp (model_command kube [''exec'', ''deployment/litellm'', ''-c'', ''litellm'', ''--'', ''python'', ''-c'', PROBE_CODE,
        remove_prefix ''https://'' e, dumps_default ips]) (\<lambda>r.
     checkp (val (strip (reply_text r) = ''private-dns-tls-ok'')) ''In-cluster private DNS/TLS check did not complete'' (retp ())))"

section \<open>Verification\<close>

definition within_bounds :: "json \<Rightarrow> json \<Rightarrow> bool res" where
  "within_bounds spec replicas =
     (case replicas of
        JInt n \<Rightarrow>
          bindr (dget (val spec) ''minReplicas'' (JInt 1)) (\<lambda>least.
          bindr (sub (val spec) ''maxReplicas'') (\<lambda>most.
          case (number_of least, number_of most) of
            (Some a, Some b) \<Rightarrow> val (num_le a (n, 0) \<and> num_le (n, 0) b) | _ \<Rightarrow> Inl TypeError))
      | _ \<Rightarrow> val False)"

definition expected_spec :: "json \<Rightarrow> json \<Rightarrow> json \<Rightarrow> json \<Rightarrow> json res" where
  "expected_spec current approved deployment wanted =
     bindr (sub (sub (val current) ''deployment'') ''spec'') (\<lambda>before.
     bindr (bindr (sub (val current) ''volumeIndex'') (\<lambda>i. with_config_map wanted i before)) (\<lambda>expected.
     bindr (dget0 (sub (val deployment) ''spec'') ''replicas'') (\<lambda>replicas.
     if approved = JNull then val expected
     else bindr (sub (val approved) ''spec'') (\<lambda>spec.
          check (within_bounds spec replicas) ''Post-rollout replicas are outside the approved autoscaler bounds'' (
          bindr (items (val expected)) (\<lambda>kv. val (JObj (dict_set kv ''replicas'' replicas))))))))"

definition approved_scaler :: "json \<Rightarrow> json res" where
  "approved_scaler current =
     check (has (val current) ''autoscaler'') ''Approval lacks autoscaler evidence; replan or use separately approved recovery''
       (sub (val current) ''autoscaler'')"

definition verify_deployment :: "string list \<Rightarrow> json \<Rightarrow> json \<Rightarrow> json \<Rightarrow> ('s, unit) proc" where
  "verify_deployment kube deployment current wanted =
     checkp (eqr (sub (sub (val deployment) ''metadata'') ''uid'') (sub (val current) ''deploymentUid''))
       ''Post-rollout Deployment UID differs from the approved baseline'' (
     letp (approved_scaler current) (\<lambda>approved.
     bindp (autoscaler kube) (\<lambda>live.
     checkp (val (py_eq live approved)) ''Post-rollout autoscaler differs from the approved baseline'' (
     letp (expected_spec current approved deployment wanted) (\<lambda>expected.
     checkp (mapr (\<lambda>spec. py_eq spec expected) (sub (val deployment) ''spec''))
       ''Post-rollout Deployment differs from the exact model-only patch'' (retp ()))))))"

definition fresh_deployment :: "sha \<Rightarrow> json \<Rightarrow> json \<Rightarrow> bool res" where
  "fresh_deployment sha current fresh =
     allr [eqr (sub (sub (val fresh) ''metadata'') ''uid'') (sub (val current) ''deploymentUid''),
           eqr (sub (sub (val fresh) ''metadata'') ''resourceVersion'') (sub (val current) ''deploymentResourceVersion''),
           bindr (sub (val fresh) ''spec'') (\<lambda>spec. mapr (\<lambda>h. py_eq (JStr (fingerprint sha spec)) h) (sub (val current) ''deploymentSpecSha256''))]"

definition patch_models :: "sha \<Rightarrow> string list \<Rightarrow> json \<Rightarrow> ('s, unit) tracked \<Rightarrow> ('s, unit) tracked" where
  "patch_models sha kube current save =
     bindt (liftt (model_get kube [''get'', ''deployment'', ''litellm'', ''-o'', ''json''])) (\<lambda>fresh.
     checkt (fresh_deployment sha current fresh) ''Deployment drifted after approval; no application writes performed'' (
     bindt (liftt (autoscaler kube)) (\<lambda>live.
     checkt (mapr (\<lambda>s. py_eq live s) (sub (val current) ''autoscaler''))
       ''Autoscaler drifted after approval; no application writes performed'' (
     bindt (liftt (model_command kube [''apply'', ''--server-side'', ''--field-manager=llmgw-migration'', ''-f'', ''configmap.json''])) (\<lambda>_.
     thent (putt [(''phase'', JStr ''configmap-created'')]) (
     thent save (
     bindt (liftt (model_command kube [''patch'', ''deployment'', ''litellm'', ''--type=json'', ''--patch-file'', ''deployment-patch.json''])) (\<lambda>_.
     thent (putt [(''applicationPatched'', JBool True), (''phase'', JStr ''rollout'')]) save))))))))"

definition ready_pod :: "json \<Rightarrow> bool res" where
  "ready_pod p =
     conjr (testr (Not \<circ> truth) (dget0 (sub (val p) ''metadata'') ''deletionTimestamp''))
       (bindr (iter (dget (dgetO (val p) ''status'') ''conditions'' (JList []))) (any_res (\<lambda>c.
          conjr (eqs (dget0 (val c) ''type'') ''Ready'') (eqs (dget0 (val c) ''status'') ''True''))))"

definition pod_selector :: "json \<Rightarrow> string res" where
  "pod_selector deployment =
     bindr (items (sub (sub (sub (val deployment) ''spec'') ''selector'') ''matchLabels'')) (\<lambda>kv.
     mapr (join '','') (map_res (\<lambda>(k, v). prefixed (k @ ''='') (val v)) kv))"

definition enough_pods :: "json \<Rightarrow> nat \<Rightarrow> bool res" where
  "enough_pods deployment n =
     bindr (dget (sub (val deployment) ''spec'') ''replicas'' (JInt 1)) (\<lambda>wanted.
     case number_of wanted of Some w \<Rightarrow> val (num_le w (int n, 0)) | None \<Rightarrow> Inl TypeError)"

definition HASH_CODE :: string where
  "HASH_CODE = ''import hashlib; print(hashlib.sha256(open('' @ [CHR 0x27] @ ''/app/config/config.yaml'' @ [CHR 0x27, CHR '','', CHR 0x27]
     @ ''rb'' @ [CHR 0x27] @ '').read()).hexdigest())''"

definition check_pod :: "string list \<Rightarrow> string \<Rightarrow> json \<Rightarrow> ('s, unit) proc" where
  "check_pod kube text_hash pod =
     letp (prefixed [] (sub (sub (val pod) ''metadata'') ''name'')) (\<lambda>name.
     bindp (model_command kube [''exec'', name, ''-c'', ''litellm'', ''--'', ''python'', ''-c'', HASH_CODE]) (\<lambda>r.
     checkp (val (strip (reply_text r) = text_hash)) ''Ready backend Pod mounted stale model configuration'' (retp ())))"

definition verify_rollout :: "sha \<Rightarrow> yload \<Rightarrow> string list \<Rightarrow> json \<Rightarrow> json \<Rightarrow> ('s, unit) proc" where
  "verify_rollout sha yload kube payload current =
     bindp (model_command kube [''rollout'', ''status'', ''deployment/litellm'', ''--timeout=900s'']) (\<lambda>_.
     bindp (model_get kube [''get'', ''deployment'', ''litellm'', ''-o'', ''json'']) (\<lambda>deployment.
     letp (sub (val payload) ''modelChanged'') (\<lambda>model_changed.
     letp (if truth model_changed then map_name payload else sub (val current) ''configMapName'') (\<lambda>wanted.
     thenp (verify_deployment kube deployment current wanted) (
     letp (prefixed [] (val wanted)) (\<lambda>name.
     bindp (model_get kube [''get'', ''configmap'', name, ''-o'', ''json'']) (\<lambda>config_map.
     letp (sub (sub (val config_map) ''data'') ''config.yaml'') (\<lambda>content.
     checkp (bindr (load_runtime_yaml yload content) (\<lambda>v. mapr (\<lambda>h. py_eq (JStr (fingerprint sha v)) h) (sub (val payload) ''runtimeSha256'')))
       ''Post-rollout ConfigMap differs from desired exact model mapping'' (
     letp (pod_selector deployment) (\<lambda>selector.
     bindp (model_get kube [''get'', ''pods'', ''-l'', selector, ''-o'', ''json'']) (\<lambda>pods.
     letp (bindr (iter (sub (val pods) ''items'')) (filter_res ready_pod)) (\<lambda>ready.
     checkp (enough_pods deployment (length ready)) ''Not all required backend replicas are ready'' (
     letp (str_of (val content)) (\<lambda>text.
     eachp (check_pod kube (sha text)) ready))))))))))))))"

definition apply_models :: "sha \<Rightarrow> yload \<Rightarrow> string list \<Rightarrow> json \<Rightarrow> json \<Rightarrow> ('s, unit) tracked \<Rightarrow> ('s, unit) tracked" where
  "apply_models sha yload kube payload current save =
     lett (approved_scaler current) (\<lambda>_.
     lett (sub (val payload) ''modelChanged'') (\<lambda>model_changed.
     thent (whent (truth model_changed) (patch_models sha kube current save)) (
     thent (liftt (verify_rollout sha yload kube payload current)) (
     putt [(''rolloutVerified'', JBool True), (''inferenceVerified'', JBool False)]))))"

end
