(* ===== verification/Model_Sync.thy ===== *)
theory Model_Sync
  imports Model_Runtime Local_Runner
begin

text \<open>
  The synchronisation of the gateway with existing Azure OpenAI deployments, from
  \<open>local_execution/model_sync.py\<close>: the approvals, the plan with its review and hash, and the
  execution, which starts with the plan all over and goes on only for the approved hash.  The
  state record, saved at every step and once more at the end, is the dict of a tracked run.
  Files are read through the client of the calls: their bytes are the replies.
\<close>

section \<open>Inputs\<close>

definition read_bytes :: "string \<Rightarrow> ('s, reply) proc" where
  "read_bytes label =
     bindp (perform (Client ''read_bytes'' [JStr label])) (\<lambda>r. if r = Failure then failp (OSError ''read'') else retp r)"

text \<open>\<open>protected_source\<close>: a regular file of the checkout, ignored by Git and private.\<close>

definition protected_source :: "string \<Rightarrow> ('s, unit) proc" where
  "protected_source label =
     bindp (perform (Client ''is_regular_file'' [JStr label])) (\<lambda>r.
     checkp (val (r = Json (JBool True))) ''The input must be a regular file inside the reviewed checkout (not a symlink)'' (
     bindp (perform (Command [''git'', ''check-ignore'', ''--quiet'', ''--'', label])) (\<lambda>ignored.
     checkp (val (ignored \<noteq> Failure)) ''The input must be Git-ignored'' (
     bindp (perform (Client ''is_private'' [JStr label])) (\<lambda>mode.
     checkp (val (mode = Json (JBool True))) ''The input must be private (chmod 600)'' (retp ()))))))"

definition SOURCE_PATHS :: "string list" where
  "SOURCE_PATHS =
     [''local_execution/model_sync.py'', ''scripts/model_sync_catalog.py'', ''scripts/model_configuration.py'',
      ''local_execution/model_sync_evidence.py'', ''scripts/model_sync_infra.py'', ''scripts/model_sync_runtime.py'',
      ''scripts/runtime_configuration.py'', ''local_execution/runner.py'', ''local_execution/release_report.py'',
      ''scripts/customer_migration.py'', ''scripts/backend_manifest.py'', ''scripts/migration_deploy.py'',
      ''scripts/migration_runtime.py'', ''scripts/private_ingress_runtime.py'', ''scripts/private_ingress.py'',
      ''scripts/edge_binding.py'', ''scripts/audit_runtime.py'', ''scripts/workflow_diagnostics.py'',
      ''infra/model-sync/main.bicep'', ''infra/modules/aoai-private-endpoint/main.bicep'',
      ''infra/modules/model-access-role/main.bicep'', ''infra/environments/main.bicep'']"

definition sha_of_file :: "sha \<Rightarrow> string \<Rightarrow> ('s, string) proc" where
  "sha_of_file sha label = bindp (read_bytes label) (\<lambda>r. retp (sha (reply_text r)))"

definition source_fingerprints :: "sha \<Rightarrow> ('s, json) proc" where
  "source_fingerprints sha =
     bindp (mapp (\<lambda>label. bindp (sha_of_file sha label) (\<lambda>h. retp (label, JStr h))) SOURCE_PATHS) (\<lambda>ps. retp (JObj ps))"

definition reviewed_revision :: "('s, string) proc" where
  "reviewed_revision =
     bindp (perform (Command [''git'', ''rev-parse'', ''HEAD''])) (\<lambda>r.
     let revision = strip (reply_text r) in
     checkp (val (r \<noteq> Failure \<and> rmatch REVISION revision)) ''Run local Stage0-9 from a Git checkout with a full revision'' (retp revision))"

definition load_config_file :: "sha \<Rightarrow> string \<Rightarrow> ('s, json \<times> obj) proc" where
  "load_config_file sha label =
     bindp (perform (Client ''read_json'' [JStr label])) (\<lambda>r. case r of
       Json document \<Rightarrow> letp (load_document sha document) retp
     | _ \<Rightarrow> failp (MigrationError ''Unable to read the local customer JSON configuration''))"

definition load_config :: "sha \<Rightarrow> ('s, json \<times> obj) proc" where
  "load_config sha = load_config_file sha ''config''"

section \<open>Approvals\<close>

definition ticket_ok :: "json \<Rightarrow> bool" where
  "ticket_ok v = (case v of JStr s \<Rightarrow> strip s \<noteq> [] \<and> length s \<le> 256 \<and> list_all (\<lambda>c. 32 \<le> code c) s | _ \<Rightarrow> False)"

definition approvals :: "json \<Rightarrow> json \<Rightarrow> json list \<Rightarrow> json res" where
  "approvals config ticket approvers =
     check (val (ticket_ok ticket)) ''Supply the actual approved change-ticket reference'' (
     bindr (approval_policy config) (\<lambda>(mode, eligible).
     bindr (map_res uuid_int approvers) (\<lambda>identities.
     check (val (length identities = (if mode = ''single-operator'' then 1 else 2) \<and> distinct identities \<and> (\<forall>i \<in> set identities. i \<noteq> 0)))
       ''Actual distinct approved-by object IDs must meet customer approval policy'' (
     check (val (eligible = [] \<or> set identities \<subseteq> set eligible)) ''Approver is outside the customer eligible operator policy'' (
     val (JObj [(''changeTicket'', ticket), (''approvedBy'', JList (map (\<lambda>i. JStr (uuid_str i)) identities)),
       (''approvalMode'', JStr mode)]))))))"

section \<open>The plan\<close>

record sync_request =
  sy_operation :: string
  sy_policy :: string
  sy_approved :: string
  sy_version :: json
  sy_ticket :: json
  sy_approvers :: "json list"
  sy_same_file :: bool

record sync_inputs =
  si_config :: json
  si_settings :: obj
  si_config_bytes :: reply
  si_catalog_bytes :: reply
  si_raw :: json
  si_accounts :: "json list"
  si_authorization :: json
  si_revision :: string
  si_sources :: json
  si_output :: string

record sync_plan =
  sp_review :: json
  sp_current :: json
  sp_payload :: json
  sp_infra :: json
  sp_identity :: json
  sp_kube :: "string list"
  sp_document :: json

definition compile_models_template :: "sha \<Rightarrow> ('s, string) proc" where
  "compile_models_template sha =
     bindp (perform (Command [''az'', ''bicep'', ''build'', ''--file'', ''infra/model-sync/main.bicep'', ''--outfile'', ''model-sync.template.json''])) (\<lambda>r.
     bindp (perform (Client ''is_file'' [JStr ''model-sync.template.json''])) (\<lambda>exists.
     checkp (val (r \<noteq> Failure \<and> exists = Json (JBool True))) ''Focused model-sync Bicep build failed'' (
     sha_of_file sha ''model-sync.template.json'')))"

definition probe_plan :: "string list \<Rightarrow> json \<Rightarrow> json \<Rightarrow> ('s, unit) proc" where
  "probe_plan kube infra item =
     letp (sub (val item) ''endpoint'') (\<lambda>endpoint.
     letp (allr [testr (Not \<circ> truth) (sub (val endpoint) ''createEndpoint''), testr (Not \<circ> truth) (sub (val endpoint) ''createDnsBinding''),
                 testr truth (sub (sub (val infra) ''context'') ''links'')]) (\<lambda>ready.
     whenp ready (
       letp (sub (val item) ''account'') (\<lambda>account.
       letp (sub (val endpoint) ''ips'') (\<lambda>ips. network_probe kube account ips)))))"

definition prepare_models ::
    "'s tools \<Rightarrow> json \<Rightarrow> obj \<Rightarrow> json \<Rightarrow> (obj \<times> json) list \<Rightarrow> json \<Rightarrow> string list \<Rightarrow> ('s, json \<times> json \<times> json) proc" where
  "prepare_models tools config settings desired matches identity kube =
     bindp (live_baseline (t_sha tools) (t_yload tools) config identity kube) (\<lambda>current.
     letp (render_models (t_sha tools) (t_ydump tools) desired current) (\<lambda>payload.
     letp (sub (sub (val current) ''deployment'') ''spec'') (\<lambda>spec.
     letp (sub (val current) ''volumeIndex'') (\<lambda>index.
     thenp (dry_run kube payload spec index) (
     bindp (authenticate_azure (t_claims tools) config settings ''deploy'') (\<lambda>_.
     bindp (infrastructure_plan (t_sha tools) (t_uuid5 tools) config desired matches identity) (\<lambda>infra.
     bindp (authenticate_azure (t_claims tools) config settings ''runtime'') (\<lambda>_.
     letp (list_of (sub (val infra) ''accounts'')) (\<lambda>items.
     thenp (eachp (probe_plan kube infra) items) (retp (current, payload, infra)))))))))))"

definition removed_models :: "json \<Rightarrow> json \<Rightarrow> json list res" where
  "removed_models config desired =
     bindr (bindr (configured_models desired) (map_res (\<lambda>m. sub (val m) ''id''))) (\<lambda>retained.
     bindr (configured_models config) (\<lambda>models.
     bindr (filter_res (\<lambda>m. mapr (\<lambda>i. i \<notin> set retained) (sub (val m) ''id'')) models) (\<lambda>gone.
     map_res (\<lambda>m. mapr JObj (map_res (\<lambda>k. mapr (\<lambda>v. (k, v)) (sub (val m) k))
       [''id'', ''modelGroup'', ''connectionAlias'', ''deploymentName''])) gone)))"

definition removed_groups :: "json \<Rightarrow> json list \<Rightarrow> string list res" where
  "removed_groups desired removed =
     bindr (group_names ''modelGroup'' (sub (sub (val desired) ''application'') ''models'')) (\<lambda>groups.
     bindr (map_res (\<lambda>m. prefixed [] (sub (val m) ''modelGroup'')) removed) (\<lambda>gone.
     val (sort (remdups (filter (\<lambda>g. g \<notin> set groups) gone)))))"

definition desired_document :: "json \<Rightarrow> json \<Rightarrow> json res" where
  "desired_document raw desired =
     bindr (sub (platform_of desired) ''azureOpenAIConnections'') (\<lambda>connections.
     bindr (sub (sub (val desired) ''application'') ''models'') (\<lambda>models.
     bindr (update_in [''parameters'', ''platform''] (\<lambda>p. bindr (items (val p)) (\<lambda>kv.
        val (JObj (dict_set kv ''azureOpenAIConnections'' connections)))) raw) (\<lambda>half.
     update_in [''application''] (\<lambda>a. bindr (items (val a)) (\<lambda>kv. val (JObj (dict_set kv ''models'' models)))) half)))"

definition stale_stages :: "sha \<Rightarrow> json \<Rightarrow> json \<Rightarrow> json list res" where
  "stale_stages sha config desired =
     mapr (map JInt) (filter_res (\<lambda>stage.
       bindr (stage_fingerprint sha config stage) (\<lambda>a. mapr (\<lambda>b. a \<noteq> b) (stage_fingerprint sha desired stage))) [4..9])"

definition unused_accounts :: "json list \<Rightarrow> json list res" where
  "unused_accounts observations =
     bindr (filter_res (\<lambda>o_doc. testr (Not \<circ> truth) (sub (val o_doc) ''matchedDeployments'')) observations)
       (map_res (\<lambda>o_doc. sub (sub (val o_doc) ''account'') ''accountName''))"

definition review_document ::
    "sha \<Rightarrow> sync_request \<Rightarrow> sync_inputs \<Rightarrow> json list \<Rightarrow> string list \<Rightarrow> json \<Rightarrow> json list \<Rightarrow> json \<Rightarrow> json \<Rightarrow> string \<Rightarrow> json \<Rightarrow> json
      \<Rightarrow> json list \<Rightarrow> string list \<Rightarrow> json" where
  "review_document sha rq si removed groups identity observations current document template_sha infra payload stale warnings =
     JObj [(''schemaVersion'', JInt 1), (''operation'', JStr ''model-sync''), (''revision'', JStr (si_revision si)),
       (''sourceSha256'', si_sources si), (''configInputSha256'', JStr (sha (reply_text (si_config_bytes si)))),
       (''catalogInputSha256'', JStr (sha (reply_text (si_catalog_bytes si)))), (''apiVersion'', sy_version rq),
       (''modelPolicy'', JStr (sy_policy rq)), (''removedModels'', JList removed), (''removedModelGroups'', JList (map JStr groups)),
       (''approval'', si_authorization si), (''identity'', identity), (''discovery'', JList observations), (''baseline'', current),
       (''desiredConfigSha256'', JStr (fingerprint sha document)), (''templateSha256'', JStr template_sha), (''infrastructure'', infra),
       (''application'', payload), (''staleStageFingerprints'', JList stale), (''catalogSchemaVersion'', JInt 1),
       (''pricingWarnings'', JList (map JStr warnings))]"

definition with_digest :: "sha \<Rightarrow> json \<Rightarrow> json" where
  "with_digest sha review =
     JObj ((case review of JObj kv \<Rightarrow> kv | _ \<Rightarrow> []) @ [(''planSha256'', JStr (fingerprint sha review))])"

definition plan_models :: "'s tools \<Rightarrow> sync_request \<Rightarrow> sync_inputs \<Rightarrow> ('s, sync_plan) tracked" where
  "plan_models tools rq si =
     bindt (liftt (authenticate_azure (t_claims tools) (si_config si) (si_settings si) ''deploy'')) (\<lambda>_.
     bindt (liftt (thenp reset_counter (discover (si_config si) (si_accounts si)))) (\<lambda>(observations, matches).
     thent (liftt (private_write ''discovery.json'' (JList observations))) (
     lett (reconcile (t_sha tools) (si_config si) matches (sy_policy rq)) (\<lambda>desired.
     lett (removed_models (si_config si) desired) (\<lambda>removed.
     lett (removed_groups desired removed) (\<lambda>groups.
     lett (pricing_warnings desired) (\<lambda>warnings.
     lett (desired_document (si_raw si) desired) (\<lambda>document.
     thent (liftt (private_write ''desired-customer.json'' document)) (
     bindt (liftt (identity_context (si_config si))) (\<lambda>identity.
     bindt (liftt (authenticate_azure (t_claims tools) (si_config si) (si_settings si) ''runtime'')) (\<lambda>_.
     bindt (liftt (connect_cluster (si_config si) False)) (\<lambda>kube.
     bindt (liftt (compile_models_template (t_sha tools))) (\<lambda>template_sha.
     lett (sub (val identity) ''identity'') (\<lambda>workload.
     bindt (liftt (prepare_models tools (si_config si) (si_settings si) desired matches workload kube)) (\<lambda>(current, payload, infra).
     lett (stale_stages (t_sha tools) (si_config si) desired) (\<lambda>stale.
     let review = review_document (t_sha tools) rq si removed groups identity observations current document template_sha infra payload stale warnings in
     thent (liftt (private_write ''model-sync-review.json'' (with_digest (t_sha tools) review))) (
     lett (unused_accounts observations) (\<lambda>unused.
     thent (putt [(''planSha256'', JStr (fingerprint (t_sha tools) review)), (''status'', JStr ''planned''),
        (''staleStageFingerprints'', JList stale), (''pricingWarnings'', JList (map JStr warnings)), (''modelPolicy'', JStr (sy_policy rq)),
        (''removedModels'', JList removed), (''removedModelGroups'', JList (map JStr groups)), (''unusedAccounts'', JList unused)]) (
     thent (savet STATE_FILE) (
     rett \<lparr>sp_review = review, sp_current = current, sp_payload = payload, sp_infra = infra, sp_identity = workload, sp_kube = kube,
       sp_document = document\<rparr>))))))))))))))))))))"

section \<open>The execution\<close>

definition andp :: "('s, bool) proc \<Rightarrow> ('s, bool) proc \<Rightarrow> ('s, bool) proc" where
  "andp a b = bindp a (\<lambda>x. if x then b else retp False)"

definition same_file_bytes :: "string \<Rightarrow> reply \<Rightarrow> ('s, bool) proc" where
  "same_file_bytes label r = bindp (read_bytes label) (\<lambda>now. retp (now = r))"

definition same_revision :: "sync_inputs \<Rightarrow> ('s, bool) proc" where
  "same_revision si = bindp reviewed_revision (\<lambda>r. retp (r = si_revision si))"

definition same_sources :: "sha \<Rightarrow> sync_inputs \<Rightarrow> ('s, bool) proc" where
  "same_sources sha si = bindp (source_fingerprints sha) (\<lambda>d. retp (py_eq d (si_sources si)))"

definition same_inputs :: "sync_inputs \<Rightarrow> ('s, bool) proc" where
  "same_inputs si = andp (same_file_bytes ''config'' (si_config_bytes si)) (same_file_bytes ''catalog'' (si_catalog_bytes si))"

text \<open>The patch that undoes the switch of the ConfigMap, kept for an independent recovery.\<close>

definition rollback_patch :: "json \<Rightarrow> json \<Rightarrow> json list res" where
  "rollback_patch current payload =
     bindr (sub (val current) ''deploymentUid'') (\<lambda>uid.
     bindr (pointer_of current) (\<lambda>pointer.
     bindr (map_name payload) (\<lambda>name.
     bindr (sub (val current) ''configMapName'') (\<lambda>old.
     val [patch_op ''test'' ''/metadata/uid'' (Some uid), patch_op ''test'' pointer (Some name), patch_op ''replace'' pointer (Some old)]))))"

definition RECOVERY :: string where
  "RECOVERY =
     ''Inspect receipts/state and live Deployment before retrying. Do not remove shared PE/DNS/roles. ''
     @ ''If rollout/config install failed after a patch, an independently reviewed model-only rollback may ''
     @ ''use recovery-rollback-patch.json (add a fresh resourceVersion test), then restore previous-customer.json. ''
     @ ''Alternatively verify the desired live mapping and install desired-customer.json before replanning.''"

definition probe_verified :: "string list \<Rightarrow> json \<Rightarrow> ('s, unit) proc" where
  "probe_verified kube item =
     letp (sub (val item) ''account'') (\<lambda>account.
     letp (sub (val item) ''verifiedIps'') (\<lambda>ips. network_probe kube account ips))"

text \<open>\<open>install_report(document, path, directory, replace=True)\<close>\<close>

definition install_report :: "string \<Rightarrow> json \<Rightarrow> bool \<Rightarrow> ('s, unit) proc" where
  "install_report target document replaces =
     bindp (perform (Client ''is_symlink'' [JStr target])) (\<lambda>linked.
     checkp (val (linked \<noteq> Json (JBool True))) ''Release report cannot be a symlink'' (
     bindp (perform (Client ''exists'' [JStr target])) (\<lambda>there.
     thenp (whenp (there = Json (JBool True)) (
        checkp (val replaces) ''Release report exists; review it and use --replace to back it up and replace it'' (
        bindp (read_bytes target) (\<lambda>old. private_write ''previous-release.json'' (JStr (reply_text old)))))) (
     bindp (perform (Client (if replaces then ''replace_file'' else ''link_file'') [JStr target, document])) (\<lambda>r.
     if r = Failure then failp (OSError ''replace'') else retp ())))))"

definition install_models :: "sync_inputs \<Rightarrow> sync_plan \<Rightarrow> ('s, unit) tracked" where
  "install_models si sp =
     whent (\<not> py_eq (si_raw si) (sp_document sp)) (
       thent (liftt (install_report ''config'' (sp_document sp) True)) (putt [(''configInstalled'', JBool True)]))"

definition no_resources :: "json \<Rightarrow> bool res" where
  "no_resources item = testr (Not \<circ> truth) (sub (val item) ''allowedResources'')"

definition update_application :: "'s tools \<Rightarrow> sync_inputs \<Rightarrow> sync_plan \<Rightarrow> ('s, unit) tracked" where
  "update_application tools si sp =
     bindt (liftt (live_baseline (t_sha tools) (t_yload tools) (si_config si) (sp_identity sp) (sp_kube sp))) (\<lambda>fresh.
     checkt (val (py_eq fresh (sp_current sp)))
       ''Live workload baseline changed while applying prerequisites; application update blocked'' (
     bindt (liftt (andp (same_inputs si) (andp (same_sources (t_sha tools) si) (same_revision si)))) (\<lambda>same.
     checkt (val same) ''Inputs changed during prerequisite deployment; application update blocked'' (
     lett (sub (val (sp_payload sp)) ''modelChanged'') (\<lambda>changed.
     thent (putt [(''applicationPatchAttempted'', changed)]) (
     thent (savet STATE_FILE) (
     thent (apply_models (t_sha tools) (t_yload tools) (sp_kube sp) (sp_payload sp) (sp_current sp) (savet STATE_FILE)) (
     bindt (liftt (same_file_bytes ''config'' (si_config_bytes si))) (\<lambda>kept.
     checkt (val kept) ''Customer config changed before installation; recovery required'' (
     install_models si sp))))))))))"

definition execute_models :: "'s tools \<Rightarrow> sync_inputs \<Rightarrow> sync_plan \<Rightarrow> ('s, unit) tracked" where
  "execute_models tools si sp =
     bindt (liftt (andp (same_revision si) (andp (same_sources (t_sha tools) si) (same_inputs si)))) (\<lambda>same.
     checkt (val same) ''Code or input changed during planning; no writes performed'' (
     thent (liftt (private_write ''previous-customer.json'' (JStr (reply_text (si_config_bytes si))))) (
     lett (rollback_patch (sp_current sp) (sp_payload sp)) (\<lambda>rollback.
     thent (liftt (private_write ''recovery-rollback-patch.json'' (JList rollback))) (
     thent (putt [(''status'', JStr ''executing''), (''phase'', JStr ''infrastructure''), (''recovery'', JStr RECOVERY)]) (
     thent (savet STATE_FILE) (
     bindt (liftt (authenticate_azure (t_claims tools) (si_config si) (si_settings si) ''deploy'')) (\<lambda>_.
     bindt (execute_infrastructure (t_uuid5 tools) (si_config si) (sp_infra sp)) (\<lambda>items.
     bindt (liftt (authenticate_azure (t_claims tools) (si_config si) (si_settings si) ''runtime'')) (\<lambda>_.
     thent (liftt (eachp (probe_verified (sp_kube sp)) items)) (
     thent (update_application tools si sp) (
     lett (sub (val (sp_payload sp)) ''modelChanged'') (\<lambda>changed.
     lett (all_res no_resources items) (\<lambda>untouched.
     putt [(''status'', JStr ''completed''), (''phase'', JStr ''verified''),
       (''noOp'', JBool (\<not> truth changed \<and> py_eq (si_raw si) (sp_document sp) \<and> untouched))]))))))))))))))"

section \<open>\<open>sync\<close>\<close>

definition sync_body :: "'s tools \<Rightarrow> sync_request \<Rightarrow> sync_inputs \<Rightarrow> ('s, obj) tracked" where
  "sync_body tools rq si =
     bindt (plan_models tools rq si) (\<lambda>sp.
     thent (whent (sy_operation rq \<noteq> ''plan'') (
       checkt (val (sy_approved rq = fingerprint (t_sha tools) (sp_review sp)))
         ''Fresh model-sync plan differs from approved SHA256; no writes performed, review and replan''
         (execute_models tools si sp))) gett)"

definition read_inputs :: "'s tools \<Rightarrow> sync_request \<Rightarrow> ('s, sync_inputs) proc" where
  "read_inputs tools rq =
     thenp (protected_source ''config'') (
     thenp (protected_source ''catalog'') (
     checkp (val (\<not> sy_same_file rq)) ''Config and catalog must be separate files'' (
     bindp (load_config (t_sha tools)) (\<lambda>(config, settings).
     letp (approvals config (sy_ticket rq) (sy_approvers rq)) (\<lambda>authorization.
     bindp (read_bytes ''config'') (\<lambda>config_bytes.
     bindp (read_bytes ''catalog'') (\<lambda>catalog_bytes.
     letp (loads config_bytes) (\<lambda>raw.
     letp (bindr (loads catalog_bytes) (\<lambda>d. parse_catalog d (sy_version rq))) (\<lambda>accounts.
     bindp reviewed_revision (\<lambda>revision.
     bindp (source_fingerprints (t_sha tools)) (\<lambda>sources.
     bindp (perform (Client ''operation_root'' [JStr (''model-sync-'' @ sy_operation rq)])) (\<lambda>output.
     retp \<lparr>si_config = config, si_settings = settings, si_config_bytes = config_bytes, si_catalog_bytes = catalog_bytes,
       si_raw = raw, si_accounts = accounts, si_authorization = authorization, si_revision = revision, si_sources = sources,
       si_output = reply_text output\<rparr>))))))))))))"

definition planning_record :: "sync_inputs \<Rightarrow> obj" where
  "planning_record si =
     [(''status'', JStr ''planning''), (''phase'', JStr ''read-only''), (''infrastructureCompleted'', JList []),
      (''applicationPatched'', JBool False), (''rolloutVerified'', JBool False), (''configInstalled'', JBool False),
      (''inferenceVerified'', JBool False), (''outputDirectory'', JStr (si_output si))]"

definition mark_failed :: "bool \<Rightarrow> obj \<Rightarrow> obj" where
  "mark_failed failed d = (if failed then dict_set d ''status'' (JStr ''failed'') else d)"

definition sync_models :: "'s tools \<Rightarrow> sync_request \<Rightarrow> ('s, obj) proc" where
  "sync_models tools rq =
     checkp (val (sy_operation rq \<in> {''plan'', ''execute''})) ''Operation must be plan or execute'' (
     checkp (val (sy_policy rq \<in> {''merge'', ''replace''})) ''Model policy must be merge or replace'' (
     bindp (read_inputs tools rq) (\<lambda>si.
     thenp (private_write STATE_FILE (JObj (planning_record si))) (
     closed_run STATE_FILE mark_failed (sync_body tools rq si) (planning_record si)))))"

end
