(* ===== verification/Model_Safety.thy ===== *)
theory Model_Safety
  imports Model_Sync
begin

text \<open>
  What a model synchronisation does to the outside: nothing that is not inert before its plan
  was approved, and the deployment is patched only right after it was read in the approved
  state.  \<open>inert_intros\<close> collects the parts of a run that change nothing.
\<close>

section \<open>Events\<close>

text \<open>A deployment of Azure resources, a change of the cluster that is no dry run, or the
  installation of a file.\<close>

definition cluster_change :: "string list \<Rightarrow> bool" where
  "cluster_change arguments =
     (case drop 4 arguments of [] \<Rightarrow> False
      | verb # rest \<Rightarrow> verb \<in> {''apply'', ''patch'', ''create'', ''delete''} \<and> ''--dry-run=server'' \<notin> set rest)"

definition inert :: "event \<Rightarrow> bool" where
  "inert e =
     (case fst e of
        Command (tool # arguments) \<Rightarrow> keeping e \<and> (tool = ''kubectl'' \<longrightarrow> \<not> cluster_change arguments)
      | Client operation a \<Rightarrow> operation \<notin> {''replace_file'', ''link_file''}
      | _ \<Rightarrow> True)"

named_theorems inert_intros \<open>runs that change nothing\<close>

lemma inert_write [simp]: "inert (WriteFile n d, r)"
  by (simp add: inert_def)

lemma inert_client [simp]: "inert (Client operation a, r) \<longleftrightarrow> operation \<notin> {''replace_file'', ''link_file''}"
  by (simp add: inert_def)

lemma inert_command: "tool \<noteq> ''kubectl'' \<Longrightarrow> keeping (Command (tool # xs), r) \<Longrightarrow> inert (Command (tool # xs), r)"
  by (simp add: inert_def)

lemma inert_kube:
  "verb \<notin> {''apply'', ''patch'', ''create'', ''delete''} \<or> ''--dry-run=server'' \<in> set rest \<Longrightarrow>
     inert (Command (target_kube @ verb # rest), r)"
  by (auto simp: inert_def target_kube_def cluster_change_def)

lemma inert_az [inert_intros]:
  "last (az_words (arguments @ [''--only-show-errors''])) \<noteq> ''create'' \<Longrightarrow> only inert (az_run e arguments)"
  by (intro only_az_run) (simp_all add: az_command_def inert_command keeping_az [unfolded az_command_def])

lemma inert_private_write [inert_intros]: "only inert (private_write n d)"
  by (rule only_private_write) simp

lemma inert_model_command [inert_intros]:
  "verb \<notin> {''apply'', ''patch'', ''create'', ''delete''} \<or> ''--dry-run=server'' \<in> set rest \<Longrightarrow>
     only inert (model_command target_kube (verb # rest))"
  unfolding model_command_def by (intro only_intros inert_kube)

lemma inert_model_get [inert_intros]:
  "verb \<notin> {''apply'', ''patch'', ''create'', ''delete''} \<or> ''--dry-run=server'' \<in> set rest \<Longrightarrow>
     only inert (model_get target_kube (verb # rest))"
  unfolding model_get_def by (intro only_intros inert_intros)

section \<open>Reads and plans\<close>

lemma inert_reads [inert_intros]:
  "only inert (az_get i v)" "only inert (az_collection i v)"
  unfolding az_get_def az_collection_def by (intro only_intros inert_intros; simp add: words_eval)+

lemma inert_context [inert_intros]: "only inert (network_context config)"
  unfolding network_context_def by (intro only_intros inert_intros)

lemma inert_read_nic [inert_intros]: "only inert (read_nic prefixes hosts reference st)"
  unfolding read_nic_def by (intro only_intros inert_intros)

lemma inert_live_endpoint [inert_intros]: "only inert (live_endpoint_state account context endpoint)"
  unfolding live_endpoint_state_def by (intro only_intros inert_intros)

lemma inert_endpoint [inert_intros]: "only inert (endpoint_state account alias context)"
  unfolding endpoint_state_def
  by (intro only_intros) (auto intro!: only_intros inert_intros split: list.splits prod.splits)

lemma inert_role [inert_intros]: "only inert (role_state uuid5 account identity source)"
  unfolding role_state_def by (intro only_intros inert_intros) (simp_all add: words_eval)

lemma inert_what_if [inert_intros]: "only inert (review_what_if sha config alias params admitted)"
  unfolding review_what_if_def prerequisite_arguments_def
  by (intro only_intros inert_intros) (auto simp: bindr_ok words_eval)

lemma inert_account_plan [inert_intros]:
  "only inert (account_plan sha uuid5 config desired identity source context account plans)"
  unfolding account_plan_def by (intro only_intros inert_intros)

lemma inert_infrastructure [inert_intros]: "only inert (infrastructure_plan sha uuid5 config desired matches identity)"
  unfolding infrastructure_plan_def by (intro only_intros inert_intros)

lemma inert_identity [inert_intros]: "only inert (identity_context config)"
  unfolding identity_context_def by (intro only_intros inert_intros)

lemma inert_autoscaler [inert_intros]: "only inert (autoscaler target_kube)"
  unfolding autoscaler_def by (intro only_intros inert_intros) (auto intro!: only_intros split: list.splits)

lemma inert_baseline [inert_intros]: "only inert (live_baseline sha yload config identity target_kube)"
  unfolding live_baseline_def by (intro only_intros inert_intros) simp_all

lemma inert_dry_run [inert_intros]: "only inert (dry_run target_kube payload spec index)"
  unfolding dry_run_def by (intro only_intros inert_intros) simp_all

lemma inert_probe [inert_intros]: "only inert (network_probe target_kube account ips)"
  unfolding network_probe_def by (intro only_intros inert_intros) simp_all

section \<open>The first phase\<close>

lemma inert_auth_run: "only inert (auth_run (''az'' # arguments) label)" if "\<And>r. keeping (Command (''az'' # arguments), r)"
  unfolding auth_run_def using that by (intro only_intros inert_intros) (simp add: inert_command)

lemma inert_verify_identity [inert_intros]: "only inert (verify_identity claims config client)"
  unfolding verify_identity_def
  by (intro only_intros inert_auth_run) (auto simp: keeping_def creates_def words_eval intro!: only_intros split: option.split)

lemma inert_authenticate [inert_intros]: "only inert (authenticate_azure claims config settings name)"
  unfolding authenticate_azure_def
  by (intro only_intros inert_intros inert_auth_run) (simp_all add: keeping_def creates_def words_eval)

lemma inert_discover [inert_intros]: "only inert (discover config accounts)"
  unfolding discover_def check_tenant_def discover_account_def
  by (intro only_intros inert_intros) (auto intro!: only_intros inert_intros simp: words_eval split: prod.splits)

lemma inert_run_command: "only inert (run_command (tool # arguments) label)"
  if "tool \<noteq> ''kubectl''" and "tool \<noteq> ''az'' \<or> last (az_words arguments) \<noteq> ''create''"
  using that by (intro only_run_command) (auto simp: inert_command keeping_def creates_def)

lemma inert_connect [inert_intros]: "only inert (connect_cluster config legacy)"
  unfolding connect_cluster_def check_login_def
  by (intro only_intros inert_intros inert_run_command) (simp_all add: words_eval)

lemma inert_git [simp]: "inert (Command (''git'' # xs), r)"
  by (simp add: inert_command)

lemma inert_bytes [inert_intros]: "only inert (read_bytes label)"
  unfolding read_bytes_def by (intro only_intros) simp

lemma inert_files [inert_intros]:
  "only inert (sha_of_file sha label)" "only inert (source_fingerprints sha)" "only inert reviewed_revision"
  "only inert (protected_source label)"
  unfolding sha_of_file_def source_fingerprints_def reviewed_revision_def protected_source_def Let_def
  by (intro only_intros only_mapp inert_intros; simp)+

lemma inert_load [inert_intros]: "only inert (load_config_file sha label)" "only inert (load_config sha)"
  unfolding load_config_def load_config_file_def by ((intro only_intros)?; auto intro!: only_intros split: reply.splits)+

lemma inert_compile [inert_intros]: "only inert (compile_models_template sha)"
  unfolding compile_models_template_def
  by (intro only_intros inert_intros) (simp_all add: inert_command keeping_def creates_def words_eval)

lemma inert_probe_plan [inert_intros]: "only inert (probe_plan target_kube infra item)"
  unfolding probe_plan_def by (intro only_intros inert_intros)

lemma inert_prepare [inert_intros]: "only inert (prepare_models tools config settings desired matches identity target_kube)"
  unfolding prepare_models_def by (intro only_intros inert_intros)

lemma inert_read_inputs [inert_intros]: "only inert (read_inputs tools rq)"
  unfolding read_inputs_def by (intro only_intros inert_intros) simp_all

lemma inert_plan: "onlyt inert (plan_models tools rq si)"
  unfolding plan_models_def Let_def
  by (intro onlyt_intros inert_intros onlyt_returns)
    (auto intro!: onlyt_intros inert_intros only_intros onlyt_returns dest!: connect_target split: prod.splits)

section \<open>Approval\<close>

text \<open>The review that was written has the approved hash.\<close>

definition reviewed_sync :: "sha \<Rightarrow> string \<Rightarrow> event list \<Rightarrow> bool" where
  "reviewed_sync sha approved l \<longleftrightarrow>
     (\<exists>review r. (WriteFile ''model-sync-review.json'' (with_digest sha review), r) \<in> set l \<and> approved = fingerprint sha review)"

lemma reviewed_sync_append: "reviewed_sync sha approved l \<Longrightarrow> reviewed_sync sha approved (l @ es)"
  by (auto simp: reviewed_sync_def)

lemma plan_is_reviewed:
  "wpt (plan_models tools rq si)
     (\<lambda>sp d l. \<exists>r. (WriteFile ''model-sync-review.json'' (with_digest (t_sha tools) (sp_review sp)), r) \<in> set l) (\<lambda>_ _. True) d l"
  unfolding plan_models_def savet_def Let_def
  by (rule wpt_intros wp_private_write TrueI wp_drop allI | (simp split: prod.split, intro allI impI))+ (auto intro!: wpt_intros wp_private_write)

lemma any_infrastructure: "onlyt (\<lambda>_. True) (execute_infrastructure uuid5 config plan)"
  unfolding execute_infrastructure_def deploy_prerequisite_def verify_prerequisite_def
  by (intro onlyt_intros only_intros only_mapp only_mono [OF inert_context] only_mono [OF inert_endpoint] only_mono [OF inert_role]
      only_private_write only_az_run TrueI)

lemma any_model_command: "only (\<lambda>_. True) (model_command kube xs)" "only (\<lambda>_. True) (model_get kube xs)"
  unfolding model_get_def model_command_def by (intro only_intros TrueI)+

lemma any_autoscaler: "only (\<lambda>_. True) (autoscaler kube)"
  unfolding autoscaler_def by (intro only_intros any_model_command) (auto intro!: only_intros split: list.splits)

lemma any_baseline: "only (\<lambda>_. True) (live_baseline sha yload config identity kube)"
  unfolding live_baseline_def by (intro only_intros any_model_command any_autoscaler)

lemma any_probe: "only (\<lambda>_. True) (network_probe kube account ips)"
  unfolding network_probe_def by (intro only_intros any_model_command)

lemma any_rollout: "only (\<lambda>_. True) (verify_rollout sha yload kube payload current)"
  unfolding verify_rollout_def verify_deployment_def check_pod_def
  by (intro only_intros any_model_command any_autoscaler)

lemma any_apply: "onlyt (\<lambda>_. True) (apply_models sha yload kube payload current (savet name))"
  unfolding apply_models_def patch_models_def
  by (intro onlyt_intros any_model_command any_autoscaler any_rollout TrueI)

lemma any_unchanged: "only (\<lambda>_. True) (andp a b)" if "only (\<lambda>_. True) a" "only (\<lambda>_. True) b"
  unfolding andp_def using that by (intro only_intros)

lemma any_same:
  "only (\<lambda>_. True) (same_file_bytes label r)" "only (\<lambda>_. True) (same_inputs si)" "only (\<lambda>_. True) (same_sources sha si)"
  "only (\<lambda>_. True) (same_revision si)"
  unfolding same_file_bytes_def same_inputs_def same_sources_def same_revision_def
  by (intro only_intros any_unchanged only_mono [OF inert_bytes] only_mono [OF inert_files(2)] only_mono [OF inert_files(3)] TrueI)+

lemma any_install: "only (\<lambda>_. True) (install_report target document replaces)"
  unfolding install_report_def by (intro only_intros only_mono [OF inert_bytes] only_private_write TrueI)

lemma any_execution: "onlyt (\<lambda>_. True) (execute_models tools si sp)"
  unfolding execute_models_def update_application_def install_models_def probe_verified_def
  by (intro onlyt_intros only_intros only_private_write any_infrastructure any_baseline any_probe any_apply any_unchanged any_same
      any_install only_mono [OF inert_authenticate] TrueI)

lemma wpt_body:
  assumes op: "sy_operation rq \<in> {''plan'', ''execute''}" and l: "list_all inert l"
    and safe: "safe = (\<lambda>l. list_all inert l \<or> sy_operation rq = ''execute'' \<and> reviewed_sync (t_sha tools) (sy_approved rq) l)"
  shows "wpt (sync_body tools rq si) (\<lambda>_ _. safe) (\<lambda>_. safe) d l"
proof -
  have planned: "wpt (plan_models tools rq si)
      (\<lambda>sp d l. list_all inert l \<and> (\<exists>r. (WriteFile ''model-sync-review.json'' (with_digest (t_sha tools) (sp_review sp)), r) \<in> set l))
      (\<lambda>_. list_all inert) d l"
    by (rule wpt_mono [OF wpt_conj [OF onlyt_wpt [where I = "list_all inert", OF inert_plan l] plan_is_reviewed]]) simp_all
  have run: "wpt (execute_models tools si sp) (\<lambda>_ _. safe) (\<lambda>_. safe) d l'"
    if "safe l'" "\<not> (list_all inert l' \<and> sy_operation rq = ''plan'')" "reviewed_sync (t_sha tools) (sy_approved rq) l'" for sp d l'
    by (rule wpt_mono [OF onlyt_wpt [where I = "\<lambda>l. sy_operation rq = ''execute'' \<and> reviewed_sync (t_sha tools) (sy_approved rq) l",
          OF any_execution]])
      (use that op in \<open>auto simp: safe reviewed_sync_append\<close>)
  show ?thesis
    unfolding sync_body_def
  proof (rule wpt_bindt, rule wpt_mono [OF planned])
    fix sp :: sync_plan and d' l'
    assume p: "list_all inert l' \<and> (\<exists>r. (WriteFile ''model-sync-review.json'' (with_digest (t_sha tools) (sp_review sp)), r) \<in> set l')"
    then have "safe l'" by (simp add: safe)
    then show "wpt (thent (whent (sy_operation rq \<noteq> ''plan'') (checkt (val (sy_approved rq = fingerprint (t_sha tools) (sp_review sp)))
         ''Fresh model-sync plan differs from approved SHA256; no writes performed, review and replan''
         (execute_models tools si sp))) gett) (\<lambda>_ _. safe) (\<lambda>_. safe) d' l'"
      by (intro wpt_intros wpt_mono [OF run]) (use p in \<open>auto simp: reviewed_sync_def\<close>)
  qed (simp add: safe)
qed

text \<open>
  C33: a model synchronisation deploys nothing, changes nothing in the cluster and installs no
  configuration, or it is an \<open>execute\<close> run whose approved hash is the one of the review document
  that this very run wrote.
\<close>

theorem model_sync_is_approved:
  "list_all inert (log (snd (sync_models tools rq sv (start s)))) \<or>
   sy_operation rq = ''execute'' \<and> reviewed_sync (t_sha tools) (sy_approved rq) (log (snd (sync_models tools rq sv (start s))))"
proof -
  define safe where "safe = (\<lambda>l. list_all inert l \<or> sy_operation rq = ''execute'' \<and> reviewed_sync (t_sha tools) (sy_approved rq) l)"
  have keep: "safe (l @ [(WriteFile STATE_FILE c, r)])" if "safe l" for l c r
    using that by (auto simp: safe_def reviewed_sync_append)
  have "wp (sync_models tools rq) (\<lambda>_. safe) safe []"
    unfolding sync_models_def
  proof (rule wp_checkp, rule wp_checkp, rule wp_bindp)
    assume op: "val (sy_operation rq \<in> {''plan'', ''execute''}) = Inr True"
    have body: "wp (thenp (private_write STATE_FILE (JObj (planning_record si)))
        (closed_run STATE_FILE mark_failed (sync_body tools rq si) (planning_record si))) (\<lambda>_. safe) safe l"
      if "list_all inert l" for si l
      by (rule wp_thenp, rule wp_private_write, rule wp_closed_run [OF wpt_body [OF _ _ safe_def]])
        (use that op keep in \<open>auto simp: safe_def\<close>)
    show "wp (read_inputs tools rq) (\<lambda>si. wp (thenp (private_write STATE_FILE (JObj (planning_record si)))
        (closed_run STATE_FILE mark_failed (sync_body tools rq si) (planning_record si))) (\<lambda>_. safe) safe) safe []"
      by (rule wp_mono [OF only_wp [where I = "list_all inert", OF inert_read_inputs] body]) (auto simp: safe_def)
  qed (simp_all add: safe_def)
  then have "wp (sync_models tools rq) (\<lambda>_. safe) safe (log (start s))" by (simp add: start_def)
  from wp_always [OF this, of sv] show ?thesis
    by (simp add: safe_def)
qed

section \<open>Freshness\<close>

text \<open>A read of the deployment that shows it in the approved state.\<close>

definition fresh_read :: "sha \<Rightarrow> json \<Rightarrow> event \<Rightarrow> bool" where
  "fresh_read sha current e \<longleftrightarrow>
     (\<exists>doc. e = (Command (target_kube @ [''get'', ''deployment'', ''litellm'', ''-o'', ''json'']), Json doc) \<and>
        fresh_deployment sha current doc = Inr True)"

text \<open>Nothing changed before such a read.\<close>

definition fresh_start :: "sha \<Rightarrow> json \<Rightarrow> event list \<Rightarrow> bool" where
  "fresh_start sha current l \<longleftrightarrow> (\<exists>before e after. l = before @ e # after \<and> list_all inert before \<and> fresh_read sha current e)"

definition changes_when_fresh :: "sha \<Rightarrow> json \<Rightarrow> event list \<Rightarrow> bool" where
  "changes_when_fresh sha current l \<longleftrightarrow> list_all inert l \<or> fresh_start sha current l"

lemma fresh_start_append: "fresh_start sha current l \<Longrightarrow> fresh_start sha current (l @ es)"
  unfolding fresh_start_def by fastforce

lemma fresh_startI: "list_all inert l \<Longrightarrow> fresh_read sha current e \<Longrightarrow> fresh_start sha current (l @ [e])"
  unfolding fresh_start_def by blast

lemma any_patch: "onlyt (\<lambda>_. True) (patch_models sha kube current (savet name))"
  unfolding patch_models_def by (intro onlyt_intros any_model_command any_autoscaler TrueI)

lemma wpt_fresh_rest:
  assumes "onlyt (\<lambda>_. True) m" and "fresh_start sha current l"
  shows "wpt m (\<lambda>_ _. changes_when_fresh sha current) (\<lambda>_. changes_when_fresh sha current) d l"
  by (rule wpt_mono [OF onlyt_wpt [where I = "fresh_start sha current", OF assms]])
    (simp_all add: fresh_start_append changes_when_fresh_def)

lemma wp_read_deployment:
  assumes l: "list_all inert l"
  shows "wp (model_get target_kube [''get'', ''deployment'', ''litellm'', ''-o'', ''json''])
     (\<lambda>doc l'. l' = l @ [(Command (target_kube @ [''get'', ''deployment'', ''litellm'', ''-o'', ''json'']), Json doc)])
     (list_all inert) l"
  unfolding model_get_def model_command_def
  by (rule wp_intros)+ (use l in \<open>auto dest!: loads_Json intro!: wp_intros inert_kube\<close>)

lemma wpt_patch:
  assumes l: "list_all inert l"
  shows "wpt (patch_models sha target_kube current (savet STATE_FILE)) (\<lambda>_ _. changes_when_fresh sha current)
    (\<lambda>_. changes_when_fresh sha current) d l"
  unfolding patch_models_def
proof (rule wpt_bindt, rule wpt_liftt, rule wp_mono [OF wp_read_deployment [OF l]], rule wpt_checkt, rule wpt_fresh_rest)
  fix fresh l'
  assume l': "l' = l @ [(Command (target_kube @ [''get'', ''deployment'', ''litellm'', ''-o'', ''json'']), Json fresh)]"
    and ok: "fresh_deployment sha current fresh = Inr True"
  show "fresh_start sha current l'"
    unfolding l' by (rule fresh_startI [OF l]) (use ok in \<open>auto simp: fresh_read_def\<close>)
qed (auto simp: changes_when_fresh_def l inert_kube intro!: onlyt_intros any_model_command any_autoscaler)

lemma inert_rollout: "only inert (verify_rollout sha yload target_kube payload current)"
  unfolding verify_rollout_def verify_deployment_def check_pod_def
  by (intro only_intros inert_intros) simp_all

lemma wpt_inert_rest:
  assumes "onlyt inert m" and "changes_when_fresh sha current l"
  shows "wpt m (\<lambda>_ _. changes_when_fresh sha current) (\<lambda>_. changes_when_fresh sha current) d l"
  by (rule onlyt_wpt [where I = "changes_when_fresh sha current", OF assms])
    (auto simp: changes_when_fresh_def intro: fresh_start_append)

lemma wpt_apply:
  "wpt (apply_models sha yload target_kube payload current (savet STATE_FILE) :: ('s, unit) tracked)
     (\<lambda>_ _. changes_when_fresh sha current) (\<lambda>_. changes_when_fresh sha current) d []"
proof -
  have clean: "changes_when_fresh sha current []" by (simp add: changes_when_fresh_def)
  have rest: "wpt (thent (liftt (verify_rollout sha yload target_kube payload current))
      (putt [(''rolloutVerified'', JBool True), (''inferenceVerified'', JBool False)]) :: ('s, unit) tracked)
      (\<lambda>_ _. changes_when_fresh sha current) (\<lambda>_. changes_when_fresh sha current) d l"
    if "changes_when_fresh sha current l" for d l
    by (intro wpt_inert_rest onlyt_intros inert_rollout that)
  show ?thesis
    unfolding apply_models_def
    by (rule wpt_lett, rule wpt_lett, rule wpt_thent, rule wpt_whent, rule wpt_mono [OF wpt_patch rest])
      (auto intro: rest clean)
qed

text \<open>
  The update of the application changes nothing before it has read the live deployment with
  the identity, the version and the specification that were approved.
\<close>

theorem model_patch_is_fresh:
  "changes_when_fresh sha current (log (snd (apply_models sha yload target_kube payload current (savet STATE_FILE) d sv (start s))))"
proof -
  have "wpt (apply_models sha yload target_kube payload current (savet STATE_FILE))
      (\<lambda>_ _. changes_when_fresh sha current) (\<lambda>_. changes_when_fresh sha current) d (log (start s))"
    using wpt_apply by (simp add: start_def)
  then show ?thesis by (rule wpt_log)
qed

end
