(* ===== verification/Runtime_Sync.thy ===== *)
theory Runtime_Sync
  imports Model_Safety
begin

text \<open>
  The publication of reviewed runtime settings, from \<open>local_execution/runtime_config.py\<close>: the
  desired configuration, the checks of the running Pods, the approval (the latest plan of the
  output directory, with the hash that was approved), the plan, and its execution, which plans
  anew and has to arrive at the same plan.  As in Model_Sync, the state record is the dict of a
  tracked run, and files are read through the client of the calls.  \<open>list_plans\<close> of that client
  lists the paths of the plans with their modification times, sorted by path.
\<close>

section \<open>Sources\<close>

definition PROBE :: string where
  "PROBE = ''scripts/runtime_config_probe.py''"

definition runtime_sources :: "sha \<Rightarrow> ('s, string) proc" where
  "runtime_sources sha =
     bindp (source_fingerprints sha) (\<lambda>all.
     letp (items (val all)) (\<lambda>kv.
     bindp (mapp (\<lambda>label. bindp (sha_of_file sha label) (\<lambda>h. retp (label, JStr h)))
       [''local_execution/runtime_config.py'', PROBE, ''scripts/backend_access.py'']) (\<lambda>own.
     retp (fingerprint sha (JObj (dict_update (filter (\<lambda>(name, h). ends_with name ''.py'') kv) own))))))"

section \<open>The desired configuration\<close>

definition with_settings :: "json \<Rightarrow> json \<Rightarrow> json res" where
  "with_settings overrides document =
     update_in [''application''] (\<lambda>a. bindr (items (val a)) (\<lambda>kv. val (JObj (dict_set kv ''runtimeSettings'' overrides)))) document"

definition desired_configuration :: "sha \<Rightarrow> ydump \<Rightarrow> json \<Rightarrow> json \<Rightarrow> json \<Rightarrow> (json \<times> json) res" where
  "desired_configuration sha ydump config current patch =
     bindr (bindr (runtime_overrides config) (\<lambda>own. apply_runtime_settings own patch)) (\<lambda>overrides.
     bindr (with_settings overrides config) (\<lambda>desired.
     bindr (bindr (str_of (sub (val desired) ''environment'')) (validate_config sha desired)) (\<lambda>_.
     bindr (bindr (sub (val current) ''runtime'') (\<lambda>r. apply_runtime_settings r patch)) (\<lambda>runtime.
     bindr (configuration_payload sha ydump runtime current) (\<lambda>payload.
     val (desired, payload))))))"

section \<open>The running Pods\<close>

definition member_of :: "json list \<Rightarrow> json \<Rightarrow> bool res" where
  "member_of xs v = (if hashable v then val (list_ex (py_eq v) xs) else Inl TypeError)"

text \<open>An owner reference of the kind, by its controller, with an approved \<open>uid\<close>.\<close>

definition controlled_by :: "string \<Rightarrow> (json \<Rightarrow> bool res) \<Rightarrow> json \<Rightarrow> bool res" where
  "controlled_by kind approved owner =
     allr [eqs (dget0 (val owner) ''kind'') kind, is_true (dget0 (val owner) ''controller''),
           bindr (dget0 (val owner) ''uid'') approved]"

definition owned_sets :: "json \<Rightarrow> json \<Rightarrow> json list res" where
  "owned_sets uid replicasets =
     bindr (iter (sub (val replicasets) ''items'')) (\<lambda>entries.
     bindr (filter_res (\<lambda>item.
       bindr (iter (dget (sub (val item) ''metadata'') ''ownerReferences'' (JList []))) (\<lambda>owners.
       any_res (controlled_by ''Deployment'' (\<lambda>u. val (py_eq u uid))) owners)) entries) (\<lambda>own.
     bindr (map_res (\<lambda>item. sub (sub (val item) ''metadata'') ''uid'') own) (\<lambda>uids.
     if list_all hashable uids then val uids else Inl TypeError)))"

definition pod_metadata :: "json \<Rightarrow> json res" where
  "pod_metadata pod = dgetO (val pod) ''metadata''"

definition check_running_pod :: "json list \<Rightarrow> obj \<Rightarrow> json \<Rightarrow> unit res" where
  "check_running_pod owned selector pod =
     bindr (iter (dget (pod_metadata pod) ''ownerReferences'' (JList []))) (\<lambda>owners.
     check (any_res (controlled_by ''ReplicaSet'' (member_of owned)) owners)
       ''Backend selector includes a Pod outside the approved Deployment'' (
     bindr (dgetO (pod_metadata pod) ''labels'') (\<lambda>labels.
     check (all_res (\<lambda>(k, v). mapr (\<lambda>l. py_eq l v) (dget0 (val labels) k)) selector)
       ''Backend Pod labels differ from the approved selector'' (
     bindr (iter (dget (dgetO (val pod) ''status'') ''conditions'' (JList []))) (\<lambda>conditions.
     check (any_res (\<lambda>c. conjr (eqs (dget0 (val c) ''type'') ''Ready'') (eqs (dget0 (val c) ''status'') ''True'')) conditions)
       ''Runtime verification requires every backend Pod to be Ready'' (val ()))))))"

definition pod_names :: "json list \<Rightarrow> obj \<Rightarrow> json list \<Rightarrow> string list res" where
  "pod_names owned selector pods =
     mapr concat (map_res (\<lambda>pod.
       bindr (testr truth (dget0 (pod_metadata pod) ''deletionTimestamp'')) (\<lambda>leaving.
       if leaving then val []
       else seqr (check_running_pod owned selector pod)
         (mapr (\<lambda>name. [name]) (prefixed [] (sub (sub (val pod) ''metadata'') ''name''))))) pods)"

definition wanted_replicas :: "json \<Rightarrow> int res" where
  "wanted_replicas deployment =
     bindr (dget (sub (val deployment) ''spec'') ''replicas'' (JInt 1)) (\<lambda>replicas.
     check (val (case replicas of JInt n \<Rightarrow> 0 < n | _ \<Rightarrow> False)) ''Runtime verification requires running replicas'' (
     val (case replicas of JInt n \<Rightarrow> n | _ \<Rightarrow> 0)))"

definition label_selector :: "obj \<Rightarrow> string res" where
  "label_selector selector = mapr (join '','') (map_res (\<lambda>(k, v). prefixed (k @ ''='') (val v)) selector)"

definition ready_pods :: "string list \<Rightarrow> json \<Rightarrow> json \<Rightarrow> ('s, string list) proc" where
  "ready_pods kube current wanted =
     bindp (model_get kube [''get'', ''deployment'', ''litellm'', ''-o'', ''json'']) (\<lambda>deployment.
     thenp (verify_deployment kube deployment current wanted) (
     letp (wanted_replicas deployment) (\<lambda>replicas.
     letp (dgetO (sub (sub (val deployment) ''spec'') ''selector'') ''matchLabels'') (\<lambda>labels.
     checkp (val (truth labels)) ''Backend selector cannot be empty'' (
     letp (items (val labels)) (\<lambda>selector.
     letp (label_selector selector) (\<lambda>wanted_labels.
     bindp (model_get kube [''get'', ''replicasets'', ''-l'', wanted_labels, ''-o'', ''json'']) (\<lambda>replicasets.
     letp (bindr (sub (val current) ''deploymentUid'') (\<lambda>uid. owned_sets uid replicasets)) (\<lambda>owned.
     bindp (model_get kube [''get'', ''pods'', ''-l'', wanted_labels, ''-o'', ''json'']) (\<lambda>pods.
     letp (bindr (iter (sub (val pods) ''items'')) (pod_names owned selector)) (\<lambda>names.
     checkp (val (int (length names) = replicas)) ''Runtime verification did not find exactly the desired Ready replicas'' (
     retp (sort names)))))))))))))"

section \<open>The effective authentication\<close>

definition login_enabled :: "json \<Rightarrow> bool res" where
  "login_enabled runtime =
     mapr (\<lambda>v. v \<noteq> JBool True) (dget0 (dgetO (val runtime) ''general_settings'') ''disable_env_credential_login'')"

definition check_admin :: "json \<Rightarrow> unit res" where
  "check_admin data =
     bindr (dget0 (val data) ''admin'') (\<lambda>admin.
     check (val (keys_are [''userIdMatches'', ''proxyAdmin'', ''emailLoginIdentityPresent'', ''independentIdentity''] admin \<and>
                 (case admin of JObj kv \<Rightarrow> list_all (\<lambda>(k, v). v = JBool True) kv | _ \<Rightarrow> False)))
       ''Verified independent password-login identity is not an available proxy admin'' (val ()))"

definition read_probe :: "bool \<Rightarrow> string \<Rightarrow> string \<Rightarrow> reply \<Rightarrow> json res" where
  "read_probe expected admin name r =
     bindr (catch_value_error (loads r) ''Runtime read-only API probe returned invalid evidence'') (\<lambda>data.
     check (conjr (val (is_dict data)) (testr is_bool (dget0 (val data) ''environmentLoginEnabled'')))
       ''Runtime read-only API probe lacks the effective authentication setting'' (
     bindr (sub (val data) ''environmentLoginEnabled'') (\<lambda>enabled.
     check (val (enabled = JBool expected)) ''Effective environment-credential login differs from mounted configuration'' (
     seqr (whenr (admin \<noteq> []) (check_admin data)) (
     val (JObj [(''pod'', JStr name), (''environmentLoginEnabled'', enabled), (''independentAdminVerified'', JBool (admin \<noteq> []))]))))))"

definition probe_pod :: "string list \<Rightarrow> bool \<Rightarrow> string \<Rightarrow> string \<Rightarrow> ('s, json) proc" where
  "probe_pod kube expected admin name =
     bindp (read_bytes PROBE) (\<lambda>source.
     bindp (model_command kube [''exec'', name, ''-c'', ''litellm'', ''--'', ''python'', ''-c'', reply_text source, admin]) (\<lambda>r.
     letp (read_probe expected admin name r) retp))"

definition effective_checks :: "string list \<Rightarrow> json \<Rightarrow> json \<Rightarrow> json \<Rightarrow> string \<Rightarrow> ('s, json list) proc" where
  "effective_checks kube current runtime wanted admin =
     letp (login_enabled runtime) (\<lambda>expected.
     bindp (ready_pods kube current wanted) (\<lambda>names.
     mapp (probe_pod kube expected admin) names))"

section \<open>Inputs and approval\<close>

definition read_patch :: "yload \<Rightarrow> ('s, reply \<times> json) proc" where
  "read_patch yload =
     thenp (protected_source ''patch'') (
     bindp (read_bytes ''patch'') (\<lambda>raw.
     letp (catch_value_error (yload (reply_text raw)) ''Runtime patch must be valid UTF-8 JSON or YAML; values are withheld'') (\<lambda>document.
     letp (parse_patch document) (\<lambda>patch. retp (raw, patch)))))"

definition SHA256_TEXT :: rx where
  "SHA256_TEXT = times 64 64 (Cls is_hex_lower)"

text \<open>The plan with the latest modification; of equal ones \<open>max\<close> keeps the first, since the name of
  every plan is \<open>plan.json\<close>.\<close>

fun latest_plan :: "(string \<times> int) list \<Rightarrow> (string \<times> int) option" where
  "latest_plan [] = None"
| "latest_plan (p # ps) =
     (case latest_plan ps of None \<Rightarrow> Some p | Some q \<Rightarrow> if snd p < snd q then Some q else Some p)"

definition listed_plan :: "json \<Rightarrow> (string \<times> int) res" where
  "listed_plan v = (case v of JList [JStr name, JInt time] \<Rightarrow> val (name, time) | _ \<Rightarrow> Inl TypeError)"

definition list_plans :: "('s, (string \<times> int) list) proc" where
  "list_plans =
     bindp (perform (Client ''list_plans'' [])) (\<lambda>r.
     letp (bindr (loads r) (\<lambda>v. bindr (list_of (val v)) (map_res listed_plan))) retp)"

definition check_plan_state :: "json \<Rightarrow> json \<Rightarrow> unit res" where
  "check_plan_state status digest =
     check (allr [val (is_dict status), eqs (dget0 (val status) ''status'') ''planned'',
                  mapr (\<lambda>h. py_eq h digest) (dget0 (val status) ''planSha256'')])
       ''Reviewed runtime plan did not finish successfully'' (val ())"

definition beside :: "string \<Rightarrow> string \<Rightarrow> string" where
  "beside path_text name = rev (dropWhile (\<lambda>c. c \<noteq> CHR ''/'') (rev path_text)) @ name"

definition read_approved :: "sha \<Rightarrow> string \<Rightarrow> string \<Rightarrow> ('s, json) proc" where
  "read_approved sha digest latest =
     thenp (protected_source latest) (
     bindp (read_bytes latest) (\<lambda>raw.
     checkp (val (sha (reply_text raw) = digest)) ''Approval must match the latest runtime configuration plan'' (
     bindp (perform (Client ''read_bytes'' [JStr latest])) (\<lambda>r.
     letp (catch_value_error (if r = Failure then Inl (ValueError ''read'') else loads r)
       ''Reviewed runtime configuration plan is unreadable'') (\<lambda>approved.
     checkp (conjr (val (is_dict approved)) (eqs (dget0 (val approved) ''operation'') ''runtime-config''))
       ''Approval is not a runtime configuration plan'' (
     bindp (read_bytes (beside latest ''state.json'')) (\<lambda>s.
     letp (bindr (loads s) (\<lambda>status. check_plan_state status (JStr digest))) (\<lambda>_. retp approved))))))))"

definition latest_approval :: "sha \<Rightarrow> json \<Rightarrow> ('s, json) proc" where
  "latest_approval sha approved_sha =
     checkp (val (case approved_sha of JStr s \<Rightarrow> rmatch SHA256_TEXT s | _ \<Rightarrow> False))
       ''Execute requires an approved runtime plan SHA-256'' (
     letp (str_of (val approved_sha)) (\<lambda>digest.
     bindp list_plans (\<lambda>plans.
     checkp (val (plans \<noteq> [])) ''No reviewed runtime configuration plan exists'' (
     case latest_plan plans of None \<Rightarrow> failp IndexError | Some (latest, time) \<Rightarrow> read_approved sha digest latest))))"

record settings_request =
  sr_operation :: string
  sr_ticket :: json
  sr_approvers :: "json list"
  sr_approved :: json
  sr_admin :: json
  sr_confirmed :: json
  sr_same_file :: bool
  sr_output :: "string list"
  sr_temp :: "string list"

record settings_inputs =
  ri_config :: json
  ri_settings :: obj
  ri_config_raw :: reply
  ri_raw :: json
  ri_patch_raw :: reply
  ri_patch :: json
  ri_authorization :: json
  ri_native :: bool
  ri_disabling :: bool
  ri_reviewed :: "json option"
  ri_output :: string

definition disables_login :: "json \<Rightarrow> bool res" where
  "disables_login settings =
     mapr (\<lambda>v. v = JBool True) (dget0 (dgetO (val settings) ''general_settings'') ''disable_env_credential_login'')"

definition admin_id_ok :: "json \<Rightarrow> bool" where
  "admin_id_ok v = (case v of JStr s \<Rightarrow> strip s \<noteq> [] \<and> s = strip s \<and> length s \<le> 256 \<and> CHR 0x00 \<notin> set s | _ \<Rightarrow> False)"

definition check_login_change :: "settings_request \<Rightarrow> bool \<Rightarrow> bool \<Rightarrow> unit res" where
  "check_login_change rq native disabled =
     (if disabled then
        check (val native) ''Disabling environment credentials requires native authentication'' (
        check (val (admin_id_ok (sr_admin rq))) ''Supply the independent proxy admin user ID before disabling environment login'' (
        check (val (sr_confirmed rq = JBool True))
          ''Confirm a successful independent password login in a fresh private browser before disabling environment login'' (val ())))
      else
        check (val (sr_admin rq = JNull \<and> sr_confirmed rq \<noteq> JBool True))
          ''Admin login confirmation applies only to an environment-login-disabled configuration'' (val ()))"

definition login_authentication :: "settings_request \<Rightarrow> json \<Rightarrow> json \<Rightarrow> (bool \<times> bool) res" where
  "login_authentication rq config patch =
     bindr (mapr (\<lambda>m. m = JStr ''native'') (dget (dgetO (sub (val config) ''application'') ''authentication'') ''mode'' (JStr ''entra''))) (\<lambda>native.
     check (val (is_bool (sr_confirmed rq))) ''Admin password-login attestation must be boolean'' (
     bindr (disables_login patch) (\<lambda>disabling.
     bindr (bindr (runtime_overrides config) disables_login) (\<lambda>configured.
     seqr (check_login_change rq native (disabling \<or> configured)) (
     check (disjr (val native) (negr (has (dgetO (val patch) ''general_settings'') ''disable_env_credential_login'')))
       ''Environment-credential login patches require native authentication'' (
     val (native, disabling)))))))"

definition under_temp :: "settings_request \<Rightarrow> bool" where
  "under_temp rq \<longleftrightarrow> take (length (sr_temp rq)) (sr_output rq) = sr_temp rq \<and> sr_output rq \<noteq> sr_temp rq"

definition approved_plan :: "sha \<Rightarrow> settings_request \<Rightarrow> ('s, json option) proc" where
  "approved_plan sha rq =
     (if sr_operation rq = ''execute''
      then bindp (latest_approval sha (sr_approved rq)) (\<lambda>d. retp (Some d)) else retp None)"

definition read_settings_inputs :: "'s tools \<Rightarrow> settings_request \<Rightarrow> ('s, settings_inputs) proc" where
  "read_settings_inputs tools rq =
     thenp (protected_source ''config'') (
     bindp (read_bytes ''config'') (\<lambda>config_raw.
     bindp (load_config (t_sha tools)) (\<lambda>(config, settings).
     letp (approvals config (sr_ticket rq) (sr_approvers rq)) (\<lambda>authorization.
     letp (loads config_raw) (\<lambda>raw.
     bindp (read_patch (t_yload tools)) (\<lambda>(patch_raw, patch).
     checkp (val (\<not> sr_same_file rq)) ''Customer configuration and runtime patch must be separate files'' (
     letp (login_authentication rq config patch) (\<lambda>(native, disabling).
     checkp (val (under_temp rq)) ''Runtime configuration output must stay under temp/'' (
     bindp (approved_plan (t_sha tools) rq) (\<lambda>approved.
     bindp (perform (Client ''operation_root'' [JStr (''runtime-config-'' @ sr_operation rq)])) (\<lambda>output.
     retp \<lparr>ri_config = config, ri_settings = settings, ri_config_raw = config_raw, ri_raw = raw, ri_patch_raw = patch_raw,
       ri_patch = patch, ri_authorization = authorization, ri_native = native, ri_disabling = disabling, ri_reviewed = approved,
       ri_output = reply_text output\<rparr>)))))))))))"

section \<open>The plan\<close>

definition SETTINGS_STATE :: string where
  "SETTINGS_STATE = ''state.json''"

record settings_plan =
  rp_plan :: json
  rp_current :: json
  rp_payload :: json
  rp_identity :: json
  rp_kube :: "string list"
  rp_revision :: string
  rp_sources :: string
  rp_desired :: json
  rp_document :: json
  rp_runtime :: json

definition settings_delta :: "json \<Rightarrow> json \<Rightarrow> json res" where
  "settings_delta runtime patch =
     bindr (items (val patch)) (\<lambda>sections.
     mapr (\<lambda>kvs. JObj (dict_update [] (concat kvs))) (map_res (\<lambda>(section_name, values).
       bindr (items (val values)) (map_res (\<lambda>(k, v).
         mapr (\<lambda>old. (section_name @ ''.'' @ k, JObj [(''before'', old), (''after'', v)]))
           (dget0 (dgetO (val runtime) section_name) k)))) sections))"

definition stale_settings_stages :: "sha \<Rightarrow> json \<Rightarrow> json \<Rightarrow> json list res" where
  "stale_settings_stages sha config desired =
     mapr (map JInt) (filter_res (\<lambda>stage.
       bindr (stage_fingerprint sha config stage) (\<lambda>a. mapr (\<lambda>b. a \<noteq> b) (stage_fingerprint sha desired stage))) [6..9])"

definition settings_plan_document ::
    "sha \<Rightarrow> settings_request \<Rightarrow> settings_inputs \<Rightarrow> string \<Rightarrow> string \<Rightarrow> json \<Rightarrow> json \<Rightarrow> json \<Rightarrow> json \<Rightarrow> json \<Rightarrow> json \<Rightarrow> json list \<Rightarrow> bool \<Rightarrow> json" where
  "settings_plan_document sha rq ri revision sources identity delta current document runtime_sha changed stale checked =
     JObj [(''schemaVersion'', JInt 1), (''operation'', JStr ''runtime-config''),
       (''customerConfigSha256'', JStr (sha (reply_text (ri_config_raw ri)))), (''patchSha256'', JStr (sha (reply_text (ri_patch_raw ri)))),
       (''sourceSha256'', JStr sources), (''revision'', JStr revision), (''approval'', ri_authorization ri),
       (''identitySha256'', JStr (fingerprint sha identity)), (''settings'', delta), (''verifiedAdminUserId'', sr_admin rq),
       (''adminPasswordLoginVerified'', sr_confirmed rq), (''baselineSha256'', JStr (fingerprint sha current)),
       (''desiredConfigSha256'', JStr (fingerprint sha document)), (''desiredRuntimeSha256'', runtime_sha),
       (''configurationChanged'', changed), (''staleStageFingerprints'', JList stale),
       (''kubernetesDryRun'', JStr (if truth changed then ''verified'' else ''not-required'')),
       (''effectiveBaselineVerified'', JBool checked),
       (''writes'', JObj [(''azureInfrastructure'', JBool False), (''models'', JBool False), (''credentials'', JBool False),
          (''immutableConfigMapAndRollout'', changed), (''customerConfig'', JBool (\<not> py_eq document (ri_raw ri)))])]"

text \<open>\<open>canonical(plan) + b"\n"\<close>, the bytes that are hashed and written.\<close>

definition plan_text :: "json \<Rightarrow> string" where
  "plan_text plan = dumps plan @ [CHR 0x0A]"

definition admin_text :: "settings_request \<Rightarrow> string" where
  "admin_text rq = (case sr_admin rq of JStr s \<Rightarrow> s | _ \<Rightarrow> [])"

definition baseline_facts :: "settings_request \<Rightarrow> settings_inputs \<Rightarrow> string list \<Rightarrow> json \<Rightarrow> ('s, json list) proc" where
  "baseline_facts rq ri kube current =
     (if ri_native ri
      then letp (sub (val current) ''runtime'') (\<lambda>runtime.
           letp (sub (val current) ''configMapName'') (\<lambda>name.
           effective_checks kube current runtime name (admin_text rq)))
      else retp [])"

definition dry_run_settings :: "string list \<Rightarrow> json \<Rightarrow> json \<Rightarrow> ('s, unit) proc" where
  "dry_run_settings kube payload current =
     letp (sub (sub (val current) ''deployment'') ''spec'') (\<lambda>spec.
     letp (sub (val current) ''volumeIndex'') (\<lambda>index. dry_run kube payload spec index))"

definition payload_text :: "json \<Rightarrow> string res" where
  "payload_text payload = str_of (sub (sub (sub (val payload) ''configMap'') ''data'') ''config.yaml'')"

text \<open>The files of a plan: \<open>plan.json\<close> first, the rollback patch only when a rollout is planned.\<close>

definition write_plan :: "ydump \<Rightarrow> settings_inputs \<Rightarrow> json \<Rightarrow> json \<Rightarrow> json \<Rightarrow> json \<Rightarrow> string \<Rightarrow> ('s, unit) proc" where
  "write_plan ydump ri plan current payload document content =
     thenp (private_write ''plan.json'' (JStr (plan_text plan))) (
     thenp (private_write ''customer-config.before.json'' (JStr (reply_text (ri_config_raw ri)))) (
     thenp (private_write ''customer-config.desired.json'' document) (
     letp (sub (val current) ''runtime'') (\<lambda>runtime.
     thenp (private_write ''runtime-config.before.yaml'' (JStr (ydump runtime))) (
     thenp (private_write ''runtime-config.desired.yaml'' (JStr content)) (
     thenp (private_write ''baseline.json'' current) (
     letp (rollback_patch current payload) (\<lambda>rollback.
     letp (sub (val payload) ''modelChanged'') (\<lambda>changed.
     whenp (truth changed) (private_write ''recovery-rollback-patch.json'' (JList rollback)))))))))))"

definition plan_settings :: "'s tools \<Rightarrow> settings_request \<Rightarrow> settings_inputs \<Rightarrow> ('s, settings_plan) proc" where
  "plan_settings tools rq ri =
     bindp reviewed_revision (\<lambda>revision.
     bindp (runtime_sources (t_sha tools)) (\<lambda>sources.
     bindp (authenticate_azure (t_claims tools) (ri_config ri) (ri_settings ri) ''deploy'') (\<lambda>_.
     bindp (identity_context (ri_config ri)) (\<lambda>identity.
     bindp (authenticate_azure (t_claims tools) (ri_config ri) (ri_settings ri) ''runtime'') (\<lambda>_.
     bindp (connect_cluster (ri_config ri) False) (\<lambda>kube.
     letp (sub (val identity) ''identity'') (\<lambda>workload.
     bindp (live_baseline (t_sha tools) (t_yload tools) (ri_config ri) workload kube) (\<lambda>current.
     letp (desired_configuration (t_sha tools) (t_ydump tools) (ri_config ri) current (ri_patch ri)) (\<lambda>(desired, payload).
     letp (bindr (sub (sub (val desired) ''application'') ''runtimeSettings'') (\<lambda>v. with_settings v (ri_raw ri))) (\<lambda>document.
     letp (payload_text payload) (\<lambda>content.
     letp (t_yload tools content) (\<lambda>runtime.
     checkp (val (\<not> ri_disabling ri \<or> ri_native ri)) ''Native authentication is required for this login change'' (
     bindp (baseline_facts rq ri kube current) (\<lambda>facts.
     thenp (dry_run_settings kube payload current) (
     letp (bindr (sub (val current) ''runtime'') (\<lambda>r. settings_delta r (ri_patch ri))) (\<lambda>delta.
     letp (sub (val payload) ''runtimeSha256'') (\<lambda>runtime_sha.
     letp (sub (val payload) ''modelChanged'') (\<lambda>changed.
     letp (stale_settings_stages (t_sha tools) (ri_config ri) desired) (\<lambda>stale.
     let plan = settings_plan_document (t_sha tools) rq ri revision sources identity delta current document runtime_sha changed stale (facts \<noteq> []) in
     thenp (write_plan (t_ydump tools) ri plan current payload document content) (
     retp \<lparr>rp_plan = plan, rp_current = current, rp_payload = payload, rp_identity = workload, rp_kube = kube, rp_revision = revision,
       rp_sources = sources, rp_desired = desired, rp_document = document, rp_runtime = runtime\<rparr>))))))))))))))))))))"

section \<open>The execution\<close>

definition SETTINGS_RECOVERY :: string where
  "SETTINGS_RECOVERY =
     ''Review state, mounted settings and the previous/desired customer documents before retrying. ''
     @ ''A partial rollout may require an independently approved config-volume rollback ''
     @ ''using recovery-rollback-patch.json with a fresh resourceVersion test. ''
     @ ''Do not delete shared ConfigMaps, rotate secrets or rewrite failed-operation evidence.''"

definition same_settings_inputs :: "settings_inputs \<Rightarrow> ('s, bool) proc" where
  "same_settings_inputs ri =
     andp (same_file_bytes ''config'' (ri_config_raw ri)) (same_file_bytes ''patch'' (ri_patch_raw ri))"

definition same_settings_sources :: "sha \<Rightarrow> settings_plan \<Rightarrow> ('s, bool) proc" where
  "same_settings_sources sha rp =
     andp (bindp (runtime_sources sha) (\<lambda>d. retp (d = rp_sources rp)))
          (bindp reviewed_revision (\<lambda>r. retp (r = rp_revision rp)))"

definition verify_effective :: "settings_request \<Rightarrow> settings_plan \<Rightarrow> ('s, unit) tracked" where
  "verify_effective rq rp =
     lett (sub (val (rp_payload rp)) ''modelChanged'') (\<lambda>changed.
     lett (if truth changed then map_name (rp_payload rp) else sub (val (rp_current rp)) ''configMapName'') (\<lambda>wanted.
     bindt (liftt (effective_checks (rp_kube rp) (rp_current rp) (rp_runtime rp) wanted (admin_text rq))) (\<lambda>facts.
     thent (liftt (private_write ''effective-authentication.json'' (JList facts)))
       (putt [(''effectiveAuthenticationVerified'', JBool True)]))))"

definition check_installed :: "sha \<Rightarrow> settings_plan \<Rightarrow> json \<Rightarrow> bool res" where
  "check_installed sha rp installed =
     allr [eqr (sub (val installed) ''serviceAccountUid'') (sub (val (rp_current rp)) ''serviceAccountUid''),
           eqr (sub (val installed) ''serviceAccountSha256'') (sub (val (rp_current rp)) ''serviceAccountSha256''),
           bindr (sub (val installed) ''runtime'') (\<lambda>r.
             mapr (\<lambda>h. py_eq (JStr (fingerprint sha r)) h) (sub (val (rp_payload rp)) ''runtimeSha256''))]"

definition install_settings :: "settings_inputs \<Rightarrow> settings_plan \<Rightarrow> ('s, unit) tracked" where
  "install_settings ri rp =
     thent (whent (\<not> py_eq (rp_document rp) (ri_raw ri)) (liftt (install_report ''config'' (rp_document rp) True))) (
     bindt (liftt (read_bytes ''config'')) (\<lambda>now.
     checkt (bindr (loads now) (\<lambda>v. val (py_eq v (rp_document rp))))
       ''Installed customer configuration does not match approved settings'' (
     thent (putt [(''status'', JStr ''completed''), (''phase'', JStr ''completed''), (''configInstalled'', JBool True)])
       (savet SETTINGS_STATE))))"

definition publish_settings :: "'s tools \<Rightarrow> settings_request \<Rightarrow> settings_inputs \<Rightarrow> settings_plan \<Rightarrow> ('s, unit) tracked" where
  "publish_settings tools rq ri rp =
     lett (sub (val (rp_payload rp)) ''modelChanged'') (\<lambda>changed.
     thent (putt [(''status'', JStr ''executing''), (''phase'', JStr ''application''), (''applicationPatchAttempted'', changed),
        (''recovery'', JStr SETTINGS_RECOVERY)]) (
     thent (savet SETTINGS_STATE) (
     thent (apply_models (t_sha tools) (t_yload tools) (rp_kube rp) (rp_payload rp) (rp_current rp) (savet SETTINGS_STATE)) (
     thent (putt [(''phase'', JStr ''effective-verification'')]) (
     thent (savet SETTINGS_STATE) (
     thent (whent (ri_native ri) (verify_effective rq rp)) (
     bindt (liftt (same_settings_inputs ri)) (\<lambda>same.
     checkt (val same) ''Runtime configuration input changed during rollout; canonical config was not installed'' (
     bindt (liftt (live_baseline (t_sha tools) (t_yload tools) (rp_desired rp) (rp_identity rp) (rp_kube rp))) (\<lambda>installed.
     checkt (check_installed (t_sha tools) rp installed)
       ''Post-rollout workload identity or runtime differs from the approved settings'' (
     thent (putt [(''phase'', JStr ''customer-config'')]) (
     thent (savet SETTINGS_STATE) (install_settings ri rp)))))))))))))"

definition approved_again :: "sha \<Rightarrow> settings_request \<Rightarrow> settings_inputs \<Rightarrow> settings_plan \<Rightarrow> bool" where
  "approved_again sha rq ri rp \<longleftrightarrow>
     (case ri_reviewed ri of None \<Rightarrow> False | Some d \<Rightarrow> py_eq d (rp_plan rp)) \<and> sr_approved rq = JStr (sha (plan_text (rp_plan rp)))"

definition execute_settings :: "'s tools \<Rightarrow> settings_request \<Rightarrow> settings_inputs \<Rightarrow> settings_plan \<Rightarrow> ('s, unit) tracked" where
  "execute_settings tools rq ri rp =
     checkt (val (approved_again (t_sha tools) rq ri rp))
       ''Fresh runtime configuration plan differs from approval; create and review a new plan'' (
     bindt (liftt (same_settings_inputs ri)) (\<lambda>same.
     checkt (val same) ''Runtime configuration inputs changed before publication'' (
     bindt (liftt (same_settings_sources (t_sha tools) rp)) (\<lambda>kept.
     checkt (val kept) ''Runtime configuration source changed before publication'' (
     bindt (liftt (live_baseline (t_sha tools) (t_yload tools) (ri_config ri) (rp_identity rp) (rp_kube rp))) (\<lambda>fresh.
     checkt (val (py_eq fresh (rp_current rp)))
       ''Workload baseline changed before publication; no application writes performed''
       (publish_settings tools rq ri rp)))))))"

section \<open>\<open>sync\<close>\<close>

definition settings_body :: "'s tools \<Rightarrow> settings_request \<Rightarrow> settings_inputs \<Rightarrow> ('s, obj) tracked" where
  "settings_body tools rq ri =
     bindt (liftt (plan_settings tools rq ri)) (\<lambda>rp.
     lett (sub (val (rp_plan rp)) ''staleStageFingerprints'') (\<lambda>stale.
     thent (putt [(''planSha256'', JStr (t_sha tools (plan_text (rp_plan rp)))), (''staleStageFingerprints'', stale)]) (
     thent (if sr_operation rq = ''plan''
       then thent (putt [(''status'', JStr ''planned''), (''phase'', JStr ''read-only'')]) (savet SETTINGS_STATE)
       else execute_settings tools rq ri rp) (
     bindt gett (\<lambda>d. rett (dict_set d ''outputDirectory'' (JStr (ri_output ri))))))))"

definition settings_record :: obj where
  "settings_record =
     [(''status'', JStr ''planning''), (''phase'', JStr ''read-only''), (''azureDeploymentPerformed'', JBool False),
      (''applicationPatchAttempted'', JBool False), (''applicationPatched'', JBool False), (''rolloutVerified'', JBool False),
      (''effectiveAuthenticationVerified'', JBool False), (''configInstalled'', JBool False), (''inferenceVerified'', JBool False)]"

definition finished :: "obj \<Rightarrow> bool" where
  "finished d \<longleftrightarrow> map_of d ''status'' \<in> {Some (JStr ''planned''), Some (JStr ''completed'')}"

definition close_settings :: "bool \<Rightarrow> obj \<Rightarrow> obj" where
  "close_settings failed d = (if finished d then d else dict_set d ''status'' (JStr ''failed''))"

definition sync_settings :: "'s tools \<Rightarrow> settings_request \<Rightarrow> ('s, obj) proc" where
  "sync_settings tools rq =
     checkp (val (sr_operation rq \<in> {''plan'', ''execute''})) ''Runtime operation must be plan or execute'' (
     bindp (read_settings_inputs tools rq) (\<lambda>ri.
     thenp (private_write SETTINGS_STATE (JObj settings_record)) (
     closed_run SETTINGS_STATE close_settings (settings_body tools rq ri) settings_record)))"

end
