(* ===== verification/Settings_Safety.thy ===== *)
theory Settings_Safety
  imports Runtime_Sync
begin

text \<open>
  What the publication of runtime settings does to the outside: nothing but inert events before a
  plan of an earlier run, with the approved hash and a finished state, was read and the run arrived
  at the same plan; and what its state file says at the end.
\<close>

section \<open>The reading phase\<close>

lemma inert_sources [inert_intros]: "only inert (runtime_sources sha)"
  unfolding runtime_sources_def by (intro only_intros only_mapp inert_intros)

lemma inert_patch [inert_intros]: "only inert (read_patch yload)"
  unfolding read_patch_def by (intro only_intros inert_intros)

lemma inert_plans [inert_intros]: "only inert list_plans"
  unfolding list_plans_def by (intro only_intros) simp

lemma inert_approved [inert_intros]: "only inert (read_approved sha digest latest)"
  unfolding read_approved_def by (intro only_intros inert_intros) simp

lemma inert_latest [inert_intros]: "only inert (latest_approval sha approved)"
  unfolding latest_approval_def
  by (intro only_intros inert_intros) (auto intro!: only_intros inert_intros split: option.splits prod.splits)

lemma inert_approved_plan [inert_intros]: "only inert (approved_plan sha rq)"
  unfolding approved_plan_def by (intro only_intros inert_intros)

lemma inert_settings_inputs [inert_intros]: "only inert (read_settings_inputs tools rq)"
  unfolding read_settings_inputs_def
  by (intro only_intros inert_intros) (auto intro!: only_intros inert_intros split: prod.splits)

lemma inert_verify [inert_intros]: "only inert (verify_deployment target_kube deployment current wanted)"
  unfolding verify_deployment_def by (intro only_intros inert_intros)

lemma inert_pods [inert_intros]: "only inert (ready_pods target_kube current wanted)"
  unfolding ready_pods_def by (intro only_intros inert_intros) simp_all

lemma inert_effective [inert_intros]: "only inert (effective_checks target_kube current runtime wanted admin)"
  unfolding effective_checks_def probe_pod_def by (intro only_intros only_mapp inert_intros) simp

lemma inert_facts [inert_intros]: "only inert (baseline_facts rq ri target_kube current)"
  unfolding baseline_facts_def by (auto intro!: only_intros inert_intros)

lemma inert_settings_dry_run [inert_intros]: "only inert (dry_run_settings target_kube payload current)"
  unfolding dry_run_settings_def by (intro only_intros inert_intros)

lemma inert_write_plan [inert_intros]: "only inert (write_plan ydump ri plan current payload document content)"
  unfolding write_plan_def by (intro only_intros inert_intros)

lemma inert_plan_settings [inert_intros]: "only inert (plan_settings tools rq ri)"
  unfolding plan_settings_def Let_def
  by (intro only_intros inert_intros only_bindp_returns)
    (auto intro!: only_intros inert_intros dest!: connect_target split: prod.splits)

section \<open>Approval\<close>

text \<open>A plan of an earlier run was read: its text has the approved hash, and its state says that
  the plan was finished.\<close>

definition seen_plan :: "sha \<Rightarrow> json \<Rightarrow> json \<Rightarrow> event list \<Rightarrow> bool" where
  "seen_plan sha approved d l \<longleftrightarrow>
     (\<exists>name raw status.
        (Client ''read_bytes'' [JStr name], raw) \<in> set l \<and> approved = JStr (sha (reply_text raw)) \<and>
        (Client ''read_bytes'' [JStr name], Json d) \<in> set l \<and>
        (Client ''read_bytes'' [JStr (beside name ''state.json'')], Json status) \<in> set l \<and>
        dget0 (val status) ''status'' = val (JStr ''planned''))"

lemma seen_plan_append: "seen_plan sha approved d l \<Longrightarrow> seen_plan sha approved d (l @ es)"
  unfolding seen_plan_def by fastforce

lemma wp_read_bytes:
  assumes "\<And>r. r \<noteq> Failure \<Longrightarrow> Q r (l @ [(Client ''read_bytes'' [JStr label], r)])"
  shows "wp (read_bytes label) Q (\<lambda>_. True) l"
  unfolding read_bytes_def by (intro wp_intros) (use assms in \<open>auto intro: wp_intros\<close>)

lemma wp_seen_read:
  "wp (read_approved sha digest latest) (\<lambda>d. seen_plan sha (JStr digest) d) (\<lambda>_. True) l"
  unfolding read_approved_def
proof (rule wp_thenp, rule wp_drop, rule wp_bindp, rule wp_read_bytes, rule wp_checkp, rule wp_bindp, rule wp_perform, rule wp_letp,
    rule wp_checkp, rule wp_bindp, rule wp_read_bytes, rule wp_letp, rule wp_retp)
  fix l' raw r approved s u
  assume d: "val (sha (reply_text raw) = digest) = val True"
    and a: "catch_value_error (if r = Failure then Inl (ValueError ''read'') else loads r)
       ''Reviewed runtime configuration plan is unreadable'' = val approved"
    and s: "bindr (loads s) (\<lambda>status. check_plan_state status (JStr digest)) = val u"
  have r: "r = Json approved" using a by (cases r) (auto split: if_splits)
  obtain status where "s = Json status" "dget0 (val status) ''status'' = val (JStr ''planned'')"
    using s by (cases s) (auto simp: check_plan_state_def check_ok py_ok eqs_def mapr_ok bindr_ok)
  then show "seen_plan sha (JStr digest) approved (((l' @ [(Client ''read_bytes'' [JStr latest], raw)]) @
      [(Client ''read_bytes'' [JStr latest], r)]) @ [(Client ''read_bytes'' [JStr (beside latest ''state.json'')], s)])"
    unfolding seen_plan_def using d r by (intro exI [where x = latest] exI [where x = raw] exI [where x = status]) auto
qed auto

lemma wp_seen_latest: "wp (latest_approval sha approved) (\<lambda>d. seen_plan sha approved d) (\<lambda>_. True) l"
  unfolding latest_approval_def
proof (rule wp_checkp, rule wp_letp, rule wp_bindp, rule wp_drop, rule wp_checkp)
  fix digest plans l'
  assume "str_of (val approved) = val digest"
  then have "approved = JStr digest" by (cases approved) auto
  then show "wp (case latest_plan plans of None \<Rightarrow> failp IndexError | Some (latest, time) \<Rightarrow> read_approved sha digest latest)
      (\<lambda>d. seen_plan sha approved d) (\<lambda>_. True) l'"
    by (auto intro!: wp_failp wp_seen_read split: option.split prod.split)
qed auto

lemma wp_approved_plan:
  "wp (approved_plan sha rq) (\<lambda>found l. \<forall>d. found = Some d \<longrightarrow> seen_plan sha (sr_approved rq) d l) (\<lambda>_. True) l"
  unfolding approved_plan_def by (intro wp_if wp_bindp wp_mono [OF wp_seen_latest] wp_retp) auto

definition inputs_approved :: "'s tools \<Rightarrow> settings_request \<Rightarrow> settings_inputs \<Rightarrow> event list \<Rightarrow> bool" where
  "inputs_approved tools rq ri l \<longleftrightarrow> (\<forall>d. ri_reviewed ri = Some d \<longrightarrow> seen_plan (t_sha tools) (sr_approved rq) d l)"

lemma wp_inputs_approved: "wp (read_settings_inputs tools rq) (inputs_approved tools rq) (\<lambda>_. True) l"
  unfolding read_settings_inputs_def
  by (rule wp_thenp, rule wp_drop, rule wp_bindp, rule wp_drop, rule wp_bindp, rule wp_drop, rule wp_prod, rule wp_letp, rule wp_letp,
    rule wp_bindp, rule wp_drop, rule wp_prod, rule wp_checkp, rule wp_letp, rule wp_prod, rule wp_checkp, rule wp_bindp,
    rule wp_mono [OF wp_approved_plan], rule wp_bindp, rule wp_perform, rule wp_retp)
    (simp_all add: inputs_approved_def seen_plan_append)

lemma plan_text_written:
  "wp (plan_settings tools rq ri)
     (\<lambda>rp l. \<exists>r. (WriteFile ''plan.json'' (JStr (plan_text (rp_plan rp))), r) \<in> set l) (\<lambda>_. True) l"
  unfolding plan_settings_def Let_def write_plan_def
  by (rule wp_intros wp_private_write TrueI wp_drop allI | (simp split: prod.split, intro allI impI))+ (auto intro!: wp_intros wp_private_write)

lemma any_effective: "only (\<lambda>_. True) (effective_checks kube current runtime wanted admin)"
  unfolding effective_checks_def ready_pods_def verify_deployment_def probe_pod_def
  by (intro only_intros only_mapp any_model_command any_autoscaler only_mono [OF inert_bytes] TrueI)

lemma any_settings_inputs:
  "only (\<lambda>_. True) (same_settings_inputs ri)" "only (\<lambda>_. True) (same_settings_sources sha rp)"
  unfolding same_settings_inputs_def same_settings_sources_def
  by (intro only_intros any_unchanged any_same only_mono [OF inert_sources] only_mono [OF inert_files(3)] TrueI)+

lemma any_publication: "onlyt (\<lambda>_. True) (execute_settings tools rq ri rp)"
  unfolding execute_settings_def publish_settings_def verify_effective_def install_settings_def
  by (intro onlyt_intros only_intros only_private_write any_settings_inputs any_baseline any_apply any_effective any_install
      only_mono [OF inert_bytes] TrueI)

text \<open>The run read an approved plan of an earlier run and wrote the same plan, with the approved hash.\<close>

definition plan_confirmed :: "sha \<Rightarrow> json \<Rightarrow> event list \<Rightarrow> bool" where
  "plan_confirmed sha approved l \<longleftrightarrow>
     (\<exists>earlier plan r. seen_plan sha approved earlier l \<and> py_eq earlier plan \<and>
        (WriteFile ''plan.json'' (JStr (plan_text plan)), r) \<in> set l \<and> approved = JStr (sha (plan_text plan)))"

lemma plan_confirmed_append: "plan_confirmed sha approved l \<Longrightarrow> plan_confirmed sha approved (l @ es)"
  unfolding plan_confirmed_def by (fastforce intro: seen_plan_append)

definition settings_safe :: "'s tools \<Rightarrow> settings_request \<Rightarrow> event list \<Rightarrow> bool" where
  "settings_safe tools rq l \<longleftrightarrow>
     list_all inert l \<or> sr_operation rq = ''execute'' \<and> plan_confirmed (t_sha tools) (sr_approved rq) l"

lemma settings_safe_write: "settings_safe tools rq l \<Longrightarrow> settings_safe tools rq (l @ [(WriteFile n c, r)])"
  by (auto simp: settings_safe_def plan_confirmed_append)

definition planned_inertly :: "'s tools \<Rightarrow> settings_request \<Rightarrow> settings_inputs \<Rightarrow> settings_plan \<Rightarrow> event list \<Rightarrow> bool" where
  "planned_inertly tools rq ri rp l \<longleftrightarrow> list_all inert l \<and> inputs_approved tools rq ri l \<and>
     (\<exists>r. (WriteFile ''plan.json'' (JStr (plan_text (rp_plan rp))), r) \<in> set l)"

lemma inputs_approved_append: "inputs_approved tools rq ri l \<Longrightarrow> inputs_approved tools rq ri (l @ es)"
  by (auto simp: inputs_approved_def seen_plan_append)

lemma wp_planned:
  assumes "list_all inert l" and "inputs_approved tools rq ri l"
  shows "wp (plan_settings tools rq ri) (planned_inertly tools rq ri) (list_all inert) l"
proof -
  have "wp (plan_settings tools rq ri) (\<lambda>_ l. list_all inert l \<and> inputs_approved tools rq ri l)
      (\<lambda>l. list_all inert l \<and> inputs_approved tools rq ri l) l"
    by (rule only_wp [OF inert_plan_settings]) (use assms in \<open>auto simp: inputs_approved_append\<close>)
  from wp_conj [OF this plan_text_written] show ?thesis
    by (rule wp_mono) (auto simp: planned_inertly_def)
qed

lemma settings_run:
  assumes "settings_safe tools rq l" and "plan_confirmed (t_sha tools) (sr_approved rq) l" and "sr_operation rq = ''execute''"
  shows "wpt (execute_settings tools rq ri rp) (\<lambda>_ _. settings_safe tools rq) (\<lambda>_. settings_safe tools rq) d l"
  by (rule wpt_mono [OF onlyt_wpt [where I = "plan_confirmed (t_sha tools) (sr_approved rq)", OF any_publication assms(2)]])
    (simp_all add: plan_confirmed_append settings_safe_def assms(3))

lemma wpt_settings_body:
  assumes op: "sr_operation rq \<in> {''plan'', ''execute''}" and l: "list_all inert l" "inputs_approved tools rq ri l"
  shows "wpt (settings_body tools rq ri) (\<lambda>_ _. settings_safe tools rq) (\<lambda>_. settings_safe tools rq) d l"
  unfolding settings_body_def
proof (rule wpt_bindt, rule wpt_liftt, rule wp_mono [OF wp_planned [OF l]])
  fix rp l'
  assume p: "planned_inertly tools rq ri rp l'"
  then have safe: "settings_safe tools rq l'" by (simp add: settings_safe_def planned_inertly_def)
  have run: "wpt (execute_settings tools rq ri rp) (\<lambda>_ _. settings_safe tools rq) (\<lambda>_. settings_safe tools rq) d' l'"
    if "sr_operation rq \<noteq> ''plan''" for d'
  proof (cases "approved_again (t_sha tools) rq ri rp")
    case True
    then have "plan_confirmed (t_sha tools) (sr_approved rq) l'"
      using p unfolding plan_confirmed_def planned_inertly_def inputs_approved_def approved_again_def
      by (fastforce split: option.splits)
    with safe that op show ?thesis by (intro settings_run) auto
  next
    case False
    then show ?thesis by (simp add: execute_settings_def checkt_def wpt_failt safe)
  qed
  show "wpt (lett (sub (val (rp_plan rp)) ''staleStageFingerprints'') (\<lambda>stale.
      thent (putt [(''planSha256'', JStr (t_sha tools (plan_text (rp_plan rp)))), (''staleStageFingerprints'', stale)]) (
      thent (if sr_operation rq = ''plan''
        then thent (putt [(''status'', JStr ''planned''), (''phase'', JStr ''read-only'')]) (savet SETTINGS_STATE)
        else execute_settings tools rq ri rp) (
      bindt gett (\<lambda>d. rett (dict_set d ''outputDirectory'' (JStr (ri_output ri))))))))
      (\<lambda>_ _. settings_safe tools rq) (\<lambda>_. settings_safe tools rq) d l'"
    unfolding savet_def
    by (intro wpt_intros wp_private_write safe settings_safe_write allI wpt_mono [OF run]) simp_all
qed (simp add: settings_safe_def)

text \<open>
  C34: the publication of runtime settings changes nothing in Azure, in the cluster or in the
  customer configuration, or it was asked to execute, it read a finished plan of an earlier run
  whose text has the approved hash, and it arrived at the same plan with the same hash.
\<close>

theorem settings_publication_is_approved:
  "settings_safe tools rq (log (snd (sync_settings tools rq sv (start s))))"
proof -
  have "wp (sync_settings tools rq) (\<lambda>_. settings_safe tools rq) (settings_safe tools rq) []"
    unfolding sync_settings_def
  proof (rule wp_checkp, rule wp_bindp)
    assume "val (sr_operation rq \<in> {''plan'', ''execute''}) = val True"
    then have op: "sr_operation rq \<in> {''plan'', ''execute''}" by simp
    have "wp (read_settings_inputs tools rq) (\<lambda>ri l. list_all inert l \<and> inputs_approved tools rq ri l) (list_all inert) []"
      by (rule wp_mono [OF wp_conj [OF only_wp [where I = "list_all inert", OF inert_settings_inputs] wp_inputs_approved]]) simp_all
    then show "wp (read_settings_inputs tools rq) (\<lambda>ri. wp (thenp (private_write SETTINGS_STATE (JObj settings_record))
        (closed_run SETTINGS_STATE close_settings (settings_body tools rq ri) settings_record))
        (\<lambda>_. settings_safe tools rq) (settings_safe tools rq)) (settings_safe tools rq) []"
      by (rule wp_mono)
        (auto intro!: wp_thenp wp_private_write wp_closed_run wpt_settings_body op settings_safe_write inputs_approved_append
          simp: settings_safe_def)
  qed (simp add: settings_safe_def)
  then have "wp (sync_settings tools rq) (\<lambda>_. settings_safe tools rq) (settings_safe tools rq) (log (start s))"
    by (simp add: start_def)
  from wp_always [OF this, of sv] show ?thesis .
qed

section \<open>The state file\<close>

definition closed_state :: "obj \<Rightarrow> bool" where
  "closed_state d \<longleftrightarrow> finished d \<or> map_of d ''status'' = Some (JStr ''failed'')"

definition state_write :: "event \<Rightarrow> bool" where
  "state_write e \<longleftrightarrow> (\<exists>d. fst e = WriteFile SETTINGS_STATE d)"

text \<open>The state file was not written yet, or its last write ends the run: a final status, or a
  write that was refused.\<close>

definition accounted :: "event list \<Rightarrow> bool" where
  "accounted l \<longleftrightarrow> list_all (Not \<circ> state_write) l \<or>
     (\<exists>before d r. l = before @ [(WriteFile SETTINGS_STATE (JObj d), r)] \<and> (closed_state d \<or> r = Failure))"

lemma closing_closes: "closed_state (close_settings failed d)"
  by (auto simp: closed_state_def close_settings_def finished_def)

lemma accounted_closed:
  "closed_state d \<Longrightarrow> accounted (l @ [(WriteFile SETTINGS_STATE (JObj d), r)])"
  "accounted (l @ [(WriteFile SETTINGS_STATE (JObj d), Failure)])"
  by (auto simp: accounted_def)

lemma finished_closes: "finished d \<Longrightarrow> closed_state d"
  by (simp add: closed_state_def)

lemma finished_same: "finished d' \<Longrightarrow> map_of d ''status'' = map_of d' ''status'' \<Longrightarrow> finished d"
  by (simp add: finished_def)

lemma closing_finished: "finished d \<Longrightarrow> close_settings failed d = d"
  by (simp add: close_settings_def)

lemma wpt_install: "wpt (install_settings ri rp) (\<lambda>_ d _. finished d) (\<lambda>_ _. True) d l"
  unfolding install_settings_def savet_def
  by (rule wpt_thent, rule wpt_drop, rule wpt_bindt, rule wpt_drop, rule wpt_checkt, rule wpt_thent, rule wpt_putt, rule wpt_bindt,
      rule wpt_gett, rule wpt_liftt, rule wp_private_write)
    (auto simp: finished_def map_of_dict_update)

lemma wpt_publish: "wpt (publish_settings tools rq ri rp) (\<lambda>_ d _. finished d) (\<lambda>_ _. True) d l"
  unfolding publish_settings_def
  by (rule wpt_lett, rule wpt_thent, rule wpt_drop, rule wpt_thent, rule wpt_drop, rule wpt_thent, rule wpt_drop, rule wpt_thent,
      rule wpt_drop, rule wpt_thent, rule wpt_drop, rule wpt_thent, rule wpt_drop, rule wpt_bindt, rule wpt_drop, rule wpt_checkt,
      rule wpt_bindt, rule wpt_drop, rule wpt_checkt, rule wpt_thent, rule wpt_drop, rule wpt_thent, rule wpt_drop, rule wpt_install)
    simp_all

lemma wpt_execute: "wpt (execute_settings tools rq ri rp) (\<lambda>_ d _. finished d) (\<lambda>_ _. True) d l"
  unfolding execute_settings_def
  by (rule wpt_checkt, rule wpt_bindt, rule wpt_drop, rule wpt_checkt, rule wpt_bindt, rule wpt_drop, rule wpt_checkt, rule wpt_bindt,
      rule wpt_drop, rule wpt_checkt, rule wpt_publish) simp_all

lemma wpt_body_finishes:
  "wpt (settings_body tools rq ri) (\<lambda>x d _. finished d \<and> map_of x ''status'' = map_of d ''status'') (\<lambda>_ _. True) d l"
  unfolding settings_body_def savet_def
  by (rule wpt_bindt, rule wpt_drop, rule wpt_lett, rule wpt_thent, rule wpt_drop, rule wpt_thent, rule wpt_if)
    (auto intro!: wpt_intros wp_private_write wpt_mono [OF wpt_execute] simp: finished_def map_of_dict_update)

lemma quiet_inputs: "only (Not \<circ> state_write) (read_settings_inputs tools rq)"
  unfolding read_settings_inputs_def protected_source_def read_bytes_def load_config_def load_config_file_def read_patch_def approved_plan_def
    latest_approval_def list_plans_def read_approved_def
  by (intro only_intros)
    (auto intro!: only_intros simp: state_write_def split: prod.splits option.splits reply.splits)

definition accounted_for :: "obj \<Rightarrow> event list \<Rightarrow> bool" where
  "accounted_for d l \<longleftrightarrow> finished d \<and> accounted l \<and>
     (\<exists>d' r. last l = (WriteFile SETTINGS_STATE (JObj d'), r) \<and> map_of d' ''status'' = map_of d ''status'')"

lemma contained_body: "contained (settings_body tools rq ri)"
  unfolding settings_body_def execute_settings_def publish_settings_def verify_effective_def install_settings_def
    apply_models_def patch_models_def
  by (intro contained_intros)

text \<open>
  C35: a publication of runtime settings that returned says that it planned or completed, and its
  last event is the write of this state; a run that raised after it wrote its state file ends with
  the write of a final state too, unless that write was refused.
\<close>

theorem settings_runs_are_accounted:
  "case sync_settings tools rq sv (start s) of
     (Inl e, w) \<Rightarrow> accounted (log w)
   | (Inr d, w) \<Rightarrow> finished d \<and> accounted (log w) \<and>
       (\<exists>d' r. last (log w) = (WriteFile SETTINGS_STATE (JObj d'), r) \<and> map_of d' ''status'' = map_of d ''status'')"
proof -
  have "wp (sync_settings tools rq) accounted_for accounted []"
    unfolding sync_settings_def
  proof (rule wp_checkp, rule wp_bindp)
    have "wp (read_settings_inputs tools rq) (\<lambda>_. list_all (Not \<circ> state_write)) (list_all (Not \<circ> state_write)) []"
      by (rule only_wp [OF quiet_inputs]) simp_all
    then show "wp (read_settings_inputs tools rq) (\<lambda>ri. wp (thenp (private_write SETTINGS_STATE (JObj settings_record))
        (closed_run SETTINGS_STATE close_settings (settings_body tools rq ri) settings_record)) accounted_for accounted) accounted []"
    proof (rule wp_mono)
      fix ri l
      assume "list_all (Not \<circ> state_write) l"
      show "wp (thenp (private_write SETTINGS_STATE (JObj settings_record))
          (closed_run SETTINGS_STATE close_settings (settings_body tools rq ri) settings_record)) accounted_for accounted l"
        unfolding private_write_def
        by (intro wp_intros wp_closed_contained [OF contained_body wpt_body_finishes])
          (auto simp: accounted_for_def accounted_closed closing_closes closing_finished finished_closes intro: finished_same)
    qed (simp add: accounted_def)
  qed (simp add: accounted_def)
  then have "wp (sync_settings tools rq) accounted_for accounted (log (start s))" by (simp add: start_def)
  from wp_run [OF this, of sv] show ?thesis
    by (simp add: accounted_for_def split: prod.splits sum.splits)
qed

end
