(* ===== verification/Diagnostics.thy ===== *)
theory Diagnostics
  imports Py_Loads Py_Regex "HOL-Library.While_Combinator" "HOL-Library.Multiset"
begin

text \<open>
  The bounded diagnostics of a failed run, from \<open>scripts/workflow_diagnostics.py\<close>: the strings of
  the JSON documents in the environment, which are the values to redact, found by a loop with a
  work list and a budget of 4096 values; the category and the text of an error, and the part of a
  command line that is named.  The redaction itself is a list of regular expressions with
  look-around and is not modelled.
\<close>

section \<open>The strings of a document\<close>

text \<open>The state of the loop: the list \<open>pending\<close>, whose end is popped, the number of inspected
  values, and the strings that were yielded so far.\<close>

record scan =
  pending :: "json list"
  inspected :: nat
  yielded :: "string list"

definition BUDGET :: nat where
  "BUDGET = 4096"

fun children :: "json \<Rightarrow> json list" where
  "children (JObj kv) = map snd kv"
| "children (JList xs) = xs"
| "children _ = []"

fun eligible_text :: "json \<Rightarrow> string list" where
  "eligible_text (JStr s) = (if 6 \<le> length s \<and> length s \<le> 1024 then [s] else [])"
| "eligible_text _ = []"

definition scan_more :: "scan \<Rightarrow> bool" where
  "scan_more st \<longleftrightarrow> pending st \<noteq> [] \<and> inspected st < BUDGET"

definition scan_step :: "scan \<Rightarrow> scan" where
  "scan_step st =
     (let item = last (pending st); seen = Suc (inspected st) in
      \<lparr>pending = butlast (pending st) @ take (BUDGET - seen) (children item), inspected = seen,
       yielded = yielded st @ eligible_text item\<rparr>)"

definition string_values :: "json \<Rightarrow> string list option" where
  "string_values v = map_option yielded (while_option scan_more scan_step \<lparr>pending = [v], inspected = 0, yielded = []\<rparr>)"

section \<open>The values to redact\<close>

definition SECRET_NAMES :: "string list" where
  "SECRET_NAMES = [''secret'', ''token'', ''password'', ''credential'', ''private_key'', ''artifact_key'']"

definition secret_name :: "string \<Rightarrow> bool" where
  "secret_name name = list_ex (\<lambda>w. is_substring w (lower name)) SECRET_NAMES"

definition json_strings :: "string \<Rightarrow> string list" where
  "json_strings text_value =
     (case loads_text text_value of Inl e \<Rightarrow> [] | Inr v \<Rightarrow> (case string_values v of None \<Rightarrow> [] | Some found \<Rightarrow> found))"

definition values_of_variable :: "string \<times> string \<Rightarrow> string list" where
  "values_of_variable = (\<lambda>(name, content).
     (if 8 \<le> length content \<and> length content \<le> 4096 \<and> secret_name name then [content] else []) @
     (if ends_with name ''_JSON'' \<and> length content \<le> 2 * 1024 * 1024 then json_strings content else []))"

text \<open>\<open>sorted(set, key=len, reverse=True)\<close>: the order of equal lengths, which Python leaves open, is
  that of the environment here.\<close>

definition sensitive_values :: "(string \<times> string) list \<Rightarrow> string list" where
  "sensitive_values environment =
     sort_key (\<lambda>s. - int (length s)) (remdups (concat (map values_of_variable environment)))"

section \<open>Errors\<close>

record error_facts =
  error_name :: string
  is_os_error :: bool
  yaml_mark :: "(int \<times> int) option"
  error_args :: "json list"
  error_number :: "int option"
  error_text :: string

definition YAML_ERRORS :: "string list" where
  "YAML_ERRORS = [''YAMLError'', ''MarkedYAMLError'', ''ParserError'', ''ScannerError'']"

definition az_command_text :: "string \<Rightarrow> bool" where
  "az_command_text s \<longleftrightarrow> starts_with s ''az '' \<and>
     (case drop 3 s of [] \<Rightarrow> False | c # r \<Rightarrow> is_lower c \<or> is_digit c \<or> c = CHR ''-'')"

definition error_code :: "error_facts \<Rightarrow> string \<Rightarrow> string" where
  "error_code e message =
     (let lowered = lower message; name = error_name e in
      if is_substring ''returned no json'' lowered \<or> is_substring ''invalid json'' lowered then ''invalid-json-response''
      else if is_substring ''azure command failed'' lowered \<or> az_command_text lowered then ''azure-command-failed''
      else if is_substring ''plan changed'' lowered \<or> is_substring ''plan changed or was not approved'' lowered then ''plan-changed''
      else if starts_with lowered ''runner checks failed'' then ''runner-checks-failed''
      else if starts_with lowered ''gateway isolation checks failed'' then ''gateway-checks-failed''
      else if is_substring ''failed:'' lowered \<and> is_substring ''exit code'' lowered then ''command-failed''
      else if name = ''JSONDecodeError'' then ''invalid-json''
      else if name = ''KeyError'' then ''missing-required-field''
      else if name \<in> {''TypeError'', ''AttributeError''} then ''unexpected-data-shape''
      else if name \<in> set YAML_ERRORS then ''invalid-yaml''
      else if is_os_error e then ''operating-system-error''
      else if ends_with name ''SubprocessError'' then ''command-execution-error''
      else if name = ''MigrationError'' then ''validation-failed'' else ''unexpected-error'')"

definition FIELD_NAME :: rx where
  "FIELD_NAME = cat [Cls (\<lambda>c. is_lower c \<or> is_upper c \<or> c = CHR ''_''),
     times 0 79 (Cls (\<lambda>c. is_alnum c \<or> c \<in> {CHR ''_'', CHR ''.'', CHR ''-''}))]"

definition missing_field :: "json list \<Rightarrow> string" where
  "missing_field arguments =
     (case arguments of
        [JStr field] \<Rightarrow> if rmatch FIELD_NAME field then ''Missing required field: '' @ field else ''A required field is missing''
      | _ \<Rightarrow> ''A required field is missing'')"

definition exception_message :: "error_facts \<Rightarrow> string \<Rightarrow> string" where
  "exception_message e fallback =
     (let name = error_name e in
      if name \<in> set YAML_ERRORS then
        (case yaml_mark e of
           Some (line, column) \<Rightarrow> ''Invalid YAML at line '' @ show_int (line + 1) @ '', column '' @ show_int (column + 1)
         | None \<Rightarrow> ''Invalid YAML input'')
      else if name = ''KeyError'' then missing_field (error_args e)
      else if is_os_error e then
        (case error_number e of Some n \<Rightarrow> name @ '' (errno '' @ show_int n @ '')'' | None \<Rightarrow> name)
      else if name \<in> {''SubprocessError'', ''CalledProcessError'', ''TimeoutExpired''}
        then name @ ''; command arguments and raw output remain private''
      else if strip (error_text e) \<noteq> [] then strip (error_text e) else fallback)"

section \<open>Commands\<close>

text \<open>\<open>Path(s).name\<close>\<close>

definition path_name :: "string \<Rightarrow> string" where
  "path_name s = (case filter (\<lambda>p. p \<noteq> [] \<and> p \<noteq> ''.'') (split_on CHR ''/'' s) of [] \<Rightarrow> [] | ps \<Rightarrow> last ps)"

definition COMMAND_WORD :: rx where
  "COMMAND_WORD = cat [Cls is_alnum, times 0 50 (Cls (\<lambda>c. is_alnum c \<or> c = CHR ''-''))]"

definition plain_word :: "string \<Rightarrow> bool" where
  "plain_word token \<longleftrightarrow> \<not> starts_with token ''-'' \<and> rmatch COMMAND_WORD token"

definition command_name :: "string list \<Rightarrow> nat \<Rightarrow> string" where
  "command_name arguments limit =
     (let tokens = (case arguments of [] \<Rightarrow> [] | a # r \<Rightarrow> path_name a # r);
          selected = take limit (takeWhile plain_word tokens)
      in if selected \<noteq> [] then join '' '' selected else ''external command'')"

section \<open>The loop ends\<close>

lemma scan_step_budget: "scan_more st \<Longrightarrow> inspected (scan_step st) \<le> BUDGET"
  by (simp add: scan_more_def scan_step_def Let_def)

lemma scan_ends: "\<exists>final. while_option scan_more scan_step st = Some final"
proof (rule measure_while_option_Some [where P = "\<lambda>_. True" and f = "\<lambda>st. BUDGET - inspected st", THEN exE])
  fix st
  assume "scan_more st"
  then show "True \<and> BUDGET - inspected (scan_step st) < BUDGET - inspected st"
    unfolding scan_more_def scan_step_def Let_def by (simp only: simp_thms scan.simps) arith
qed auto

section \<open>What the loop finds\<close>

text \<open>All values of a document, and its strings of an eligible length.\<close>

fun nodes :: "json \<Rightarrow> nat" where
  "nodes (JObj kv) = Suc (sum_list (map (\<lambda>(k, x). nodes x) kv))"
| "nodes (JList xs) = Suc (sum_list (map nodes xs))"
| "nodes _ = 1"

fun texts :: "json \<Rightarrow> string multiset" where
  "texts (JObj kv) = sum_list (map (\<lambda>(k, x). texts x) kv)"
| "texts (JList xs) = sum_list (map texts xs)"
| "texts v = mset (eligible_text v)"

lemma nodes_children: "nodes v = Suc (sum_list (map nodes (children v)))"
  by (cases v) (auto simp: comp_def split_def)

lemma texts_children: "texts v = mset (eligible_text v) + sum_list (map texts (children v))"
  by (cases v) (auto simp: comp_def split_def)

lemma length_le_nodes: "length xs \<le> sum_list (map nodes xs)"
proof (induction xs)
  case (Cons x xs)
  then show ?case using nodes_children [of x] by simp
qed simp

lemma take_all_children:
  "sum_list (map nodes (children v)) \<le> n \<Longrightarrow> take n (children v) = children v"
  using length_le_nodes [of "children v"] by simp

lemma sum_list_take_le: "sum_list (map texts (take n xs)) \<subseteq># sum_list (map texts xs)"
proof -
  have "sum_list (map texts xs) = sum_list (map texts (take n xs)) + sum_list (map texts (drop n xs))"
    by (metis append_take_drop_id map_append sum_list_append)
  then show ?thesis by simp
qed

text \<open>What is left to find, and the invariants of the loop.\<close>

definition left_to_find :: "scan \<Rightarrow> string multiset" where
  "left_to_find st = mset (yielded st) + sum_list (map texts (pending st))"

lemma sum_list_last:
  fixes f :: "'a \<Rightarrow> 'b::comm_monoid_add"
  shows "xs \<noteq> [] \<Longrightarrow> sum_list (map f xs) = sum_list (map f (butlast xs)) + f (last xs)"
  by (cases xs rule: rev_cases) simp_all

lemma step_within: "scan_more st \<Longrightarrow> left_to_find (scan_step st) \<subseteq># left_to_find st"
proof -
  assume "scan_more st"
  then have p: "sum_list (map texts (pending st)) = sum_list (map texts (butlast (pending st))) + texts (last (pending st))"
    by (simp add: sum_list_last scan_more_def)
  let ?cs = "children (last (pending st))" and ?n = "BUDGET - Suc (inspected st)"
  have "left_to_find (scan_step st) = mset (yielded st) + mset (eligible_text (last (pending st))) +
      (sum_list (map texts (butlast (pending st))) + sum_list (map texts (take ?n ?cs)))"
    by (simp add: left_to_find_def scan_step_def Let_def)
  moreover have "left_to_find st = mset (yielded st) + mset (eligible_text (last (pending st))) +
      (sum_list (map texts (butlast (pending st))) + sum_list (map texts ?cs))"
    by (simp add: left_to_find_def p texts_children [of "last (pending st)"] ac_simps)
  ultimately show ?thesis by (simp add: sum_list_take_le)
qed

definition in_budget :: "scan \<Rightarrow> bool" where
  "in_budget st \<longleftrightarrow> inspected st + sum_list (map nodes (pending st)) \<le> BUDGET"

lemma step_exact:
  assumes more: "scan_more st" and budget: "in_budget st"
  shows "left_to_find (scan_step st) = left_to_find st" and "in_budget (scan_step st)"
proof -
  let ?cs = "children (last (pending st))"
  have p: "sum_list (map nodes (pending st)) = sum_list (map nodes (butlast (pending st))) + Suc (sum_list (map nodes ?cs))"
    using more sum_list_last [of "pending st" nodes] nodes_children [of "last (pending st)"] by (simp add: scan_more_def)
  have all: "take (BUDGET - Suc (inspected st)) ?cs = ?cs"
    using budget p by (intro take_all_children) (simp add: in_budget_def)
  have step: "scan_step st = \<lparr>pending = butlast (pending st) @ ?cs, inspected = Suc (inspected st),
      yielded = yielded st @ eligible_text (last (pending st))\<rparr>"
    by (simp add: scan_step_def Let_def all)
  show "left_to_find (scan_step st) = left_to_find st"
    using more sum_list_last [of "pending st" texts] texts_children [of "last (pending st)"]
    by (simp add: step left_to_find_def scan_more_def ac_simps)
  show "in_budget (scan_step st)"
    using budget p by (simp add: step in_budget_def)
qed

lemma spent_budget: "in_budget st \<Longrightarrow> \<not> scan_more st \<Longrightarrow> pending st = []"
  using length_le_nodes [of "pending st"] by (cases "pending st") (simp_all add: in_budget_def scan_more_def)

text \<open>
  C40: the search for strings ends on every document; it yields only strings of the document of 6 to
  1024 characters, each as often as it occurs at most, and all of them when the document has at
  most 4096 values.
\<close>

theorem string_search_ends_and_is_complete:
  "\<exists>found. string_values v = Some found \<and> mset found \<subseteq># texts v \<and> (nodes v \<le> 4096 \<longrightarrow> mset found = texts v)"
proof -
  let ?s = "\<lparr>pending = [v], inspected = 0, yielded = []\<rparr>"
  obtain final where run: "while_option scan_more scan_step ?s = Some final" using scan_ends by blast
  have within: "left_to_find final \<subseteq># texts v"
    by (rule while_option_rule [where P = "\<lambda>st. left_to_find st \<subseteq># texts v", OF _ run])
      (auto simp: left_to_find_def [of ?s] intro: subset_mset.order_trans [OF step_within])
  have "mset (yielded final) = texts v" if small: "nodes v \<le> 4096"
  proof -
    have "left_to_find final = texts v \<and> in_budget final"
      by (rule while_option_rule [where P = "\<lambda>st. left_to_find st = texts v \<and> in_budget st", OF _ run])
        (use small in \<open>auto simp: step_exact left_to_find_def [of ?s] in_budget_def [of ?s] BUDGET_def\<close>)
    moreover have "\<not> scan_more final" by (rule while_option_stop [OF run])
    ultimately show ?thesis using spent_budget by (auto simp: left_to_find_def)
  qed
  with run within show ?thesis
    by (auto simp: string_values_def left_to_find_def intro: subset_mset.order_trans [of _ "left_to_find final"])
qed

theorem string_search_ends_and_is_complete_witness:
  "\<exists>found. string_values (JObj [(''a'', JList [JStr ''short'', JStr ''a longer value'']), (''b'', JStr ''secret'')]) = Some found \<and>
    mset found = {#''secret'', ''a longer value''#}"
proof -
  let ?v = "JObj [(''a'', JList [JStr ''short'', JStr ''a longer value'']), (''b'', JStr ''secret'')]"
  have "nodes ?v \<le> 4096" "texts ?v = {#''secret'', ''a longer value''#}" by simp_all
  then show ?thesis using string_search_ends_and_is_complete [of ?v] by auto
qed

end
