(* ===== verification/Receipt_Refresh.thy ===== *)
theory Receipt_Refresh
  imports Model_Safety
begin

text \<open>
  The revalidation of the native ingress receipts after a completed model synchronisation, from
  \<open>local_execution/model_sync_evidence.py\<close>: the proof that the synchronisation was completed, the
  observation of the live workload, prerequisites, ingress and edge, and the refresh, which saves
  the two receipts again once its fresh review was approved.  The output directory of the
  synchronisation is the label \<open>sync\<close> of the files that are read.
\<close>

section \<open>The proof of the synchronisation\<close>

definition sync_file :: "string \<Rightarrow> string" where
  "sync_file name = ''sync/'' @ name"

definition PROOF_FILES :: "string list" where
  "PROOF_FILES = [''model-sync-state.json'', ''model-sync-review.json'', ''previous-customer.json'', ''desired-customer.json'']"

definition read_document :: "string \<Rightarrow> ('s, json) proc" where
  "read_document label = bindp (read_bytes label) (\<lambda>r. letp (loads r) retp)"

text \<open>\<open>v.pop(k)\<close> of a string key: the value and what is left.\<close>

definition pop_key :: "string \<Rightarrow> json \<Rightarrow> (json \<times> json) res" where
  "pop_key k v =
     (case v of
        JObj kv \<Rightarrow> (case map_of kv k of None \<Rightarrow> Inl KeyError | Some x \<Rightarrow> val (x, JObj (AList.delete k kv)))
      | JList xs \<Rightarrow> Inl TypeError
      | _ \<Rightarrow> Inl AttributeError)"

definition check_proof :: "sha \<Rightarrow> json \<Rightarrow> json \<Rightarrow> json \<Rightarrow> unit res" where
  "check_proof sha state review digest =
     check (allr [val (py_eq (JStr (fingerprint sha review)) digest), eqr (val digest) (dget0 (val state) ''planSha256''),
                  eqs (dget0 (val state) ''status'') ''completed'', is_true (dget0 (val state) ''rolloutVerified'')])
       ''Receipt refresh requires genuine completed and rollout-verified model-sync proof'' (val ())"

definition expected_document :: "json \<Rightarrow> json \<Rightarrow> json res" where
  "expected_document previous current =
     bindr (sub (sub (val current) ''application'') ''models'') (\<lambda>models.
     bindr (update_in [''application''] (set_item ''models'' models) previous) (\<lambda>half.
     bindr (sub (platform_of current) ''azureOpenAIConnections'') (\<lambda>connections.
     update_in [''parameters'', ''platform''] (set_item ''azureOpenAIConnections'' connections) half)))"

definition same_delta :: "sha \<Rightarrow> json \<Rightarrow> json \<Rightarrow> json \<Rightarrow> json \<Rightarrow> bool res" where
  "same_delta sha expected current desired review =
     allr [val (py_eq expected current), val (py_eq current desired),
           eqr (val (JStr (fingerprint sha current))) (sub (val review) ''desiredConfigSha256'')]"

definition sync_proof :: "sha \<Rightarrow> ('s, json \<times> json \<times> json) proc" where
  "sync_proof sha =
     bindp (perform (Client ''is_protected_directory'' [JStr ''sync''])) (\<lambda>r.
     checkp (val (r = Json (JBool True))) ''Completed sync output must be a protected directory under temp/'' (
     thenp (eachp (\<lambda>name. protected_source (sync_file name)) PROOF_FILES) (
     bindp (read_document (sync_file ''model-sync-state.json'')) (\<lambda>state.
     bindp (read_document (sync_file ''model-sync-review.json'')) (\<lambda>signed.
     letp (pop_key ''planSha256'' signed) (\<lambda>(digest, review).
     letp (check_proof sha state review digest) (\<lambda>_.
     bindp (read_document (sync_file ''previous-customer.json'')) (\<lambda>previous.
     bindp (read_document (sync_file ''desired-customer.json'')) (\<lambda>desired.
     bindp (read_document ''config'') (\<lambda>current.
     letp (expected_document previous current) (\<lambda>expected.
     checkp (same_delta sha expected current desired review)
       (''Only the completed sync'' @ [CHR 0x27] @ ''s exact models/connections delta can be revalidated'') (
     bindp (load_config_file sha (sync_file ''previous-customer.json'')) (\<lambda>(previous_config, _).
     retp (previous_config, review, digest))))))))))))))"

definition proof_fingerprint :: "sha \<Rightarrow> ('s, string) proc" where
  "proof_fingerprint sha =
     bindp (mapp (\<lambda>name. bindp (sha_of_file sha (sync_file name)) (\<lambda>h. retp (name, JStr h))) PROOF_FILES) (\<lambda>ps.
     retp (fingerprint sha (JObj ps)))"

section \<open>Receipts\<close>

definition RECEIPTS :: "(int \<times> string \<times> string) list" where
  "RECEIPTS = [(4, ''private-ingress'', ''privateIngress''), (6, ''private-ingress-backend'', ''privateIngressBackend'')]"

definition stored_receipt :: "sha \<Rightarrow> json \<Rightarrow> int \<Rightarrow> string \<Rightarrow> string \<Rightarrow> ('s, json) proc" where
  "stored_receipt sha config stage component output =
     bindp (shown_deployment sha config stage component
              (''{state:properties.provisioningState,value:properties.outputs.'' @ output @ ''.value}'')) (\<lambda>response.
     checkp (conjr (eqs (dget0 (val response) ''state'') ''Succeeded'') (testr is_dict (dget0 (val response) ''value'')))
       ''Existing successful ingress receipts are required; initial setup is not an evidence refresh'' (
     letp (sub (val response) ''value'') retp))"

text \<open>\<open>receipt.get("configSha256") in {fingerprint before, fingerprint after}\<close>\<close>

definition binds_stage :: "sha \<Rightarrow> json \<Rightarrow> json \<Rightarrow> int \<Rightarrow> json \<Rightarrow> bool res" where
  "binds_stage sha previous config stage stored =
     bindr (dget0 (val stored) ''configSha256'') (\<lambda>h.
     bindr (stage_fingerprint sha previous stage) (\<lambda>a.
     bindr (stage_fingerprint sha config stage) (\<lambda>b. in_strs (val h) [a, b])))"

definition check_receipts :: "sha \<Rightarrow> json \<Rightarrow> json \<Rightarrow> json \<Rightarrow> json \<Rightarrow> unit res" where
  "check_receipts sha previous config ingress backend =
     check (allr [binds_stage sha previous config 4 ingress, binds_stage sha previous config 6 backend,
                  is_true (dget0 (val backend) ''backendRoutesVerified''), eqs (dget0 (val backend) ''authenticationMode'') ''native''])
       ''Receipts do not bind the before/after sync configuration; unrelated stale evidence cannot be refreshed'' (val ())"

definition check_edge_binding :: "sha \<Rightarrow> json \<Rightarrow> json \<Rightarrow> obj \<Rightarrow> json \<Rightarrow> unit res" where
  "check_edge_binding sha previous config edge binding =
     check (allr [eqs (dget0 (val binding) ''bindingMode'') ''native-private-ingress'', is_true (dget0 (val binding) ''rolloutVerified''),
                  binds_stage sha previous config 9 binding,
                  eqr (dget0 (val binding) ''frontDoorId'') (sub (val (JObj edge)) ''frontDoorId'')])
       ''An existing verified native edge binding for this before/after configuration is required'' (val ())"

section \<open>The observation\<close>

definition check_account_state ::
    "(string \<Rightarrow> string) \<Rightarrow> string list \<Rightarrow> json \<Rightarrow> json \<Rightarrow> json \<Rightarrow> ('s, unit) proc" where
  "check_account_state uuid5 kube context identity item =
     letp (sub (val item) ''account'') (\<lambda>account.
     letp (sub (sub (val item) ''parameters'') ''accountAlias'') (\<lambda>alias.
     bindp (endpoint_state account alias context) (\<lambda>endpoint.
     letp (sub (val identity) ''identity'') (\<lambda>workload.
     letp (sub (sub (val item) ''parameters'') ''principalSourceResourceId'') (\<lambda>source.
     bindp (role_state uuid5 account workload source) (\<lambda>role.
     checkp (allr [testr (Not \<circ> truth) (sub (val endpoint) ''createEndpoint''), testr (Not \<circ> truth) (sub (val endpoint) ''createDnsBinding''),
                   testr (Not \<circ> truth) (sub (val role) ''createRole'')])
       ''Current private prerequisite is missing; refresh never deploys infrastructure'' (
     letp (sub (val endpoint) ''ips'') (\<lambda>ips. network_probe kube account ips))))))))"

text \<open>\<open>runtime.apply\<close> on a record of its own, which is dropped: nothing is patched when the
  rendered configuration is the live one, and the rollout is verified.\<close>

definition reverify :: "'s tools \<Rightarrow> string list \<Rightarrow> json \<Rightarrow> json \<Rightarrow> ('s, unit) proc" where
  "reverify tools kube payload current =
     bindp (apply_models (t_sha tools) (t_yload tools) kube payload current (savet STATE_FILE) []) (\<lambda>(r, d). letp r retp)"

definition observe_workload :: "'s tools \<Rightarrow> json \<Rightarrow> json \<Rightarrow> string list \<Rightarrow> json \<Rightarrow> ('s, json) proc" where
  "observe_workload tools config sync kube identity =
     letp (sub (val identity) ''identity'') (\<lambda>workload.
     bindp (live_baseline (t_sha tools) (t_yload tools) config workload kube) (\<lambda>current.
     checkp (bindr (sub (val current) ''runtime'') (\<lambda>r.
             eqr (val (JStr (fingerprint (t_sha tools) r))) (sub (sub (val sync) ''application'') ''runtimeSha256'')))
       ''Live backend config differs from completed sync; evidence refresh blocked'' (
     letp (render_models (t_sha tools) (t_ydump tools) config current) (\<lambda>payload.
     checkp (testr (Not \<circ> truth) (sub (val payload) ''modelChanged'')) ''Evidence refresh cannot change any model configuration'' (
     thenp (reverify tools kube payload current) (retp current))))))"

definition first_image :: "json \<Rightarrow> json res" where
  "first_image deployment =
     bindr (list_of (sub_at (val deployment) [''spec'', ''template'', ''spec'', ''containers''])) (\<lambda>cs.
     case cs of [] \<Rightarrow> Inl IndexError | c # _ \<Rightarrow> sub (val c) ''image'')"

definition check_frontend :: "json \<Rightarrow> string \<Rightarrow> json \<Rightarrow> unit res" where
  "check_frontend ingress plane service =
     bindr (list_of (dget (dgetO (dgetO (val service) ''status'') ''loadBalancer'') ''ingress'' (JList []))) (\<lambda>addresses.
     check (conjr (val (length addresses = 1)) (allr
              [eqr (dget0 (val (hd addresses)) ''ip'') (sub (sub (val ingress) plane) ''privateIpAddress''),
               eqs (dget (val (hd addresses)) ''ipMode'' (JStr ''VIP'')) ''VIP'',
               testr (Not \<circ> truth) (dget0 (val (hd addresses)) ''hostname'')]))
       ''Live ingress frontend differs from receipt'' (val ()))"

definition observe_plane ::
    "'s tools \<Rightarrow> json \<Rightarrow> string list \<Rightarrow> string \<Rightarrow> json \<Rightarrow> json \<Rightarrow> json \<Rightarrow> string \<Rightarrow> ('s, string \<times> json) proc" where
  "observe_plane tools config kube identifier binding cluster ingress plane =
     bindp (ingress_documents (plane_client kube plane) plane) (\<lambda>(config_map, deployment, service).
     letp (native_ingress_document_state (t_sha tools) (t_yload tools) config config_map deployment service (Some identifier) plane) (\<lambda>state.
     checkp (eqr (val (JObj state)) (dget0 (dgetO (val binding) ''planes'') plane))
       ''Ingress differs from the previously verified binding; model-only receipt refresh cannot approve ingress changes'' (
     checkp (eqr (first_image deployment) (dget0 (val ingress) ''image'')) ''Live ingress image differs from original verified receipt'' (
     letp (check_frontend ingress plane service) (\<lambda>_.
     letp (sub (val cluster) ''nodeResourceGroup'') (\<lambda>node_group.
     letp (sub (val ingress) plane) (\<lambda>known.
     letp (sub (val known) ''privateIpAddress'') (\<lambda>address.
     bindp (frontend_for config node_group address) (\<lambda>frontend.
     checkp (val (py_eq frontend known)) ''Live Standard LB/subnet frontend differs from receipt'' (
     retp (plane, JObj state)))))))))))"

definition show_node_group :: "json \<Rightarrow> ('s, json) proc" where
  "show_node_group config =
     letp (str_of (target_group config)) (\<lambda>rgroup.
     letp (str_of (sub_at (val config) [''parameters'', ''platform'', ''stage4Aks'', ''name''])) (\<lambda>name.
     az_scoped config [''aks'', ''show'', ''--resource-group'', rgroup, ''--name'', name, ''--query'',
       ''{nodeResourceGroup:nodeResourceGroup}'']))"

definition observe_prerequisites :: "'s tools \<Rightarrow> json \<Rightarrow> json \<Rightarrow> string list \<Rightarrow> json \<Rightarrow> ('s, unit) proc" where
  "observe_prerequisites tools config sync kube identity =
     bindp (network_context config) (\<lambda>context.
     checkp (testr truth (sub (val context) ''links'')) ''Private DNS link is missing'' (
     letp (iter (sub (sub (val sync) ''infrastructure'') ''accounts'')) (\<lambda>accounts.
     eachp (check_account_state (t_uuid5 tools) kube context identity) accounts)))"

definition revalidation_record :: "string \<Rightarrow> json \<Rightarrow> json \<Rightarrow> json \<Rightarrow> json \<Rightarrow> json res" where
  "revalidation_record revision authorization sync current planes =
     bindr (sub (val sync) ''completedSyncPlanSha256'') (\<lambda>completed.
     bindr (sub (val current) ''deploymentSpecSha256'') (\<lambda>spec.
     bindr (sub (val current) ''configMapSha256'') (\<lambda>config_map.
     val (JObj [(''operation'', JStr ''model-sync-evidence''), (''revision'', JStr revision), (''approval'', authorization),
       (''completedSyncPlanSha256'', completed), (''backendSpecSha256'', spec), (''backendConfigSha256'', config_map),
       (''planes'', planes), (''inferenceVerified'', JBool False), (''stageAccepted'', JBool False)]))))"

definition desired_ingress :: "sha \<Rightarrow> json \<Rightarrow> string \<Rightarrow> json \<Rightarrow> json \<Rightarrow> json res" where
  "desired_ingress sha config revision revalidation ingress =
     bindr (items (val ingress)) (\<lambda>kv.
     bindr (stage_fingerprint sha config 4) (\<lambda>h.
     val (JObj (dict_update (AList.delete ''verifiedAt'' kv)
       [(''revision'', JStr revision), (''configSha256'', JStr h), (''revalidation'', revalidation)]))))"

definition desired_backend :: "sha \<Rightarrow> json \<Rightarrow> string \<Rightarrow> json \<Rightarrow> json \<Rightarrow> json res" where
  "desired_backend sha config revision revalidation ingress =
     bindr (stage_fingerprint sha config 6) (\<lambda>h.
     val (JObj [(''revision'', JStr revision), (''configSha256'', JStr h), (''privateIngressSha256'', JStr (fingerprint sha ingress)),
       (''authenticationMode'', JStr ''native''), (''backendRoutesVerified'', JBool True), (''revalidation'', revalidation)]))"

record refresh_observation =
  ob_identity :: json
  ob_backend :: json
  ob_edge :: obj
  ob_binding :: json
  ob_planes :: obj
  ob_before :: obj
  ob_after :: obj

definition observed_document :: "refresh_observation \<Rightarrow> json" where
  "observed_document ob =
     JObj [(''identity'', ob_identity ob), (''backend'', ob_backend ob), (''edge'', JObj (ob_edge ob)), (''binding'', ob_binding ob),
       (''planes'', JObj (ob_planes ob)), (''before'', JObj (ob_before ob)), (''after'', JObj (ob_after ob))]"

definition observe :: "'s tools \<Rightarrow> json \<Rightarrow> json \<Rightarrow> json \<Rightarrow> string \<Rightarrow> json \<Rightarrow> string list \<Rightarrow> ('s, refresh_observation) proc" where
  "observe tools config previous sync revision authorization kube =
     checkp (eqs (get_at (val config) [''application'', ''authentication'', ''mode'']) ''native'')
       ''Focused evidence refresh currently supports native private ingress only; Entra needs separate approved revalidation'' (
     bindp (identity_context config) (\<lambda>identity.
     bindp (observe_workload tools config sync kube identity) (\<lambda>current.
     thenp (observe_prerequisites tools config sync kube identity) (
     bindp (stored_receipt (t_sha tools) config 4 ''private-ingress'' ''privateIngress'') (\<lambda>ingress.
     bindp (stored_receipt (t_sha tools) config 6 ''private-ingress-backend'' ''privateIngressBackend'') (\<lambda>backend.
     letp (check_receipts (t_sha tools) previous config ingress backend) (\<lambda>_.
     bindp (Edge_Binding.deployed_edge (t_sha tools) config) (\<lambda>edge.
     bindp (stored_receipt (t_sha tools) config 9 ''edge-bind'' ''edgeBinding'') (\<lambda>binding.
     letp (check_edge_binding (t_sha tools) previous config edge binding) (\<lambda>_.
     bindp (show_node_group config) (\<lambda>cluster.
     letp (str_of (sub (val (JObj edge)) ''frontDoorId'')) (\<lambda>identifier.
     bindp (mapp (observe_plane tools config kube identifier binding cluster ingress) [''api'', ''admin'']) (\<lambda>planes.
     bindp (verify_native_ingress_routes config ingress (Some identifier)) (\<lambda>_.
     letp (revalidation_record revision authorization sync current (JObj planes)) (\<lambda>revalidation.
     letp (desired_ingress (t_sha tools) config revision revalidation ingress) (\<lambda>after_ingress.
     letp (desired_backend (t_sha tools) config revision revalidation after_ingress) (\<lambda>after_backend.
     retp \<lparr>ob_identity = identity, ob_backend = current, ob_edge = edge, ob_binding = binding, ob_planes = planes,
       ob_before = [(''privateIngress'', ingress), (''privateIngressBackend'', backend)],
       ob_after = [(''privateIngress'', after_ingress), (''privateIngressBackend'', after_backend)]\<rparr>)))))))))))))))))"

section \<open>\<open>refresh\<close>\<close>

definition EVIDENCE_STATE :: string where
  "EVIDENCE_STATE = ''evidence-state.json''"

record refresh_request =
  rr_operation :: string
  rr_approved :: string
  rr_ticket :: json
  rr_approvers :: "json list"

record refresh_inputs =
  rf_config :: json
  rf_settings :: obj
  rf_previous :: json
  rf_sync :: json
  rf_revision :: string
  rf_sources :: json
  rf_authorization :: json
  rf_config_sha :: string
  rf_proof_sha :: string
  rf_output :: string

definition read_refresh_inputs :: "'s tools \<Rightarrow> refresh_request \<Rightarrow> ('s, refresh_inputs) proc" where
  "read_refresh_inputs tools rq =
     thenp (protected_source ''config'') (
     bindp (load_config (t_sha tools)) (\<lambda>(config, settings).
     bindp (sync_proof (t_sha tools)) (\<lambda>(previous, review, digest).
     letp (set_item ''completedSyncPlanSha256'' digest review) (\<lambda>sync.
     bindp reviewed_revision (\<lambda>revision.
     bindp (source_fingerprints (t_sha tools)) (\<lambda>sources.
     letp (approvals config (rr_ticket rq) (rr_approvers rq)) (\<lambda>authorization.
     bindp (sha_of_file (t_sha tools) ''config'') (\<lambda>config_sha.
     bindp (proof_fingerprint (t_sha tools)) (\<lambda>proof_sha.
     bindp (perform (Client ''operation_root'' [JStr (''revalidate-'' @ rr_operation rq)])) (\<lambda>output.
     retp \<lparr>rf_config = config, rf_settings = settings, rf_previous = previous, rf_sync = sync, rf_revision = revision,
       rf_sources = sources, rf_authorization = authorization, rf_config_sha = config_sha, rf_proof_sha = proof_sha,
       rf_output = reply_text output\<rparr>))))))))))"

definition output_entry :: "string \<times> json \<Rightarrow> string \<times> json" where
  "output_entry = (\<lambda>(output, value). (output, outputs_template output (case value of JObj kv \<Rightarrow> kv | _ \<Rightarrow> [])))"

definition receipt_file :: "string \<Rightarrow> string" where
  "receipt_file output = output @ ''.json''"

definition evidence_review :: "refresh_inputs \<Rightarrow> refresh_observation \<Rightarrow> json" where
  "evidence_review ri ob =
     JObj [(''revision'', JStr (rf_revision ri)), (''sources'', rf_sources ri), (''configInputSha256'', JStr (rf_config_sha ri)),
       (''syncProofSha256'', JStr (rf_proof_sha ri)), (''approval'', rf_authorization ri), (''observed'', observed_document ob),
       (''templates'', JObj (map output_entry (ob_after ob)))]"

definition plan_refresh :: "'s tools \<Rightarrow> refresh_inputs \<Rightarrow> ('s, string list \<times> refresh_observation) tracked" where
  "plan_refresh tools ri =
     bindt (liftt (authenticate_azure (t_claims tools) (rf_config ri) (rf_settings ri) ''runtime'')) (\<lambda>_.
     bindt (liftt (connect_cluster (rf_config ri) False)) (\<lambda>kube.
     bindt (liftt (observe tools (rf_config ri) (rf_previous ri) (rf_sync ri) (rf_revision ri) (rf_authorization ri) kube)) (\<lambda>ob.
     thent (liftt (eachp (\<lambda>(output, document). private_write (receipt_file output) document) (map output_entry (ob_after ob)))) (
     let review = evidence_review ri ob in
     thent (liftt (private_write ''evidence-review.json'' (with_digest (t_sha tools) review))) (
     thent (putt [(''status'', JStr ''planned''), (''planSha256'', JStr (fingerprint (t_sha tools) review)),
        (''noOp'', JBool (py_eq (JObj (ob_before ob)) (JObj (ob_after ob))))]) (
     rett (kube, ob)))))))"

definition same_refresh_inputs :: "sha \<Rightarrow> refresh_inputs \<Rightarrow> ('s, bool) proc" where
  "same_refresh_inputs sha ri =
     andp (bindp (sha_of_file sha ''config'') (\<lambda>h. retp (h = rf_config_sha ri))) (
     andp (bindp (source_fingerprints sha) (\<lambda>d. retp (py_eq d (rf_sources ri))))
          (bindp reviewed_revision (\<lambda>r. retp (r = rf_revision ri))))"

definition unchanged_plane :: "'s tools \<Rightarrow> json \<Rightarrow> refresh_observation \<Rightarrow> string list \<Rightarrow> string \<Rightarrow> ('s, unit) proc" where
  "unchanged_plane tools config ob kube plane =
     bindp (ingress_documents (plane_client kube plane) plane) (\<lambda>(config_map, deployment, service).
     letp (str_of (sub (val (JObj (ob_edge ob))) ''frontDoorId'')) (\<lambda>identifier.
     letp (native_ingress_document_state (t_sha tools) (t_yload tools) config config_map deployment service (Some identifier) plane) (\<lambda>state.
     checkp (eqr (val (JObj state)) (sub (val (JObj (ob_planes ob))) plane))
       ''Ingress changed during revalidation; no receipt writes performed'' (retp ()))))"

definition unchanged_workloads :: "'s tools \<Rightarrow> json \<Rightarrow> refresh_observation \<Rightarrow> string list \<Rightarrow> ('s, unit) proc" where
  "unchanged_workloads tools config ob kube =
     letp (sub (val (ob_identity ob)) ''identity'') (\<lambda>workload.
     bindp (live_baseline (t_sha tools) (t_yload tools) config workload kube) (\<lambda>now.
     checkp (val (py_eq now (ob_backend ob))) ''Backend changed during revalidation; no receipt writes performed'' (
     eachp (unchanged_plane tools config ob kube) [''api'', ''admin''])))"

definition deploy_receipt :: "sha \<Rightarrow> json \<Rightarrow> int \<Rightarrow> string \<Rightarrow> string \<Rightarrow> ('s, unit) proc" where
  "deploy_receipt sha config stage component output =
     letp (str_of (target_group config)) (\<lambda>rgroup.
     letp (deployment_name sha config stage component) (\<lambda>name.
     bindp (az_scoped config [''deployment'', ''group'', ''create'', ''--resource-group'', rgroup, ''--name'', name,
              ''--mode'', ''Incremental'', ''--template-file'', receipt_file output]) (\<lambda>saved.
     checkp (eqs (get_at (val saved) [''properties'', ''provisioningState'']) ''Succeeded'')
       ''Saving freshly verified evidence failed; inspect receiptsWritten before replanning'' (retp ()))))"

definition refresh_receipt :: "sha \<Rightarrow> json \<Rightarrow> refresh_observation \<Rightarrow> int \<times> string \<times> string \<Rightarrow> ('s, unit) tracked" where
  "refresh_receipt sha config ob =
     (\<lambda>(stage, component, output).
     bindt (liftt (stored_receipt sha config stage component output)) (\<lambda>live.
     lett (sub (val (JObj (ob_before ob))) output) (\<lambda>before.
     checkt (val (py_eq live before)) ''Ingress receipt drifted after approval; replan'' (
     lett (sub (val (JObj (ob_after ob))) output) (\<lambda>wanted.
     whent (\<not> py_eq before wanted) (
       thent (changet ''receiptsAttempted'' (JList []) (append_to (JStr output))) (
       thent (savet EVIDENCE_STATE) (
       thent (liftt (deploy_receipt sha config stage component output)) (
       bindt (liftt (stored_receipt sha config stage component output)) (\<lambda>saved.
       checkt (val (py_eq saved wanted)) ''Saved evidence does not match exact approved fresh verification''
         (changet ''receiptsWritten'' (JList []) (append_to (JStr output)))))))))))))"

definition execute_refresh :: "'s tools \<Rightarrow> refresh_inputs \<Rightarrow> string list \<Rightarrow> refresh_observation \<Rightarrow> ('s, unit) tracked" where
  "execute_refresh tools ri kube ob =
     bindt (liftt (same_refresh_inputs (t_sha tools) ri)) (\<lambda>same.
     checkt (val same) ''Inputs changed during evidence revalidation; no receipt writes performed'' (
     bindt (liftt (proof_fingerprint (t_sha tools))) (\<lambda>now.
     checkt (val (rf_proof_sha ri = now)) ''Sync proof changed during revalidation; no receipt writes performed'' (
     thent (liftt (unchanged_workloads tools (rf_config ri) ob kube)) (
     bindt (liftt (authenticate_azure (t_claims tools) (rf_config ri) (rf_settings ri) ''deploy'')) (\<lambda>_.
     thent (putt [(''status'', JStr ''executing'')]) (
     thent (eacht (refresh_receipt (t_sha tools) (rf_config ri) ob) RECEIPTS) (
     putt [(''status'', JStr ''completed'')]))))))))"

definition refresh_body :: "'s tools \<Rightarrow> refresh_request \<Rightarrow> refresh_inputs \<Rightarrow> ('s, obj) tracked" where
  "refresh_body tools rq ri =
     bindt (plan_refresh tools ri) (\<lambda>(kube, ob).
     thent (whent (rr_operation rq \<noteq> ''plan'') (
       checkt (val (rr_approved rq = fingerprint (t_sha tools) (evidence_review ri ob)))
         ''Fresh evidence revalidation differs from approval; no receipt writes performed''
         (execute_refresh tools ri kube ob))) gett)"

definition refresh_record :: "refresh_inputs \<Rightarrow> obj" where
  "refresh_record ri =
     [(''status'', JStr ''planning''), (''receiptsAttempted'', JList []), (''receiptsWritten'', JList []),
      (''inferenceVerified'', JBool False), (''stageAccepted'', JBool False), (''outputDirectory'', JStr (rf_output ri))]"

definition refresh_receipts :: "'s tools \<Rightarrow> refresh_request \<Rightarrow> ('s, obj) proc" where
  "refresh_receipts tools rq =
     checkp (val (rr_operation rq \<in> {''plan'', ''execute''})) ''Operation must be plan or execute'' (
     bindp (read_refresh_inputs tools rq) (\<lambda>ri.
     closed_run EVIDENCE_STATE mark_failed (refresh_body tools rq ri) (refresh_record ri)))"

end
