(* ===== verification/Receipt_Safety.thy ===== *)
theory Receipt_Safety
  imports Receipt_Refresh
begin

text \<open>
  What a refresh of the receipts does to the outside: it changes no workload and no file of the
  user, it deploys nothing but the two receipts, and it saves these only in an \<open>execute\<close> run
  whose approved hash is the one of the review that this very run wrote.
\<close>

section \<open>The observation changes nothing\<close>

lemma inert_scoped [inert_intros]:
  assumes "last (az_words (arguments @ [''--subscription''])) \<noteq> ''create''"
  shows "only inert (az_scoped_with e config arguments)"
proof (rule only_az_scoped)
  fix s r
  show "inert (az_command (arguments @ [''--subscription'', s]), r)"
    using keeping_subscription [OF assms, of s r] by (simp add: az_command_def inert_command)
qed simp

lemma inert_shows [inert_intros]:
  "only inert (shown_deployment sha config stage component projection)" "only inert (show_deployment sha config component projection)"
  "only inert (deployed_resource config i v)" "only inert (show_node_group config)"
  unfolding shown_deployment_def show_deployment_def deployment_outputs_def deployed_resource_def show_node_group_def
  by (intro only_intros inert_intros; simp add: words_eval)+

lemma inert_stored [inert_intros]: "only inert (stored_receipt sha config stage part name)"
  unfolding stored_receipt_def by (intro only_intros inert_intros)

lemma inert_probe_plane [inert_intros]: "only inert (probe_plane config edge p)"
  unfolding probe_plane_def probe_enabled_route_def by (intro only_intros) simp

lemma inert_edge [inert_intros]: "only inert (Edge_Binding.deployed_edge sha config)"
  unfolding Edge_Binding.deployed_edge_def Let_def validate_private_edge_resources_def endpoint_properties_def
    Edge_Binding.check_route_def check_origin_plane_def check_domain_def
  by (intro only_intros inert_intros)

lemma inert_documents [inert_intros]: "only inert (ingress_documents (plane_client target_kube plane) plane)"
  unfolding ingress_documents_def kube_get_def
  by (intro only_intros only_kube_run) (simp_all add: inert_def cluster_change_def plane_client_def target_kube_def Let_def)

lemma inert_frontend [inert_intros]: "only inert (frontend_for config node_group address)"
  unfolding frontend_for_def Let_def by (intro only_intros inert_intros) (simp add: words_eval)

lemma inert_endpoint_probe [inert_intros]: "only inert (verify_endpoint address host other_host sha256 native plane identifier)"
  unfolding verify_endpoint_def send_probe_def
  by (intro only_intros) (auto intro!: only_intros split: reply.splits json.splits list.splits)

lemma inert_routes [inert_intros]: "only inert (verify_native_ingress_routes config ingress identifier)"
  unfolding verify_native_ingress_routes_def verify_plane_def by (intro only_intros inert_intros)

lemma inert_account_state [inert_intros]: "only inert (check_account_state uuid5 target_kube context identity item)"
  unfolding check_account_state_def by (intro only_intros inert_intros)

lemma inert_reverify:
  assumes "testr (Not \<circ> truth) (sub (val payload) ''modelChanged'') = val True"
  shows "only inert (reverify tools target_kube payload current)"
proof -
  obtain v where v: "sub (val payload) ''modelChanged'' = val v" "\<not> truth v"
    using assms by (auto simp: testr_def mapr_ok)
  have "onlyt inert (apply_models (t_sha tools) (t_yload tools) target_kube payload current (savet STATE_FILE))"
    unfolding apply_models_def by (simp add: v lett_def [of "val v"] whent_def) (intro onlyt_intros inert_rollout)
  then show ?thesis
    unfolding reverify_def by (intro only_intros) (auto dest: onlytD intro!: only_intros split: prod.splits)
qed

lemma inert_workload [inert_intros]: "only inert (observe_workload tools config sync target_kube identity)"
  unfolding observe_workload_def by (intro only_intros inert_intros inert_reverify)

lemma inert_prerequisites [inert_intros]: "only inert (observe_prerequisites tools config sync target_kube identity)"
  unfolding observe_prerequisites_def by (intro only_intros inert_intros)

lemma inert_plane [inert_intros]: "only inert (observe_plane tools config target_kube identifier binding cluster ingress plane)"
  unfolding observe_plane_def by (intro only_intros inert_intros)

lemma inert_observe [inert_intros]: "only inert (observe tools config previous sync revision authorization target_kube)"
  unfolding observe_def by (intro only_intros inert_intros)

lemma inert_proof [inert_intros]: "only inert (sync_proof sha)" "only inert (proof_fingerprint sha)"
  unfolding sync_proof_def proof_fingerprint_def read_document_def by (intro only_intros inert_intros; simp)+

lemma inert_refresh_inputs [inert_intros]: "only inert (read_refresh_inputs tools rq)"
  unfolding read_refresh_inputs_def by (intro only_intros inert_intros) simp_all

lemma inert_plan_refresh: "onlyt inert (plan_refresh tools ri)"
  unfolding plan_refresh_def Let_def
  by (intro onlyt_intros inert_intros onlyt_returns)
    (auto intro!: onlyt_intros inert_intros only_intros dest!: connect_target split: prod.splits)

section \<open>The receipts\<close>

text \<open>The deployment of one of the two receipt templates.\<close>

definition saves_receipt :: "event \<Rightarrow> bool" where
  "saves_receipt e =
     (case fst e of
        Command (tool # arguments) \<Rightarrow>
          tool = ''az'' \<and> take 3 arguments = [''deployment'', ''group'', ''create''] \<and> 10 < length arguments \<and>
          arguments ! 9 = ''--template-file'' \<and> arguments ! 10 \<in> set (map (\<lambda>(_, _, output). receipt_file output) RECEIPTS)
      | _ \<Rightarrow> False)"

definition receipt_only :: "event \<Rightarrow> bool" where
  "receipt_only e \<longleftrightarrow> inert e \<or> saves_receipt e"

lemma inert_receipt_only: "only inert p \<Longrightarrow> only receipt_only p"
  by (erule only_mono) (simp add: receipt_only_def)

lemma deploys_receipt:
  assumes "(stage, part, name) \<in> set RECEIPTS"
  shows "only receipt_only (deploy_receipt sha config stage part name)"
  unfolding deploy_receipt_def
  by (intro only_intros only_az_scoped) (use assms in \<open>auto simp: receipt_only_def saves_receipt_def az_command_def RECEIPTS_def\<close>)

lemma refreshes_receipt:
  assumes "x \<in> set RECEIPTS"
  shows "onlyt receipt_only (refresh_receipt sha config ob x)"
proof -
  obtain stage part name where x: "x = (stage, part, name)" by (cases x)
  show ?thesis
    unfolding refresh_receipt_def x prod.case
    by (intro onlyt_intros deploys_receipt inert_receipt_only inert_intros) (use assms x in \<open>simp_all add: receipt_only_def\<close>)
qed


lemma onlyt_eacht_in: "(\<And>x. x \<in> set xs \<Longrightarrow> onlyt P (f x)) \<Longrightarrow> onlyt P (eacht f xs)"
  by (induction xs) (auto intro: onlyt_intros)

lemma inert_same_inputs [inert_intros]: "only inert (same_refresh_inputs sha ri)"
  unfolding same_refresh_inputs_def andp_def by (intro only_intros inert_intros)

lemma inert_unchanged [inert_intros]: "only inert (unchanged_workloads tools config ob target_kube)"
  unfolding unchanged_workloads_def unchanged_plane_def by (intro only_intros inert_intros)

lemma executes_receipts: "onlyt receipt_only (execute_refresh tools ri target_kube ob)"
  unfolding execute_refresh_def
  by (intro onlyt_intros onlyt_eacht_in refreshes_receipt inert_receipt_only inert_intros)

section \<open>Approval\<close>

text \<open>The review that was written has the approved hash.\<close>

definition reviewed_refresh :: "sha \<Rightarrow> string \<Rightarrow> event list \<Rightarrow> bool" where
  "reviewed_refresh sha approved l \<longleftrightarrow>
     (\<exists>review r. (WriteFile ''evidence-review.json'' (with_digest sha review), r) \<in> set l \<and> approved = fingerprint sha review)"

lemma reviewed_refresh_append: "reviewed_refresh sha approved l \<Longrightarrow> reviewed_refresh sha approved (l @ es)"
  by (auto simp: reviewed_refresh_def)

definition review_written :: "sha \<Rightarrow> json \<Rightarrow> event list \<Rightarrow> bool" where
  "review_written sha review l \<longleftrightarrow> (\<exists>r. (WriteFile ''evidence-review.json'' (with_digest sha review), r) \<in> set l)"

lemma wp_connected: "wp (connect_cluster config False) (\<lambda>kube _. kube = target_kube) (\<lambda>_. True) l"
  by (rule wp_mono [OF wp_returns [OF wp_drop [where Q = "\<lambda>_ _. True"]]]) (auto dest: connect_target)

lemma refresh_is_reviewed:
  "wpt (plan_refresh tools ri)
     (\<lambda>(kube, ob) d l. kube = target_kube \<and> review_written (t_sha tools) (evidence_review ri ob) l) (\<lambda>_ _. True) d l"
  unfolding plan_refresh_def Let_def
  by (rule wpt_bindt, rule wpt_drop, rule wpt_bindt, rule wpt_liftt, rule wp_mono [OF wp_connected], rule wpt_bindt, rule wpt_drop,
      rule wpt_thent, rule wpt_drop, rule wpt_thent, rule wpt_liftt, rule wp_private_write, rule wpt_thent, rule wpt_putt, rule wpt_rett)
    (auto simp: review_written_def)

definition refresh_safe :: "'s tools \<Rightarrow> refresh_request \<Rightarrow> event list \<Rightarrow> bool" where
  "refresh_safe tools rq l \<longleftrightarrow>
     list_all receipt_only l \<and>
     (list_all inert l \<or> rr_operation rq = ''execute'' \<and> reviewed_refresh (t_sha tools) (rr_approved rq) l)"

lemma refresh_safe_inert: "list_all inert l \<Longrightarrow> refresh_safe tools rq l"
  by (auto simp: refresh_safe_def receipt_only_def list_all_iff)

lemma refresh_safe_write: "refresh_safe tools rq l \<Longrightarrow> refresh_safe tools rq (l @ [(WriteFile n c, r)])"
  by (auto simp: refresh_safe_def reviewed_refresh_append receipt_only_def)

lemma quiet_plan: "list_all inert l \<Longrightarrow> wpt (plan_refresh tools ri) (\<lambda>_ _. list_all inert) (\<lambda>_. list_all inert) d l"
  by (rule onlyt_wpt [OF inert_plan_refresh]) simp_all

lemma wpt_refresh:
  assumes op: "rr_operation rq \<in> {''plan'', ''execute''}" and l: "list_all inert l"
  shows "wpt (refresh_body tools rq ri) (\<lambda>_ _. refresh_safe tools rq) (\<lambda>_. refresh_safe tools rq) d l"
  unfolding refresh_body_def
proof (rule wpt_bindt, rule wpt_mono [OF wpt_conj [OF quiet_plan [OF l] refresh_is_reviewed]], goal_cases)
  case (1 p d' l')
  obtain kube ob where p: "p = (kube, ob)" by (cases p)
  with 1 have k: "kube = target_kube" and quiet: "list_all inert l'" and w: "review_written (t_sha tools) (evidence_review ri ob) l'"
    by simp_all
  have run: "wpt (execute_refresh tools ri target_kube ob) (\<lambda>_ _. refresh_safe tools rq) (\<lambda>_. refresh_safe tools rq) d' l'"
    if "rr_operation rq \<noteq> ''plan''" and "val (rr_approved rq = fingerprint (t_sha tools) (evidence_review ri ob)) = val True"
  proof -
    have "refresh_safe tools rq l' \<and> reviewed_refresh (t_sha tools) (rr_approved rq) l'"
      using w that by (auto simp: refresh_safe_inert quiet review_written_def reviewed_refresh_def)
    then show ?thesis
      by (intro wpt_mono [OF onlyt_wpt [where I = "\<lambda>l. refresh_safe tools rq l \<and> reviewed_refresh (t_sha tools) (rr_approved rq) l",
          OF executes_receipts]]) (use op that in \<open>auto simp: refresh_safe_def reviewed_refresh_append\<close>)
  qed
  show ?case
    unfolding p k prod.case
    by (rule wpt_thent, rule wpt_whent, rule wpt_checkt, rule wpt_mono [OF run])
      (auto intro: refresh_safe_inert quiet wpt_gett)
qed (simp add: refresh_safe_inert)

text \<open>
  C36: a refresh of the ingress receipts changes nothing but the two receipts: every event of the
  run is inert or deploys one of the two receipt templates.  It changes nothing at all, unless
  the run is an \<open>execute\<close> run and its approved hash is the one of the review document that this
  very run wrote.
\<close>

theorem receipt_refresh_is_approved:
  "list_all receipt_only (log (snd (refresh_receipts tools rq sv (start s)))) \<and>
   (list_all inert (log (snd (refresh_receipts tools rq sv (start s)))) \<or>
    rr_operation rq = ''execute'' \<and> reviewed_refresh (t_sha tools) (rr_approved rq) (log (snd (refresh_receipts tools rq sv (start s)))))"
proof -
  have "wp (refresh_receipts tools rq) (\<lambda>_. refresh_safe tools rq) (refresh_safe tools rq) []"
    unfolding refresh_receipts_def
    by (rule wp_checkp, rule wp_bindp, rule wp_mono [OF only_wp [where I = "list_all inert", OF inert_refresh_inputs]],
        simp_all add: refresh_safe_inert)
      (rule wp_closed_run [OF wpt_refresh]; simp add: refresh_safe_write)
  then have "wp (refresh_receipts tools rq) (\<lambda>_. refresh_safe tools rq) (refresh_safe tools rq) (log (start s))"
    by (simp add: start_def)
  from wp_always [OF this, of sv] show ?thesis by (simp add: refresh_safe_def)
qed

end
