(* ===== verification/Release_Report.thy ===== *)
theory Release_Report
  imports Receipt_Safety
begin

text \<open>
  The live-verified report of a native canary of dev or test, from
  \<open>local_execution/release_report.py\<close>: the comparison of the deployed edge with the configuration,
  the report, which has to pass the checks of a release, and the run, which installs the report in
  the place the configuration names.
\<close>

section \<open>The report\<close>

definition REPORT_FIELDS :: "(string \<times> json) list" where
  "REPORT_FIELDS = [(''logAnalyticsWorkspaceName'', JNull), (''rateLimitPerMinute'', JInt 600), (''adminRateLimitPerMinute'', JInt 120)]"

definition check_deployed_field :: "json \<Rightarrow> json \<Rightarrow> string \<times> json \<Rightarrow> unit res" where
  "check_deployed_field actual parameters =
     (\<lambda>(name, default).
     check (eqr (dget0 (dgetO (val actual) name) ''value'') (dget (val parameters) name default))
       (''Deployed '' @ name @ '' differs from the current configuration'') (val ()))"

definition native_audited :: "json \<Rightarrow> bool res" where
  "native_audited config =
     conjr (eqs (get_at (val config) [''application'', ''authentication'', ''mode'']) ''native'') (has (val config) ''contentAudit'')"

definition report_document :: "sha \<Rightarrow> json \<Rightarrow> json \<Rightarrow> obj \<Rightarrow> json \<Rightarrow> json \<Rightarrow> json \<Rightarrow> json res" where
  "report_document sha config parameters live revision ticket approvers =
     bindr (has (val config) ''observability'') (\<lambda>telemetry.
     bindr (sub (val config) ''environment'') (\<lambda>environment.
     bindr (sub (val config) ''baseDomain'') (\<lambda>domain.
     bindr (sub (val (JObj live)) ''privateOrigin'') (\<lambda>api.
     bindr (sub (val (JObj live)) ''adminPrivateOrigin'') (\<lambda>admin.
     bindr (sub (val (JObj live)) ''frontDoorId'') (\<lambda>front_door.
     bindr (sub (val parameters) ''adminAllowedCidrs'') (\<lambda>networks.
     bindr (sub (val parameters) ''logAnalyticsWorkspaceName'') (\<lambda>workspace.
     bindr (dget (val parameters) ''rateLimitPerMinute'' (JInt 600)) (\<lambda>rate.
     bindr (dget (val parameters) ''adminRateLimitPerMinute'' (JInt 120)) (\<lambda>admin_rate.
     bindr (stage_fingerprint sha config 9) (\<lambda>config_sha.
     bindr (has (val config) ''l3Audit'') (\<lambda>l3.
     val (JObj ([(''phase'', JStr ''canary''), (''authenticationMode'', JStr ''native''), (''auditMode'', JStr ''native''),
       (''telemetryEnabled'', JBool telemetry), (''environmentName'', environment), (''baseDomain'', domain),
       (''privateOrigin'', api), (''adminPrivateOrigin'', admin), (''frontDoorId'', front_door),
       (''adminAllowedCidrs'', networks), (''logAnalyticsWorkspaceName'', workspace), (''rateLimitPerMinute'', rate),
       (''adminRateLimitPerMinute'', admin_rate), (''wafMode'', JStr ''Detection''), (''changeTicket'', ticket),
       (''approvedBy'', approvers), (''revision'', revision), (''configSha256'', JStr config_sha)]
       @ (if l3 then [(''optionalL3Enabled'', JBool True)] else [])))))))))))))))"

definition required_count :: "string \<Rightarrow> nat" where
  "required_count mode = (if mode = ''single-operator'' then 1 else 2)"

definition approved_report :: "json \<Rightarrow> int \<Rightarrow> json list \<Rightarrow> json \<Rightarrow> unit res" where
  "approved_report config now approvers rdoc =
     bindr (approval_policy config) (\<lambda>(mode, eligible).
     check (val (length approvers = required_count mode)) ''Approval count differs from the configured policy'' (
     validate_release rdoc now (required_count mode) eligible))"

definition generate_report :: "'s tools \<Rightarrow> json \<Rightarrow> obj \<Rightarrow> json \<Rightarrow> json \<Rightarrow> json list \<Rightarrow> ('s, json) proc" where
  "generate_report tools config settings revision ticket approvers =
     checkp (in_strs (sub (val config) ''environment'') [''dev'', ''test'']) ''Report generation is limited to dev/test canary'' (
     checkp (native_audited config) ''Report generation requires native authentication and native audit'' (
     checkp (is_true (sub (sub (val (JObj settings)) ''features'') ''allowTrafficRelease''))
       ''Review and apply approved-release configuration before generating the report'' (
     bindp (resolve_origin (t_sha tools) config ''edge'') (\<lambda>resolved.
     bindp (Edge_Binding.deployed_edge (t_sha tools) resolved) (\<lambda>live.
     letp (sub_at (val resolved) [''parameters'', ''edge'']) (\<lambda>parameters.
     bindp (show_deployment (t_sha tools) config ''edge'' ''{state:properties.provisioningState,parameters:properties.parameters}'') (\<lambda>deployment.
     checkp (eqs (dget0 (val deployment) ''state'') ''Succeeded'') ''Edge deployment must be Succeeded'' (
     letp (dgetO (val deployment) ''parameters'') (\<lambda>actual.
     letp (each (check_deployed_field actual parameters) REPORT_FIELDS) (\<lambda>_.
     letp (report_document (t_sha tools) config parameters live revision ticket (JList approvers)) (\<lambda>rdoc.
     letp (approved_report config (t_micros tools) approvers rdoc) (\<lambda>_. retp rdoc))))))))))))"

section \<open>The run\<close>

text \<open>The place of the report: neither a link nor outside of \<open>temp/\<close>, and a regular file when it is there.\<close>

definition report_path :: "obj \<Rightarrow> ('s, string) proc" where
  "report_path settings =
     letp (dget0 (val (JObj settings)) ''releaseReportPath'') (\<lambda>configured.
     checkp (val (is_str configured \<and> truth configured)) ''Configure localExecution.releaseReportPath'' (
     letp (str_of (val configured)) (\<lambda>supplied.
     bindp (perform (Client ''is_symlink'' [JStr supplied])) (\<lambda>linked.
     checkp (val (linked \<noteq> Json (JBool True))) ''Release report cannot be a symlink'' (
     bindp (perform (Client ''is_under_temp'' [JStr supplied])) (\<lambda>under.
     checkp (val (under = Json (JBool True))) ''Release report must stay under ignored temp/'' (
     bindp (perform (Client ''exists'' [JStr supplied])) (\<lambda>there.
     bindp (perform (Client ''is_file'' [JStr supplied])) (\<lambda>regular.
     checkp (val (there \<noteq> Json (JBool True) \<or> regular = Json (JBool True))) ''Release report must be a regular file'' (
     retp supplied))))))))))"

record report_request =
  rt_ticket :: json
  rt_approvers :: "json list"
  rt_replace :: bool

definition same_report_inputs :: "sha \<Rightarrow> string \<Rightarrow> json \<Rightarrow> obj \<Rightarrow> ('s, bool) proc" where
  "same_report_inputs sha revision config settings =
     andp (bindp reviewed_revision (\<lambda>r. retp (r = revision)))
          (bindp (load_config sha) (\<lambda>(c, s). retp (py_eq c config \<and> py_eq (JObj s) (JObj settings))))"

definition report_run :: "'s tools \<Rightarrow> report_request \<Rightarrow> ('s, json) proc" where
  "report_run tools rq =
     bindp (load_config (t_sha tools)) (\<lambda>(config, settings).
     bindp (report_path settings) (\<lambda>target.
     bindp (perform (Client ''exists'' [JStr target])) (\<lambda>there.
     checkp (val (rt_replace rq \<or> there \<noteq> Json (JBool True))) ''Report exists; review it before using --replace'' (
     bindp reviewed_revision (\<lambda>revision.
     bindp (perform (Client ''operation_root'' [JStr ''stage9-release-report''])) (\<lambda>output.
     bindp (authenticate_azure (t_claims tools) config settings ''deploy'') (\<lambda>_.
     bindp (generate_report tools config settings (JStr revision) (rt_ticket rq) (rt_approvers rq)) (\<lambda>rdoc.
     bindp (same_report_inputs (t_sha tools) revision config settings) (\<lambda>same.
     checkp (val same) ''Code or configuration changed during report generation; retry'' (
     thenp (install_report target rdoc (rt_replace rq)) (
     letp (sub (val rdoc) ''configSha256'') (\<lambda>config_sha.
     retp (JObj [(''releaseReportPath'', JStr target), (''outputDirectory'', JStr (reply_text output)), (''revision'', JStr revision),
       (''stageConfigSha256'', config_sha), (''deploymentPerformed'', JBool False),
       (''trafficReleasePerformed'', JBool False)])))))))))))))"

section \<open>What is installed\<close>

text \<open>A report of the canary of a loaded configuration, which passes the checks of a release with the
  approvers of the request, and is bound to the fingerprint of the configuration.\<close>

definition release_accepted :: "'s tools \<Rightarrow> report_request \<Rightarrow> json \<Rightarrow> bool" where
  "release_accepted tools rq rdoc \<longleftrightarrow>
     (\<exists>document config settings config_sha.
        load_document (t_sha tools) document = val (config, settings) \<and> native_audited config = val True \<and>
        in_strs (sub (val config) ''environment'') [''dev'', ''test''] = val True \<and>
        approved_report config (t_micros tools) (rt_approvers rq) rdoc = val () \<and>
        stage_fingerprint (t_sha tools) config 9 = val config_sha \<and>
        dget0 (val rdoc) ''configSha256'' = val (JStr config_sha) \<and> dget0 (val rdoc) ''phase'' = val (JStr ''canary'') \<and>
        dget0 (val rdoc) ''approvedBy'' = val (JList (rt_approvers rq)))"

definition installs_accepted :: "'s tools \<Rightarrow> report_request \<Rightarrow> event \<Rightarrow> bool" where
  "installs_accepted tools rq e \<longleftrightarrow>
     (\<exists>operation target rdoc. fst e = Client operation [JStr target, rdoc] \<and> release_accepted tools rq rdoc)"

lemma inert_resolve [inert_intros]: "only inert (resolve_origin sha config component)"
  unfolding resolve_origin_def resolve_audit_def resolve_edge_def resolve_origin_component_def Let_def
  by (intro only_intros inert_intros; simp add: words_eval)

lemma inert_generate [inert_intros]: "only inert (generate_report tools config settings revision ticket approvers)"
  unfolding generate_report_def by (intro only_intros inert_intros)

lemma inert_report_path [inert_intros]: "only inert (report_path settings)"
  unfolding report_path_def by (intro only_intros) simp_all

lemma inert_same_report [inert_intros]: "only inert (same_report_inputs sha revision config settings)"
  unfolding same_report_inputs_def andp_def by (intro only_intros inert_intros)

lemma loaded_config: "returns (load_config sha) (config, settings) \<Longrightarrow> \<exists>document. load_document sha document = val (config, settings)"
  unfolding load_config_def load_config_file_def
  by (auto dest!: returns_bindpD simp: letp_def split: reply.splits sum.splits)

lemma document_fields:
  assumes "report_document sha config parameters live revision ticket approvers = val rdoc"
  shows "\<exists>h. stage_fingerprint sha config 9 = val h \<and> dget0 (val rdoc) ''configSha256'' = val (JStr h) \<and>
    dget0 (val rdoc) ''phase'' = val (JStr ''canary'') \<and> dget0 (val rdoc) ''approvedBy'' = val approvers"
  using assms by (auto simp: report_document_def bindr_ok lookup_or_def)

lemma generated_report:
  assumes "returns (generate_report tools config settings revision ticket approvers) rdoc"
  shows "native_audited config = val True \<and> in_strs (sub (val config) ''environment'') [''dev'', ''test''] = val True \<and>
    approved_report config (t_micros tools) approvers rdoc = val () \<and>
    (\<exists>parameters live. report_document (t_sha tools) config parameters live revision ticket (JList approvers) = val rdoc)"
  using assms unfolding generate_report_def by (auto dest!: returns_bindpD; blast)

lemma generated_is_accepted:
  assumes "returns (load_config (t_sha tools)) (config, settings)"
    and "returns (generate_report tools config settings revision ticket (rt_approvers rq)) rdoc"
  shows "release_accepted tools rq rdoc"
  using loaded_config [OF assms(1)] generated_report [OF assms(2)] document_fields
  unfolding release_accepted_def by blast

lemma installs_report:
  assumes "release_accepted tools rq rdoc"
  shows "only (\<lambda>e. inert e \<or> installs_accepted tools rq e) (install_report target rdoc replaces)"
proof -
  have r: "only (\<lambda>e. inert e \<or> installs_accepted tools rq e) p" if "only inert p" for p :: "('b, 'c) proc"
    using that by (rule only_mono) simp
  show ?thesis
    unfolding install_report_def
    by (intro only_intros r inert_intros only_private_write) (use assms in \<open>auto simp: installs_accepted_def\<close>)
qed

text \<open>
  C37: a run of the report changes nothing in Azure or a cluster, and the only file it installs is a
  report that passes the checks of a release with the approvers of the request, for a native
  dev or test canary of a configuration that was loaded, with the fingerprint of this configuration.
\<close>

theorem installed_reports_are_accepted:
  "list_all (\<lambda>e. inert e \<or> installs_accepted tools rq e) (log (snd (report_run tools rq sv (start s))))"
proof -
  let ?P = "\<lambda>e. inert e \<or> installs_accepted tools rq e"
  have r: "only ?P p" if "only inert p" for p :: "('b, 'c) proc"
    using that by (rule only_mono) simp
  have rest: "only ?P (thenp (install_report target rdoc replaces) k)"
    if "release_accepted tools rq rdoc" "only inert k" for target rdoc replaces and k :: "('a, json) proc"
    by (intro only_thenp installs_report r that)
  have "only ?P (report_run tools rq)"
    unfolding report_run_def
  proof (rule only_bindp_returns [OF r [OF inert_load(2)]], clarsimp split: prod.split, goal_cases)
    case (1 config settings)
    show ?case
      by (intro only_bindp only_checkp only_bindp_returns [where m = "generate_report tools config settings _ _ _"] r inert_intros rest
          generated_is_accepted [OF 1]) (auto intro!: r inert_intros only_intros)
  qed
  then show ?thesis using only_run_log [of ?P "report_run tools rq" sv "start s"] by (simp add: run_log_def start_def)
qed

end
