(* ===== verification/Protocol_Update.thy ===== *)
theory Protocol_Update
  imports Release_Report
begin

text \<open>
  The update of the method rules of the API firewall of a native gateway, from
  \<open>local_execution/api_wss.py\<close> with the rules of \<open>scripts/api_protocol.py\<close>: the reviewed rules, the
  desired policy as a function of the live one, the check of the What-if changes, and the run,
  which deploys the policy once the plan was approved and then reads it back.
\<close>

section \<open>The reviewed method rules\<close>

definition get_condition :: json where
  "get_condition = JObj [(''matchVariable'', JStr ''RequestMethod''), (''operator'', JStr ''Equal''), (''matchValue'', strs [''GET''])]"

definition RESPONSES_URI :: string where
  "RESPONSES_URI = ''^(https://[^/?#]+)?/(v1/)?responses('' @ [CHR 0x5C] @ ''?.*)?$''"

definition UPGRADE_TOKEN :: string where
  "UPGRADE_TOKEN = ''(^|[, '' @ [CHR 0x5C] @ ''t])upgrade([, '' @ [CHR 0x5C] @ ''t]|$)''"

definition negated :: "string \<Rightarrow> string option \<Rightarrow> string \<Rightarrow> string list \<Rightarrow> bool \<Rightarrow> json" where
  "negated variable selector operator matched lowered =
     JObj ([(''matchVariable'', JStr variable)] @ (case selector of None \<Rightarrow> [] | Some s \<Rightarrow> [(''selector'', JStr s)])
       @ [(''operator'', JStr operator), (''negateCondition'', JBool True), (''matchValue'', strs matched)]
       @ (if lowered then [(''transforms'', strs [''Lowercase''])] else []))"

definition block_rule :: "string \<times> int \<times> json list \<Rightarrow> json" where
  "block_rule = (\<lambda>(name, priority, conditions).
     JObj [(''name'', JStr name), (''priority'', JInt priority), (''enabledState'', JStr ''Enabled''), (''ruleType'', JStr ''MatchRule''),
       (''action'', JStr ''Block''), (''matchConditions'', JList conditions)])"

definition api_method_rules :: "json list" where
  "api_method_rules = map block_rule
     [(''BlockUnsupportedApiMethods'', 10, [negated ''RequestMethod'' None ''Equal'' [''POST'', ''GET''] False]),
      (''BlockNonResponsesGet'', 11, [get_condition, negated ''RequestUri'' None ''RegEx'' [RESPONSES_URI] False]),
      (''BlockInvalidWebSocketUpgrade'', 12, [get_condition, negated ''RequestHeader'' (Some ''Upgrade'') ''Equal'' [''websocket''] True]),
      (''BlockInvalidWebSocketConnection'', 13, [get_condition, negated ''RequestHeader'' (Some ''Connection'') ''RegEx'' [UPGRADE_TOKEN] True])]"

definition legacy_method_rules :: "json list" where
  "legacy_method_rules =
     [block_rule (''BlockNonPost'', 10, [negated ''RequestMethod'' None ''Equal'' [''POST''] False])]"

section \<open>Normalized rules\<close>

text \<open>\<open>if k in d and p(d[k]): d.pop(k)\<close>\<close>

definition drop_if :: "string \<Rightarrow> (json \<Rightarrow> bool) \<Rightarrow> obj \<Rightarrow> obj" where
  "drop_if k p kv = (case map_of kv k of None \<Rightarrow> kv | Some v \<Rightarrow> if p v then AList.delete k kv else kv)"

definition normalized_condition :: "json \<Rightarrow> json res" where
  "normalized_condition condition =
     bindr (items (val condition)) (\<lambda>kv.
     val (JObj (drop_if ''selector'' (\<lambda>v. v = JNull \<or> v = JStr [])
       (drop_if ''transforms'' (\<lambda>v. v = JList []) (drop_if ''negateCondition'' (\<lambda>v. v = JBool False) kv)))))"

definition normalized_rule :: "json \<Rightarrow> json res" where
  "normalized_rule rule =
     bindr (items (val rule)) (\<lambda>kv.
     let own = (if lookup_or kv ''ruleType'' JNull = JStr ''MatchRule''
                then drop_if ''groupBy'' (\<lambda>v. v = JList []) (drop_if ''rateLimitThreshold'' (\<lambda>v. v = JNull)
                       (drop_if ''rateLimitDurationInMinutes'' (\<lambda>v. v = JNull) kv))
                else kv);
         conditions = lookup_or own ''matchConditions'' (JList []) in
     bindr (iter (val conditions)) (\<lambda>cs.
     bindr (map_res normalized_condition cs) (\<lambda>cs'.
     val (JObj (if is_list conditions \<and> cs \<noteq> [] then dict_set own ''matchConditions'' (JList cs') else own)))))"

section \<open>The desired policy\<close>

definition WAF_API :: string where
  "WAF_API = ''2024-02-01''"

definition known_properties :: "json \<Rightarrow> bool res" where
  "known_properties properties =
     bindr (iter (val properties)) (\<lambda>ks. if list_all hashable ks then val (set ks \<subseteq> JStr ` set WAF_PROPERTIES) else Inl TypeError)"

definition is_rate_rule :: "json \<Rightarrow> bool res" where
  "is_rate_rule rule = eqs (dget0 (val rule) ''name'') ''RateLimitApi''"

definition check_api_rate :: "json list \<Rightarrow> unit res" where
  "check_api_rate rate =
     check (conjr (val (length rate = 1)) (allr
       [eqr (dget0 (val (hd rate)) ''priority'') (val (JInt 20)), eqs (dget0 (val (hd rate)) ''action'') ''Block'',
        eqs (dget0 (val (hd rate)) ''enabledState'') ''Enabled'', eqs (dget0 (val (hd rate)) ''ruleType'') ''RateLimitRule'',
        eqr (dget0 (val (hd rate)) ''rateLimitDurationInMinutes'') (val (JInt 1))]))
       ''API rate-limit rule is missing, disabled or reordered'' (val ())"

definition check_policy :: "json \<Rightarrow> unit res" where
  "check_policy properties =
     bindr (dgetO (val properties) ''policySettings'') (\<lambda>policy.
     check (conjr (eqs (dget0 (val policy) ''enabledState'') ''Enabled'')
              (in_strs (dget0 (val policy) ''mode'') [''Detection'', ''Prevention'']))
       ''API WAF must be enabled with a reviewed mode'' (val ()))"

definition reviewed_methods :: "json list \<Rightarrow> bool" where
  "reviewed_methods methods \<longleftrightarrow> py_eq (JList methods) (JList legacy_method_rules) \<or> py_eq (JList methods) (JList api_method_rules)"

definition rate_rule_of :: "json \<Rightarrow> json res" where
  "rate_rule_of properties =
     bindr (dget (dgetO (val properties) ''customRules'') ''rules'' (JList [])) (\<lambda>listed.
     check (val (is_list listed \<and> truth listed)) ''API WAF custom rules are missing'' (
     bindr (list_of (val listed)) (\<lambda>rules.
     bindr (filter_res is_rate_rule rules) (\<lambda>rate.
     seqr (check_api_rate rate) (
     bindr (filter_res (\<lambda>r. negr (is_rate_rule r)) rules) (\<lambda>others.
     bindr (map_res normalized_rule others) (\<lambda>methods.
     check (val (reviewed_methods methods)) ''API method rules differ from the reviewed baseline'' (val (hd rate)))))))))"

definition with_rules :: "json \<Rightarrow> json list \<Rightarrow> obj res" where
  "with_rules properties rules =
     bindr (sub (val properties) ''policySettings'') (\<lambda>policy.
     bindr (sub (val properties) ''customRules'') (\<lambda>custom.
     bindr (sub (val properties) ''managedRules'') (\<lambda>managed.
     bindr (set_item ''rules'' (JList rules) custom) (\<lambda>changed.
     val [(''policySettings'', policy), (''customRules'', changed), (''managedRules'', managed)]))))"

text \<open>\<open>s.rsplit("/", 1)[1]\<close>\<close>

definition last_segment :: "string \<Rightarrow> string res" where
  "last_segment s = (case last_split ''/'' s of None \<Rightarrow> Inl IndexError | Some a \<Rightarrow> val (drop (Suc (length a)) s))"

definition desired_waf :: "json \<Rightarrow> string \<Rightarrow> obj res" where
  "desired_waf live identifier =
     check (mapr (\<lambda>i. lower i = lower identifier) (str_of (dget (val live) ''id'' (JStr [])))) ''API WAF scope mismatch'' (
     bindr (dget0 (val live) ''sku'') (\<lambda>sku.
     check (conjr (val (is_dict sku)) (eqs (dget0 (val sku) ''name'') ''Premium_AzureFrontDoor''))
       ''API WAF must retain the reviewed Premium_AzureFrontDoor SKU'' (
     bindr (dgetO (val live) ''properties'') (\<lambda>properties.
     check (known_properties properties) ''Unknown API WAF properties; review before updating'' (
     check (eqs (dget0 (val properties) ''provisioningState'') ''Succeeded'') ''API WAF is not in a stable state'' (
     seqr (check_policy properties) (
     bindr (rate_rule_of properties) (\<lambda>rate.
     bindr (with_rules properties (api_method_rules @ [rate])) (\<lambda>desired.
     bindr (last_segment identifier) (\<lambda>name.
     bindr (sub (val live) ''location'') (\<lambda>location.
     bindr (sub (val sku) ''name'') (\<lambda>sku_name.
     bindr (has (val live) ''tags'') (\<lambda>tagged.
     bindr (if tagged then mapr (\<lambda>t. [(''tags'', t)]) (sub (val live) ''tags'') else val []) (\<lambda>tags.
     val ([(''type'', JStr WAF_TYPE), (''apiVersion'', JStr WAF_API), (''name'', JStr name), (''location'', location),
           (''sku'', JObj [(''name'', sku_name)]), (''properties'', JObj desired)] @ tags)))))))))))))))"

section \<open>The changes\<close>

definition METHOD_RULES :: string where
  "METHOD_RULES = ''properties.customRules.rules''"

definition check_protocol_change :: "string \<Rightarrow> json \<Rightarrow> unit res" where
  "check_protocol_change identifier change =
     bindr (in_strs (dget0 (val change) ''changeType'') [''Ignore'', ''NoChange'']) (\<lambda>unaffected.
     if unaffected then val ()
     else
     check (conjr (eqs (dget0 (val change) ''changeType'') ''Modify'')
              (mapr (\<lambda>i. lower i = lower identifier) (str_of (dget (val change) ''resourceId'' (JStr [])))))
       ''WSS update may modify only the existing API WAF'' (
     bindr (bindr (dget0 (val change) ''delta'') (\<lambda>deltas. map_res (\<lambda>leaf. leaf) (leaf_deltas [] deltas))) (\<lambda>leaves.
     check (val (leaves \<noteq> [] \<and> list_all (\<lambda>leaf. leaf = METHOD_RULES \<or> starts_with leaf (METHOD_RULES @ ''['')) leaves))
       ''WSS update may change only API custom method rules'' (val ()))))"

definition assert_protocol_changes :: "json list \<Rightarrow> string \<Rightarrow> unit res" where
  "assert_protocol_changes changes identifier = each (check_protocol_change identifier) changes"

section \<open>\<open>update\<close>\<close>

definition WSS_SUMMARY :: string where
  "WSS_SUMMARY = ''wss-summary.json''"

record protocol_request =
  pr_operation :: string
  pr_approved :: string
  pr_ticket :: json
  pr_approvers :: "json list"

record protocol_plan =
  pp_config :: json
  pp_settings :: obj
  pp_revision :: string
  pp_edge :: obj
  pp_association_id :: string
  pp_association :: json
  pp_identifier :: string
  pp_live :: json
  pp_desired :: obj
  pp_arguments :: "string list"
  pp_plan :: obj
  pp_summary :: obj

definition policy_identifier :: "json \<Rightarrow> obj \<Rightarrow> json \<Rightarrow> string res" where
  "policy_identifier config edge association =
     bindr (str_of (dget (dgetO (dgetO (dgetO (val association) ''properties'') ''parameters'') ''wafPolicy'') ''id'' (JStr []))) (\<lambda>identifier.
     bindr (group_id config False) (\<lambda>g.
     let prefix = g @ ''/providers/'' @ WAF_TYPE @ ''/'' in
     check (conjr (val (starts_with (lower identifier) (lower prefix) \<and> CHR ''/'' \<notin> set (drop (length prefix) identifier)))
              (mapr (\<lambda>w. lower identifier \<noteq> lower w) (str_of (sub (val (JObj edge)) ''adminWafId''))))
       ''API WAF must be separate and in the target group'' (val identifier)))"

definition check_desired :: "json \<Rightarrow> json \<Rightarrow> obj \<Rightarrow> unit res" where
  "check_desired config approval desired =
     check (eqr (sub_at (val (JObj desired)) [''properties'', ''policySettings'', ''mode'']) (sub (val approval) ''wafMode''))
       ''Live API WAF mode differs from the approved canary report'' (
     bindr (list_of (sub_at (val (JObj desired)) [''properties'', ''customRules'', ''rules''])) (\<lambda>rules.
     check (eqr (dget0 (val (last rules)) ''rateLimitThreshold'')
              (dget (sub_at (val config) [''parameters'', ''edge'']) ''rateLimitPerMinute'' (JInt 600)))
       ''Live API rate limit differs from the approved configuration'' (val ())))"

definition protocol_template :: "obj \<Rightarrow> json" where
  "protocol_template desired =
     JObj [(''$schema'', JStr ''https://schema.management.azure.com/schemas/2019-04-01/deploymentTemplate.json#''),
       (''contentVersion'', JStr ''1.0.0.0''), (''resources'', JList [JObj desired])]"

definition protocol_arguments :: "json \<Rightarrow> string list res" where
  "protocol_arguments config =
     bindr (str_of (target_group config)) (\<lambda>g.
     bindr (fmt (sub (val config) ''environment'')) (\<lambda>env.
     val [''--resource-group'', g, ''--name'', ''llmgw-'' @ env @ ''-s9-api-wss'', ''--template-file'', ''api-wss-template.json'']))"

definition reviewed_changes :: "string \<Rightarrow> json \<Rightarrow> json list res" where
  "reviewed_changes identifier what_if =
     check (conjr (eqs (dget0 (val what_if) ''status'') ''Succeeded'') (testr is_list (dget0 (val what_if) ''changes'')))
       ''API WSS What-if failed'' (
     bindr (list_of (sub (val what_if) ''changes'')) (\<lambda>changes.
     bindr (assert_protocol_changes changes identifier) (\<lambda>_. val changes)))"

definition protocol_summary :: "'s tools \<Rightarrow> string \<Rightarrow> obj \<Rightarrow> obj \<Rightarrow> obj res" where
  "protocol_summary tools identifier desired plan =
     bindr (sub (val (JObj plan)) ''planSha256'') (\<lambda>digest.
     bindr (sub_at (val (JObj desired)) [''properties'', ''policySettings'', ''mode'']) (\<lambda>mode.
     val [(''planSha256'', digest), (''outputDirectory'', JStr (t_output tools)), (''apiWafId'', JStr identifier), (''wafMode'', mode),
       (''deployed'', JBool False), (''deploymentAttempted'', JBool False), (''status'', JStr ''planned''), (''protocolAccepted'', JBool False)]))"

definition plan_protocol :: "'s tools \<Rightarrow> protocol_request \<Rightarrow> ('s, protocol_plan) proc" where
  "plan_protocol tools rq =
     bindp (load_config (t_sha tools)) (\<lambda>(config, settings).
     checkp (bindr (application_authentication config) (\<lambda>a. eqs (sub (val a) ''mode'') ''native''))
       ''This WSS contract is for native gateways; Entra proxy protocols require separate validation'' (
     checkp (is_true (sub (sub (val (JObj settings)) ''features'') ''allowTrafficRelease''))
       ''Published-edge update requires traffic approval'' (
     bindp reviewed_revision (\<lambda>revision.
     bindp (perform (Client ''operation_root'' [JStr ''stage9-api-wss''])) (\<lambda>_.
     bindp (authenticate_azure (t_claims tools) config settings ''deploy'') (\<lambda>_.
     bindp (generate_report tools config settings (JStr revision) (pr_ticket rq) (pr_approvers rq)) (\<lambda>approval.
     thenp (private_write ''approval-report.json'' approval) (
     bindp (Edge_Binding.deployed_edge (t_sha tools) config) (\<lambda>edge.
     letp (str_of (sub (val (JObj edge)) ''profileResourceId'')) (\<lambda>profile.
     let association_id = profile @ ''/securityPolicies/api-waf'' in
     bindp (deployed_resource config association_id CDN_API) (\<lambda>association.
     letp (policy_identifier config edge association) (\<lambda>identifier.
     bindp (deployed_resource config identifier WAF_API) (\<lambda>live.
     letp (desired_waf live identifier) (\<lambda>desired.
     letp (check_desired config approval desired) (\<lambda>_.
     let document = protocol_template desired in
     thenp (private_write ''api-wss-template.json'' document) (
     thenp (private_write ''api-waf-before.json'' live) (
     letp (protocol_arguments config) (\<lambda>arguments.
     bindp (az_scoped config ([''deployment'', ''group'', ''what-if''] @ arguments @ [''--result-format'', ''FullResourcePayloads'', ''--no-pretty-print'']))
       (\<lambda>what_if.
     letp (reviewed_changes identifier what_if) (\<lambda>changes.
     letp (build_plan (t_sha tools) (t_uuid5 tools) config 9 ''edge'' (JStr revision) (fingerprint (t_sha tools) document)
            (JObj [(''apiWafBefore'', live), (''desired'', JObj desired), (''edge'', JObj edge), (''association'', association),
               (''approval'', approval)]) changes JNull) (\<lambda>plan.
     thenp (private_write ''reviewed-plan.json'' (JObj plan)) (
     letp (protocol_summary tools identifier desired plan) (\<lambda>summary.
     retp \<lparr>pp_config = config, pp_settings = settings, pp_revision = revision, pp_edge = edge, pp_association_id = association_id,
       pp_association = association, pp_identifier = identifier, pp_live = live, pp_desired = desired, pp_arguments = arguments,
       pp_plan = plan, pp_summary = summary\<rparr>)))))))))))))))))))))))"

definition same_resource :: "json \<Rightarrow> string \<Rightarrow> string \<Rightarrow> json \<Rightarrow> ('s, bool) proc" where
  "same_resource config identifier api_version recorded =
     bindp (deployed_resource config identifier api_version) (\<lambda>now. retp (py_eq now recorded))"

definition same_edge :: "sha \<Rightarrow> json \<Rightarrow> obj \<Rightarrow> ('s, bool) proc" where
  "same_edge sha config recorded = bindp (Edge_Binding.deployed_edge sha config) (\<lambda>now. retp (py_eq (JObj now) (JObj recorded)))"

text \<open>\<open>[normalized_rule(rule) for rule in policy["properties"]["customRules"]["rules"]]\<close>\<close>

definition normalized_rules :: "json \<Rightarrow> json list res" where
  "normalized_rules policy =
     bindr (iter (sub_at (val policy) [''properties'', ''customRules'', ''rules''])) (\<lambda>rules. map_res normalized_rule rules)"

definition matches_desired :: "string \<Rightarrow> obj \<Rightarrow> json \<Rightarrow> bool res" where
  "matches_desired identifier desired after =
     bindr (desired_waf after identifier) (\<lambda>observed.
     conjr (val (py_eq (JObj observed) (JObj desired)))
       (bindr (normalized_rules after) (\<lambda>a. bindr (normalized_rules (JObj desired)) (\<lambda>b. val (py_eq (JList a) (JList b))))))"

definition deploy_protocol :: "'s tools \<Rightarrow> protocol_plan \<Rightarrow> ('s, obj) tracked" where
  "deploy_protocol tools p =
     thent (putt [(''deploymentAttempted'', JBool True)]) (
     bindt (liftt (az_scoped (pp_config p) ([''deployment'', ''group'', ''create''] @ pp_arguments p @ [''--mode'', ''Incremental'']))) (\<lambda>result.
     checkt (eqs (get_at (val result) [''properties'', ''provisioningState'']) ''Succeeded'') ''WSS WAF deployment failed'' (
     thent (putt [(''deployed'', JBool True)]) (
     bindt (liftt (deployed_resource (pp_config p) (pp_identifier p) WAF_API)) (\<lambda>after.
     checkt (matches_desired (pp_identifier p) (pp_desired p) after) ''API WAF does not match the approved WSS rules'' (
     bindt (liftt (andp (same_resource (pp_config p) (pp_association_id p) CDN_API (pp_association p))
                        (same_edge (t_sha tools) (pp_config p) (pp_edge p)))) (\<lambda>same.
     checkt (val same) ''API policy association, edge identity or Admin state changed during WSS update'' (
     thent (putt [(''status'', JStr ''completed'')]) gett))))))))"

definition execute_protocol :: "'s tools \<Rightarrow> protocol_request \<Rightarrow> protocol_plan \<Rightarrow> ('s, obj) proc" where
  "execute_protocol tools rq p =
     checkp (eqs (sub (val (JObj (pp_plan p))) ''planSha256'') (pr_approved rq)) ''WSS plan changed or was not approved; replan'' (
     bindp (same_report_inputs (t_sha tools) (pp_revision p) (pp_config p) (pp_settings p)) (\<lambda>same.
     checkp (val same) ''Code or configuration changed; replan'' (
     bindp (andp (same_resource (pp_config p) (pp_identifier p) WAF_API (pp_live p))
             (andp (same_resource (pp_config p) (pp_association_id p) CDN_API (pp_association p))
                   (same_edge (t_sha tools) (pp_config p) (pp_edge p)))) (\<lambda>kept.
     checkp (val kept) ''Live WAF or edge changed; replan''
       (closed_run WSS_SUMMARY mark_failed (deploy_protocol tools p) (dict_set (pp_summary p) ''status'' (JStr ''executing'')))))))"

definition update_protocol :: "'s tools \<Rightarrow> protocol_request \<Rightarrow> ('s, obj) proc" where
  "update_protocol tools rq =
     checkp (val (pr_operation rq \<in> {''plan'', ''execute''})) ''Unknown WSS update operation'' (
     bindp (perform (Client ''is_symlink'' [JStr ''config''])) (\<lambda>linked.
     checkp (val (linked \<noteq> Json (JBool True))) ''Customer configuration cannot be a symlink'' (
     bindp (plan_protocol tools rq) (\<lambda>p.
     if pr_operation rq = ''plan'' then retp (pp_summary p) else execute_protocol tools rq p))))"

end
