(* ===== verification/Protocol_Safety.thy ===== *)
theory Protocol_Safety
  imports Protocol_Update
begin

text \<open>
  The update of the API firewall: what the desired policy keeps of the live one, that the policy
  as it was deployed passes the check that follows the deployment, and that nothing is
  deployed but this policy, after its plan was approved.
\<close>

section \<open>The desired policy\<close>

lemma normal_rules [simp]: "map_res normalized_rule api_method_rules = val api_method_rules"
  by (simp add: api_method_rules_def block_rule_def negated_def get_condition_def normalized_rule_def normalized_condition_def
      drop_if_def lookup_or_def strs_def Let_def)

lemma named_rules: "r \<in> set api_method_rules \<Longrightarrow> is_rate_rule r = val False"
  by (auto simp: api_method_rules_def block_rule_def is_rate_rule_def lookup_or_def)

lemma methods_reviewed [simp]: "reviewed_methods api_method_rules"
  by (simp add: reviewed_methods_def api_method_rules_def block_rule_def negated_def get_condition_def strs_def)

lemma check_rate_name: "check_api_rate [rate] = val () \<Longrightarrow> is_rate_rule rate = val b \<Longrightarrow> is_dict rate"
  by (auto simp: is_rate_rule_def py_ok)

text \<open>The parts of a live policy that the desired one keeps.\<close>

definition waf_document :: "string \<Rightarrow> json \<Rightarrow> json \<Rightarrow> obj \<Rightarrow> json \<Rightarrow> json \<Rightarrow> obj \<Rightarrow> json \<Rightarrow> obj" where
  "waf_document name location policy custom managed sku tags rate =
     [(''type'', JStr WAF_TYPE), (''apiVersion'', JStr WAF_API), (''name'', JStr name), (''location'', location),
      (''sku'', JObj [(''name'', sku)]),
      (''properties'', JObj [(''policySettings'', policy),
         (''customRules'', JObj (dict_set custom ''rules'' (JList (api_method_rules @ [rate])))), (''managedRules'', managed)])] @ tags"

lemma rate_rule_ok:
  assumes "rate_rule_of properties = val rate"
  shows "\<exists>props custom rules. properties = JObj props \<and> map_of props ''customRules'' = Some (JObj custom) \<and>
    map_of custom ''rules'' = Some (JList rules) \<and> rate \<in> set rules \<and> is_rate_rule rate = val True \<and> check_api_rate [rate] = val ()"
proof -
  obtain listed rules rates where l: "dget (dgetO (val properties) ''customRules'') ''rules'' (JList []) = val listed"
      "is_list listed \<and> truth listed" "list_of (val listed) = val rules" "filter_res is_rate_rule rules = val rates"
      "check_api_rate rates = val ()" "rate = hd rates"
    using assms by (auto simp: rate_rule_of_def bindr_ok check_ok seqr_ok)
  have one: "length rates = 1" using l(5) by (auto simp: check_api_rate_def py_ok)
  then have r: "rates = [rate]" using l(6) by (cases rates) auto
  have "rate \<in> set (filter (\<lambda>x. is_rate_rule x = val True) rules)"
    using filter_res_ok [OF l(4)] r by (metis list.set_intros(1))
  then have "rate \<in> set rules" "is_rate_rule rate = val True" by simp_all
  moreover have "\<exists>props custom. properties = JObj props \<and> map_of props ''customRules'' = Some (JObj custom) \<and>
      map_of custom ''rules'' = Some (JList rules)"
    using l(1,2,3) by (auto simp: py_ok lookup_or_def split: option.splits)
  ultimately show ?thesis using l(5) r by auto
qed

lemma desired_waf_document:
  assumes "desired_waf live i = val d"
  shows "\<exists>name location policy custom managed sku tags rate props rules.
    d = waf_document name location policy custom managed sku tags rate \<and> last_segment i = val name \<and> sku = JStr ''Premium_AzureFrontDoor'' \<and>
    (tags = [] \<or> (\<exists>t. tags = [(''tags'', t)])) \<and> dgetO (val live) ''properties'' = val (JObj props) \<and>
    map_of props ''policySettings'' = Some policy \<and> map_of props ''customRules'' = Some (JObj custom) \<and>
    map_of props ''managedRules'' = Some managed \<and> map_of custom ''rules'' = Some (JList rules) \<and> rate \<in> set rules \<and>
    is_rate_rule rate = val True \<and> check_api_rate [rate] = val () \<and> check_policy (JObj props) = val ()"
proof -
  obtain sku properties rate desired name location sku_name tagged tags where
    s: "dget0 (val live) ''sku'' = val sku" "is_dict sku" "eqs (dget0 (val sku) ''name'') ''Premium_AzureFrontDoor'' = val True"
    and p: "dgetO (val live) ''properties'' = val properties" "check_policy properties = val ()" "rate_rule_of properties = val rate"
    and w: "with_rules properties (api_method_rules @ [rate]) = val desired" "last_segment i = val name" "sub (val sku) ''name'' = val sku_name"
    and t: "(if tagged then mapr (\<lambda>t. [(''tags'', t)]) (sub (val live) ''tags'') else val []) = val tags"
    and d: "d = [(''type'', JStr WAF_TYPE), (''apiVersion'', JStr WAF_API), (''name'', JStr name), (''location'', location),
           (''sku'', JObj [(''name'', sku_name)]), (''properties'', JObj desired)] @ tags"
    using assms unfolding desired_waf_def bindr_ok check_ok seqr_ok conjr_ok by blast
  from rate_rule_ok [OF p(3)] obtain props custom rules where
    r: "properties = JObj props" "map_of props ''customRules'' = Some (JObj custom)" "map_of custom ''rules'' = Some (JList rules)"
      "rate \<in> set rules" "is_rate_rule rate = val True" "check_api_rate [rate] = val ()" by blast
  from w(1) r(1,2) obtain policy managed where m: "map_of props ''policySettings'' = Some policy" "map_of props ''managedRules'' = Some managed"
      "desired = [(''policySettings'', policy), (''customRules'', JObj (dict_set custom ''rules'' (JList (api_method_rules @ [rate])))),
        (''managedRules'', managed)]"
    by (auto simp: with_rules_def set_item_def bindr_ok split: option.splits)
  have "sku_name = JStr ''Premium_AzureFrontDoor''" using s w(3) by (auto simp: py_ok lookup_or_def split: option.splits)
  moreover have "tags = [] \<or> (\<exists>x. tags = [(''tags'', x)])" using t by (auto simp: mapr_ok split: if_splits)
  moreover have "d = waf_document name location policy custom managed sku_name tags rate"
    by (simp add: d m(3) waf_document_def)
  ultimately show ?thesis
    using m(1,2) r p(1,2) w(2) by blast
qed

text \<open>The resource Azure holds after the deployment of the desired policy.\<close>

definition deployed_policy :: "string \<Rightarrow> obj \<Rightarrow> json" where
  "deployed_policy identifier d =
     JObj ((''id'', JStr identifier) # map (\<lambda>(k, v).
       (k, if k = ''properties'' then (case v of JObj kv \<Rightarrow> JObj (kv @ [(''provisioningState'', JStr ''Succeeded'')]) | _ \<Rightarrow> v) else v)) d)"

lemma rate_rule_deployed:
  assumes "check_api_rate [rate] = val ()" and "is_rate_rule rate = val True" and "fst a \<noteq> ''customRules''"
  shows "rate_rule_of (JObj (a # (''customRules'', JObj (dict_set custom ''rules'' (JList (api_method_rules @ [rate])))) # b)) = val rate"
proof -
  have f: "filter_res is_rate_rule (api_method_rules @ [rate]) = val [rate]"
    "filter_res (\<lambda>r. negr (is_rate_rule r)) (api_method_rules @ [rate]) = val api_method_rules"
    using assms(2) by (simp_all add: api_method_rules_def block_rule_def is_rate_rule_def lookup_or_def)
  show ?thesis
    using assms f by (cases a) (simp add: rate_rule_of_def lookup_or_def)
qed

text \<open>The properties of a desired policy are those of the live one with the reviewed method rules.\<close>

definition reviewed_properties :: "json \<Rightarrow> json \<Rightarrow> bool" where
  "reviewed_properties live properties \<longleftrightarrow>
     (\<exists>policy custom managed rate props rules.
        dgetO (val live) ''properties'' = val (JObj props) \<and> map_of props ''policySettings'' = Some policy \<and>
        map_of props ''managedRules'' = Some managed \<and> map_of props ''customRules'' = Some (JObj custom) \<and>
        map_of custom ''rules'' = Some (JList rules) \<and> rate \<in> set rules \<and> is_rate_rule rate = val True \<and>
        properties = JObj [(''policySettings'', policy), (''customRules'', JObj (dict_set custom ''rules'' (JList (api_method_rules @ [rate])))),
          (''managedRules'', managed)])"

text \<open>
  C38: the desired policy of the API firewall keeps the policy settings, the managed rules, the
  other custom settings and the rate limit rule of the live one, with the reviewed method rules
  before it.  It is stable: the resource that Azure holds after its deployment has itself as the
  desired policy, so the check that follows a deployment accepts exactly what was deployed.
\<close>

theorem desired_policies_are_stable:
  assumes "desired_waf live i = val d"
  shows "(\<exists>properties. sub (val (JObj d)) ''properties'' = val properties \<and> reviewed_properties live properties) \<and>
    desired_waf (deployed_policy i d) i = val d"
proof -
  obtain name location policy custom managed sku tags rate props rules where
    d: "d = waf_document name location policy custom managed sku tags rate" "last_segment i = val name" "sku = JStr ''Premium_AzureFrontDoor''"
      "tags = [] \<or> (\<exists>t. tags = [(''tags'', t)])" and p: "dgetO (val live) ''properties'' = val (JObj props)"
      "map_of props ''policySettings'' = Some policy" "map_of props ''managedRules'' = Some managed"
      "map_of props ''customRules'' = Some (JObj custom)" "map_of custom ''rules'' = Some (JList rules)" "rate \<in> set rules"
    and r: "is_rate_rule rate = val True" "check_api_rate [rate] = val ()" "check_policy (JObj props) = val ()"
    using desired_waf_document [OF assms] by blast
  have "reviewed_properties live (JObj [(''policySettings'', policy),
      (''customRules'', JObj (dict_set custom ''rules'' (JList (api_method_rules @ [rate])))), (''managedRules'', managed)])"
    unfolding reviewed_properties_def using p r(1) by blast
  moreover have c: "check_policy (JObj ((''policySettings'', policy) # kv)) = val ()" for kv
    using r(3) p(2) by (simp add: check_policy_def lookup_or_def)
  have "desired_waf (deployed_policy i d) i = val d"
    using d(4) rate_rule_deployed [OF r(2,1)] c
    by (auto simp: d(1,2,3) waf_document_def deployed_policy_def desired_waf_def known_properties_def WAF_PROPERTIES_def with_rules_def
        set_item_def lookup_or_def)
  ultimately show ?thesis by (simp add: d(1) waf_document_def)
qed

definition demo_waf :: json where
  "demo_waf = JObj [(''id'', JStr ''/g/waf''), (''location'', JStr ''Global''),
     (''sku'', JObj [(''name'', JStr ''Premium_AzureFrontDoor'')]),
     (''properties'', JObj [(''provisioningState'', JStr ''Succeeded''),
        (''policySettings'', JObj [(''enabledState'', JStr ''Enabled''), (''mode'', JStr ''Prevention'')]),
        (''customRules'', JObj [(''rules'', JList (legacy_method_rules @
           [JObj [(''name'', JStr ''RateLimitApi''), (''priority'', JInt 20), (''enabledState'', JStr ''Enabled''), (''action'', JStr ''Block''),
              (''ruleType'', JStr ''RateLimitRule''), (''rateLimitDurationInMinutes'', JInt 1), (''rateLimitThreshold'', JInt 600)]]))]),
        (''managedRules'', JObj [(''managedRuleSets'', JList [])])])]"

lemma demo_waf_updates: "\<exists>d. desired_waf demo_waf ''/g/waf'' = val d"
  by (simp add: demo_waf_def desired_waf_def known_properties_def WAF_PROPERTIES_def check_policy_def rate_rule_of_def legacy_method_rules_def
      block_rule_def negated_def strs_def is_rate_rule_def check_api_rate_def normalized_rule_def normalized_condition_def drop_if_def
      reviewed_methods_def with_rules_def set_item_def last_segment_def lookup_or_def Let_def starts_with_def lower_def in_strs_def)

theorem desired_policies_are_stable_witness:
  "\<exists>d. desired_waf demo_waf ''/g/waf'' = val d \<and> desired_waf (deployed_policy ''/g/waf'' d) ''/g/waf'' = val d"
  using demo_waf_updates desired_policies_are_stable by blast

section \<open>Approval\<close>

lemma inert_resources [inert_intros]:
  "only inert (same_resource config identifier api_version recorded)" "only inert (same_edge sha config edge)"
  unfolding same_resource_def same_edge_def by (intro only_intros inert_intros)+

lemma protocol_arguments_shape:
  "protocol_arguments config = val xs \<Longrightarrow> \<exists>r. xs = ''--resource-group'' # r \<and> 5 < length xs \<and> xs ! 5 = ''api-wss-template.json''"
  by (auto simp: protocol_arguments_def bindr_ok)

lemma inert_plan_protocol: "only inert (plan_protocol tools rq)"
  unfolding plan_protocol_def Let_def
  by (intro only_intros inert_intros) (auto dest!: protocol_arguments_shape simp: words_eval)

text \<open>The plan that was written has the approved hash.\<close>

definition reviewed_protocol :: "string \<Rightarrow> event list \<Rightarrow> bool" where
  "reviewed_protocol approved l \<longleftrightarrow>
     (\<exists>plan r. (WriteFile ''reviewed-plan.json'' (JObj plan), r) \<in> set l \<and> sub (val (JObj plan)) ''planSha256'' = val (JStr approved))"

definition protocol_written :: "protocol_plan \<Rightarrow> event list \<Rightarrow> bool" where
  "protocol_written p l \<longleftrightarrow>
     (\<exists>r. (WriteFile ''reviewed-plan.json'' (JObj (pp_plan p)), r) \<in> set l) \<and> protocol_arguments (pp_config p) = val (pp_arguments p)"

lemma reviewed_protocol_append: "reviewed_protocol approved l \<Longrightarrow> reviewed_protocol approved (l @ es)"
  by (auto simp: reviewed_protocol_def)

lemma wp_protocol_written: "wp (plan_protocol tools rq) protocol_written (\<lambda>_. True) l"
  unfolding plan_protocol_def Let_def
  by (rule wp_intros wp_private_write TrueI wp_drop allI | (simp split: prod.split, intro allI impI))+
    (auto intro!: wp_intros wp_private_write simp: protocol_written_def)

text \<open>The deployment of the policy.\<close>

definition deploys_policy :: "event \<Rightarrow> bool" where
  "deploys_policy e =
     (case fst e of
        Command (tool # arguments) \<Rightarrow>
          tool = ''az'' \<and> take 3 arguments = [''deployment'', ''group'', ''create''] \<and> 8 < length arguments \<and>
          arguments ! 8 = ''api-wss-template.json''
      | _ \<Rightarrow> False)"

definition policy_only :: "event \<Rightarrow> bool" where
  "policy_only e \<longleftrightarrow> inert e \<or> deploys_policy e"

lemma inert_policy_only: "only inert p \<Longrightarrow> only policy_only p"
  by (erule only_mono) (simp add: policy_only_def)

lemma executes_policy:
  assumes "protocol_arguments (pp_config p) = val (pp_arguments p)"
  shows "only policy_only (execute_protocol tools rq p)"
proof -
  have create: "only policy_only (az_scoped (pp_config p) ([''deployment'', ''group'', ''create''] @ pp_arguments p @ [''--mode'', ''Incremental'']))"
    using protocol_arguments_shape [OF assms]
    by (intro only_az_scoped) (auto simp: policy_only_def deploys_policy_def az_command_def nth_append)
  show ?thesis
    unfolding execute_protocol_def deploy_protocol_def andp_def
    by (intro only_intros onlyt_intros create inert_policy_only inert_intros inert_same_report) (simp_all add: policy_only_def)
qed

definition protocol_safe :: "protocol_request \<Rightarrow> event list \<Rightarrow> bool" where
  "protocol_safe rq l \<longleftrightarrow> list_all policy_only l \<and> (list_all inert l \<or> pr_operation rq = ''execute'' \<and> reviewed_protocol (pr_approved rq) l)"

lemma protocol_safe_inert: "list_all inert l \<Longrightarrow> protocol_safe rq l"
  by (auto simp: protocol_safe_def policy_only_def list_all_iff)

text \<open>
  An update of the API firewall changes nothing but this policy: every event of the run is inert
  or deploys the one template.  It changes nothing at all, unless the run is an \<open>execute\<close> run whose
  approved hash is the one of the plan that this very run wrote.
\<close>

theorem protocol_updates_are_approved:
  "list_all policy_only (log (snd (update_protocol tools rq sv (start s)))) \<and>
   (list_all inert (log (snd (update_protocol tools rq sv (start s)))) \<or>
    pr_operation rq = ''execute'' \<and> reviewed_protocol (pr_approved rq) (log (snd (update_protocol tools rq sv (start s)))))"
proof -
  have run: "wp (if pr_operation rq = ''plan'' then retp (pp_summary p) else execute_protocol tools rq p) (\<lambda>_. protocol_safe rq) (protocol_safe rq) l"
    if l: "list_all inert l" "protocol_written p l" and op: "pr_operation rq \<in> {''plan'', ''execute''}" for p l
  proof (cases "pr_operation rq = ''execute'' \<and> eqs (sub (val (JObj (pp_plan p))) ''planSha256'') (pr_approved rq) = val True")
    case True
    then have d: "protocol_safe rq l \<and> reviewed_protocol (pr_approved rq) l"
      using l by (auto simp: protocol_safe_inert reviewed_protocol_def protocol_written_def eqs_ok)
    have "wp (execute_protocol tools rq p) (\<lambda>_ l. protocol_safe rq l \<and> reviewed_protocol (pr_approved rq) l)
        (\<lambda>l. protocol_safe rq l \<and> reviewed_protocol (pr_approved rq) l) l"
      by (rule only_wp [where I = "\<lambda>l. protocol_safe rq l \<and> reviewed_protocol (pr_approved rq) l", OF executes_policy d])
        (use l(2) True in \<open>auto simp: protocol_written_def protocol_safe_def reviewed_protocol_append\<close>)
    from wp_mono [OF this] show ?thesis using True by auto
  next
    case False
    then show ?thesis
      using l(1) op by (auto simp: protocol_safe_inert execute_protocol_def intro!: wp_retp wp_checkp)
  qed
  have "wp (update_protocol tools rq) (\<lambda>_. protocol_safe rq) (protocol_safe rq) []"
    unfolding update_protocol_def
    by (rule wp_checkp, rule wp_bindp, rule wp_perform, rule wp_checkp, rule wp_bindp,
        rule wp_mono [OF wp_conj [OF only_wp [OF inert_plan_protocol, where I = "list_all inert"] wp_protocol_written]])
      (use run in \<open>simp_all add: protocol_safe_inert\<close>)
  then have "wp (update_protocol tools rq) (\<lambda>_. protocol_safe rq) (protocol_safe rq) (log (start s))" by (simp add: start_def)
  from wp_always [OF this, of sv] show ?thesis by (simp add: protocol_safe_def)
qed

end
