(* ===== verification/Admin_Sources.thy ===== *)
theory Admin_Sources
  imports Release_Report
begin

text \<open>
  The addition of administrator source addresses to a published canary, from
  \<open>local_execution/admin_allowlist.py\<close>: the desired configuration, the refresh of the edge binding,
  and the run, which plans the narrow deployment of the edge, deploys it once the plan was
  approved, installs the configuration and the release report, and refreshes the binding.
\<close>

section \<open>The desired configuration\<close>

definition host_network :: "string \<Rightarrow> string res" where
  "host_network value =
     bindr (ip_network True (JStr value)) (\<lambda>network.
     check (val (plen network = (if version network = 4 then 32 else 128)))
       ''Only exact public source IPs are accepted: IPv4 /32 or IPv6 /128'' (val (net_str network)))"

definition add_source :: "string \<Rightarrow> json list \<Rightarrow> json list res" where
  "add_source value ranges =
     bindr (host_network value) (\<lambda>canonical.
     check (val (\<not> list_ex (\<lambda>v. py_eq v (JStr canonical)) ranges))
       ''CIDR is already configured; do not repeat an update'' (val (ranges @ [JStr canonical])))"

definition allowed_sources :: "json \<Rightarrow> json res" where
  "allowed_sources config = sub_at (val config) [''parameters'', ''edge'', ''adminAllowedCidrs'']"

definition add_sources :: "json \<Rightarrow> string list \<Rightarrow> json res" where
  "add_sources config additions =
     bindr (bindr (allowed_sources config) (\<lambda>v. iter (val v))) (\<lambda>before.
     bindr (fold_res add_source additions before) (\<lambda>wanted.
     bindr (admin_source_cidrs (JList wanted)) (\<lambda>accepted.
     with_admin_cidrs config (JList (map JStr accepted)))))"

section \<open>The refresh of the binding\<close>

definition same_bound_plane :: "json \<Rightarrow> string \<Rightarrow> unit res" where
  "same_bound_plane document plane =
     bindr (sub (sub (val document) ''planes'') plane) (\<lambda>state.
     check (allr [eqr (sub (val state) ''currentRouteConfigSha256'') (sub (val state) ''desiredRouteConfigSha256''),
                  eqr (sub (val state) ''currentPodTemplateSha256'') (sub (val state) ''desiredPodTemplateSha256'')])
       ''Allowlist receipt refresh must not change live ingress bindings'' (val ()))"

definition refresh_binding :: "'s tools \<Rightarrow> json \<Rightarrow> json \<Rightarrow> ('s, obj) proc" where
  "refresh_binding tools config revision =
     bindp (bind_edge (t_sha tools) (t_yload tools) (t_ydump tools) config ''plan'' revision []) (\<lambda>preview.
     bindp (perform (Client ''read_json'' [JStr ''runtime-review.json''])) (\<lambda>r.
     letp (loads r) (\<lambda>document.
     checkp (eqs (dget0 (val document) ''bindingMode'') ''native-private-ingress'') ''Native binding required'' (
     letp (each (same_bound_plane document) [''api'', ''admin'']) (\<lambda>_.
     letp (str_of (sub (val (JObj preview)) ''planSha256'')) (\<lambda>digest.
     bind_edge (t_sha tools) (t_yload tools) (t_ydump tools) config ''execute'' revision digest))))))"

section \<open>\<open>update\<close>\<close>

definition ALLOWLIST_SUMMARY :: string where
  "ALLOWLIST_SUMMARY = ''allowlist-summary.json''"

record sources_request =
  as_operation :: string
  as_approved :: string
  as_additions :: "string list"
  as_ticket :: json
  as_approvers :: "json list"

record sources_plan =
  asp_config :: json
  asp_settings :: obj
  asp_revision :: string
  asp_target :: string
  asp_desired :: json
  asp_report :: json
  asp_plan :: obj
  asp_document :: json
  asp_summary :: obj

definition edge_request :: "json \<Rightarrow> string \<Rightarrow> json \<Rightarrow> request" where
  "edge_request config revision approved_release =
     \<lparr>rq_stage = 9, rq_component = ''edge'', rq_revision = JStr revision, rq_previous = JList [], rq_release = approved_release,
      rq_baseline = config\<rparr>"

definition desired_report :: "sha \<Rightarrow> json \<Rightarrow> json \<Rightarrow> json res" where
  "desired_report sha desired rdoc =
     bindr (allowed_sources desired) (\<lambda>accepted.
     bindr (set_item ''adminAllowedCidrs'' accepted rdoc) (\<lambda>half.
     bindr (stage_fingerprint sha desired 9) (\<lambda>h. set_item ''configSha256'' (JStr h) half)))"

definition protected_config :: "('s, unit) proc" where
  "protected_config =
     bindp (perform (Client ''is_in_checkout'' [JStr ''config''])) (\<lambda>inside.
     checkp (val (inside = Json (JBool True))) ''Customer configuration must be inside the reviewed checkout'' (
     bindp (perform (Command [''git'', ''check-ignore'', ''--quiet'', ''--'', ''config''])) (\<lambda>ignored.
     checkp (val (ignored \<noteq> Failure)) ''Customer configuration must be Git-ignored'' (retp ()))))"

definition allowlist_summary :: "'s tools \<Rightarrow> obj \<Rightarrow> json \<Rightarrow> obj res" where
  "allowlist_summary tools plan accepted =
     bindr (sub (val (JObj plan)) ''planSha256'') (\<lambda>digest.
     val [(''planSha256'', digest), (''outputDirectory'', JStr (t_output tools)), (''adminAllowedCidrs'', accepted),
       (''deploymentPerformed'', JBool False), (''bindingRefreshed'', JBool False), (''status'', JStr ''planned'')])"

definition plan_sources :: "'s tools \<Rightarrow> sources_request \<Rightarrow> ('s, sources_plan) proc" where
  "plan_sources tools rq =
     bindp (load_config (t_sha tools)) (\<lambda>(config, settings).
     thenp protected_config (
     bindp (report_path settings) (\<lambda>target.
     bindp reviewed_revision (\<lambda>revision.
     letp (add_sources config (as_additions rq)) (\<lambda>desired.
     bindp (perform (Client ''operation_root'' [JStr ''stage9-admin-allowlist''])) (\<lambda>_.
     bindp (authenticate_azure (t_claims tools) config settings ''deploy'') (\<lambda>_.
     bindp (generate_report tools config settings (JStr revision) (as_ticket rq) (as_approvers rq)) (\<lambda>rdoc.
     letp (desired_report (t_sha tools) desired rdoc) (\<lambda>approved_release.
     bindp (deploy_component (t_sha tools) (t_uuid5 tools) (t_yload tools) (t_under_temp tools) desired
              (edge_request config revision approved_release) (t_micros tools) ''plan'' []) (\<lambda>plan.
     bindp (read_document ''config'') (\<lambda>raw.
     letp (allowed_sources desired) (\<lambda>accepted.
     letp (with_admin_cidrs raw accepted) (\<lambda>document.
     thenp (private_write ''desired-customer.json'' document) (
     thenp (private_write ''desired-release.json'' approved_release) (
     letp (allowlist_summary tools plan accepted) (\<lambda>summary.
     retp \<lparr>asp_config = config, asp_settings = settings, asp_revision = revision, asp_target = target, asp_desired = desired,
       asp_report = approved_release, asp_plan = plan, asp_document = document, asp_summary = summary\<rparr>))))))))))))))))"

definition deploy_sources :: "'s tools \<Rightarrow> sources_plan \<Rightarrow> ('s, obj) tracked" where
  "deploy_sources tools p =
     bindt (liftt (execute_infrastructure_plan (t_sha tools) (asp_desired p) (edge_request (asp_config p) (asp_revision p) (asp_report p)) (asp_plan p)))
       (\<lambda>_.
     thent (putt [(''deploymentPerformed'', JBool True)]) (
     thent (savet ALLOWLIST_SUMMARY) (
     thent (liftt (install_report ''config'' (asp_document p) True)) (
     thent (liftt (install_report (asp_target p) (asp_report p) True)) (
     bindt (liftt (refresh_binding tools (asp_desired p) (JStr (asp_revision p)))) (\<lambda>_.
     thent (putt [(''bindingRefreshed'', JBool True), (''status'', JStr ''completed'')]) gett))))))"

definition execute_sources :: "'s tools \<Rightarrow> sources_request \<Rightarrow> sources_plan \<Rightarrow> ('s, obj) proc" where
  "execute_sources tools rq p =
     checkp (eqs (sub (val (JObj (asp_plan p))) ''planSha256'') (as_approved rq)) ''Allowlist plan changed or was not approved; replan'' (
     bindp (same_report_inputs (t_sha tools) (asp_revision p) (asp_config p) (asp_settings p)) (\<lambda>same.
     checkp (val same) ''Code or customer configuration changed during planning; replan'' (
     bindp (read_bytes ''config'') (\<lambda>previous.
     thenp (private_write ''previous-customer.json'' (JStr (reply_text previous))) (
     let summary = dict_set (asp_summary p) ''status'' (JStr ''executing'') in
     thenp (private_write ALLOWLIST_SUMMARY (JObj summary)) (
     closed_run ALLOWLIST_SUMMARY mark_failed (deploy_sources tools p) summary))))))"

definition update_sources :: "'s tools \<Rightarrow> sources_request \<Rightarrow> ('s, obj) proc" where
  "update_sources tools rq =
     bindp (perform (Client ''is_symlink'' [JStr ''config''])) (\<lambda>linked.
     checkp (val (linked \<noteq> Json (JBool True))) ''Customer configuration cannot be a symlink'' (
     bindp (plan_sources tools rq) (\<lambda>p.
     if as_operation rq = ''plan'' then retp (asp_summary p) else execute_sources tools rq p)))"

section \<open>What an update adds\<close>

lemma add_source_ok:
  "add_source a before = val after \<longleftrightarrow> (\<exists>h. host_network a = val h \<and> JStr h \<notin> set before \<and> after = before @ [JStr h])"
  by (auto simp: add_source_def bindr_ok check_ok list_ex_iff)

lemma fold_sources:
  "fold_res add_source additions before = val wanted \<Longrightarrow>
     \<exists>hosts. list_all2 (\<lambda>a h. host_network a = val h) additions hosts \<and> wanted = before @ map JStr hosts \<and> distinct hosts \<and>
       JStr ` set hosts \<inter> set before = {}"
proof (induction additions arbitrary: before)
  case Nil
  then show ?case by simp
next
  case (Cons a additions)
  then obtain h where h: "host_network a = val h" "JStr h \<notin> set before"
      and rest: "fold_res add_source additions (before @ [JStr h]) = val wanted"
    by (auto simp: bindr_ok add_source_ok)
  from Cons.IH [OF rest] obtain hosts where "list_all2 (\<lambda>a h. host_network a = val h) additions hosts"
      "wanted = (before @ [JStr h]) @ map JStr hosts" "distinct hosts" "JStr ` set hosts \<inter> set (before @ [JStr h]) = {}"
    by blast
  with h show ?case by (intro exI [of _ "h # hosts"]) auto
qed

text \<open>
  An accepted update leaves every other part of the configuration alone, and the new ranges are
  the canonical forms of the old ones and of the added addresses, each of them a single public
  address that was not there before.
\<close>

theorem added_sources_are_exact:
  assumes "add_sources config additions = val desired"
  shows "\<exists>before hosts accepted. allowed_sources config = val before \<and>
    list_all2 (\<lambda>a h. host_network a = val h) additions hosts \<and> distinct hosts \<and>
    (\<exists>old. iter (val before) = val old \<and> JStr ` set hosts \<inter> set old = {} \<and>
       admin_source_cidrs (JList (old @ map JStr hosts)) = val accepted) \<and>
    with_admin_cidrs config (JList (map JStr accepted)) = val desired"
  using assms fold_sources unfolding add_sources_def bindr_ok by (metis)

section \<open>Approval\<close>

lemma inert_keeping: "inert e \<Longrightarrow> keeping e"
  by (cases e rule: prod.exhaust) (auto simp: inert_def keeping_def creates_def split: call.splits list.splits)

lemma keeps: "only inert p \<Longrightarrow> only keeping p"
  by (erule only_mono) (rule inert_keeping)

lemma plan_keeps: "only keeping (plan_sources tools rq)"
  unfolding plan_sources_def protected_config_def deploy_component_def read_document_def
  by (intro only_intros only_private_write keeps [OF inert_load(2)] keeps [OF inert_report_path] keeps [OF inert_generate]
      keeps [OF inert_files(3)] keeps [OF inert_authenticate] keeps [OF inert_bytes] deploy_prepare_keeps) (auto intro!: only_intros)

definition summarized_plan :: "string \<Rightarrow> event list \<Rightarrow> bool" where
  "summarized_plan approved l \<longleftrightarrow>
     (\<exists>plan r. (WriteFile ''plan-summary.json'' (JObj plan), r) \<in> set l \<and> sub (val (JObj plan)) ''planSha256'' = val (JStr approved))"


lemma summarized_append: "summarized_plan approved l \<Longrightarrow> summarized_plan approved (l @ es)"
  by (auto simp: summarized_plan_def)

definition plan_written :: "sources_plan \<Rightarrow> event list \<Rightarrow> bool" where
  "plan_written p l \<longleftrightarrow> (\<exists>r. (WriteFile ''plan-summary.json'' (JObj (asp_plan p)), r) \<in> set l)"

lemma wp_component_plan:
  "wp (deploy_component sha uuid5 yload under_temp config rq now ''plan'' approved)
     (\<lambda>plan l. \<exists>r. (WriteFile ''plan-summary.json'' (JObj plan), r) \<in> set l) (\<lambda>_. True) l"
  unfolding deploy_component_def
  by (rule wp_letp, rule wp_letp, rule wp_bindp, rule wp_mono [OF deploy_prepare_reviewed]) (auto intro: wp_retp)

lemma wp_sources_planned: "wp (plan_sources tools rq) plan_written (\<lambda>_. True) l"
  unfolding plan_sources_def
  by (rule wp_bindp, rule wp_drop, rule wp_prod, rule wp_thenp, rule wp_drop, rule wp_bindp, rule wp_drop, rule wp_bindp, rule wp_drop,
      rule wp_letp, rule wp_bindp, rule wp_drop, rule wp_bindp, rule wp_drop, rule wp_bindp, rule wp_drop, rule wp_letp, rule wp_bindp,
      rule wp_mono [OF wp_component_plan])
    (auto intro!: wp_intros wp_private_write simp: read_document_def read_bytes_def plan_written_def)

definition sources_safe :: "sources_request \<Rightarrow> event list \<Rightarrow> bool" where
  "sources_safe rq l \<longleftrightarrow> list_all keeping l \<or> as_operation rq \<noteq> ''plan'' \<and> summarized_plan (as_approved rq) l"

lemma sources_safe_keeping: "list_all keeping l \<Longrightarrow> sources_safe rq l"
  by (simp add: sources_safe_def)

lemma any_binding: "only (\<lambda>_. True) (refresh_binding tools config revision)"
  unfolding refresh_binding_def bind_edge_def
  by (intro only_intros only_mono [OF edge_prepare_reads] edge_apply_any TrueI)

lemma any_sources: "only (\<lambda>_. True) (execute_sources tools rq p)"
  unfolding execute_sources_def deploy_sources_def Let_def
  by (intro only_intros onlyt_intros any_install any_binding execute_plan_any only_mono [OF inert_same_report] only_mono [OF inert_bytes]
      only_private_write TrueI)

text \<open>
  C39: an addition of sources deploys nothing in Azure, or it is no \<open>plan\<close> run and its approved hash is the one of the plan
  of the deployment that this very run wrote.
\<close>

theorem source_updates_are_approved:
  "list_all keeping (log (snd (update_sources tools rq sv (start s)))) \<or>
   as_operation rq \<noteq> ''plan'' \<and> summarized_plan (as_approved rq) (log (snd (update_sources tools rq sv (start s))))"
proof -
  have run: "wp (if as_operation rq = ''plan'' then retp (asp_summary p) else execute_sources tools rq p) (\<lambda>_. sources_safe rq) (sources_safe rq) l"
    if "list_all keeping l" "plan_written p l" for p l
  proof (cases "eqs (sub (val (JObj (asp_plan p))) ''planSha256'') (as_approved rq) = val True")
    case True
    then have d: "summarized_plan (as_approved rq) l"
      using that(2) by (auto simp: summarized_plan_def plan_written_def eqs_ok)
    have "wp (execute_sources tools rq p) (\<lambda>_. summarized_plan (as_approved rq)) (summarized_plan (as_approved rq)) l"
      by (rule only_wp [where I = "summarized_plan (as_approved rq)", OF any_sources d]) (rule summarized_append)
    from wp_mono [OF this] show ?thesis
      using that(1) by (auto simp: sources_safe_def intro!: wp_retp)
  next
    case False
    then show ?thesis
      using that(1) by (auto simp: sources_safe_def execute_sources_def intro!: wp_retp wp_checkp)
  qed
  have "wp (update_sources tools rq) (\<lambda>_. sources_safe rq) (sources_safe rq) []"
    unfolding update_sources_def
    by (rule wp_bindp, rule wp_perform, rule wp_checkp, rule wp_bindp,
        rule wp_mono [OF wp_conj [OF only_wp [OF plan_keeps, where I = "list_all keeping"] wp_sources_planned]])
      (use run in \<open>simp_all add: sources_safe_keeping\<close>)
  then have "wp (update_sources tools rq) (\<lambda>_. sources_safe rq) (sources_safe rq) (log (start s))" by (simp add: start_def)
  from wp_always [OF this, of sv] show ?thesis by (simp add: sources_safe_def)
qed

end
