(* ===== verification/Proxy_Credentials.thy ===== *)
theory Proxy_Credentials
  imports Edge_Binding
begin

text \<open>
  The credentials of the administrators of the proxy, from \<open>scripts/proxy_credentials.py\<close>: the contract
  of a binding, the payloads for the backend, the checks of what the vault and the backend hold,
  and the provisioning, which can be interrupted at any point and started again; and from
  \<open>scripts/proxy_credentials_runtime.py\<close> the client of the backend (\<open>BackendAPI\<close>) and the reviewed
  plan over all bindings.  The vault, the HTTP session and the random token are clients.  A secret
  is a document with the fields of the vault's object and of its properties; \<open>get_secret\<close> replies
  \<open>null\<close> where the vault raises \<open>ResourceNotFoundError\<close>.  A response of the session is a document
  with its \<open>status_code\<close> and, where the body is JSON, \<open>json\<close>; a session that raises is \<open>Failure\<close>.
  The endpoint, the headers and the timeout are fixed for a run and left out of the call.
\<close>

section \<open>Contracts\<close>

definition binding_contract :: "sha \<Rightarrow> json \<Rightarrow> json \<Rightarrow> obj res" where
  "binding_contract sha config binding =
     check (conjr (eqs (sub (val binding) ''plane'') ''admin'') (in_strs (sub (val binding) ''role'') [''proxy_admin'', ''proxy_admin_viewer'']))
       ''Only backend administrators receive managed proxy credentials'' (
     bindr (sub (sub (val config) ''azure'') ''tenantId'') (\<lambda>tenant.
     bindr (credential_name sha tenant binding) (\<lambda>name.
     bindr (object_id tenant) (\<lambda>tenant_id.
     bindr (bindr (sub (val binding) ''oid'') object_id) (\<lambda>oid.
     bindr (str_of (sub (val binding) ''plane'')) (\<lambda>plane.
     bindr (str_of (sub (val binding) ''role'')) (\<lambda>role.
     bindr (sorted_of (sub (val binding) ''models'')) (\<lambda>models.
     bindr (dget0 (sub (val config) ''proxy'') ''nativeUi'') (\<lambda>native.
     bindr (if native = JBool True
            then mapr (\<lambda>read. [(''nativeUi'', JBool True), (''nativeAuditRead'', read)]) (dget (val binding) ''nativeAuditRead'' (JBool False))
            else val []) (\<lambda>extra.
     let contract = [(''tenantId'', JStr tenant_id), (''oid'', JStr oid), (''plane'', JStr plane), (''role'', JStr role),
           (''models'', strs models)] @ extra in
     val (contract @ [(''secretName'', JStr name), (''userId'', JStr (''llmgw-'' @ plane @ ''-'' @ drop 4 name)),
       (''bindingSha256'', JStr (fingerprint sha (JObj contract)))])))))))))))"

text \<open>A field of a contract, where the source subscripts it.\<close>

abbreviation part :: "obj \<Rightarrow> string \<Rightarrow> json res" where
  "part contract k \<equiv> sub (val (JObj contract)) k"

definition bound_metadata :: "json \<Rightarrow> json" where
  "bound_metadata digest = JObj [(''llmgw_binding'', digest)]"

definition user_payload :: "obj \<Rightarrow> json res" where
  "user_payload contract =
     bindr (part contract ''userId'') (\<lambda>user.
     bindr (part contract ''role'') (\<lambda>role.
     bindr (part contract ''models'') (\<lambda>models.
     bindr (part contract ''bindingSha256'') (\<lambda>digest.
     val (JObj [(''user_id'', user), (''user_role'', role), (''models'', models), (''auto_create_key'', JBool False),
       (''send_invite_email'', JBool False), (''metadata'', bound_metadata digest)])))))"

definition NATIVE_READ :: "string list" where
  "NATIVE_READ =
     [''/user/info'', ''/v2/user/info'', ''/user/available_users'', ''/user/available_roles'', ''/user/list'', ''/key/list'', ''/team/list'',
      ''/v2/team/list'', ''/organization/list'', ''/project/list'', ''/tag/list'', ''/models'', ''/model/info'', ''/v2/model/info'',
      ''/health/services'', ''/health/license'', ''/health/readiness/details'', ''/get/ui_settings'', ''/get/ui_theme_settings'',
      ''/get/user_banner'', ''/sso/get/ui_settings'']"

definition NATIVE_LOOKUP :: "string list" where
  "NATIVE_LOOKUP = [''/v2/key/info'']"

definition NATIVE_AUDIT :: "string list" where
  "NATIVE_AUDIT = [''/spend/logs/ui'', ''/spend/logs/ui/{request_id}'', ''/spend/logs/session/ui'']"

definition key_routes :: "obj \<Rightarrow> string list res" where
  "key_routes contract =
     check (eqs (part contract ''plane'') ''admin'') ''API vkeys are managed directly in LiteLLM'' (
     bindr (eqs (part contract ''role'') ''proxy_admin'') (\<lambda>admin.
     let routes = [''/model/info'', ''/team/info'', ''/key/info''] @ (if admin then [''/key/block'', ''/key/unblock''] else []) in
     bindr (is_true (dget0 (val (JObj contract)) ''nativeUi'')) (\<lambda>native.
     if \<not> native then val routes
     else bindr (is_true (dget0 (val (JObj contract)) ''nativeAuditRead'')) (\<lambda>audit.
       val (sort (remdups (routes @ NATIVE_READ @ NATIVE_LOOKUP @ (if audit then NATIVE_AUDIT else []))))))))"

definition key_payload :: "obj \<Rightarrow> json \<Rightarrow> json res" where
  "key_payload contract value =
     bindr (key_routes contract) (\<lambda>routes.
     bindr (part contract ''secretName'') (\<lambda>alias.
     bindr (part contract ''userId'') (\<lambda>user.
     bindr (part contract ''models'') (\<lambda>models.
     bindr (part contract ''bindingSha256'') (\<lambda>digest.
     val (JObj [(''key'', value), (''key_alias'', alias), (''user_id'', user), (''models'', models), (''metadata'', bound_metadata digest),
       (''key_type'', JStr ''default''), (''allowed_routes'', strs routes), (''auto_rotate'', JBool False)]))))))"

section \<open>Checks\<close>

text \<open>\<open>v or d\<close>\<close>

definition or_else :: "json res \<Rightarrow> json \<Rightarrow> json res" where
  "or_else e d = mapr (\<lambda>v. if truth v then v else d) e"

definition bound_to :: "obj \<Rightarrow> json \<Rightarrow> bool res" where
  "bound_to contract v = eqr (dget0 (or_else (dget0 (val v) ''metadata'') (JObj [])) ''llmgw_binding'') (part contract ''bindingSha256'')"

definition same_models :: "obj \<Rightarrow> json \<Rightarrow> bool res" where
  "same_models contract v = eqr (mapr strs (sorted_of (dget (val v) ''models'' (JList [])))) (part contract ''models'')"

definition unset_all :: "string list \<Rightarrow> json \<Rightarrow> bool res" where
  "unset_all names v = all_res (\<lambda>k. testr (Not \<circ> truth) (dget0 (val v) k)) names"

definition validate_user :: "obj \<Rightarrow> json \<Rightarrow> unit res" where
  "validate_user contract user =
     (if user = JNull then val ()
      else
      check (allr [eqr (dget0 (val user) ''user_id'') (part contract ''userId''), eqr (dget0 (val user) ''user_role'') (part contract ''role''),
                   same_models contract user, bound_to contract user])
        ''Existing backend user does not match the approved identity/role/models'' (
      check (unset_all [''teams'', ''organization_memberships''] user)
        ''Managed proxy user must not inherit unexpected team or organization privileges'' (val ())))"

definition validate_key :: "obj \<Rightarrow> json \<Rightarrow> json \<Rightarrow> unit res" where
  "validate_key contract info value =
     (if info = JNull then val ()
      else
      bindr (key_payload contract value) (\<lambda>expected.
      check (allr [eqr (dget0 (val info) ''user_id'') (part contract ''userId''), same_models contract info,
                   eqr (dget0 (val info) ''key_alias'') (part contract ''secretName''), bound_to contract info])
        ''Existing backend key does not match the approved identity/models'' (
      check (unset_all [''blocked'', ''team_id'', ''organization_id'', ''expires'', ''auto_rotate''] info)
        ''Backend key is blocked, expires or belongs to an unexpected scope; no automatic override'' (
      check (bindr (sorted_of (or_else (dget0 (val info) ''allowed_routes'') (JList []))) (\<lambda>actual.
             bindr (sorted_of (sub (val expected) ''allowed_routes'')) (\<lambda>wanted. val (actual = wanted))))
        ''Backend key route permissions differ from the approved plane'' (val ())))))"

section \<open>The clients\<close>

definition client_call :: "string \<Rightarrow> json list \<Rightarrow> ('s, json) proc" where
  "client_call operation arguments =
     bindp (perform (Client operation arguments)) (\<lambda>r. case r of
       Json v \<Rightarrow> retp v | Text t \<Rightarrow> retp (JStr t) | Failure \<Rightarrow> failp (RuntimeError operation))"

text \<open>\<open>BackendAPI\<close>: the check of the endpoint, the four routes, and the operations.\<close>

definition LOOPBACK :: rx where
  "LOOPBACK = cat [lit ''http://127.0.0.1:'', plus1 (Cls is_digit)]"

definition backend_endpoint :: "string \<Rightarrow> unit res" where
  "backend_endpoint endpoint = check (val (rmatch LOOPBACK endpoint)) ''Bootstrap backend must use a loopback-only AKS tunnel'' (val ())"

definition BACKEND_ROUTES :: "(string \<times> string) list" where
  "BACKEND_ROUTES = [(''GET'', ''/user/info''), (''GET'', ''/key/info''), (''POST'', ''/user/new''), (''POST'', ''/key/generate'')]"

definition API_FAILED :: string where
  "API_FAILED = ''Backend credential API failed; replan to inspect possible partial results''"

definition response_body :: "string \<Rightarrow> reply \<Rightarrow> ('s, json) proc" where
  "response_body verb r =
     (case r of
        Json response \<Rightarrow>
          letp (sub (val response) ''status_code'') (\<lambda>status.
          if verb = ''GET'' \<and> status = JInt 404 then retp JNull
          else checkp (val (status = JInt 200)) ''Backend credential API rejected the operation; pending state retained for review'' (
               case sub (val response) ''json'' of Inr body \<Rightarrow> retp body | Inl _ \<Rightarrow> failp (MigrationError API_FAILED)))
      | _ \<Rightarrow> failp (MigrationError API_FAILED))"

definition backend_request :: "string \<Rightarrow> string \<Rightarrow> json \<Rightarrow> json \<Rightarrow> ('s, json) proc" where
  "backend_request verb route data params =
     checkp (val ((verb, route) \<in> set BACKEND_ROUTES)) ''Backend bootstrap route is not allowed'' (
     bindp (perform (Client ''session.request'' [JStr verb, JStr route, data, params])) (response_body verb))"

text \<open>\<open>result[k] if result else None\<close>\<close>

definition body_member :: "string \<Rightarrow> json \<Rightarrow> json res" where
  "body_member k result = (if truth result then sub (val result) k else val JNull)"

definition backend_user_info :: "json \<Rightarrow> ('s, json) proc" where
  "backend_user_info user =
     bindp (backend_request ''GET'' ''/user/info'' JNull (JObj [(''user_id'', user)])) (\<lambda>result. letp (body_member ''user_info'' result) retp)"

definition backend_key_info :: "string \<Rightarrow> ('s, json) proc" where
  "backend_key_info digest =
     checkp (val (rmatch (times 64 64 hexlow) digest)) ''Key lookup must use a digest, never a raw credential'' (
     bindp (backend_request ''GET'' ''/key/info'' JNull (JObj [(''key'', JStr digest)])) (\<lambda>result. letp (body_member ''info'' result) retp))"

definition backend_create_user :: "json \<Rightarrow> ('s, unit) proc" where
  "backend_create_user payload = bindp (backend_request ''POST'' ''/user/new'' payload JNull) (\<lambda>_. retp ())"

definition backend_create_key :: "json \<Rightarrow> ('s, unit) proc" where
  "backend_create_key payload = bindp (backend_request ''POST'' ''/key/generate'' payload JNull) (\<lambda>_. retp ())"

text \<open>The key of a secret is looked up by its digest.\<close>

definition key_info :: "sha \<Rightarrow> json \<Rightarrow> ('s, json) proc" where
  "key_info sha value = letp (str_of (val value)) (\<lambda>v. backend_key_info (sha v))"

definition user_info :: "obj \<Rightarrow> ('s, json) proc" where
  "user_info contract = letp (part contract ''userId'') backend_user_info"

section \<open>Inspection\<close>

definition check_secret :: "obj \<Rightarrow> json \<Rightarrow> json res" where
  "check_secret contract secret =
     bindr (or_else (sub (val secret) ''tags'') (JObj [])) (\<lambda>tags.
     check (allr [is_true (sub (val secret) ''enabled''), testr (\<lambda>v. v = JNull) (sub (val secret) ''expires_on''),
                  eqr (dget0 (val tags) ''llmgw-binding'') (part contract ''bindingSha256''),
                  in_strs (dget0 (val tags) ''llmgw-state'') [''pending'', ''ready'']])
       ''Proxy key secret is unmanaged, expired or bound to different privileges'' (
     check (testr (\<lambda>v. case v of JStr s \<Rightarrow> starts_with s ''sk-'' \<and> 40 \<le> length s | _ \<Rightarrow> False) (sub (val secret) ''value''))
       ''Invalid stored proxy key'' (val tags)))"

definition secret_summary :: "json \<Rightarrow> json res" where
  "secret_summary secret =
     (if secret = JNull then val JNull
      else
      bindr (sub (val secret) ''id'') (\<lambda>i.
      bindr (sub (val secret) ''version'') (\<lambda>v.
      bindr (sub (sub (val secret) ''tags'') ''llmgw-state'') (\<lambda>state.
      val (JObj [(''id'', i), (''version'', v), (''state'', state)])))))"

definition stored_key :: "sha \<Rightarrow> obj \<Rightarrow> json \<Rightarrow> ('s, json) proc" where
  "stored_key sha contract secret =
     (if secret = JNull then retp JNull
      else
      letp (check_secret contract secret) (\<lambda>tags.
      letp (sub (val secret) ''value'') (\<lambda>value.
      bindp (key_info sha value) (\<lambda>key.
      letp (validate_key contract key value) (\<lambda>_.
      checkp (disjr (negr (eqs (sub (val tags) ''llmgw-state'') ''ready'')) (val (key \<noteq> JNull)))
        ''Previously initialized backend key is missing; do not recreate a revoked key'' (retp key))))))"

definition inspect_binding :: "sha \<Rightarrow> json \<Rightarrow> json \<Rightarrow> ('s, obj \<times> json \<times> obj) proc" where
  "inspect_binding sha config binding =
     letp (binding_contract sha config binding) (\<lambda>contract.
     letp (part contract ''secretName'') (\<lambda>name.
     bindp (client_call ''get_secret'' [name]) (\<lambda>secret.
     bindp (stored_key sha contract secret) (\<lambda>key.
     bindp (user_info contract) (\<lambda>user.
     letp (validate_user contract user) (\<lambda>_.
     checkp (val (key = JNull \<or> user \<noteq> JNull)) ''Backend credential has no matching user'' (
     letp (secret_summary secret) (\<lambda>summary.
     retp (contract, secret, [(''contract'', JObj contract), (''secret'', summary), (''userExists'', JBool (user \<noteq> JNull)),
       (''keyExists'', JBool (key \<noteq> JNull))])))))))))"

section \<open>Provisioning\<close>

definition state_tags :: "obj \<Rightarrow> string \<Rightarrow> json res" where
  "state_tags contract state =
     mapr (\<lambda>digest. JObj [(''llmgw-binding'', digest), (''llmgw-state'', JStr state)]) (part contract ''bindingSha256'')"

definition new_secret :: "obj \<Rightarrow> ('s, json) proc" where
  "new_secret contract =
     bindp (client_call ''token_urlsafe'' [JInt 48]) (\<lambda>token.
     letp (prefixed ''sk-'' (val token)) (\<lambda>value.
     letp (part contract ''secretName'') (\<lambda>name.
     letp (state_tags contract ''pending'') (\<lambda>tags.
     bindp (client_call ''set_secret'' [name, JStr value, tags]) (\<lambda>item.
     checkp (eqs (sub (val item) ''value'') value) ''Proxy key storage verification failed'' (retp item))))))"

definition mark_ready :: "obj \<Rightarrow> json \<Rightarrow> ('s, unit) proc" where
  "mark_ready contract item =
     letp (eqs (dget0 (or_else (sub (val item) ''tags'') (JObj [])) ''llmgw-state'') ''ready'') (\<lambda>ready.
     whenp (\<not> ready) (
       letp (part contract ''secretName'') (\<lambda>name.
       letp (sub (val item) ''version'') (\<lambda>version_id.
       letp (state_tags contract ''ready'') (\<lambda>tags.
       bindp (client_call ''update_secret_properties'' [name, version_id, tags]) (\<lambda>_. retp ()))))))"

definition final_check :: "json \<Rightarrow> json \<Rightarrow> obj \<Rightarrow> bool res" where
  "final_check item verified summary =
     allr [eqs (sub (sub (val (JObj summary)) ''secret'') ''state'') ''ready'',
           eqr (sub (val verified) ''version'') (sub (val item) ''version''), eqr (sub (val verified) ''value'') (sub (val item) ''value'')]"

definition ensure_user :: "obj \<Rightarrow> obj \<Rightarrow> ('s, unit) proc" where
  "ensure_user contract before =
     letp (sub (val (JObj before)) ''userExists'') (\<lambda>exists.
     thenp (whenp (\<not> truth exists) (
       letp (user_payload contract) backend_create_user)) (
     bindp (user_info contract) (\<lambda>user. letp (validate_user contract user) (\<lambda>_. retp ()))))"

definition ensure_key :: "sha \<Rightarrow> obj \<Rightarrow> json \<Rightarrow> ('s, unit) proc" where
  "ensure_key sha contract value =
     bindp (key_info sha value) (\<lambda>found_key.
     thenp (whenp (found_key = JNull) (
       letp (key_payload contract value) backend_create_key)) (
     bindp (key_info sha value) (\<lambda>info.
     checkp (val (info \<noteq> JNull)) ''Backend did not confirm the credential; pending Vault value retained for replan'' (
     letp (validate_key contract info value) (\<lambda>_. retp ())))))"

definition provision_binding :: "sha \<Rightarrow> json \<Rightarrow> json \<Rightarrow> ('s, obj) proc" where
  "provision_binding sha config binding =
     bindp (inspect_binding sha config binding) (\<lambda>(contract, secret, before).
     bindp (if secret = JNull then new_secret contract else retp secret) (\<lambda>item.
     letp (sub (val item) ''value'') (\<lambda>value.
     thenp (ensure_user contract before) (
     thenp (ensure_key sha contract value) (
     thenp (mark_ready contract item) (
     bindp (inspect_binding sha config binding) (\<lambda>(_, verified, summary).
     checkp (final_check item verified summary) ''Proxy credential final verification failed'' (retp summary))))))))"

definition credential_bindings :: "json \<Rightarrow> json list res" where
  "credential_bindings config =
     bindr (iter (bindr (proxy_settings config) (\<lambda>s. sub (val s) ''bindings''))) (\<lambda>bindings.
     filter_res (\<lambda>item. allr [eqs (sub (val item) ''plane'') ''admin'', negr (eqs (sub (val item) ''role'') ''audit_reader''),
       testr (Not \<circ> truth) (dget (val item) ''disabled'' (JBool False))]) bindings)"

section \<open>The reviewed plan\<close>

text \<open>\<open>binding_plan\<close>: every binding is inspected, the plan is written for review, and an approved run inspects
  each binding again before it provisions it.\<close>

definition binding_summary :: "sha \<Rightarrow> json \<Rightarrow> json \<Rightarrow> ('s, json) proc" where
  "binding_summary sha config binding =
     bindp (inspect_binding sha config binding) (\<lambda>(_, _, summary). retp (JObj summary))"

definition initialize_binding :: "sha \<Rightarrow> json \<Rightarrow> json \<times> json \<Rightarrow> ('s, json) proc" where
  "initialize_binding sha config p =
     bindp (binding_summary sha config (fst p)) (\<lambda>now.
     checkp (val (py_eq now (snd p))) ''Proxy credential state changed during initialization'' (
     bindp (provision_binding sha config (fst p)) (\<lambda>summary. retp (JObj summary))))"

definition credential_plan :: "json \<Rightarrow> string \<Rightarrow> json list \<Rightarrow> json \<Rightarrow> json" where
  "credential_plan revision digest before scope_doc =
     JObj [(''stage'', JInt 7), (''action'', JStr ''proxy-credentials''), (''revision'', revision), (''configSha256'', JStr digest),
       (''before'', JList before), (''scope'', scope_doc)]"

definition credential_summary :: "string \<Rightarrow> obj" where
  "credential_summary digest =
     [(''stage'', JInt 7), (''action'', JStr ''proxy-credentials''), (''planSha256'', JStr digest), (''stageAccepted'', JBool False)]"

definition credential_binding_plan :: "sha \<Rightarrow> json \<Rightarrow> string \<Rightarrow> json \<Rightarrow> string \<Rightarrow> json \<Rightarrow> ('s, obj) proc" where
  "credential_binding_plan sha config operation revision approved scope_doc =
     checkp (val (operation \<in> {''plan'', ''execute''})) ''Invalid proxy credential operation'' (
     letp (credential_bindings config) (\<lambda>bindings.
     bindp (mapp (binding_summary sha config) bindings) (\<lambda>before.
     letp (stage_fingerprint sha config 7) (\<lambda>digest.
     let plan = credential_plan revision digest before scope_doc; summary = credential_summary (fingerprint sha plan) in
     thenp (private_write ''runtime-review.json'' plan) (
     thenp (private_write ''runtime-summary.json'' (JObj summary)) (
     if operation = ''plan'' then retp summary
     else checkp (val (fingerprint sha plan = approved)) ''Proxy credential plan changed or was not approved'' (
       bindp (mapp (initialize_binding sha config) (zip bindings before)) (\<lambda>summaries.
       retp (summary @ [(''initialized'', JBool True), (''bindings'', JList summaries)])))))))))"

section \<open>Only an approved run writes\<close>

text \<open>A call that changes a secret, a user or a key.\<close>

fun credential_write :: "event \<Rightarrow> bool" where
  "credential_write (Client operation arguments, r) =
     (operation \<in> {''set_secret'', ''update_secret_properties''} \<or> operation = ''session.request'' \<and> take 1 arguments \<noteq> [JStr ''GET''])"
| "credential_write _ = False"

abbreviation reading :: "event \<Rightarrow> bool" where
  "reading e \<equiv> \<not> credential_write e"

lemma only_response_body: "only P (response_body verb r)"
  unfolding response_body_def by (auto intro!: only_intros split: reply.split sum.split)

lemma backend_info_reads: "only reading (backend_user_info user)" "only reading (backend_key_info digest)"
  unfolding backend_user_info_def backend_key_info_def backend_request_def
  by (intro only_intros only_response_body; simp)+

lemma client_reads: "operation \<in> {''get_secret'', ''token_urlsafe''} \<Longrightarrow> only reading (client_call operation arguments)"
  unfolding client_call_def by (auto intro!: only_intros split: reply.split)

lemma inspect_reads: "only reading (inspect_binding sha config binding)"
  unfolding inspect_binding_def stored_key_def user_info_def key_info_def
  by (intro only_intros client_reads backend_info_reads insertI1)

lemma summary_reads: "only reading (binding_summary sha config binding)"
  unfolding binding_summary_def by (intro only_intros inspect_reads)

text \<open>A document that was written for review and has the approved hash.\<close>

definition reviewed :: "sha \<Rightarrow> string \<Rightarrow> event list \<Rightarrow> bool" where
  "reviewed sha approved l \<longleftrightarrow> (\<exists>plan r. approved = fingerprint sha plan \<and> (WriteFile ''runtime-review.json'' plan, r) \<in> set l)"

lemma reviewedI: "approved = fingerprint sha plan \<Longrightarrow> (WriteFile ''runtime-review.json'' plan, r) \<in> set l \<Longrightarrow> reviewed sha approved l"
  by (auto simp: reviewed_def)

definition credentials_safe :: "sha \<Rightarrow> string \<Rightarrow> string \<Rightarrow> event list \<Rightarrow> bool" where
  "credentials_safe sha operation approved l \<longleftrightarrow> list_all reading l \<or> operation = ''execute'' \<and> reviewed sha approved l"

lemma only_any_client: "only (\<lambda>_. True) (client_call operation arguments)" "only (\<lambda>_. True) (backend_request verb route data params)"
  unfolding client_call_def backend_request_def by (auto intro!: only_intros only_response_body split: reply.split)

lemma any_initialize: "only (\<lambda>_. True) (initialize_binding sha config p)"
  unfolding initialize_binding_def provision_binding_def new_secret_def ensure_user_def ensure_key_def mark_ready_def user_info_def key_info_def
    backend_user_info_def backend_key_info_def backend_create_user_def backend_create_key_def
  by (intro only_intros only_any_client only_mono [OF summary_reads] only_mono [OF inspect_reads] TrueI)

text \<open>
  A run over the bindings sets no secret and sends the backend nothing but reads, or it is an \<open>execute\<close> run whose
  approved hash is that of the plan it has just written for review.
\<close>

theorem credential_writes_are_approved:
  "credentials_safe sha operation approved (log (snd (credential_binding_plan sha config operation revision approved scope_doc sv (start s))))"
proof -
  let ?S = "credentials_safe sha operation approved"
  have quiet: "credentials_safe sha o' approved l" if "list_all reading l" for o' l using that by (simp add: credentials_safe_def)
  have approved_run: "wp (mapp (initialize_binding sha config) ps) (\<lambda>_. ?S) ?S l" if "operation = ''execute''" "reviewed sha approved l" for ps l
  proof -
    have "wp (mapp (initialize_binding sha config) ps) (\<lambda>_. reviewed sha approved) (reviewed sha approved) l"
      by (rule only_wp [where P = "\<lambda>_. True" and I = "reviewed sha approved", OF _ that(2)])
        (auto simp: reviewed_def intro: only_mapp any_initialize)
    then show ?thesis by (rule wp_mono) (simp_all add: credentials_safe_def that(1))
  qed
  have plan: "wp (mapp (binding_summary sha config) bs) (\<lambda>_. list_all reading) (list_all reading) []" for bs
    by (rule only_wp [where P = reading]) (auto intro!: only_intros summary_reads)
  have "wp (credential_binding_plan sha config operation revision approved scope_doc) (\<lambda>_. ?S) ?S []"
    unfolding credential_binding_plan_def Let_def
    by (rule wp_checkp, rule wp_letp, rule wp_bindp, rule wp_mono [OF plan])
      (auto intro!: wp_letp wp_thenp wp_private_write wp_if wp_retp wp_checkp wp_bindp wp_mono [OF approved_run] quiet intro: reviewedI simp: quiet)
  then have "wp (credential_binding_plan sha config operation revision approved scope_doc) (\<lambda>_. ?S) ?S (log (start s))" by (simp add: start_def)
  from wp_always [OF this, of sv] show ?thesis .
qed

end
