(* ===== verification/Credential_Recovery.thy ===== *)
theory Credential_Recovery
  imports Proxy_Credentials
begin

text \<open>
  The provisioning of a credential recovers from every interruption.  The vault, the backend and
  the source of random tokens are any service that keeps to its documented behaviour; each call of
  it may fail before it has an effect or after it.  A run leaves a state from which the next run
  goes on, and a run in which no call fails completes.
\<close>

section \<open>What the services document\<close>

text \<open>What the services hold: the secrets of the vault by name, and what the backend tells of its
  users by identity and of its keys by digest.\<close>

record store =
  st_secrets :: "string \<rightharpoonup> json"
  st_users :: "string \<rightharpoonup> json"
  st_keys :: "string \<rightharpoonup> json"

definition field :: "json \<Rightarrow> string \<Rightarrow> json" where
  "field v k = (case v of JObj kv \<Rightarrow> lookup_or kv k JNull | _ \<Rightarrow> JNull)"

definition name_in :: "json \<Rightarrow> string" where
  "name_in v = (case v of JStr s \<Rightarrow> s | _ \<Rightarrow> [])"

definition found_in :: "json option \<Rightarrow> json" where
  "found_in x = (case x of Some v \<Rightarrow> v | None \<Rightarrow> JNull)"

text \<open>A secret that was set with a value and tags is enabled, does not expire, and has an identifier and a
  version; an update of its properties changes the tags.\<close>

definition secret_item :: "string \<Rightarrow> json \<Rightarrow> json \<Rightarrow> bool" where
  "secret_item v tags item \<longleftrightarrow>
     (\<exists>kv i n. item = JObj kv \<and> map_of kv ''value'' = Some (JStr v) \<and> map_of kv ''id'' = Some (JStr i) \<and>
        map_of kv ''version'' = Some (JStr n) \<and> map_of kv ''enabled'' = Some (JBool True) \<and>
        map_of kv ''expires_on'' = Some JNull \<and> map_of kv ''tags'' = Some tags)"

definition retagged :: "json \<Rightarrow> json \<Rightarrow> json \<Rightarrow> bool" where
  "retagged old tags item \<longleftrightarrow>
     (\<exists>kv kv'. old = JObj kv \<and> item = JObj kv' \<and> map_of kv' ''tags'' = Some tags \<and>
        (\<forall>k \<in> {''value'', ''id'', ''version'', ''enabled'', ''expires_on''}. map_of kv' k = map_of kv k))"

text \<open>What the backend tells of a user or a key has the fields that were given, and a scope or limit that
  was not given is unset.\<close>

definition tells :: "string list \<Rightarrow> string list \<Rightarrow> json \<Rightarrow> json \<Rightarrow> bool" where
  "tells same unset payload doc \<longleftrightarrow>
     (\<exists>kv md. doc = JObj kv \<and> (\<forall>k \<in> set same. map_of kv k = Some (field payload k)) \<and>
        map_of kv ''metadata'' = Some (JObj md) \<and> map_of md ''llmgw_binding'' = Some (field (field payload ''metadata'') ''llmgw_binding'') \<and>
        (\<forall>k \<in> set unset. \<not> truth (field payload k) \<longrightarrow> \<not> truth (lookup_or kv k JNull)))"

definition tells_user :: "json \<Rightarrow> json \<Rightarrow> bool" where
  "tells_user = tells [''user_id'', ''user_role'', ''models''] [''teams'', ''organization_memberships'']"

definition tells_key :: "json \<Rightarrow> json \<Rightarrow> bool" where
  "tells_key = tells [''user_id'', ''models'', ''key_alias'', ''allowed_routes'']
     [''blocked'', ''team_id'', ''organization_id'', ''expires'', ''auto_rotate'']"

text \<open>Responses of the HTTP session.\<close>

abbreviation http :: "string \<Rightarrow> string \<Rightarrow> json \<Rightarrow> json \<Rightarrow> call" where
  "http verb route data params \<equiv> Client ''session.request'' [JStr verb, JStr route, data, params]"

definition answered :: "json \<Rightarrow> reply \<Rightarrow> bool" where
  "answered body r \<longleftrightarrow>
     (\<exists>response. r = Json response \<and> sub (val response) ''status_code'' = val (JInt 200) \<and> sub (val response) ''json'' = val body)"

definition unknown :: "reply \<Rightarrow> bool" where
  "unknown r \<longleftrightarrow> (\<exists>response. r = Json response \<and> sub (val response) ''status_code'' = val (JInt 404))"

text \<open>The documented effect and reply of each call of the provisioning, as a step relation.  A user or
  a key that is unknown is a 404; a new token has at least 37 characters, and no key of the
  backend has its digest yet.\<close>

inductive provides :: "sha \<Rightarrow> call \<Rightarrow> store \<Rightarrow> reply \<Rightarrow> store \<Rightarrow> bool" for sha where
  get_secret: "provides sha (Client ''get_secret'' [JStr n]) s (Json (found_in (st_secrets s n))) s"
| new_token: "37 \<le> length t \<Longrightarrow> st_keys s (sha (''sk-'' @ t)) = None \<Longrightarrow> provides sha (Client ''token_urlsafe'' [JInt 48]) s (Text t) s"
| set_secret: "secret_item v tags item \<Longrightarrow>
    provides sha (Client ''set_secret'' [JStr n, JStr v, tags]) s (Json item) (s\<lparr>st_secrets := (st_secrets s)(n \<mapsto> item)\<rparr>)"
| update_secret: "st_secrets s n = Some old \<Longrightarrow> field old ''version'' = ver \<Longrightarrow> retagged old tags item \<Longrightarrow>
    provides sha (Client ''update_secret_properties'' [JStr n, ver, tags]) s (Json v) (s\<lparr>st_secrets := (st_secrets s)(n \<mapsto> item)\<rparr>)"
| user_known: "st_users s u = Some doc \<Longrightarrow> sub (val body) ''user_info'' = val doc \<Longrightarrow> answered body r \<Longrightarrow>
    provides sha (http ''GET'' ''/user/info'' JNull (JObj [(''user_id'', JStr u)])) s r s"
| user_unknown: "st_users s u = None \<Longrightarrow> unknown r \<Longrightarrow>
    provides sha (http ''GET'' ''/user/info'' JNull (JObj [(''user_id'', JStr u)])) s r s"
| key_known: "st_keys s d = Some doc \<Longrightarrow> sub (val body) ''info'' = val doc \<Longrightarrow> answered body r \<Longrightarrow>
    provides sha (http ''GET'' ''/key/info'' JNull (JObj [(''key'', JStr d)])) s r s"
| key_unknown: "st_keys s d = None \<Longrightarrow> unknown r \<Longrightarrow>
    provides sha (http ''GET'' ''/key/info'' JNull (JObj [(''key'', JStr d)])) s r s"
| create_user: "field payload ''user_id'' = JStr u \<Longrightarrow> st_users s u = None \<Longrightarrow> tells_user payload doc \<Longrightarrow> answered body r \<Longrightarrow>
    provides sha (http ''POST'' ''/user/new'' payload JNull) s r (s\<lparr>st_users := (st_users s)(u \<mapsto> doc)\<rparr>)"
| create_key: "field payload ''key'' = JStr v \<Longrightarrow> st_keys s (sha v) = None \<Longrightarrow> tells_key payload doc \<Longrightarrow> answered body r \<Longrightarrow>
    provides sha (http ''POST'' ''/key/generate'' payload JNull) s r (s\<lparr>st_keys := (st_keys s)(sha v \<mapsto> doc)\<rparr>)"

inductive_simps provides_simps:
  "provides sha (Client ''get_secret'' [a]) s r u"
  "provides sha (Client ''token_urlsafe'' [a]) s r u"
  "provides sha (Client ''set_secret'' [a, b, c]) s r u"
  "provides sha (Client ''update_secret_properties'' [a, b, c]) s r u"
  "provides sha (http ''GET'' ''/user/info'' a b) s r u"
  "provides sha (http ''GET'' ''/key/info'' a b) s r u"
  "provides sha (http ''POST'' ''/user/new'' a b) s r u"
  "provides sha (http ''POST'' ''/key/generate'' a b) s r u"

text \<open>A call that fails: the client raises, or the response has another status or no JSON body.\<close>

definition refused :: "call \<Rightarrow> reply \<Rightarrow> bool" where
  "refused c r \<longleftrightarrow>
     (\<exists>arguments. c = Client ''session.request'' arguments \<and> \<not> (\<exists>body. answered body r) \<and>
        \<not> (\<exists>rest. arguments = JStr ''GET'' # rest \<and> unknown r)) \<or>
     r = Failure"

text \<open>A service keeps to the documentation if a call that is described has its effect and reply, or fails
  with the effect or without it.  \<open>view\<close> is what the state of the service says of the credentials.\<close>

definition offered :: "sha \<Rightarrow> call \<Rightarrow> store \<Rightarrow> bool" where
  "offered sha c s \<longleftrightarrow> (\<exists>r u. provides sha c s r u)"

definition keeps_credentials :: "sha \<Rightarrow> 's service \<Rightarrow> ('s \<Rightarrow> store) \<Rightarrow> bool" where
  "keeps_credentials sha sv view \<longleftrightarrow>
     (\<forall>c x r y. offered sha c (view x) \<longrightarrow> sv c x = (r, y) \<longrightarrow>
        (if refused c r then view y = view x \<or> (\<exists>r'. provides sha c (view x) r' (view y))
         else provides sha c (view x) r (view y)))"

definition never_refuses :: "sha \<Rightarrow> 's service \<Rightarrow> ('s \<Rightarrow> store) \<Rightarrow> bool" where
  "never_refuses sha sv view \<longleftrightarrow> (\<forall>c x. offered sha c (view x) \<longrightarrow> \<not> refused c (fst (sv c x)))"

section \<open>Runs that may be interrupted\<close>

text \<open>From a state that shows \<open>s\<close>, \<open>p\<close> returns with \<open>Q\<close>, or a call failed and \<open>I\<close> holds of what was left.\<close>

definition runs :: "(store \<Rightarrow> bool) \<Rightarrow> sha \<Rightarrow> 's service \<Rightarrow> ('s \<Rightarrow> store) \<Rightarrow> store \<Rightarrow> ('s, 'a) proc \<Rightarrow> ('a \<Rightarrow> store \<Rightarrow> bool) \<Rightarrow> bool" where
  "runs I sha sv view s p Q \<longleftrightarrow>
     (\<forall>w r w'. view (ext w) = s \<longrightarrow> p sv w = (r, w') \<longrightarrow>
        (case r of Inr x \<Rightarrow> Q x (view (ext w')) | Inl e \<Rightarrow> \<not> never_refuses sha sv view \<and> I (view (ext w'))))"

lemma runs_retp: "Q x s \<Longrightarrow> runs I sha sv view s (retp x) Q"
  by (simp add: runs_def retp_def)

lemma runs_bindp:
  assumes m: "runs I sha sv view s m R" and f: "\<And>y u. R y u \<Longrightarrow> runs I sha sv view u (f y) Q"
  shows "runs I sha sv view s (bindp m f) Q"
  unfolding runs_def
proof (intro allI impI)
  fix w r w'
  assume w: "view (ext w) = s" and run: "bindp m f sv w = (r, w')"
  obtain r1 w1 where m1: "m sv w = (r1, w1)" by (cases "m sv w")
  have one: "case r1 of Inr x \<Rightarrow> R x (view (ext w1)) | Inl e \<Rightarrow> \<not> never_refuses sha sv view \<and> I (view (ext w1))"
    using m w m1 unfolding runs_def by blast
  show "case r of Inr x \<Rightarrow> Q x (view (ext w')) | Inl e \<Rightarrow> \<not> never_refuses sha sv view \<and> I (view (ext w'))"
  proof (cases r1)
    case (Inl e)
    then show ?thesis using run one m1 by (auto simp: bindp_def)
  next
    case (Inr y)
    then have "runs I sha sv view (view (ext w1)) (f y) Q" using f one by simp
    then show ?thesis using run m1 Inr unfolding runs_def by (simp add: bindp_def)
  qed
qed

lemma runs_weaken: "runs I sha sv view s p R \<Longrightarrow> (\<And>y u. R y u \<Longrightarrow> Q y u) \<Longrightarrow> runs I sha sv view s p Q"
  unfolding runs_def by (fastforce split: sum.splits)

text \<open>A step with one result.\<close>

abbreviation goes :: "(store \<Rightarrow> bool) \<Rightarrow> sha \<Rightarrow> 's service \<Rightarrow> ('s \<Rightarrow> store) \<Rightarrow> store \<Rightarrow> ('s, 'a) proc \<Rightarrow> 'a \<Rightarrow> store \<Rightarrow> bool" where
  "goes I sha sv view s p x t \<equiv> runs I sha sv view s p (\<lambda>y u. y = x \<and> u = t)"

lemma goes_bindp: "goes I sha sv view s m y u \<Longrightarrow> runs I sha sv view u (f y) Q \<Longrightarrow> runs I sha sv view s (bindp m f) Q"
  by (rule runs_bindp [where R = "\<lambda>z v. z = y \<and> v = u"]) auto

lemma goes_letp: "r = Inr y \<Longrightarrow> runs I sha sv view s (f y) Q \<Longrightarrow> runs I sha sv view s (letp r f) Q"
  by (simp add: letp_def)

lemma goes_checkp: "c = Inr True \<Longrightarrow> runs I sha sv view s k Q \<Longrightarrow> runs I sha sv view s (checkp c msg k) Q"
  by (simp add: checkp_def)

lemma runs_thenp: "runs I sha sv view s m (\<lambda>_. R) \<Longrightarrow> (\<And>u. R u \<Longrightarrow> runs I sha sv view u k Q) \<Longrightarrow> runs I sha sv view s (thenp m k) Q"
  unfolding thenp_def by (rule runs_bindp)

lemma runs_whenp: "(b \<Longrightarrow> runs I sha sv view s m Q) \<Longrightarrow> (\<not> b \<Longrightarrow> Q () s) \<Longrightarrow> runs I sha sv view s (whenp b m) Q"
  by (simp add: whenp_def runs_retp)

text \<open>A call of a client, and a request of the backend.\<close>

lemma runs_perform:
  assumes keeps: "keeps_credentials sha sv view" and o: "offered sha c s" and "I s"
    and served: "\<And>r u. provides sha c s r u \<Longrightarrow> I u \<and> (\<not> refused c r \<longrightarrow> runs I sha sv view u (k r) Q)"
    and fails: "\<And>r. refused c r \<Longrightarrow> \<exists>e. k r = failp e"
  shows "runs I sha sv view s (bindp (perform c) k) Q"
  unfolding runs_def
proof (intro allI impI)
  fix w r w'
  assume w: "view (ext w) = s" and run: "bindp (perform c) k sv w = (r, w')"
  obtain a x where a: "sv c (ext w) = (a, x)" by (cases "sv c (ext w)")
  let ?w = "w\<lparr>ext := x, log := log w @ [(c, a)]\<rparr>"
  have k: "k a sv ?w = (r, w')" using run a by (simp add: bindp_def perform_def)
  have doc: "if refused c a then view x = s \<or> (\<exists>r'. provides sha c s r' (view x)) else provides sha c s a (view x)"
    using keeps o a w unfolding keeps_credentials_def by blast
  show "case r of Inr x \<Rightarrow> Q x (view (ext w')) | Inl e \<Rightarrow> \<not> never_refuses sha sv view \<and> I (view (ext w'))"
  proof (cases "refused c a")
    case True
    then obtain e where "k a = failp e" using fails by blast
    moreover have "I (view x)" using doc True served assms(3) by auto
    moreover have "\<not> never_refuses sha sv view" using True a o w unfolding never_refuses_def by (metis fst_conv)
    ultimately show ?thesis using k by (auto simp: failp_def)
  next
    case False
    then have go: "runs I sha sv view (view x) (k a) Q" using doc served by simp
    show ?thesis by (rule go [unfolded runs_def, rule_format, of ?w]) (simp_all add: k)
  qed
qed

lemma runs_client:
  assumes "keeps_credentials sha sv view" and "offered sha (Client operation arguments) s" and "I s"
    and "operation \<noteq> ''session.request''"
    and "\<And>r u. provides sha (Client operation arguments) s r u \<Longrightarrow>
      I u \<and> (case r of Json v \<Rightarrow> Q v u | Text v \<Rightarrow> Q (JStr v) u | Failure \<Rightarrow> False)"
  shows "runs I sha sv view s (client_call operation arguments) Q"
  unfolding client_call_def
  by (rule runs_perform [where I = I, OF assms(1-3)]) (use assms(4,5) in \<open>fastforce simp: refused_def intro: runs_retp split: reply.splits\<close>)+

lemma runs_request:
  assumes "keeps_credentials sha sv view" and "offered sha (http verb route data params) s" and "I s"
    and "(verb, route) \<in> set BACKEND_ROUTES"
    and "\<And>r u. provides sha (http verb route data params) s r u \<Longrightarrow>
      I u \<and> (unknown r \<longrightarrow> verb = ''GET'' \<longrightarrow> Q JNull u) \<and> (\<forall>body. answered body r \<longrightarrow> Q body u)"
  shows "runs I sha sv view s (backend_request verb route data params) Q"
  unfolding backend_request_def
proof (rule goes_checkp)
  show "runs I sha sv view s (bindp (perform (http verb route data params)) (response_body verb)) Q"
  proof (rule runs_perform [where I = I, OF assms(1-3)])
    fix r u
    assume r: "provides sha (http verb route data params) s r u"
    have "runs I sha sv view u (response_body verb r) Q" if ok: "\<not> refused (http verb route data params) r"
    proof -
      consider body where "answered body r" | "verb = ''GET''" "unknown r" using ok by (auto simp: refused_def)
      then show ?thesis
      proof cases
        case 1
        then show ?thesis
          using assms(5) [OF r] by (auto simp: response_body_def answered_def letp_def checkp_def intro!: runs_retp)
      next
        case 2
        then show ?thesis
          using assms(5) [OF r] by (auto simp: response_body_def unknown_def letp_def intro!: runs_retp)
      qed
    qed
    then show "I u \<and> (\<not> refused (http verb route data params) r \<longrightarrow> runs I sha sv view u (response_body verb r) Q)"
      using assms(5) [OF r] by blast
  next
    fix r
    assume "refused (http verb route data params) r"
    then show "\<exists>e. (response_body verb r :: ('a, json) proc) = failp e"
      by (auto simp: refused_def response_body_def answered_def unknown_def letp_def checkp_def split: reply.splits sum.splits)
  qed
qed (use assms(4) in simp)

section \<open>The parts of a contract\<close>

definition contract_parts :: "obj \<Rightarrow> string \<Rightarrow> string \<Rightarrow> string \<Rightarrow> string list \<Rightarrow> string \<Rightarrow> string list \<Rightarrow> bool" where
  "contract_parts c name user role models digest routes \<longleftrightarrow>
     map_of c ''secretName'' = Some (JStr name) \<and> map_of c ''userId'' = Some (JStr user) \<and> map_of c ''role'' = Some (JStr role) \<and>
     map_of c ''models'' = Some (strs models) \<and> sort models = models \<and> map_of c ''bindingSha256'' = Some (JStr digest) \<and>
     key_routes c = val routes"

lemma sort_strings: "sorted_of e = val ms \<Longrightarrow> sort ms = ms"
  by (auto simp: sorted_of_def bindr_ok mapr_ok sorted_sort_id)

lemma contract_shape:
  assumes "binding_contract sha config binding = val c"
  obtains name tenant oid plane role models native extra contract where
    "eqs (sub (val binding) ''plane'') ''admin'' = val True" "str_of (sub (val binding) ''plane'') = val plane"
    "sorted_of (sub (val binding) ''models'') = val models"
    "(if native = JBool True then mapr (\<lambda>read. [(''nativeUi'', JBool True), (''nativeAuditRead'', read)])
        (dget (val binding) ''nativeAuditRead'' (JBool False)) else val []) = val extra"
    "contract = [(''tenantId'', JStr tenant), (''oid'', JStr oid), (''plane'', JStr plane), (''role'', JStr role),
       (''models'', strs models)] @ extra"
    "c = contract @ [(''secretName'', JStr name), (''userId'', JStr (''llmgw-'' @ plane @ ''-'' @ drop 4 name)),
       (''bindingSha256'', JStr (fingerprint sha (JObj contract)))]"
  using assms
  apply (simp only: binding_contract_def check_ok conjr_ok bindr_ok Let_def)
  apply (elim exE conjE)
  apply (rule that)
       apply assumption
      apply assumption
     apply assumption
    apply assumption
   apply (rule refl)
  apply (drule sum.inject(2) [THEN iffD1])
  apply (erule sym)
  done

lemma extra_parts:
  assumes "(if native = JBool True then mapr (\<lambda>read. [(''nativeUi'', JBool True), (''nativeAuditRead'', read)]) e else val []) = val extra"
  shows "extra = [] \<or> (\<exists>r. extra = [(''nativeUi'', JBool True), (''nativeAuditRead'', r)])"
  using assms by (auto simp: mapr_ok split: if_splits)

lemma contract_has_parts:
  assumes "binding_contract sha config binding = val c"
  shows "\<exists>name user role models digest routes. contract_parts c name user role models digest routes"
proof (rule contract_shape [OF assms])
  fix name tenant oid plane role models native extra contract
  assume adm: "eqs (sub (val binding) ''plane'') ''admin'' = val True" "str_of (sub (val binding) ''plane'') = val plane"
    and m: "sorted_of (sub (val binding) ''models'') = val models"
    and x: "(if native = JBool True then mapr (\<lambda>read. [(''nativeUi'', JBool True), (''nativeAuditRead'', read)])
        (dget (val binding) ''nativeAuditRead'' (JBool False)) else val []) = val extra"
    and k: "contract = [(''tenantId'', JStr tenant), (''oid'', JStr oid), (''plane'', JStr plane), (''role'', JStr role),
       (''models'', strs models)] @ extra"
    and c: "c = contract @ [(''secretName'', JStr name), (''userId'', JStr (''llmgw-'' @ plane @ ''-'' @ drop 4 name)),
       (''bindingSha256'', JStr (fingerprint sha (JObj contract)))]"
  have p: "plane = ''admin''" using adm by (auto simp: eqs_ok str_of_ok)
  obtain routes where r: "key_routes c = val routes"
    using extra_parts [OF x] by (elim disjE exE) (simp_all add: c k p key_routes_def is_true_def testr_def lookup_or_def)
  have "contract_parts c name (''llmgw-'' @ plane @ ''-'' @ drop 4 name) role models (fingerprint sha (JObj contract)) routes"
    using extra_parts [OF x] sort_strings [OF m] r unfolding contract_parts_def
    by (elim disjE exE) (simp_all add: c k)
  then show ?thesis by blast
qed

section \<open>The documents\<close>

text \<open>The terms of a contract, as far as the vault and the backend see them.\<close>

record terms =
  t_name :: string
  t_user :: string
  t_role :: string
  t_models :: "string list"
  t_digest :: string
  t_routes :: "string list"

definition terms_of :: "obj \<Rightarrow> terms" where
  "terms_of c =
     \<lparr>t_name = name_in (field (JObj c) ''secretName''), t_user = name_in (field (JObj c) ''userId''),
      t_role = name_in (field (JObj c) ''role''),
      t_models = (case sorted_of (part c ''models'') of Inr ms \<Rightarrow> ms | Inl _ \<Rightarrow> []),
      t_digest = name_in (field (JObj c) ''bindingSha256''), t_routes = (case key_routes c of Inr rs \<Rightarrow> rs | Inl _ \<Rightarrow> [])\<rparr>"

definition user_doc :: "terms \<Rightarrow> json" where
  "user_doc t =
     JObj [(''user_id'', JStr (t_user t)), (''user_role'', JStr (t_role t)), (''models'', strs (t_models t)), (''auto_create_key'', JBool False),
       (''send_invite_email'', JBool False), (''metadata'', bound_metadata (JStr (t_digest t)))]"

definition key_doc :: "terms \<Rightarrow> string \<Rightarrow> json" where
  "key_doc t value =
     JObj [(''key'', JStr value), (''key_alias'', JStr (t_name t)), (''user_id'', JStr (t_user t)), (''models'', strs (t_models t)),
       (''metadata'', bound_metadata (JStr (t_digest t))), (''key_type'', JStr ''default''), (''allowed_routes'', strs (t_routes t)),
       (''auto_rotate'', JBool False)]"

definition tags_doc :: "terms \<Rightarrow> string \<Rightarrow> json" where
  "tags_doc t state = JObj [(''llmgw-binding'', JStr (t_digest t)), (''llmgw-state'', JStr state)]"

definition proper_key :: "string \<Rightarrow> bool" where
  "proper_key value \<longleftrightarrow> starts_with value ''sk-'' \<and> 40 \<le> length value"

definition contract_terms :: "obj \<Rightarrow> terms \<Rightarrow> bool" where
  "contract_terms c t \<longleftrightarrow>
     map_of c ''secretName'' = Some (JStr (t_name t)) \<and> map_of c ''userId'' = Some (JStr (t_user t)) \<and>
     map_of c ''role'' = Some (JStr (t_role t)) \<and> map_of c ''models'' = Some (strs (t_models t)) \<and> sort (t_models t) = t_models t \<and>
     map_of c ''bindingSha256'' = Some (JStr (t_digest t)) \<and> key_routes c = val (t_routes t)"

lemma sorted_strs [simp]: "sorted_of (val (strs ms)) = val (sort ms)"
proof -
  have "map_res (\<lambda>v. case v of JStr s \<Rightarrow> val s | _ \<Rightarrow> Inl TypeError) (map JStr ms) = val ms"
    by (induction ms) simp_all
  then show ?thesis by (simp add: sorted_of_def strs_def)
qed

lemma strs_same [simp]: "py_eq (strs a) (strs b) \<longleftrightarrow> a = b"
proof -
  have "length a = length b \<Longrightarrow> list_all (\<lambda>(x, y). py_eq x y) (zip (map JStr a) (map JStr b)) \<longleftrightarrow> a = b"
    by (induction a b rule: list_induct2) auto
  then show ?thesis by (auto simp: strs_def)
qed

lemma truth_strs [simp]: "truth (strs rs) \<longleftrightarrow> rs \<noteq> []"
  by (simp add: strs_def)

lemma sorted_none [simp]: "sorted_of (val (JList [])) = val []"
  using sorted_strs [of "[]"] by (simp add: strs_def)

lemma contract_has_terms:
  assumes "binding_contract sha config binding = val c"
  shows "contract_terms c (terms_of c)"
  using contract_has_parts [OF assms]
  by (auto simp: contract_parts_def contract_terms_def terms_of_def field_def name_in_def lookup_or_def)

section \<open>The states of a credential\<close>

definition holds_user :: "terms \<Rightarrow> store \<Rightarrow> bool" where
  "holds_user t s \<longleftrightarrow> (\<exists>doc. st_users s (t_user t) = Some doc \<and> tells_user (user_doc t) doc)"

definition holds_key :: "sha \<Rightarrow> terms \<Rightarrow> store \<Rightarrow> string \<Rightarrow> bool" where
  "holds_key sha t s v \<longleftrightarrow> (\<exists>doc. st_keys s (sha v) = Some doc \<and> tells_key (key_doc t v) doc)"

text \<open>A secret with the value \<open>v\<close> and the approved tags, the user or not, the key or not: a key needs the user,
  and a secret is ready only with its key.\<close>

definition situation :: "sha \<Rightarrow> terms \<Rightarrow> store \<Rightarrow> json \<Rightarrow> string \<Rightarrow> string \<Rightarrow> bool \<Rightarrow> bool \<Rightarrow> bool" where
  "situation sha t s item v state user key \<longleftrightarrow>
     st_secrets s (t_name t) = Some item \<and> secret_item v (tags_doc t state) item \<and> proper_key v \<and>
     (state = ''pending'' \<or> state = ''ready'' \<and> key) \<and> (key \<longrightarrow> user) \<and>
     (if user then holds_user t s else st_users s (t_user t) = None) \<and>
     (if key then holds_key sha t s v else st_keys s (sha v) = None)"

text \<open>The credential is complete: the secret is ready, the user and the key are the approved ones.\<close>

definition completed :: "sha \<Rightarrow> terms \<Rightarrow> store \<Rightarrow> bool" where
  "completed sha t s \<longleftrightarrow> (\<exists>item v. situation sha t s item v ''ready'' True True)"

text \<open>The states a run can go on from: no secret yet, with the user or without it, or one of the situations.\<close>

definition recoverable :: "sha \<Rightarrow> terms \<Rightarrow> store \<Rightarrow> bool" where
  "recoverable sha t s \<longleftrightarrow>
     st_secrets s (t_name t) = None \<and> (st_users s (t_user t) = None \<or> holds_user t s) \<or>
     (\<exists>item v state user key. situation sha t s item v state user key)"

lemma situation_recoverable: "situation sha t s item v state user key \<Longrightarrow> recoverable sha t s"
  unfolding recoverable_def by blast

lemma completed_recoverable: "completed sha t s \<Longrightarrow> recoverable sha t s"
  unfolding completed_def by (blast intro: situation_recoverable)

section \<open>What the checks accept\<close>

lemma payloads:
  assumes "contract_terms c t"
  shows "user_payload c = val (user_doc t)"
    and "key_payload c (JStr v) = val (key_doc t v)"
    and "state_tags c state = val (tags_doc t state)"
    and "part c ''secretName'' = val (JStr (t_name t))"
    and "part c ''userId'' = val (JStr (t_user t))"
  using assms
  by (auto simp: contract_terms_def user_payload_def key_payload_def user_doc_def key_doc_def tags_doc_def state_tags_def)

lemma told_user_accepted:
  assumes t: "contract_terms c t" and d: "tells_user (user_doc t) doc"
  shows "validate_user c doc = val ()"
proof -
  obtain kv md where doc: "doc = JObj kv" and same: "map_of kv ''user_id'' = Some (JStr (t_user t))"
      "map_of kv ''user_role'' = Some (JStr (t_role t))" "map_of kv ''models'' = Some (strs (t_models t))"
    and md: "map_of kv ''metadata'' = Some (JObj md)" "map_of md ''llmgw_binding'' = Some (JStr (t_digest t))"
    and unset: "\<not> truth (lookup_or kv ''teams'' JNull)" "\<not> truth (lookup_or kv ''organization_memberships'' JNull)"
    using d by (auto simp: tells_user_def tells_def user_doc_def field_def bound_metadata_def lookup_or_def)
  show ?thesis
    using t same md unset
    by (cases md) (auto simp: doc contract_terms_def validate_user_def same_models_def bound_to_def or_else_def unset_all_def lookup_or_def)
qed

lemma told_key_accepted:
  assumes t: "contract_terms c t" and d: "tells_key (key_doc t v) doc"
  shows "validate_key c doc (JStr v) = val ()"
proof -
  obtain kv md where doc: "doc = JObj kv" and same: "map_of kv ''user_id'' = Some (JStr (t_user t))"
      "map_of kv ''key_alias'' = Some (JStr (t_name t))" "map_of kv ''models'' = Some (strs (t_models t))"
      "map_of kv ''allowed_routes'' = Some (strs (t_routes t))"
    and md: "map_of kv ''metadata'' = Some (JObj md)" "map_of md ''llmgw_binding'' = Some (JStr (t_digest t))"
    and unset: "\<not> truth (lookup_or kv ''blocked'' JNull)" "\<not> truth (lookup_or kv ''team_id'' JNull)"
      "\<not> truth (lookup_or kv ''organization_id'' JNull)" "\<not> truth (lookup_or kv ''expires'' JNull)"
      "\<not> truth (lookup_or kv ''auto_rotate'' JNull)"
    using d by (auto simp: tells_key_def tells_def key_doc_def field_def bound_metadata_def lookup_or_def)
  have "sub (val (key_doc t v)) ''allowed_routes'' = val (strs (t_routes t))" by (simp add: key_doc_def)
  then show ?thesis
    using t same md unset
    by (cases md) (auto simp: doc contract_terms_def validate_key_def payloads(2) [OF t] same_models_def bound_to_def or_else_def
        unset_all_def lookup_or_def)
qed

lemma item_accepted:
  assumes "contract_terms c t" and "secret_item v (tags_doc t state) item" and "proper_key v" and "state \<in> {''pending'', ''ready''}"
  shows "check_secret c item = val (tags_doc t state)"
  using assms
  by (auto simp: contract_terms_def secret_item_def check_secret_def is_true_def in_strs_def or_else_def tags_doc_def proper_key_def lookup_or_def)

text \<open>The fields of a stored secret.\<close>

definition item_summary :: "json \<Rightarrow> string \<Rightarrow> json" where
  "item_summary item state = JObj [(''id'', field item ''id''), (''version'', field item ''version''), (''state'', JStr state)]"

lemma item_fields:
  assumes "secret_item v (tags_doc t state) item"
  shows "sub (val item) ''value'' = val (JStr v)" and "sub (val item) ''version'' = val (field item ''version'')"
    and "sub (val item) ''tags'' = val (tags_doc t state)" and "secret_summary item = val (item_summary item state)"
    and "item \<noteq> JNull" and "\<exists>n. field item ''version'' = JStr n"
  using assms by (auto simp: secret_item_def secret_summary_def item_summary_def tags_doc_def field_def lookup_or_def)

lemma told_not_null: "tells same unset payload doc \<Longrightarrow> doc \<noteq> JNull"
  by (auto simp: tells_def)

lemma stored_user:
  assumes "contract_terms c t" and "if user then holds_user t s else st_users s (t_user t) = None"
  shows "validate_user c (found_in (st_users s (t_user t))) = val ()" and "(found_in (st_users s (t_user t)) \<noteq> JNull) = user"
  using assms told_user_accepted [OF assms(1)] told_not_null
  by (auto simp: holds_user_def found_in_def tells_user_def validate_user_def split: if_splits)

lemma stored_key_info:
  assumes "contract_terms c t" and "if key then holds_key sha t s v else st_keys s (sha v) = None"
  shows "validate_key c (found_in (st_keys s (sha v))) (JStr v) = val ()" and "(found_in (st_keys s (sha v)) \<noteq> JNull) = key"
  using assms told_key_accepted [OF assms(1)] told_not_null
  by (auto simp: holds_key_def found_in_def tells_key_def validate_key_def split: if_splits)

section \<open>The parts of a run\<close>

text \<open>The replies of the documentation.\<close>

definition ok_reply :: "json \<Rightarrow> reply" where
  "ok_reply body = Json (JObj [(''status_code'', JInt 200), (''json'', body)])"

definition missing_reply :: reply where
  "missing_reply = Json (JObj [(''status_code'', JInt 404)])"

lemma replies [simp]: "answered body (ok_reply body)" "unknown missing_reply"
  by (simp_all add: answered_def unknown_def ok_reply_def missing_reply_def)

lemma answered_known: "answered body r \<Longrightarrow> \<not> unknown r" "answered body r \<Longrightarrow> answered body' r \<Longrightarrow> body = body'"
  by (auto simp: answered_def unknown_def)

lemma member_found: "sub (val body) k = val doc \<Longrightarrow> body_member k body = val doc"
  by (cases body) (auto simp: body_member_def)

lemma member_replies:
  assumes "(\<exists>doc b. m = Some doc \<and> sub (val b) k = val doc \<and> answered b r) \<or> m = None \<and> unknown r"
  shows "unknown r \<Longrightarrow> body_member k JNull = val (found_in m)" and "answered body r \<Longrightarrow> body_member k body = val (found_in m)"
proof -
  show "body_member k JNull = val (found_in m)" if "unknown r"
    using assms that answered_known(1) by (auto simp: body_member_def found_in_def)
  show "body_member k body = val (found_in m)" if body: "answered body r"
    using assms
  proof
    assume "\<exists>doc b. m = Some doc \<and> sub (val b) k = val doc \<and> answered b r"
    then obtain doc b where d: "m = Some doc" "sub (val b) k = val doc" "answered b r" by (elim exE conjE) (rule that)
    have "b = body" by (rule answered_known(2) [OF d(3) body])
    then show ?thesis using member_found [OF d(2)] d(1) by (simp add: found_in_def)
  next
    assume "m = None \<and> unknown r"
    then show ?thesis using answered_known(1) [OF body] by simp
  qed
qed

lemma goes_secret:
  assumes "keeps_credentials sha sv view" and "I s"
  shows "goes I sha sv view s (client_call ''get_secret'' [JStr n]) (found_in (st_secrets s n)) s"
  by (rule runs_client [where I = I, OF assms(1) _ assms(2)]) (auto simp: offered_def provides_simps assms(2))

lemma goes_backend_user:
  assumes keeps: "keeps_credentials sha sv view" and I: "I s"
  shows "goes I sha sv view s (backend_user_info (JStr n)) (found_in (st_users s n)) s"
proof -
  let ?c = "http ''GET'' ''/user/info'' JNull (JObj [(''user_id'', JStr n)])"
  have o: "offered sha ?c s"
  proof (cases "st_users s n")
    case None
    then show ?thesis unfolding offered_def by (blast intro: provides.user_unknown replies)
  next
    case (Some doc)
    have "provides sha ?c s (ok_reply (JObj [(''user_info'', doc)])) s" by (rule provides.user_known [OF Some _ replies(1)]) simp
    then show ?thesis unfolding offered_def by blast
  qed
  have "runs I sha sv view s (backend_request ''GET'' ''/user/info'' JNull (JObj [(''user_id'', JStr n)]))
      (\<lambda>y u. body_member ''user_info'' y = val (found_in (st_users s n)) \<and> u = s)"
  proof (rule runs_request [where I = I, OF keeps o I])
    fix r u
    assume r: "provides sha ?c s r u"
    have u: "u = s" and m: "(\<exists>doc b. st_users s n = Some doc \<and> sub (val b) ''user_info'' = val doc \<and> answered b r) \<or> st_users s n = None \<and> unknown r"
      using r unfolding provides_simps by auto
    show "I u \<and> (unknown r \<longrightarrow> ''GET'' = ''GET'' \<longrightarrow> body_member ''user_info'' JNull = val (found_in (st_users s n)) \<and> u = s) \<and>
        (\<forall>body. answered body r \<longrightarrow> body_member ''user_info'' body = val (found_in (st_users s n)) \<and> u = s)"
      using I u member_replies [OF m] by simp
  qed (simp add: BACKEND_ROUTES_def)
  then show ?thesis
    unfolding backend_user_info_def by (rule runs_bindp) (auto intro!: goes_letp runs_retp)
qed

lemma goes_backend_key:
  assumes keeps: "keeps_credentials sha sv view" and I: "I s" and hex: "rmatch (times 64 64 hexlow) d"
  shows "goes I sha sv view s (backend_key_info d) (found_in (st_keys s d)) s"
proof -
  let ?c = "http ''GET'' ''/key/info'' JNull (JObj [(''key'', JStr d)])"
  have o: "offered sha ?c s"
  proof (cases "st_keys s d")
    case None
    then show ?thesis unfolding offered_def by (blast intro: provides.key_unknown replies)
  next
    case (Some doc)
    have "provides sha ?c s (ok_reply (JObj [(''info'', doc)])) s" by (rule provides.key_known [OF Some _ replies(1)]) simp
    then show ?thesis unfolding offered_def by blast
  qed
  have "runs I sha sv view s (backend_request ''GET'' ''/key/info'' JNull (JObj [(''key'', JStr d)]))
      (\<lambda>y u. body_member ''info'' y = val (found_in (st_keys s d)) \<and> u = s)"
  proof (rule runs_request [where I = I, OF keeps o I])
    fix r u
    assume r: "provides sha ?c s r u"
    have u: "u = s" and m: "(\<exists>doc b. st_keys s d = Some doc \<and> sub (val b) ''info'' = val doc \<and> answered b r) \<or> st_keys s d = None \<and> unknown r"
      using r unfolding provides_simps by auto
    show "I u \<and> (unknown r \<longrightarrow> ''GET'' = ''GET'' \<longrightarrow> body_member ''info'' JNull = val (found_in (st_keys s d)) \<and> u = s) \<and>
        (\<forall>body. answered body r \<longrightarrow> body_member ''info'' body = val (found_in (st_keys s d)) \<and> u = s)"
      using I u member_replies [OF m] by simp
  qed (simp add: BACKEND_ROUTES_def)
  then show ?thesis
    unfolding backend_key_info_def using hex by (intro goes_checkp) (auto intro!: goes_letp runs_retp elim!: runs_bindp)
qed

lemma goes_user_info:
  assumes "keeps_credentials sha sv view" and "I s" and "contract_terms c t"
  shows "goes I sha sv view s (user_info c) (found_in (st_users s (t_user t))) s"
  unfolding user_info_def by (rule goes_letp [OF payloads(5) [OF assms(3)]], rule goes_backend_user [where I = I, OF assms(1,2)])

lemma goes_key_info:
  assumes "keeps_credentials sha sv view" and "I s" and "\<forall>x. rmatch (times 64 64 hexlow) (sha x)"
  shows "goes I sha sv view s (key_info sha (JStr v)) (found_in (st_keys s (sha v))) s"
  unfolding key_info_def
  by (rule goes_letp [where y = v], simp add: str_of_ok, rule goes_backend_key [where I = I, OF assms(1,2)]) (simp add: assms(3))

definition summary_doc :: "obj \<Rightarrow> json \<Rightarrow> bool \<Rightarrow> bool \<Rightarrow> obj" where
  "summary_doc c secret user key =
     [(''contract'', JObj c), (''secret'', secret), (''userExists'', JBool user), (''keyExists'', JBool key)]"

lemma goes_returns: "x = y \<Longrightarrow> s = u \<Longrightarrow> goes I sha sv view s (retp x) y u"
  by (simp add: runs_retp)

lemma goes_stored_key:
  assumes keeps: "keeps_credentials sha sv view" and i: "I s" and hex: "\<forall>x. rmatch (times 64 64 hexlow) (sha x)"
    and t: "contract_terms c t" and s: "situation sha t s item v state user key"
  shows "goes I sha sv view s (stored_key sha c item) (found_in (st_keys s (sha v))) s"
proof -
  have item: "secret_item v (tags_doc t state) item" and k: "if key then holds_key sha t s v else st_keys s (sha v) = None"
    using s by (simp_all add: situation_def)
  note f = item_fields [OF item]
  have h: "check_secret c item = val (tags_doc t state)"
    by (rule item_accepted [OF t item]) (use s in \<open>auto simp: situation_def\<close>)
  have r: "disjr (negr (eqs (sub (val (tags_doc t state)) ''llmgw-state'') ''ready'')) (val (found_in (st_keys s (sha v)) \<noteq> JNull)) = val True"
    using s stored_key_info(2) [OF t k] by (auto simp: situation_def tags_doc_def)
  show ?thesis
    unfolding stored_key_def if_not_P [OF f(5)]
    by (rule goes_letp [OF h], rule goes_letp [OF f(1)], rule goes_bindp [OF goes_key_info [where I = I, OF keeps i hex]],
        rule goes_letp [OF stored_key_info(1) [OF t k]], rule goes_checkp [OF r], rule goes_returns, rule refl, rule refl)
qed

lemma goes_inspect:
  assumes keeps: "keeps_credentials sha sv view" and i: "I s" and hex: "\<forall>x. rmatch (times 64 64 hexlow) (sha x)"
    and c: "binding_contract sha config binding = val c" and t: "contract_terms c t" and s: "situation sha t s item v state user key"
  shows "goes I sha sv view s (inspect_binding sha config binding) (c, item, summary_doc c (item_summary item state) user key) s"
proof -
  have item: "secret_item v (tags_doc t state) item" and u: "if user then holds_user t s else st_users s (t_user t) = None"
    and k: "if key then holds_key sha t s v else st_keys s (sha v) = None" and f: "found_in (st_secrets s (t_name t)) = item"
    using s by (simp_all add: situation_def found_in_def)
  have m: "val (found_in (st_keys s (sha v)) = JNull \<or> found_in (st_users s (t_user t)) \<noteq> JNull) = val True"
    using s stored_key_info(2) [OF t k] stored_user(2) [OF t u] by (auto simp: situation_def)
  show ?thesis
    unfolding inspect_binding_def
    by (rule goes_letp [OF c], rule goes_letp [OF payloads(4) [OF t]], rule goes_bindp [OF goes_secret [where I = I, OF keeps i]], unfold f,
        rule goes_bindp [OF goes_stored_key [where I = I, OF keeps i hex t s]], rule goes_bindp [OF goes_user_info [where I = I, OF keeps i t]],
        rule goes_letp [OF stored_user(1) [OF t u]], rule goes_checkp [OF m], rule goes_letp [OF item_fields(4) [OF item]],
        rule goes_returns [OF _ refl])
      (simp add: summary_doc_def stored_key_info(2) [OF t k] stored_user(2) [OF t u])
qed

lemma goes_inspect_empty:
  assumes keeps: "keeps_credentials sha sv view" and i: "I s" and c: "binding_contract sha config binding = val c" and t: "contract_terms c t"
    and s: "st_secrets s (t_name t) = None" and u: "if user then holds_user t s else st_users s (t_user t) = None"
  shows "goes I sha sv view s (inspect_binding sha config binding) (c, JNull, summary_doc c JNull user False) s"
proof -
  have f: "found_in (st_secrets s (t_name t)) = JNull" using s by (simp add: found_in_def)
  have k: "goes I sha sv view s (stored_key sha c JNull) JNull s"
    by (simp add: stored_key_def goes_returns)
  have n: "secret_summary JNull = val JNull" by (simp add: secret_summary_def)
  have m: "val (JNull = JNull \<or> found_in (st_users s (t_user t)) \<noteq> JNull) = val True" by simp
  show ?thesis
    unfolding inspect_binding_def
    by (rule goes_letp [OF c], rule goes_letp [OF payloads(4) [OF t]], rule goes_bindp [OF goes_secret [where I = I, OF keeps i]], unfold f,
        rule goes_bindp [OF k], rule goes_bindp [OF goes_user_info [where I = I, OF keeps i t]],
        rule goes_letp [OF stored_user(1) [OF t u]], rule goes_checkp [OF m], rule goes_letp [OF n],
        rule goes_returns [OF _ refl])
      (simp add: summary_doc_def stored_user(2) [OF t u])
qed

section \<open>Provisioning\<close>

lemma tells_itself:
  "tells_user (user_doc t) (user_doc t)" "tells_key (key_doc t v) (key_doc t v)"
  by (simp_all add: tells_user_def tells_key_def tells_def user_doc_def key_doc_def field_def bound_metadata_def lookup_or_def)

text \<open>The steps from one situation to the next.\<close>

lemma situation_user:
  assumes "situation sha t s item v state False key" and "tells_user (user_doc t) doc"
  shows "situation sha t (s\<lparr>st_users := (st_users s)(t_user t \<mapsto> doc)\<rparr>) item v state True key"
  using assms by (auto simp: situation_def holds_user_def holds_key_def)

lemma situation_key:
  assumes "situation sha t s item v state True False" and "tells_key (key_doc t v) doc"
  shows "situation sha t (s\<lparr>st_keys := (st_keys s)(sha v \<mapsto> doc)\<rparr>) item v state True True"
  using assms by (auto simp: situation_def holds_user_def holds_key_def)

lemma situation_ready:
  assumes "situation sha t s item v state True True" and "retagged item (tags_doc t ''ready'') item'"
  shows "situation sha t (s\<lparr>st_secrets := (st_secrets s)(t_name t \<mapsto> item')\<rparr>) item' v ''ready'' True True"
    and "field item' ''version'' = field item ''version''"
  using assms by (auto simp: situation_def holds_user_def holds_key_def secret_item_def retagged_def field_def lookup_or_def)

lemma situation_new:
  assumes "if user then holds_user t s else st_users s (t_user t) = None" and "st_keys s (sha v) = None" and "proper_key v"
    and "secret_item v (tags_doc t ''pending'') item"
  shows "situation sha t (s\<lparr>st_secrets := (st_secrets s)(t_name t \<mapsto> item)\<rparr>) item v ''pending'' user False"
  using assms by (auto simp: situation_def holds_user_def split: if_splits)

lemma runs_ensure_user:
  assumes keeps: "keeps_credentials sha sv view" and t: "contract_terms c t" and s: "situation sha t s item v state user key"
    and i: "I s" and j: "\<And>u. situation sha t u item v state True key \<Longrightarrow> user \<longrightarrow> u = s \<Longrightarrow> I u"
  shows "runs I sha sv view s (ensure_user c (summary_doc c secret user k)) (\<lambda>_ u. situation sha t u item v state True key \<and> (user \<longrightarrow> u = s))"
proof -
  have x: "sub (val (JObj (summary_doc c secret user k))) ''userExists'' = val (JBool user)" by (simp add: summary_doc_def)
  have make: "runs I sha sv view s (backend_create_user (user_doc t)) (\<lambda>_ u. situation sha t u item v state True key \<and> (user \<longrightarrow> u = s))"
    if new: "\<not> user"
  proof -
    let ?c = "http ''POST'' ''/user/new'' (user_doc t) JNull"
    have f: "field (user_doc t) ''user_id'' = JStr (t_user t)" by (simp add: user_doc_def field_def lookup_or_def)
    have "provides sha ?c s (ok_reply JNull) (s\<lparr>st_users := (st_users s)(t_user t \<mapsto> user_doc t)\<rparr>)"
      by (rule provides.create_user [OF f _ tells_itself(1) replies(1)]) (use s new in \<open>simp add: situation_def\<close>)
    then have o: "offered sha ?c s" unfolding offered_def by blast
    have "runs I sha sv view s (backend_request ''POST'' ''/user/new'' (user_doc t) JNull)
        (\<lambda>_ u. situation sha t u item v state True key \<and> (user \<longrightarrow> u = s))"
    proof (rule runs_request [where I = I, OF keeps o i])
      fix r u
      assume "provides sha ?c s r u"
      then have "situation sha t u item v state True key"
        unfolding provides_simps using f situation_user [of sha t s item v state key] s new by auto
      then show "I u \<and> (unknown r \<longrightarrow> ''POST'' = ''GET'' \<longrightarrow> situation sha t u item v state True key \<and> (user \<longrightarrow> u = s)) \<and>
          (\<forall>body. answered body r \<longrightarrow> situation sha t u item v state True key \<and> (user \<longrightarrow> u = s))"
        using j new by blast
    qed (simp add: BACKEND_ROUTES_def)
    then show ?thesis unfolding backend_create_user_def by (rule runs_bindp) (simp add: runs_retp)
  qed
  show ?thesis
    unfolding ensure_user_def
  proof (rule goes_letp [OF x], rule runs_thenp)
    show "runs I sha sv view s (whenp (\<not> truth (JBool user)) (letp (user_payload c) backend_create_user))
        (\<lambda>_ u. situation sha t u item v state True key \<and> (user \<longrightarrow> u = s))"
      by (rule runs_whenp) (use make s goes_letp [OF payloads(1) [OF t]] in auto)
  next
    fix u
    assume u: "situation sha t u item v state True key \<and> (user \<longrightarrow> u = s)"
    then have iu: "I u" using j by blast
    have has: "if True then holds_user t u else st_users u (t_user t) = None" using u by (simp add: situation_def)
    show "runs I sha sv view u (bindp (user_info c) (\<lambda>user. letp (validate_user c user) (\<lambda>_. retp ())))
        (\<lambda>_ u. situation sha t u item v state True key \<and> (user \<longrightarrow> u = s))"
      by (rule goes_bindp [OF goes_user_info [where I = I, OF keeps iu t]], rule goes_letp [OF stored_user(1) [OF t has]], rule runs_retp, rule u)
  qed
qed

lemma runs_ensure_key:
  assumes keeps: "keeps_credentials sha sv view" and hex: "\<forall>x. rmatch (times 64 64 hexlow) (sha x)"
    and t: "contract_terms c t" and s: "situation sha t s item v state True key"
    and i: "I s" and j: "\<And>u. situation sha t u item v state True True \<Longrightarrow> key \<longrightarrow> u = s \<Longrightarrow> I u"
  shows "runs I sha sv view s (ensure_key sha c (JStr v)) (\<lambda>_ u. situation sha t u item v state True True \<and> (key \<longrightarrow> u = s))"
proof -
  have k: "if key then holds_key sha t s v else st_keys s (sha v) = None" using s by (simp add: situation_def)
  have make: "runs I sha sv view s (backend_create_key (key_doc t v)) (\<lambda>_ u. situation sha t u item v state True True \<and> (key \<longrightarrow> u = s))"
    if new: "\<not> key"
  proof -
    let ?c = "http ''POST'' ''/key/generate'' (key_doc t v) JNull"
    have f: "field (key_doc t v) ''key'' = JStr v" by (simp add: key_doc_def field_def lookup_or_def)
    have "provides sha ?c s (ok_reply JNull) (s\<lparr>st_keys := (st_keys s)(sha v \<mapsto> key_doc t v)\<rparr>)"
      by (rule provides.create_key [OF f _ tells_itself(2) replies(1)]) (use k new in simp)
    then have o: "offered sha ?c s" unfolding offered_def by blast
    have "runs I sha sv view s (backend_request ''POST'' ''/key/generate'' (key_doc t v) JNull)
        (\<lambda>_ u. situation sha t u item v state True True \<and> (key \<longrightarrow> u = s))"
    proof (rule runs_request [where I = I, OF keeps o i])
      fix r u
      assume "provides sha ?c s r u"
      then have "situation sha t u item v state True True"
        unfolding provides_simps using f situation_key [of sha t s item v state] s new by auto
      then show "I u \<and> (unknown r \<longrightarrow> ''POST'' = ''GET'' \<longrightarrow> situation sha t u item v state True True \<and> (key \<longrightarrow> u = s)) \<and>
          (\<forall>body. answered body r \<longrightarrow> situation sha t u item v state True True \<and> (key \<longrightarrow> u = s))"
        using j new by blast
    qed (simp add: BACKEND_ROUTES_def)
    then show ?thesis unfolding backend_create_key_def by (rule runs_bindp) (simp add: runs_retp)
  qed
  show ?thesis
    unfolding ensure_key_def
  proof (rule goes_bindp [OF goes_key_info [where I = I, OF keeps i hex]], rule runs_thenp)
    show "runs I sha sv view s (whenp (found_in (st_keys s (sha v)) = JNull) (letp (key_payload c (JStr v)) backend_create_key))
        (\<lambda>_ u. situation sha t u item v state True True \<and> (key \<longrightarrow> u = s))"
      by (rule runs_whenp) (use make s stored_key_info(2) [OF t k] goes_letp [OF payloads(2) [OF t]] in auto)
  next
    fix u
    assume u: "situation sha t u item v state True True \<and> (key \<longrightarrow> u = s)"
    then have iu: "I u" using j by blast
    have has: "if True then holds_key sha t u v else st_keys u (sha v) = None" using u by (simp add: situation_def)
    have n: "val (found_in (st_keys u (sha v)) \<noteq> JNull) = val True" using stored_key_info(2) [OF t has] by simp
    show "runs I sha sv view u (bindp (key_info sha (JStr v)) (\<lambda>info.
        checkp (val (info \<noteq> JNull)) ''Backend did not confirm the credential; pending Vault value retained for replan'' (
        letp (validate_key c info (JStr v)) (\<lambda>_. retp ()))))
        (\<lambda>_ u. situation sha t u item v state True True \<and> (key \<longrightarrow> u = s))"
      by (rule goes_bindp [OF goes_key_info [where I = I, OF keeps iu hex]], rule goes_checkp [OF n],
          rule goes_letp [OF stored_key_info(1) [OF t has]], rule runs_retp, rule u)
  qed
qed

text \<open>Marking the secret keeps its version and its value.\<close>

definition marked :: "sha \<Rightarrow> terms \<Rightarrow> store \<Rightarrow> json \<Rightarrow> string \<Rightarrow> string \<Rightarrow> store \<Rightarrow> bool" where
  "marked sha t s item v state u \<longleftrightarrow>
     (\<exists>item'. situation sha t u item' v ''ready'' True True \<and> field item' ''version'' = field item ''version'') \<and> (state = ''ready'' \<longrightarrow> u = s)"

lemma runs_mark_ready:
  assumes keeps: "keeps_credentials sha sv view" and t: "contract_terms c t" and s: "situation sha t s item v state True True"
    and i: "I s" and j: "\<And>u. marked sha t s item v state u \<Longrightarrow> I u"
  shows "runs I sha sv view s (mark_ready c item) (\<lambda>_. marked sha t s item v state)"
proof -
  have item: "secret_item v (tags_doc t state) item" and at: "st_secrets s (t_name t) = Some item" using s by (simp_all add: situation_def)
  have e: "eqs (dget0 (or_else (sub (val item) ''tags'') (JObj [])) ''llmgw-state'') ''ready'' = val (state = ''ready'')"
    by (simp add: item_fields [OF item] or_else_def tags_doc_def lookup_or_def)
  have mark: "runs I sha sv view s (client_call ''update_secret_properties'' [JStr (t_name t), field item ''version'', tags_doc t ''ready''])
      (\<lambda>_. marked sha t s item v state)" if p: "state \<noteq> ''ready''"
  proof -
    let ?c = "Client ''update_secret_properties'' [JStr (t_name t), field item ''version'', tags_doc t ''ready'']"
    obtain kv where kv: "item = JObj kv" using item by (auto simp: secret_item_def)
    have "retagged item (tags_doc t ''ready'') (JObj (dict_set kv ''tags'' (tags_doc t ''ready'')))" by (simp add: retagged_def kv)
    then have o: "offered sha ?c s" using at unfolding offered_def provides_simps by blast
    show ?thesis
    proof (rule runs_client [where I = I, OF keeps o i])
      fix r u
      assume "provides sha ?c s r u"
      then obtain item' a where item': "retagged item (tags_doc t ''ready'') item'" and r: "r = Json a"
        and u: "u = s\<lparr>st_secrets := (st_secrets s)(t_name t \<mapsto> item')\<rparr>"
        unfolding provides_simps using at by auto
      have "marked sha t s item v state u"
        unfolding marked_def u using situation_ready [OF s item'] p by blast
      then show "I u \<and> (case r of Json x \<Rightarrow> marked sha t s item v state u | Text x \<Rightarrow> marked sha t s item v state u | Failure \<Rightarrow> False)"
        using j by (simp add: r)
    qed simp
  qed
  show ?thesis
    unfolding mark_ready_def
  proof (rule goes_letp [OF e], rule runs_whenp)
    assume "\<not> state = ''ready''"
    then show "runs I sha sv view s (letp (part c ''secretName'') (\<lambda>name. letp (sub (val item) ''version'') (\<lambda>version_id.
        letp (state_tags c ''ready'') (\<lambda>tags. bindp (client_call ''update_secret_properties'' [name, version_id, tags]) (\<lambda>_. retp ())))))
        (\<lambda>_. marked sha t s item v state)"
      by (intro goes_letp [OF payloads(4) [OF t]] goes_letp [OF item_fields(2) [OF item]] goes_letp [OF payloads(3) [OF t]]
          runs_bindp [OF mark] runs_retp)
  next
    assume "\<not> \<not> state = ''ready''"
    then show "marked sha t s item v state s" using s unfolding marked_def by blast
  qed
qed

text \<open>A new secret gets a token that is not in use; such a token must exist.\<close>

lemma runs_new_secret:
  assumes keeps: "keeps_credentials sha sv view" and t: "contract_terms c t" and user: "if user then holds_user t s else st_users s (t_user t) = None"
    and fresh: "37 \<le> length token" "st_keys s (sha (''sk-'' @ token)) = None"
    and i: "I s" and j: "\<And>u item v. situation sha t u item v ''pending'' user False \<Longrightarrow> I u"
  shows "runs I sha sv view s (new_secret c) (\<lambda>item u. \<exists>v. situation sha t u item v ''pending'' user False)"
proof -
  have o: "offered sha (Client ''token_urlsafe'' [JInt 48]) s"
    unfolding offered_def using provides.new_token [where sha = sha and t = token and s = s, OF fresh] by blast
  have tok: "runs I sha sv view s (client_call ''token_urlsafe'' [JInt 48])
      (\<lambda>y u. u = s \<and> (\<exists>k. y = JStr k \<and> proper_key (''sk-'' @ k) \<and> st_keys s (sha (''sk-'' @ k)) = None))"
    by (rule runs_client [where I = I, OF keeps o i]) (auto simp: provides_simps i proper_key_def starts_with_def)
  have put: "runs I sha sv view s (client_call ''set_secret'' [JStr (t_name t), JStr v, tags_doc t ''pending''])
      (\<lambda>item u. situation sha t u item v ''pending'' user False)" if v: "proper_key v" "st_keys s (sha v) = None" for v
  proof -
    let ?c = "Client ''set_secret'' [JStr (t_name t), JStr v, tags_doc t ''pending'']"
    have "secret_item v (tags_doc t ''pending'') (JObj [(''value'', JStr v), (''id'', JStr []), (''version'', JStr []),
        (''enabled'', JBool True), (''expires_on'', JNull), (''tags'', tags_doc t ''pending'')])"
      by (simp add: secret_item_def)
    then have o: "offered sha ?c s" unfolding offered_def provides_simps by blast
    show ?thesis
    proof (rule runs_client [where I = I, OF keeps o i])
      fix r u
      assume "provides sha ?c s r u"
      then obtain item where item: "secret_item v (tags_doc t ''pending'') item" and r: "r = Json item"
        and u: "u = s\<lparr>st_secrets := (st_secrets s)(t_name t \<mapsto> item)\<rparr>"
        unfolding provides_simps by auto
      have "situation sha t u item v ''pending'' user False" unfolding u by (rule situation_new) (use user v item in simp_all)
      then show "I u \<and> (case r of Json y \<Rightarrow> situation sha t u y v ''pending'' user False
          | Text y \<Rightarrow> situation sha t u (JStr y) v ''pending'' user False | Failure \<Rightarrow> False)"
        using j by (simp add: r)
    qed simp
  qed
  show ?thesis
    unfolding new_secret_def
  proof (rule runs_bindp [OF tok])
    fix y u
    assume "u = s \<and> (\<exists>k. y = JStr k \<and> proper_key (''sk-'' @ k) \<and> st_keys s (sha (''sk-'' @ k)) = None)"
    then obtain k where u: "u = s" and y: "y = JStr k" and k: "proper_key (''sk-'' @ k)" "st_keys s (sha (''sk-'' @ k)) = None" by blast
    have pre: "prefixed ''sk-'' (val y) = val (''sk-'' @ k)" by (simp add: prefixed_def y)
    show "runs I sha sv view u (letp (prefixed ''sk-'' (val y)) (\<lambda>value. letp (part c ''secretName'') (\<lambda>name.
        letp (state_tags c ''pending'') (\<lambda>tags. bindp (client_call ''set_secret'' [name, JStr value, tags]) (\<lambda>item.
        checkp (eqs (sub (val item) ''value'') value) ''Proxy key storage verification failed'' (retp item))))))
        (\<lambda>item u. \<exists>v. situation sha t u item v ''pending'' user False)"
      unfolding u
    proof (rule goes_letp [OF pre], rule goes_letp [OF payloads(4) [OF t]], rule goes_letp [OF payloads(3) [OF t]], rule runs_bindp [OF put [OF k]])
      fix item w
      assume w: "situation sha t w item (''sk-'' @ k) ''pending'' user False"
      then have "secret_item (''sk-'' @ k) (tags_doc t ''pending'') item" by (simp add: situation_def)
      then have "eqs (sub (val item) ''value'') (''sk-'' @ k) = val True" by (simp add: item_fields(1) eqs_ok)
      then show "runs I sha sv view w (checkp (eqs (sub (val item) ''value'') (''sk-'' @ k)) ''Proxy key storage verification failed'' (retp item))
          (\<lambda>item u. \<exists>v. situation sha t u item v ''pending'' user False)"
        using w by (intro goes_checkp runs_retp) auto
    qed
  qed
qed

text \<open>The steps that follow once there is a secret.\<close>

abbreviation rest_of_run :: "sha \<Rightarrow> json \<Rightarrow> json \<Rightarrow> obj \<Rightarrow> json \<Rightarrow> obj \<Rightarrow> ('s, obj) proc" where
  "rest_of_run sha config binding c item before \<equiv>
     letp (sub (val item) ''value'') (\<lambda>value.
     thenp (ensure_user c before) (
     thenp (ensure_key sha c value) (
     thenp (mark_ready c item) (
     bindp (inspect_binding sha config binding) (\<lambda>(_, verified, summary).
     checkp (final_check item verified summary) ''Proxy credential final verification failed'' (retp summary))))))"

lemma final_check_passes:
  assumes "secret_item v tags item" and "secret_item v (tags_doc t ''ready'') item'" and "field item' ''version'' = field item ''version''"
  shows "final_check item item' (summary_doc c (item_summary item' ''ready'') True True) = val True"
  using assms by (auto simp: final_check_def secret_item_def summary_doc_def item_summary_def field_def lookup_or_def)

lemma runs_from_item:
  assumes keeps: "keeps_credentials sha sv view" and hex: "\<forall>x. rmatch (times 64 64 hexlow) (sha x)"
    and c: "binding_contract sha config binding = val c" and t: "contract_terms c t" and s: "situation sha t s item v state user key"
    and I: "\<forall>u. recoverable sha t u \<and> (state = ''ready'' \<longrightarrow> u = s) \<longrightarrow> I u"
  shows "runs I sha sv view s (rest_of_run sha config binding c item (summary_doc c secret user k))
    (\<lambda>_ u. completed sha t u \<and> (state = ''ready'' \<longrightarrow> u = s))"
proof -
  have item: "secret_item v (tags_doc t state) item" and ready: "state = ''ready'' \<longrightarrow> user \<and> key"
    using s by (auto simp: situation_def)
  have i: "I s" using I situation_recoverable [OF s] by blast
  show ?thesis
  proof (rule goes_letp [OF item_fields(1) [OF item]], rule runs_thenp)
    show "runs I sha sv view s (ensure_user c (summary_doc c secret user k)) (\<lambda>_ u. situation sha t u item v state True key \<and> (user \<longrightarrow> u = s))"
      by (rule runs_ensure_user [where I = I, OF keeps t s i]) (use I ready situation_recoverable in blast)
  next
    fix u1
    assume u1: "situation sha t u1 item v state True key \<and> (user \<longrightarrow> u1 = s)"
    then have i1: "I u1" using I ready situation_recoverable by blast
    have r2: "runs I sha sv view u1 (ensure_key sha c (JStr v)) (\<lambda>_ u. situation sha t u item v state True True \<and> (key \<longrightarrow> u = u1))"
      by (rule runs_ensure_key [where I = I, OF keeps hex t conjunct1 [OF u1] i1]) (use I u1 ready situation_recoverable in blast)
    show "runs I sha sv view u1 (thenp (ensure_key sha c (JStr v)) (thenp (mark_ready c item) (
        bindp (inspect_binding sha config binding) (\<lambda>(_, verified, summary).
        checkp (final_check item verified summary) ''Proxy credential final verification failed'' (retp summary)))))
        (\<lambda>_ u. completed sha t u \<and> (state = ''ready'' \<longrightarrow> u = s))"
    proof (rule runs_thenp [OF r2], rule runs_thenp)
      fix u2
      assume u2: "situation sha t u2 item v state True True \<and> (key \<longrightarrow> u2 = u1)"
      then have i2: "I u2" using I u1 ready situation_recoverable by blast
      show "runs I sha sv view u2 (mark_ready c item) (\<lambda>_. marked sha t u2 item v state)"
        by (rule runs_mark_ready [where I = I, OF keeps t conjunct1 [OF u2] i2])
          (use I u1 u2 ready situation_recoverable in \<open>unfold marked_def, blast\<close>)
    next
      fix u2 u3
      assume u2: "situation sha t u2 item v state True True \<and> (key \<longrightarrow> u2 = u1)" and u3: "marked sha t u2 item v state u3"
      then obtain item' where s3: "situation sha t u3 item' v ''ready'' True True" and ver: "field item' ''version'' = field item ''version''"
        and same: "state = ''ready'' \<longrightarrow> u3 = s"
        unfolding marked_def using u1 ready by blast
      have i3: "I u3" using I same situation_recoverable [OF s3] by blast
      have item': "secret_item v (tags_doc t ''ready'') item'" using s3 by (simp add: situation_def)
      show "runs I sha sv view u3 (bindp (inspect_binding sha config binding) (\<lambda>(_, verified, summary).
          checkp (final_check item verified summary) ''Proxy credential final verification failed'' (retp summary)))
          (\<lambda>_ u. completed sha t u \<and> (state = ''ready'' \<longrightarrow> u = s))"
        by (rule goes_bindp [OF goes_inspect [where I = I, OF keeps i3 hex c t s3]], unfold prod.case,
            rule goes_checkp [OF final_check_passes [OF item item' ver]], rule runs_retp) (use s3 same in \<open>unfold completed_def, blast\<close>)
    qed
  qed
qed

text \<open>What an interrupted run leaves: a state to go on from, and a complete one untouched.\<close>

definition left_by :: "sha \<Rightarrow> terms \<Rightarrow> store \<Rightarrow> store \<Rightarrow> bool" where
  "left_by sha t s u \<longleftrightarrow> recoverable sha t u \<and> (completed sha t s \<longrightarrow> u = s)"

lemma runs_provision_new:
  assumes keeps: "keeps_credentials sha sv view" and hex: "\<forall>x. rmatch (times 64 64 hexlow) (sha x)"
    and c: "binding_contract sha config binding = val c" and t: "contract_terms c t"
    and none: "st_secrets s (t_name t) = None" and u: "st_users s (t_user t) = None \<or> holds_user t s"
    and fresh: "37 \<le> length token" "st_keys s (sha (''sk-'' @ token)) = None"
  shows "runs (left_by sha t s) sha sv view s (provision_binding sha config binding) (\<lambda>_ u. completed sha t u \<and> (completed sha t s \<longrightarrow> u = s))"
proof -
  let ?u = "holds_user t s" and ?I = "left_by sha t s"
  have o: "\<not> completed sha t s" using none by (simp add: completed_def situation_def)
  have user: "if ?u then ?u else st_users s (t_user t) = None" using u by auto
  have i: "?I s" using none u o by (auto simp: left_by_def recoverable_def)
  have j: "?I w" if "recoverable sha t w" for w using that o by (simp add: left_by_def)
  show ?thesis
    unfolding provision_binding_def
  proof (rule goes_bindp [OF goes_inspect_empty [where I = ?I and s = s and user = ?u, OF keeps i c t none user]], unfold prod.case if_P [OF refl],
      rule runs_bindp)
    show "runs ?I sha sv view s (new_secret c) (\<lambda>item w. \<exists>v. situation sha t w item v ''pending'' ?u False)"
      by (rule runs_new_secret [where I = ?I and s = s and user = ?u, OF keeps t user fresh i]) (rule j, rule situation_recoverable)
  next
    fix item w
    assume "\<exists>v. situation sha t w item v ''pending'' ?u False"
    then obtain v where w: "situation sha t w item v ''pending'' ?u False" by blast
    show "runs ?I sha sv view w (rest_of_run sha config binding c item (summary_doc c JNull ?u False))
        (\<lambda>_ u. completed sha t u \<and> (completed sha t s \<longrightarrow> u = s))"
      by (rule runs_weaken [OF runs_from_item [where I = ?I, OF keeps hex c t w]]) (use j o in blast)+
  qed
qed

lemma runs_provision_old:
  assumes keeps: "keeps_credentials sha sv view" and hex: "\<forall>x. rmatch (times 64 64 hexlow) (sha x)"
    and c: "binding_contract sha config binding = val c" and t: "contract_terms c t" and s: "situation sha t s item v state user key"
  shows "runs (left_by sha t s) sha sv view s (provision_binding sha config binding) (\<lambda>_ u. completed sha t u \<and> (completed sha t s \<longrightarrow> u = s))"
proof -
  let ?I = "left_by sha t s"
  have item: "secret_item v (tags_doc t state) item" using s by (simp add: situation_def)
  have same: "completed sha t s \<longrightarrow> state = ''ready''"
    using s by (auto simp: completed_def situation_def secret_item_def tags_doc_def)
  have i: "?I s" using situation_recoverable [OF s] by (simp add: left_by_def)
  have j: "\<forall>u. recoverable sha t u \<and> (state = ''ready'' \<longrightarrow> u = s) \<longrightarrow> ?I u" using same by (simp add: left_by_def)
  show ?thesis
    unfolding provision_binding_def
    by (rule goes_bindp [OF goes_inspect [where I = ?I, OF keeps i hex c t s]], unfold prod.case if_not_P [OF item_fields(5) [OF item]],
        rule goes_bindp [OF goes_returns [OF refl refl]], rule runs_weaken [OF runs_from_item [where I = ?I, OF keeps hex c t s j]])
      (use same in blast)
qed

section \<open>Properties\<close>

text \<open>
  C8: the provisioning of a credential recovers from every interruption.  Let the vault, the
  backend and the token source be any service that keeps to its documented behaviour
  (\<open>keeps_credentials\<close>: a described call replies and acts as described, or it fails, before its
  effect or after it, and nobody else changes the credential meanwhile), let SHA-256 digests be
  64 lower-case hexadecimal digits, and let there be a token that is not in use when a secret has
  to be made.  From a state that an interrupted run may leave, a run of \<open>provision_binding\<close> leaves such a
  state again, or a complete one; when it returns, the credential is complete: the secret is
  ready, the user and the key are the approved ones.  It returns if no call fails.  A complete
  credential is left as it is.
\<close>

theorem provisioning_recovers:
  assumes "keeps_credentials sha sv view" and "\<forall>x. rmatch (times 64 64 hexlow) (sha x)"
    and "binding_contract sha config binding = val c"
    and "recoverable sha (terms_of c) (view s)"
    and "st_secrets (view s) (t_name (terms_of c)) = None \<longrightarrow> (\<exists>token. 37 \<le> length token \<and> st_keys (view s) (sha (''sk-'' @ token)) = None)"
    and "provision_binding sha config binding sv (start s) = (r, w)"
  shows "recoverable sha (terms_of c) (view (ext w)) \<and>
    (\<forall>summary. r = val summary \<longrightarrow> completed sha (terms_of c) (view (ext w))) \<and>
    (completed sha (terms_of c) (view s) \<longrightarrow> view (ext w) = view s) \<and>
    (never_refuses sha sv view \<longrightarrow> (\<exists>summary. r = val summary))"
proof -
  let ?t = "terms_of c"
  note t = contract_has_terms [OF assms(3)]
  have go: "runs (left_by sha ?t (view s)) sha sv view (view s) (provision_binding sha config binding)
      (\<lambda>_ u. completed sha ?t u \<and> (completed sha ?t (view s) \<longrightarrow> u = view s))"
    using assms(4) unfolding recoverable_def
  proof (elim disjE exE conjE)
    assume "st_secrets (view s) (t_name ?t) = None" "st_users (view s) (t_user ?t) = None"
    then show ?thesis using runs_provision_new [OF assms(1-3) t] assms(5) by blast
  next
    assume "st_secrets (view s) (t_name ?t) = None" "holds_user ?t (view s)"
    then show ?thesis using runs_provision_new [OF assms(1-3) t] assms(5) by blast
  next
    fix item v state user key
    assume "situation sha ?t (view s) item v state user key"
    then show ?thesis by (rule runs_provision_old [OF assms(1-3) t])
  qed
  have "case r of Inr x \<Rightarrow> completed sha ?t (view (ext w)) \<and> (completed sha ?t (view s) \<longrightarrow> view (ext w) = view s)
      | Inl e \<Rightarrow> \<not> never_refuses sha sv view \<and> left_by sha ?t (view s) (view (ext w))"
    by (rule go [unfolded runs_def, rule_format, OF _ assms(6)]) (simp add: start_def)
  then show ?thesis
    using completed_recoverable by (auto simp: left_by_def split: sum.splits)
qed

section \<open>A service that loses an answer\<close>

text \<open>A vault and a backend in memory that keep to the documentation; the answer to the first request for a
  secret to be set is lost.\<close>

definition demo_sha :: sha where
  "demo_sha x = replicate 64 (if take 3 x = ''sk-'' then CHR ''a'' else CHR ''b'')"

definition demo_token :: string where
  "demo_token = replicate 40 CHR ''k''"

definition new_item :: "json list \<Rightarrow> json" where
  "new_item arguments = JObj [(''value'', arguments ! 1), (''id'', JStr ''i''), (''version'', JStr ''v''), (''enabled'', JBool True),
     (''expires_on'', JNull), (''tags'', arguments ! 2)]"

definition with_tags :: "json \<Rightarrow> json \<Rightarrow> json" where
  "with_tags item tags = (case item of JObj kv \<Rightarrow> JObj (dict_set kv ''tags'' tags) | v \<Rightarrow> v)"

definition told_reply :: "string \<Rightarrow> json option \<Rightarrow> reply" where
  "told_reply k x = (case x of None \<Rightarrow> missing_reply | Some doc \<Rightarrow> ok_reply (JObj [(k, doc)]))"

definition told :: "string list \<Rightarrow> json \<Rightarrow> json" where
  "told same payload =
     JObj (map (\<lambda>k. (k, field payload k)) same @
       [(''metadata'', JObj [(''llmgw_binding'', field (field payload ''metadata'') ''llmgw_binding'')])])"

definition demo_user :: "json \<Rightarrow> json" where
  "demo_user = told [''user_id'', ''user_role'', ''models'']"

definition demo_key :: "json \<Rightarrow> json" where
  "demo_key = told [''user_id'', ''models'', ''key_alias'', ''allowed_routes'']"

lemma demo_tells: "tells_user payload (demo_user payload)" "tells_key payload (demo_key payload)"
  by (simp_all add: tells_user_def tells_key_def tells_def demo_user_def demo_key_def told_def lookup_or_def)

definition demo_request :: "string \<Rightarrow> json \<Rightarrow> json \<Rightarrow> store \<Rightarrow> reply \<times> store" where
  "demo_request route payload params s =
     (if route = ''/user/info'' then (told_reply ''user_info'' (st_users s (name_in (field params ''user_id''))), s)
      else if route = ''/key/info'' then (told_reply ''info'' (st_keys s (name_in (field params ''key''))), s)
      else if route = ''/user/new''
      then (ok_reply JNull, s\<lparr>st_users := (st_users s)(name_in (field payload ''user_id'') \<mapsto> demo_user payload)\<rparr>)
      else (ok_reply JNull, s\<lparr>st_keys := (st_keys s)(demo_sha (name_in (field payload ''key'')) \<mapsto> demo_key payload)\<rparr>))"

definition demo_answer :: "call \<Rightarrow> store \<Rightarrow> reply \<times> store" where
  "demo_answer c s =
     (case c of
        Client operation arguments \<Rightarrow>
          if operation = ''get_secret'' then (Json (found_in (st_secrets s (name_in (arguments ! 0)))), s)
          else if operation = ''token_urlsafe'' then (Text demo_token, s)
          else if operation = ''set_secret''
          then (Json (new_item arguments), s\<lparr>st_secrets := (st_secrets s)(name_in (arguments ! 0) \<mapsto> new_item arguments)\<rparr>)
          else if operation = ''update_secret_properties''
          then (Json JNull, s\<lparr>st_secrets := (st_secrets s)(name_in (arguments ! 0) \<mapsto>
                  with_tags (found_in (st_secrets s (name_in (arguments ! 0)))) (arguments ! 2))\<rparr>)
          else demo_request (name_in (arguments ! 1)) (arguments ! 2) (arguments ! 3) s
      | _ \<Rightarrow> (Failure, s))"

lemmas demo_answers = demo_answer_def demo_request_def told_reply_def name_in_def

lemma field_single [simp]: "field (JObj [(k, v)]) k = v"
  by (simp add: field_def lookup_or_def)

lemma not_refused:
  "\<not> refused c (ok_reply body)"
  "\<not> refused (http ''GET'' route data params) missing_reply"
  "operation \<noteq> ''session.request'' \<Longrightarrow> refused (Client operation arguments) r \<longleftrightarrow> r = Failure"
proof -
  have "answered body (ok_reply body)" "unknown missing_reply" "ok_reply body \<noteq> Failure" "missing_reply \<noteq> Failure"
    by (simp_all add: ok_reply_def missing_reply_def answered_def unknown_def)
  then show "\<not> refused c (ok_reply body)" "\<not> refused (http ''GET'' route data params) missing_reply"
    unfolding refused_def by blast+
qed (auto simp: refused_def)

lemma demo_serves:
  assumes "provides demo_sha c s r u"
  shows "provides demo_sha c s (fst (demo_answer c s)) (snd (demo_answer c s)) \<and> \<not> refused c (fst (demo_answer c s))"
  using assms
proof cases
  case (get_secret n)
  then show ?thesis using provides.get_secret [of demo_sha n s] by (simp add: demo_answers not_refused)
next
  case (new_token t)
  have "st_keys s (demo_sha (''sk-'' @ demo_token)) = None" using new_token(5) by (simp add: demo_sha_def)
  moreover have "37 \<le> length demo_token" by (simp add: demo_token_def)
  ultimately have "provides demo_sha c s (Text demo_token) s"
    using provides.new_token [where sha = demo_sha and s = s and t = demo_token] new_token(1) by blast
  then show ?thesis using new_token by (simp add: demo_answers not_refused)
next
  case (set_secret v tags item n)
  have "secret_item v tags (new_item [JStr n, JStr v, tags])" by (simp add: secret_item_def new_item_def)
  from provides.set_secret [OF this, of demo_sha n s] show ?thesis using set_secret by (simp add: demo_answers not_refused)
next
  case (update_secret n old ver tags item v)
  have "retagged old tags (with_tags old tags)" using update_secret by (auto simp: retagged_def with_tags_def)
  from provides.update_secret [OF update_secret(4,5) this, of demo_sha JNull] show ?thesis
    using update_secret by (simp add: demo_answers not_refused found_in_def)
next
  case (user_known n doc body)
  have "sub (val (JObj [(''user_info'', doc)])) ''user_info'' = val doc" by simp
  from provides.user_known [OF user_known(3) this replies(1), of demo_sha] show ?thesis
    using user_known by (simp add: demo_answers not_refused)
next
  case (user_unknown n)
  from provides.user_unknown [OF user_unknown(3) replies(2), of demo_sha] show ?thesis
    using user_unknown by (simp add: demo_answers not_refused)
next
  case (key_known d doc body)
  have "sub (val (JObj [(''info'', doc)])) ''info'' = val doc" by simp
  from provides.key_known [OF key_known(3) this replies(1), of demo_sha] show ?thesis
    using key_known by (simp add: demo_answers not_refused)
next
  case (key_unknown d)
  from provides.key_unknown [OF key_unknown(3) replies(2), of demo_sha] show ?thesis
    using key_unknown by (simp add: demo_answers not_refused)
next
  case (create_user payload n doc body)
  from provides.create_user [OF create_user(3,4) demo_tells(1) replies(1), of demo_sha JNull] show ?thesis
    using create_user by (simp add: demo_answers not_refused)
next
  case (create_key payload v doc body)
  from provides.create_key [where sha = demo_sha and s = s and v = v and payload = payload, OF create_key(3,4) demo_tells(2) replies(1), of JNull] show ?thesis
    using create_key by (simp add: demo_answers not_refused)
qed

text \<open>The service, with the number of the call whose answer is lost, if any.\<close>

definition lossy_service :: "nat option \<Rightarrow> (store \<times> nat) service" where
  "lossy_service lost c x =
     (case demo_answer c (fst x) of (r, s) \<Rightarrow> (if lost = Some (snd x) then Failure else r, s, Suc (snd x)))"

lemma demo_offered:
  "offered demo_sha c s \<Longrightarrow> provides demo_sha c s (fst (demo_answer c s)) (snd (demo_answer c s)) \<and> \<not> refused c (fst (demo_answer c s))"
  using demo_serves unfolding offered_def by blast

lemma lossy_keeps: "keeps_credentials demo_sha (lossy_service lost) fst"
  unfolding keeps_credentials_def
proof (intro allI impI)
  fix c and x :: "store \<times> nat" and r y
  assume o: "offered demo_sha c (fst x)" and run: "lossy_service lost c x = (r, y)"
  note d = demo_offered [OF o]
  have y: "fst y = snd (demo_answer c (fst x))" and r: "r = (if lost = Some (snd x) then Failure else fst (demo_answer c (fst x)))"
    using run by (auto simp: lossy_service_def split: prod.splits)
  have "refused c Failure" by (simp add: refused_def)
  then show "if refused c r then fst y = fst x \<or> (\<exists>r'. provides demo_sha c (fst x) r' (fst y)) else provides demo_sha c (fst x) r (fst y)"
    using d unfolding y r by auto
qed

lemma lossless_never_refuses: "never_refuses demo_sha (lossy_service None) fst"
  unfolding never_refuses_def lossy_service_def by (auto simp: split_beta dest: demo_offered)

lemma demo_sha_hex: "\<forall>x. rmatch (times 64 64 hexlow) (demo_sha x)"
proof
  fix x
  have "rmatch (times 64 64 hexlow) (replicate 64 CHR ''a'')" "rmatch (times 64 64 hexlow) (replicate 64 CHR ''b'')" by code_simp+
  then show "rmatch (times 64 64 hexlow) (demo_sha x)" unfolding demo_sha_def by (cases "take 3 x = ''sk-''") simp_all
qed

section \<open>An interrupted provisioning\<close>

definition demo_tenant :: string where
  "demo_tenant = ''11111111-1111-1111-1111-111111111111''"

definition demo_credential_config :: json where
  "demo_credential_config =
     JObj [(''azure'', JObj [(''tenantId'', JStr demo_tenant)]), (''proxy'', JObj [(''nativeUi'', JBool False)])]"

definition demo_admin_binding :: json where
  "demo_admin_binding =
     JObj [(''plane'', JStr ''admin''), (''role'', JStr ''proxy_admin''), (''oid'', JStr demo_tenant), (''models'', JList [JStr ''b'', JStr ''a''])]"

definition demo_contract :: obj where
  "demo_contract = (case binding_contract demo_sha demo_credential_config demo_admin_binding of Inr c \<Rightarrow> c | Inl _ \<Rightarrow> [])"

definition empty_store :: store where
  "empty_store = \<lparr>st_secrets = (\<lambda>_. None), st_users = (\<lambda>_. None), st_keys = (\<lambda>_. None)\<rparr>"

lemma demo_contract_given: "binding_contract demo_sha demo_credential_config demo_admin_binding = val demo_contract"
proof -
  have "\<not> (case binding_contract demo_sha demo_credential_config demo_admin_binding of Inr c \<Rightarrow> False | Inl _ \<Rightarrow> True)" by code_simp
  then show ?thesis by (auto simp: demo_contract_def split: sum.splits)
qed

text \<open>From nothing, a run whose call to set the secret has its effect and no answer leaves a state to go on from, and
  a run that loses no answer returns a complete credential.\<close>

theorem provisioning_recovers_witness:
  "(\<exists>r w. provision_binding demo_sha demo_credential_config demo_admin_binding (lossy_service (Some 3)) (start (empty_store, 0)) = (r, w) \<and>
      recoverable demo_sha (terms_of demo_contract) (fst (ext w))) \<and>
   (\<exists>summary w. provision_binding demo_sha demo_credential_config demo_admin_binding (lossy_service None) (start (empty_store, 0)) = (val summary, w) \<and>
      completed demo_sha (terms_of demo_contract) (fst (ext w)))"
proof -
  have e: "recoverable demo_sha (terms_of demo_contract) (fst (empty_store, 0 :: nat))"
    by (simp add: recoverable_def empty_store_def)
  have f: "st_secrets (fst (empty_store, 0 :: nat)) (t_name (terms_of demo_contract)) = None \<longrightarrow>
      (\<exists>token. 37 \<le> length token \<and> st_keys (fst (empty_store, 0 :: nat)) (demo_sha (''sk-'' @ token)) = None)"
    by (intro impI exI [of _ "replicate 40 CHR ''k''"]) (simp add: empty_store_def)
  obtain r w where one: "provision_binding demo_sha demo_credential_config demo_admin_binding (lossy_service (Some 3)) (start (empty_store, 0)) = (r, w)"
    by fastforce
  obtain r' w' where two: "provision_binding demo_sha demo_credential_config demo_admin_binding (lossy_service None) (start (empty_store, 0)) = (r', w')"
    by fastforce
  show ?thesis
    using provisioning_recovers [OF lossy_keeps demo_sha_hex demo_contract_given e f one] one
      provisioning_recovers [OF lossy_keeps demo_sha_hex demo_contract_given e f two] two lossless_never_refuses
    by blast
qed

end
