(* ===== verification/Spec2Isabelle.thy ===== *)
theory Spec2Isabelle
  imports Config_Facts Evidence Config_Merge Local_Runner Audit_Window Inspection Release Model_Catalog Deploy Settings_Safety Diagnostics Protocol_Safety Admin_Sources Credential_Recovery
begin

text \<open>
  A verification development of the Python tooling that deploys and operates a security-enhanced
  LiteLLM gateway on Azure.  The tooling validates one customer configuration, deploys the stages
  0 to 9 with \<open>az\<close>, operates the cluster with \<open>kubectl\<close>, and records evidence between the stages.
  Nearly every operation has the same shape: it reads the environment, writes a plan for the
  reviewers, and applies the plan only when it was started again with the approved hash of it.

  \<^bold>\<open>How a program is modelled.\<close>  Py_Base holds Python's values (\<open>json\<close>, dicts as association
  lists in insertion order, unbounded integers, decimal floats), its exceptions (\<open>py_error\<close>) and
  the result type \<open>'a res\<close>, in which every \<open>require\<close>, failing subscript or wrong type of the source
  is a branch.  Py_Proc adds effects: a run takes a service (the outside, an arbitrary state
  transformer that answers every command, file write and client call) and a world with the log of
  events; \<open>wp\<close>, \<open>only\<close> and \<open>returns\<close> are the calculi for what a run does.  Nothing is assumed of the
  service, so a theorem about the log holds for every behaviour of Azure, the cluster and the file
  system; Credential_Recovery alone names what the vault and the backend document.  Py_Track adds
  the dict that an operation updates and saves while it runs and that its
  \<open>finally\<close> saves again.  SHA-256 (\<open>sha\<close>), UUID version 5, YAML, the certificate parser and the
  clock are parameters; no theorem takes the hash to be injective (where equal hashes have to mean
  equal documents, the other case of the conclusion is a collision).  Py_Text, Py_Regex (regular expressions by derivatives, with a soundness
  and completeness theorem), Py_Net (\<open>ipaddress\<close>), Py_Url, Py_Time, Py_Dumps and Py_Loads
  (\<open>json.dumps\<close> and \<open>json.loads\<close> with their round trip) model what the source uses of the standard
  library.

  \<^bold>\<open>Configuration\<close> (\<open>scripts/customer_migration.py\<close>, \<open>model_configuration.py\<close>,
  \<open>runtime_configuration.py\<close>, \<open>certificate_vault.py\<close>, \<open>proxy_config.py\<close> and the settings functions of
  their neighbours).  Customer_Base has the stages, the approval policy and the fingerprints,
  Customer_Config the validation with the evidence gate, Model_Config, Runtime_Settings, Settings and
  Connectivity the sections.  Config_Facts shows what an accepted configuration is: complete and
  recent evidence, separated approvers, bounded source ranges, no destructive preview, fingerprints
  that do not depend on later sections (but for the workspace name and the authentication mode they
  record), and overrides that keep the reviewed shape.

  \<^bold>\<open>The gate\<close>.  Approval_Gate states the shared contract as locales: \<open>approval_gate\<close> (a first phase
  that is harmless and returns a plan it has written, an apply that runs only for the hash of that
  plan) and \<open>admitted_gate\<close> (a request check before it).  They are interpreted in the theories of the
  operations that provide it: Dns_Runtime (\<open>scripts/dns_runtime.py\<close>), Legacy_Access
  (\<open>legacy_access.py\<close>), Edge_Binding (\<open>edge_binding.py\<close>), Ingress_Runtime
  (\<open>private_ingress_runtime.py\<close>, with the documents of Ingress_Render), Audit_Window
  (\<open>audit_window.py\<close>) and Deploy (\<open>migration_deploy.py\<close>, with Migration_Deploy, Inspection for the
  read-only checks of the runner scripts, and Release for \<open>stage9_release.py\<close>).  Their theorems say
  that a run without a matching approval changes nothing, and what an approved run may change: the
  checkpoint precedes the writes, a restriction never broadens, a restore returns the original,
  a pause window follows its machine of phases and resumes the reviewed workloads.
  Audit_Window orders the phases (a \<open>linorder\<close>) and refines the plans to an abstract step relation.

  \<^bold>\<open>Local execution\<close> (\<open>local_execution/runner.py\<close>, \<open>merge_config.py\<close>, \<open>runtime_config.py\<close>,
  \<open>model_sync.py\<close>; \<open>scripts/migration_evidence.py\<close>).  Local_Settings has the steps, the settings and the
  process environment; Local_Runner the identity check and the dispatch, with the locales
  \<open>reviewed_action\<close> and \<open>filed_gate\<close> that make every runtime operation above an action of a local run.
  Config_Merge is the merge of configuration fragments, Evidence the acceptance of a stage.

  \<^bold>\<open>Models and runtime settings.\<close>  Model_Catalog parses the catalog and reconciles it with the
  configuration (\<open>scripts/model_sync_catalog.py\<close>), Model_Infra plans and deploys the private endpoints
  and roles (\<open>model_sync_infra.py\<close>), Model_Runtime checks and updates the running gateway
  (\<open>model_sync_runtime.py\<close>), Model_Sync is the operation.  Runtime_Sync is the publication of runtime
  settings, Receipt_Refresh the revalidation of the ingress receipts after a synchronisation
  (\<open>local_execution/model_sync_evidence.py\<close>) and Release_Report the report of a canary
  (\<open>release_report.py\<close>).  Two updates of a published edge rest on this report: Protocol_Update for the
  method rules of the API firewall (\<open>api_wss.py\<close>, \<open>scripts/api_protocol.py\<close>; Protocol_Safety shows that the
  desired policy is stable and that nothing else is deployed) and Admin_Sources for the addition of
  administrator addresses (\<open>admin_allowlist.py\<close>).  Proxy_Credentials provisions the credentials of the
  administrators (\<open>scripts/proxy_credentials.py\<close>) through the routes of \<open>BackendAPI\<close> and has the reviewed
  plan over the bindings (\<open>binding_plan\<close>; both in \<open>scripts/proxy_credentials_runtime.py\<close>), which writes
  only in an approved run.  Credential_Recovery states what a vault and a backend document, a step
  relation from calls to replies and effects in which any call may fail with or without its effect,
  and shows for every service that keeps to it that the provisioning can always be started again.
  Model_Safety, Settings_Safety and Receipt_Safety show that nothing which
  is not inert happens without the approval, that the deployment is patched only right after it
  was read in the approved state, that a refresh saves nothing but the two receipts, and that the
  state file of a publication is final.  Diagnostics has the bounded search for the values to
  redact, with its termination and completeness.

  \<^bold>\<open>Bounds.\<close>  Recursion over documents is by \<open>fun\<close> or \<open>function\<close> with a termination proof.  Polling
  loops take a number of polls: \<open>wait_quiet\<close> polls at most 331 times, because the source waits two
  seconds between two polls and stops after 660 seconds, so the poll that starts the 660th second is
  the last.  \<open>json.loads\<close> takes one unit of fuel more than the text has characters, and every step
  consumes a character; the round trip shows that this is enough.  The search of Diagnostics is a
  \<open>while_option\<close> with a budget of 4096 values.

  \<^bold>\<open>Conventions.\<close>  Messages of errors that print values are shortened to their fixed text.  Files
  are named by their role or their name in the directory of the operation; a file is read through a
  call of the service whose reply is its content.  Numbered evidence files use one counter for a run.
  What is printed to the console is not an event.  \<open>Path.resolve\<close> is done by the caller: requests
  hold the resolved parts or the outcome of the comparison.  Characters have eight bits.

  \<^bold>\<open>Not modelled.\<close>  The services themselves: the one-file installer
  \<open>LiteLLM/deploy_mi_aks_litellm.py\<close>, the wrappers and callbacks of the third-party gateway under
  \<open>LiteLLM\<close>, and the JavaScript services of \<open>auth-proxy\<close>; the job scripts that run
  inside the cluster against PostgreSQL; the Microsoft Graph operations on Entra applications; the
  supply-chain, readiness and workflow-security scans, which read source trees, workflow files and
  registries; the recovery branch of \<open>audit_operation\<close> and the secret and credential writers of
  \<open>migration_runtime.py\<close>, which transport secrets through third-party clients; the tunnel process and
  the discovery of the vaults of \<open>proxy_credentials_runtime.py\<close>; the redaction of
  messages, a list of regular expressions with look-around; and the command lines.
\<close>

end
